(* ===== verification/Prelude.thy ===== *)
theory Prelude
  imports Main "HOL-Library.Word" "HOL-Library.AList" "HOL-Library.Multiset"
begin

text \<open>
  Shared vocabulary of the development: the Rust-level types the components use
  (identifiers, bytes, machine integers, panics), the named fact collections, and the
  generic list lemmas on which the component proofs rest.

  A Rust \<open>Result<T, E>\<close> is the sum type \<open>'e + 't\<close> with \<open>Inl\<close> for \<open>Err\<close> and \<open>Inr\<close> for
  \<open>Ok\<close>. A call that may panic (\<open>unwrap\<close>, \<open>expect\<close>, \<open>panic!\<close>, division by zero) returns
  \<open>'t may_panic\<close>, so that a panic is a value of the model.
\<close>

named_theorems hm_simps \<open>look-ups in hash maps and hash sets after an update\<close>
named_theorems inv_intros \<open>operations keep their component's invariant\<close>
named_theorems handler_defs \<open>definitions of the message handlers\<close>

section \<open>Types\<close>

type_synonym actor_id = string
type_synonym actor_path = string
type_synonym byte = "8 word"
type_synonym bytes = "byte list"
type_synonym u32 = "32 word"
type_synonym u64 = "64 word"
type_synonym node_id = u64
type_synonym shard_id = u32
type_synonym type_name = string
type_synonym uuid = nat

datatype panic = Panic string

type_synonym 'a may_panic = "panic + 'a"

section \<open>Signed 64-bit integers\<close>

text \<open>
  An \<open>i64\<close> is an \<open>int\<close>; the sequence counters of the journal are the only \<open>i64\<close> values on
  which the program computes, and the wrap-around of their additions is written out.
\<close>

definition i64_max :: int where
  "i64_max = 2 ^ 63 - 1"

definition wrap_i64 :: "int \<Rightarrow> int" where
  "wrap_i64 x = (x + 2 ^ 63) mod 2 ^ 64 - 2 ^ 63"

definition i64_add :: "int \<Rightarrow> int \<Rightarrow> int" where
  "i64_add a b = wrap_i64 (a + b)"

lemma wrap_i64_id: "- (2 ^ 63) \<le> x \<Longrightarrow> x \<le> i64_max \<Longrightarrow> wrap_i64 x = x"
  by (simp add: wrap_i64_def i64_max_def)

lemma wrap_i64_range: "- (2 ^ 63) \<le> wrap_i64 x \<and> wrap_i64 x \<le> i64_max"
proof -
  have "0 \<le> (x + 2 ^ 63) mod 2 ^ 64" "(x + 2 ^ 63) mod 2 ^ 64 < (2 :: int) ^ 64"
    by simp_all
  then show ?thesis by (simp add: wrap_i64_def i64_max_def)
qed

lemma i64_add_exact: "0 \<le> a \<Longrightarrow> 0 \<le> b \<Longrightarrow> a + b \<le> i64_max \<Longrightarrow> i64_add a b = a + b"
  by (simp add: i64_add_def wrap_i64_id)

section \<open>Lists\<close>

text \<open>
  A vector sorted by a key: dropping the prefix of small keys is the same as filtering, which
  is how \<open>iter().enumerate().find(..)\<close> followed by a slice reads.
\<close>

lemma sorted_map_Cons:
  "sorted (map f (x # xs)) \<longleftrightarrow> (\<forall>y\<in>set xs. f x \<le> f y) \<and> sorted (map f xs)"
  for f :: "'a \<Rightarrow> 'b::linorder"
  by simp

lemma dropWhile_eq_filter_sorted:
  fixes f :: "'a \<Rightarrow> 'b::linorder"
  assumes "sorted (map f xs)"
  shows "dropWhile (\<lambda>x. \<not> n < f x) xs = filter (\<lambda>x. n < f x) xs"
  using assms
proof (induction xs)
  case Nil
  then show ?case by simp
next
  case (Cons x xs)
  show ?case
  proof (cases "n < f x")
    case True
    with Cons.prems have "\<forall>y\<in>set xs. n < f y" by (auto intro: less_le_trans)
    with True show ?thesis by simp
  next
    case False
    with Cons show ?thesis by simp
  qed
qed

lemma dropWhile_eq_filter_sorted_le:
  fixes f :: "'a \<Rightarrow> 'b::linorder"
  assumes "sorted (map f xs)"
  shows "dropWhile (\<lambda>x. \<not> n \<le> f x) xs = filter (\<lambda>x. n \<le> f x) xs"
  using assms
proof (induction xs)
  case Nil
  then show ?case by simp
next
  case (Cons x xs)
  show ?case
  proof (cases "n \<le> f x")
    case True
    with Cons.prems have "\<forall>y\<in>set xs. n \<le> f y" by (auto intro: order_trans)
    with True show ?thesis by simp
  next
    case False
    with Cons show ?thesis by simp
  qed
qed

text \<open>
  \<open>find_index\<close> is \<open>iter().enumerate().find(|(_, x)| p(x)).map(|(i, _)| i)\<close>.
\<close>

fun find_index :: "('a \<Rightarrow> bool) \<Rightarrow> 'a list \<Rightarrow> nat option" where
  "find_index p [] = None"
| "find_index p (x # xs) = (if p x then Some 0 else map_option Suc (find_index p xs))"

lemma find_SomeD: "find p xs = Some x \<Longrightarrow> x \<in> set xs \<and> p x"
  by (induction xs) (auto split: if_splits)

lemma find_index_None: "find_index p xs = None \<longleftrightarrow> (\<forall>x\<in>set xs. \<not> p x)"
  by (induction xs) auto

lemma find_index_Some_drop: "find_index p xs = Some i \<Longrightarrow> drop i xs = dropWhile (\<lambda>x. \<not> p x) xs"
  by (induction xs arbitrary: i) (auto split: if_splits)

lemma find_index_Some_take: "find_index p xs = Some i \<Longrightarrow> take i xs = takeWhile (\<lambda>x. \<not> p x) xs"
  by (induction xs arbitrary: i) (auto split: if_splits)

lemma find_index_slice:
  "(case find_index p xs of Some i \<Rightarrow> drop i xs | None \<Rightarrow> []) = dropWhile (\<lambda>x. \<not> p x) xs"
proof (cases "find_index p xs")
  case None
  then have "\<forall>x\<in>set xs. \<not> p x" by (simp add: find_index_None)
  then have "dropWhile (\<lambda>x. \<not> p x) xs = []" by (simp only: dropWhile_eq_Nil_conv)
  with None show ?thesis by (simp only: option.case)
next
  case (Some i)
  then show ?thesis by (simp add: find_index_Some_drop)
qed

text \<open>On a sorted vector the slice that starts at the first match is the filtered vector.\<close>

lemma find_suffix_less:
  fixes f :: "'a \<Rightarrow> 'b::linorder"
  assumes "sorted (map f xs)"
  shows "(case find_index (\<lambda>x. n < f x) xs of Some i \<Rightarrow> drop i xs | None \<Rightarrow> []) =
           filter (\<lambda>x. n < f x) xs"
  by (subst find_index_slice) (rule dropWhile_eq_filter_sorted [OF assms])

lemma find_suffix_le:
  fixes f :: "'a \<Rightarrow> 'b::linorder"
  assumes "sorted (map f xs)"
  shows "(case find_index (\<lambda>x. n \<le> f x) xs of Some i \<Rightarrow> drop i xs | None \<Rightarrow> []) =
           filter (\<lambda>x. n \<le> f x) xs"
  by (subst find_index_slice) (rule dropWhile_eq_filter_sorted_le [OF assms])

lemma sorted_filter_none_after_last:
  fixes f :: "'a \<Rightarrow> 'b::linorder"
  assumes "sorted (map f xs)" and "xs \<noteq> []" and "f (last xs) < n"
  shows "filter (\<lambda>x. n \<le> f x) xs = []"
proof -
  have "f x \<le> f (last xs)" if "x \<in> set xs" for x
    using assms(1,2) that by (induction xs) auto
  with assms(3) show ?thesis by (fastforce simp: filter_empty_conv)
qed

lemma sorted_map_snoc:
  fixes f :: "'a \<Rightarrow> 'b::linorder"
  shows "sorted (map f (xs @ [x])) \<longleftrightarrow> sorted (map f xs) \<and> (\<forall>y\<in>set xs. f y \<le> f x)"
  by (simp add: sorted_append)

section \<open>Display of unsigned integers\<close>

definition digit :: "nat \<Rightarrow> char" where
  "digit n = char_of (48 + n)"

fun show_nat :: "nat \<Rightarrow> string" where
  "show_nat n = (if n < 10 then [digit n] else show_nat (n div 10) @ [digit (n mod 10)])"

declare show_nat.simps [simp del]

lemma digit_inj: "m < 10 \<Longrightarrow> n < 10 \<Longrightarrow> digit m = digit n \<longleftrightarrow> m = n"
  by (simp add: digit_def char_of_eq_iff take_bit_nat_eq_self flip: of_char_of) (auto simp: char_of_eq_iff)

lemma show_nat_nonempty [simp]: "show_nat n \<noteq> []"
  by (subst show_nat.simps) simp

lemma show_nat_digits: "c \<in> set (show_nat n) \<Longrightarrow> \<exists>d<10. c = digit d"
proof (induction n rule: show_nat.induct)
  case (1 n)
  then show ?case
    by (subst (asm) (2) show_nat.simps) (auto split: if_splits intro: exI [of _ "n mod 10"])
qed

lemma show_nat_inj: "show_nat m = show_nat n \<longleftrightarrow> m = n"
proof
  show "show_nat m = show_nat n \<Longrightarrow> m = n"
  proof (induction m arbitrary: n rule: show_nat.induct)
    case (1 m)
    show ?case
    proof (cases "m < 10")
      case True
      with "1.prems" have "n < 10 \<and> digit m = digit n"
        by (subst (asm) (1 2) show_nat.simps) (auto simp: show_nat_nonempty [symmetric] split: if_splits)
      with True show ?thesis using digit_inj by blast
    next
      case False
      with "1.prems" have n: "\<not> n < 10" "show_nat (m div 10) = show_nat (n div 10)"
        "digit (m mod 10) = digit (n mod 10)"
        by (subst (asm) (1 2) show_nat.simps, auto split: if_splits)+
      then have "m div 10 = n div 10" using "1.IH" False by blast
      moreover have "m mod 10 = n mod 10" using n(3) by (simp add: digit_inj)
      ultimately show ?thesis by (metis div_mult_mod_eq)
    qed
  qed
qed simp

text \<open>A decimal after a separator that is not a digit can be read back from the right.\<close>

lemma show_nat_no_dash: "CHR ''-'' \<notin> set (show_nat n)"
proof
  assume "CHR ''-'' \<in> set (show_nat n)"
  then obtain d where d: "d < 10" "CHR ''-'' = digit d" using show_nat_digits by blast
  from d(2) have "of_char (CHR ''-'') = (of_char (digit d) :: nat)" by simp
  with d(1) show False by (simp add: digit_def)
qed

lemma dash_decimal_inj:
  "a @ ''-'' @ show_nat m = b @ ''-'' @ show_nat n \<longleftrightarrow> a = b \<and> m = n"
proof
  assume eq: "a @ ''-'' @ show_nat m = b @ ''-'' @ show_nat n"
  let ?p = "\<lambda>c. c \<noteq> CHR ''-''"
  have tw: "takeWhile ?p (rev (show_nat k) @ CHR ''-'' # xs) = rev (show_nat k)" for k xs
    using show_nat_no_dash [of k] by (subst takeWhile_append2) auto
  from eq have r: "rev (show_nat m) @ CHR ''-'' # rev a = rev (show_nat n) @ CHR ''-'' # rev b"
    by (metis append.assoc append_Cons append_Nil rev_append rev_rev_ident rev_singleton_conv)
  then have "rev (show_nat m) = rev (show_nat n)" by (metis tw)
  with r show "a = b \<and> m = n" by (simp add: show_nat_inj)
qed simp

end
