(* ===== verification/Collections.thy ===== *)
theory Collections
  imports Prelude
begin

text \<open>
  The standard library's \<open>HashMap\<close> and \<open>HashSet\<close>. A hash map is the list of its entries in the
  order in which its iterators yield them, with distinct keys; a hash set is the list of its
  members. Rust leaves the iteration order unspecified, so every theorem of the development
  quantifies over all such lists, and the step relations of the components have a step that
  permutes the entries (\<open>hm_equiv\<close>).

  The locale \<open>dictionary\<close> is the contract the components use: what a look-up returns after an
  insertion or a removal. It is interpreted on the entry-list operations.
\<close>

declare map_of_eq_Some_iff [simp del]

section \<open>Hash maps\<close>

type_synonym ('k, 'v) hash_map = "('k \<times> 'v) list"

abbreviation hm_wf :: "('k, 'v) hash_map \<Rightarrow> bool" where
  "hm_wf m \<equiv> distinct (map fst m)"

abbreviation hm_get :: "('k, 'v) hash_map \<Rightarrow> 'k \<Rightarrow> 'v option" where
  "hm_get \<equiv> map_of"

abbreviation hm_keys :: "('k, 'v) hash_map \<Rightarrow> 'k list" where
  "hm_keys m \<equiv> map fst m"

abbreviation hm_values :: "('k, 'v) hash_map \<Rightarrow> 'v list" where
  "hm_values m \<equiv> map snd m"

abbreviation hm_contains :: "('k, 'v) hash_map \<Rightarrow> 'k \<Rightarrow> bool" where
  "hm_contains m k \<equiv> k \<in> fst ` set m"

fun hm_insert :: "'k \<Rightarrow> 'v \<Rightarrow> ('k, 'v) hash_map \<Rightarrow> ('k, 'v) hash_map" where
  "hm_insert k v [] = [(k, v)]"
| "hm_insert k v ((k', v') # m) = (if k = k' then (k, v) # m else (k', v') # hm_insert k v m)"

fun hm_remove :: "'k \<Rightarrow> ('k, 'v) hash_map \<Rightarrow> ('k, 'v) hash_map" where
  "hm_remove k [] = []"
| "hm_remove k ((k', v') # m) = (if k = k' then hm_remove k m else (k', v') # hm_remove k m)"

text \<open>\<open>get_mut\<close> followed by an update of the borrowed value.\<close>

fun hm_modify :: "'k \<Rightarrow> ('v \<Rightarrow> 'v) \<Rightarrow> ('k, 'v) hash_map \<Rightarrow> ('k, 'v) hash_map" where
  "hm_modify k f [] = []"
| "hm_modify k f ((k', v') # m) = (if k = k' then (k', f v') # m else (k', v') # hm_modify k f m)"

definition hm_equiv :: "('k, 'v) hash_map \<Rightarrow> ('k, 'v) hash_map \<Rightarrow> bool" where
  "hm_equiv m m' \<longleftrightarrow> mset m = mset m'"

subsection \<open>Look-ups after updates\<close>

lemma hm_get_insert [simp]: "hm_get (hm_insert k v m) = (hm_get m)(k \<mapsto> v)"
  by (induction m) auto

lemma hm_get_remove [simp]: "hm_get (hm_remove k m) = (hm_get m)(k := None)"
proof (induction m)
  case Nil
  then show ?case by simp
next
  case (Cons p m)
  then show ?case by (cases p) (auto simp: fun_eq_iff)
qed

lemma hm_get_modify [simp]:
  "hm_get (hm_modify k f m) = (hm_get m)(k := map_option f (hm_get m k))"
  by (induction m) (auto simp: fun_eq_iff)

lemma hm_remove_filter: "hm_remove k m = filter (\<lambda>p. fst p \<noteq> k) m"
proof (induction m)
  case Nil
  then show ?case by simp
next
  case (Cons p m)
  then show ?case by (cases p) simp
qed

lemma hm_set_remove [simp]: "set (hm_remove k m) = {p \<in> set m. fst p \<noteq> k}"
  by (simp add: hm_remove_filter)

lemma hm_keys_insert [simp]: "fst ` set (hm_insert k v m) = insert k (fst ` set m)"
proof -
  have "dom (hm_get (hm_insert k v m)) = insert k (dom (hm_get m))" by simp
  then show ?thesis by (simp only: dom_map_of_conv_image_fst)
qed

lemma hm_keys_modify [simp]: "map fst (hm_modify k f m) = map fst m"
  by (induction m) auto

lemma hm_key_set_modify [simp]: "fst ` set (hm_modify k f m) = fst ` set m"
  using arg_cong [OF hm_keys_modify, of set] by (simp only: set_map)

lemma hm_wf_insert [simp, intro]: "hm_wf m \<Longrightarrow> hm_wf (hm_insert k v m)"
proof (induction m)
  case Nil
  then show ?case by simp
next
  case (Cons p m)
  obtain k' v' where p: "p = (k', v')" by (cases p)
  have "k' \<notin> fst ` set (hm_insert k v m)" if "k \<noteq> k'"
    using Cons.prems p that by simp
  with Cons p show ?case by simp
qed

lemma hm_wf_remove [simp, intro]: "hm_wf m \<Longrightarrow> hm_wf (hm_remove k m)"
proof (induction m)
  case Nil
  then show ?case by simp
next
  case (Cons p m)
  then show ?case by (cases p) auto
qed

lemma hm_remove_absent [simp]: "\<not> hm_contains m k \<Longrightarrow> hm_remove k m = m"
  by (induction m) auto

lemma hm_insert_absent: "\<not> hm_contains m k \<Longrightarrow> hm_insert k v m = m @ [(k, v)]"
  by (induction m) auto

lemma hm_insert_present: "hm_contains m k \<Longrightarrow> hm_insert k v m = hm_modify k (\<lambda>_. v) m"
proof (induction m)
  case Nil
  then show ?case by simp
next
  case (Cons p m)
  then show ?case by (cases p) force
qed

lemma hm_length_insert: "hm_get m k = None \<Longrightarrow> length (hm_insert k v m) = Suc (length m)"
  by (induction m) (auto split: if_splits)

lemma hm_length_modify [simp]: "length (hm_modify k f m) = length m"
  by (induction m) auto

lemma hm_modify_Nil [simp]: "hm_modify k f m = [] \<longleftrightarrow> m = []"
  using hm_length_modify [of k f m] by (metis length_0_conv)

lemma hm_insert_Nil [simp]: "hm_insert k v m \<noteq> []"
  using hm_keys_insert [of k v m] by (metis empty_iff image_empty insertI1 list.set(1))

lemma hm_modify_absent: "\<not> hm_contains m k \<Longrightarrow> hm_modify k f m = m"
proof (induction m)
  case Nil
  then show ?case by simp
next
  case (Cons p m)
  then show ?case by (cases p) auto
qed

lemma hm_modify_const: "hm_get m k = Some v \<Longrightarrow> hm_modify k (\<lambda>_. f v) m = hm_modify k f m"
proof (induction m)
  case Nil
  then show ?case by simp
next
  case (Cons p m)
  then show ?case by (cases p) (auto split: if_splits)
qed

lemma hm_get_None: "hm_get m k = None \<longleftrightarrow> \<not> hm_contains m k"
  by (simp add: map_of_eq_None_iff)

lemma hm_contains_iff: "hm_contains m k \<longleftrightarrow> (\<exists>v. hm_get m k = Some v)"
  using hm_get_None [of m k] by (cases "hm_get m k") auto

lemma hm_get_in_set: "hm_wf m \<Longrightarrow> hm_get m k = Some v \<longleftrightarrow> (k, v) \<in> set m"
  by (rule map_of_eq_Some_iff)

lemma hm_equiv_wf: "hm_wf m \<Longrightarrow> hm_equiv m m' \<Longrightarrow> hm_wf m'"
  by (metis hm_equiv_def mset_eq_imp_distinct_iff mset_map)

lemma hm_equiv_set: "hm_equiv m m' \<Longrightarrow> set m' = set m"
  by (metis hm_equiv_def mset_eq_setD)

lemma hm_equiv_get:
  assumes "hm_wf m" and "hm_equiv m m'"
  shows "hm_get m' = hm_get m"
proof -
  have "hm_wf m'" using assms by (rule hm_equiv_wf)
  moreover have "set m' = set m" using assms(2) by (rule hm_equiv_set)
  ultimately show ?thesis using assms(1) by (simp only: map_of_inject_set)
qed

subsection \<open>The dictionary contract\<close>

locale dictionary =
  fixes get :: "'m \<Rightarrow> 'k \<Rightarrow> 'v option"
    and ins :: "'k \<Rightarrow> 'v \<Rightarrow> 'm \<Rightarrow> 'm"
    and del :: "'k \<Rightarrow> 'm \<Rightarrow> 'm"
    and keys :: "'m \<Rightarrow> 'k set"
    and wf :: "'m \<Rightarrow> bool"
  assumes get_ins: "get (ins k v m) k' = (if k' = k then Some v else get m k')"
    and get_del: "get (del k m) k' = (if k' = k then None else get m k')"
    and keys_get: "k \<in> keys m \<longleftrightarrow> get m k \<noteq> None"
    and wf_ins: "wf m \<Longrightarrow> wf (ins k v m)"
    and wf_del: "wf m \<Longrightarrow> wf (del k m)"
begin

lemma keys_ins: "keys (ins k v m) = insert k (keys m)"
  by (auto simp: keys_get get_ins split: if_splits)

lemma keys_del: "keys (del k m) = keys m - {k}"
  by (auto simp: keys_get get_del split: if_splits)

lemma get_fold_ins:
  "get (fold (\<lambda>(k, v). ins k v) kvs m) k' =
     (case map_of (rev kvs) k' of Some v \<Rightarrow> Some v | None \<Rightarrow> get m k')"
proof (induction kvs arbitrary: m)
  case Nil
  then show ?case by simp
next
  case (Cons p kvs)
  then show ?case by (cases p) (auto simp: get_ins map_add_def split: option.splits)
qed

lemma wf_fold_ins: "wf m \<Longrightarrow> wf (fold (\<lambda>(k, v). ins k v) kvs m)"
  by (induction kvs arbitrary: m) (auto intro: wf_ins)

end

interpretation hm: dictionary
  "map_of :: ('k \<times> 'v) list \<Rightarrow> 'k \<Rightarrow> 'v option" hm_insert hm_remove "\<lambda>m. fst ` set m" hm_wf
  by unfold_locales (auto simp: hm_contains_iff)

section \<open>Hash sets\<close>

abbreviation hs_insert :: "'a \<Rightarrow> 'a list \<Rightarrow> 'a list" where
  "hs_insert x xs \<equiv> List.insert x xs"

abbreviation hs_remove :: "'a \<Rightarrow> 'a list \<Rightarrow> 'a list" where
  "hs_remove x xs \<equiv> removeAll x xs"

lemma length_hs_remove: "distinct xs \<Longrightarrow> x \<in> set xs \<Longrightarrow> Suc (length (hs_remove x xs)) = length xs"
  by (simp add: distinct_remove1_removeAll [symmetric] length_remove1)
     (metis Suc_pred length_pos_if_in_set)

lemma fold_insert_keyed:
  "fold (\<lambda>e. hm_insert (f e) e) xs m = fold (\<lambda>(k, v). hm_insert k v) (map (\<lambda>e. (f e, e)) xs) m"
  by (simp add: fold_map comp_def)

text \<open>Inserting a list of values with distinct keys.\<close>

lemma hm_get_fold_keyed:
  assumes "distinct (map f xs)"
  shows "hm_get (fold (\<lambda>e. hm_insert (f e) e) xs m) k =
           (case find (\<lambda>e. f e = k) xs of Some e \<Rightarrow> Some e | None \<Rightarrow> hm_get m k)"
  using assms
proof (induction xs arbitrary: m)
  case Nil
  then show ?case by simp
next
  case (Cons x xs)
  have "find (\<lambda>e. f e = k) xs = None" if "f x = k"
    using Cons.prems that unfolding find_None_iff by (auto simp: image_iff)
  then show ?case using Cons by (auto split: option.splits)
qed

end
