(* ===== verification/Journal_Storage.thy ===== *)
theory Journal_Storage
  imports Collections
begin

text \<open>
  Journal storage: the entry type and the \<open>JournalStorage\<close> trait of
  \<open>persistent/journal/storage.rs\<close>, and the in-memory provider of
  \<open>persistent/journal/provider.rs\<close>.

  The trait object \<open>Arc<dyn JournalStorage>\<close> is a record of functions over a storage state
  \<open>'s\<close>; each operation takes the state and returns it updated, so the sharing of one storage
  between journals is explicit. The locale \<open>journal_store\<close> states what the journal relies on
  (the messages and snapshots kept per persistence id, and what each operation does to them);
  it is interpreted on the in-memory provider.
\<close>

section \<open>Entries and the storage trait\<close>

record journal_entry =
  sequence :: int
  payload_type :: string
  entry_bytes :: bytes

type_synonym storage_err = string

record 's journal_storage =
  write_snapshot :: "'s \<Rightarrow> string \<Rightarrow> journal_entry \<Rightarrow> (storage_err + unit) \<times> 's"
  write_message :: "'s \<Rightarrow> string \<Rightarrow> journal_entry \<Rightarrow> (storage_err + unit) \<times> 's"
  write_message_batch :: "'s \<Rightarrow> string \<Rightarrow> journal_entry list \<Rightarrow> (storage_err + unit) \<times> 's"
  read_latest_snapshot :: "'s \<Rightarrow> string \<Rightarrow> storage_err + journal_entry option"
  read_latest_messages :: "'s \<Rightarrow> string \<Rightarrow> int \<Rightarrow> storage_err + journal_entry list option"
  read_message :: "'s \<Rightarrow> string \<Rightarrow> int \<Rightarrow> storage_err + journal_entry option"
  read_messages :: "'s \<Rightarrow> string \<Rightarrow> int \<Rightarrow> int \<Rightarrow> (storage_err + journal_entry list option) may_panic"
  delete_messages_to :: "'s \<Rightarrow> string \<Rightarrow> int \<Rightarrow> (storage_err + unit) \<times> 's"
  delete_all :: "'s \<Rightarrow> string \<Rightarrow> (storage_err + unit) \<times> 's"

text \<open>
  \<open>JournalEntry::write_to_bytes\<close> and \<open>read_from_slice\<close> go through the generated protobuf
  message; its encoder and decoder belong to the \<open>protobuf\<close> crate and are arguments.
\<close>

record proto_journal_entry =
  proto_sequence :: int
  proto_payload_type :: string
  proto_bytes :: bytes

definition entry_write_to_bytes ::
  "(proto_journal_entry \<Rightarrow> 'err + bytes) \<Rightarrow> journal_entry \<Rightarrow> bytes option" where
  "entry_write_to_bytes proto_write e =
     (let proto = \<lparr>proto_sequence = sequence e, proto_payload_type = payload_type e,
                   proto_bytes = entry_bytes e\<rparr>
      in case proto_write proto of Inr b \<Rightarrow> Some b | Inl _ \<Rightarrow> None)"

definition entry_read_from_slice ::
  "(bytes \<Rightarrow> 'err + proto_journal_entry) \<Rightarrow> bytes \<Rightarrow> journal_entry option" where
  "entry_read_from_slice proto_parse b =
     (case proto_parse b of
        Inr p \<Rightarrow> Some \<lparr>sequence = proto_sequence p, payload_type = proto_payload_type p,
                       entry_bytes = proto_bytes p\<rparr>
      | Inl _ \<Rightarrow> None)"

definition entry_read_from_bytes ::
  "(bytes \<Rightarrow> 'err + proto_journal_entry) \<Rightarrow> bytes \<Rightarrow> journal_entry option" where
  "entry_read_from_bytes proto_parse b = entry_read_from_slice proto_parse b"

section \<open>The in-memory provider\<close>

record actor_journal =
  snapshots :: "journal_entry list"
  messages :: "journal_entry list"

type_synonym inmemory_store = "(string, actor_journal) hash_map"

definition from_snapshot :: "journal_entry \<Rightarrow> actor_journal" where
  "from_snapshot entry = \<lparr>snapshots = [entry], messages = []\<rparr>"

definition from_message :: "journal_entry \<Rightarrow> actor_journal" where
  "from_message entry = \<lparr>snapshots = [], messages = [entry]\<rparr>"

definition from_messages :: "journal_entry list \<Rightarrow> actor_journal" where
  "from_messages entries = \<lparr>snapshots = [], messages = entries\<rparr>"

definition inmemory_write_snapshot ::
  "inmemory_store \<Rightarrow> string \<Rightarrow> journal_entry \<Rightarrow> (storage_err + unit) \<times> inmemory_store" where
  "inmemory_write_snapshot store pid entry =
     (case hm_get store pid of
        Some j \<Rightarrow> (Inr (), hm_modify pid (\<lambda>j. j\<lparr>snapshots := snapshots j @ [entry]\<rparr>) store)
      | None \<Rightarrow> (Inr (), hm_insert pid (from_snapshot entry) store))"

definition inmemory_write_message ::
  "inmemory_store \<Rightarrow> string \<Rightarrow> journal_entry \<Rightarrow> (storage_err + unit) \<times> inmemory_store" where
  "inmemory_write_message store pid entry =
     (case hm_get store pid of
        Some j \<Rightarrow> (Inr (), hm_modify pid (\<lambda>j. j\<lparr>messages := messages j @ [entry]\<rparr>) store)
      | None \<Rightarrow> (Inr (), hm_insert pid (from_message entry) store))"

definition inmemory_write_message_batch ::
  "inmemory_store \<Rightarrow> string \<Rightarrow> journal_entry list \<Rightarrow> (storage_err + unit) \<times> inmemory_store" where
  "inmemory_write_message_batch store pid entries =
     (case hm_get store pid of
        Some j \<Rightarrow> (Inr (), hm_modify pid (\<lambda>j. j\<lparr>messages := messages j @ entries\<rparr>) store)
      | None \<Rightarrow> (Inr (), hm_insert pid (from_messages entries) store))"

definition inmemory_read_latest_snapshot ::
  "inmemory_store \<Rightarrow> string \<Rightarrow> storage_err + journal_entry option" where
  "inmemory_read_latest_snapshot store pid =
     Inr (Option.bind (hm_get store pid)
            (\<lambda>j. if snapshots j = [] then None else Some (last (snapshots j))))"

definition inmemory_read_latest_messages ::
  "inmemory_store \<Rightarrow> string \<Rightarrow> int \<Rightarrow> storage_err + journal_entry list option" where
  "inmemory_read_latest_messages store pid from_sequence =
     Inr (map_option
            (\<lambda>j. if from_sequence = 0 then messages j
                 else (case find_index (\<lambda>e. from_sequence < sequence e) (messages j) of
                         Some starting_index \<Rightarrow> drop starting_index (messages j)
                       | None \<Rightarrow> []))
            (hm_get store pid))"

definition inmemory_read_message ::
  "inmemory_store \<Rightarrow> string \<Rightarrow> int \<Rightarrow> storage_err + journal_entry option" where
  "inmemory_read_message store pid sequence_id =
     (case hm_get store pid of
        None \<Rightarrow> Inr None
      | Some j \<Rightarrow> Inr (List.find (\<lambda>e. sequence e = sequence_id) (messages j)))"

definition inmemory_read_messages ::
  "inmemory_store \<Rightarrow> string \<Rightarrow> int \<Rightarrow> int \<Rightarrow> (storage_err + journal_entry list option) may_panic" where
  "inmemory_read_messages store pid from_sequence to_sequence =
     (case hm_get store pid of
        None \<Rightarrow> Inr (Inr None)
      | Some j \<Rightarrow>
          (if messages j = [] then Inr (Inr None)
           else
             (let first_seq = sequence (hd (messages j));
                  final_seq = sequence (last (messages j))
              in if final_seq \<le> to_sequence then
                   (if from_sequence \<le> first_seq then Inr (Inr (Some (messages j)))
                    else (case find_index (\<lambda>e. from_sequence < sequence e) (messages j) of
                            Some starting_index \<Rightarrow> Inr (Inr (Some (drop starting_index (messages j))))
                          | None \<Rightarrow> Inr (Inr (Some []))))
                 else if from_sequence \<le> first_seq then
                   (case find_index (\<lambda>e. from_sequence < sequence e) (messages j) of
                      Some end_index \<Rightarrow> Inr (Inr (Some (take end_index (messages j))))
                    | None \<Rightarrow> Inr (Inr (Some [])))
                 else Inl (Panic ''todo: this''))))"

definition get_messages_to :: "int \<Rightarrow> actor_journal \<Rightarrow> journal_entry list" where
  "get_messages_to to_sequence j =
     (case find_index (\<lambda>e. to_sequence \<le> sequence e) (messages j) of
        None \<Rightarrow> []
      | Some m \<Rightarrow> drop m (messages j))"

definition inmemory_delete_messages_to ::
  "inmemory_store \<Rightarrow> string \<Rightarrow> int \<Rightarrow> (storage_err + unit) \<times> inmemory_store" where
  "inmemory_delete_messages_to store pid to_sequence =
     (Inr (),
      hm_modify pid
        (\<lambda>j. let kept =
                 (if messages j \<noteq> [] then
                    (if sequence (last (messages j)) < to_sequence then []
                     else get_messages_to to_sequence j)
                  else get_messages_to to_sequence j)
             in \<lparr>snapshots = snapshots j, messages = kept\<rparr>)
        store)"

definition inmemory_delete_all ::
  "inmemory_store \<Rightarrow> string \<Rightarrow> (storage_err + unit) \<times> inmemory_store" where
  "inmemory_delete_all store pid = (Inr (), hm_remove pid store)"

definition inmemory_storage :: "inmemory_store journal_storage" where
  "inmemory_storage =
     \<lparr>write_snapshot = inmemory_write_snapshot,
      write_message = inmemory_write_message,
      write_message_batch = inmemory_write_message_batch,
      read_latest_snapshot = inmemory_read_latest_snapshot,
      read_latest_messages = inmemory_read_latest_messages,
      read_message = inmemory_read_message,
      read_messages = inmemory_read_messages,
      delete_messages_to = inmemory_delete_messages_to,
      delete_all = inmemory_delete_all\<rparr>"

text \<open>\<open>InMemoryStorageProvider::new\<close> starts from the default, an empty store.\<close>

definition inmemory_new :: inmemory_store where
  "inmemory_new = []"

section \<open>What a storage provider promises\<close>

text \<open>The messages and snapshots kept under one persistence id, oldest first.\<close>

definition mem_messages :: "inmemory_store \<Rightarrow> string \<Rightarrow> journal_entry list" where
  "mem_messages store pid = (case hm_get store pid of Some j \<Rightarrow> messages j | None \<Rightarrow> [])"

definition mem_snapshots :: "inmemory_store \<Rightarrow> string \<Rightarrow> journal_entry list" where
  "mem_snapshots store pid = (case hm_get store pid of Some j \<Rightarrow> snapshots j | None \<Rightarrow> [])"

definition list_of :: "'a list option \<Rightarrow> 'a list" where
  "list_of r = (case r of Some xs \<Rightarrow> xs | None \<Rightarrow> [])"

definition last_option :: "'a list \<Rightarrow> 'a option" where
  "last_option xs = (if xs = [] then None else Some (last xs))"

abbreviation seq_sorted :: "journal_entry list \<Rightarrow> bool" where
  "seq_sorted es \<equiv> sorted (map sequence es)"

text \<open>
  The laws: a successful write appends to the log of its own persistence id and leaves every
  other log alone, a failed one changes nothing, reads return the log from a sequence number
  on (the whole log from 0), and the deletions remove what they say.
\<close>

locale journal_store =
  fixes ops :: "'s journal_storage"
    and msgs :: "'s \<Rightarrow> string \<Rightarrow> journal_entry list"
    and snaps :: "'s \<Rightarrow> string \<Rightarrow> journal_entry list"
  assumes write_message_ok:
      "write_message ops st p e = (Inr (), st') \<Longrightarrow>
         msgs st' = (msgs st)(p := msgs st p @ [e]) \<and> snaps st' = snaps st"
    and write_message_err:
      "write_message ops st p e = (Inl err, st') \<Longrightarrow> msgs st' = msgs st \<and> snaps st' = snaps st"
    and write_batch_ok:
      "write_message_batch ops st p es = (Inr (), st') \<Longrightarrow>
         msgs st' = (msgs st)(p := msgs st p @ es) \<and> snaps st' = snaps st"
    and write_batch_err:
      "write_message_batch ops st p es = (Inl err, st') \<Longrightarrow>
         msgs st' = msgs st \<and> snaps st' = snaps st"
    and write_snapshot_ok:
      "write_snapshot ops st p e = (Inr (), st') \<Longrightarrow>
         snaps st' = (snaps st)(p := snaps st p @ [e]) \<and> msgs st' = msgs st"
    and write_snapshot_err:
      "write_snapshot ops st p e = (Inl err, st') \<Longrightarrow> msgs st' = msgs st \<and> snaps st' = snaps st"
    and read_snapshot_ok:
      "read_latest_snapshot ops st p = Inr r \<Longrightarrow> r = last_option (snaps st p)"
    and read_latest_ok:
      "read_latest_messages ops st p n = Inr rs \<Longrightarrow> seq_sorted (msgs st p) \<Longrightarrow>
         list_of rs = (if n = 0 then msgs st p else filter (\<lambda>e. n < sequence e) (msgs st p))"
    and delete_to_ok:
      "delete_messages_to ops st p n = (Inr (), st') \<Longrightarrow> seq_sorted (msgs st p) \<Longrightarrow>
         msgs st' = (msgs st)(p := filter (\<lambda>e. n \<le> sequence e) (msgs st p)) \<and> snaps st' = snaps st"
    and delete_all_ok:
      "delete_all ops st p = (Inr (), st') \<Longrightarrow>
         msgs st' = (msgs st)(p := []) \<and> snaps st' = (snaps st)(p := [])"
begin

lemma write_message_log:
  "write_message ops st p e = (Inr (), st') \<Longrightarrow> msgs st' q = (if q = p then msgs st p @ [e] else msgs st q)"
  using write_message_ok by fastforce

lemma write_batch_log:
  "write_message_batch ops st p es = (Inr (), st') \<Longrightarrow>
     msgs st' q = (if q = p then msgs st p @ es else msgs st q)"
  using write_batch_ok by fastforce

lemma read_after_snapshot_write:
  assumes "write_snapshot ops st p e = (Inr (), st')" and "read_latest_snapshot ops st' p = Inr r"
  shows "r = Some e"
  using write_snapshot_ok [OF assms(1)] read_snapshot_ok [OF assms(2)]
  by (simp add: last_option_def)

end

lemmas inmemory_defs =
  inmemory_storage_def inmemory_write_snapshot_def inmemory_write_message_def
  inmemory_write_message_batch_def inmemory_read_latest_snapshot_def
  inmemory_read_latest_messages_def inmemory_delete_messages_to_def inmemory_delete_all_def
  from_snapshot_def from_message_def from_messages_def

lemmas mem_log_defs = mem_messages_def mem_snapshots_def list_of_def last_option_def

lemma inmemory_read_latest_sorted:
  assumes "seq_sorted (mem_messages store pid)"
  shows "\<exists>r. inmemory_read_latest_messages store pid n = Inr r \<and>
           list_of r = (if n = 0 then mem_messages store pid
                        else filter (\<lambda>e. n < sequence e) (mem_messages store pid))"
proof (cases "hm_get store pid")
  case None
  then show ?thesis by (simp add: inmemory_read_latest_messages_def mem_log_defs)
next
  case (Some j)
  with assms have "seq_sorted (messages j)" by (simp add: mem_log_defs)
  with Some show ?thesis
    by (simp add: inmemory_read_latest_messages_def mem_log_defs find_suffix_less)
qed

lemma get_messages_to_sorted:
  "seq_sorted (messages j) \<Longrightarrow> get_messages_to n j = filter (\<lambda>e. n \<le> sequence e) (messages j)"
  unfolding get_messages_to_def by (rule find_suffix_le)

lemma inmemory_delete_to_sorted:
  assumes "seq_sorted (mem_messages store pid)"
    and "inmemory_delete_messages_to store pid n = (r, store')"
  shows "mem_messages store' =
           (mem_messages store)(pid := filter (\<lambda>e. n \<le> sequence e) (mem_messages store pid))
         \<and> mem_snapshots store' = mem_snapshots store"
proof (cases "hm_get store pid")
  case None
  then have "hm_get store' = hm_get store"
    using assms(2) by (auto simp: inmemory_delete_messages_to_def fun_eq_iff)
  with None show ?thesis by (simp add: mem_log_defs fun_eq_iff)
next
  case (Some j)
  then have j: "seq_sorted (messages j)" using assms(1) by (simp add: mem_log_defs)
  have kept: "(if messages j \<noteq> [] then if sequence (last (messages j)) < n then []
                 else get_messages_to n j else get_messages_to n j) =
               filter (\<lambda>e. n \<le> sequence e) (messages j)"
    using j by (auto simp: get_messages_to_sorted sorted_filter_none_after_last)
  then show ?thesis
    using assms(2) Some
    by (auto simp: inmemory_delete_messages_to_def mem_log_defs fun_eq_iff Let_def)
qed

lemma inmemory_write_snapshot_log:
  "inmemory_write_snapshot store pid e = (r, store') \<Longrightarrow>
     r = Inr () \<and> mem_messages store' = mem_messages store \<and>
     mem_snapshots store' = (mem_snapshots store)(pid := mem_snapshots store pid @ [e])"
  by (auto simp: inmemory_write_snapshot_def from_snapshot_def mem_log_defs fun_eq_iff
        split: option.splits if_splits)

lemma inmemory_write_message_log:
  "inmemory_write_message store pid e = (r, store') \<Longrightarrow>
     r = Inr () \<and> mem_snapshots store' = mem_snapshots store \<and>
     mem_messages store' = (mem_messages store)(pid := mem_messages store pid @ [e])"
  by (auto simp: inmemory_write_message_def from_message_def mem_log_defs fun_eq_iff
        split: option.splits if_splits)

lemma inmemory_write_batch_log:
  "inmemory_write_message_batch store pid es = (r, store') \<Longrightarrow>
     r = Inr () \<and> mem_snapshots store' = mem_snapshots store \<and>
     mem_messages store' = (mem_messages store)(pid := mem_messages store pid @ es)"
  by (auto simp: inmemory_write_message_batch_def from_messages_def mem_log_defs fun_eq_iff
        split: option.splits if_splits)

interpretation mem: journal_store inmemory_storage mem_messages mem_snapshots
proof (unfold_locales, goal_cases)
  case (1 st p e st') then show ?case
    by (auto simp: inmemory_storage_def dest: inmemory_write_message_log)
next
  case (2 st p e err st') then show ?case
    by (auto simp: inmemory_storage_def dest: inmemory_write_message_log)
next
  case (3 st p es st') then show ?case
    by (auto simp: inmemory_storage_def dest: inmemory_write_batch_log)
next
  case (4 st p es err st') then show ?case
    by (auto simp: inmemory_storage_def dest: inmemory_write_batch_log)
next
  case (5 st p e st') then show ?case
    by (auto simp: inmemory_storage_def dest: inmemory_write_snapshot_log)
next
  case (6 st p e err st') then show ?case
    by (auto simp: inmemory_storage_def dest: inmemory_write_snapshot_log)
next
  case (7 st p r) then show ?case
    by (auto simp: inmemory_storage_def inmemory_read_latest_snapshot_def mem_log_defs
          split: option.splits)
next
  case (8 st p n rs)
  then show ?case
    using inmemory_read_latest_sorted [of st p n] by (simp add: inmemory_storage_def)
next
  case (9 st p n st') then show ?case
    by (auto simp: inmemory_storage_def dest: inmemory_delete_to_sorted)
next
  case (10 st p st') then show ?case
    by (auto simp: inmemory_storage_def inmemory_delete_all_def mem_log_defs fun_eq_iff)
qed

end
