(* ===== verification/Messaging.thy ===== *)
theory Messaging
  imports Collections
begin

text \<open>
  Messages and references: the \<open>Message\<close> trait with its default methods and the envelope of
  \<open>actor/message/mod.rs\<close>, and the error type of \<open>actor/refs/mod.rs\<close>.

  A type that implements \<open>Message\<close> is a record of its four conversion functions. The locale
  \<open>wire_message\<close> is the round-trip contract of a message that can be sent to another node or
  written to a journal.
\<close>

section \<open>Errors\<close>

datatype message_wrap_err = WrapUnknown | WrapNotTransmittable | SerializationErr

datatype message_unwrap_err = UnwrapUnknown | UnwrapNotTransmittable | DeserializationErr

datatype actor_ref_err =
    ActorUnavailable
  | NotFound actor_id
  | AlreadyExists actor_id
  | Serialisation message_wrap_err
  | Deserialisation message_unwrap_err
  | Timeout u64
  | ActorStartFailed
  | InvalidRef
  | ResultChannelClosed
  | ResultSendFailed
  | NotSupported actor_id string string
  | NotImplemented

section \<open>The message trait\<close>

record ('m, 'r) message_impl =
  as_bytes :: "'m \<Rightarrow> message_wrap_err + bytes"
  from_bytes :: "bytes \<Rightarrow> message_unwrap_err + 'm"
  read_remote_result :: "bytes \<Rightarrow> message_unwrap_err + 'r"
  write_remote_result :: "'r \<Rightarrow> message_wrap_err + bytes"

text \<open>The default methods refuse: such a message never leaves its node.\<close>

definition default_message :: "('m, 'r) message_impl" where
  "default_message =
     \<lparr>as_bytes = (\<lambda>_. Inl WrapNotTransmittable),
      from_bytes = (\<lambda>_. Inl UnwrapNotTransmittable),
      read_remote_result = (\<lambda>_. Inl UnwrapNotTransmittable),
      write_remote_result = (\<lambda>_. Inl WrapNotTransmittable)\<rparr>"

datatype 'm envelope = EnvLocal 'm | EnvRemote bytes

datatype envelope_type = TypeLocal | TypeRemote

definition into_envelope ::
  "('m, 'r) message_impl \<Rightarrow> 'm \<Rightarrow> envelope_type \<Rightarrow> message_wrap_err + 'm envelope" where
  "into_envelope M m t =
     (case t of
        TypeLocal \<Rightarrow> Inr (EnvLocal m)
      | TypeRemote \<Rightarrow> (case as_bytes M m of Inr b \<Rightarrow> Inr (EnvRemote b) | Inl e \<Rightarrow> Inl e))"

definition from_envelope ::
  "('m, 'r) message_impl \<Rightarrow> 'm envelope \<Rightarrow> message_unwrap_err + 'm" where
  "from_envelope M env =
     (case env of EnvLocal m \<Rightarrow> Inr m | EnvRemote b \<Rightarrow> from_bytes M b)"

definition envelope_into_bytes :: "'m envelope \<Rightarrow> bytes may_panic" where
  "envelope_into_bytes env =
     (case env of
        EnvRemote b \<Rightarrow> Inr b
      | _ \<Rightarrow> Inl (Panic ''only remote envelopes can yield bytes''))"

text \<open>
  \<open>ToBytes\<close> and \<open>FromBytes\<close> for generated protobuf messages: the crate's encoder and decoder
  with their error replaced.
\<close>

definition to_bytes :: "('p \<Rightarrow> 'err + bytes) \<Rightarrow> 'p \<Rightarrow> message_wrap_err + bytes" where
  "to_bytes proto_write p = (case proto_write p of Inr b \<Rightarrow> Inr b | Inl _ \<Rightarrow> Inl SerializationErr)"

definition parse_bytes :: "(bytes \<Rightarrow> 'err + 'p) \<Rightarrow> bytes \<Rightarrow> message_unwrap_err + 'p" where
  "parse_bytes proto_parse b =
     (case proto_parse b of Inr p \<Rightarrow> Inr p | Inl _ \<Rightarrow> Inl DeserializationErr)"

section \<open>The wire contract\<close>

text \<open>What the \<open>protobuf\<close> crate documents: parsing the bytes written for a message gives it back.\<close>

definition proto_roundtrip :: "('p \<Rightarrow> 'err + bytes) \<Rightarrow> (bytes \<Rightarrow> 'err + 'p) \<Rightarrow> bool" where
  "proto_roundtrip proto_write proto_parse \<longleftrightarrow>
     (\<forall>p b. proto_write p = Inr b \<longrightarrow> proto_parse b = Inr p)"

locale wire_message =
  fixes M :: "('m, 'r) message_impl"
  assumes wire_roundtrip: "as_bytes M m = Inr b \<Longrightarrow> from_bytes M b = Inr m"
begin

lemma envelope_roundtrip: "into_envelope M m t = Inr env \<Longrightarrow> from_envelope M env = Inr m"
  by (auto simp: into_envelope_def from_envelope_def wire_roundtrip
        split: envelope_type.splits sum.splits)

end

lemma proto_roundtripD: "proto_roundtrip w p \<Longrightarrow> w x = Inr b \<Longrightarrow> p b = Inr x"
  by (simp add: proto_roundtrip_def)

lemma to_bytes_parse: "proto_roundtrip w p \<Longrightarrow> to_bytes w x = Inr b \<Longrightarrow> parse_bytes p b = Inr x"
  by (auto simp: to_bytes_def parse_bytes_def split: sum.splits dest: proto_roundtripD)

text \<open>A message with the default methods satisfies the contract because it is never encoded.\<close>

interpretation unsendable: wire_message default_message
  by unfold_locales (simp add: default_message_def)

end
