(* ===== verification/Journal.thy ===== *)
theory Journal
  imports Journal_Storage Messaging
begin

text \<open>
  The journal of a persistent actor: \<open>persistent/journal/mod.rs\<close> (sequence numbers, persisting
  messages, batches and snapshots, recovery), \<open>persistent/journal/types.rs\<close> (the payload types
  an actor can recover) and \<open>persistent/batch.rs\<close>.

  A journal is parametric in the storage provider: its operations take the provider's record
  of functions and the storage state. The state \<open>'a\<close> on which recovered payloads act is the
  actor together with its context. The lemmas in \<open>context journal_store\<close> hold for every
  provider that satisfies the storage contract.
\<close>

section \<open>Payload types\<close>

datatype recovery_err =
    MessageDeserialisation message_unwrap_err type_name type_name int
  | SnapshotDeserialisation message_unwrap_err type_name type_name
  | RecoverySnapshot storage_err
  | RecoveryMessages storage_err

type_synonym 'a recovery_handler = "'a \<Rightarrow> int \<Rightarrow> bytes \<Rightarrow> recovery_err + 'a"

definition message_recovery_handler ::
  "(bytes \<Rightarrow> message_unwrap_err + 'm) \<Rightarrow> ('a \<Rightarrow> 'm \<Rightarrow> 'a) \<Rightarrow> type_name \<Rightarrow> type_name \<Rightarrow>
   'a recovery_handler" where
  "message_recovery_handler m_from_bytes recover message_type actor_type =
     (\<lambda>actor sequence_id b.
        case m_from_bytes b of
          Inl error \<Rightarrow> Inl (MessageDeserialisation error message_type actor_type sequence_id)
        | Inr message \<Rightarrow> Inr (recover actor message))"

definition snapshot_recovery_handler ::
  "(bytes \<Rightarrow> message_unwrap_err + 'm) \<Rightarrow> ('a \<Rightarrow> 'm \<Rightarrow> 'a) \<Rightarrow> type_name \<Rightarrow> type_name \<Rightarrow>
   'a recovery_handler" where
  "snapshot_recovery_handler s_from_remote_envelope recover snapshot_type actor_type =
     (\<lambda>actor sequence_id b.
        case s_from_remote_envelope b of
          Inl error \<Rightarrow> Inl (SnapshotDeserialisation error snapshot_type actor_type)
        | Inr snapshot \<Rightarrow> Inr (recover actor snapshot))"

record 'a journal_types =
  message_type_map :: "(type_name, string) hash_map"
  snapshot_type_map :: "(type_name, string) hash_map"
  recoverable_messages :: "(string, 'a recovery_handler) hash_map"
  recoverable_snapshots :: "(string, 'a recovery_handler) hash_map"

definition journal_types_default :: "'a journal_types" where
  "journal_types_default =
     \<lparr>message_type_map = [], snapshot_type_map = [], recoverable_messages = [],
      recoverable_snapshots = []\<rparr>"

definition types_message ::
  "type_name \<Rightarrow> string \<Rightarrow> 'a recovery_handler \<Rightarrow> 'a journal_types \<Rightarrow> 'a journal_types" where
  "types_message type_id identifier handler types =
     types\<lparr>recoverable_messages := hm_insert identifier handler (recoverable_messages types),
           message_type_map := hm_insert type_id identifier (message_type_map types)\<rparr>"

definition types_snapshot ::
  "type_name \<Rightarrow> string \<Rightarrow> 'a recovery_handler \<Rightarrow> 'a journal_types \<Rightarrow> 'a journal_types" where
  "types_snapshot type_id identifier handler types =
     types\<lparr>recoverable_snapshots := hm_insert identifier handler (recoverable_snapshots types),
           snapshot_type_map := hm_insert type_id identifier (snapshot_type_map types)\<rparr>"

definition message_type_mapping :: "'a journal_types \<Rightarrow> type_name \<Rightarrow> string option" where
  "message_type_mapping types type_id = hm_get (message_type_map types) type_id"

definition snapshot_type_mapping :: "'a journal_types \<Rightarrow> type_name \<Rightarrow> string option" where
  "snapshot_type_mapping types type_id = hm_get (snapshot_type_map types) type_id"

section \<open>The journal\<close>

record 'a journal =
  persistence_id :: string
  last_sequence_id :: int
  last_snapshot_sequence_id :: "int option"
  journal_types :: "'a journal_types"

definition journal_new :: "string \<Rightarrow> 'a journal_types \<Rightarrow> 'a journal" where
  "journal_new pid types =
     \<lparr>persistence_id = pid, last_sequence_id = 0, last_snapshot_sequence_id = None,
      journal_types = types\<rparr>"

record 'a recovered_payload =
  recovered_bytes :: bytes
  recovered_sequence :: int
  recovered_handler :: "'a recovery_handler"

definition payload_recover :: "'a recovered_payload \<Rightarrow> 'a \<Rightarrow> recovery_err + 'a" where
  "payload_recover p actor =
     recovered_handler p actor (recovered_sequence p) (recovered_bytes p)"

datatype persist_err =
    PersistStorage storage_err
  | PersistSerialisation message_wrap_err
  | ActorStopping persist_err
  | NotConfigured

record batched_entry =
  batched_payload_type :: string
  batched_bytes :: bytes

text \<open>\<open>EventBatch::message\<close>: both \<open>unwrap\<close>s panic.\<close>

definition batch_message ::
  "'a journal_types \<Rightarrow> type_name \<Rightarrow> (message_wrap_err + bytes) \<Rightarrow> batched_entry list \<Rightarrow>
   batched_entry list may_panic" where
  "batch_message types type_id message_as_bytes entries =
     (case message_type_mapping types type_id of
        None \<Rightarrow> Inl (Panic ''called unwrap on a None value'')
      | Some pt \<Rightarrow>
          (case message_as_bytes of
             Inl _ \<Rightarrow> Inl (Panic ''called unwrap on an Err value'')
           | Inr b \<Rightarrow> Inr (entries @ [\<lparr>batched_payload_type = pt, batched_bytes = b\<rparr>])))"

fun number_entries :: "int \<Rightarrow> batched_entry list \<Rightarrow> journal_entry list \<times> int" where
  "number_entries sequence_id [] = ([], sequence_id)"
| "number_entries sequence_id (e # es) =
     (let sequence_id = i64_add sequence_id 1;
          (entries, final_id) = number_entries sequence_id es
      in (\<lparr>sequence = sequence_id, payload_type = batched_payload_type e,
           entry_bytes = batched_bytes e\<rparr> # entries, final_id))"

definition persist_batch ::
  "'s journal_storage \<Rightarrow> 'a journal \<Rightarrow> 's \<Rightarrow> batched_entry list \<Rightarrow>
   (persist_err + unit) \<times> 'a journal \<times> 's" where
  "persist_batch ops j st batch =
     (let (entries, sequence_id) = number_entries (last_sequence_id j) batch
      in case write_message_batch ops st (persistence_id j) entries of
           (Inr _, st') \<Rightarrow> (Inr (), j\<lparr>last_sequence_id := sequence_id\<rparr>, st')
         | (Inl e, st') \<Rightarrow> (Inl (PersistStorage e), j, st'))"

datatype read = ReadMessage int | ReadRange int int

definition journal_read_messages ::
  "'s journal_storage \<Rightarrow> 'a journal \<Rightarrow> 's \<Rightarrow> string option \<Rightarrow> read \<Rightarrow>
   (storage_err + journal_entry list option) may_panic" where
  "journal_read_messages ops j st pid_arg r =
     (let pid = (case pid_arg of Some p \<Rightarrow> p | None \<Rightarrow> persistence_id j)
      in case r of
           ReadMessage sequence_id \<Rightarrow>
             Inr (case read_message ops st pid sequence_id of
                    Inr m \<Rightarrow> Inr (map_option (\<lambda>m. [m]) m)
                  | Inl e \<Rightarrow> Inl e)
         | ReadRange start_id end_id \<Rightarrow> read_messages ops st pid start_id end_id)"

definition persist_message ::
  "'s journal_storage \<Rightarrow> 'a journal \<Rightarrow> 's \<Rightarrow> type_name \<Rightarrow> bytes \<Rightarrow>
   ((persist_err + unit) \<times> 'a journal \<times> 's) may_panic" where
  "persist_message ops j st type_id b =
     (case message_type_mapping (journal_types j) type_id of
        None \<Rightarrow> Inl (Panic ''message type not configured'')
      | Some pt \<Rightarrow>
          Inr (case write_message ops st (persistence_id j)
                      \<lparr>sequence = last_sequence_id j, payload_type = pt, entry_bytes = b\<rparr> of
                 (Inl e, st') \<Rightarrow> (Inl (PersistStorage e), j, st')
               | (Inr _, st') \<Rightarrow>
                   (Inr (), j\<lparr>last_sequence_id := i64_add (last_sequence_id j) 1\<rparr>, st')))"

definition persist_snapshot ::
  "'s journal_storage \<Rightarrow> 'a journal \<Rightarrow> 's \<Rightarrow> type_name \<Rightarrow> bytes \<Rightarrow>
   ((persist_err + unit) \<times> 'a journal \<times> 's) may_panic" where
  "persist_snapshot ops j st type_id b =
     (case snapshot_type_mapping (journal_types j) type_id of
        None \<Rightarrow> Inl (Panic ''snapshot type not configured'')
      | Some pt \<Rightarrow>
          (let seq = i64_add (last_sequence_id j) 1
           in Inr (case write_snapshot ops st (persistence_id j)
                          \<lparr>sequence = seq, payload_type = pt, entry_bytes = b\<rparr> of
                     (Inl e, st') \<Rightarrow> (Inl (PersistStorage e), j, st')
                   | (Inr _, st') \<Rightarrow>
                       (Inr (), j\<lparr>last_sequence_id := seq,
                                 last_snapshot_sequence_id := Some seq\<rparr>, st'))))"

definition recover_snapshot ::
  "'s journal_storage \<Rightarrow> 'a journal \<Rightarrow> 's \<Rightarrow>
   (storage_err + 'a recovered_payload option) \<times> 'a journal" where
  "recover_snapshot ops j st =
     (case read_latest_snapshot ops st (persistence_id j) of
        Inl e \<Rightarrow> (Inl e, j)
      | Inr None \<Rightarrow> (Inr None, j)
      | Inr (Some raw) \<Rightarrow>
          (Inr (map_option
                  (\<lambda>h. \<lparr>recovered_bytes = entry_bytes raw, recovered_sequence = sequence raw,
                        recovered_handler = h\<rparr>)
                  (hm_get (recoverable_snapshots (journal_types j)) (payload_type raw))),
           j\<lparr>last_sequence_id := sequence raw,
             last_snapshot_sequence_id := Some (sequence raw)\<rparr>))"

fun collect_messages ::
  "'a journal_types \<Rightarrow> int \<Rightarrow> journal_entry list \<Rightarrow> 'a recovered_payload list \<times> int" where
  "collect_messages types last_id [] = ([], last_id)"
| "collect_messages types last_id (e # es) =
     (let (recoverable, final_id) = collect_messages types (sequence e) es
      in (case hm_get (recoverable_messages types) (payload_type e) of
            Some h \<Rightarrow> \<lparr>recovered_bytes = entry_bytes e, recovered_sequence = sequence e,
                        recovered_handler = h\<rparr> # recoverable
          | None \<Rightarrow> recoverable,
          final_id))"

definition recover_messages ::
  "'s journal_storage \<Rightarrow> 'a journal \<Rightarrow> 's \<Rightarrow>
   (storage_err + 'a recovered_payload list option) \<times> 'a journal" where
  "recover_messages ops j st =
     (case read_latest_messages ops st (persistence_id j) (last_sequence_id j) of
        Inl e \<Rightarrow> (Inl e, j)
      | Inr None \<Rightarrow> (Inr None, j)
      | Inr (Some entries) \<Rightarrow>
          (let (recoverable, last_id) =
                 collect_messages (journal_types j) (last_sequence_id j) entries
           in (Inr (if length recoverable = 0 then None else Some recoverable),
               j\<lparr>last_sequence_id := last_id\<rparr>)))"

definition journal_clear :: "'s journal_storage \<Rightarrow> 'a journal \<Rightarrow> 's \<Rightarrow> bool \<times> 's" where
  "journal_clear ops j st =
     (case delete_all ops st (persistence_id j) of
        (Inr _, st') \<Rightarrow> (True, st')
      | (Inl _, st') \<Rightarrow> (False, st'))"

definition clear_old_messages :: "'s journal_storage \<Rightarrow> 'a journal \<Rightarrow> 's \<Rightarrow> bool \<times> 's" where
  "clear_old_messages ops j st =
     (case last_snapshot_sequence_id j of
        Some snapshot_sequence_id \<Rightarrow>
          (case delete_messages_to ops st (persistence_id j) snapshot_sequence_id of
             (Inr _, st') \<Rightarrow> (True, st')
           | (Inl _, st') \<Rightarrow> (False, st'))
      | None \<Rightarrow> (False, st))"

section \<open>Sequence numbers\<close>

text \<open>
  The invariant of a journal and its log: sequence numbers do not decrease along the log, are
  not negative, and none exceeds the journal's counter.
\<close>

definition log_ok :: "int \<Rightarrow> journal_entry list \<Rightarrow> bool" where
  "log_ok last_id es \<longleftrightarrow> seq_sorted es \<and> (\<forall>e\<in>set es. 0 \<le> sequence e \<and> sequence e \<le> last_id)"

definition journal_ok :: "'a journal \<Rightarrow> journal_entry list \<Rightarrow> journal_entry list \<Rightarrow> bool" where
  "journal_ok j ms ss \<longleftrightarrow>
     0 \<le> last_sequence_id j \<and> log_ok (last_sequence_id j) ms \<and> log_ok (last_sequence_id j) ss"

lemma log_ok_Nil [simp]: "log_ok n []"
  by (simp add: log_ok_def)

lemma log_ok_mono: "log_ok n es \<Longrightarrow> n \<le> m \<Longrightarrow> log_ok m es"
  by (auto simp: log_ok_def)

lemma log_ok_append:
  assumes "log_ok n es" and "log_ok m fs" and "\<forall>f\<in>set fs. n \<le> sequence f" and "n \<le> m"
  shows "log_ok m (es @ fs)"
  using assms by (fastforce simp: log_ok_def sorted_append)

lemma log_ok_snoc: "log_ok n es \<Longrightarrow> 0 \<le> n \<Longrightarrow> sequence e = n \<Longrightarrow> log_ok n (es @ [e])"
  by (auto simp: log_ok_def sorted_append)

lemma number_entries_exact:
  assumes "0 \<le> n" and "n + int (length es) \<le> i64_max"
  shows "snd (number_entries n es) = n + int (length es) \<and>
         map sequence (fst (number_entries n es)) = map (\<lambda>i. n + 1 + int i) [0..<length es] \<and>
         map (\<lambda>e. (payload_type e, entry_bytes e)) (fst (number_entries n es)) =
           map (\<lambda>e. (batched_payload_type e, batched_bytes e)) es"
  using assms
proof (induction es arbitrary: n)
  case Nil
  then show ?case by simp
next
  case (Cons e es)
  have "i64_add n 1 = n + 1" using Cons.prems by (intro i64_add_exact) auto
  moreover have "map (\<lambda>i. n + 1 + int i) [0..<length (e # es)] =
      (n + 1) # map (\<lambda>i. (n + 1) + 1 + int i) [0..<length es]"
    by (simp add: upt_conv_Cons map_Suc_upt [symmetric] del: upt_Suc)
  ultimately show ?case
    using Cons.IH [of "n + 1"] Cons.prems by (simp add: Let_def split_beta)
qed

lemma number_entries_log_ok:
  assumes "0 \<le> n" and "n + int (length es) \<le> i64_max"
  shows "log_ok (n + int (length es)) (fst (number_entries n es)) \<and>
         (\<forall>e\<in>set (fst (number_entries n es)). n < sequence e)"
proof -
  let ?r = "fst (number_entries n es)"
  have m: "map sequence ?r = map (\<lambda>i. n + 1 + int i) [0..<length es]"
    using number_entries_exact [OF assms] by blast
  have "sorted (map (\<lambda>i. n + 1 + int i) [0..<length es])"
    by (simp add: sorted_map sorted_wrt_upt)
  moreover have "n < s \<and> s \<le> n + int (length es)" if "s \<in> set (map sequence ?r)" for s
    using that unfolding m by auto
  ultimately show ?thesis using assms(1) unfolding log_ok_def m [symmetric] by fastforce
qed

section \<open>Runs of a journal\<close>

text \<open>
  The operations an actor performs on its journal between two starts, and how they run against
  a provider: \<open>None\<close> when one of them panics or fails.
\<close>

datatype journal_op =
    OpMessage type_name bytes
  | OpBatch "batched_entry list"

fun run_op ::
  "'s journal_storage \<Rightarrow> journal_op \<Rightarrow> 'a journal \<Rightarrow> 's \<Rightarrow> ('a journal \<times> 's) option" where
  "run_op ops (OpMessage t b) j st =
     (case persist_message ops j st t b of
        Inr (Inr _, j', st') \<Rightarrow> Some (j', st')
      | _ \<Rightarrow> None)"
| "run_op ops (OpBatch es) j st =
     (case persist_batch ops j st es of
        (Inr _, j', st') \<Rightarrow> Some (j', st')
      | _ \<Rightarrow> None)"

fun run_ops ::
  "'s journal_storage \<Rightarrow> journal_op list \<Rightarrow> 'a journal \<Rightarrow> 's \<Rightarrow> ('a journal \<times> 's) option" where
  "run_ops ops [] j st = Some (j, st)"
| "run_ops ops (x # xs) j st =
     Option.bind (run_op ops x j st) (\<lambda>(j', st'). run_ops ops xs j' st')"

fun op_size :: "journal_op \<Rightarrow> nat" where
  "op_size (OpMessage _ _) = 1"
| "op_size (OpBatch es) = length es"

fun is_single :: "journal_op \<Rightarrow> bool" where
  "is_single (OpMessage _ _) = True"
| "is_single (OpBatch _) = False"

fun op_payloads :: "'a journal_types \<Rightarrow> journal_op \<Rightarrow> (string \<times> bytes) list" where
  "op_payloads types (OpMessage t b) =
     (case message_type_mapping types t of Some pt \<Rightarrow> [(pt, b)] | None \<Rightarrow> [])"
| "op_payloads types (OpBatch es) = map (\<lambda>e. (batched_payload_type e, batched_bytes e)) es"

abbreviation entry_payload :: "journal_entry \<Rightarrow> string \<times> bytes" where
  "entry_payload e \<equiv> (payload_type e, entry_bytes e)"

text \<open>
  \<open>persist_message\<close> stores the counter before it increments it, a snapshot and a batch after:
  of the operations that follow a snapshot, the first single message takes the snapshot's own
  sequence number, unless a non-empty batch comes before it.
\<close>

fun ops_after_snapshot :: "journal_op list \<Rightarrow> journal_op list" where
  "ops_after_snapshot [] = []"
| "ops_after_snapshot (OpMessage t b # xs) = xs"
| "ops_after_snapshot (OpBatch [] # xs) = ops_after_snapshot xs"
| "ops_after_snapshot (OpBatch es # xs) = OpBatch es # xs"

text \<open>What a fresh journal reads back from a log and its snapshots.\<close>

definition pending :: "journal_entry list \<Rightarrow> journal_entry list \<Rightarrow> journal_entry list" where
  "pending ms ss =
     (case last_option ss of
        None \<Rightarrow> ms
      | Some e \<Rightarrow> if sequence e = 0 then ms else filter (\<lambda>m. sequence e < sequence m) ms)"

lemma persist_message_cases:
  assumes "persist_message ops j st t b = Inr (r, j', st')"
  obtains (ok) pt where "message_type_mapping (journal_types j) t = Some pt" "r = Inr ()"
      "write_message ops st (persistence_id j)
         \<lparr>sequence = last_sequence_id j, payload_type = pt, entry_bytes = b\<rparr> = (Inr (), st')"
      "j' = j\<lparr>last_sequence_id := i64_add (last_sequence_id j) 1\<rparr>"
  | (err) pt e where "r = Inl (PersistStorage e)" "j' = j"
      "write_message ops st (persistence_id j)
         \<lparr>sequence = last_sequence_id j, payload_type = pt, entry_bytes = b\<rparr> = (Inl e, st')"
  using assms by (auto simp: persist_message_def split: option.splits prod.splits sum.splits)

lemma persist_batch_cases:
  assumes "persist_batch ops j st es = (r, j', st')"
  obtains (ok) "r = Inr ()" "j' = j\<lparr>last_sequence_id := snd (number_entries (last_sequence_id j) es)\<rparr>"
      "write_message_batch ops st (persistence_id j) (fst (number_entries (last_sequence_id j) es))
         = (Inr (), st')"
  | (err) e where "r = Inl (PersistStorage e)" "j' = j"
      "write_message_batch ops st (persistence_id j) (fst (number_entries (last_sequence_id j) es))
         = (Inl e, st')"
proof (cases "number_entries (last_sequence_id j) es")
  case (Pair entries n)
  with assms that show thesis by (auto simp: persist_batch_def split: prod.splits sum.splits)
qed

lemma persist_snapshot_cases:
  assumes "persist_snapshot ops j st t b = Inr (r, j', st')"
  obtains (ok) pt where "snapshot_type_mapping (journal_types j) t = Some pt" "r = Inr ()"
      "write_snapshot ops st (persistence_id j)
         \<lparr>sequence = i64_add (last_sequence_id j) 1, payload_type = pt, entry_bytes = b\<rparr>
         = (Inr (), st')"
      "j' = j\<lparr>last_sequence_id := i64_add (last_sequence_id j) 1,
              last_snapshot_sequence_id := Some (i64_add (last_sequence_id j) 1)\<rparr>"
  | (err) pt e where "r = Inl (PersistStorage e)" "j' = j"
      "write_snapshot ops st (persistence_id j)
         \<lparr>sequence = i64_add (last_sequence_id j) 1, payload_type = pt, entry_bytes = b\<rparr>
         = (Inl e, st')"
  using assms
  by (auto simp: persist_snapshot_def Let_def split: option.splits prod.splits sum.splits)

context journal_store
begin

text \<open>One operation appends its payloads, numbered from the counter on.\<close>

lemma run_op_log:
  assumes "run_op ops x j st = Some (j', st')"
    and "0 \<le> last_sequence_id j" and "last_sequence_id j + int (op_size x) \<le> i64_max"
  obtains es where
    "msgs st' = (msgs st)(persistence_id j := msgs st (persistence_id j) @ es)"
    "snaps st' = snaps st"
    "j' = j\<lparr>last_sequence_id := last_sequence_id j + int (op_size x)\<rparr>"
    "log_ok (last_sequence_id j + int (op_size x)) es"
    "\<forall>e\<in>set es. last_sequence_id j \<le> sequence e"
    "map entry_payload es = op_payloads (journal_types j) x"
    "\<forall>e\<in>set es. last_sequence_id j < sequence e \<longleftrightarrow> \<not> is_single x"
proof (cases x)
  case (OpMessage t b)
  with assms(1) have "persist_message ops j st t b = Inr (Inr (), j', st')"
    by (auto split: sum.splits prod.splits)
  then show ?thesis
  proof (cases rule: persist_message_cases)
    case (ok pt)
    moreover have "i64_add (last_sequence_id j) 1 = last_sequence_id j + 1"
      using assms(2,3) OpMessage by (intro i64_add_exact) auto
    ultimately show ?thesis
      using write_message_ok [OF ok(3)] OpMessage assms(2)
      by (intro that [of "[\<lparr>sequence = last_sequence_id j, payload_type = pt, entry_bytes = b\<rparr>]"])
         (auto simp: log_ok_def)
  qed simp
next
  case (OpBatch bs)
  let ?es = "fst (number_entries (last_sequence_id j) bs)"
  have len: "last_sequence_id j + int (length bs) \<le> i64_max" using assms(3) OpBatch by simp
  from OpBatch assms(1) have "persist_batch ops j st bs = (Inr (), j', st')"
    by (auto split: sum.splits prod.splits)
  then show ?thesis
  proof (cases rule: persist_batch_cases)
    case ok
    have "\<forall>e\<in>set ?es. last_sequence_id j < sequence e"
      using number_entries_log_ok [OF assms(2) len] by blast
    with ok show ?thesis
      using write_batch_ok [OF ok(3)] number_entries_exact [OF assms(2) len]
        number_entries_log_ok [OF assms(2) len] OpBatch
      by (intro that [of ?es]) (auto intro: less_imp_le)
  qed simp
qed

lemma run_ops_log:
  assumes "run_ops ops xs j st = Some (j', st')"
    and "0 \<le> last_sequence_id j"
    and "last_sequence_id j + int (sum_list (map op_size xs)) \<le> i64_max"
  shows "\<exists>es. msgs st' = (msgs st)(persistence_id j := msgs st (persistence_id j) @ es) \<and>
           snaps st' = snaps st \<and>
           j' = j\<lparr>last_sequence_id := last_sequence_id j + int (sum_list (map op_size xs))\<rparr> \<and>
           log_ok (last_sequence_id j') es \<and>
           (\<forall>e\<in>set es. last_sequence_id j \<le> sequence e) \<and>
           map entry_payload es = concat (map (op_payloads (journal_types j)) xs) \<and>
           map entry_payload (filter (\<lambda>e. last_sequence_id j < sequence e) es) =
             concat (map (op_payloads (journal_types j)) (ops_after_snapshot xs))"
  using assms
proof (induction xs arbitrary: j st)
  case Nil
  then show ?case by (intro exI [of _ "[]"]) (auto simp: fun_eq_iff)
next
  case (Cons x xs)
  let ?n = "last_sequence_id j" and ?p = "persistence_id j" and ?pl = "op_payloads (journal_types j)"
  from Cons.prems(1) obtain j1 st1 where x: "run_op ops x j st = Some (j1, st1)"
    and xs: "run_ops ops xs j1 st1 = Some (j', st')"
    by (auto simp: Option.bind_eq_Some_conv)
  have "?n + int (op_size x) \<le> i64_max" using Cons.prems(3) by simp
  with x Cons.prems(2) obtain e1 where e1:
    "msgs st1 = (msgs st)(?p := msgs st ?p @ e1)" "snaps st1 = snaps st"
    "j1 = j\<lparr>last_sequence_id := ?n + int (op_size x)\<rparr>"
    "log_ok (?n + int (op_size x)) e1" "\<forall>e\<in>set e1. ?n \<le> sequence e"
    "map entry_payload e1 = ?pl x"
    "\<forall>e\<in>set e1. ?n < sequence e \<longleftrightarrow> \<not> is_single x"
    by (rule run_op_log)
  have j1: "0 \<le> last_sequence_id j1" "last_sequence_id j1 + int (sum_list (map op_size xs)) \<le> i64_max"
    using e1(3) Cons.prems(2,3) by auto
  obtain e2 where e2:
    "msgs st' = (msgs st1)(persistence_id j1 := msgs st1 (persistence_id j1) @ e2)"
    "snaps st' = snaps st1"
    "j' = j1\<lparr>last_sequence_id := last_sequence_id j1 + int (sum_list (map op_size xs))\<rparr>"
    "log_ok (last_sequence_id j') e2" "\<forall>e\<in>set e2. last_sequence_id j1 \<le> sequence e"
    "map entry_payload e2 = concat (map (op_payloads (journal_types j1)) xs)"
    "map entry_payload (filter (\<lambda>e. last_sequence_id j1 < sequence e) e2) =
       concat (map (op_payloads (journal_types j1)) (ops_after_snapshot xs))"
    using Cons.IH [OF xs j1] by blast
  have late: "filter (\<lambda>e. ?n < sequence e) e2 = e2" if "op_size x \<noteq> 0"
    using that e2(5) e1(3) by (intro filter_True) auto
  have "map entry_payload (filter (\<lambda>e. ?n < sequence e) (e1 @ e2)) =
          concat (map ?pl (ops_after_snapshot (x # xs)))"
  proof (cases x)
    case (OpMessage t b)
    then have "filter (\<lambda>e. ?n < sequence e) e1 = []" using e1(7) by (auto simp: filter_empty_conv)
    with OpMessage late e2(6) e1(3) show ?thesis by simp
  next
    case (OpBatch bs)
    have keep: "filter (\<lambda>e. ?n < sequence e) e1 = e1" using e1(7) OpBatch by (intro filter_True) auto
    show ?thesis
    proof (cases bs)
      case Nil
      with OpBatch keep e1 e2(7) show ?thesis by simp
    next
      case (Cons b bs')
      with OpBatch keep late e2(6) e1(3,6) show ?thesis by simp
    qed
  qed
  moreover have "log_ok (last_sequence_id j') (e1 @ e2)"
    using e1(3,4) e2(3,4,5) by (intro log_ok_append [of "last_sequence_id j1"]) auto
  ultimately show ?case
    using e1 e2 by (intro exI [of _ "e1 @ e2"]) (auto simp: fun_eq_iff)
qed

end

section \<open>Recovery\<close>

definition recovered_of :: "'a journal_types \<Rightarrow> journal_entry \<Rightarrow> 'a recovered_payload option" where
  "recovered_of types e =
     map_option (\<lambda>h. \<lparr>recovered_bytes = entry_bytes e, recovered_sequence = sequence e,
                      recovered_handler = h\<rparr>)
       (hm_get (recoverable_messages types) (payload_type e))"

definition recovered_snapshot_of ::
  "'a journal_types \<Rightarrow> journal_entry \<Rightarrow> 'a recovered_payload option" where
  "recovered_snapshot_of types e =
     map_option (\<lambda>h. \<lparr>recovered_bytes = entry_bytes e, recovered_sequence = sequence e,
                      recovered_handler = h\<rparr>)
       (hm_get (recoverable_snapshots types) (payload_type e))"

lemma collect_messages_spec:
  "collect_messages types n es =
     (List.map_filter (recovered_of types) es, if es = [] then n else sequence (last es))"
  by (induction es arbitrary: n)
     (auto simp: recovered_of_def map_filter_simps split: option.splits)

text \<open>A start of the actor: a new journal that recovers its snapshot, then its messages.\<close>

definition journal_restart ::
  "'s journal_storage \<Rightarrow> string \<Rightarrow> 'a journal_types \<Rightarrow> 's \<Rightarrow>
   'a recovered_payload option \<Rightarrow> 'a recovered_payload list option \<Rightarrow> 'a journal \<Rightarrow> bool" where
  "journal_restart ops p types st snap rs j \<longleftrightarrow>
     (\<exists>j1. recover_snapshot ops (journal_new p types) st = (Inr snap, j1) \<and>
           recover_messages ops j1 st = (Inr rs, j))"

definition snapshot_seq :: "journal_entry list \<Rightarrow> int" where
  "snapshot_seq ss = (case last_option ss of Some e \<Rightarrow> sequence e | None \<Rightarrow> 0)"

lemma pending_alt:
  "pending ms ss =
     (if snapshot_seq ss = 0 then ms else filter (\<lambda>m. snapshot_seq ss < sequence m) ms)"
  by (auto simp: pending_def snapshot_seq_def split: option.splits)

context journal_store
begin

lemma recover_snapshot_fresh:
  assumes "recover_snapshot ops (journal_new p types) st = (Inr snap, j1)"
  shows "snap = Option.bind (last_option (snaps st p)) (recovered_snapshot_of types) \<and>
         j1 = \<lparr>persistence_id = p, last_sequence_id = snapshot_seq (snaps st p),
               last_snapshot_sequence_id = map_option sequence (last_option (snaps st p)),
               journal_types = types\<rparr>"
proof -
  obtain r where r: "read_latest_snapshot ops st p = Inr r"
    using assms by (auto simp: recover_snapshot_def journal_new_def split: sum.splits)
  with assms show ?thesis
    using read_snapshot_ok [OF r]
    by (auto simp: recover_snapshot_def journal_new_def snapshot_seq_def recovered_snapshot_of_def
          split: option.splits)
qed

lemma recover_messages_spec:
  assumes "recover_messages ops j st = (Inr rs, j')"
    and "seq_sorted (msgs st (persistence_id j))"
  defines "ms \<equiv> (if last_sequence_id j = 0 then msgs st (persistence_id j)
                 else filter (\<lambda>e. last_sequence_id j < sequence e) (msgs st (persistence_id j)))"
  shows "list_of rs = List.map_filter (recovered_of (journal_types j)) ms \<and>
         j' = j\<lparr>last_sequence_id := if ms = [] then last_sequence_id j else sequence (last ms)\<rparr>"
proof -
  obtain r where r: "read_latest_messages ops st (persistence_id j) (last_sequence_id j) = Inr r"
    using assms(1) by (auto simp: recover_messages_def split: sum.splits)
  with assms(1) read_latest_ok [OF r assms(2)] show ?thesis unfolding ms_def [symmetric]
    by (cases r) (auto simp: recover_messages_def collect_messages_spec list_of_def)
qed

lemma restart_spec:
  assumes "journal_restart ops p types st snap rs j" and "seq_sorted (msgs st p)"
  shows "snap = Option.bind (last_option (snaps st p)) (recovered_snapshot_of types) \<and>
         list_of rs = List.map_filter (recovered_of types) (pending (msgs st p) (snaps st p)) \<and>
         j = \<lparr>persistence_id = p,
              last_sequence_id = (if pending (msgs st p) (snaps st p) = [] then snapshot_seq (snaps st p)
                                  else sequence (last (pending (msgs st p) (snaps st p)))),
              last_snapshot_sequence_id = map_option sequence (last_option (snaps st p)),
              journal_types = types\<rparr>"
proof -
  obtain j1 where s: "recover_snapshot ops (journal_new p types) st = (Inr snap, j1)"
    and m: "recover_messages ops j1 st = (Inr rs, j)"
    using assms(1) by (auto simp: journal_restart_def)
  note s' = recover_snapshot_fresh [OF s]
  have "seq_sorted (msgs st (persistence_id j1))" using s' assms(2) by simp
  from recover_messages_spec [OF m this] s' show ?thesis by (simp add: pending_alt)
qed

end

text \<open>The handlers and bytes with which a restart replays a list of stored payloads.\<close>

definition replayable :: "'a journal_types \<Rightarrow> (string \<times> bytes) list \<Rightarrow> ('a recovery_handler \<times> bytes) list" where
  "replayable types =
     List.map_filter (\<lambda>(pt, b). map_option (\<lambda>h. (h, b)) (hm_get (recoverable_messages types) pt))"

abbreviation recovered_pair :: "'a recovered_payload \<Rightarrow> 'a recovery_handler \<times> bytes" where
  "recovered_pair r \<equiv> (recovered_handler r, recovered_bytes r)"

lemma map_filter_recovered:
  "map recovered_pair (List.map_filter (recovered_of types) es) =
     replayable types (map entry_payload es)"
  by (induction es) (auto simp: replayable_def recovered_of_def map_filter_simps split: option.splits)

section \<open>Reachable journals\<close>

text \<open>
  Every way a journal and its storage change while the sequence counter stays within an \<open>i64\<close>:
  the persisting operations, whether the provider accepts or refuses the write, the two
  deletions, and a restart of the actor.
\<close>

inductive journal_step :: "'s journal_storage \<Rightarrow> 'a journal \<times> 's \<Rightarrow> 'a journal \<times> 's \<Rightarrow> bool"
  for ops :: "'s journal_storage" where
  message: "persist_message ops j st t b = Inr (r, j', st') \<Longrightarrow> last_sequence_id j < i64_max \<Longrightarrow>
      journal_step ops (j, st) (j', st')"
| batch: "persist_batch ops j st es = (r, j', st') \<Longrightarrow>
      last_sequence_id j + int (length es) \<le> i64_max \<Longrightarrow> journal_step ops (j, st) (j', st')"
| snapshot: "persist_snapshot ops j st t b = Inr (r, j', st') \<Longrightarrow> last_sequence_id j < i64_max \<Longrightarrow>
      journal_step ops (j, st) (j', st')"
| clear_old: "clear_old_messages ops j st = (True, st') \<Longrightarrow> journal_step ops (j, st) (j, st')"
| clear: "journal_clear ops j st = (True, st') \<Longrightarrow> journal_step ops (j, st) (j, st')"
| restart: "journal_restart ops (persistence_id j) (journal_types j) st snap rs j' \<Longrightarrow>
      journal_step ops (j, st) (j', st)"

text \<open>
  The invariant adds to \<open>journal_ok\<close> that the snapshot the journal remembers does not lie beyond
  the one a recovery starts from.
\<close>

definition snapshot_ok :: "'a journal \<Rightarrow> journal_entry list \<Rightarrow> journal_entry list \<Rightarrow> bool" where
  "snapshot_ok j ms ss \<longleftrightarrow>
     (\<forall>s. last_snapshot_sequence_id j = Some s \<longrightarrow>
        s \<le> last_sequence_id j \<and>
        (case last_option ss of Some e \<Rightarrow> s \<le> sequence e | None \<Rightarrow> \<forall>m\<in>set ms. s \<le> sequence m))"

definition journal_inv :: "'a journal \<Rightarrow> journal_entry list \<Rightarrow> journal_entry list \<Rightarrow> bool" where
  "journal_inv j ms ss \<longleftrightarrow> journal_ok j ms ss \<and> snapshot_ok j ms ss"

lemmas journal_inv_defs = journal_inv_def journal_ok_def snapshot_ok_def

lemma journal_inv_sorted: "journal_inv j ms ss \<Longrightarrow> seq_sorted ms"
  by (simp add: journal_inv_defs log_ok_def)

lemma last_option_in: "last_option xs = Some x \<Longrightarrow> x \<in> set xs"
  by (auto simp: last_option_def split: if_splits)

lemma log_ok_last:
  assumes "log_ok n es" and "es \<noteq> []"
  shows "log_ok (sequence (last es)) es" and "0 \<le> sequence (last es)"
proof -
  have "sequence e \<le> sequence (last es)" if "e \<in> set es" for e
    using that assms by (induction es) (auto simp: log_ok_def)
  with assms show "log_ok (sequence (last es)) es" "0 \<le> sequence (last es)"
    by (auto simp: log_ok_def)
qed

lemma log_ok_filter: "log_ok n es \<Longrightarrow> log_ok n (filter P es)"
  by (auto simp: log_ok_def sorted_filter)

lemma journal_inv_append:
  assumes "journal_inv j ms ss" and "log_ok n es"
    and "\<forall>e\<in>set es. last_sequence_id j \<le> sequence e" and "last_sequence_id j \<le> n"
  shows "journal_inv (j\<lparr>last_sequence_id := n\<rparr>) (ms @ es) ss"
proof -
  have "log_ok n (ms @ es)"
    using assms by (intro log_ok_append [of "last_sequence_id j"]) (auto simp: journal_inv_defs)
  moreover have "log_ok n ss" using assms log_ok_mono by (auto simp: journal_inv_defs)
  ultimately show ?thesis
    using assms by (fastforce simp: journal_inv_defs split: option.splits)
qed

lemma journal_inv_snapshot:
  assumes "journal_inv j ms ss" and "sequence e = last_sequence_id j + 1"
  shows "journal_inv (j\<lparr>last_sequence_id := last_sequence_id j + 1,
                       last_snapshot_sequence_id := Some (last_sequence_id j + 1)\<rparr>) ms (ss @ [e])"
proof -
  have "log_ok (last_sequence_id j + 1) (ss @ [e])"
    using assms
    by (intro log_ok_append [of "last_sequence_id j"]) (auto simp: journal_inv_defs log_ok_def)
  moreover have "log_ok (last_sequence_id j + 1) ms"
    using assms(1) log_ok_mono by (auto simp: journal_inv_defs)
  ultimately show ?thesis
    using assms by (auto simp: journal_inv_defs last_option_def)
qed

lemma log_ok_le_last:
  assumes "log_ok n ms" and "ms \<noteq> []" and "e \<in> set ms"
  shows "sequence e \<le> sequence (last ms)"
  using log_ok_last(1) [OF assms(1,2)] assms(3) by (simp add: log_ok_def)

lemma pending_bounds:
  fixes ss
  assumes "log_ok n ms"
  defines "ps \<equiv> pending ms ss"
  shows "log_ok (if ps = [] then snapshot_seq ss else sequence (last ps)) ms"
proof -
  let ?s = "snapshot_seq ss"
  have ps: "ps = (if ?s = 0 then ms else filter (\<lambda>m. ?s < sequence m) ms)"
    by (simp add: ps_def pending_alt)
  have "log_ok n ps" using assms(1) log_ok_filter by (simp add: ps)
  have "sequence e \<le> (if ps = [] then ?s else sequence (last ps))" if "e \<in> set ms" for e
  proof (cases "e \<in> set ps")
    case True
    then have "ps \<noteq> []" by auto
    with log_ok_le_last [OF \<open>log_ok n ps\<close> this True] show ?thesis by simp
  next
    case False
    with that have le: "sequence e \<le> ?s" and "?s \<noteq> 0" by (auto simp: ps split: if_splits)
    show ?thesis
    proof (cases "ps = []")
      case False
      then have "last ps \<in> set ps" by simp
      with \<open>?s \<noteq> 0\<close> have "?s < sequence (last ps)" by (auto simp: ps)
      with le False show ?thesis by simp
    qed (use le in simp)
  qed
  with assms(1) show ?thesis by (auto simp: log_ok_def)
qed

lemma snapshot_seq_bounds:
  assumes "log_ok n ss"
  shows "log_ok (snapshot_seq ss) ss" and "0 \<le> snapshot_seq ss"
  using assms log_ok_last [OF assms]
  by (auto simp: snapshot_seq_def last_option_def)

lemma snapshot_seq_le_pending:
  assumes "log_ok n ms" and "pending ms ss \<noteq> []"
  shows "snapshot_seq ss \<le> sequence (last (pending ms ss))"
proof -
  have "last (pending ms ss) \<in> set (pending ms ss)" using assms(2) by simp
  then show ?thesis
    using assms(1) by (auto simp: pending_alt log_ok_def split: if_splits)
qed

text \<open>The journal a restart produces satisfies the invariant over the logs it has read.\<close>

lemma journal_inv_restart:
  assumes "log_ok n ms" and "log_ok n ss"
  defines "ps \<equiv> pending ms ss"
  defines "m \<equiv> (if ps = [] then snapshot_seq ss else sequence (last ps))"
  shows "journal_inv \<lparr>persistence_id = p, last_sequence_id = m,
           last_snapshot_sequence_id = map_option sequence (last_option ss),
           journal_types = types\<rparr> ms ss"
proof -
  have le: "snapshot_seq ss \<le> m"
    using snapshot_seq_le_pending [OF assms(1)] by (simp add: m_def ps_def)
  moreover have "log_ok m ms" unfolding m_def ps_def by (rule pending_bounds [OF assms(1)])
  moreover have "log_ok m ss" using snapshot_seq_bounds(1) [OF assms(2)] le by (rule log_ok_mono)
  ultimately show ?thesis
    using snapshot_seq_bounds(2) [OF assms(2)]
    by (auto simp: journal_inv_defs snapshot_seq_def split: option.splits)
qed

lemma journal_inv_shrink:
  assumes "journal_inv j ms ss"
  shows "journal_inv j (filter P ms) ss" and "journal_inv j [] []"
  using assms by (auto simp: journal_inv_defs log_ok_filter last_option_def split: if_splits)

text \<open>
  Deleting the messages before the snapshot the journal remembers takes away nothing that a
  recovery reads.
\<close>

lemma pending_clear_old:
  assumes "journal_inv j ms ss" and "last_snapshot_sequence_id j = Some s"
  shows "pending (filter (\<lambda>e. s \<le> sequence e) ms) ss = pending ms ss"
proof (cases "last_option ss")
  case None
  then have "\<forall>m\<in>set ms. s \<le> sequence m" using assms by (auto simp: journal_inv_defs)
  then show ?thesis using None by (simp add: pending_def)
next
  case (Some e)
  then have "s \<le> sequence e" using assms by (auto simp: journal_inv_defs)
  show ?thesis
  proof (cases "sequence e = 0")
    case True
    then have "filter (\<lambda>m. s \<le> sequence m) ms = ms"
      using assms(1) \<open>s \<le> sequence e\<close> by (intro filter_True) (fastforce simp: journal_inv_defs log_ok_def)
    with Some True show ?thesis by (simp add: pending_def)
  next
    case False
    have "filter (\<lambda>m. sequence e < sequence m) (filter (\<lambda>m. s \<le> sequence m) ms) =
          filter (\<lambda>m. sequence e < sequence m) ms"
      using \<open>s \<le> sequence e\<close> by (auto intro: filter_cong)
    with Some False show ?thesis by (simp add: pending_def)
  qed
qed

context journal_store
begin

lemma clear_old_cases:
  assumes "clear_old_messages ops j st = (True, st')" and "seq_sorted (msgs st (persistence_id j))"
  obtains s where "last_snapshot_sequence_id j = Some s" "snaps st' = snaps st"
    "msgs st' = (msgs st)(persistence_id j := filter (\<lambda>e. s \<le> sequence e) (msgs st (persistence_id j)))"
  using assms delete_to_ok by (auto simp: clear_old_messages_def split: option.splits sum.splits prod.splits)

abbreviation inv_at :: "'a journal \<Rightarrow> 's \<Rightarrow> bool" where
  "inv_at j st \<equiv> journal_inv j (msgs st (persistence_id j)) (snaps st (persistence_id j))"

lemma message_inv:
  assumes "persist_message ops j st t b = Inr (r, j', st')" and "last_sequence_id j < i64_max"
    and "inv_at j st"
  shows "inv_at j' st'"
  using assms(1)
proof (cases rule: persist_message_cases)
  case (ok pt)
  have n: "0 \<le> last_sequence_id j" using assms(3) by (simp add: journal_inv_defs)
  then have a: "i64_add (last_sequence_id j) 1 = last_sequence_id j + 1"
    using assms(2) by (intro i64_add_exact) auto
  show ?thesis
    using ok(4) write_message_ok [OF ok(3)] journal_inv_append [OF assms(3), of "last_sequence_id j + 1"] n
    by (auto simp: a log_ok_def)
next
  case (err pt e)
  with assms(3) write_message_err [OF err(3)] show ?thesis by simp
qed

lemma batch_inv:
  assumes "persist_batch ops j st es = (r, j', st')"
    and "last_sequence_id j + int (length es) \<le> i64_max" and "inv_at j st"
  shows "inv_at j' st'"
  using assms(1)
proof (cases rule: persist_batch_cases)
  case ok
  have n: "0 \<le> last_sequence_id j" using assms(3) by (simp add: journal_inv_defs)
  note es = number_entries_log_ok [OF n assms(2)] number_entries_exact [OF n assms(2)]
  have "\<forall>e\<in>set (fst (number_entries (last_sequence_id j) es)). last_sequence_id j \<le> sequence e"
    using es(1) by (auto intro: less_imp_le)
  then show ?thesis
    using ok(2) write_batch_ok [OF ok(3)] journal_inv_append [OF assms(3), of "last_sequence_id j + int (length es)"] es
    by auto
next
  case (err e)
  with assms(3) write_batch_err [OF err(3)] show ?thesis by simp
qed

lemma snapshot_inv:
  assumes "persist_snapshot ops j st t b = Inr (r, j', st')" and "last_sequence_id j < i64_max"
    and "inv_at j st"
  shows "inv_at j' st'"
  using assms(1)
proof (cases rule: persist_snapshot_cases)
  case (ok pt)
  have a: "i64_add (last_sequence_id j) 1 = last_sequence_id j + 1"
    using assms(2,3) by (intro i64_add_exact) (auto simp: journal_inv_defs)
  show ?thesis
    using ok(4) write_snapshot_ok [OF ok(3)] journal_inv_snapshot [OF assms(3)]
    by (simp add: a)
next
  case (err pt e)
  with assms(3) write_snapshot_err [OF err(3)] show ?thesis by simp
qed

lemma persist_keeps_id:
  "persist_message ops j st t b = Inr (r, j', st') \<Longrightarrow> persistence_id j' = persistence_id j"
  "persist_batch ops j st es = (r, j', st') \<Longrightarrow> persistence_id j' = persistence_id j"
  "persist_snapshot ops j st t b = Inr (r, j', st') \<Longrightarrow> persistence_id j' = persistence_id j"
  by (auto elim!: persist_message_cases persist_batch_cases persist_snapshot_cases)

lemma journal_step_inv:
  assumes "journal_step ops c c'" and "inv_at (fst c) (snd c)"
  shows "inv_at (fst c') (snd c') \<and> persistence_id (fst c') = persistence_id (fst c)"
  using assms
proof (induction rule: journal_step.induct)
  case (message j st t b r j' st')
  then show ?case
    using message_inv [OF message(1,2)] persist_keeps_id message(3) by auto
next
  case (batch j st es r j' st')
  then show ?case
    using batch_inv [OF batch(1,2)] persist_keeps_id batch(3) by auto
next
  case (snapshot j st t b r j' st')
  then show ?case
    using snapshot_inv [OF snapshot(1,2)] persist_keeps_id snapshot(3) by auto
next
  case (clear_old j st st')
  then have "seq_sorted (msgs st (persistence_id j))" by (auto dest: journal_inv_sorted)
  with clear_old(1) show ?case
  proof (cases rule: clear_old_cases)
    case (1 s)
    with clear_old(2) show ?thesis by (auto intro: journal_inv_shrink)
  qed
next
  case (clear j st st')
  then have "delete_all ops st (persistence_id j) = (Inr (), st')"
    by (auto simp: journal_clear_def split: prod.splits sum.splits)
  from delete_all_ok [OF this] clear show ?case by (auto intro: journal_inv_shrink)
next
  case (restart j st snap rs j')
  have logs: "log_ok (last_sequence_id j) (msgs st (persistence_id j))"
    "log_ok (last_sequence_id j) (snaps st (persistence_id j))"
    using restart(2) by (auto simp: journal_inv_defs)
  then have "seq_sorted (msgs st (persistence_id j))" by (simp add: log_ok_def)
  from restart_spec [OF restart(1) this] journal_inv_restart [OF logs] show ?case
    by (simp split del: if_split)
qed

lemma journal_reachable_inv:
  assumes "(journal_step ops)\<^sup>*\<^sup>* c c'" and "inv_at (fst c) (snd c)"
  shows "inv_at (fst c') (snd c') \<and> persistence_id (fst c') = persistence_id (fst c)"
  using assms by (induction rule: rtranclp_induct) (auto dest: journal_step_inv)

lemma journal_reachable_from_new:
  assumes "msgs st0 p = []" and "snaps st0 p = []"
    and "(journal_step ops)\<^sup>*\<^sup>* (journal_new p types, st0) (j, st)"
  shows "journal_inv j (msgs st p) (snaps st p)" and "persistence_id j = p"
proof -
  have "journal_inv (journal_new p types) (msgs st0 p) (snaps st0 p)"
    using assms(1,2) by (simp add: journal_inv_defs journal_new_def)
  with journal_reachable_inv [OF assms(3)]
  show "journal_inv j (msgs st p) (snaps st p)" "persistence_id j = p"
    by (auto simp: journal_new_def)
qed

lemma restart_after_clear_old:
  assumes inv: "journal_inv j (msgs st p) (snaps st p)" and p: "persistence_id j = p"
    and clear: "clear_old_messages ops j st = (True, st')"
    and re: "journal_restart ops p types st snap rs j1" "journal_restart ops p types st' snap' rs' j2"
  shows "snap' = snap \<and> list_of rs' = list_of rs \<and> j2 = j1"
proof -
  have sorted: "seq_sorted (msgs st (persistence_id j))" using inv p by (auto dest: journal_inv_sorted)
  from clear sorted obtain s where s: "last_snapshot_sequence_id j = Some s" "snaps st' = snaps st"
    "msgs st' = (msgs st)(p := filter (\<lambda>e. s \<le> sequence e) (msgs st p))"
    by (rule clear_old_cases) (auto simp: p)
  have sorted': "seq_sorted (msgs st p)" "seq_sorted (msgs st' p)"
    using sorted p by (auto simp: s(3) sorted_filter)
  have "pending (msgs st' p) (snaps st' p) = pending (msgs st p) (snaps st p)"
    using pending_clear_old [OF inv s(1)] by (simp add: s(2,3))
  then show ?thesis
    using restart_spec [OF re(1) sorted'(1)] restart_spec [OF re(2) sorted'(2)] s(2) by simp
qed

text \<open>A snapshot followed by more operations, read back by a restart.\<close>

lemma restart_after_snapshot:
  assumes inv: "inv_at j st" and types: "journal_types j = types"
    and snap: "persist_snapshot ops j st t b = Inr (Inr (), j1, st1)"
    and run: "run_ops ops xs j1 st1 = Some (j2, st2)"
    and bound: "last_sequence_id j + 1 + int (sum_list (map op_size xs)) \<le> i64_max"
    and re: "journal_restart ops (persistence_id j) types st2 snap' rs j3"
  shows "\<exists>pt. snapshot_type_mapping types t = Some pt \<and>
           snap' = recovered_snapshot_of types
                     \<lparr>sequence = last_sequence_id j + 1, payload_type = pt, entry_bytes = b\<rparr> \<and>
           map recovered_pair (list_of rs) =
             replayable types (concat (map (op_payloads types) (ops_after_snapshot xs)))"
  using snap
proof (cases rule: persist_snapshot_cases)
  case (ok pt)
  let ?p = "persistence_id j" and ?n = "last_sequence_id j + 1"
  have n: "0 \<le> last_sequence_id j" using inv by (simp add: journal_inv_defs)
  have a: "i64_add (last_sequence_id j) 1 = ?n" using n bound by (intro i64_add_exact) auto
  have "inv_at j1 st1" using snapshot_inv [OF snap _ inv] bound by simp
  have j1: "last_sequence_id j1 = ?n" "persistence_id j1 = ?p" "journal_types j1 = types"
    using ok(4) a types by auto
  note w = write_snapshot_ok [OF ok(3)]
  from run_ops_log [OF run] j1 n bound obtain es where es:
    "msgs st2 ?p = msgs st1 ?p @ es" "snaps st2 = snaps st1" "log_ok (last_sequence_id j2) es"
    "\<forall>e\<in>set es. ?n \<le> sequence e" "?n \<le> last_sequence_id j2"
    "map entry_payload (filter (\<lambda>e. ?n < sequence e) es) =
       concat (map (op_payloads types) (ops_after_snapshot xs))"
    by (auto simp del: map_map)
  have old: "log_ok ?n (msgs st1 ?p)" using \<open>inv_at j1 st1\<close> j1 by (auto simp: journal_inv_defs)
  then have "log_ok (last_sequence_id j2) (msgs st2 ?p)"
    using es by (auto intro: log_ok_append [of ?n])
  then have sorted: "seq_sorted (msgs st2 ?p)" by (simp add: log_ok_def)
  have last: "last_option (snaps st2 ?p) = Some \<lparr>sequence = ?n, payload_type = pt, entry_bytes = b\<rparr>"
    using w es(2) a by (simp add: last_option_def)
  have "filter (\<lambda>e. ?n < sequence e) (msgs st1 ?p) = []"
    using old by (auto simp: filter_empty_conv log_ok_def)
  then have "pending (msgs st2 ?p) (snaps st2 ?p) = filter (\<lambda>e. ?n < sequence e) es"
    using es(1) last n by (simp add: pending_def)
  with restart_spec [OF re sorted] last es(6) ok(1) types show ?thesis
    by (simp add: map_filter_recovered del: map_map)
qed simp

end

section \<open>What a restart recovers\<close>

lemma inmemory_run_op_total:
  assumes "\<And>t b. x = OpMessage t b \<Longrightarrow> message_type_mapping (journal_types j) t \<noteq> None"
  shows "\<exists>j' st'. run_op inmemory_storage x j st = Some (j', st') \<and> journal_types j' = journal_types j"
  using assms
  by (cases x)
     (auto simp: persist_message_def persist_batch_def inmemory_storage_def split_beta
        inmemory_write_message_def inmemory_write_message_batch_def split: option.splits)

lemma inmemory_run_ops_total:
  assumes "\<And>t b. OpMessage t b \<in> set xs \<Longrightarrow> message_type_mapping (journal_types j) t \<noteq> None"
  shows "\<exists>j' st'. run_ops inmemory_storage xs j st = Some (j', st')"
  using assms
proof (induction xs arbitrary: j st)
  case Nil
  then show ?case by simp
next
  case (Cons x xs)
  obtain j1 st1 where x: "run_op inmemory_storage x j st = Some (j1, st1)"
    and "journal_types j1 = journal_types j"
    using inmemory_run_op_total [of x j st] Cons.prems by auto
  with Cons.prems have "\<exists>j' st'. run_ops inmemory_storage xs j1 st1 = Some (j', st')"
    by (intro Cons.IH) auto
  with x show ?case by simp
qed

lemma inmemory_restart_total: "\<exists>snap rs j. journal_restart inmemory_storage p types st snap rs j"
  by (auto simp: journal_restart_def recover_snapshot_def recover_messages_def inmemory_storage_def
      inmemory_read_latest_snapshot_def inmemory_read_latest_messages_def split_beta
      split: option.splits sum.splits)

lemma journal_roundtrip_aux:
  assumes "hm_get store p = None"
    and "\<And>t b. OpMessage t b \<in> set xs \<Longrightarrow> message_type_mapping types t \<noteq> None"
    and "int (sum_list (map op_size xs)) \<le> i64_max"
  shows "\<exists>j' store' snap rs j''.
           run_ops inmemory_storage xs (journal_new p types) store = Some (j', store') \<and>
           journal_restart inmemory_storage p types store' snap rs j'' \<and>
           snap = None \<and>
           map recovered_pair (list_of rs) =
             replayable types (concat (map (op_payloads types) xs))"
proof -
  obtain j' store' where run: "run_ops inmemory_storage xs (journal_new p types) store = Some (j', store')"
    using inmemory_run_ops_total [of xs "journal_new p types" store] assms(2)
    by (auto simp: journal_new_def)
  obtain snap rs j'' where re: "journal_restart inmemory_storage p types store' snap rs j''"
    using inmemory_restart_total by blast
  have empty: "mem_messages store p = []" "mem_snapshots store p = []"
    using assms(1) by (simp_all add: mem_log_defs)
  from mem.run_ops_log [OF run] assms(3) empty obtain es where es:
    "mem_messages store' p = es" "mem_snapshots store' p = []" "log_ok (last_sequence_id j') es"
    "map entry_payload es = concat (map (op_payloads types) xs)"
    by (auto simp: journal_new_def)
  have sorted: "seq_sorted (mem_messages store' p)" using es(1,3) by (simp add: log_ok_def)
  have "snap = None" "list_of rs = List.map_filter (recovered_of types) es"
    using mem.restart_spec [OF re sorted] es(1,2) by (auto simp: pending_def last_option_def)
  with run re es(4) show ?thesis by (auto simp: map_filter_recovered simp del: map_map)
qed

text \<open>C2: Event sourcing round trip: whatever sequence of single messages and batches a fresh
  actor persists to the in-memory provider, every write succeeds, a restart of the actor
  succeeds, and the restart replays every persisted payload its types can recover, each exactly
  once, in the order in which they were persisted.\<close>

theorem journal_roundtrip:
  assumes "hm_get store p = None"
    and "\<And>t b. OpMessage t b \<in> set xs \<Longrightarrow> message_type_mapping types t \<noteq> None"
    and "int (sum_list (map op_size xs)) \<le> i64_max"
  shows "\<exists>j' store' snap rs j''.
           run_ops inmemory_storage xs (journal_new p types) store = Some (j', store') \<and>
           journal_restart inmemory_storage p types store' snap rs j'' \<and>
           snap = None \<and>
           map recovered_pair (list_of rs) =
             replayable types (concat (map (op_payloads types) xs))"
  by (rule journal_roundtrip_aux [OF assms])

definition ex_types :: "nat journal_types" where
  "ex_types = types_snapshot ''S'' ''s'' (\<lambda>_ _ b. Inr (length b))
     (types_message ''M'' ''m'' (\<lambda>a _ b. Inr (a + length b)) journal_types_default)"

lemma ex_types_lookup [simp]:
  "message_type_mapping ex_types t = (if t = ''M'' then Some ''m'' else None)"
  "snapshot_type_mapping ex_types t = (if t = ''S'' then Some ''s'' else None)"
  by (auto simp: message_type_mapping_def snapshot_type_mapping_def ex_types_def types_message_def
      types_snapshot_def journal_types_default_def)

theorem journal_roundtrip_witness:
  "\<exists>j' store' snap rs j''.
     run_ops inmemory_storage
       [OpMessage ''M'' [1], OpBatch [\<lparr>batched_payload_type = ''m'', batched_bytes = [2, 3]\<rparr>]]
       (journal_new ''a'' ex_types) [] = Some (j', store') \<and>
     journal_restart inmemory_storage ''a'' ex_types store' snap rs j'' \<and>
     snap = None \<and>
     map recovered_pair (list_of rs) = replayable ex_types [(''m'', [1]), (''m'', [2, 3])]"
  using journal_roundtrip [of "[]" "''a''"
      "[OpMessage ''M'' [1], OpBatch [\<lparr>batched_payload_type = ''m'', batched_bytes = [2, 3]\<rparr>]]"
      ex_types]
  by (simp add: i64_max_def split: if_splits)

text \<open>C4: For every storage provider that satisfies the storage contract, in every state a journal
  reaches from an empty log (writes that succeed or fail, snapshots, deletions, restarts): the
  stored messages and the snapshots are sorted by sequence number, no sequence number is
  negative or beyond the journal's counter, and the remembered snapshot lies at or before the one
  recovery starts from.\<close>

theorem journal_invariant:
  assumes "journal_store ops msgs snaps" and "msgs st0 p = []" and "snaps st0 p = []"
    and "(journal_step ops)\<^sup>*\<^sup>* (journal_new p types, st0) (j, st)"
  shows "journal_inv j (msgs st p) (snaps st p)"
  by (rule journal_store.journal_reachable_from_new(1) [OF assms])

lemma ex_run:
  "(journal_step inmemory_storage)\<^sup>*\<^sup>* (journal_new ''a'' ex_types, [])
     (\<lparr>persistence_id = ''a'', last_sequence_id = 2, last_snapshot_sequence_id = Some 2,
       journal_types = ex_types\<rparr>,
      [(''a'', \<lparr>snapshots = [\<lparr>sequence = 2, payload_type = ''s'', entry_bytes = [9]\<rparr>],
               messages = [\<lparr>sequence = 0, payload_type = ''m'', entry_bytes = [1]\<rparr>]\<rparr>)])"
proof -
  let ?j = "\<lparr>persistence_id = ''a'', last_sequence_id = 1, last_snapshot_sequence_id = None,
             journal_types = ex_types\<rparr>"
  let ?st = "[(''a'', \<lparr>snapshots = [],
                     messages = [\<lparr>sequence = 0, payload_type = ''m'', entry_bytes = [1]\<rparr>]\<rparr>)]"
  have "journal_step inmemory_storage (journal_new ''a'' ex_types, []) (?j, ?st)"
    by (rule journal_step.message [where t = "''M''" and b = "[1]" and r = "Inr ()"])
       (simp_all add: persist_message_def journal_new_def inmemory_defs i64_add_exact i64_max_def)
  moreover have "journal_step inmemory_storage (?j, ?st)
     (\<lparr>persistence_id = ''a'', last_sequence_id = 2, last_snapshot_sequence_id = Some 2,
       journal_types = ex_types\<rparr>,
      [(''a'', \<lparr>snapshots = [\<lparr>sequence = 2, payload_type = ''s'', entry_bytes = [9]\<rparr>],
               messages = [\<lparr>sequence = 0, payload_type = ''m'', entry_bytes = [1]\<rparr>]\<rparr>)])"
    by (rule journal_step.snapshot [where t = "''S''" and b = "[9]" and r = "Inr ()"])
       (simp_all add: persist_snapshot_def inmemory_defs i64_add_exact i64_max_def)
  ultimately show ?thesis by (rule converse_rtranclp_into_rtranclp [OF _ r_into_rtranclp])
qed

theorem journal_invariant_witness:
  "journal_inv \<lparr>persistence_id = ''a'', last_sequence_id = 2, last_snapshot_sequence_id = Some 2,
                journal_types = ex_types\<rparr>
     [\<lparr>sequence = 0, payload_type = ''m'', entry_bytes = [1]\<rparr>]
     [\<lparr>sequence = 2, payload_type = ''s'', entry_bytes = [9]\<rparr>]"
  using journal_invariant [OF mem.journal_store_axioms _ _ ex_run]
  by (simp add: mem_log_defs)

text \<open>C10: For a storage provider that satisfies the storage contract, clearing the messages
  that a snapshot made obsolete never changes what the actor recovers: in every reachable state,
  a restart after \<open>clear_old_messages\<close> yields the same snapshot, the same messages in the same
  order and the same journal as a restart before it. The in-memory provider satisfies the contract. The Redis provider
  does not: it reads and deletes up to and including the bound, and loses a message this way (theory \<open>Redis_Journal\<close>).\<close>

theorem clear_old_keeps_recovery:
  assumes "journal_store ops msgs snaps" and "msgs st0 p = []" and "snaps st0 p = []"
    and "(journal_step ops)\<^sup>*\<^sup>* (journal_new p types, st0) (j, st)"
    and "clear_old_messages ops j st = (True, st')"
    and "journal_restart ops p types st snap rs j1"
    and "journal_restart ops p types st' snap' rs' j2"
  shows "snap' = snap \<and> list_of rs' = list_of rs \<and> j2 = j1"
  using journal_store.journal_reachable_from_new [OF assms(1-4)]
  by (rule journal_store.restart_after_clear_old [OF assms(1) _ _ assms(5-7)])

theorem clear_old_keeps_recovery_witness:
  "\<exists>st' snap rs j1 snap' rs' j2.
     clear_old_messages inmemory_storage
       \<lparr>persistence_id = ''a'', last_sequence_id = 2, last_snapshot_sequence_id = Some 2,
        journal_types = ex_types\<rparr>
       [(''a'', \<lparr>snapshots = [\<lparr>sequence = 2, payload_type = ''s'', entry_bytes = [9]\<rparr>],
                messages = [\<lparr>sequence = 0, payload_type = ''m'', entry_bytes = [1]\<rparr>]\<rparr>)] = (True, st') \<and>
     mem_messages st' ''a'' = [] \<and>
     journal_restart inmemory_storage ''a'' ex_types
       [(''a'', \<lparr>snapshots = [\<lparr>sequence = 2, payload_type = ''s'', entry_bytes = [9]\<rparr>],
                messages = [\<lparr>sequence = 0, payload_type = ''m'', entry_bytes = [1]\<rparr>]\<rparr>)] snap rs j1 \<and>
     journal_restart inmemory_storage ''a'' ex_types st' snap' rs' j2 \<and>
     snap' = snap \<and> list_of rs' = list_of rs \<and> j2 = j1"
proof -
  let ?j = "\<lparr>persistence_id = ''a'', last_sequence_id = 2, last_snapshot_sequence_id = Some 2,
             journal_types = ex_types\<rparr>"
  let ?st = "[(''a'', \<lparr>snapshots = [\<lparr>sequence = 2, payload_type = ''s'', entry_bytes = [9]\<rparr>],
                     messages = [\<lparr>sequence = 0, payload_type = ''m'', entry_bytes = [1]\<rparr>]\<rparr>)]"
  let ?st' = "[(''a'', \<lparr>snapshots = [\<lparr>sequence = 2, payload_type = ''s'', entry_bytes = [9]\<rparr>],
                     messages = []\<rparr>)]"
  have c: "clear_old_messages inmemory_storage ?j ?st = (True, ?st')"
    by (simp add: clear_old_messages_def inmemory_defs)
  obtain snap rs j1 where r1: "journal_restart inmemory_storage ''a'' ex_types ?st snap rs j1"
    using inmemory_restart_total by blast
  obtain snap' rs' j2 where r2: "journal_restart inmemory_storage ''a'' ex_types ?st' snap' rs' j2"
    using inmemory_restart_total by blast
  show ?thesis
    using clear_old_keeps_recovery [OF mem.journal_store_axioms _ _ ex_run c r1 r2] c r1 r2
    by (auto simp: mem_log_defs)
qed

text \<open>For every storage provider that satisfies the storage contract: after a snapshot and a
  sequence of further operations, a restart recovers that snapshot and replays, in order, the
  payloads of those operations except the first single message (when no non-empty batch
  precedes it): \<open>persist_message\<close> gives it the sequence number of the snapshot itself, and recovery
  reads only beyond that number. Batches written after a snapshot are all recovered.\<close>

theorem recovery_after_snapshot:
  assumes "journal_store ops msgs snaps" and "journal_types j = types"
    and "journal_inv j (msgs st (persistence_id j)) (snaps st (persistence_id j))"
    and "persist_snapshot ops j st t b = Inr (Inr (), j1, st1)"
    and "run_ops ops xs j1 st1 = Some (j2, st2)"
    and "last_sequence_id j + 1 + int (sum_list (map op_size xs)) \<le> i64_max"
    and "journal_restart ops (persistence_id j) types st2 snap rs j3"
  shows "\<exists>pt. snapshot_type_mapping types t = Some pt \<and>
           snap = recovered_snapshot_of types
                    \<lparr>sequence = last_sequence_id j + 1, payload_type = pt, entry_bytes = b\<rparr> \<and>
           map recovered_pair (list_of rs) =
             replayable types (concat (map (op_payloads types) (ops_after_snapshot xs)))"
  by (rule journal_store.restart_after_snapshot [OF assms(1,3,2,4-7)])

theorem recovery_after_snapshot_witness:
  "\<exists>j1 st1 j2 st2 snap rs j3.
     persist_snapshot inmemory_storage (journal_new ''a'' ex_types) [] ''S'' [9] = Inr (Inr (), j1, st1) \<and>
     run_ops inmemory_storage [OpMessage ''M'' [1], OpMessage ''M'' [2]] j1 st1 = Some (j2, st2) \<and>
     journal_restart inmemory_storage ''a'' ex_types st2 snap rs j3 \<and>
     map recovered_pair (list_of rs) = replayable ex_types [(''m'', [2])]"
proof -
  let ?j = "journal_new ''a'' ex_types"
  obtain j1 st1 where s: "persist_snapshot inmemory_storage ?j [] ''S'' [9] = Inr (Inr (), j1, st1)"
    by (simp add: persist_snapshot_def journal_new_def inmemory_defs Let_def)
  then have "journal_types j1 = ex_types"
    by (auto simp: journal_new_def elim!: persist_snapshot_cases)
  then obtain j2 st2 where r: "run_ops inmemory_storage [OpMessage ''M'' [1], OpMessage ''M'' [2]] j1 st1
      = Some (j2, st2)"
    using inmemory_run_ops_total [of "[OpMessage ''M'' [1], OpMessage ''M'' [2]]" j1 st1]
    by (fastforce simp del: run_ops.simps split: if_splits)
  obtain snap rs j3 where re: "journal_restart inmemory_storage ''a'' ex_types st2 snap rs j3"
    using inmemory_restart_total by blast
  have "map recovered_pair (list_of rs) = replayable ex_types [(''m'', [2])]"
    using recovery_after_snapshot [OF mem.journal_store_axioms, of ?j ex_types "[]" "''S''" "[9]" j1 st1
        "[OpMessage ''M'' [1], OpMessage ''M'' [2]]" j2 st2 snap rs j3] s r re
    by (auto simp: journal_new_def mem_log_defs journal_inv_defs i64_max_def simp del: run_ops.simps)
  with s r re show ?thesis by blast
qed

end
