(* ===== verification/Actor_Context.thy ===== *)
theory Actor_Context
  imports Messaging
begin

text \<open>
  The local actor runtime, part one: references and mailboxes (\<open>actor/refs/mod.rs\<close>), the actor
  context (\<open>actor/context.rs\<close>), supervision (\<open>actor/supervised.rs\<close>) and watchers
  (\<open>actor/watch\<close>).

  A reference carries the number of the mailbox it sends to, so that two references with one
  actor id can be told apart; a one-shot sender is a number. The persistence part of a context
  is kept beside it, in the theory of persistent actors.
\<close>

section \<open>References and mailboxes\<close>

type_synonym sender = nat
type_synonym mailbox_id = nat

record actor_ref =
  ref_id :: actor_id
  ref_path :: actor_path
  ref_type :: type_name
  ref_mailbox :: mailbox_id

text \<open>An unbounded channel: the queued messages, or \<open>None\<close> once the receiver is dropped.\<close>

type_synonym 'q mailbox = "'q list option"

definition local_notify :: "'q \<Rightarrow> 'q mailbox \<Rightarrow> (actor_ref_err + unit) \<times> 'q mailbox" where
  "local_notify msg mb =
     (case mb of Some q \<Rightarrow> (Inr (), Some (q @ [msg])) | None \<Rightarrow> (Inl InvalidRef, None))"

text \<open>\<open>deliver\<close> is \<open>notify\<close> of a message that carries the caller's result sender.\<close>

definition local_deliver ::
  "'m \<Rightarrow> sender \<Rightarrow> ('m \<times> sender option) mailbox \<Rightarrow>
   (actor_ref_err + unit) \<times> ('m \<times> sender option) mailbox" where
  "local_deliver msg result_sender mb = local_notify (msg, Some result_sender) mb"

text \<open>
  \<open>send\<close> waits for the reply; \<open>reply\<close> is what the one-shot receiver yields, \<open>None\<close> when the
  sender was dropped without a result.
\<close>

definition local_send ::
  "'m \<Rightarrow> sender \<Rightarrow> 'r option \<Rightarrow> ('m \<times> sender option) mailbox \<Rightarrow>
   (actor_ref_err + 'r) \<times> ('m \<times> sender option) mailbox" where
  "local_send msg tx reply mb =
     (case local_notify (msg, Some tx) mb of
        (Inr _, mb') \<Rightarrow> ((case reply of Some res \<Rightarrow> Inr res | None \<Rightarrow> Inl ResultChannelClosed), mb')
      | (Inl _, mb') \<Rightarrow> (Inl InvalidRef, mb'))"

definition local_stop ::
  "(sender option \<Rightarrow> 'q) \<Rightarrow> sender \<Rightarrow> unit option \<Rightarrow> 'q mailbox \<Rightarrow>
   (actor_ref_err + unit) \<times> 'q mailbox" where
  "local_stop mk_stop tx stopped mb =
     (case local_notify (mk_stop (Some tx)) mb of
        (Inr _, mb') \<Rightarrow> ((case stopped of Some _ \<Rightarrow> Inr () | None \<Rightarrow> Inl InvalidRef), mb')
      | (res, mb') \<Rightarrow> (res, mb'))"

section \<open>Supervision\<close>

datatype child_kind = Spawned | Attached

record child_ref =
  child_type :: child_kind
  child_actor_ref :: actor_ref

definition child_spawned :: "actor_ref \<Rightarrow> child_ref" where
  "child_spawned r = \<lparr>child_type = Spawned, child_actor_ref = r\<rparr>"

definition child_attached :: "actor_ref \<Rightarrow> child_ref" where
  "child_attached r = \<lparr>child_type = Attached, child_actor_ref = r\<rparr>"

definition is_attached :: "child_ref \<Rightarrow> bool" where
  "is_attached c \<longleftrightarrow> child_type c = Attached"

record supervised =
  sup_actor_id :: actor_id
  sup_path :: actor_path
  children :: "(actor_id, child_ref) hash_map"

definition supervised_new :: "actor_id \<Rightarrow> actor_path \<Rightarrow> supervised" where
  "supervised_new aid path = \<lparr>sup_actor_id = aid, sup_path = path, children = []\<rparr>"

text \<open>
  \<open>start_actor\<close> makes a reference to a fresh mailbox and runs the actor's loop as a task of its
  own. \<open>started\<close> tells whether that task signalled that the actor has started.
\<close>

definition start_actor :: "type_name \<Rightarrow> actor_id \<Rightarrow> actor_path \<Rightarrow> mailbox_id \<Rightarrow> actor_ref" where
  "start_actor ty aid path mb =
     \<lparr>ref_id = aid, ref_path = path, ref_type = ty, ref_mailbox = mb\<rparr>"

definition supervised_spawn ::
  "actor_id \<Rightarrow> type_name \<Rightarrow> mailbox_id \<Rightarrow> bool \<Rightarrow> supervised \<Rightarrow>
   (actor_ref_err + actor_ref) \<times> supervised" where
  "supervised_spawn aid ty mb started s =
     (case hm_get (children s) aid of
        Some _ \<Rightarrow> (Inl (AlreadyExists aid), s)
      | None \<Rightarrow>
          (let r = start_actor ty aid (sup_path s) mb;
               s' = s\<lparr>children := hm_insert aid (child_spawned r) (children s)\<rparr>
           in (if started then Inr r else Inl ActorStartFailed, s')))"

definition supervised_spawn_deferred ::
  "actor_id \<Rightarrow> type_name \<Rightarrow> mailbox_id \<Rightarrow> supervised \<Rightarrow>
   (actor_ref_err + actor_ref) \<times> supervised" where
  "supervised_spawn_deferred aid ty mb s =
     (case hm_get (children s) aid of
        Some _ \<Rightarrow> (Inl (AlreadyExists aid), s)
      | None \<Rightarrow>
          (let r = start_actor ty aid (sup_path s) mb
           in (Inr r, s\<lparr>children := hm_insert aid (child_spawned r) (children s)\<rparr>)))"

definition supervised_count :: "supervised \<Rightarrow> nat" where
  "supervised_count s = length (children s)"

text \<open>\<open>as_actor\<close> is a downcast: it succeeds on a reference to an actor of the requested type.\<close>

definition as_actor :: "type_name \<Rightarrow> actor_ref \<Rightarrow> actor_ref option" where
  "as_actor ty r = (if ref_type r = ty then Some r else None)"

definition supervised_child :: "type_name \<Rightarrow> actor_id \<Rightarrow> supervised \<Rightarrow> actor_ref option" where
  "supervised_child ty aid s =
     Option.bind (hm_get (children s) aid) (\<lambda>c. as_actor ty (child_actor_ref c))"

definition supervised_child_boxed :: "actor_id \<Rightarrow> supervised \<Rightarrow> actor_ref option" where
  "supervised_child_boxed aid s = map_option child_actor_ref (hm_get (children s) aid)"

definition supervised_attach :: "actor_ref \<Rightarrow> supervised \<Rightarrow> supervised" where
  "supervised_attach r s = s\<lparr>children := hm_insert (ref_id r) (child_attached r) (children s)\<rparr>"

definition supervised_add :: "actor_ref \<Rightarrow> supervised \<Rightarrow> child_ref option \<times> supervised" where
  "supervised_add r s =
     (hm_get (children s) (ref_id r),
      s\<lparr>children := hm_insert (ref_id r) (child_spawned r) (children s)\<rparr>)"

text \<open>
  \<open>stop_all\<close> stops every child at once and removes those whose stop succeeded; \<open>stop\<close> is the
  result of stopping the actor behind a reference.
\<close>

definition supervised_stop_all :: "(actor_ref \<Rightarrow> actor_ref_err + unit) \<Rightarrow> supervised \<Rightarrow> supervised" where
  "supervised_stop_all stop s =
     (let stop_results = map (\<lambda>(aid, c). (aid, stop (child_actor_ref c))) (children s)
      in s\<lparr>children := fold (\<lambda>(aid, res) m. case res of Inr _ \<Rightarrow> hm_remove aid m | Inl _ \<Rightarrow> m)
                         stop_results (children s)\<rparr>)"

definition supervised_on_child_stopped :: "actor_id \<Rightarrow> supervised \<Rightarrow> supervised" where
  "supervised_on_child_stopped aid s = s\<lparr>children := hm_remove aid (children s)\<rparr>"

section \<open>The actor context\<close>

datatype actor_status = Starting | Started | Stopping | Stopped

datatype actor_tags = NoTags | Tag string | Tags "string list"

record actor_context =
  context_id :: u64
  status :: actor_status
  boxed_ref :: actor_ref
  boxed_parent_ref :: "actor_ref option"
  ctx_supervised :: "supervised option"
  ctx_system :: "string option"
  on_actor_stopped :: "sender list option"
  tags :: actor_tags
  full_path :: actor_path
  watchers :: "(actor_id, actor_ref) hash_map option"

text \<open>\<open>AtomicU64::fetch_add\<close> wraps.\<close>

definition next_context_id :: "u64 \<Rightarrow> u64 \<times> u64" where
  "next_context_id counter = (counter, counter + 1)"

definition actor_context_new ::
  "string option \<Rightarrow> u64 \<Rightarrow> actor_status \<Rightarrow> actor_ref \<Rightarrow> actor_tags \<Rightarrow> actor_context \<times> u64" where
  "actor_context_new sys counter st r tgs =
     (let (cid, counter') = (case sys of None \<Rightarrow> (0, counter) | Some _ \<Rightarrow> next_context_id counter)
      in (\<lparr>context_id = cid, status = st, boxed_ref = r, boxed_parent_ref = None,
           ctx_supervised = None, ctx_system = sys, on_actor_stopped = None, tags = tgs,
           full_path = ref_path r @ ''/'' @ ref_id r, watchers = None\<rparr>, counter'))"

definition add_on_stopped_handler :: "sender \<Rightarrow> actor_context \<Rightarrow> actor_context" where
  "add_on_stopped_handler tx ctx =
     ctx\<lparr>on_actor_stopped :=
           (case on_actor_stopped ctx of Some handlers \<Rightarrow> Some (handlers @ [tx]) | None \<Rightarrow> Some [tx])\<rparr>"

definition ctx_stop :: "sender option \<Rightarrow> actor_context \<Rightarrow> actor_context" where
  "ctx_stop on_stopped_handler ctx =
     (case on_stopped_handler of Some tx \<Rightarrow> add_on_stopped_handler tx ctx | None \<Rightarrow> ctx)
       \<lparr>status := Stopping\<rparr>"

definition take_on_stopped_handlers :: "actor_context \<Rightarrow> sender list option \<times> actor_context" where
  "take_on_stopped_handlers ctx = (on_actor_stopped ctx, ctx\<lparr>on_actor_stopped := None\<rparr>)"

definition ctx_attach_child_ref :: "actor_ref \<Rightarrow> actor_context \<Rightarrow> actor_context" where
  "ctx_attach_child_ref r ctx =
     (let s = (case ctx_supervised ctx of
                 None \<Rightarrow> supervised_new (ref_id (boxed_ref ctx)) (ref_path (boxed_ref ctx))
               | Some s \<Rightarrow> s)
      in ctx\<lparr>ctx_supervised := Some (supervised_attach r s)\<rparr>)"

definition supervised_or_new :: "actor_context \<Rightarrow> supervised" where
  "supervised_or_new ctx =
     (case ctx_supervised ctx of
        Some s \<Rightarrow> s
      | None \<Rightarrow> supervised_new (ref_id (boxed_ref ctx)) (full_path ctx))"

definition ctx_add_child_ref :: "actor_ref \<Rightarrow> actor_context \<Rightarrow> child_ref option \<times> actor_context" where
  "ctx_add_child_ref r ctx =
     (let (prev, s) = supervised_add r (supervised_or_new ctx)
      in (prev, ctx\<lparr>ctx_supervised := Some s\<rparr>))"

text \<open>\<open>system.as_ref().unwrap()\<close> panics in a context without a system.\<close>

definition ctx_spawn ::
  "actor_id \<Rightarrow> type_name \<Rightarrow> mailbox_id \<Rightarrow> bool \<Rightarrow> actor_context \<Rightarrow>
   ((actor_ref_err + actor_ref) \<times> actor_context) may_panic" where
  "ctx_spawn aid ty mb started ctx =
     (case ctx_system ctx of
        None \<Rightarrow> Inl (Panic ''called unwrap on a None value'')
      | Some _ \<Rightarrow>
          (let (res, s) = supervised_spawn aid ty mb started (supervised_or_new ctx)
           in Inr (res, ctx\<lparr>ctx_supervised := Some s\<rparr>)))"

definition ctx_spawn_deferred ::
  "actor_id \<Rightarrow> type_name \<Rightarrow> mailbox_id \<Rightarrow> actor_context \<Rightarrow>
   ((actor_ref_err + actor_ref) \<times> actor_context) may_panic" where
  "ctx_spawn_deferred aid ty mb ctx =
     (case ctx_system ctx of
        None \<Rightarrow> Inl (Panic ''called unwrap on a None value'')
      | Some _ \<Rightarrow>
          (let (res, s) = supervised_spawn_deferred aid ty mb (supervised_or_new ctx)
           in Inr (res, ctx\<lparr>ctx_supervised := Some s\<rparr>)))"

definition ctx_supervised_count :: "actor_context \<Rightarrow> nat" where
  "ctx_supervised_count ctx = (case ctx_supervised ctx of None \<Rightarrow> 0 | Some s \<Rightarrow> supervised_count s)"

definition ctx_boxed_child_ref :: "actor_id \<Rightarrow> actor_context \<Rightarrow> actor_ref option" where
  "ctx_boxed_child_ref aid ctx = Option.bind (ctx_supervised ctx) (supervised_child_boxed aid)"

section \<open>Watchers\<close>

definition watchers_mut :: "actor_context \<Rightarrow> (actor_id, actor_ref) hash_map" where
  "watchers_mut ctx = (case watchers ctx of Some w \<Rightarrow> w | None \<Rightarrow> [])"

definition add_watcher :: "actor_ref \<Rightarrow> actor_context \<Rightarrow> actor_context" where
  "add_watcher watcher ctx =
     ctx\<lparr>watchers := Some (hm_insert (ref_id watcher) watcher (watchers_mut ctx))\<rparr>"

definition remove_watcher :: "actor_id \<Rightarrow> actor_context \<Rightarrow> actor_context" where
  "remove_watcher aid ctx = ctx\<lparr>watchers := Some (hm_remove aid (watchers_mut ctx))\<rparr>"

definition take_watchers :: "actor_context \<Rightarrow> (actor_id, actor_ref) hash_map option \<times> actor_context" where
  "take_watchers ctx = (watchers ctx, ctx\<lparr>watchers := None\<rparr>)"

section \<open>Lemmas\<close>

lemma ctx_stop_status [simp]: "status (ctx_stop h ctx) = Stopping"
  by (simp add: ctx_stop_def)


definition stopped_handlers :: "actor_context \<Rightarrow> sender list" where
  "stopped_handlers ctx = (case on_actor_stopped ctx of Some hs \<Rightarrow> hs | None \<Rightarrow> [])"

lemma stopped_handlers_stop [simp]:
  "stopped_handlers (ctx_stop h ctx) = stopped_handlers ctx @ (case h of Some tx \<Rightarrow> [tx] | None \<Rightarrow> [])"
  by (simp add: stopped_handlers_def ctx_stop_def add_on_stopped_handler_def split: option.splits)

text \<open>The children of a supervisor: keyed by their own ids.\<close>

definition children_ok :: "supervised \<Rightarrow> bool" where
  "children_ok s \<longleftrightarrow>
     hm_wf (children s) \<and> (\<forall>aid c. hm_get (children s) aid = Some c \<longrightarrow> ref_id (child_actor_ref c) = aid)"

lemma children_ok_new [inv_intros]: "children_ok (supervised_new aid path)"
  by (simp add: children_ok_def supervised_new_def)

lemma children_ok_spawn [inv_intros]:
  "children_ok s \<Longrightarrow> children_ok (snd (supervised_spawn aid ty mb started s))"
  by (auto simp: children_ok_def supervised_spawn_def child_spawned_def start_actor_def Let_def
      split: option.splits)

lemma children_ok_spawn_deferred [inv_intros]:
  "children_ok s \<Longrightarrow> children_ok (snd (supervised_spawn_deferred aid ty mb s))"
  by (auto simp: children_ok_def supervised_spawn_deferred_def child_spawned_def start_actor_def Let_def
      split: option.splits)

lemma children_ok_attach [inv_intros]: "children_ok s \<Longrightarrow> children_ok (supervised_attach r s)"
  by (auto simp: children_ok_def supervised_attach_def child_attached_def)

lemma children_ok_add [inv_intros]: "children_ok s \<Longrightarrow> children_ok (snd (supervised_add r s))"
  by (auto simp: children_ok_def supervised_add_def child_spawned_def)

lemma children_ok_stopped [inv_intros]: "children_ok s \<Longrightarrow> children_ok (supervised_on_child_stopped aid s)"
  by (auto simp: children_ok_def supervised_on_child_stopped_def)

text \<open>\<open>stop_all\<close> leaves exactly the children whose stop failed.\<close>

lemma fold_remove_stopped:
  "fold (\<lambda>(aid, res) m. case res of Inr _ \<Rightarrow> hm_remove aid m | Inl _ \<Rightarrow> m) rs m =
     filter (\<lambda>(aid, c). \<forall>res. (aid, res) \<in> set rs \<longrightarrow> isl res) m"
proof (induction rs arbitrary: m)
  case Nil
  then show ?case by (simp add: case_prod_unfold)
next
  case (Cons r rs)
  obtain aid res where "r = (aid, res)" by (cases r)
  then show ?case
    using Cons.IH by (cases res) (auto simp: hm_remove_filter intro!: filter_cong)
qed

lemma stop_result_unique:
  assumes "hm_wf m" and "(aid, c) \<in> set m"
  shows "(aid, res) \<in> set (map (\<lambda>(aid, c). (aid, f c)) m) \<longleftrightarrow> res = f c"
proof
  assume "(aid, res) \<in> set (map (\<lambda>(aid, c). (aid, f c)) m)"
  then obtain c' where c': "(aid, c') \<in> set m" "res = f c'" by auto
  from eq_key_imp_eq_value [OF assms(1) c'(1) assms(2)] c'(2) show "res = f c" by simp
next
  assume "res = f c"
  with assms(2) show "(aid, res) \<in> set (map (\<lambda>(aid, c). (aid, f c)) m)" by force
qed

lemma stop_all_children:
  assumes "hm_wf (children s)"
  shows "children (supervised_stop_all stop s) =
           filter (\<lambda>(aid, c). isl (stop (child_actor_ref c))) (children s)"
proof -
  let ?rs = "map (\<lambda>(aid, c). (aid, stop (child_actor_ref c))) (children s)"
  have "children (supervised_stop_all stop s) =
          filter (\<lambda>(aid, c). \<forall>res. (aid, res) \<in> set ?rs \<longrightarrow> isl res) (children s)"
    by (simp add: supervised_stop_all_def fold_remove_stopped)
  also have "\<dots> = filter (\<lambda>(aid, c). isl (stop (child_actor_ref c))) (children s)"
  proof (rule filter_cong [OF refl], clarify)
    fix aid c
    assume "(aid, c) \<in> set (children s)"
    note u = stop_result_unique [OF assms this, where f = "\<lambda>c. stop (child_actor_ref c)"]
    show "(\<forall>res. (aid, res) \<in> set ?rs \<longrightarrow> isl res) \<longleftrightarrow> isl (stop (child_actor_ref c))"
      by (simp only: u) simp
  qed
  finally show ?thesis .
qed

lemma children_ok_stop_all [inv_intros]: "children_ok s \<Longrightarrow> children_ok (supervised_stop_all stop s)"
  by (auto simp: children_ok_def stop_all_children hm_get_in_set distinct_map_filter)

end
