(* ===== verification/Actor_Lifecycle.thy ===== *)
theory Actor_Lifecycle
  imports Actor_Context
begin

text \<open>
  The local actor runtime, part two: the message loop of an actor (\<open>actor/lifecycle.rs\<close>), what
  happens when its context is dropped (\<open>actor/context.rs\<close>), the registry of tracked actors
  (\<open>actor/scheduler/mod.rs\<close>) with the spawning functions of \<open>actor/system/mod.rs\<close>, and worker
  pools (\<open>actor/worker.rs\<close>).

  An actor type is a record of its hooks and its handler for user messages; what the actor does
  to the outside is a list of events in the order in which the code performs them. A mailbox is
  the list of messages that arrive before the receiver is dropped. Tracing, metrics and a panic
  inside a user handler are not modelled.
\<close>

section \<open>The actor loop\<close>

record ('a, 'u, 'e) actor_impl =
  hook_started :: "'a \<Rightarrow> actor_context \<Rightarrow> 'a \<times> actor_context"
  hook_stopped :: "'a \<Rightarrow> actor_context \<Rightarrow> 'a \<times> actor_context"
  hook_child_stopped :: "actor_id \<Rightarrow> 'a \<Rightarrow> actor_context \<Rightarrow> 'a \<times> actor_context"
  user_handle :: "'u \<Rightarrow> 'a \<Rightarrow> actor_context \<Rightarrow> 'a \<times> actor_context \<times> 'e list"

datatype 'u mailbox_msg =
    MStatus "sender option"
  | MStop "sender option"
  | MTerminated actor_id
  | MWatch actor_ref
  | MUnwatch actor_id
  | MUser 'u

datatype 'e actor_event =
    StartedSignal sender
  | StatusReply sender actor_status
  | UserEffect 'e
  | Deregister actor_id
  | StoppedSignal sender
  | TerminatedNotice actor_ref actor_ref
  | StopChild actor_ref
  | ChildTerminated actor_ref actor_id

fun handle_message ::
  "('a, 'u, 'e) actor_impl \<Rightarrow> 'u mailbox_msg \<Rightarrow> 'a \<Rightarrow> actor_context \<Rightarrow>
   'a \<times> actor_context \<times> 'e actor_event list" where
  "handle_message I (MStatus tx) a ctx =
     (a, ctx, case tx of Some tx \<Rightarrow> [StatusReply tx (status ctx)] | None \<Rightarrow> [])"
| "handle_message I (MStop tx) a ctx = (a, ctx_stop tx ctx, [])"
| "handle_message I (MTerminated aid) a ctx =
     (let ctx' = (case ctx_supervised ctx of
                    Some s \<Rightarrow> ctx\<lparr>ctx_supervised := Some (supervised_on_child_stopped aid s)\<rparr>
                  | None \<Rightarrow> ctx);
          (a', ctx'') = hook_child_stopped I aid a ctx'
      in (a', ctx'', []))"
| "handle_message I (MWatch w) a ctx = (a, add_watcher w ctx, [])"
| "handle_message I (MUnwatch aid) a ctx = (a, remove_watcher aid ctx, [])"
| "handle_message I (MUser u) a ctx =
     (let (a', ctx', es) = user_handle I u a ctx in (a', ctx', map UserEffect es))"

text \<open>The \<open>while let Some(msg) = receiver.recv()\<close> loop; the last component is what it leaves unread.\<close>

fun recv_loop ::
  "('a, 'u, 'e) actor_impl \<Rightarrow> 'u mailbox_msg list \<Rightarrow> 'a \<Rightarrow> actor_context \<Rightarrow>
   'a \<times> actor_context \<times> 'e actor_event list \<times> 'u mailbox_msg list" where
  "recv_loop I [] a ctx = (a, ctx, [], [])"
| "recv_loop I (m # ms) a ctx =
     (let (a', ctx', evs) = handle_message I m a ctx
      in if status ctx' = Stopping then (a', ctx', evs, ms)
         else (let (a'', ctx'', evs', rest) = recv_loop I ms a' ctx'
               in (a'', ctx'', evs @ evs', rest)))"

datatype actor_type = Tracked | Anonymous

definition is_tracked :: "actor_type \<Rightarrow> bool" where
  "is_tracked ty = (case ty of Tracked \<Rightarrow> True | _ \<Rightarrow> False)"

definition is_anon :: "actor_type \<Rightarrow> bool" where
  "is_anon ty = (case ty of Anonymous \<Rightarrow> True | _ \<Rightarrow> False)"

text \<open>
  \<open>terminated\<close> is the system's flag, \<open>dereg_ok\<close> whether the scheduler answers the
  deregistration (it is \<open>expect\<close>ed).
\<close>

definition actor_stopped ::
  "('a, 'u, 'e) actor_impl \<Rightarrow> actor_type \<Rightarrow> string option \<Rightarrow> bool \<Rightarrow> bool \<Rightarrow> 'a \<Rightarrow> actor_context \<Rightarrow>
   ('a \<times> actor_context \<times> 'e actor_event list) may_panic" where
  "actor_stopped I ty system terminated dereg_ok a ctx =
     (let (a1, ctx1) = hook_stopped I a ctx;
          ctx2 = ctx1\<lparr>status := Stopped\<rparr>;
          dereg = is_tracked ty \<and> system \<noteq> None \<and> \<not> terminated
      in if dereg \<and> \<not> dereg_ok then Inl (Panic ''de-register actor'')
         else
           (let (handlers, ctx3) = take_on_stopped_handlers ctx2;
                (ws, ctx4) = take_watchers ctx3;
                self_ref = boxed_ref ctx4
            in Inr (a1, ctx4,
                 (if dereg then [Deregister (ref_id (boxed_ref ctx))] else []) @
                 (case handlers of Some hs \<Rightarrow> map StoppedSignal hs | None \<Rightarrow> []) @
                 (case ws of Some w \<Rightarrow> map (\<lambda>r. TerminatedNotice r self_ref) (hm_values w)
                           | None \<Rightarrow> []))))"

text \<open>\<open>Drop for ActorContext\<close>: the children are stopped, then the parent is told.\<close>

definition context_dropped :: "actor_context \<Rightarrow> 'e actor_event list" where
  "context_dropped ctx =
     (case ctx_supervised ctx of
        Some s \<Rightarrow> map (\<lambda>(_, c). StopChild (child_actor_ref c)) (children s)
      | None \<Rightarrow> []) @
     (case boxed_parent_ref ctx of
        Some p \<Rightarrow> [ChildTerminated p (ref_id (boxed_ref ctx))]
      | None \<Rightarrow> [])"

datatype ('a, 'e) run_result =
    Waiting 'a actor_context "'e actor_event list"
  | Finished 'a actor_context "'e actor_event list"

definition finish_run ::
  "('a, 'u, 'e) actor_impl \<Rightarrow> actor_type \<Rightarrow> string option \<Rightarrow> bool \<Rightarrow> bool \<Rightarrow>
   'e actor_event list \<Rightarrow> 'a \<Rightarrow> actor_context \<Rightarrow> ('a, 'e) run_result may_panic" where
  "finish_run I ty system terminated dereg_ok before a ctx =
     (case actor_stopped I ty system terminated dereg_ok a ctx of
        Inl p \<Rightarrow> Inl p
      | Inr (a', ctx', evs) \<Rightarrow> Inr (Finished a' ctx' (before @ evs @ context_dropped ctx')))"

definition initial_context ::
  "string option \<Rightarrow> u64 \<Rightarrow> actor_ref \<Rightarrow> actor_tags \<Rightarrow> actor_ref option \<Rightarrow> actor_context" where
  "initial_context system counter r tgs parent =
     (fst (actor_context_new system counter Starting r tgs))\<lparr>boxed_parent_ref := parent\<rparr>"

definition actor_run ::
  "('a, 'u, 'e) actor_impl \<Rightarrow> actor_type \<Rightarrow> sender option \<Rightarrow> actor_ref \<Rightarrow> actor_ref option \<Rightarrow>
   string option \<Rightarrow> u64 \<Rightarrow> actor_tags \<Rightarrow> bool \<Rightarrow> bool \<Rightarrow> 'u mailbox_msg list \<Rightarrow> bool \<Rightarrow> 'a \<Rightarrow>
   ('a, 'e) run_result may_panic" where
  "actor_run I ty on_start r parent system counter tgs terminated dereg_ok msgs closed a =
     (let ctx = initial_context system counter r tgs parent;
          (a1, ctx1) = hook_started I a ctx
      in if status ctx1 = Stopping then finish_run I ty system terminated dereg_ok [] a1 ctx1
         else
           (let evs0 = (case on_start of Some tx \<Rightarrow> [StartedSignal tx] | None \<Rightarrow> []);
                (a2, ctx2, evs, _) = recv_loop I msgs a1 (ctx1\<lparr>status := Started\<rparr>)
            in if status ctx2 = Stopping \<or> closed
               then finish_run I ty system terminated dereg_ok (evs0 @ evs) a2 (ctx2\<lparr>status := Stopping\<rparr>)
               else Inr (Waiting a2 ctx2 (evs0 @ evs))))"

section \<open>The scheduler\<close>

text \<open>\<open>remote\<close> is the node id of the remote system, when one is attached.\<close>

record actor_scheduler =
  actors :: "(actor_id, actor_ref) hash_map"
  sched_remote :: "node_id option"

datatype scheduler_action = RemoteRegister actor_id

definition scheduler_new :: actor_scheduler where
  "scheduler_new = \<lparr>actors = [], sched_remote = None\<rparr>"

definition set_remote :: "node_id \<Rightarrow> actor_scheduler \<Rightarrow> actor_scheduler" where
  "set_remote node s = s\<lparr>sched_remote := Some node\<rparr>"

definition register_actor ::
  "actor_id \<Rightarrow> actor_ref \<Rightarrow> actor_scheduler \<Rightarrow> actor_scheduler \<times> scheduler_action list" where
  "register_actor aid r s =
     (let previous_actor = hm_get (actors s) aid;
          s' = s\<lparr>actors := hm_insert aid r (actors s)\<rparr>
      in case previous_actor of
           Some _ \<Rightarrow> (s', [])
         | None \<Rightarrow> (s', case sched_remote s of Some _ \<Rightarrow> [RemoteRegister aid] | None \<Rightarrow> []))"

definition deregister_actor :: "actor_id \<Rightarrow> actor_scheduler \<Rightarrow> actor_scheduler" where
  "deregister_actor aid s = s\<lparr>actors := hm_remove aid (actors s)\<rparr>"

definition get_actor :: "type_name \<Rightarrow> actor_id \<Rightarrow> actor_scheduler \<Rightarrow> actor_ref option" where
  "get_actor ty aid s = Option.bind (hm_get (actors s) aid) (as_actor ty)"

definition actor_count :: "actor_scheduler \<Rightarrow> nat" where
  "actor_count s = length (actors s)"

text \<open>The scheduler's own \<open>stopped\<close> hook stops every registered actor.\<close>

definition scheduler_stopped :: "(actor_ref \<Rightarrow> actor_ref_err + unit) \<Rightarrow> actor_scheduler \<Rightarrow>
   (actor_id \<times> (actor_ref_err + unit)) list" where
  "scheduler_stopped stop s = map (\<lambda>(aid, r). (aid, stop r)) (actors s)"

text \<open>
  \<open>ActorSystem::new_actor\<close>, \<open>new_actor_deferred\<close> and \<open>new_supervised_actor\<close>: the scheduler
  is \<open>None\<close> when its mailbox is closed, which both functions ignore.
\<close>

definition track_actor ::
  "actor_type \<Rightarrow> actor_id \<Rightarrow> actor_ref \<Rightarrow> actor_scheduler option \<Rightarrow>
   actor_scheduler option \<times> scheduler_action list" where
  "track_actor ty aid r sched =
     (if is_tracked ty then
        (case sched of
           Some s \<Rightarrow> (let (s', acts) = register_actor aid r s in (Some s', acts))
         | None \<Rightarrow> (None, []))
      else (sched, []))"

definition new_actor_deferred ::
  "string \<Rightarrow> type_name \<Rightarrow> actor_id \<Rightarrow> actor_type \<Rightarrow> mailbox_id \<Rightarrow> actor_scheduler option \<Rightarrow>
   actor_ref \<times> actor_scheduler option \<times> scheduler_action list" where
  "new_actor_deferred system_name type_nm aid ty mb sched =
     (let r = start_actor type_nm aid system_name mb in (r, track_actor ty aid r sched))"

definition new_actor ::
  "string \<Rightarrow> type_name \<Rightarrow> actor_id \<Rightarrow> actor_type \<Rightarrow> mailbox_id \<Rightarrow> bool \<Rightarrow> actor_scheduler option \<Rightarrow>
   (actor_ref_err + actor_ref) \<times> actor_scheduler option \<times> scheduler_action list" where
  "new_actor system_name type_nm aid ty mb started sched =
     (let (r, sched', acts) = new_actor_deferred system_name type_nm aid ty mb sched
      in (if started then Inr r else Inl ActorStartFailed, sched', acts))"

definition new_supervised_actor ::
  "string \<Rightarrow> type_name \<Rightarrow> actor_id \<Rightarrow> mailbox_id \<Rightarrow> bool \<Rightarrow> actor_ref_err + actor_ref" where
  "new_supervised_actor system_name type_nm aid mb started =
     (if started then Inr (start_actor type_nm aid system_name mb) else Inl ActorStartFailed)"

definition get_tracked_actor ::
  "type_name \<Rightarrow> actor_id \<Rightarrow> actor_scheduler option \<Rightarrow> actor_ref option" where
  "get_tracked_actor ty aid sched =
     (case sched of Some s \<Rightarrow> get_actor ty aid s | None \<Rightarrow> None)"

section \<open>Worker pools\<close>

text \<open>
  The pool's handler rotates the queue of workers and hands the task to the one it took; with no
  workers the task is dropped.
\<close>

record worker =
  workers :: "actor_ref list"

definition worker_handle :: "worker \<Rightarrow> actor_ref option \<times> worker" where
  "worker_handle w =
     (case workers w of
        [] \<Rightarrow> (None, w)
      | wk # rest \<Rightarrow> (Some wk, w\<lparr>workers := rest @ [wk]\<rparr>))"

fun worker_dispatches :: "nat \<Rightarrow> worker \<Rightarrow> actor_ref option list" where
  "worker_dispatches 0 w = []"
| "worker_dispatches (Suc n) w =
     (let (target, w') = worker_handle w in target # worker_dispatches n w')"

text \<open>\<open>Worker::new\<close>: \<open>start i\<close> is the outcome of starting the i-th worker.\<close>

fun worker_new_loop :: "(nat \<Rightarrow> actor_ref_err + actor_ref) \<Rightarrow> nat list \<Rightarrow> actor_ref list \<Rightarrow>
   actor_ref_err + actor_ref list" where
  "worker_new_loop start [] ws = Inr ws"
| "worker_new_loop start (i # is) ws =
     (case start i of Inl e \<Rightarrow> Inl e | Inr r \<Rightarrow> worker_new_loop start is (ws @ [r]))"

definition worker_new :: "(nat \<Rightarrow> actor_ref_err + actor_ref) \<Rightarrow> nat \<Rightarrow> actor_ref_err + worker" where
  "worker_new start n =
     (case worker_new_loop start [0..<n] [] of
        Inl e \<Rightarrow> Inl e
      | Inr ws \<Rightarrow> Inr \<lparr>workers = ws\<rparr>)"

definition worker_dispatch_result :: "actor_ref_err option \<Rightarrow> 'r option \<Rightarrow> actor_ref_err + 'r" where
  "worker_dispatch_result send_err res =
     (case send_err of
        Some e \<Rightarrow> Inl e
      | None \<Rightarrow> (case res of Some r \<Rightarrow> Inr r | None \<Rightarrow> Inl ResultChannelClosed))"

section \<open>Stopping an actor\<close>

text \<open>Handling a list of messages without looking at the status in between.\<close>

fun handle_all ::
  "('a, 'u, 'e) actor_impl \<Rightarrow> 'u mailbox_msg list \<Rightarrow> 'a \<Rightarrow> actor_context \<Rightarrow>
   'a \<times> actor_context \<times> 'e actor_event list" where
  "handle_all I [] a ctx = (a, ctx, [])"
| "handle_all I (m # ms) a ctx =
     (let (a1, ctx1, evs1) = handle_message I m a ctx;
          (a2, ctx2, evs2) = handle_all I ms a1 ctx1
      in (a2, ctx2, evs1 @ evs2))"

text \<open>User code that leaves the status, the stop handlers and the actor's own reference alone.\<close>

definition keeps_ctx :: "actor_context \<Rightarrow> actor_context \<Rightarrow> bool" where
  "keeps_ctx ctx ctx' \<longleftrightarrow>
     status ctx' = status ctx \<and> on_actor_stopped ctx' = on_actor_stopped ctx \<and>
     boxed_ref ctx' = boxed_ref ctx"

definition calm :: "('a, 'u, 'e) actor_impl \<Rightarrow> bool" where
  "calm I \<longleftrightarrow>
     (\<forall>a ctx. keeps_ctx ctx (snd (hook_started I a ctx))) \<and>
     (\<forall>a ctx. keeps_ctx ctx (snd (hook_stopped I a ctx))) \<and>
     (\<forall>aid a ctx. keeps_ctx ctx (snd (hook_child_stopped I aid a ctx))) \<and>
     (\<forall>u a ctx. keeps_ctx ctx (fst (snd (user_handle I u a ctx))))"

fun is_stop :: "'u mailbox_msg \<Rightarrow> bool" where
  "is_stop (MStop _) = True"
| "is_stop _ = False"

definition stop_signals :: "'e actor_event list \<Rightarrow> sender list" where
  "stop_signals evs = concat (map (\<lambda>e. case e of StoppedSignal tx \<Rightarrow> [tx] | _ \<Rightarrow> []) evs)"

lemma stop_signals_simps [simp]:
  "stop_signals [] = []" "stop_signals (xs @ ys) = stop_signals xs @ stop_signals ys"
  "stop_signals (e # xs) = (case e of StoppedSignal tx \<Rightarrow> [tx] | _ \<Rightarrow> []) @ stop_signals xs"
  by (simp_all add: stop_signals_def)

lemma stop_signals_none: "(\<And>e. e \<in> set evs \<Longrightarrow> \<forall>tx. e \<noteq> StoppedSignal tx) \<Longrightarrow> stop_signals evs = []"
  by (induction evs) (auto split: actor_event.split)

lemma stop_signals_all [simp]: "stop_signals (map StoppedSignal hs) = hs"
  by (induction hs) auto

lemma stop_signals_dropped [simp]: "stop_signals (context_dropped ctx) = []"
  by (rule stop_signals_none) (auto simp: context_dropped_def split: option.splits)

lemma handle_message_keeps:
  assumes "calm I" and "\<not> is_stop m"
  shows "keeps_ctx ctx (fst (snd (handle_message I m a ctx))) \<and>
         stop_signals (snd (snd (handle_message I m a ctx))) = []"
proof (cases m)
  case (MTerminated aid)
  with assms(1) show ?thesis
    by (auto simp: calm_def keeps_ctx_def Let_def split_beta split: option.split)
next
  case (MUser u)
  have "stop_signals (map UserEffect es) = []" for es :: "'c list" by (rule stop_signals_none) auto
  with MUser assms(1) show ?thesis by (simp add: calm_def split_beta)
next
  case (MStatus tx)
  then show ?thesis by (auto simp: keeps_ctx_def split: option.split)
qed (use assms(2) in \<open>auto simp: keeps_ctx_def add_watcher_def remove_watcher_def\<close>)

text \<open>Until the first stop request the loop handles the messages in order and never stops.\<close>

lemma recv_loop_to_stop:
  assumes "calm I" and "\<forall>m\<in>set pre. \<not> is_stop m" and "status ctx \<noteq> Stopping"
  shows "keeps_ctx ctx (fst (snd (handle_all I pre a ctx))) \<and>
         stop_signals (snd (snd (handle_all I pre a ctx))) = [] \<and>
         recv_loop I (pre @ MStop h # post) a ctx =
           (let (a', ctx', evs) = handle_all I pre a ctx in (a', ctx_stop h ctx', evs, post))"
  using assms(2,3)
proof (induction pre arbitrary: a ctx)
  case Nil
  then show ?case by (simp add: keeps_ctx_def)
next
  case (Cons m pre)
  obtain a1 ctx1 evs1 where m: "handle_message I m a ctx = (a1, ctx1, evs1)" by (cases "handle_message I m a ctx")
  have k: "keeps_ctx ctx ctx1" "stop_signals evs1 = []"
    using handle_message_keeps [OF assms(1), of m ctx a] Cons.prems m by auto
  then have "status ctx1 \<noteq> Stopping" using Cons.prems by (simp add: keeps_ctx_def)
  with Cons.IH [of ctx1 a1] Cons.prems k m show ?case
    by (auto simp: keeps_ctx_def Let_def split_beta)
qed

lemma actor_stopped_signals:
  assumes "calm I" and "dereg_ok"
  shows "\<exists>ctx' evs. actor_stopped I ty system terminated dereg_ok a ctx =
           Inr (fst (hook_stopped I a ctx), ctx', evs) \<and>
         status ctx' = Stopped \<and> stop_signals evs = stopped_handlers ctx \<and>
         (is_tracked ty \<and> system \<noteq> None \<and> \<not> terminated \<longrightarrow>
            (\<exists>evs'. evs = Deregister (ref_id (boxed_ref ctx)) # evs'))"
proof -
  have "keeps_ctx ctx (snd (hook_stopped I a ctx))" using assms(1) by (simp add: calm_def)
  with assms(2) show ?thesis
    by (auto simp: actor_stopped_def take_on_stopped_handlers_def take_watchers_def Let_def
        split_beta keeps_ctx_def stopped_handlers_def intro!: stop_signals_none split: option.split)
qed

text \<open>C38: Stopping: an actor handles the messages of its mailbox in order up to the first stop
  request and nothing queued behind it; it then runs its \<open>stopped\<close> hook on the state those
  messages left, leaves the scheduler (when it is tracked and the system is alive) before it
  answers, and signals exactly one requester: the one whose request it handled. Requests behind
  it are never answered.\<close>

theorem actor_run_stop:
  assumes "calm I" and "\<forall>m\<in>set pre. \<not> is_stop m" and "dereg_ok"
  shows "\<exists>a2 ctx2 evs ctx' evs'.
           (let (a1, ctx1) = hook_started I a (initial_context system counter r tgs parent)
            in handle_all I pre a1 (ctx1\<lparr>status := Started\<rparr>)) = (a2, ctx2, evs) \<and>
           actor_run I ty on_start r parent system counter tgs terminated dereg_ok
             (pre @ MStop h # post) closed a =
             Inr (Finished (fst (hook_stopped I a2 (ctx_stop h ctx2))) ctx'
               ((case on_start of Some tx \<Rightarrow> [StartedSignal tx] | None \<Rightarrow> []) @ evs @ evs')) \<and>
           status ctx' = Stopped \<and> stop_signals evs = [] \<and>
           stop_signals evs' = (case h of Some tx \<Rightarrow> [tx] | None \<Rightarrow> []) \<and>
           (is_tracked ty \<and> system \<noteq> None \<and> \<not> terminated \<longrightarrow>
              (\<exists>es. evs' = Deregister (ref_id r) # es))"
proof -
  define ctx0 where "ctx0 = initial_context system counter r tgs parent"
  obtain a1 ctx1 where st: "hook_started I a ctx0 = (a1, ctx1)" by (cases "hook_started I a ctx0")
  have c0: "status ctx0 = Starting" "on_actor_stopped ctx0 = None" "boxed_ref ctx0 = r"
    by (auto simp: ctx0_def initial_context_def actor_context_new_def Let_def split_beta split: option.split)
  have "keeps_ctx ctx0 (snd (hook_started I a ctx0))" using assms(1) by (simp add: calm_def)
  then have c1: "status ctx1 = Starting" "on_actor_stopped ctx1 = None" "boxed_ref ctx1 = r"
    using c0 st by (auto simp: keeps_ctx_def)
  let ?c = "ctx1\<lparr>status := Started\<rparr>"
  obtain a2 ctx2 evs where all: "handle_all I pre a1 ?c = (a2, ctx2, evs)"
    by (cases "handle_all I pre a1 ?c")
  have loop: "recv_loop I (pre @ MStop h # post) a1 ?c = (a2, ctx_stop h ctx2, evs, post)"
    and k: "keeps_ctx ?c ctx2" "stop_signals evs = []"
    using recv_loop_to_stop [OF assms(1,2), of ?c a1 h post] all by auto
  have h2: "stopped_handlers (ctx_stop h ctx2) = (case h of Some tx \<Rightarrow> [tx] | None \<Rightarrow> [])"
    using k(1) c1(2) by (simp add: keeps_ctx_def stopped_handlers_def [of ctx2])
  have r2: "boxed_ref (ctx_stop h ctx2) = r"
    using k(1) c1(3) by (simp add: keeps_ctx_def ctx_stop_def add_on_stopped_handler_def split: option.split)
  have idem: "(ctx_stop h ctx2)\<lparr>status := Stopping\<rparr> = ctx_stop h ctx2" by (simp add: ctx_stop_def)
  obtain ctx' evs' where fin: "actor_stopped I ty system terminated dereg_ok a2 (ctx_stop h ctx2) =
      Inr (fst (hook_stopped I a2 (ctx_stop h ctx2)), ctx', evs')"
    "status ctx' = Stopped" "stop_signals evs' = (case h of Some tx \<Rightarrow> [tx] | None \<Rightarrow> [])"
    "is_tracked ty \<and> system \<noteq> None \<and> \<not> terminated \<longrightarrow> (\<exists>es. evs' = Deregister (ref_id r) # es)"
    using actor_stopped_signals [OF assms(1,3), of ty system terminated a2 "ctx_stop h ctx2"]
    unfolding h2 r2 by (elim exE conjE) (rule that)
  have "actor_run I ty on_start r parent system counter tgs terminated dereg_ok
          (pre @ MStop h # post) closed a =
        Inr (Finished (fst (hook_stopped I a2 (ctx_stop h ctx2))) ctx'
          ((case on_start of Some tx \<Rightarrow> [StartedSignal tx] | None \<Rightarrow> []) @ evs @ (evs' @ context_dropped ctx')))"
    using st c1(1) loop fin(1)
    by (simp add: actor_run_def ctx0_def [symmetric] finish_run_def Let_def idem)
  moreover have "stop_signals (evs' @ context_dropped ctx') = (case h of Some tx \<Rightarrow> [tx] | None \<Rightarrow> [])"
    using fin(3) by simp
  ultimately show ?thesis
    using st all fin(2,4) k(2) unfolding ctx0_def by (intro exI [of _ a2] exI [of _ ctx2] exI [of _ evs] exI [of _ ctx']
        exI [of _ "evs' @ context_dropped ctx'"]) auto
qed

definition counting_actor :: "(nat, nat, nat) actor_impl" where
  "counting_actor =
     \<lparr>hook_started = (\<lambda>a ctx. (a, ctx)), hook_stopped = (\<lambda>a ctx. (a, ctx)),
      hook_child_stopped = (\<lambda>_ a ctx. (a, ctx)), user_handle = (\<lambda>u a ctx. (a + u, ctx, [a + u]))\<rparr>"

theorem actor_run_stop_witness:
  "\<exists>ctx' evs'.
     actor_run counting_actor Tracked (Some 7) (start_actor ''t'' ''a'' ''p'' 0) None (Some ''sys'') 0 NoTags
       False True [MUser 2, MUser 3, MStop (Some 8), MUser 4, MStop (Some 9)] False 0 =
       Inr (Finished 5 ctx' ([StartedSignal 7, UserEffect 2, UserEffect 5] @ evs')) \<and>
     stop_signals evs' = [8]"
  using actor_run_stop [of counting_actor "[MUser 2, MUser 3]" True 0 "Some ''sys''" 0
      "start_actor ''t'' ''a'' ''p'' 0" NoTags None Tracked "Some 7" False "Some 8"
      "[MUser 4, MStop (Some 9)]" False]
  by (auto simp: counting_actor_def calm_def keeps_ctx_def)

section \<open>The registry of tracked actors\<close>

text \<open>A run of the registry: tracked actors that start (with their reference) or stop.\<close>

datatype registry_op = RegStart actor_id actor_ref | RegStop actor_id

fun registry_step :: "actor_scheduler \<Rightarrow> registry_op \<Rightarrow> actor_scheduler" where
  "registry_step s (RegStart aid r) = fst (register_actor aid r s)"
| "registry_step s (RegStop aid) = deregister_actor aid s"

definition registry_run :: "registry_op list \<Rightarrow> actor_scheduler \<Rightarrow> actor_scheduler" where
  "registry_run xs s = foldl registry_step s xs"

text \<open>What the registry promises: the reference of the last start, unless a stop came after it.\<close>

fun registry_spec :: "registry_op list \<Rightarrow> actor_id \<Rightarrow> actor_ref option" where
  "registry_spec [] aid = None"
| "registry_spec (RegStart aid' r # xs) aid = (if aid' = aid then Some r else registry_spec xs aid)"
| "registry_spec (RegStop aid' # xs) aid = (if aid' = aid then None else registry_spec xs aid)"

lemma register_actors: "actors (fst (register_actor aid r s)) = hm_insert aid r (actors s)"
  by (simp add: register_actor_def Let_def split: option.split)

lemma registry_run_lookup:
  "hm_get (actors s) = (\<lambda>_. None) \<Longrightarrow> hm_wf (actors s) \<Longrightarrow>
     hm_wf (actors (registry_run xs s)) \<and>
     (\<forall>aid. hm_get (actors (registry_run xs s)) aid = registry_spec (rev xs) aid)"
proof (induction xs rule: rev_induct)
  case Nil
  then show ?case by (simp add: registry_run_def)
next
  case (snoc x xs)
  then show ?case
    by (cases x) (auto simp: registry_run_def register_actors deregister_actor_def
        hm.get_ins hm.get_del)
qed

text \<open>Registry refinement: after any sequence of starts and stops of tracked actors, looking an
  id up returns the reference of the most recent start when no stop of that id followed it and
  the reference has the requested actor type, and nothing otherwise; the number of tracked actors
  is the number of ids for which a look-up succeeds. In particular the stop of an older actor
  with the same id removes the actor that replaced it.\<close>

theorem registry_refines_spec:
  "get_actor ty aid (registry_run xs scheduler_new) =
     Option.bind (registry_spec (rev xs) aid) (as_actor ty) \<and>
   actor_count (registry_run xs scheduler_new) = card {aid. registry_spec (rev xs) aid \<noteq> None}"
proof -
  let ?m = "actors (registry_run xs scheduler_new)"
  have wf: "hm_wf ?m" and look: "\<And>aid. hm_get ?m aid = registry_spec (rev xs) aid"
    using registry_run_lookup [of scheduler_new xs] by (auto simp: scheduler_new_def)
  have "length ?m = card (fst ` set ?m)"
    using wf by (metis distinct_card length_map set_map)
  also have "fst ` set ?m = {aid. registry_spec (rev xs) aid \<noteq> None}"
    by (simp add: set_eq_iff look [symmetric] hm_contains_iff)
  finally show ?thesis by (simp add: get_actor_def actor_count_def look)
qed

section \<open>Worker pools share their tasks\<close>

lemma worker_handle_rotate:
  "workers w \<noteq> [] \<Longrightarrow> worker_handle w = (Some (hd (workers w)), w\<lparr>workers := rotate1 (workers w)\<rparr>)"
  by (cases "workers w") (auto simp: worker_handle_def)

lemma worker_dispatches_rotate:
  assumes "workers w = rotate k ws" and "ws \<noteq> []"
  shows "worker_dispatches n w = map (\<lambda>i. Some (ws ! (i mod length ws))) [k..<k + n]"
  using assms(1)
proof (induction n arbitrary: k w)
  case 0
  then show ?case by simp
next
  case (Suc n)
  have "workers w \<noteq> []" using Suc.prems assms(2) by simp
  then have "worker_dispatches (Suc n) w =
      Some (hd (workers w)) # worker_dispatches n (w\<lparr>workers := rotate1 (workers w)\<rparr>)"
    by (simp add: worker_handle_rotate)
  moreover have "hd (workers w) = ws ! (k mod length ws)"
    using Suc.prems assms(2) by (simp add: hd_rotate_conv_nth)
  moreover have "worker_dispatches n (w\<lparr>workers := rotate1 (workers w)\<rparr>) =
      map (\<lambda>i. Some (ws ! (i mod length ws))) [Suc k..<Suc k + n]"
    using Suc.prems by (intro Suc.IH) simp
  moreover have "[k..<k + Suc n] = k # [Suc k..<Suc k + n]" by (simp add: upt_conv_Cons del: upt_Suc)
  ultimately show ?case by (simp del: upt_Suc worker_dispatches.simps)
qed

text \<open>A worker pool hands its tasks out in strict rotation: the i-th task goes to worker
  \<open>i mod n\<close>, so that no worker gets a second task before every other one got its first.\<close>

theorem worker_round_robin:
  assumes "workers w \<noteq> []"
  shows "worker_dispatches n w =
           map (\<lambda>i. Some (workers w ! (i mod length (workers w)))) [0..<n]"
  using worker_dispatches_rotate [of w 0 "workers w" n] assms by simp

theorem worker_round_robin_witness:
  "worker_dispatches 3 \<lparr>workers = [start_actor ''t'' ''w1'' ''s'' 1, start_actor ''t'' ''w2'' ''s'' 2]\<rparr> =
     map (\<lambda>i. Some ([start_actor ''t'' ''w1'' ''s'' 1, start_actor ''t'' ''w2'' ''s'' 2] ! (i mod 2))) [0..<3]"
  using worker_round_robin [of "\<lparr>workers = [start_actor ''t'' ''w1'' ''s'' 1, start_actor ''t'' ''w2'' ''s'' 2]\<rparr>" 3]
  by (simp add: numeral_2_eq_2 del: upt_Suc)

end
