(* ===== verification/Persistent_Actor.thy ===== *)
theory Persistent_Actor
  imports Journal Actor_Lifecycle
begin

text \<open>
  Persistent actors: failure policies (\<open>persistent/failure.rs\<close>), the persisting operations and
  the start of a persistent actor (\<open>persistent/actor.rs\<close>) and the recovery of its journal
  (\<open>persistent/recovery.rs\<close>, \<open>persistent/context.rs\<close>).

  The state on which the hooks and the recovered payloads act is the actor with its context. The
  journal of the context is kept beside it. The retry loops may run forever, so they are
  \<open>partial_function\<close>s whose result is \<open>None\<close> when they do not return. A provider's failures
  are part of its storage state; the storage that recovery attempt \<open>n\<close> reads is \<open>sts n\<close>.
\<close>

section \<open>Failure policies\<close>

text \<open>A delay is a number of milliseconds; waiting changes no state.\<close>

datatype retry = UntilSuccess "nat option" | MaxAttempts nat "nat option"

datatype recovery_failure_policy = RecoveryRetry retry | RecoveryStopActor | RecoveryPanic

datatype persist_failure_policy = PersistRetry retry | ReturnErr | PersistStopActor | PersistPanic

definition recovery_failure_policy_default :: recovery_failure_policy where
  "recovery_failure_policy_default = RecoveryRetry (UntilSuccess (Some 500))"

definition persist_failure_policy_default :: persist_failure_policy where
  "persist_failure_policy_default = PersistRetry (UntilSuccess (Some 500))"

definition should_retry :: "actor_context \<Rightarrow> nat \<Rightarrow> retry \<Rightarrow> bool \<times> actor_context" where
  "should_retry ctx attempts r =
     (case r of
        UntilSuccess delay \<Rightarrow> (True, ctx)
      | MaxAttempts max_attempts delay \<Rightarrow>
          if attempts \<ge> max_attempts then (False, ctx_stop None ctx) else (True, ctx))"

section \<open>Persisting\<close>

record 'act persistent_impl =
  persistence_key :: "'act \<times> actor_context \<Rightarrow> string"
  configured_types :: "('act \<times> actor_context) journal_types"
  pre_recovery :: "'act \<times> actor_context \<Rightarrow> 'act \<times> actor_context"
  post_recovery :: "'act \<times> actor_context \<Rightarrow> 'act \<times> actor_context"
  recovery_failure_policy :: "'act \<Rightarrow> recovery_failure_policy"
  persist_failure_policy :: "'act \<Rightarrow> persist_failure_policy"
  on_recovery_err :: "recovery_err \<Rightarrow> 'act \<times> actor_context \<Rightarrow> 'act \<times> actor_context"
  on_recovery_failed :: "'act \<times> actor_context \<Rightarrow> 'act \<times> actor_context"

text \<open>
  \<open>check\<close> returns \<open>Some\<close> when the loop ends; otherwise the attempt counter has been incremented.
\<close>

definition check ::
  "persist_failure_policy \<Rightarrow> (persist_err + unit) \<Rightarrow> nat \<Rightarrow> actor_context \<Rightarrow>
   ((persist_err + unit) option \<times> nat \<times> actor_context) may_panic" where
  "check policy result attempts ctx =
     (case result of
        Inr res \<Rightarrow> Inr (Some (Inr res), attempts, ctx)
      | Inl e \<Rightarrow>
          (case policy of
             PersistRetry r \<Rightarrow>
               (let (again, ctx') = should_retry ctx attempts r
                in if \<not> again then Inr (Some (Inl e), attempts, ctx')
                   else Inr (None, attempts + 1, ctx'))
           | ReturnErr \<Rightarrow> Inr (Some (Inl e), attempts, ctx)
           | PersistStopActor \<Rightarrow> Inr (Some (Inl (ActorStopping e)), attempts, ctx_stop None ctx)
           | PersistPanic \<Rightarrow> Inl (Panic ''persist failed'')))"

type_synonym ('a, 's) persist_attempt =
  "'a journal \<Rightarrow> 's \<Rightarrow> ((persist_err + unit) \<times> 'a journal \<times> 's) may_panic"

type_synonym ('a, 's) persist_result =
  "((persist_err + unit) \<times> actor_context \<times> 'a journal \<times> 's) may_panic"

partial_function (option) persist_loop ::
  "persist_failure_policy \<Rightarrow> ('a, 's) persist_attempt \<Rightarrow> nat \<Rightarrow> actor_context \<Rightarrow> 'a journal \<Rightarrow> 's \<Rightarrow>
   ('a, 's) persist_result option" where
  "persist_loop policy attempt attempts ctx j st =
     (case attempt j st of
        Inl p \<Rightarrow> Some (Inl p)
      | Inr (result, j', st') \<Rightarrow>
          (case check policy result attempts ctx of
             Inl p \<Rightarrow> Some (Inl p)
           | Inr (Some res, _, ctx') \<Rightarrow> Some (Inr (res, ctx', j', st'))
           | Inr (None, attempts', ctx') \<Rightarrow> persist_loop policy attempt attempts' ctx' j' st'))"

definition persist ::
  "'act persistent_impl \<Rightarrow> 's journal_storage \<Rightarrow> ('m, 'r) message_impl \<Rightarrow> type_name \<Rightarrow> 'm \<Rightarrow>
   'act \<Rightarrow> actor_context \<Rightarrow> ('act \<times> actor_context) journal option \<Rightarrow> 's \<Rightarrow>
   ((persist_err + unit) \<times> actor_context \<times> ('act \<times> actor_context) journal option \<times> 's) may_panic option" where
  "persist P ops M type_id message a ctx jo st =
     (case as_bytes M message of
        Inl e \<Rightarrow> Some (Inr (Inl (PersistSerialisation e), ctx, jo, st))
      | Inr b \<Rightarrow>
          (case jo of
             None \<Rightarrow> Some (Inl (Panic ''journal not initialised''))
           | Some j \<Rightarrow>
               map_option (map_sum id (\<lambda>(res, ctx', j', st'). (res, ctx', Some j', st')))
                 (persist_loop (persist_failure_policy P a)
                    (\<lambda>j st. persist_message ops j st type_id b) 1 ctx j st)))"

definition persist_event_batch ::
  "'act persistent_impl \<Rightarrow> 's journal_storage \<Rightarrow> batched_entry list \<Rightarrow>
   'act \<Rightarrow> actor_context \<Rightarrow> ('act \<times> actor_context) journal option \<Rightarrow> 's \<Rightarrow>
   ((persist_err + unit) \<times> actor_context \<times> ('act \<times> actor_context) journal option \<times> 's) may_panic option" where
  "persist_event_batch P ops entries a ctx jo st =
     (if entries = [] then Some (Inr (Inr (), ctx, jo, st))
      else
        (case jo of
           None \<Rightarrow> Some (Inl (Panic ''journal not initialised''))
         | Some j \<Rightarrow>
             map_option (map_sum id (\<lambda>(res, ctx', j', st'). (res, ctx', Some j', st')))
               (persist_loop (persist_failure_policy P a)
                  (\<lambda>j st. Inr (persist_batch ops j st entries)) 1 ctx j st)))"

definition persist_actor_snapshot ::
  "'act persistent_impl \<Rightarrow> 's journal_storage \<Rightarrow> (message_wrap_err + 'm envelope) \<Rightarrow> type_name \<Rightarrow>
   'act \<Rightarrow> actor_context \<Rightarrow> ('act \<times> actor_context) journal option \<Rightarrow> 's \<Rightarrow>
   ((persist_err + unit) \<times> actor_context \<times> ('act \<times> actor_context) journal option \<times> 's) may_panic option" where
  "persist_actor_snapshot P ops remote_envelope type_id a ctx jo st =
     (case remote_envelope of
        Inl e \<Rightarrow> Some (Inr (Inl (PersistSerialisation e), ctx, jo, st))
      | Inr env \<Rightarrow>
          (case envelope_into_bytes env of
             Inl p \<Rightarrow> Some (Inl p)
           | Inr b \<Rightarrow>
               (case jo of
                  None \<Rightarrow> Some (Inl (Panic ''journal not initialised''))
                | Some j \<Rightarrow>
                    map_option (map_sum id (\<lambda>(res, ctx', j', st'). (res, ctx', Some j', st')))
                      (persist_loop (persist_failure_policy P a)
                         (\<lambda>j st. persist_snapshot ops j st type_id b) 1 ctx j st))))"

section \<open>Recovery and start\<close>

record 'a recovered_journal =
  recovered_snapshot :: "'a recovered_payload option"
  recovered_messages :: "'a recovered_payload list option"

datatype 'a recovery = Recovered "'a recovered_journal" | Disabled | Failed

text \<open>\<open>load_journal\<close> replaces the context's journal by a new one before it reads.\<close>

definition load_journal ::
  "'s journal_storage \<Rightarrow> 'a journal_types \<Rightarrow> string \<Rightarrow> 's \<Rightarrow>
   (recovery_err + 'a recovered_journal) \<times> 'a journal" where
  "load_journal ops types key st =
     (case recover_snapshot ops (journal_new key types) st of
        (Inl e, j) \<Rightarrow> (Inl (RecoverySnapshot e), j)
      | (Inr snap, j) \<Rightarrow>
          (case recover_messages ops j st of
             (Inl e, j') \<Rightarrow> (Inl (RecoveryMessages e), j')
           | (Inr ms, j') \<Rightarrow> (Inr \<lparr>recovered_snapshot = snap, recovered_messages = ms\<rparr>, j')))"

partial_function (option) recover_journal ::
  "'act persistent_impl \<Rightarrow> 's journal_storage \<Rightarrow> string \<Rightarrow> (nat \<Rightarrow> 's) \<Rightarrow> nat \<Rightarrow> 'act \<times> actor_context \<Rightarrow>
   (('act \<times> actor_context) recovery \<times> ('act \<times> actor_context) \<times>
    ('act \<times> actor_context) journal) may_panic option" where
  "recover_journal P ops key sts attempts s =
     (case load_journal ops (configured_types P) key (sts attempts) of
        (Inr loaded, j) \<Rightarrow> Some (Inr (Recovered loaded, s, j))
      | (Inl e, j) \<Rightarrow>
          (let policy = recovery_failure_policy P (fst s);
               s1 = on_recovery_err P e s
           in case policy of
                RecoveryStopActor \<Rightarrow> Some (Inr (Failed, (fst s1, ctx_stop None (snd s1)), j))
              | RecoveryRetry r \<Rightarrow>
                  (let (again, ctx') = should_retry (snd s1) attempts r
                   in if \<not> again then Some (Inr (Failed, (fst s1, ctx'), j))
                      else recover_journal P ops key sts (attempts + 1) (fst s1, ctx'))
              | RecoveryPanic \<Rightarrow> Some (Inl (Panic ''Persistence failure''))))"

text \<open>
  Replaying the recovered payloads: an error is reported, stops the actor and ends the start; the
  flag tells whether everything was replayed.
\<close>

fun replay ::
  "'act persistent_impl \<Rightarrow> ('act \<times> actor_context) recovered_payload list \<Rightarrow> 'act \<times> actor_context \<Rightarrow>
   bool \<times> ('act \<times> actor_context)" where
  "replay P [] s = (True, s)"
| "replay P (m # ms) s =
     (case payload_recover m s of
        Inl e \<Rightarrow> (let s1 = on_recovery_err P e s in (False, (fst s1, ctx_stop None (snd s1))))
      | Inr s' \<Rightarrow> replay P ms s')"

definition started ::
  "'act persistent_impl \<Rightarrow> 's journal_storage \<Rightarrow> (nat \<Rightarrow> 's) \<Rightarrow> 'act \<times> actor_context \<Rightarrow>
   (('act \<times> actor_context) \<times> ('act \<times> actor_context) journal) may_panic option" where
  "started P ops sts s0 =
     (let s1 = pre_recovery P s0;
          key = persistence_key P s1
      in case recover_journal P ops key sts 1 s1 of
           None \<Rightarrow> None
         | Some (Inl p) \<Rightarrow> Some (Inl p)
         | Some (Inr (Failed, s2, j)) \<Rightarrow> Some (Inr (on_recovery_failed P s2, j))
         | Some (Inr (Disabled, s2, j)) \<Rightarrow> Some (Inr (post_recovery P s2, j))
         | Some (Inr (Recovered rj, s2, j)) \<Rightarrow>
             (case replay P (case recovered_snapshot rj of Some sn \<Rightarrow> [sn] | None \<Rightarrow> []) s2 of
                (False, s3) \<Rightarrow> Some (Inr (s3, j))
              | (True, s3) \<Rightarrow>
                  (case replay P (case recovered_messages rj of Some ms \<Rightarrow> ms | None \<Rightarrow> []) s3 of
                     (False, s4) \<Rightarrow> Some (Inr (s4, j))
                   | (True, s4) \<Rightarrow> Some (Inr (post_recovery P s4, j)))))"

section \<open>Retrying\<close>

text \<open>\<open>fail_run attempt k c\<close> is the state after \<open>k\<close> attempts that all failed.\<close>

fun fail_run :: "('a, 's) persist_attempt \<Rightarrow> nat \<Rightarrow> 'a journal \<times> 's \<Rightarrow> ('a journal \<times> 's) option" where
  "fail_run attempt 0 c = Some c"
| "fail_run attempt (Suc k) (j, st) =
     (case attempt j st of
        Inr (Inl _, j', st') \<Rightarrow> fail_run attempt k (j', st')
      | _ \<Rightarrow> None)"

lemma fail_run_SucE:
  assumes "fail_run attempt (Suc k) (j, st) = Some c"
  obtains e j' st' where "attempt j st = Inr (Inl e, j', st')" "fail_run attempt k (j', st') = Some c"
  using assms by (auto split: sum.splits prod.splits)

lemma persist_loop_ok:
  "attempt j st = Inr (Inr (), j', st') \<Longrightarrow>
     persist_loop policy attempt n ctx j st = Some (Inr (Inr (), ctx, j', st'))"
  by (subst persist_loop.simps) (simp add: check_def)

lemma persist_loop_again:
  assumes "attempt j st = Inr (Inl e, j', st')"
    and "r = UntilSuccess d \<or> (\<exists>m. r = MaxAttempts m d \<and> n < m)"
  shows "persist_loop (PersistRetry r) attempt n ctx j st =
           persist_loop (PersistRetry r) attempt (n + 1) ctx j' st'"
  using assms by (subst persist_loop.simps) (auto simp: check_def should_retry_def)

lemma persist_loop_give_up:
  "attempt j st = Inr (Inl e, j', st') \<Longrightarrow> m \<le> n \<Longrightarrow>
     persist_loop (PersistRetry (MaxAttempts m d)) attempt n ctx j st =
       Some (Inr (Inl e, ctx_stop None ctx, j', st'))"
  by (subst persist_loop.simps) (simp add: check_def should_retry_def)

lemma persist_loop_panic:
  "attempt j st = Inl p \<Longrightarrow> persist_loop policy attempt n ctx j st = Some (Inl p)"
  by (subst persist_loop.simps) simp

lemma until_success_after:
  assumes "fail_run attempt k (j, st) = Some (jk, stk)" and "attempt jk stk = Inr (Inr (), j', st')"
  shows "persist_loop (PersistRetry (UntilSuccess d)) attempt n ctx j st =
           Some (Inr (Inr (), ctx, j', st'))"
  using assms(1)
proof (induction k arbitrary: j st n)
  case 0
  with assms(2) show ?case by (simp add: persist_loop_ok)
next
  case (Suc k)
  then show ?case
    by (elim fail_run_SucE) (simp add: persist_loop_again [where d = d] Suc.IH)
qed

lemma until_success_returns_only_if:
  assumes "persist_loop policy attempt n ctx j st = Some r"
  shows "\<forall>d. policy = PersistRetry (UntilSuccess d) \<longrightarrow> (\<exists>k. fail_run attempt k (j, st) = None)"
proof (rule persist_loop.raw_induct [OF _ assms, where P = "\<lambda>policy attempt n ctx j st r.
    \<forall>d. policy = PersistRetry (UntilSuccess d) \<longrightarrow> (\<exists>k. fail_run attempt k (j, st) = None)"], goal_cases)
  case (1 loop policy attempt n ctx j st r)
  show ?case
  proof (intro allI impI)
    fix d
    assume p: "policy = PersistRetry (UntilSuccess d)"
    show "\<exists>k. fail_run attempt k (j, st) = None"
    proof (cases "\<exists>e j' st'. attempt j st = Inr (Inl e, j', st')")
      case False
      then have "fail_run attempt (Suc 0) (j, st) = None" by (auto split: sum.splits prod.splits)
      then show ?thesis by blast
    next
      case True
      then obtain e j' st' where a: "attempt j st = Inr (Inl e, j', st')" by blast
      with 1(2) p have "loop policy attempt (n + 1) ctx j' st' = Some r"
        by (simp add: check_def should_retry_def)
      from 1(1) [OF this] p obtain k where "fail_run attempt k (j', st') = None" by blast
      with a have "fail_run attempt (Suc k) (j, st) = None" by simp
      then show ?thesis by blast
    qed
  qed
qed

lemma max_attempts_returns:
  "\<exists>r. persist_loop (PersistRetry (MaxAttempts m d)) attempt n ctx j st = Some r"
proof (induction "m - n" arbitrary: n j st)
  case 0
  then show ?case
    by (subst persist_loop.simps) (auto simp: check_def should_retry_def split: sum.split prod.split)
next
  case (Suc k)
  show ?case
  proof (cases "attempt j st")
    case (Inl p)
    then show ?thesis by (simp add: persist_loop_panic)
  next
    case (Inr c)
    obtain res j' st' where c: "c = (res, j', st')" by (cases c)
    show ?thesis
    proof (cases res)
      case (Inl e)
      have "n < m" "k = m - (n + 1)" using Suc.hyps(2) by auto
      with Inr Inl c Suc.hyps(1) [of "n + 1" j' st'] show ?thesis
        by (simp add: persist_loop_again [where d = d])
    qed (use Inr c in \<open>simp add: persist_loop_ok\<close>)
  qed
qed

lemma max_attempts_success:
  assumes "fail_run attempt k (j, st) = Some (jk, stk)" and "attempt jk stk = Inr (Inr (), j', st')"
    and "k < max n m + 1 - n"
  shows "persist_loop (PersistRetry (MaxAttempts m d)) attempt n ctx j st =
           Some (Inr (Inr (), ctx, j', st'))"
  using assms(1,3)
proof (induction k arbitrary: j st n)
  case 0
  with assms(2) show ?case by (simp add: persist_loop_ok)
next
  case (Suc k)
  then have "n < m" by (simp add: max_def split: if_splits)
  from Suc.prems(1) obtain e j1 st1 where a: "attempt j st = Inr (Inl e, j1, st1)"
    and f: "fail_run attempt k (j1, st1) = Some (jk, stk)" by (rule fail_run_SucE)
  have "k < max (n + 1) m + 1 - (n + 1)" using Suc.prems(2) \<open>n < m\<close> by auto
  with a f \<open>n < m\<close> Suc.IH show ?case by (simp add: persist_loop_again [where d = d])
qed

lemma max_attempts_exhausted:
  assumes "fail_run attempt (max n m + 1 - n) (j, st) = Some (j', st')"
  shows "\<exists>e. persist_loop (PersistRetry (MaxAttempts m d)) attempt n ctx j st =
           Some (Inr (Inl e, ctx_stop None ctx, j', st'))"
  using assms
proof (induction "m - n" arbitrary: n j st)
  case 0
  then have "fail_run attempt (Suc 0) (j, st) = Some (j', st')" by (simp add: max_def)
  then show ?case
    using 0 by (elim fail_run_SucE) (auto simp: persist_loop_give_up)
next
  case (Suc k)
  then have n: "n < m" "k = m - (n + 1)" by auto
  then have len: "max n m + 1 - n = Suc (max (n + 1) m + 1 - (n + 1))" by auto
  from Suc.prems obtain e j1 st1 where a: "attempt j st = Inr (Inl e, j1, st1)"
    and f: "fail_run attempt (max (n + 1) m + 1 - (n + 1)) (j1, st1) = Some (j', st')"
    unfolding len by (rule fail_run_SucE)
  from Suc.hyps(1) [OF n(2) f] a n(1) show ?case by (simp add: persist_loop_again [where d = d])
qed

text \<open>C16: Persisting with a bounded number of attempts always returns, whatever the storage does.
  The first success within the first \<open>max 1 m\<close> attempts is the result and leaves the actor
  running; when they all fail, the caller gets an error, the actor is stopping, and the storage has
  been tried exactly \<open>max 1 m\<close> times.\<close>

theorem persist_max_attempts:
  "(\<exists>r. persist_loop (PersistRetry (MaxAttempts m d)) attempt 1 ctx j st = Some r) \<and>
   (k < max 1 m \<and> fail_run attempt k (j, st) = Some (jk, stk) \<and> attempt jk stk = Inr (Inr (), j', st') \<longrightarrow>
      persist_loop (PersistRetry (MaxAttempts m d)) attempt 1 ctx j st =
        Some (Inr (Inr (), ctx, j', st'))) \<and>
   (fail_run attempt (max 1 m) (j, st) = Some (j', st') \<longrightarrow>
      (\<exists>e. persist_loop (PersistRetry (MaxAttempts m d)) attempt 1 ctx j st =
             Some (Inr (Inl e, ctx_stop None ctx, j', st'))))"
  using max_attempts_returns [of m d attempt 1 ctx j st]
    max_attempts_success [of attempt k j st jk stk j' st' 1 m d ctx]
    max_attempts_exhausted [of attempt 1 m j st j' st' d ctx]
  by simp

text \<open>A provider that refuses the next \<open>n\<close> writes, as an attempt.\<close>

definition down_for :: "('a, nat) persist_attempt" where
  "down_for j n =
     (if 0 < n then Inr (Inl (PersistStorage ''down''), j, n - 1) else Inr (Inr (), j, 0))"

definition ex_ctx :: actor_context where
  "ex_ctx = initial_context None 0 (start_actor ''t'' ''a'' ''p'' 0) NoTags None"

definition ex_journal :: "nat journal" where
  "ex_journal = journal_new ''a'' ex_types"

theorem persist_max_attempts_witness:
  "(\<exists>e. persist_loop (PersistRetry (MaxAttempts 2 None)) down_for 1 ex_ctx ex_journal 5 =
          Some (Inr (Inl e, ctx_stop None ex_ctx, ex_journal, 3))) \<and>
   persist_loop (PersistRetry (MaxAttempts 3 None)) down_for 1 ex_ctx ex_journal 2 =
     Some (Inr (Inr (), ex_ctx, ex_journal, 0))"
  using persist_max_attempts [of 2 None down_for ex_ctx ex_journal 5 0 ex_journal 5 ex_journal 3]
    persist_max_attempts [of 3 None down_for ex_ctx ex_journal 2 2 ex_journal 0 ex_journal 0]
  by (simp add: down_for_def numeral_2_eq_2)

text \<open>C18: The default policy, retrying until success: the loop returns exactly when some attempt
  after finitely many failures does not fail; it then returns the success with the journal and
  storage of that attempt and an unchanged context, and it never gives up on its own.\<close>

theorem persist_until_success:
  "(fail_run attempt k (j, st) = Some (jk, stk) \<and> attempt jk stk = Inr (Inr (), j', st') \<longrightarrow>
      persist_loop (PersistRetry (UntilSuccess d)) attempt n ctx j st =
        Some (Inr (Inr (), ctx, j', st'))) \<and>
   ((\<forall>k. fail_run attempt k (j, st) \<noteq> None) \<longrightarrow>
      persist_loop (PersistRetry (UntilSuccess d)) attempt n ctx j st = None)"
proof (intro conjI impI)
  assume "fail_run attempt k (j, st) = Some (jk, stk) \<and> attempt jk stk = Inr (Inr (), j', st')"
  then show "persist_loop (PersistRetry (UntilSuccess d)) attempt n ctx j st = Some (Inr (Inr (), ctx, j', st'))"
    by (auto intro: until_success_after)
next
  assume "\<forall>k. fail_run attempt k (j, st) \<noteq> None"
  then show "persist_loop (PersistRetry (UntilSuccess d)) attempt n ctx j st = None"
    using until_success_returns_only_if by (metis not_Some_eq)
qed

theorem persist_until_success_witness:
  "persist_loop persist_failure_policy_default down_for 1 ex_ctx ex_journal 3 =
     Some (Inr (Inr (), ex_ctx, ex_journal, 0))"
  using persist_until_success [of down_for 3 ex_journal 3 ex_journal 0 ex_journal 0]
  by (simp add: down_for_def numeral_3_eq_3 persist_failure_policy_default_def)

section \<open>Event sourcing\<close>

text \<open>An actor that persists a list of events of one message type, one call each.\<close>

fun persist_all ::
  "'act persistent_impl \<Rightarrow> 's journal_storage \<Rightarrow> ('m, 'r) message_impl \<Rightarrow> type_name \<Rightarrow> 'm list \<Rightarrow>
   'act \<Rightarrow> actor_context \<Rightarrow> ('act \<times> actor_context) journal option \<Rightarrow> 's \<Rightarrow>
   (actor_context \<times> ('act \<times> actor_context) journal option \<times> 's) option" where
  "persist_all P ops M tid [] a ctx jo st = Some (ctx, jo, st)"
| "persist_all P ops M tid (m # ms) a ctx jo st =
     (case persist P ops M tid m a ctx jo st of
        Some (Inr (Inr _, ctx', jo', st')) \<Rightarrow> persist_all P ops M tid ms a ctx' jo' st'
      | _ \<Rightarrow> None)"

lemma persist_run_op:
  assumes "as_bytes M m = Inr b" and "run_op ops (OpMessage tid b) j st = Some (j', st')"
  shows "persist P ops M tid m a ctx (Some j) st = Some (Inr (Inr (), ctx, Some j', st'))"
proof -
  have "persist_message ops j st tid b = Inr (Inr (), j', st')"
    using assms(2) by (auto split: sum.splits prod.splits)
  then show ?thesis using assms(1) by (simp add: persist_def persist_loop_ok)
qed

lemma persist_all_run_ops:
  assumes "\<forall>m\<in>set ms. as_bytes M m = Inr (enc m)"
    and "run_ops ops (map (\<lambda>m. OpMessage tid (enc m)) ms) j st = Some (j', st')"
  shows "persist_all P ops M tid ms a ctx (Some j) st = Some (ctx, Some j', st')"
  using assms
proof (induction ms arbitrary: j st)
  case Nil
  then show ?case by simp
next
  case (Cons m ms)
  then obtain j1 st1 where op: "run_op ops (OpMessage tid (enc m)) j st = Some (j1, st1)"
    and rest: "run_ops ops (map (\<lambda>m. OpMessage tid (enc m)) ms) j1 st1 = Some (j', st')"
    by (auto simp: Option.bind_eq_Some_conv simp del: run_op.simps)
  have "as_bytes M m = Inr (enc m)" using Cons.prems(1) by simp
  from persist_run_op [OF this op] Cons.IH [OF _ rest] Cons.prems(1) show ?case by simp
qed

lemma load_journal_restart:
  "journal_restart ops key types st snap rs j \<Longrightarrow>
     load_journal ops types key st = (Inr \<lparr>recovered_snapshot = snap, recovered_messages = rs\<rparr>, j)"
  by (auto simp: journal_restart_def load_journal_def)

text \<open>A start whose first load of the journal succeeds.\<close>

lemma started_restart:
  assumes "journal_restart ops (persistence_key P (pre_recovery P s0)) (configured_types P) (sts 1) snap rs j"
    and "replay P (case snap of Some sn \<Rightarrow> [sn] | None \<Rightarrow> []) (pre_recovery P s0) = (True, s1)"
    and "replay P (list_of rs) s1 = (True, s2)"
  shows "started P ops sts s0 = Some (Inr (post_recovery P s2, j))"
proof -
  have "recover_journal P ops (persistence_key P (pre_recovery P s0)) sts 1 (pre_recovery P s0) =
      Some (Inr (Recovered \<lparr>recovered_snapshot = snap, recovered_messages = rs\<rparr>, pre_recovery P s0, j))"
    by (subst recover_journal.simps) (simp only: load_journal_restart [OF assms(1)] prod.case sum.case)
  with assms(2,3) show ?thesis by (simp add: started_def Let_def list_of_def)
qed

lemma replay_events:
  assumes "\<forall>m\<in>set ms. M_from (enc m) = Inr m"
    and "map recovered_pair rs = map (\<lambda>m. (message_recovery_handler M_from rec mt at, enc m)) ms"
  shows "replay P rs s = (True, fold (\<lambda>m s. rec s m) ms s)"
  using assms
proof (induction ms arbitrary: rs s)
  case Nil
  then show ?case by simp
next
  case (Cons m ms)
  then obtain r rs' where rs: "rs = r # rs'" by (cases rs) auto
  with Cons show ?case
    by (auto simp: payload_recover_def message_recovery_handler_def)
qed

lemma event_sourcing_aux:
  fixes P :: "'act persistent_impl"
  assumes "wire_message M" and "\<forall>m\<in>set ms. as_bytes M m = Inr (enc m)"
    and "configured_types P = types_message tid ident
           (message_recovery_handler (from_bytes M) rec tid at) journal_types_default"
    and "persistence_key P (pre_recovery P s0) = key" and "hm_get store key = None"
    and "int (length ms) \<le> i64_max"
  shows "\<exists>j store' j'.
           persist_all P inmemory_storage M tid ms a ctx (Some (journal_new key (configured_types P))) store =
             Some (ctx, Some j, store') \<and>
           started P inmemory_storage (\<lambda>_. store') s0 =
             Some (Inr (post_recovery P (fold (\<lambda>m s. rec s m) ms (pre_recovery P s0)), j'))"
proof -
  let ?xs = "map (\<lambda>m. OpMessage tid (enc m)) ms"
  let ?h = "message_recovery_handler (from_bytes M) rec tid at"
  have map_t: "message_type_mapping (configured_types P) t = (if t = tid then Some ident else None)" for t
    by (simp add: assms(3) message_type_mapping_def types_message_def journal_types_default_def)
  have get: "hm_get (recoverable_messages (configured_types P)) ident = Some ?h"
    by (simp add: assms(3) types_message_def journal_types_default_def)
  have size: "sum_list (map op_size ?xs) = length ms" by (induction ms) auto
  have pay: "concat (map (op_payloads (configured_types P)) ?xs) = map (\<lambda>m. (ident, enc m)) ms"
    by (induction ms) (auto simp: map_t)
  have rep: "replayable (configured_types P) (map (\<lambda>m. (ident, enc m)) ms) = map (\<lambda>m. (?h, enc m)) ms"
    by (induction ms) (auto simp: replayable_def map_filter_simps get)
  have known: "message_type_mapping (configured_types P) t \<noteq> None" if "OpMessage t b \<in> set ?xs" for t b
    using that by (auto simp: map_t)
  have rt: "\<exists>j store' snap rs j'.
      run_ops inmemory_storage ?xs (journal_new key (configured_types P)) store = Some (j, store') \<and>
      journal_restart inmemory_storage key (configured_types P) store' snap rs j' \<and> snap = None \<and>
      map recovered_pair (list_of rs) =
        replayable (configured_types P) (concat (map (op_payloads (configured_types P)) ?xs))"
    by (rule journal_roundtrip_aux [OF assms(5)]) (use known size assms(6) in simp_all)
  obtain j store' snap rs j' where
    run: "run_ops inmemory_storage ?xs (journal_new key (configured_types P)) store = Some (j, store')"
    and re: "journal_restart inmemory_storage key (configured_types P) store' snap rs j'"
    and snap: "snap = None" and pairs: "map recovered_pair (list_of rs) = map (\<lambda>m. (?h, enc m)) ms"
    using rt unfolding pay rep by blast
  have dec: "\<forall>m\<in>set ms. from_bytes M (enc m) = Inr m"
    using assms(1,2) by (auto simp: wire_message_def)
  have "started P inmemory_storage (\<lambda>_. store') s0 =
      Some (Inr (post_recovery P (fold (\<lambda>m s. rec s m) ms (pre_recovery P s0)), j'))"
    using re by (intro started_restart) (auto simp: assms(4) snap replay_events [OF dec pairs])
  with persist_all_run_ops [OF assms(2) run] show ?thesis by blast
qed

text \<open>C1: Event sourcing, end to end: an actor whose types register a message type with a
  round-tripping encoding persists any list of events to the in-memory provider; when a new
  instance of the actor starts, its state is the one obtained by applying \<open>recover\<close> to exactly
  those events in the order in which they were persisted, between the \<open>pre_recovery\<close> and
  \<open>post_recovery\<close> hooks.\<close>

theorem event_sourcing:
  fixes P :: "'act persistent_impl"
  assumes "wire_message M" and "\<forall>m\<in>set ms. as_bytes M m = Inr (enc m)"
    and "configured_types P = types_message tid ident
           (message_recovery_handler (from_bytes M) rec tid at) journal_types_default"
    and "persistence_key P (pre_recovery P s0) = key" and "hm_get store key = None"
    and "int (length ms) \<le> i64_max"
  shows "\<exists>j store' j'.
           persist_all P inmemory_storage M tid ms a ctx (Some (journal_new key (configured_types P))) store =
             Some (ctx, Some j, store') \<and>
           started P inmemory_storage (\<lambda>_. store') s0 =
             Some (Inr (post_recovery P (fold (\<lambda>m s. rec s m) ms (pre_recovery P s0)), j'))"
  by (rule event_sourcing_aux [OF assms])

text \<open>Events that are bytes, encoded as themselves, and an actor that adds them up.\<close>

definition byte_message :: "(byte, unit) message_impl" where
  "byte_message =
     \<lparr>as_bytes = (\<lambda>b. Inr [b]),
      from_bytes = (\<lambda>bs. case bs of [b] \<Rightarrow> Inr b | _ \<Rightarrow> Inl DeserializationErr),
      read_remote_result = (\<lambda>_. Inl UnwrapNotTransmittable),
      write_remote_result = (\<lambda>_. Inl WrapNotTransmittable)\<rparr>"

definition adding_actor :: "nat persistent_impl" where
  "adding_actor =
     \<lparr>persistence_key = (\<lambda>s. ref_id (boxed_ref (snd s))),
      configured_types = types_message ''Add'' ''add''
        (message_recovery_handler (from_bytes byte_message) (\<lambda>s b. (fst s + unat b, snd s)) ''Add'' ''Adder'')
        journal_types_default,
      pre_recovery = id, post_recovery = id,
      recovery_failure_policy = (\<lambda>_. recovery_failure_policy_default),
      persist_failure_policy = (\<lambda>_. persist_failure_policy_default),
      on_recovery_err = (\<lambda>_. id), on_recovery_failed = id\<rparr>"

theorem event_sourcing_witness:
  "\<exists>j store' j'.
     persist_all adding_actor inmemory_storage byte_message ''Add'' [2, 3] 0 ex_ctx
       (Some (journal_new ''a'' (configured_types adding_actor))) [] = Some (ex_ctx, Some j, store') \<and>
     started adding_actor inmemory_storage (\<lambda>_. store') (0, ex_ctx) = Some (Inr ((5, ex_ctx), j'))"
  using event_sourcing [of byte_message "[2, 3]" "\<lambda>b. [b]" adding_actor "''Add''" "''add''"
      "\<lambda>s b. (fst s + unat b, snd s)" "''Adder''" "(0, ex_ctx)" "''a''" "[]" 0 ex_ctx]
  by (simp add: wire_message_def byte_message_def adding_actor_def ex_ctx_def initial_context_def
      actor_context_new_def start_actor_def i64_max_def split: list.splits)

end
