(* ===== verification/Cluster_Nodes.thy ===== *)
theory Cluster_Nodes
  imports Collections
begin

text \<open>
  Cluster membership: the nodes a system knows and the store that holds them
  (\<open>remote/cluster/node.rs\<close>).

  The store keeps a map of node states and a consistent-hash ring of nodes. The ring is the
  \<open>hashring\<close> crate: a record of functions that is an argument of the operations, with its
  documented behaviour as the hypothesis \<open>ring_lawful\<close>. Points in time are numbers of
  milliseconds.
\<close>

datatype node_status = Joining | Healthy | Unhealthy | NodeTerminated

definition is_healthy :: "node_status \<Rightarrow> bool" where
  "is_healthy s \<longleftrightarrow> s = Healthy"

type_synonym time = nat
type_synonym node_attributes = "(string, string) hash_map"

record remote_node_state =
  state_id :: node_id
  state_addr :: string
  state_tag :: string
  ping_latency :: "nat option"
  last_heartbeat :: "time option"
  state_started_at :: "time option"
  node_status :: node_status
  state_attributes :: node_attributes

record remote_node =
  node_id :: node_id
  node_addr :: string
  node_tag :: string
  node_started_at :: "time option"
  node_attributes :: node_attributes

datatype node_selector = SelectAll | SelectAttribute string string

definition selector_includes :: "node_selector \<Rightarrow> remote_node \<Rightarrow> bool" where
  "selector_includes sel n =
     (case sel of
        SelectAll \<Rightarrow> True
      | SelectAttribute k v \<Rightarrow> hm_get (node_attributes n) k = Some v)"

definition remote_node_state_new :: "remote_node \<Rightarrow> remote_node_state" where
  "remote_node_state_new n =
     \<lparr>state_id = node_id n, state_addr = node_addr n, state_tag = node_tag n, ping_latency = None,
      last_heartbeat = None, state_started_at = node_started_at n, node_status = Joining,
      state_attributes = node_attributes n\<rparr>"

definition remote_node_from_state :: "remote_node_state \<Rightarrow> remote_node" where
  "remote_node_from_state s =
     \<lparr>node_id = state_id s, node_addr = state_addr s, node_tag = state_tag s,
      node_started_at = state_started_at s, node_attributes = state_attributes s\<rparr>"

text \<open>\<open>PartialEq\<close> compares ids and addresses only.\<close>

definition remote_node_eq :: "remote_node \<Rightarrow> remote_node \<Rightarrow> bool" where
  "remote_node_eq a b \<longleftrightarrow> node_id a = node_id b \<and> node_addr a = node_addr b"

section \<open>Cluster events\<close>

record cluster_member_up =
  up_leader_id :: node_id
  up_nodes :: "remote_node list"

datatype cluster_event =
    MemberUp cluster_member_up
  | NodeAdded remote_node
  | NodeRemoved remote_node
  | LeaderChanged node_id

section \<open>The node store\<close>

record 'ring hash_ring =
  ring_new :: 'ring
  ring_add :: "remote_node \<Rightarrow> 'ring \<Rightarrow> 'ring"
  ring_remove :: "remote_node \<Rightarrow> 'ring \<Rightarrow> remote_node option \<times> 'ring"
  ring_get :: "'ring \<Rightarrow> string \<Rightarrow> remote_node option"

record 'ring remote_node_store =
  nodes :: "(node_id, remote_node_state) hash_map"
  table :: 'ring

definition collect_map :: "('k \<times> 'v) list \<Rightarrow> ('k, 'v) hash_map" where
  "collect_map kvs = fold (\<lambda>(k, v). hm_insert k v) kvs []"

definition node_store_new :: "'ring hash_ring \<Rightarrow> remote_node list \<Rightarrow> 'ring remote_node_store" where
  "node_store_new R ns =
     \<lparr>nodes = collect_map (map (\<lambda>n. (node_id n, remote_node_state_new n)) ns),
      table = fold (ring_add R) ns (ring_new R)\<rparr>"

definition update_nodes ::
  "remote_node_state list \<Rightarrow> 'ring remote_node_store \<Rightarrow> 'ring remote_node_store" where
  "update_nodes ns st = st\<lparr>nodes := fold (\<lambda>n. hm_insert (state_id n) n) ns (nodes st)\<rparr>"

definition node_terminated :: "node_id \<Rightarrow> 'ring remote_node_store \<Rightarrow> 'ring remote_node_store" where
  "node_terminated nid st =
     st\<lparr>nodes := hm_modify nid (\<lambda>n. n\<lparr>node_status := NodeTerminated\<rparr>) (nodes st)\<rparr>"

definition node_store_get :: "node_id \<Rightarrow> 'ring remote_node_store \<Rightarrow> remote_node_state option" where
  "node_store_get nid st = hm_get (nodes st) nid"

definition is_registered :: "node_id \<Rightarrow> 'ring remote_node_store \<Rightarrow> bool" where
  "is_registered nid st \<longleftrightarrow> hm_contains (nodes st) nid"

definition node_store_remove ::
  "'ring hash_ring \<Rightarrow> node_id \<Rightarrow> 'ring remote_node_store \<Rightarrow> remote_node option \<times> 'ring remote_node_store" where
  "node_store_remove R nid st =
     (case hm_get (nodes st) nid of
        None \<Rightarrow> (None, st)
      | Some n \<Rightarrow>
          (let (removed, tbl) = ring_remove R (remote_node_from_state n) (table st)
           in (removed, st\<lparr>nodes := hm_remove nid (nodes st), table := tbl\<rparr>)))"

definition get_by_key :: "'ring hash_ring \<Rightarrow> string \<Rightarrow> 'ring remote_node_store \<Rightarrow> remote_node option" where
  "get_by_key R key st = ring_get R (table st) key"

definition get_all :: "'ring remote_node_store \<Rightarrow> remote_node_state list" where
  "get_all st = hm_values (nodes st)"

definition node_store_add ::
  "'ring hash_ring \<Rightarrow> remote_node \<Rightarrow> 'ring remote_node_store \<Rightarrow> 'ring remote_node_store" where
  "node_store_add R n st =
     (let ns = sort_key state_id (get_all st @ [remote_node_state_new n])
      in \<lparr>nodes = collect_map (map (\<lambda>n. (state_id n, n)) ns),
          table = fold (\<lambda>n. ring_add R (remote_node_from_state n)) ns (ring_new R)\<rparr>)"

section \<open>The store and its ring\<close>

text \<open>
  What the crate documents: a ring holds the nodes that were added and not removed, a look-up
  returns one of them, and fails only on the empty ring.
\<close>

definition ring_lawful :: "'ring hash_ring \<Rightarrow> ('ring \<Rightarrow> remote_node set) \<Rightarrow> bool" where
  "ring_lawful R members \<longleftrightarrow>
     members (ring_new R) = {} \<and>
     (\<forall>n r. members (ring_add R n r) = insert n (members r)) \<and>
     (\<forall>n r. members (snd (ring_remove R n r)) = members r - {n}) \<and>
     (\<forall>r key. case ring_get R r key of None \<Rightarrow> members r = {} | Some n \<Rightarrow> n \<in> members r)"

definition store_ok :: "('ring \<Rightarrow> remote_node set) \<Rightarrow> 'ring remote_node_store \<Rightarrow> bool" where
  "store_ok members st \<longleftrightarrow>
     hm_wf (nodes st) \<and>
     (\<forall>nid s. hm_get (nodes st) nid = Some s \<longrightarrow> state_id s = nid) \<and>
     members (table st) = remote_node_from_state ` snd ` set (nodes st)"

lemma ring_fold:
  assumes "ring_lawful R members"
  shows "members (fold (\<lambda>x. ring_add R (f x)) xs r) = members r \<union> f ` set xs"
  using assms by (induction xs arbitrary: r) (auto simp: ring_lawful_def)

lemma collect_map_wf: "hm_wf (collect_map kvs)"
  unfolding collect_map_def by (rule hm.wf_fold_ins) simp

lemma collect_map_get: "hm_get (collect_map kvs) k = map_of (rev kvs) k"
  unfolding collect_map_def by (subst hm.get_fold_ins) (simp split: option.split)

lemma collect_map_distinct:
  assumes "distinct (map fst kvs)"
  shows "set (collect_map kvs) = set kvs"
proof -
  have "(k, v) \<in> set (collect_map kvs) \<longleftrightarrow> (k, v) \<in> set kvs" for k v
  proof -
    have "(k, v) \<in> set (collect_map kvs) \<longleftrightarrow> hm_get (collect_map kvs) k = Some v"
      by (simp add: hm_get_in_set [OF collect_map_wf])
    also have "\<dots> \<longleftrightarrow> map_of (rev kvs) k = Some v" by (simp only: collect_map_get)
    also have "\<dots> \<longleftrightarrow> (k, v) \<in> set (rev kvs)"
      using assms by (intro map_of_eq_Some_iff) (simp add: rev_map [symmetric])
    finally show ?thesis by simp
  qed
  then show ?thesis by auto
qed

lemma from_state_new [simp]: "remote_node_from_state (remote_node_state_new n) = n"
  by (simp add: remote_node_from_state_def remote_node_state_new_def)

lemma state_id_new [simp]: "state_id (remote_node_state_new n) = node_id n"
  by (simp add: remote_node_state_new_def)

lemma store_ok_collect:
  assumes "ring_lawful R members" and "distinct (map state_id ns)"
  shows "store_ok members
           \<lparr>nodes = collect_map (map (\<lambda>n. (state_id n, n)) ns),
            table = fold (\<lambda>n. ring_add R (remote_node_from_state n)) ns (ring_new R)\<rparr>"
proof -
  let ?kvs = "map (\<lambda>n. (state_id n, n)) ns"
  have d: "distinct (map fst ?kvs)" using assms(2) by (simp add: comp_def)
  have "members (fold (\<lambda>n. ring_add R (remote_node_from_state n)) ns (ring_new R)) =
          remote_node_from_state ` set ns"
    using ring_fold [OF assms(1), of remote_node_from_state ns "ring_new R"] assms(1)
    by (simp add: ring_lawful_def)
  moreover have "snd ` set (collect_map ?kvs) = set ns"
    by (simp add: collect_map_distinct [OF d] image_image)
  moreover have "\<forall>nid s. hm_get (collect_map ?kvs) nid = Some s \<longrightarrow> state_id s = nid"
    by (auto simp: hm_get_in_set [OF collect_map_wf] collect_map_distinct [OF d])
  ultimately show ?thesis
    unfolding store_ok_def remote_node_store.select_convs
    by (intro conjI collect_map_wf) (assumption, simp only:)
qed

lemma store_ok_new [inv_intros]:
  assumes "ring_lawful R members" and "distinct (map node_id ns)"
  shows "store_ok members (node_store_new R ns)"
proof -
  have "distinct (map state_id (map remote_node_state_new ns))"
    using assms(2) by (simp add: comp_def)
  from store_ok_collect [OF assms(1) this] show ?thesis
    by (simp add: node_store_new_def comp_def fold_map state_id_new)
qed

lemma state_ids: "store_ok members st \<Longrightarrow> map state_id (hm_values (nodes st)) = hm_keys (nodes st)"
  by (force simp: store_ok_def hm_get_in_set)

lemma store_ok_add [inv_intros]:
  assumes "ring_lawful R members" and "store_ok members st" and "\<not> is_registered (node_id n) st"
  shows "store_ok members (node_store_add R n st)"
proof -
  let ?ns = "get_all st @ [remote_node_state_new n]"
  have "distinct (map state_id ?ns)"
    using assms(2,3) state_ids [OF assms(2)]
    by (auto simp: get_all_def store_ok_def is_registered_def remote_node_state_new_def
        simp del: map_map)
  then have "distinct (map state_id (sort_key state_id ?ns))"
    by (metis distinct_map distinct_sort set_sort)
  from store_ok_collect [OF assms(1) this] show ?thesis by (simp add: node_store_add_def Let_def)
qed

lemma store_ok_remove [inv_intros]:
  assumes "ring_lawful R members" and "store_ok members st"
  shows "store_ok members (snd (node_store_remove R nid st))"
proof (cases "hm_get (nodes st) nid")
  case None
  with assms(2) show ?thesis by (simp add: node_store_remove_def)
next
  case (Some n)
  let ?f = remote_node_from_state
  have wf: "hm_wf (nodes st)" and ids: "\<And>k s. (k, s) \<in> set (nodes st) \<Longrightarrow> state_id s = k"
    using assms(2) by (auto simp: store_ok_def hm_get_in_set)
  have n: "(nid, n) \<in> set (nodes st)" using Some wf by (simp add: hm_get_in_set)
  have "?f ` snd ` {p \<in> set (nodes st). fst p \<noteq> nid} = ?f ` snd ` set (nodes st) - {?f n}"
  proof (intro equalityI subsetI)
    fix x
    assume "x \<in> ?f ` snd ` {p \<in> set (nodes st). fst p \<noteq> nid}"
    then obtain k s where ks: "(k, s) \<in> set (nodes st)" "k \<noteq> nid" "x = ?f s" by auto
    have "state_id s \<noteq> state_id n" using ids [OF ks(1)] ids [OF n] ks(2) by simp
    then have "?f s \<noteq> ?f n" by (auto simp: remote_node_from_state_def)
    with ks show "x \<in> ?f ` snd ` set (nodes st) - {?f n}" by force
  next
    fix x
    assume "x \<in> ?f ` snd ` set (nodes st) - {?f n}"
    then obtain k s where ks: "(k, s) \<in> set (nodes st)" "x = ?f s" "?f s \<noteq> ?f n" by auto
    then have "k \<noteq> nid" using eq_key_imp_eq_value [OF wf _ n] by auto
    with ks show "x \<in> ?f ` snd ` {p \<in> set (nodes st). fst p \<noteq> nid}" by force
  qed
  with assms Some show ?thesis
    by (auto simp: node_store_remove_def store_ok_def ring_lawful_def Let_def split_beta)
qed

text \<open>An update that gives a known node a new status but keeps its identity.\<close>

definition same_identity :: "remote_node_state \<Rightarrow> 'ring remote_node_store \<Rightarrow> bool" where
  "same_identity s st \<longleftrightarrow>
     (\<exists>s'. hm_get (nodes st) (state_id s) = Some s' \<and> remote_node_from_state s' = remote_node_from_state s)"

lemma same_identity_image:
  assumes "hm_wf m" and "hm_get m k = Some v" and "f v' = f v"
  shows "f ` snd ` set (hm_modify k (\<lambda>_. v') m) = f ` snd ` set m"
  using assms
proof (induction m)
  case Nil
  then show ?case by simp
next
  case (Cons p m)
  then show ?case by (cases p) (auto split: if_splits)
qed

lemma store_ok_update_one:
  assumes "store_ok members st" and "same_identity s st"
  shows "store_ok members (st\<lparr>nodes := hm_insert (state_id s) s (nodes st)\<rparr>)"
proof -
  obtain s' where s': "hm_get (nodes st) (state_id s) = Some s'"
    "remote_node_from_state s' = remote_node_from_state s"
    using assms(2) by (auto simp: same_identity_def)
  have "hm_contains (nodes st) (state_id s)" using s'(1) by (auto simp: hm_contains_iff)
  then have ins: "hm_insert (state_id s) s (nodes st) = hm_modify (state_id s) (\<lambda>_. s) (nodes st)"
    by (rule hm_insert_present)
  have "remote_node_from_state ` snd ` set (hm_insert (state_id s) s (nodes st)) =
          remote_node_from_state ` snd ` set (nodes st)"
    unfolding ins using assms(1) s'(2)
    by (intro same_identity_image [OF _ s'(1)]) (auto simp: store_ok_def)
  with assms(1) show ?thesis by (auto simp: store_ok_def)
qed

lemma store_ok_update [inv_intros]:
  assumes "store_ok members st" and "\<forall>s\<in>set ns. same_identity s st"
  shows "store_ok members (update_nodes ns st)"
  using assms
proof (induction ns arbitrary: st)
  case Nil
  then show ?case by (simp add: update_nodes_def)
next
  case (Cons s ns)
  let ?st = "st\<lparr>nodes := hm_insert (state_id s) s (nodes st)\<rparr>"
  have "store_ok members ?st" using Cons.prems by (intro store_ok_update_one) auto
  moreover have "\<forall>t\<in>set ns. same_identity t ?st"
    using Cons.prems(2) by (auto simp: same_identity_def)
  ultimately have "store_ok members (update_nodes ns ?st)" by (rule Cons.IH)
  then show ?case by (simp add: update_nodes_def)
qed

lemma store_ok_terminated [inv_intros]:
  assumes "store_ok members st"
  shows "store_ok members (node_terminated nid st)"
proof (cases "hm_get (nodes st) nid")
  case None
  then have "hm_modify nid g (nodes st) = nodes st" for g by (simp add: hm_get_None hm_modify_absent)
  with assms show ?thesis by (simp add: node_terminated_def)
next
  case (Some s)
  let ?t = "s\<lparr>node_status := NodeTerminated\<rparr>"
  have sid: "state_id s = nid" using assms Some by (auto simp: store_ok_def)
  have "hm_modify nid (\<lambda>n. n\<lparr>node_status := NodeTerminated\<rparr>) (nodes st) = hm_insert nid ?t (nodes st)"
    using Some by (simp add: hm_insert_present hm_contains_iff hm_modify_const)
  moreover have "store_ok members (st\<lparr>nodes := hm_insert (state_id ?t) ?t (nodes st)\<rparr>)"
    using Some sid by (intro store_ok_update_one [OF assms])
      (auto simp: same_identity_def remote_node_from_state_def)
  ultimately show ?thesis using sid by (simp add: node_terminated_def)
qed

text \<open>The ways the registry changes its store.\<close>

inductive store_step :: "'ring hash_ring \<Rightarrow> 'ring remote_node_store \<Rightarrow> 'ring remote_node_store \<Rightarrow> bool"
  for R :: "'ring hash_ring" where
  add: "\<not> is_registered (node_id n) st \<Longrightarrow> store_step R st (node_store_add R n st)"
| remove: "store_step R st (snd (node_store_remove R nid st))"
| update: "\<forall>s\<in>set ns. same_identity s st \<Longrightarrow> store_step R st (update_nodes ns st)"
| terminated: "store_step R st (node_terminated nid st)"

lemma store_reachable:
  assumes "(store_step R)\<^sup>*\<^sup>* st st'" and "ring_lawful R members" and "store_ok members st"
  shows "store_ok members st'"
  using assms
proof (induction rule: rtranclp_induct)
  case (step st' st'')
  from step(2) show ?case
    using step by cases (auto intro: inv_intros)
qed

text \<open>Consistent placement: as long as nodes join with ids that are not registered yet and status
  updates keep a node's identity, the ring of the node store and its map agree in every
  reachable state: a key is placed on a registered node, as it is registered, and placement
  fails only when no node is registered.\<close>

theorem placement_is_registered:
  assumes "ring_lawful R members" and "distinct (map node_id ns)"
    and "(store_step R)\<^sup>*\<^sup>* (node_store_new R ns) st"
  shows "case get_by_key R key st of
           None \<Rightarrow> nodes st = []
         | Some n \<Rightarrow> \<exists>s. node_store_get (node_id n) st = Some s \<and> remote_node_from_state s = n"
proof -
  have ok: "store_ok members st"
    using store_reachable [OF assms(3,1)] store_ok_new [OF assms(1,2)] by blast
  have law: "case ring_get R (table st) key of None \<Rightarrow> members (table st) = {} | Some n \<Rightarrow> n \<in> members (table st)"
    using assms(1) by (simp add: ring_lawful_def)
  show ?thesis
  proof (cases "ring_get R (table st) key")
    case None
    with law ok show ?thesis by (auto simp: get_by_key_def store_ok_def)
  next
    case (Some n)
    with law ok obtain k s where "(k, s) \<in> set (nodes st)" "n = remote_node_from_state s"
      by (force simp: store_ok_def)
    with Some ok show ?thesis
      by (auto simp: get_by_key_def store_ok_def node_store_get_def hm_get_in_set
          remote_node_from_state_def)
  qed
qed

text \<open>A ring as a list, with a look-up that takes its first node.\<close>

definition list_ring :: "remote_node list hash_ring" where
  "list_ring =
     \<lparr>ring_new = [], ring_add = (\<lambda>n r. n # r), ring_remove = (\<lambda>n r. (Some n, removeAll n r)),
      ring_get = (\<lambda>r key. case r of [] \<Rightarrow> None | n # _ \<Rightarrow> Some n)\<rparr>"

lemma list_ring_lawful: "ring_lawful list_ring set"
  by (auto simp: ring_lawful_def list_ring_def split: list.split)

definition ex_node :: "node_id \<Rightarrow> remote_node" where
  "ex_node nid = \<lparr>node_id = nid, node_addr = ''addr'', node_tag = ''tag'', node_started_at = Some 0,
                  node_attributes = []\<rparr>"

theorem placement_is_registered_witness:
  "case get_by_key list_ring ''key'' (node_store_new list_ring [ex_node 1, ex_node 2]) of
     None \<Rightarrow> nodes (node_store_new list_ring [ex_node 1, ex_node 2]) = []
   | Some n \<Rightarrow> \<exists>s. node_store_get (node_id n) (node_store_new list_ring [ex_node 1, ex_node 2]) = Some s \<and>
                   remote_node_from_state s = n"
  by (rule placement_is_registered [OF list_ring_lawful, of "[ex_node 1, ex_node 2]"])
     (simp_all add: ex_node_def)

end
