(* ===== verification/Shard_Coordinator.thy ===== *)
theory Shard_Coordinator
  imports Journal Cluster_Nodes
begin

text \<open>
  The shard coordinator: the singleton that assigns shards to shard hosts
  (\<open>sharding/coordinator\<close>): its state (\<open>mod.rs\<close>), allocation and its wire format
  (\<open>allocation.rs\<close>), rebalancing (\<open>balancing.rs\<close>), cluster events (\<open>discovery.rs\<close>) and
  statistics (\<open>stats.rs\<close>).

  A handler returns the coordinator's new state and the list of messages and tasks it starts, in
  the order of the code. The tasks that wait for a shard to stop end in an \<open>AllocateShard\<close>
  message to the coordinator itself, which is a step of its own. Persisting the \<open>AllocateShard\<close>
  event is an argument: its outcome.
\<close>

section \<open>State\<close>

text \<open>A reference to a shard host: the local one, or the one of another node.\<close>

datatype host_ref = HostLocal | HostRemote node_id

definition host_ref_node_id :: "host_ref \<Rightarrow> node_id option" where
  "host_ref_node_id r = (case r of HostLocal \<Rightarrow> None | HostRemote n \<Rightarrow> Some n)"

datatype shard_host_status = HostUnknown | HostStarting | HostReady | HostUnavailable

definition is_available :: "shard_host_status \<Rightarrow> bool" where
  "is_available s \<longleftrightarrow> s = HostReady"

record shard_host_state =
  host_node_id :: node_id
  host_node_tag :: string
  host_shards :: "shard_id list"
  host_actor :: host_ref
  host_status :: shard_host_status

record shard_coordinator =
  shard_entity :: string
  hosts :: "(node_id, shard_host_state) hash_map"
  shards :: "(shard_id, node_id) hash_map"
  reallocating_shards :: "shard_id list"
  scheduled_rebalance :: bool
  self_node_id :: "node_id option"
  system_event_subscription :: bool

definition shard_coordinator_new :: "string \<Rightarrow> shard_coordinator" where
  "shard_coordinator_new entity =
     \<lparr>shard_entity = entity, hosts = [], shards = [], reallocating_shards = [],
      scheduled_rebalance = False, self_node_id = None, system_event_subscription = False\<rparr>"

record stop_shard =
  stop_shard_id :: shard_id
  stop_request_id :: uuid
  stop_origin_node_id :: node_id

datatype coordinator_action =
    BroadcastAllocation shard_id node_id "host_ref list"
  | BroadcastReallocation shard_id "host_ref list"
  | StopShardTask host_ref stop_shard
  | CancelRebalance
  | ScheduleRebalance
  | RegisterHeartbeat
  | SubscribeSystemTopic

definition is_ready :: "shard_host_state \<Rightarrow> bool" where
  "is_ready h = (case host_status h of HostReady \<Rightarrow> True | _ \<Rightarrow> False)"

definition add_host :: "shard_host_state \<Rightarrow> shard_coordinator \<Rightarrow> shard_coordinator" where
  "add_host h c = c\<lparr>hosts := hm_insert (host_node_id h) h (hosts c)\<rparr>"

definition schedule_full_rebalance ::
  "shard_coordinator \<Rightarrow> shard_coordinator \<times> coordinator_action list" where
  "schedule_full_rebalance c =
     (c\<lparr>scheduled_rebalance := True\<rparr>,
      (if scheduled_rebalance c then [CancelRebalance] else []) @ [ScheduleRebalance])"

definition coordinator_persistence_key :: "shard_coordinator \<Rightarrow> string" where
  "coordinator_persistence_key c = shard_entity c @ ''-ShardCoordinator''"

text \<open>\<open>pre_recovery\<close>: the node itself, then every other node the remote system knows.\<close>

definition coordinator_pre_recovery ::
  "node_id \<Rightarrow> string \<Rightarrow> remote_node_state list \<Rightarrow> shard_coordinator \<Rightarrow>
   shard_coordinator \<times> coordinator_action list" where
  "coordinator_pre_recovery self_id self_tag potential_hosts c =
     (let c1 = add_host \<lparr>host_node_id = self_id, host_node_tag = self_tag, host_shards = [],
                         host_actor = HostLocal, host_status = HostReady\<rparr>
                 (c\<lparr>self_node_id := Some self_id\<rparr>);
          c2 = c1\<lparr>system_event_subscription := True\<rparr>
      in (fold (\<lambda>n c.
             if state_id n \<noteq> self_id then
               add_host \<lparr>host_node_id = state_id n, host_node_tag = [], host_shards = [],
                         host_actor = HostRemote (state_id n),
                         host_status = (if node_status n = Healthy \<or> node_status n = Joining
                                        then HostReady else HostUnavailable)\<rparr> c
             else c) potential_hosts c2,
          [RegisterHeartbeat, SubscribeSystemTopic]))"

section \<open>Allocation\<close>

record allocate_shard_msg =
  alloc_shard_id :: shard_id
  alloc_rebalancing :: bool

datatype allocate_shard_err = AllocUnknown | AllocPersistence

datatype allocate_shard_result =
    Allocated shard_id node_id
  | AlreadyAllocated shard_id node_id
  | NotAllocated
  | AllocErr allocate_shard_err

definition shards_by_node :: "node_id \<Rightarrow> shard_coordinator \<Rightarrow> shard_id list option" where
  "shards_by_node nid c = map_option host_shards (hm_get (hosts c) nid)"

text \<open>
  \<open>allocate\<close>: a stable sort of the candidates by their number of shards; the first one takes
  the shard. The candidates are the entries of the host map, so that the update goes to the
  entry that was chosen.
\<close>

definition allocate ::
  "shard_id \<Rightarrow> (node_id \<times> shard_host_state) list \<Rightarrow> shard_coordinator \<Rightarrow>
   allocate_shard_result \<times> shard_coordinator \<times> coordinator_action list" where
  "allocate sid candidates c =
     (let sorted_hosts = sort_key (\<lambda>(_, h). length (host_shards h)) candidates
      in case sorted_hosts of
           [] \<Rightarrow> (NotAllocated, c, [])
         | (key, h) # _ \<Rightarrow>
             (let nid = host_node_id h
              in (Allocated sid nid,
                  c\<lparr>shards := hm_insert sid nid (shards c),
                    hosts := hm_modify key (\<lambda>h. h\<lparr>host_shards := hs_insert sid (host_shards h)\<rparr>)
                               (hosts c)\<rparr>,
                  if sid \<in> set (host_shards h) then []
                  else [BroadcastAllocation sid nid (map (\<lambda>(_, h). host_actor h) sorted_hosts)])))"

definition allocate_shard ::
  "shard_id \<Rightarrow> shard_coordinator \<Rightarrow>
   allocate_shard_result \<times> shard_coordinator \<times> coordinator_action list" where
  "allocate_shard sid c =
     (case hm_get (shards c) sid of
        Some nid \<Rightarrow> (AlreadyAllocated sid nid, c, [])
      | None \<Rightarrow> allocate sid (filter (\<lambda>(_, h). is_ready h) (hosts c)) c)"

definition handle_allocate_shard ::
  "(persist_err + unit) \<Rightarrow> allocate_shard_msg \<Rightarrow> shard_coordinator \<Rightarrow>
   allocate_shard_result \<times> shard_coordinator \<times> coordinator_action list" where
  "handle_allocate_shard persisted msg c =
     (case hm_get (shards c) (alloc_shard_id msg) of
        Some nid \<Rightarrow> (AlreadyAllocated (alloc_shard_id msg) nid, c, [])
      | None \<Rightarrow>
          (if alloc_rebalancing msg then allocate_shard (alloc_shard_id msg) c
           else (case persisted of
                   Inr _ \<Rightarrow> allocate_shard (alloc_shard_id msg) c
                 | Inl _ \<Rightarrow> (AllocErr AllocPersistence, c, []))))"

definition recover_allocate_shard :: "shard_coordinator \<Rightarrow> allocate_shard_msg \<Rightarrow> shard_coordinator" where
  "recover_allocate_shard c msg = fst (snd (allocate_shard (alloc_shard_id msg) c))"

text \<open>
  The sends of a broadcast, in order: the target node is awaited inside the loop, all others
  after it.
\<close>

datatype host_message = SendShardAllocated shard_id node_id | SendShardReallocating shard_id

definition broadcast_allocation ::
  "shard_id \<Rightarrow> node_id \<Rightarrow> host_ref list \<Rightarrow> (host_ref \<times> host_message) list" where
  "broadcast_allocation sid nid hs =
     map (\<lambda>h. (h, SendShardAllocated sid nid))
       (filter (\<lambda>h. host_ref_node_id h = Some nid) hs @ filter (\<lambda>h. host_ref_node_id h \<noteq> Some nid) hs)"

definition broadcast_reallocation :: "shard_id \<Rightarrow> host_ref list \<Rightarrow> (host_ref \<times> host_message) list" where
  "broadcast_reallocation sid hs = map (\<lambda>h. (h, SendShardReallocating sid)) hs"

section \<open>Rebalancing\<close>

datatype rebalance = RebalanceShards "shard_id list" | RebalanceNodeUnavailable node_id | RebalanceAll

text \<open>
  The loop of \<open>rebalance_shards\<close>: the broadcasts are spawned as it goes, the stop tasks are
  collected and spawned after it. \<open>req\<close> gives the fresh request id of each task.
\<close>

fun rebalance_loop ::
  "(shard_id \<Rightarrow> uuid) \<Rightarrow> node_id \<Rightarrow> host_ref list \<Rightarrow> shard_id list \<Rightarrow> shard_coordinator \<Rightarrow>
   (shard_coordinator \<times> coordinator_action list \<times> coordinator_action list) may_panic" where
  "rebalance_loop req origin refs [] c = Inr (c, [], [])"
| "rebalance_loop req origin refs (sid # rest) c =
     (case hm_get (shards c) sid of
        None \<Rightarrow>
          map_sum id (\<lambda>(c', bs, ts). (c', BroadcastReallocation sid refs # bs, ts))
            (rebalance_loop req origin refs rest c)
      | Some nid \<Rightarrow>
          (case hm_get (hosts c) nid of
             None \<Rightarrow> Inl (Panic ''called unwrap on a None value'')
           | Some h \<Rightarrow>
               (let c1 = c\<lparr>shards := hm_remove sid (shards c),
                           hosts := hm_modify nid (\<lambda>h. h\<lparr>host_shards := hs_remove sid (host_shards h)\<rparr>)
                                      (hosts c)\<rparr>;
                    task = StopShardTask (host_actor h)
                             \<lparr>stop_shard_id = sid, stop_request_id = req sid,
                              stop_origin_node_id = origin\<rparr>
                in map_sum id (\<lambda>(c', bs, ts). (c', BroadcastReallocation sid refs # bs, task # ts))
                     (rebalance_loop req origin refs rest c1))))"

definition rebalance_shards ::
  "(shard_id \<Rightarrow> uuid) \<Rightarrow> shard_id list \<Rightarrow> shard_coordinator \<Rightarrow>
   (shard_coordinator \<times> coordinator_action list) may_panic" where
  "rebalance_shards req sids c =
     (case self_node_id c of
        None \<Rightarrow> Inl (Panic ''node id'')
      | Some origin \<Rightarrow>
          map_sum id (\<lambda>(c', bs, ts). (c', bs @ ts))
            (rebalance_loop req origin (map (\<lambda>(_, h). host_actor h) (hosts c)) sids c))"

text \<open>What a stop task does once its one-shot receiver yields the answer of the host.\<close>

datatype 'e stop_result = StopNotSent | StopChannelClosed | StopAnswered "message_unwrap_err + 'e"

definition stop_task_result :: "shard_id \<Rightarrow> 'e stop_result \<Rightarrow> allocate_shard_msg option" where
  "stop_task_result sid res =
     (case res of
        StopAnswered (Inr _) \<Rightarrow> Some \<lparr>alloc_shard_id = sid, alloc_rebalancing = True\<rparr>
      | _ \<Rightarrow> None)"

fun reallocate_all ::
  "shard_id list \<Rightarrow> shard_coordinator \<Rightarrow> shard_coordinator \<times> coordinator_action list" where
  "reallocate_all [] c = (c, [])"
| "reallocate_all (sid # rest) c =
     (let (_, c1, as1) = allocate_shard sid (c\<lparr>shards := hm_remove sid (shards c)\<rparr>);
          (c2, as2) = reallocate_all rest c1
      in (c2, as1 @ as2))"

definition rebalance_unavailable_node ::
  "node_id \<Rightarrow> shard_coordinator \<Rightarrow> shard_coordinator \<times> coordinator_action list" where
  "rebalance_unavailable_node nid c =
     (case hm_get (hosts c) nid of
        None \<Rightarrow> (c, [])
      | Some h \<Rightarrow>
          reallocate_all (host_shards h)
            (c\<lparr>hosts := hm_modify nid (\<lambda>h. h\<lparr>host_status := HostUnavailable, host_shards := []\<rparr>)
                          (hosts c)\<rparr>))"

definition excess_shards :: "nat \<Rightarrow> shard_host_state \<Rightarrow> shard_id list" where
  "excess_shards fair h =
     (if length (host_shards h) > fair then take (length (host_shards h) - fair) (host_shards h)
      else [])"

definition handle_rebalance ::
  "(shard_id \<Rightarrow> uuid) \<Rightarrow> rebalance \<Rightarrow> shard_coordinator \<Rightarrow>
   (shard_coordinator \<times> coordinator_action list) may_panic" where
  "handle_rebalance req msg c =
     (case msg of
        RebalanceAll \<Rightarrow>
          (if length (hosts c) = 0 then Inl (Panic ''attempt to divide by zero'')
           else
             (let fair = length (shards c) div length (hosts c)
              in rebalance_shards req (concat (map (\<lambda>(_, h). excess_shards fair h) (hosts c))) c))
      | RebalanceShards sids \<Rightarrow> rebalance_shards req sids c
      | RebalanceNodeUnavailable nid \<Rightarrow> Inr (rebalance_unavailable_node nid c))"

section \<open>Cluster events\<close>

definition on_node_discovered ::
  "remote_node \<Rightarrow> shard_coordinator \<Rightarrow> shard_coordinator \<times> coordinator_action list" where
  "on_node_discovered n c =
     (case hm_get (hosts c) (node_id n) of
        Some h \<Rightarrow>
          (if host_status h \<noteq> HostReady then
             schedule_full_rebalance
               (c\<lparr>hosts := hm_modify (node_id n) (\<lambda>h. h\<lparr>host_status := HostReady\<rparr>) (hosts c)\<rparr>)
           else (c, []))
      | None \<Rightarrow>
          schedule_full_rebalance
            (c\<lparr>hosts := hm_insert (node_id n)
                 \<lparr>host_node_id = node_id n, host_node_tag = node_tag n, host_shards = [],
                  host_actor = HostRemote (node_id n), host_status = HostReady\<rparr> (hosts c)\<rparr>))"

definition on_node_removed ::
  "(shard_id \<Rightarrow> uuid) \<Rightarrow> node_id \<Rightarrow> shard_coordinator \<Rightarrow>
   (shard_coordinator \<times> coordinator_action list) may_panic" where
  "on_node_removed req nid c =
     (case hm_get (hosts c) nid of
        Some _ \<Rightarrow> handle_rebalance req (RebalanceNodeUnavailable nid) c
      | None \<Rightarrow> Inr (c, []))"

definition handle_cluster_event ::
  "(shard_id \<Rightarrow> uuid) \<Rightarrow> cluster_event \<Rightarrow> shard_coordinator \<Rightarrow>
   (shard_coordinator \<times> coordinator_action list) may_panic" where
  "handle_cluster_event req ev c =
     (case ev of
        NodeAdded n \<Rightarrow> Inr (on_node_discovered n c)
      | NodeRemoved n \<Rightarrow> on_node_removed req (node_id n) c
      | _ \<Rightarrow> Inr (c, []))"

section \<open>Statistics\<close>

record node_stats =
  stats_node_id :: node_id
  stats_shard_count :: u64
  stats_status :: shard_host_status

record sharding_stats =
  stats_entity_type :: string
  stats_total_shards :: u64
  stats_shards :: "(shard_id \<times> node_id) list"
  stats_nodes :: "node_stats list"

definition get_sharding_stats :: "shard_coordinator \<Rightarrow> sharding_stats" where
  "get_sharding_stats c =
     \<lparr>stats_entity_type = shard_entity c, stats_total_shards = of_nat (length (shards c)),
      stats_shards = shards c,
      stats_nodes = map (\<lambda>(_, h). \<lparr>stats_node_id = host_node_id h,
                                  stats_shard_count = of_nat (length (host_shards h)),
                                  stats_status = host_status h\<rparr>) (hosts c)\<rparr>"

section \<open>The default shard allocator\<close>

text \<open>
  \<open>DefaultHasher\<close> is part of the standard library but its algorithm is unspecified: the hash of
  an actor id is an argument.
\<close>

definition default_allocator_max :: shard_id where
  "default_allocator_max = 100"

definition default_allocate :: "(actor_id \<Rightarrow> u64) \<Rightarrow> shard_id \<Rightarrow> actor_id \<Rightarrow> shard_id may_panic" where
  "default_allocate hash max_shards aid =
     (if max_shards = 0 then Inl (Panic ''attempt to calculate the remainder with a divisor of zero'')
      else Inr (ucast (hash aid mod ucast max_shards)))"

section \<open>The allocation invariant\<close>

text \<open>
  Hosts are keyed by their node ids, and the map from shards to nodes agrees with the shard sets of
  the hosts, so that a shard is on at most one host. While shards are being moved off a node, the
  shards of \<open>pend\<close> are on no host and may still be in the map.
\<close>

definition on :: "shard_coordinator \<Rightarrow> node_id \<Rightarrow> shard_id \<Rightarrow> bool" where
  "on c n s \<longleftrightarrow> (\<exists>h. hm_get (hosts c) n = Some h \<and> s \<in> set (host_shards h))"

definition hosts_ok :: "shard_coordinator \<Rightarrow> bool" where
  "hosts_ok c \<longleftrightarrow>
     hm_wf (hosts c) \<and> hm_wf (shards c) \<and>
     (\<forall>n h. hm_get (hosts c) n = Some h \<longrightarrow> host_node_id h = n \<and> distinct (host_shards h))"

definition coord_ok_except :: "shard_id list \<Rightarrow> shard_coordinator \<Rightarrow> bool" where
  "coord_ok_except pend c \<longleftrightarrow>
     hosts_ok c \<and> (\<forall>s\<in>set pend. \<forall>n. \<not> on c n s) \<and>
     (\<forall>s n. s \<notin> set pend \<longrightarrow> (hm_get (shards c) s = Some n \<longleftrightarrow> on c n s))"

abbreviation coord_ok :: "shard_coordinator \<Rightarrow> bool" where
  "coord_ok \<equiv> coord_ok_except []"

definition has_ready_host :: "shard_coordinator \<Rightarrow> bool" where
  "has_ready_host c \<longleftrightarrow> (\<exists>(_, h) \<in> set (hosts c). is_ready h)"

definition load :: "shard_coordinator \<Rightarrow> node_id \<Rightarrow> nat" where
  "load c n = (case hm_get (hosts c) n of Some h \<Rightarrow> length (host_shards h) | None \<Rightarrow> 0)"

lemma sort_key_hd_min:
  assumes "sort_key f xs = y # ys"
  shows "y \<in> set xs" and "x \<in> set xs \<Longrightarrow> f y \<le> f x"
proof -
  have s: "set xs = set (y # ys)" using assms by (metis set_sort)
  then show "y \<in> set xs" by simp
  have "sorted (map f (y # ys))" using sorted_sort_key [of f xs] by (simp only: assms)
  then show "f y \<le> f x" if "x \<in> set xs" using that s by auto
qed

lemma allocate_shard_cases:
  assumes "hm_wf (hosts c)" and "\<forall>n h. hm_get (hosts c) n = Some h \<longrightarrow> host_node_id h = n"
  obtains
    (already) n where "hm_get (shards c) sid = Some n"
      "allocate_shard sid c = (AlreadyAllocated sid n, c, [])"
  | (none) "hm_get (shards c) sid = None" "\<not> has_ready_host c"
      "allocate_shard sid c = (NotAllocated, c, [])"
  | (new) n h acts where "hm_get (shards c) sid = None" "hm_get (hosts c) n = Some h" "is_ready h"
      "\<forall>n' h'. hm_get (hosts c) n' = Some h' \<longrightarrow> is_ready h' \<longrightarrow> length (host_shards h) \<le> length (host_shards h')"
      "allocate_shard sid c =
         (Allocated sid n,
          c\<lparr>shards := hm_insert sid n (shards c),
            hosts := hm_modify n (\<lambda>h. h\<lparr>host_shards := hs_insert sid (host_shards h)\<rparr>) (hosts c)\<rparr>, acts)"
proof (cases "hm_get (shards c) sid")
  case (Some n)
  then show ?thesis using already by (simp add: allocate_shard_def)
next
  case None
  let ?cs = "filter (\<lambda>(_, h). is_ready h) (hosts c)"
  show ?thesis
  proof (cases "sort_key (\<lambda>(_, h). length (host_shards h)) ?cs")
    case Nil
    then have "set ?cs = {}" by (metis list.set(1) set_sort)
    then have "\<not> has_ready_host c" by (auto simp: has_ready_host_def)
    with None Nil show ?thesis using none by (simp add: allocate_shard_def allocate_def)
  next
    case (Cons p ps)
    obtain k h where p: "p = (k, h)" by (cases p)
    have kh: "(k, h) \<in> set (hosts c)" "is_ready h"
      using sort_key_hd_min(1) [OF Cons] by (auto simp: p)
    then have get: "hm_get (hosts c) k = Some h" using assms(1) by (simp add: hm_get_in_set)
    then have k: "host_node_id h = k" using assms(2) by blast
    have min: "\<forall>n' h'. hm_get (hosts c) n' = Some h' \<longrightarrow> is_ready h' \<longrightarrow>
        length (host_shards h) \<le> length (host_shards h')"
      using sort_key_hd_min(2) [OF Cons] assms(1) by (fastforce simp: hm_get_in_set p)
    show ?thesis
      using new [OF None get kh(2) min] None Cons k
      by (simp add: allocate_shard_def allocate_def p Let_def)
  qed
qed

lemma coord_ok_exceptD:
  assumes "coord_ok_except pend c"
  shows "hm_wf (hosts c)" "\<forall>n h. hm_get (hosts c) n = Some h \<longrightarrow> host_node_id h = n"
  using assms by (auto simp: coord_ok_except_def hosts_ok_def)

text \<open>Putting a shard that is nowhere on one host, and taking a shard off its host.\<close>

abbreviation place :: "shard_id \<Rightarrow> node_id \<Rightarrow> shard_coordinator \<Rightarrow> shard_coordinator" where
  "place sid n c \<equiv>
     c\<lparr>shards := hm_insert sid n (shards c),
       hosts := hm_modify n (\<lambda>h. h\<lparr>host_shards := hs_insert sid (host_shards h)\<rparr>) (hosts c)\<rparr>"

abbreviation unplace :: "shard_id \<Rightarrow> node_id \<Rightarrow> shard_coordinator \<Rightarrow> shard_coordinator" where
  "unplace sid n c \<equiv>
     c\<lparr>shards := hm_remove sid (shards c),
       hosts := hm_modify n (\<lambda>h. h\<lparr>host_shards := hs_remove sid (host_shards h)\<rparr>) (hosts c)\<rparr>"

lemma on_place: "hm_get (hosts c) n = Some h \<Longrightarrow> on (place sid n c) n' s \<longleftrightarrow> on c n' s \<or> n' = n \<and> s = sid"
  by (auto simp: on_def)

lemma on_unplace: "on (unplace sid n c) n' s \<longleftrightarrow> on c n' s \<and> \<not> (n' = n \<and> s = sid)"
  by (auto simp: on_def)

lemma hosts_ok_place [inv_intros]: "hosts_ok c \<Longrightarrow> hosts_ok (place sid n c)"
  by (auto simp: hosts_ok_def)

lemma hosts_ok_unplace [inv_intros]: "hosts_ok c \<Longrightarrow> hosts_ok (unplace sid n c)"
  by (auto simp: hosts_ok_def distinct_removeAll)

lemma coord_ok_place:
  assumes "coord_ok_except (sid # pend) c" and "hm_get (hosts c) n = Some h" and "sid \<notin> set pend"
  shows "coord_ok_except pend (place sid n c)"
  using assms unfolding coord_ok_except_def
  by (auto simp: on_place [OF assms(2)] intro: hosts_ok_place)

lemma coord_ok_weaken:
  assumes "coord_ok_except pend c" and "hm_get (shards c) sid = None"
  shows "coord_ok_except (sid # pend) c"
proof -
  have "\<not> on c n sid" for n
    using assms unfolding coord_ok_except_def by (metis option.distinct(1))
  with assms(1) show ?thesis by (simp add: coord_ok_except_def)
qed

lemma coord_ok_forget:
  assumes "coord_ok_except (sid # pend) c" and "hm_get (shards c) sid = None"
  shows "coord_ok_except pend c"
proof -
  have "hm_get (shards c) s = Some n \<longleftrightarrow> on c n s" if "s \<notin> set pend" for s n
    using assms that unfolding coord_ok_except_def
    by (metis list.set_intros(1) option.distinct(1) set_ConsD)
  with assms(1) show ?thesis by (simp add: coord_ok_except_def)
qed

lemma coord_ok_unplace:
  assumes "coord_ok_except pend c" and "hm_get (shards c) sid = Some n" and "sid \<notin> set pend"
  shows "coord_ok_except pend (unplace sid n c)"
proof -
  have "on c n' sid \<longleftrightarrow> n' = n" for n'
    using assms unfolding coord_ok_except_def by (metis option.inject)
  with assms show ?thesis
    unfolding coord_ok_except_def by (auto simp: on_unplace intro: hosts_ok_unplace)
qed

lemma allocate_shard_ok:
  assumes "coord_ok_except pend c" and "sid \<notin> set pend"
  shows "coord_ok_except pend (fst (snd (allocate_shard sid c)))"
  using coord_ok_exceptD [OF assms(1)]
proof (cases rule: allocate_shard_cases [where sid = sid])
  case (new n h acts)
  have "coord_ok_except (sid # pend) c" using assms(1) new(1) by (intro coord_ok_weaken)
  from coord_ok_place [OF this new(2) assms(2)] new(5) show ?thesis by simp
qed (use assms(1) in simp_all)

definition ready :: "shard_coordinator \<Rightarrow> node_id \<Rightarrow> bool" where
  "ready c n \<longleftrightarrow> (\<exists>h. hm_get (hosts c) n = Some h \<and> is_ready h)"

lemma has_ready_host_iff: "hm_wf (hosts c) \<Longrightarrow> has_ready_host c \<longleftrightarrow> (\<exists>n. ready c n)"
  by (force simp: has_ready_host_def ready_def hm_get_in_set)

text \<open>What an allocation does to the rest of the state.\<close>

lemma allocate_shard_effect:
  fixes sid
  assumes "coord_ok_except pend c"
  defines "c' \<equiv> fst (snd (allocate_shard sid c))"
  shows "ready c' = ready c" and "hm_keys (hosts c') = hm_keys (hosts c)"
    and "s \<noteq> sid \<Longrightarrow> hm_get (shards c') s = hm_get (shards c) s"
    and "has_ready_host c \<Longrightarrow> hm_get (shards c') sid \<noteq> None"
    and "on c' n s \<longleftrightarrow> on c n s \<or> s = sid \<and> hm_get (shards c) sid = None \<and> hm_get (shards c') sid = Some n"
    and "hm_get (shards c) sid = None \<Longrightarrow> hm_get (shards c') sid = Some n \<Longrightarrow> ready c n"
proof -
  have "ready c' = ready c \<and> hm_keys (hosts c') = hm_keys (hosts c) \<and>
        (s \<noteq> sid \<longrightarrow> hm_get (shards c') s = hm_get (shards c) s) \<and>
        (has_ready_host c \<longrightarrow> hm_get (shards c') sid \<noteq> None) \<and>
        (on c' n s \<longleftrightarrow> on c n s \<or> s = sid \<and> hm_get (shards c) sid = None \<and> hm_get (shards c') sid = Some n) \<and>
        (hm_get (shards c) sid = None \<longrightarrow> hm_get (shards c') sid = Some n \<longrightarrow> ready c n)"
    using coord_ok_exceptD [OF assms(1)]
  proof (cases rule: allocate_shard_cases [where sid = sid])
    case (new m h acts)
    then have c': "c' = place sid m c" by (simp add: c'_def)
    have "ready c' = ready c" unfolding c' using new(2) by (auto simp: ready_def is_ready_def fun_eq_iff)
    with new(1-3) show ?thesis unfolding c' on_place [OF new(2)] by (auto simp: ready_def)
  qed (simp_all add: c'_def)
  then show "ready c' = ready c" and "hm_keys (hosts c') = hm_keys (hosts c)"
    and "s \<noteq> sid \<Longrightarrow> hm_get (shards c') s = hm_get (shards c) s"
    and "has_ready_host c \<Longrightarrow> hm_get (shards c') sid \<noteq> None"
    and "on c' n s \<longleftrightarrow> on c n s \<or> s = sid \<and> hm_get (shards c) sid = None \<and> hm_get (shards c') sid = Some n"
    and "hm_get (shards c) sid = None \<Longrightarrow> hm_get (shards c') sid = Some n \<Longrightarrow> ready c n"
    by blast+
qed

lemma drop_pending:
  assumes "coord_ok_except (sid # pend) c"
  shows "coord_ok_except pend (c\<lparr>shards := hm_remove sid (shards c)\<rparr>)"
proof -
  have "coord_ok_except (sid # pend) (c\<lparr>shards := hm_remove sid (shards c)\<rparr>)"
    using assms by (auto simp: coord_ok_except_def hosts_ok_def on_def)
  then show ?thesis by (rule coord_ok_forget) simp
qed

lemma reallocate_all_spec:
  assumes "coord_ok_except sids c" and "distinct sids"
  defines "c' \<equiv> fst (reallocate_all sids c)"
  shows "coord_ok c' \<and> ready c' = ready c \<and>
         (\<forall>s. s \<notin> set sids \<longrightarrow> hm_get (shards c') s = hm_get (shards c) s) \<and>
         (has_ready_host c \<longrightarrow> (\<forall>s\<in>set sids. hm_get (shards c') s \<noteq> None)) \<and>
         (\<forall>n s. on c' n s \<longrightarrow> on c n s \<or> ready c n)"
  using assms(1,2) unfolding c'_def
proof (induction sids arbitrary: c)
  case Nil
  then show ?case by simp
next
  case (Cons sid rest)
  let ?c0 = "c\<lparr>shards := hm_remove sid (shards c)\<rparr>"
  let ?c1 = "fst (snd (allocate_shard sid ?c0))"
  have ok0: "coord_ok_except rest ?c0" using Cons.prems(1) by (rule drop_pending)
  have ok1: "coord_ok_except rest ?c1" using Cons.prems(2) by (intro allocate_shard_ok [OF ok0]) simp
  note eff = allocate_shard_effect [OF ok0, where sid = sid]
  have r1: "ready ?c1 = ready c" using eff(1) by (simp add: ready_def fun_eq_iff)
  have h1: "has_ready_host ?c1 = has_ready_host c"
    using r1 Cons.prems(1) ok1 by (simp add: has_ready_host_iff coord_ok_exceptD)
  have h0: "has_ready_host ?c0 = has_ready_host c" by (simp add: has_ready_host_def)
  have on1: "on ?c1 n s \<Longrightarrow> on c n s \<or> ready c n" for n s
    using eff(5,6) by (auto simp: on_def ready_def)
  have IH: "coord_ok (fst (reallocate_all rest ?c1)) \<and> ready (fst (reallocate_all rest ?c1)) = ready ?c1 \<and>
      (\<forall>s. s \<notin> set rest \<longrightarrow> hm_get (shards (fst (reallocate_all rest ?c1))) s = hm_get (shards ?c1) s) \<and>
      (has_ready_host ?c1 \<longrightarrow> (\<forall>s\<in>set rest. hm_get (shards (fst (reallocate_all rest ?c1))) s \<noteq> None)) \<and>
      (\<forall>n s. on (fst (reallocate_all rest ?c1)) n s \<longrightarrow> on ?c1 n s \<or> ready ?c1 n)"
    using ok1 Cons.prems(2) by (intro Cons.IH) auto
  have res: "fst (reallocate_all (sid # rest) c) = fst (reallocate_all rest ?c1)"
    by (simp add: Let_def split_beta)
  have other: "hm_get (shards ?c1) s = hm_get (shards c) s" if "s \<noteq> sid" for s
    using eff(3) [OF that] that by simp
  have here: "has_ready_host c \<Longrightarrow> hm_get (shards ?c1) sid \<noteq> None" using eff(4) h0 by simp
  show ?case
    unfolding res using IH r1 h1 other here on1 Cons.prems(2) by (simp add: r1) blast
qed

text \<open>Taking a node out of service leaves its shards pending.\<close>

abbreviation out_of_service :: "node_id \<Rightarrow> shard_coordinator \<Rightarrow> shard_coordinator" where
  "out_of_service nid c \<equiv>
     c\<lparr>hosts := hm_modify nid (\<lambda>h. h\<lparr>host_status := HostUnavailable, host_shards := []\<rparr>) (hosts c)\<rparr>"

lemma out_of_service_spec:
  assumes "coord_ok c" and "hm_get (hosts c) nid = Some h"
  shows "coord_ok_except (host_shards h) (out_of_service nid c)"
    and "on (out_of_service nid c) n s \<longleftrightarrow> on c n s \<and> n \<noteq> nid"
    and "ready (out_of_service nid c) n \<longleftrightarrow> ready c n \<and> n \<noteq> nid"
    and "distinct (host_shards h)"
proof -
  have hs: "s \<in> set (host_shards h) \<longleftrightarrow> on c nid s" for s using assms(2) by (simp add: on_def)
  show o: "on (out_of_service nid c) n s \<longleftrightarrow> on c n s \<and> n \<noteq> nid" for n s
    using assms(2) by (auto simp: on_def)
  show "ready (out_of_service nid c) n \<longleftrightarrow> ready c n \<and> n \<noteq> nid"
    using assms(2) by (auto simp: ready_def is_ready_def)
  show "distinct (host_shards h)" using assms by (auto simp: coord_ok_except_def hosts_ok_def)
  have agree: "hm_get (shards c) s = Some n \<longleftrightarrow> on c n s" for s n
    using assms(1) by (simp add: coord_ok_except_def)
  have "hosts_ok (out_of_service nid c)" using assms(1) by (auto simp: coord_ok_except_def hosts_ok_def)
  moreover have "\<not> on (out_of_service nid c) n s" if "s \<in> set (host_shards h)" for s n
    using that agree unfolding o hs by (metis option.inject)
  moreover have "hm_get (shards (out_of_service nid c)) s = Some n \<longleftrightarrow> on (out_of_service nid c) n s"
    if "s \<notin> set (host_shards h)" for s n
    using that agree unfolding o hs by auto
  ultimately show "coord_ok_except (host_shards h) (out_of_service nid c)"
    unfolding coord_ok_except_def by blast
qed

lemma rebalance_unavailable_spec:
  assumes "coord_ok c" and "hm_get (hosts c) nid = Some h"
  defines "c' \<equiv> fst (rebalance_unavailable_node nid c)"
  shows "coord_ok c' \<and> (\<forall>n. ready c' n \<longleftrightarrow> ready c n \<and> n \<noteq> nid) \<and> (\<forall>s. \<not> on c' nid s) \<and>
         (\<forall>s m. hm_get (shards c) s = Some m \<longrightarrow> m \<noteq> nid \<longrightarrow> hm_get (shards c') s = Some m) \<and>
         (\<forall>s m. hm_get (shards c) s = Some nid \<longrightarrow> hm_get (shards c') s = Some m \<longrightarrow> ready c m) \<and>
         ((\<exists>n. ready c n \<and> n \<noteq> nid) \<longrightarrow>
            (\<forall>s. hm_get (shards c) s = Some nid \<longrightarrow> hm_get (shards c') s \<noteq> None))"
proof -
  let ?c0 = "out_of_service nid c"
  note spec = out_of_service_spec [OF assms(1,2)]
  have c': "c' = fst (reallocate_all (host_shards h) ?c0)"
    using assms(2) by (simp add: c'_def rebalance_unavailable_node_def)
  have hs: "s \<in> set (host_shards h) \<longleftrightarrow> hm_get (shards c) s = Some nid" for s
    using assms(1,2) by (simp add: coord_ok_except_def on_def)
  note r = reallocate_all_spec [OF spec(1,4)]
  have "has_ready_host ?c0 \<longleftrightarrow> (\<exists>n. ready c n \<and> n \<noteq> nid)"
    using coord_ok_exceptD(1) [OF spec(1)] by (simp add: has_ready_host_iff spec(3))
  then have base: "coord_ok c' \<and> (\<forall>n. ready c' n \<longleftrightarrow> ready c n \<and> n \<noteq> nid) \<and> (\<forall>s. \<not> on c' nid s) \<and>
      (\<forall>s m. hm_get (shards c) s = Some m \<longrightarrow> m \<noteq> nid \<longrightarrow> hm_get (shards c') s = Some m) \<and>
      ((\<exists>n. ready c n \<and> n \<noteq> nid) \<longrightarrow> (\<forall>s. hm_get (shards c) s = Some nid \<longrightarrow> hm_get (shards c') s \<noteq> None))"
    using r unfolding c' by (auto simp: spec(2,3) hs fun_eq_iff)
  have "ready c m" if s: "hm_get (shards c) s = Some nid" "hm_get (shards c') s = Some m" for s m
  proof -
    have "on c' m s" using base s(2) by (auto simp: coord_ok_except_def)
    moreover have "\<not> on ?c0 m s"
      using assms(1) s(1) unfolding spec(2) coord_ok_except_def by (metis empty_iff empty_set option.inject)
    moreover have "on c' m s \<longrightarrow> on ?c0 m s \<or> ready ?c0 m" using r unfolding c' by blast
    ultimately show ?thesis using spec(3) by blast
  qed
  with base show ?thesis by blast
qed

lemma rebalance_unavailable_ok:
  assumes "coord_ok c"
  shows "coord_ok (fst (rebalance_unavailable_node nid c))"
proof (cases "hm_get (hosts c) nid")
  case None
  with assms show ?thesis by (simp add: rebalance_unavailable_node_def)
next
  case (Some h)
  from rebalance_unavailable_spec [OF assms this] show ?thesis by blast
qed

fun task_shard :: "coordinator_action \<Rightarrow> shard_id option" where
  "task_shard (StopShardTask r st) = Some (stop_shard_id st)"
| "task_shard _ = None"

text \<open>The rebalancing loop takes the given shards off their hosts and never panics.\<close>

lemma rebalance_loop_spec:
  assumes "coord_ok c"
  shows "\<exists>c' bs ts. rebalance_loop req origin refs sids c = Inr (c', bs, ts) \<and> coord_ok c' \<and>
           (\<forall>s. hm_get (shards c') s = (if s \<in> set sids then None else hm_get (shards c) s)) \<and>
           (\<forall>n. hm_get (hosts c') n =
              map_option (\<lambda>h. h\<lparr>host_shards := filter (\<lambda>s. s \<notin> set sids) (host_shards h)\<rparr>)
                (hm_get (hosts c) n)) \<and>
           hm_keys (hosts c') = hm_keys (hosts c) \<and>
           map task_shard bs = map (\<lambda>_. None) sids \<and>
           (distinct sids \<longrightarrow>
              map task_shard ts = map Some (filter (\<lambda>s. hm_get (shards c) s \<noteq> None) sids))"
  using assms
proof (induction sids arbitrary: c)
  case Nil
  then show ?case by (simp add: option.map_ident)
next
  case (Cons sid rest)
  have agree: "hm_get (shards c) s = Some n \<longleftrightarrow> on c n s" for s n
    using Cons.prems by (simp add: coord_ok_except_def)
  show ?case
  proof (cases "hm_get (shards c) sid")
    case None
    have "sid \<notin> set (host_shards h)" if "hm_get (hosts c) n = Some h" for n h
      using agree [of sid n] None that by (auto simp: on_def)
    then have "map_option (\<lambda>h. h\<lparr>host_shards := filter (\<lambda>s. s \<notin> set (sid # rest)) (host_shards h)\<rparr>)
                 (hm_get (hosts c) n) =
               map_option (\<lambda>h. h\<lparr>host_shards := filter (\<lambda>s. s \<notin> set rest) (host_shards h)\<rparr>)
                 (hm_get (hosts c) n)" for n
      by (cases "hm_get (hosts c) n") (auto intro!: arg_cong [where f = "\<lambda>x. h\<lparr>host_shards := x\<rparr>" for h] filter_cong)
    with Cons.IH [OF Cons.prems] None show ?thesis by fastforce
  next
    case (Some nid)
    then obtain h where h: "hm_get (hosts c) nid = Some h" "sid \<in> set (host_shards h)"
      using agree by (auto simp: on_def)
    let ?c1 = "unplace sid nid c"
    have other: "sid \<notin> set (host_shards h')" if "hm_get (hosts c) n = Some h'" "n \<noteq> nid" for n h'
      using agree [of sid n] Some that by (auto simp: on_def)
    have hosts1: "map_option (\<lambda>h. h\<lparr>host_shards := filter (\<lambda>s. s \<notin> set rest) (host_shards h)\<rparr>)
                    (hm_get (hosts ?c1) n) =
                  map_option (\<lambda>h. h\<lparr>host_shards := filter (\<lambda>s. s \<notin> set (sid # rest)) (host_shards h)\<rparr>)
                    (hm_get (hosts c) n)" for n
    proof (cases "n = nid")
      case True
      with h show ?thesis
        by (auto simp: removeAll_filter_not_eq intro!: arg_cong [where f = "\<lambda>x. h\<lparr>host_shards := x\<rparr>" for h] filter_cong)
    next
      case False
      with other [of n] show ?thesis
        by (cases "hm_get (hosts c) n") (auto intro!: arg_cong [where f = "\<lambda>x. h\<lparr>host_shards := x\<rparr>" for h] filter_cong)
    qed
    have "coord_ok ?c1" using Cons.prems Some by (intro coord_ok_unplace) auto
    from Cons.IH [OF this] obtain c' bs ts where IH:
      "rebalance_loop req origin refs rest ?c1 = Inr (c', bs, ts)" "coord_ok c'"
      "\<forall>s. hm_get (shards c') s = (if s \<in> set rest then None else hm_get (shards ?c1) s)"
      "\<forall>n. hm_get (hosts c') n =
         map_option (\<lambda>h. h\<lparr>host_shards := filter (\<lambda>s. s \<notin> set (sid # rest)) (host_shards h)\<rparr>) (hm_get (hosts c) n)"
      "hm_keys (hosts c') = hm_keys (hosts ?c1)" "map task_shard bs = map (\<lambda>_. None) rest"
      "distinct rest \<longrightarrow> map task_shard ts = map Some (filter (\<lambda>s. hm_get (shards ?c1) s \<noteq> None) rest)"
      unfolding hosts1 by auto
    have "filter (\<lambda>s. hm_get (shards ?c1) s \<noteq> None) rest = filter (\<lambda>s. hm_get (shards c) s \<noteq> None) rest"
      if "distinct (sid # rest)"
      using that by (intro filter_cong) auto
    with IH Some h show ?thesis by (simp add: Let_def)
  qed
qed

section \<open>Reachable coordinators\<close>

text \<open>
  Every message the coordinator handles, and the steps by which its hash tables change their
  iteration order.
\<close>

inductive coord_step :: "shard_coordinator \<Rightarrow> shard_coordinator \<Rightarrow> bool" where
  allocate: "handle_allocate_shard persisted msg c = (res, c', acts) \<Longrightarrow> coord_step c c'"
| recover: "coord_step c (recover_allocate_shard c msg)"
| rebalance: "handle_rebalance req reb c = Inr (c', acts) \<Longrightarrow> coord_step c c'"
| cluster: "handle_cluster_event req ev c = Inr (c', acts) \<Longrightarrow> coord_step c c'"
| rehash: "hm_equiv (hosts c) hs \<Longrightarrow> hm_equiv (shards c) ss \<Longrightarrow> coord_step c (c\<lparr>hosts := hs, shards := ss\<rparr>)"
| rehash_host: "hm_get (hosts c) n = Some h \<Longrightarrow> mset xs = mset (host_shards h) \<Longrightarrow>
    coord_step c (c\<lparr>hosts := hm_modify n (\<lambda>h. h\<lparr>host_shards := xs\<rparr>) (hosts c)\<rparr>)"

definition coord_inv :: "shard_coordinator \<Rightarrow> bool" where
  "coord_inv c \<longleftrightarrow> coord_ok c \<and> self_node_id c \<noteq> None \<and> hosts c \<noteq> []"

lemma coord_ok_add_host [inv_intros]:
  assumes "coord_ok c" and "hm_get (hosts c) (host_node_id h) = None" and "host_shards h = []"
  shows "coord_ok (c\<lparr>hosts := hm_insert (host_node_id h) h (hosts c)\<rparr>)"
proof -
  have "on (c\<lparr>hosts := hm_insert (host_node_id h) h (hosts c)\<rparr>) n s \<longleftrightarrow> on c n s" for n s
    using assms(2,3) by (auto simp: on_def)
  with assms show ?thesis by (auto simp: coord_ok_except_def hosts_ok_def)
qed

lemma coord_ok_frame:
  assumes "coord_ok c" and "hosts c' = hosts c" and "shards c' = shards c"
  shows "coord_ok c'"
  using assms by (simp add: coord_ok_except_def hosts_ok_def on_def)

text \<open>Host entries that change nothing but their status or the order of their shards.\<close>

lemma coord_ok_modify:
  assumes "coord_ok c" and "\<And>h. host_node_id (f h) = host_node_id h"
    and "\<And>h. hm_get (hosts c) n = Some h \<Longrightarrow> mset (host_shards (f h)) = mset (host_shards h)"
  shows "coord_ok (c\<lparr>hosts := hm_modify n f (hosts c)\<rparr>)"
proof -
  have "on (c\<lparr>hosts := hm_modify n f (hosts c)\<rparr>) n' s \<longleftrightarrow> on c n' s" for n' s
    using assms(3) by (auto simp: on_def dest: mset_eq_setD)
  moreover have "hosts_ok (c\<lparr>hosts := hm_modify n f (hosts c)\<rparr>)"
    using assms mset_eq_imp_distinct_iff
    by (auto simp: coord_ok_except_def hosts_ok_def split: if_splits) blast
  ultimately show ?thesis using assms(1) by (simp add: coord_ok_except_def)
qed

lemma on_node_discovered_inv:
  assumes "coord_inv c"
  shows "coord_inv (fst (on_node_discovered n c))"
proof (cases "hm_get (hosts c) (node_id n)")
  case None
  let ?h = "\<lparr>host_node_id = node_id n, host_node_tag = node_tag n, host_shards = [],
             host_actor = HostRemote (node_id n), host_status = HostReady\<rparr>"
  let ?c = "c\<lparr>hosts := hm_insert (node_id n) ?h (hosts c)\<rparr>"
  have "coord_ok ?c" using coord_ok_add_host [of c ?h] None assms by (simp add: coord_inv_def)
  then show ?thesis
    using None assms coord_ok_frame [of ?c]
    by (simp add: on_node_discovered_def schedule_full_rebalance_def coord_inv_def)
next
  case (Some h)
  let ?c = "c\<lparr>hosts := hm_modify (node_id n) (\<lambda>h. h\<lparr>host_status := HostReady\<rparr>) (hosts c)\<rparr>"
  have "coord_ok ?c" using assms by (intro coord_ok_modify) (auto simp: coord_inv_def)
  then show ?thesis
    using Some assms coord_ok_frame [of ?c]
    by (simp add: on_node_discovered_def schedule_full_rebalance_def coord_inv_def)
qed

lemma allocate_inv:
  assumes "coord_inv c"
  shows "coord_inv (fst (snd (allocate_shard sid c)))"
proof -
  have ok: "coord_ok c" using assms by (simp add: coord_inv_def)
  have "self_node_id (fst (snd (allocate_shard sid c))) = self_node_id c"
    by (auto simp: allocate_shard_def allocate_def Let_def split: option.split list.split)
  moreover have "hosts (fst (snd (allocate_shard sid c))) \<noteq> []"
    using allocate_shard_effect(2) [OF ok, of sid] assms
    by (metis coord_inv_def map_is_Nil_conv)
  ultimately show ?thesis
    using assms allocate_shard_ok [OF ok, of sid] by (simp add: coord_inv_def)
qed

lemma handle_allocate_inv:
  "coord_inv c \<Longrightarrow> coord_inv (fst (snd (handle_allocate_shard persisted msg c)))"
  using allocate_inv [of c "alloc_shard_id msg"]
  by (auto simp: handle_allocate_shard_def split: option.split sum.split)

lemma reallocate_all_frame:
  "self_node_id (fst (reallocate_all sids c)) = self_node_id c \<and>
   (hosts c \<noteq> [] \<longrightarrow> hosts (fst (reallocate_all sids c)) \<noteq> [])"
proof (induction sids arbitrary: c)
  case Nil
  then show ?case by simp
next
  case (Cons sid rest)
  let ?c1 = "fst (snd (allocate_shard sid (c\<lparr>shards := hm_remove sid (shards c)\<rparr>)))"
  have "self_node_id ?c1 = self_node_id c" "hosts c \<noteq> [] \<longrightarrow> hosts ?c1 \<noteq> []"
    by (auto simp: allocate_shard_def allocate_def Let_def split: option.split list.split)
  with Cons.IH [of ?c1] show ?case by (simp add: Let_def split_beta)
qed

lemma rebalance_loop_frame:
  "rebalance_loop req origin refs sids c = Inr (c', bs, ts) \<Longrightarrow> self_node_id c' = self_node_id c"
proof (induction sids arbitrary: c c' bs ts)
  case Nil
  then show ?case by simp
next
  case (Cons sid rest)
  from Cons.prems obtain c1 bs1 ts1 where "rebalance_loop req origin refs rest c1 = Inr (c', bs1, ts1)"
    and "self_node_id c1 = self_node_id c"
    by (auto simp: map_sum_def Let_def split: option.splits sum.splits)
  with Cons.IH show ?case by metis
qed

lemma rebalance_shards_inv:
  assumes "coord_inv c"
  shows "\<exists>c' acts. rebalance_shards req sids c = Inr (c', acts) \<and> coord_inv c'"
proof -
  obtain origin where o: "self_node_id c = Some origin" using assms by (auto simp: coord_inv_def)
  let ?refs = "map (\<lambda>(_, h). host_actor h) (hosts c)"
  have ok: "coord_ok c" using assms by (simp add: coord_inv_def)
  obtain c' bs ts where l: "rebalance_loop req origin ?refs sids c = Inr (c', bs, ts)" "coord_ok c'"
    "hm_keys (hosts c') = hm_keys (hosts c)"
    using rebalance_loop_spec [OF ok, of req origin ?refs sids] by blast
  have "hosts c' \<noteq> []" using l(3) assms by (auto simp: coord_inv_def)
  with l o rebalance_loop_frame [OF l(1)] show ?thesis
    by (simp add: rebalance_shards_def coord_inv_def)
qed

lemma rebalance_unavailable_inv:
  assumes "coord_inv c"
  shows "coord_inv (fst (rebalance_unavailable_node nid c))"
proof -
  have "self_node_id (fst (rebalance_unavailable_node nid c)) = self_node_id c \<and>
      hosts (fst (rebalance_unavailable_node nid c)) \<noteq> []"
    using assms reallocate_all_frame by (auto simp: rebalance_unavailable_node_def coord_inv_def split: option.split)
  with assms rebalance_unavailable_ok show ?thesis by (simp add: coord_inv_def)
qed

text \<open>No rebalancing message makes the coordinator panic.\<close>

lemma handle_rebalance_inv:
  assumes "coord_inv c"
  shows "\<exists>c' acts. handle_rebalance req msg c = Inr (c', acts) \<and> coord_inv c'"
proof (cases msg)
  case (RebalanceNodeUnavailable nid)
  with rebalance_unavailable_inv [OF assms, of nid] show ?thesis
    by (cases "rebalance_unavailable_node nid c") (simp add: handle_rebalance_def)
qed (use assms rebalance_shards_inv [OF assms] in \<open>simp_all add: handle_rebalance_def coord_inv_def Let_def\<close>)

lemma handle_cluster_event_inv:
  assumes "coord_inv c"
  shows "\<exists>c' acts. handle_cluster_event req ev c = Inr (c', acts) \<and> coord_inv c'"
proof (cases ev)
  case (NodeAdded n)
  with on_node_discovered_inv [OF assms, of n] show ?thesis
    by (cases "on_node_discovered n c") (simp add: handle_cluster_event_def)
next
  case (NodeRemoved n)
  with handle_rebalance_inv [OF assms] assms show ?thesis
    by (simp add: handle_cluster_event_def on_node_removed_def split: option.split)
qed (use assms in \<open>simp_all add: handle_cluster_event_def\<close>)

lemma coord_step_inv:
  assumes "coord_step c c'" and "coord_inv c"
  shows "coord_inv c'"
  using assms
proof (induction rule: coord_step.induct)
  case (allocate persisted msg c res c' acts)
  then show ?case
    using handle_allocate_inv [of c persisted msg] by simp
next
  case (recover c msg)
  then show ?case by (simp add: recover_allocate_shard_def allocate_inv)
next
  case (rebalance req reb c c' acts)
  then show ?case using handle_rebalance_inv [of c req reb] by simp
next
  case (cluster req ev c c' acts)
  then show ?case using handle_cluster_event_inv [of c req ev] by simp
next
  case (rehash c hs ss)
  then have "hm_get hs = hm_get (hosts c)" "hm_get ss = hm_get (shards c)" "hm_wf hs" "hm_wf ss"
    by (auto simp: coord_inv_def coord_ok_except_def hosts_ok_def intro: hm_equiv_get hm_equiv_wf)
  moreover have "hs \<noteq> []" using rehash by (auto simp: coord_inv_def hm_equiv_def)
  ultimately show ?case using rehash by (simp add: coord_inv_def coord_ok_except_def hosts_ok_def on_def)
next
  case (rehash_host c n h xs)
  have "coord_ok (c\<lparr>hosts := hm_modify n (\<lambda>h. h\<lparr>host_shards := xs\<rparr>) (hosts c)\<rparr>)"
    using rehash_host by (intro coord_ok_modify) (auto simp: coord_inv_def)
  then show ?case using rehash_host by (simp add: coord_inv_def)
qed

lemma pre_recovery_inv:
  "coord_inv (fst (coordinator_pre_recovery self_id self_tag ns (shard_coordinator_new entity)))"
proof -
  define P where "P = (\<lambda>c. coord_inv c \<and> (\<forall>s. hm_get (shards c) s = None))"
  have add: "P (add_host h c)" if "P c \<or> hosts c = [] \<and> shards c = [] \<and> self_node_id c \<noteq> None"
    and "host_shards h = []" for h c
  proof -
    have s: "hm_get (shards c) s = None" for s using that(1) by (auto simp: P_def)
    have "\<not> on c n s" for n s
      using that(1) by (fastforce simp: P_def coord_inv_def coord_ok_except_def on_def)
    then have "\<not> on (add_host h c) n s" for n s using that(2) by (auto simp: add_host_def on_def)
    moreover have "hosts_ok (add_host h c)"
      using that by (auto simp: P_def coord_inv_def coord_ok_except_def hosts_ok_def add_host_def)
    ultimately show ?thesis
      using that(1) s by (auto simp: P_def coord_inv_def coord_ok_except_def add_host_def)
  qed
  have loop: "P (fold (\<lambda>n c. if state_id n \<noteq> self_id then add_host (f n) c else c) ns c)"
    if "P c" and "\<And>n. host_shards (f n) = []" for f c
    using that(1) by (induction ns arbitrary: c) (auto intro: add that(2))
  have "P (fst (coordinator_pre_recovery self_id self_tag ns (shard_coordinator_new entity)))"
    unfolding coordinator_pre_recovery_def Let_def fst_conv
  proof (rule loop)
    let ?c = "add_host \<lparr>host_node_id = self_id, host_node_tag = self_tag, host_shards = [],
                 host_actor = HostLocal, host_status = HostReady\<rparr>
                 (shard_coordinator_new entity\<lparr>self_node_id := Some self_id\<rparr>)"
    have "P ?c" by (rule add) (auto simp: shard_coordinator_new_def)
    then show "P (?c\<lparr>system_event_subscription := True\<rparr>)"
      using coord_ok_frame [of ?c "?c\<lparr>system_event_subscription := True\<rparr>"]
      by (simp add: P_def coord_inv_def)
  qed simp
  then show ?thesis by (simp add: P_def)
qed

lemma coord_reachable_inv:
  assumes "coord_step\<^sup>*\<^sup>* c c'" and "coord_inv c"
  shows "coord_inv c'"
  using assms by (induction rule: rtranclp_induct) (auto intro: coord_step_inv)

text \<open>C20: In every reachable state of the coordinator (allocations with any outcome of the event log,
  recovery, rebalancing, nodes joining and leaving, any iteration order of its tables) a shard is
  assigned to at most one host, the coordinator's map and the hosts' shard sets agree, no
  host lists a shard twice, and no rebalancing request makes the coordinator panic.\<close>

theorem coordinator_invariant:
  assumes "coord_step\<^sup>*\<^sup>* (fst (coordinator_pre_recovery self_id self_tag ns (shard_coordinator_new entity))) c"
  shows "(\<forall>s n. hm_get (shards c) s = Some n \<longleftrightarrow>
            (\<exists>h. hm_get (hosts c) n = Some h \<and> s \<in> set (host_shards h))) \<and>
         (\<forall>n h. hm_get (hosts c) n = Some h \<longrightarrow> host_node_id h = n \<and> distinct (host_shards h)) \<and>
         (\<forall>req msg. \<exists>c' acts. handle_rebalance req msg c = Inr (c', acts))"
proof -
  have inv: "coord_inv c" by (rule coord_reachable_inv [OF assms pre_recovery_inv])
  then have "\<forall>req msg. \<exists>c' acts. handle_rebalance req msg c = Inr (c', acts)"
    using handle_rebalance_inv by blast
  with inv show ?thesis by (simp add: coord_inv_def coord_ok_except_def hosts_ok_def on_def)
qed

definition ex_joined :: remote_node where
  "ex_joined = \<lparr>node_id = 2, node_addr = ''b'', node_tag = ''b'', node_started_at = None,
                node_attributes = []\<rparr>"

definition ex_coord :: shard_coordinator where
  "ex_coord = fst (on_node_discovered ex_joined
                (fst (coordinator_pre_recovery 1 ''a'' [] (shard_coordinator_new ''entity''))))"

lemma ex_coord_reachable:
  "coord_step\<^sup>*\<^sup>* (fst (coordinator_pre_recovery 1 ''a'' [] (shard_coordinator_new ''entity''))) ex_coord"
proof -
  let ?c = "fst (coordinator_pre_recovery 1 ''a'' [] (shard_coordinator_new ''entity''))"
  have "handle_cluster_event (\<lambda>_. 0) (NodeAdded ex_joined) ?c = Inr (ex_coord, snd (on_node_discovered ex_joined ?c))"
    by (simp add: handle_cluster_event_def ex_coord_def)
  then show ?thesis by (intro r_into_rtranclp coord_step.cluster)
qed

lemma ex_coord_inv: "coord_inv ex_coord"
  by (rule coord_reachable_inv [OF ex_coord_reachable pre_recovery_inv])

lemma ex_coord_simp:
  "ex_coord =
     \<lparr>shard_entity = ''entity'',
      hosts = [(1, \<lparr>host_node_id = 1, host_node_tag = ''a'', host_shards = [], host_actor = HostLocal,
                    host_status = HostReady\<rparr>),
               (2, \<lparr>host_node_id = 2, host_node_tag = ''b'', host_shards = [],
                    host_actor = HostRemote 2, host_status = HostReady\<rparr>)],
      shards = [], reallocating_shards = [], scheduled_rebalance = True, self_node_id = Some 1,
      system_event_subscription = True\<rparr>"
  by (simp add: ex_coord_def ex_joined_def on_node_discovered_def coordinator_pre_recovery_def add_host_def
      shard_coordinator_new_def schedule_full_rebalance_def Let_def)

theorem coordinator_invariant_witness:
  "(\<forall>s n. hm_get (shards ex_coord) s = Some n \<longleftrightarrow>
            (\<exists>h. hm_get (hosts ex_coord) n = Some h \<and> s \<in> set (host_shards h))) \<and>
   (\<forall>req msg. \<exists>c' acts. handle_rebalance req msg ex_coord = Inr (c', acts))"
  using coordinator_invariant [OF ex_coord_reachable] by blast

text \<open>C23: Allocation: a shard that is already assigned stays where it is; an unassigned one goes to
  a ready host with the fewest shards of all ready hosts, every other shard stays put, and it is left
  unassigned only when no host is ready. When the event log refuses the event, nothing changes
  and the caller gets the persistence error.\<close>

theorem allocation_least_loaded:
  assumes "coord_ok c"
  shows "case handle_allocate_shard persisted msg c of
      (AlreadyAllocated s n, c', acts) \<Rightarrow>
        s = alloc_shard_id msg \<and> hm_get (shards c) s = Some n \<and> c' = c \<and> acts = []
    | (Allocated s n, c', acts) \<Rightarrow>
        s = alloc_shard_id msg \<and> hm_get (shards c) s = None \<and> hm_get (shards c') = (hm_get (shards c))(s \<mapsto> n) \<and>
        ready c n \<and> (\<forall>m. ready c m \<longrightarrow> load c n \<le> load c m) \<and>
        load c' = (load c)(n := Suc (load c n)) \<and> coord_ok c'
    | (NotAllocated, c', acts) \<Rightarrow> (\<forall>n. \<not> ready c n) \<and> c' = c \<and> acts = []
    | (AllocErr e, c', acts) \<Rightarrow>
        e = AllocPersistence \<and> isl persisted \<and> \<not> alloc_rebalancing msg \<and> c' = c \<and> acts = []"
proof -
  let ?s = "alloc_shard_id msg"
  have ok: "coord_ok (fst (snd (allocate_shard ?s c)))" using allocate_shard_ok [OF assms] by simp
  have "case allocate_shard ?s c of
      (AlreadyAllocated s n, c', acts) \<Rightarrow> s = ?s \<and> hm_get (shards c) s = Some n \<and> c' = c \<and> acts = []
    | (Allocated s n, c', acts) \<Rightarrow>
        s = ?s \<and> hm_get (shards c) s = None \<and> hm_get (shards c') = (hm_get (shards c))(s \<mapsto> n) \<and>
        ready c n \<and> (\<forall>m. ready c m \<longrightarrow> load c n \<le> load c m) \<and>
        load c' = (load c)(n := Suc (load c n)) \<and> coord_ok c'
    | (NotAllocated, c', acts) \<Rightarrow> (\<forall>n. \<not> ready c n) \<and> c' = c \<and> acts = []
    | (AllocErr e, c', acts) \<Rightarrow> False"
    using coord_ok_exceptD [OF assms]
  proof (cases rule: allocate_shard_cases [where sid = ?s])
    case none
    then show ?thesis using coord_ok_exceptD(1) [OF assms] by (simp add: has_ready_host_iff)
  next
    case (new n h acts)
    have "\<not> on c n ?s" using assms new(1) unfolding coord_ok_except_def
      by (metis empty_iff list.set(1) option.distinct(1))
    then have "?s \<notin> set (host_shards h)" using new(2) by (simp add: on_def)
    then have "load (place ?s n c) = (load c)(n := Suc (load c n))"
      using new(2) by (auto simp: load_def fun_eq_iff)
    moreover have "\<forall>m. ready c m \<longrightarrow> load c n \<le> load c m"
      using new(2,4) by (auto simp: ready_def load_def)
    ultimately show ?thesis using new ok by (simp add: ready_def)
  qed simp
  then show ?thesis
    by (cases "hm_get (shards c) ?s")
       (auto simp: handle_allocate_shard_def split: sum.splits allocate_shard_result.splits prod.splits)
qed

theorem allocation_least_loaded_witness:
  "case handle_allocate_shard (Inr ()) \<lparr>alloc_shard_id = 7, alloc_rebalancing = False\<rparr> ex_coord of
     (Allocated s n, c', acts) \<Rightarrow> s = 7 \<and> ready ex_coord n \<and> load c' n = 1
   | _ \<Rightarrow> False"
proof -
  have ok: "coord_ok ex_coord" using ex_coord_inv by (simp add: coord_inv_def)
  show ?thesis
    using allocation_least_loaded [OF ok, where persisted = "Inr ()" and msg = "\<lparr>alloc_shard_id = 7, alloc_rebalancing = False\<rparr>"]
    by (simp add: handle_allocate_shard_def allocate_shard_def allocate_def is_ready_def ready_def
        load_def ex_coord_simp Let_def)
qed

end
