(* ===== verification/Shard_Balance.thy ===== *)
theory Shard_Balance
  imports Shard_Coordinator
begin

text \<open>
  What rebalancing achieves: the loads of the hosts after a node failure, after a full rebalance
  and after recovery of the coordinator. The definitions are those of the coordinator; this theory
  has the counting arguments.
\<close>

section \<open>Node failure\<close>

text \<open>C22: Node failure: when the coordinator is told that a node is unavailable, the node ends up with no shards and is
  excluded from allocation; shards of other nodes do not move; every shard of the failed node is assigned to another
  host, one that is ready, unless no other host is ready, and then it is assigned to none. The invariant of the
  coordinator is kept.\<close>

theorem node_failure_reassigns:
  assumes "coord_ok c" and "hm_get (hosts c) nid = Some h"
  shows "\<exists>c' acts. handle_rebalance req (RebalanceNodeUnavailable nid) c = Inr (c', acts) \<and> coord_ok c' \<and>
           (\<forall>s. hm_get (shards c') s \<noteq> Some nid) \<and> (\<forall>n. ready c' n \<longleftrightarrow> ready c n \<and> n \<noteq> nid) \<and>
           (\<forall>s m. hm_get (shards c) s = Some m \<and> m \<noteq> nid \<longrightarrow> hm_get (shards c') s = Some m) \<and>
           (\<forall>s. hm_get (shards c) s = Some nid \<longrightarrow>
              (case hm_get (shards c') s of
                 Some m \<Rightarrow> m \<noteq> nid \<and> ready c m
               | None \<Rightarrow> \<not> (\<exists>n. n \<noteq> nid \<and> ready c n)))"
proof -
  obtain c' acts where r: "rebalance_unavailable_node nid c = (c', acts)"
    by (cases "rebalance_unavailable_node nid c")
  note spec = rebalance_unavailable_spec [OF assms, unfolded r fst_conv]
  have none: "hm_get (shards c') s \<noteq> Some nid" for s
    using spec by (auto simp: coord_ok_except_def)
  have moved: "case hm_get (shards c') s of Some m \<Rightarrow> m \<noteq> nid \<and> ready c m | None \<Rightarrow> \<not> (\<exists>n. n \<noteq> nid \<and> ready c n)"
    if s: "hm_get (shards c) s = Some nid" for s
  proof (cases "hm_get (shards c') s")
    case None
    moreover have "(\<exists>n. ready c n \<and> n \<noteq> nid) \<longrightarrow> hm_get (shards c') s \<noteq> None" using spec s by blast
    ultimately show ?thesis by auto
  next
    case (Some m)
    moreover have "hm_get (shards c') s = Some m \<longrightarrow> ready c m" using spec s by blast
    ultimately show ?thesis using none [of s] by auto
  qed
  show ?thesis
  proof (intro exI conjI)
    show "handle_rebalance req (RebalanceNodeUnavailable nid) c = Inr (c', acts)"
      by (simp add: handle_rebalance_def r)
    show "\<forall>s. hm_get (shards c) s = Some nid \<longrightarrow>
        (case hm_get (shards c') s of Some m \<Rightarrow> m \<noteq> nid \<and> ready c m | None \<Rightarrow> \<not> (\<exists>n. n \<noteq> nid \<and> ready c n))"
      using moved by blast
  qed (use spec none in blast)+
qed

theorem node_failure_reassigns_witness:
  "\<exists>c' acts. handle_rebalance (\<lambda>_. 0) (RebalanceNodeUnavailable 1)
       (fst (snd (handle_allocate_shard (Inr ()) \<lparr>alloc_shard_id = 7, alloc_rebalancing = False\<rparr> ex_coord))) =
       Inr (c', acts) \<and> hm_get (shards c') 7 = Some 2"
proof -
  let ?c = "fst (snd (handle_allocate_shard (Inr ()) \<lparr>alloc_shard_id = 7, alloc_rebalancing = False\<rparr> ex_coord))"
  have ok: "coord_ok ?c" using handle_allocate_inv [OF ex_coord_inv] by (simp add: coord_inv_def)
  have c: "hosts ?c = [(1, \<lparr>host_node_id = 1, host_node_tag = ''a'', host_shards = [7], host_actor = HostLocal,
                    host_status = HostReady\<rparr>),
               (2, \<lparr>host_node_id = 2, host_node_tag = ''b'', host_shards = [],
                    host_actor = HostRemote 2, host_status = HostReady\<rparr>)]" "shards ?c = [(7, 1)]"
    by (simp_all add: handle_allocate_shard_def allocate_shard_def allocate_def is_ready_def
        ex_coord_simp Let_def)
  have "hm_get (hosts ?c) 1 \<noteq> None" using c by simp
  then obtain h where h: "hm_get (hosts ?c) 1 = Some h" by blast
  have r: "n \<noteq> 1 \<and> ready ?c n \<longleftrightarrow> n = 2" for n unfolding ready_def c by (auto simp: is_ready_def)
  have s7: "hm_get (shards ?c) 7 = Some 1" unfolding c by simp
  obtain c' acts where f: "handle_rebalance (\<lambda>_. 0) (RebalanceNodeUnavailable 1) ?c = Inr (c', acts)"
    "\<forall>s. hm_get (shards ?c) s = Some 1 \<longrightarrow>
       (case hm_get (shards c') s of Some m \<Rightarrow> m \<noteq> 1 \<and> ready ?c m | None \<Rightarrow> \<not> (\<exists>n. n \<noteq> 1 \<and> ready ?c n))"
    using node_failure_reassigns [OF ok h, of "\<lambda>_. 0"] by blast
  have "hm_get (shards c') 7 = Some 2"
    using f(2) s7 r by (cases "hm_get (shards c') 7") auto
  with f(1) show ?thesis by blast
qed

section \<open>Counting\<close>

lemma total_load:
  assumes "coord_ok c"
  shows "(\<Sum>n\<in>fst ` set (hosts c). load c n) = length (shards c)"
proof -
  let ?S = "\<lambda>n. {s. on c n s}"
  have wf: "hm_wf (shards c)" and agree: "\<And>s n. hm_get (shards c) s = Some n \<longleftrightarrow> on c n s"
    using assms by (auto simp: coord_ok_except_def hosts_ok_def)
  have card: "finite (?S n) \<and> card (?S n) = load c n" if n: "n \<in> fst ` set (hosts c)" for n
  proof -
    obtain h where h: "hm_get (hosts c) n = Some h" using n unfolding hm_contains_iff by blast
    then have "?S n = set (host_shards h)" by (simp add: on_def)
    moreover have "distinct (host_shards h)" using assms h by (auto simp: coord_ok_except_def hosts_ok_def)
    ultimately show ?thesis using h by (simp add: load_def distinct_card)
  qed
  have disj: "?S n \<inter> ?S m = {}" if "n \<noteq> m" for n m
    using that agree by (metis (no_types, lifting) Int_emptyI mem_Collect_eq option.inject)
  have "fst ` set (shards c) = (\<Union>n\<in>fst ` set (hosts c). ?S n)"
  proof (intro equalityI subsetI)
    fix s
    assume "s \<in> fst ` set (shards c)"
    then obtain n where n: "on c n s" using agree unfolding hm_contains_iff by blast
    then have "n \<in> fst ` set (hosts c)" unfolding hm_contains_iff on_def by blast
    with n show "s \<in> (\<Union>n\<in>fst ` set (hosts c). ?S n)" by blast
  next
    fix s
    assume "s \<in> (\<Union>n\<in>fst ` set (hosts c). ?S n)"
    then show "s \<in> fst ` set (shards c)" using agree unfolding hm_contains_iff by blast
  qed
  then have "card (fst ` set (shards c)) = (\<Sum>n\<in>fst ` set (hosts c). card (?S n))"
    using card disj by (simp only:) (intro card_UN_disjoint, auto)
  also have "\<dots> = (\<Sum>n\<in>fst ` set (hosts c). load c n)" using card by (intro sum.cong) auto
  finally show ?thesis using wf by (metis distinct_card length_map set_map)
qed

section \<open>A full rebalance\<close>

abbreviation fair_count :: "shard_coordinator \<Rightarrow> nat" where
  "fair_count c \<equiv> length (shards c) div length (hosts c)"

abbreviation all_excess :: "shard_coordinator \<Rightarrow> shard_id list" where
  "all_excess c \<equiv> concat (map (\<lambda>(_, h). excess_shards (fair_count c) h) (hosts c))"

lemma excess_subset: "set (excess_shards f h) \<subseteq> set (host_shards h)"
  by (auto simp: excess_shards_def dest: in_set_takeD)

lemma distinct_concat_entries:
  assumes "hm_wf m" and "\<And>k h. (k, h) \<in> set m \<Longrightarrow> distinct (f h)"
    and "\<And>k h k' h'. (k, h) \<in> set m \<Longrightarrow> (k', h') \<in> set m \<Longrightarrow> k \<noteq> k' \<Longrightarrow> set (f h) \<inter> set (f h') = {}"
  shows "distinct (concat (map (\<lambda>(_, h). f h) m))"
  using assms
proof (induction m)
  case Nil
  then show ?case by simp
next
  case (Cons p m)
  obtain k h where p: "p = (k, h)" by (cases p)
  have "set (f h) \<inter> set (f h') = {}" if "(k', h') \<in> set m" for k' h'
  proof -
    have "k \<noteq> k'" using that Cons.prems(1) p by force
    then show ?thesis using that p by (intro Cons.prems(3)) auto
  qed
  then have "set (f h) \<inter> set (concat (map (\<lambda>(_, h). f h) m)) = {}" by auto
  moreover have "distinct (concat (map (\<lambda>(_, h). f h) m))"
  proof (rule Cons.IH)
    show "hm_wf m" using Cons.prems(1) by simp
  qed (use Cons.prems(2,3) in \<open>meson list.set_intros(2)\<close>)+
  moreover have "distinct (f h)" using p by (intro Cons.prems(2) [of k]) simp
  ultimately show ?case using p by simp
qed

lemma coord_ok_unique:
  assumes "coord_ok c" and "on c n s" and "on c m s"
  shows "n = m"
  using assms unfolding coord_ok_except_def by (metis empty_iff list.set(1) option.inject)

lemma all_excess_distinct:
  assumes "coord_ok c"
  shows "distinct (all_excess c)"
proof (rule distinct_concat_entries)
  have wf: "hm_wf (hosts c)" using assms by (rule coord_ok_exceptD)
  then show "hm_wf (hosts c)" .
  show "distinct (excess_shards (fair_count c) h)" if "(k, h) \<in> set (hosts c)" for k h
    using assms that wf by (auto simp: excess_shards_def coord_ok_except_def hosts_ok_def hm_get_in_set)
  show "set (excess_shards (fair_count c) h) \<inter> set (excess_shards (fair_count c) h') = {}"
    if kh: "(k, h) \<in> set (hosts c)" "(k', h') \<in> set (hosts c)" "k \<noteq> k'" for k h k' h'
  proof (rule ccontr)
    assume "set (excess_shards (fair_count c) h) \<inter> set (excess_shards (fair_count c) h') \<noteq> {}"
    then obtain s where "s \<in> set (host_shards h)" "s \<in> set (host_shards h')" using excess_subset by blast
    with kh wf have "on c k s" "on c k' s" by (auto simp: on_def hm_get_in_set)
    with coord_ok_unique [OF assms] kh(3) show False by blast
  qed
qed

lemma filter_not_take: "distinct xs \<Longrightarrow> filter (\<lambda>x. x \<notin> set (take k xs)) xs = drop k xs"
proof (induction xs arbitrary: k)
  case Nil
  then show ?case by simp
next
  case (Cons x xs)
  show ?case
  proof (cases k)
    case (Suc k')
    have "filter (\<lambda>y. y \<notin> set (take k (x # xs))) (x # xs) = filter (\<lambda>y. y \<notin> set (take k' xs)) xs"
      using Cons.prems Suc by (auto intro!: filter_cong)
    with Cons Suc show ?thesis by simp
  qed simp
qed

text \<open>What stays on a host: the part of its shards beyond its excess.\<close>

lemma filter_excess:
  assumes "coord_ok c" and "hm_get (hosts c) n = Some h"
  shows "length (filter (\<lambda>s. s \<notin> set (all_excess c)) (host_shards h)) = min (load c n) (fair_count c)"
proof -
  let ?f = "fair_count c"
  have d: "distinct (host_shards h)" using assms by (auto simp: coord_ok_except_def hosts_ok_def)
  have nh: "(n, h) \<in> set (hosts c)"
    using assms(2) coord_ok_exceptD(1) [OF assms(1)] by (simp add: hm_get_in_set)
  have "s \<in> set (all_excess c) \<longleftrightarrow> s \<in> set (excess_shards ?f h)" if "s \<in> set (host_shards h)" for s
  proof
    assume "s \<in> set (all_excess c)"
    then obtain k h' where kh: "(k, h') \<in> set (hosts c)" "s \<in> set (excess_shards ?f h')" by auto
    then have "on c k s"
      using excess_subset coord_ok_exceptD(1) [OF assms(1)] by (auto simp: on_def hm_get_in_set)
    moreover have "on c n s" using assms(2) that by (simp add: on_def)
    ultimately have "k = n" by (rule coord_ok_unique [OF assms(1)])
    with kh eq_key_imp_eq_value [OF coord_ok_exceptD(1) [OF assms(1)]] nh show "s \<in> set (excess_shards ?f h)"
      by blast
  next
    assume "s \<in> set (excess_shards ?f h)"
    with nh show "s \<in> set (all_excess c)" by force
  qed
  then have "filter (\<lambda>s. s \<notin> set (all_excess c)) (host_shards h) =
             filter (\<lambda>s. s \<notin> set (excess_shards ?f h)) (host_shards h)"
    by (intro filter_cong) auto
  then show ?thesis
    using filter_not_take [OF d] assms(2)
    by (auto simp: excess_shards_def load_def min_def split: if_splits)
qed

text \<open>The reallocations that follow the answers of the hosts, in the order in which they arrive.\<close>

fun reallocate_stopped :: "shard_id list \<Rightarrow> shard_coordinator \<Rightarrow> shard_coordinator" where
  "reallocate_stopped [] c = c"
| "reallocate_stopped (s # ss) c =
     reallocate_stopped ss
       (fst (snd (handle_allocate_shard (Inr ()) \<lparr>alloc_shard_id = s, alloc_rebalancing = True\<rparr> c)))"

definition levelled :: "nat \<Rightarrow> shard_coordinator \<Rightarrow> bool" where
  "levelled f c \<longleftrightarrow>
     (\<forall>n\<in>fst ` set (hosts c). load c n \<le> f) \<or> (\<forall>n\<in>fst ` set (hosts c). load c n = f \<or> load c n = f + 1)"

lemma allocate_step:
  assumes "coord_ok c" and "\<forall>n\<in>fst ` set (hosts c). ready c n" and "hosts c \<noteq> []"
    and "hm_get (shards c) s = None"
  obtains n c' where "fst (snd (handle_allocate_shard p \<lparr>alloc_shard_id = s, alloc_rebalancing = True\<rparr> c)) = c'"
    "coord_ok c'" "n \<in> fst ` set (hosts c)" "\<forall>m\<in>fst ` set (hosts c). load c n \<le> load c m"
    "load c' = (load c)(n := Suc (load c n))" "fst ` set (hosts c') = fst ` set (hosts c)"
    "ready c' = ready c" "hm_get (shards c') = (hm_get (shards c))(s \<mapsto> n)"
    "length (shards c') = Suc (length (shards c))"
proof -
  let ?c' = "fst (snd (allocate_shard s c))"
  have h: "fst (snd (handle_allocate_shard p \<lparr>alloc_shard_id = s, alloc_rebalancing = True\<rparr> c)) = ?c'"
    using assms(4) by (simp add: handle_allocate_shard_def)
  have ok: "coord_ok ?c'" using allocate_shard_ok [OF assms(1)] by simp
  show thesis
    using coord_ok_exceptD [OF assms(1)]
  proof (cases rule: allocate_shard_cases [where sid = s])
    case (already n)
    with assms(4) show thesis by simp
  next
    case none
    obtain p where "p \<in> set (hosts c)" using assms(3) by (cases "hosts c") auto
    then have "ready c (fst p)" using assms(2) by blast
    with none coord_ok_exceptD(1) [OF assms(1)] show thesis by (auto simp: has_ready_host_iff)
  next
    case (new n h acts)
    have c': "?c' = place s n c" by (simp add: new(5))
    have "\<not> on c n s" using assms(1,4) unfolding coord_ok_except_def
      by (metis empty_iff list.set(1) option.distinct(1))
    then have l: "load (place s n c) = (load c)(n := Suc (load c n))"
      using new(2) by (auto simp: load_def fun_eq_iff on_def)
    have "n \<in> fst ` set (hosts c)" using new(2) unfolding hm_contains_iff by blast
    moreover have "\<forall>m\<in>fst ` set (hosts c). load c n \<le> load c m"
      using new(2,4) assms(2) by (auto simp: ready_def load_def)
    moreover have "length (shards (place s n c)) = Suc (length (shards c))"
      using assms(4) by (simp add: hm_insert_absent hm_get_None)
    moreover have "ready ?c' = ready c" by (rule allocate_shard_effect(1) [OF assms(1)])
    ultimately show thesis
      using that [OF h ok] l unfolding c' by simp
  qed
qed

text \<open>Filling up to a level: allocation never raises a host above the level before all are at it.\<close>

lemma levelled_step:
  assumes "levelled f c" and "n \<in> fst ` set (hosts c)" and "\<forall>m\<in>fst ` set (hosts c). load c n \<le> load c m"
    and "load c' = (load c)(n := Suc (load c n))" and "fst ` set (hosts c') = fst ` set (hosts c)"
    and "(\<Sum>m\<in>fst ` set (hosts c). load c m) < (f + 1) * card (fst ` set (hosts c))"
  shows "levelled f c'"
proof (cases "load c n < f")
  case True
  then have "\<forall>m\<in>fst ` set (hosts c). load c m \<le> f"
    using assms(1,2) by (auto simp: levelled_def)
  with True show ?thesis unfolding levelled_def assms(4,5) by auto
next
  case False
  have "load c n \<le> f"
  proof (rule ccontr)
    assume "\<not> load c n \<le> f"
    then have "f + 1 \<le> load c m" if "m \<in> fst ` set (hosts c)" for m
      using bspec [OF assms(3) that] by simp
    from sum_bounded_below [where A = "fst ` set (hosts c)" and f = "load c", OF this]
    have "(f + 1) * card (fst ` set (hosts c)) \<le> (\<Sum>m\<in>fst ` set (hosts c). load c m)"
      by (simp only: of_nat_id mult.commute)
    with assms(6) show False by simp
  qed
  with False have n: "load c n = f" by simp
  then have "\<forall>m\<in>fst ` set (hosts c). load c m = f \<or> load c m = f + 1"
    using assms(1,3) by (fastforce simp: levelled_def intro: le_antisym)
  with n show ?thesis unfolding levelled_def assms(4,5) by auto
qed

lemma reallocate_stopped_level:
  assumes "coord_ok c" and "\<forall>n\<in>fst ` set (hosts c). ready c n" and "hosts c \<noteq> []"
    and "distinct ss" and "\<forall>s\<in>set ss. hm_get (shards c) s = None"
    and "levelled f c" and "length (shards c) + length ss < (f + 1) * length (hosts c)"
  defines "c' \<equiv> reallocate_stopped ss c"
  shows "coord_ok c' \<and> levelled f c' \<and> fst ` set (hosts c') = fst ` set (hosts c) \<and>
         length (shards c') = length (shards c) + length ss \<and>
         (\<forall>s. hm_get (shards c') s \<noteq> None \<longleftrightarrow> hm_get (shards c) s \<noteq> None \<or> s \<in> set ss)"
  using assms(1-7) unfolding c'_def
proof (induction ss arbitrary: c)
  case Nil
  then show ?case by simp
next
  case (Cons s ss)
  obtain n c1 where st:
    "fst (snd (handle_allocate_shard (Inr ()) \<lparr>alloc_shard_id = s, alloc_rebalancing = True\<rparr> c)) = c1"
    "coord_ok c1" "n \<in> fst ` set (hosts c)" "\<forall>m\<in>fst ` set (hosts c). load c n \<le> load c m"
    "load c1 = (load c)(n := Suc (load c n))" "fst ` set (hosts c1) = fst ` set (hosts c)"
    "ready c1 = ready c" "hm_get (shards c1) = (hm_get (shards c))(s \<mapsto> n)"
    "length (shards c1) = Suc (length (shards c))"
    using allocate_step [OF Cons.prems(1-3)] Cons.prems(5) by (metis list.set_intros(1))
  have len: "length (hosts x) = card (fst ` set (hosts x))" if "coord_ok x" for x
    using coord_ok_exceptD(1) [OF that] by (metis distinct_card length_map set_map)
  have eq: "length (hosts c1) = length (hosts c)" using len [OF Cons.prems(1)] len [OF st(2)] st(6) by simp
  have "levelled f c1"
  proof (rule levelled_step [OF Cons.prems(6) st(3-6)])
    show "(\<Sum>m\<in>fst ` set (hosts c). load c m) < (f + 1) * card (fst ` set (hosts c))"
      using Cons.prems(7) total_load [OF Cons.prems(1)] len [OF Cons.prems(1)] by simp
  qed
  moreover have "hosts c1 \<noteq> []" using st(3,6) by auto
  ultimately have "coord_ok (reallocate_stopped ss c1) \<and> levelled f (reallocate_stopped ss c1) \<and>
      fst ` set (hosts (reallocate_stopped ss c1)) = fst ` set (hosts c1) \<and>
      length (shards (reallocate_stopped ss c1)) = length (shards c1) + length ss \<and>
      (\<forall>s. hm_get (shards (reallocate_stopped ss c1)) s \<noteq> None \<longleftrightarrow> hm_get (shards c1) s \<noteq> None \<or> s \<in> set ss)"
    using Cons.prems st eq by (intro Cons.IH) auto
  with st show ?case by auto
qed

lemma levelled_exact:
  assumes "coord_ok c" and "levelled f c" and "f * length (hosts c) \<le> length (shards c)"
  shows "\<forall>n\<in>fst ` set (hosts c). load c n = f \<or> load c n = f + 1"
proof (rule ccontr)
  let ?K = "fst ` set (hosts c)"
  assume neg: "\<not> (\<forall>n\<in>?K. load c n = f \<or> load c n = f + 1)"
  then obtain n where n0: "n \<in> ?K" "load c n \<noteq> f" by blast
  have le: "\<forall>m\<in>?K. load c m \<le> f" using assms(2) neg unfolding levelled_def by blast
  then have n: "n \<in> ?K" "load c n < f" using n0 by auto
  have "length (hosts c) = card ?K"
    using coord_ok_exceptD(1) [OF assms(1)] by (metis distinct_card length_map set_map)
  moreover have "(\<Sum>m\<in>?K. load c m) < (\<Sum>m\<in>?K. f)"
    using n le by (intro sum_strict_mono_ex1) auto
  ultimately show False using total_load [OF assms(1)] assms(3) by (simp add: mult.commute)
qed

lemma removed_length:
  assumes "hm_wf m" and "hm_wf m'" and "\<forall>k. hm_get m' k = (if k \<in> set ks then None else hm_get m k)"
    and "distinct ks" and "\<And>k. k \<in> set ks \<Longrightarrow> hm_get m k \<noteq> None"
  shows "length m' + length ks = length m"
proof -
  have len: "length x = card (dom (hm_get x))" if "hm_wf x" for x :: "('k, 'v) hash_map"
    using that by (metis distinct_card dom_map_of_conv_image_fst length_map set_map)
  have "dom (hm_get m) = dom (hm_get m') \<union> set ks" "dom (hm_get m') \<inter> set ks = {}"
    using assms(3,5) by (auto simp: dom_def split: if_splits)
  then have "card (dom (hm_get m)) = card (dom (hm_get m')) + card (set ks)"
    by (simp add: card_Un_disjoint finite_dom_map_of)
  then show ?thesis using assms(1,2,4) by (simp add: len distinct_card)
qed

lemma map_filter_by_map: "List.map_filter f xs = map the (filter (\<lambda>x. x \<noteq> None) (map f xs))"
  by (induction xs) (auto simp: map_filter_simps split: option.split)

text \<open>C21: A full rebalance is fair when every host is ready: in a state in which the coordinator's table and its hosts
  agree and no host is starting or unavailable, the shards that \<open>Rebalance::All\<close> takes off
  their hosts (each gets exactly one stop task) are reassigned when their hosts have answered, in
  whatever order the answers come; afterwards every host has the average number of shards, rounded
  down, or one more, and exactly the shards that were assigned before are assigned again. (A host that is not ready counts in the average
  but gets no shard, so the others then end up above it.)\<close>

theorem full_rebalance_fair:
  assumes "coord_inv c" and "\<forall>n\<in>fst ` set (hosts c). ready c n"
  shows "\<exists>c1 acts. handle_rebalance req RebalanceAll c = Inr (c1, acts) \<and>
           List.map_filter task_shard acts = all_excess c \<and>
           (\<forall>order. mset order = mset (all_excess c) \<longrightarrow>
              (\<forall>n\<in>fst ` set (hosts c). load (reallocate_stopped order c1) n = fair_count c \<or>
                                     load (reallocate_stopped order c1) n = fair_count c + 1) \<and>
              (\<forall>s. hm_get (shards (reallocate_stopped order c1)) s \<noteq> None \<longleftrightarrow> hm_get (shards c) s \<noteq> None))"
proof -
  let ?f = "fair_count c" and ?ss = "all_excess c"
  have ok: "coord_ok c" and ne: "hosts c \<noteq> []" using assms(1) by (auto simp: coord_inv_def)
  obtain origin where o: "self_node_id c = Some origin" using assms(1) by (auto simp: coord_inv_def)
  let ?refs = "map (\<lambda>(_, h). host_actor h) (hosts c)"
  have dist: "distinct ?ss" by (rule all_excess_distinct [OF ok])
  obtain c1 bs ts where l: "rebalance_loop req origin ?refs ?ss c = Inr (c1, bs, ts)" "coord_ok c1"
    "\<forall>s. hm_get (shards c1) s = (if s \<in> set ?ss then None else hm_get (shards c) s)"
    "\<forall>n. hm_get (hosts c1) n =
       map_option (\<lambda>h. h\<lparr>host_shards := filter (\<lambda>s. s \<notin> set ?ss) (host_shards h)\<rparr>) (hm_get (hosts c) n)"
    "hm_keys (hosts c1) = hm_keys (hosts c)" "map task_shard bs = map (\<lambda>_. None) ?ss"
    "map task_shard ts = map Some (filter (\<lambda>s. hm_get (shards c) s \<noteq> None) ?ss)"
    using rebalance_loop_spec [OF ok, of req origin ?refs ?ss] dist by blast
  have alloc: "hm_get (shards c) s \<noteq> None" if s: "s \<in> set ?ss" for s
  proof -
    obtain n h where "(n, h) \<in> set (hosts c)" "s \<in> set (host_shards h)" using s excess_subset by fastforce
    then have "on c n s" using coord_ok_exceptD(1) [OF ok] by (auto simp: on_def hm_get_in_set)
    then show ?thesis using ok by (simp add: coord_ok_except_def) (metis option.distinct(1))
  qed
  have tasks: "List.map_filter task_shard (bs @ ts) = ?ss"
    using l(6,7) alloc by (simp add: map_filter_by_map filter_id_conv)
  have load1: "load c1 n = min (load c n) ?f" for n
    using filter_excess [OF ok, of n] l(4) by (cases "hm_get (hosts c) n") (auto simp: load_def)
  have keys: "fst ` set (hosts c1) = fst ` set (hosts c)" "length (hosts c1) = length (hosts c)"
    using l(5) by (metis set_map, metis length_map)
  have ready1: "ready c1 = ready c" using l(4) by (auto simp: ready_def is_ready_def fun_eq_iff)
  have lev: "levelled ?f c1" by (simp add: levelled_def load1)
  have total: "length (shards c1) + length ?ss = length (shards c)"
    using removed_length [OF _ _ l(3)] ok l(2) dist alloc by (simp add: coord_ok_except_def hosts_ok_def)
  have bound: "length (shards c) < (?f + 1) * length (hosts c)"
    using ne dividend_less_div_times [of "length (hosts c)" "length (shards c)"] by (simp add: mult.commute)
  have fair: "(\<forall>n\<in>fst ` set (hosts c). load (reallocate_stopped order c1) n = ?f \<or>
                 load (reallocate_stopped order c1) n = ?f + 1) \<and>
       (\<forall>s. hm_get (shards (reallocate_stopped order c1)) s \<noteq> None \<longleftrightarrow> hm_get (shards c) s \<noteq> None)"
    if m: "mset order = mset ?ss" for order
  proof -
    have ord: "distinct order" "set order = set ?ss" "length order = length ?ss"
      using m dist mset_eq_imp_distinct_iff mset_eq_setD mset_eq_length by metis+
    let ?c' = "reallocate_stopped order c1"
    have r: "coord_ok ?c' \<and> levelled ?f ?c' \<and> fst ` set (hosts ?c') = fst ` set (hosts c1) \<and>
        length (shards ?c') = length (shards c1) + length order \<and>
        (\<forall>s. hm_get (shards ?c') s \<noteq> None \<longleftrightarrow> hm_get (shards c1) s \<noteq> None \<or> s \<in> set order)"
      using l(2,3) assms(2) keys ready1 ne ord lev total bound
      by (intro reallocate_stopped_level) auto
    have "length (hosts ?c') = length (hosts c)"
      using r keys coord_ok_exceptD(1) [of "[]" ?c'] coord_ok_exceptD(1) [OF l(2)]
      by (metis distinct_card length_map set_map)
    then have "\<forall>n\<in>fst ` set (hosts ?c'). load ?c' n = ?f \<or> load ?c' n = ?f + 1"
      using r total ord(3) by (intro levelled_exact) auto
    with r keys l(3) ord(2) alloc show ?thesis by auto
  qed
  have "handle_rebalance req RebalanceAll c = Inr (c1, bs @ ts)"
    using ne o l(1) by (simp add: handle_rebalance_def rebalance_shards_def Let_def)
  with tasks fair show ?thesis by blast
qed

definition ex_skewed :: shard_coordinator where
  "ex_skewed = ex_coord\<lparr>hosts :=
     [(1, \<lparr>host_node_id = 1, host_node_tag = ''a'', host_shards = [7, 8], host_actor = HostLocal,
           host_status = HostReady\<rparr>),
      (2, \<lparr>host_node_id = 2, host_node_tag = ''b'', host_shards = [],
           host_actor = HostRemote 2, host_status = HostReady\<rparr>)],
     shards := [(7, 1), (8, 1)]\<rparr>"

lemma ex_skewed_inv: "coord_inv ex_skewed" "\<forall>n\<in>fst ` set (hosts ex_skewed). ready ex_skewed n"
  by (auto simp: ex_skewed_def ex_coord_simp coord_inv_def coord_ok_except_def hosts_ok_def on_def
      ready_def is_ready_def split: if_splits)

theorem full_rebalance_fair_witness:
  "\<exists>c1 acts. handle_rebalance (\<lambda>_. 0) RebalanceAll ex_skewed = Inr (c1, acts) \<and>
     List.map_filter task_shard acts = [7] \<and>
     (load (reallocate_stopped [7] c1) 2 = 1 \<or> load (reallocate_stopped [7] c1) 2 = 2)"
proof -
  have ex: "all_excess ex_skewed = [7]" "fair_count ex_skewed = 1"
    by (simp_all add: ex_skewed_def ex_coord_simp excess_shards_def)
  have two: "2 \<in> fst ` set (hosts ex_skewed)" by (simp add: ex_skewed_def)
  obtain c1 acts where r: "handle_rebalance (\<lambda>_. 0) RebalanceAll ex_skewed = Inr (c1, acts)"
    "List.map_filter task_shard acts = [7]"
    "\<forall>order. mset order = mset [7] \<longrightarrow>
       (\<forall>n\<in>fst ` set (hosts ex_skewed). load (reallocate_stopped order c1) n = 1 \<or>
                                       load (reallocate_stopped order c1) n = 1 + 1) \<and>
       (\<forall>s. hm_get (shards (reallocate_stopped order c1)) s \<noteq> None \<longleftrightarrow> hm_get (shards ex_skewed) s \<noteq> None)"
    using full_rebalance_fair [OF ex_skewed_inv, of "\<lambda>_. 0", unfolded ex(1), unfolded ex(2)]
    by (elim exE conjE) (rule that)
  have "load (reallocate_stopped [7] c1) 2 = 1 \<or> load (reallocate_stopped [7] c1) 2 = 1 + 1"
    using r(3) two by blast
  with r(1,2) show ?thesis unfolding one_add_one by blast
qed

section \<open>Recovery\<close>

lemma recover_keeps:
  assumes "coord_inv c" and "hm_get (shards c) s \<noteq> None"
  shows "hm_get (shards (foldl recover_allocate_shard c evs)) s = hm_get (shards c) s"
  using assms
proof (induction evs arbitrary: c)
  case Nil
  then show ?case by simp
next
  case (Cons e evs)
  have ok: "coord_ok c" using Cons.prems(1) by (simp add: coord_inv_def)
  have "hm_get (shards (recover_allocate_shard c e)) s = hm_get (shards c) s"
  proof (cases "s = alloc_shard_id e")
    case True
    with Cons.prems(2) show ?thesis by (auto simp: recover_allocate_shard_def allocate_shard_def)
  next
    case False
    then show ?thesis unfolding recover_allocate_shard_def by (rule allocate_shard_effect(3) [OF ok])
  qed
  moreover have "coord_inv (recover_allocate_shard c e)"
    unfolding recover_allocate_shard_def by (rule allocate_inv [OF Cons.prems(1)])
  ultimately show ?case using Cons.IH [of "recover_allocate_shard c e"] Cons.prems(2) by simp
qed

lemma coordinator_recovery_aux:
  assumes "coord_inv c" and "has_ready_host c"
  shows "coord_inv (foldl recover_allocate_shard c evs) \<and>
         (\<forall>s. hm_get (shards (foldl recover_allocate_shard c evs)) s \<noteq> None \<longleftrightarrow>
            hm_get (shards c) s \<noteq> None \<or> s \<in> alloc_shard_id ` set evs) \<and>
         (\<forall>s n. hm_get (shards c) s = None \<and>
            hm_get (shards (foldl recover_allocate_shard c evs)) s = Some n \<longrightarrow> ready c n)"
  using assms
proof (induction evs arbitrary: c)
  case Nil
  then show ?case by auto
next
  case (Cons e evs)
  let ?s = "alloc_shard_id e" and ?c1 = "recover_allocate_shard c e"
  have ok: "coord_ok c" using Cons.prems(1) by (simp add: coord_inv_def)
  have c1: "?c1 = fst (snd (allocate_shard ?s c))" by (simp add: recover_allocate_shard_def)
  note eff = allocate_shard_effect [OF ok, where sid = ?s, folded c1]
  have inv1: "coord_inv ?c1" unfolding c1 by (rule allocate_inv [OF Cons.prems(1)])
  have wf: "hm_wf (hosts c)" "hm_wf (hosts ?c1)"
    using ok inv1 coord_ok_exceptD(1) by (auto simp: coord_inv_def)
  have "has_ready_host ?c1" using Cons.prems(2) eff(1) wf by (simp add: has_ready_host_iff)
  from Cons.IH [OF inv1 this] have IH:
    "coord_inv (foldl recover_allocate_shard ?c1 evs)"
    "\<And>s. hm_get (shards (foldl recover_allocate_shard ?c1 evs)) s \<noteq> None \<longleftrightarrow>
          hm_get (shards ?c1) s \<noteq> None \<or> s \<in> alloc_shard_id ` set evs"
    "\<And>s n. hm_get (shards ?c1) s = None \<Longrightarrow> hm_get (shards (foldl recover_allocate_shard ?c1 evs)) s = Some n \<Longrightarrow>
          ready ?c1 n"
    by blast+
  have keep: "hm_get (shards (foldl recover_allocate_shard ?c1 evs)) s = hm_get (shards ?c1) s"
    if "hm_get (shards ?c1) s \<noteq> None" for s
    using recover_keeps [OF inv1 that] .
  have one: "hm_get (shards ?c1) s \<noteq> None \<longleftrightarrow> hm_get (shards c) s \<noteq> None \<or> s = ?s" for s
    using eff(3) [of s] eff(4) [OF Cons.prems(2)] by (cases "s = ?s") auto
  show ?case
  proof (intro conjI allI impI)
    show "coord_inv (foldl recover_allocate_shard c (e # evs))" using IH(1) by simp
    show "hm_get (shards (foldl recover_allocate_shard c (e # evs))) s \<noteq> None \<longleftrightarrow>
        hm_get (shards c) s \<noteq> None \<or> s \<in> alloc_shard_id ` set (e # evs)" for s
      using IH(2) [of s] one [of s] by auto
    fix s n
    assume a: "hm_get (shards c) s = None \<and>
               hm_get (shards (foldl recover_allocate_shard c (e # evs))) s = Some n"
    show "ready c n"
    proof (cases "hm_get (shards ?c1) s")
      case None
      with a IH(3) [of s n] eff(1) show ?thesis by simp
    next
      case (Some m)
      then have "s = ?s" using a one [of s] by auto
      with Some a keep [of s] eff(6) [of n] show ?thesis by simp
    qed
  qed
qed

text \<open>Recovery of the coordinator: replaying the log of \<open>AllocateShard\<close> events, with a host ready,
  assigns exactly the shards of the log and those assigned before, keeps the invariant, and puts
  shards only on ready hosts (not necessarily the hosts they were on).\<close>

theorem coordinator_recovery:
  assumes "coord_inv c" and "has_ready_host c"
  shows "coord_inv (foldl recover_allocate_shard c evs) \<and>
         (\<forall>s. hm_get (shards (foldl recover_allocate_shard c evs)) s \<noteq> None \<longleftrightarrow>
            hm_get (shards c) s \<noteq> None \<or> s \<in> alloc_shard_id ` set evs) \<and>
         (\<forall>s n. hm_get (shards c) s = None \<and>
            hm_get (shards (foldl recover_allocate_shard c evs)) s = Some n \<longrightarrow> ready c n)"
  by (rule coordinator_recovery_aux [OF assms])

definition ex_event :: "shard_id \<Rightarrow> allocate_shard_msg" where
  "ex_event s = \<lparr>alloc_shard_id = s, alloc_rebalancing = False\<rparr>"

theorem coordinator_recovery_witness:
  "\<forall>s. hm_get (shards (foldl recover_allocate_shard ex_coord [ex_event 3, ex_event 4])) s \<noteq> None \<longleftrightarrow>
       s = 3 \<or> s = 4"
proof -
  have "has_ready_host ex_coord" by (simp add: has_ready_host_def ex_coord_simp is_ready_def)
  from coordinator_recovery [OF ex_coord_inv this, of "[ex_event 3, ex_event 4]"] show ?thesis
    by (simp add: ex_coord_simp ex_event_def)
qed

section \<open>The default shard allocator\<close>

text \<open>C36: The default allocator maps every actor id, whatever its hash, to a shard below the configured
  number of shards (the 64-bit remainder fits the 32-bit shard id), and panics exactly when that
  number is zero.\<close>

theorem default_allocate_bounds:
  "(max_shards = 0 \<longrightarrow> (\<exists>p. default_allocate hash max_shards aid = Inl p)) \<and>
   (max_shards \<noteq> 0 \<longrightarrow> (\<exists>s. default_allocate hash max_shards aid = Inr s \<and> s < max_shards \<and>
       unat s = unat (hash aid) mod unat max_shards))"
proof (intro conjI impI)
  assume "max_shards \<noteq> 0"
  let ?r = "hash aid mod ucast max_shards :: 64 word"
  have b: "unat max_shards < 2 ^ 32" using unsigned_less [of max_shards, where 'a = nat] by simp
  have m: "unat (ucast max_shards :: 64 word) = unat max_shards"
    using b by (simp add: unsigned_ucast_eq take_bit_nat_eq_self)
  have r: "unat ?r = unat (hash aid) mod unat max_shards" by (simp add: unat_mod m)
  have "0 < unat max_shards" using \<open>max_shards \<noteq> 0\<close> by (simp add: unat_gt_0)
  then have lt: "unat ?r < unat max_shards" by (simp add: r)
  then have "unat ?r < 2 ^ 32" using b by simp
  then have u: "unat (ucast ?r :: 32 word) = unat ?r" by (simp add: unsigned_ucast_eq take_bit_nat_eq_self)
  show "\<exists>s. default_allocate hash max_shards aid = Inr s \<and> s < max_shards \<and>
       unat s = unat (hash aid) mod unat max_shards"
    using \<open>max_shards \<noteq> 0\<close> lt u r
    by (intro exI [of _ "ucast ?r"]) (simp add: default_allocate_def word_less_nat_alt)
qed (simp add: default_allocate_def)

theorem default_allocate_bounds_witness:
  "\<exists>s. default_allocate (\<lambda>_. 18446744073709551615) default_allocator_max ''actor'' = Inr s \<and> s < 100 \<and> unat s = 15"
  using default_allocate_bounds [of default_allocator_max "\<lambda>_. 18446744073709551615" "''actor''"]
  by (simp add: default_allocator_max_def)

end
