(* ===== verification/Spawned_Tasks.thy ===== *)
theory Spawned_Tasks
  imports Prelude
begin

text \<open>
  Tasks that handlers spawn and forget. A handler that hands a message over in a \<open>tokio::spawn\<close> of its own fixes only
  when the task exists: the runtime runs the tasks that exist in any order and at any time, also between and after
  later handlers. So the messages reach their receiver in an order that the handlers do not determine.
\<close>

text \<open>
  \<open>batches\<close> are the tasks that the handlers still to come will spawn, in turn; \<open>pool\<close> are the tasks that exist and have
  not run; the last argument is the order in which all of them hand over their messages.
\<close>

inductive runs_tasks :: "'t list list \<Rightarrow> 't multiset \<Rightarrow> 't list \<Rightarrow> bool" where
  all_run: "runs_tasks [] {#} []"
| spawn: "runs_tasks bs (pool + mset b) ys \<Longrightarrow> runs_tasks (b # bs) pool ys"
| run: "t \<in># pool \<Longrightarrow> runs_tasks bs (pool - {#t#}) ys \<Longrightarrow> runs_tasks bs pool (t # ys)"

text \<open>Every task runs once, and no order is excluded.\<close>

lemma runs_tasks_once: "runs_tasks bs pool ys \<Longrightarrow> mset ys = pool + mset (concat bs)"
  by (induction rule: runs_tasks.induct) (auto simp: ac_simps)

lemma pool_in_any_order: "mset ys = pool \<Longrightarrow> runs_tasks [] pool ys"
proof (induction ys arbitrary: pool)
  case (Cons y ys)
  then have "y \<in># pool" "mset ys = pool - {#y#}" by auto
  with Cons.IH show ?case by (blast intro: runs_tasks.run)
qed (simp add: all_run)

lemma runs_tasks_any_order: "mset ys = pool + mset (concat bs) \<Longrightarrow> runs_tasks bs pool ys"
proof (induction bs arbitrary: pool)
  case (Cons b bs)
  then have "mset ys = pool + mset b + mset (concat bs)" by (simp add: ac_simps)
  with Cons.IH show ?case by (blast intro: runs_tasks.spawn)
qed (simp add: pool_in_any_order)

lemma runs_tasks_iff: "runs_tasks bs pool ys \<longleftrightarrow> mset ys = pool + mset (concat bs)"
  using runs_tasks_once runs_tasks_any_order by blast

text \<open>A sender that waits until its tasks have run before it goes on keeps its order.\<close>

lemma runs_tasks_in_turn:
  "runs_tasks bs {#} ys \<Longrightarrow> runs_tasks bs' {#} ys' \<Longrightarrow> runs_tasks (bs @ bs') {#} (ys @ ys')"
  by (simp add: runs_tasks_iff)

text \<open>The tasks among the effects of a trace, for the inputs of one kind.\<close>

definition task_batches :: "('a \<Rightarrow> 't option) \<Rightarrow> ('x \<Rightarrow> bool) \<Rightarrow> ('x \<times> 'a list) list \<Rightarrow> 't list list" where
  "task_batches task rel tr = map (\<lambda>(x, acts). if rel x then List.map_filter task acts else []) tr"

lemma map_filter_append: "List.map_filter f (xs @ ys) = List.map_filter f xs @ List.map_filter f ys"
  by (simp add: List.map_filter_def)

lemma concat_task_batches:
  "concat (task_batches task rel tr) = List.map_filter task (concat (map snd (filter (\<lambda>(x, _). rel x) tr)))"
  by (induction tr) (auto simp: task_batches_def map_filter_append List.map_filter_def)

lemma tasks_of_trace:
  "runs_tasks (task_batches task rel tr) {#} ys \<longleftrightarrow>
     mset ys = mset (List.map_filter task (concat (map snd (filter (\<lambda>(x, _). rel x) tr))))"
  by (simp add: runs_tasks_iff concat_task_batches)

end
