(* ===== verification/Keyed_Machines.thy ===== *)
theory Keyed_Machines
  imports Spawned_Tasks
begin

text \<open>
  Machines that keep one slot per key. A shard keeps its entities by actor id, a shard host its shards
  by shard id; each message is about one key and touches that key's slot alone. The locale states
  this contract, and its lemma is the refinement that both components share: such a machine is a
  family of independent machines, one per key.
\<close>

text \<open>A run over a list of inputs, with what each input caused; a panic ends it.\<close>

fun run_inputs ::
  "('x \<Rightarrow> 's \<Rightarrow> ('s \<times> 'a list) may_panic) \<Rightarrow> 'x list \<Rightarrow> 's \<Rightarrow> ('s \<times> ('x \<times> 'a list) list) may_panic" where
  "run_inputs step [] s = Inr (s, [])"
| "run_inputs step (x # xs) s =
     (case step x s of
        Inl p \<Rightarrow> Inl p
      | Inr (s1, acts) \<Rightarrow>
          (case run_inputs step xs s1 of
             Inl p \<Rightarrow> Inl p
           | Inr (s2, tr) \<Rightarrow> Inr (s2, (x, acts) # tr)))"

text \<open>A run of one slot, with all it caused.\<close>

fun slot_run :: "('x \<Rightarrow> 'sl \<Rightarrow> 'sl \<times> 'a list) \<Rightarrow> 'x list \<Rightarrow> 'sl \<Rightarrow> 'sl \<times> 'a list" where
  "slot_run f [] s = (s, [])"
| "slot_run f (x # xs) s =
     (let (s1, as1) = f x s; (s2, as2) = slot_run f xs s1 in (s2, as1 @ as2))"

definition caused_for :: "('x \<Rightarrow> 'k) \<Rightarrow> 'k \<Rightarrow> ('x \<times> 'a list) list \<Rightarrow> 'a list" where
  "caused_for key k tr = concat (map snd (filter (\<lambda>(x, _). key x = k) tr))"

lemma caused_for_simps [simp]:
  "caused_for key k [] = []"
  "caused_for key k ((x, acts) # tr) = (if key x = k then acts else []) @ caused_for key k tr"
  by (simp_all add: caused_for_def)

lemma slot_run_append:
  "slot_run f (xs @ ys) s =
     (let (s1, as1) = slot_run f xs s; (s2, as2) = slot_run f ys s1 in (s2, as1 @ as2))"
  by (induction xs arbitrary: s) (simp_all add: split_beta Let_def)

locale keyed_machine =
  fixes step :: "'x \<Rightarrow> 's \<Rightarrow> ('s \<times> 'a list) may_panic"
    and key :: "'x \<Rightarrow> 'k"
    and slot :: "'s \<Rightarrow> 'k \<Rightarrow> 'sl"
    and slot_step :: "'x \<Rightarrow> 'sl \<Rightarrow> 'sl \<times> 'a list"
    and ok :: "'s \<Rightarrow> bool"
  assumes step_runs: "ok s \<Longrightarrow> \<exists>s' acts. step x s = Inr (s', acts)"
    and step_slot: "ok s \<Longrightarrow> step x s = Inr (s', acts) \<Longrightarrow>
      ok s' \<and> slot s' = (slot s)(key x := fst (slot_step x (slot s (key x)))) \<and>
      acts = snd (slot_step x (slot s (key x)))"
begin

lemma run_exists: "ok s \<Longrightarrow> \<exists>s' tr. run_inputs step xs s = Inr (s', tr) \<and> ok s'"
proof (induction xs arbitrary: s)
  case Nil
  then show ?case by simp
next
  case (Cons x xs)
  obtain s1 acts where st: "step x s = Inr (s1, acts)" using step_runs [OF Cons.prems] by blast
  then have "ok s1" using step_slot [OF Cons.prems] by blast
  with Cons.IH st show ?case by fastforce
qed

lemma run_slot:
  "ok s \<Longrightarrow> run_inputs step xs s = Inr (s', tr) \<Longrightarrow>
   slot_run slot_step (filter (\<lambda>x. key x = k) xs) (slot s k) = (slot s' k, caused_for key k tr)"
proof (induction xs arbitrary: s tr)
  case Nil
  then show ?case by simp
next
  case (Cons x xs)
  obtain s1 acts where st: "step x s = Inr (s1, acts)" using step_runs [OF Cons.prems(1)] by blast
  obtain tr1 where run: "run_inputs step xs s1 = Inr (s', tr1)" and tr: "tr = (x, acts) # tr1"
    using Cons.prems(2) st by (auto split: sum.splits)
  note slot = step_slot [OF Cons.prems(1) st]
  then have "slot_run slot_step (filter (\<lambda>x. key x = k) xs) (slot s1 k) = (slot s' k, caused_for key k tr1)"
    using Cons.IH [OF _ run] by blast
  with slot show ?case by (cases "key x = k") (auto simp: tr split_beta)
qed

end

end
