(* ===== verification/Shard_Entities.thy ===== *)
theory Shard_Entities
  imports Actor_Context Journal Keyed_Machines
begin

text \<open>
  A shard and its entities: \<open>sharding/shard/mod.rs\<close> (the entity state machine, requests, start
  and recovery of entities), \<open>sharding/shard/recovery.rs\<close> (the events and the snapshot of a shard)
  and \<open>sharding/shard/message.rs\<close>.

  A handler returns the new state and the list of things it starts: replies on a result channel,
  tasks that hand a request to an entity's actor (\<open>SpawnDirect\<close>: each is spawned on its own, and the tasks run in any
  order), creations of an actor, persisted events. The creation of an entity's actor runs as a task of its own and answers with an \<open>EntityStartResult\<close> message, which
  is a step of its own. \<open>now\<close> is the clock.
\<close>

section \<open>State\<close>

type_synonym recipe = bytes

record buffered_req =
  req_handler :: string
  req_message :: bytes
  req_result_channel :: "sender option"

datatype entity_state =
    EntityIdle
  | EntityStarting "buffered_req list"
  | EntityActive actor_ref
  | EntityPassivated

definition entity_starting :: "buffered_req option \<Rightarrow> entity_state" where
  "entity_starting r = EntityStarting (case r of Some r \<Rightarrow> [r] | None \<Rightarrow> [])"

definition entity_is_starting :: "entity_state \<Rightarrow> bool" where
  "entity_is_starting s = (case s of EntityStarting _ \<Rightarrow> True | _ \<Rightarrow> False)"

definition entity_is_active :: "entity_state \<Rightarrow> bool" where
  "entity_is_active s = (case s of EntityActive _ \<Rightarrow> True | _ \<Rightarrow> False)"

definition get_actor_ref :: "entity_state \<Rightarrow> actor_ref option" where
  "get_actor_ref s = (case s of EntityActive r \<Rightarrow> Some r | _ \<Rightarrow> None)"

record entity =
  entity_actor_id :: actor_id
  entity_recipe :: recipe
  entity_state :: entity_state
  last_request :: nat

text \<open>\<open>Clone for EntityState\<close> yields \<open>Idle\<close> whatever the state; cloning an entity uses it.\<close>

definition entity_clone :: "entity \<Rightarrow> entity" where
  "entity_clone e = e\<lparr>entity_state := EntityIdle\<rparr>"

record shard =
  shard_id :: shard_id
  shard_handler :: type_name
  persistent_entities :: bool
  shard_recovered_snapshot :: bool
  entity_passivation :: bool
  entities :: "(actor_id, entity) hash_map"

definition shard_new :: "shard_id \<Rightarrow> type_name \<Rightarrow> bool \<Rightarrow> shard" where
  "shard_new sid handler persistent =
     \<lparr>shard_id = sid, shard_handler = handler, persistent_entities = persistent,
      shard_recovered_snapshot = False, entity_passivation = True, entities = []\<rparr>"

datatype shard_action =
    ReplyErr sender actor_ref_err
  | SpawnDirect actor_ref buffered_req
  | PersistStartEntity actor_id recipe
  | CreateEntity actor_id recipe bool
  | NotifyShardReady shard_id
  | AwaitRpcReply uuid node_id sender

definition get_or_create_entity ::
  "nat \<Rightarrow> actor_id \<Rightarrow> recipe option \<Rightarrow> shard \<Rightarrow> entity option \<times> shard" where
  "get_or_create_entity now aid rcp sh =
     (case hm_get (entities sh) aid of
        Some e \<Rightarrow> (Some e, sh)
      | None \<Rightarrow>
          (case rcp of
             Some r \<Rightarrow>
               (let e = \<lparr>entity_actor_id = aid, entity_recipe = r, entity_state = EntityIdle,
                         last_request = now\<rparr>
                in (Some e, sh\<lparr>entities := hm_insert aid e (entities sh)\<rparr>))
           | None \<Rightarrow> (None, sh)))"

section \<open>Requests and start of entities\<close>

definition reply_err :: "sender option \<Rightarrow> actor_ref_err \<Rightarrow> shard_action list" where
  "reply_err ch err = (case ch of Some tx \<Rightarrow> [ReplyErr tx err] | None \<Rightarrow> [])"

definition entity_request :: "buffered_req \<Rightarrow> entity \<Rightarrow> entity \<times> shard_action list" where
  "entity_request r e =
     (case entity_state e of
        EntityPassivated \<Rightarrow> (e, reply_err (req_result_channel r) ActorUnavailable)
      | EntityIdle \<Rightarrow> (e, reply_err (req_result_channel r) ActorUnavailable)
      | EntityStarting buf \<Rightarrow> (e\<lparr>entity_state := EntityStarting (buf @ [r])\<rparr>, [])
      | EntityActive ref \<Rightarrow> (e, [SpawnDirect ref r]))"

fun entity_requests :: "buffered_req list \<Rightarrow> entity \<Rightarrow> entity \<times> shard_action list" where
  "entity_requests [] e = (e, [])"
| "entity_requests (r # rs) e =
     (let (e1, as1) = entity_request r e;
          (e2, as2) = entity_requests rs e1
      in (e2, as1 @ as2))"

definition start_entity :: "actor_id \<Rightarrow> recipe \<Rightarrow> bool \<Rightarrow> shard \<Rightarrow> shard_action list" where
  "start_entity aid rcp is_shard_recovery sh =
     (if \<not> is_shard_recovery \<and> persistent_entities sh then [PersistStartEntity aid rcp] else []) @
     [CreateEntity aid rcp is_shard_recovery]"

definition handle_start_entity ::
  "nat \<Rightarrow> actor_id \<Rightarrow> recipe \<Rightarrow> shard \<Rightarrow> shard \<times> shard_action list" where
  "handle_start_entity now aid rcp sh =
     (sh\<lparr>entities := hm_insert aid
            \<lparr>entity_actor_id = aid, entity_recipe = rcp, entity_state = entity_starting None,
             last_request = now\<rparr> (entities sh)\<rparr>,
      start_entity aid rcp False sh)"

text \<open>
  The result of creating an entity's actor. An unexpected previous state is replaced and logged; a
  failure is only logged.
\<close>

definition handle_entity_start_result ::
  "actor_id \<Rightarrow> (actor_ref_err + actor_ref) \<Rightarrow> shard \<Rightarrow> actor_context \<Rightarrow>
   shard \<times> actor_context \<times> shard_action list" where
  "handle_entity_start_result aid res sh ctx =
     (case res of
        Inl _ \<Rightarrow> (sh, ctx, [])
      | Inr r \<Rightarrow>
          (let ctx' = snd (ctx_add_child_ref r ctx)
           in case hm_get (entities sh) aid of
                None \<Rightarrow> (sh, ctx', [])
              | Some e \<Rightarrow>
                  (let previous = entity_state e;
                       e1 = e\<lparr>entity_state := EntityActive r\<rparr>
                   in case previous of
                        EntityStarting buf \<Rightarrow>
                          (let (e2, acts) = entity_requests buf e1
                           in (sh\<lparr>entities := hm_insert aid e2 (entities sh)\<rparr>, ctx', acts))
                      | _ \<Rightarrow> (sh\<lparr>entities := hm_insert aid e1 (entities sh)\<rparr>, ctx', []))))"

record entity_req =
  er_actor_id :: actor_id
  er_message_type :: string
  er_message :: bytes
  er_recipe :: "recipe option"
  er_result_channel :: "sender option"

definition handle_entity_request ::
  "(string \<Rightarrow> string option) \<Rightarrow> nat \<Rightarrow> entity_req \<Rightarrow> shard \<Rightarrow> shard \<times> shard_action list" where
  "handle_entity_request message_handler now m sh =
     (case message_handler (er_message_type m) of
        None \<Rightarrow>
          (sh, reply_err (er_result_channel m)
                 (NotSupported (er_actor_id m) (er_message_type m) (shard_handler sh)))
      | Some h \<Rightarrow>
          (let r = \<lparr>req_handler = h, req_message = er_message m, req_result_channel = er_result_channel m\<rparr>
           in case hm_get (entities sh) (er_actor_id m) of
                Some e \<Rightarrow>
                  (let (e', acts) = entity_request r e
                   in (sh\<lparr>entities := hm_insert (er_actor_id m) e' (entities sh)\<rparr>, acts))
              | None \<Rightarrow>
                  (case er_recipe m of
                     Some rcp \<Rightarrow>
                       (sh\<lparr>entities := hm_insert (er_actor_id m)
                              \<lparr>entity_actor_id = er_actor_id m, entity_recipe = rcp,
                               entity_state = entity_starting (Some r), last_request = now\<rparr> (entities sh)\<rparr>,
                        start_entity (er_actor_id m) rcp False sh)
                   | None \<Rightarrow> (sh, reply_err (er_result_channel m) (NotFound (er_actor_id m))))))"

record remote_entity_req =
  rer_request_id :: uuid
  rer_actor_id :: actor_id
  rer_message_type :: string
  rer_message :: bytes
  rer_recipe :: "recipe option"
  rer_origin_node :: node_id

definition entity_req_from_remote :: "remote_entity_req \<Rightarrow> entity_req" where
  "entity_req_from_remote m =
     \<lparr>er_actor_id = rer_actor_id m, er_message_type = rer_message_type m, er_message = rer_message m,
      er_recipe = rer_recipe m, er_result_channel = None\<rparr>"

text \<open>\<open>tx\<close> is the fresh one-shot channel whose answer the spawned task turns into an RPC reply.\<close>

definition handle_remote_entity_request ::
  "(string \<Rightarrow> string option) \<Rightarrow> nat \<Rightarrow> sender \<Rightarrow> remote_entity_req \<Rightarrow> shard \<Rightarrow> shard \<times> shard_action list" where
  "handle_remote_entity_request message_handler now tx m sh =
     (let (sh', acts) = handle_entity_request message_handler now
                          ((entity_req_from_remote m)\<lparr>er_result_channel := Some tx\<rparr>) sh
      in (sh', acts @ [AwaitRpcReply (rer_request_id m) (rer_origin_node m) tx]))"

datatype rpc_reply = RpcResult uuid bytes node_id | RpcErr uuid actor_ref_err node_id

definition remote_entity_reply ::
  "uuid \<Rightarrow> node_id \<Rightarrow> (actor_ref_err + bytes) option \<Rightarrow> rpc_reply" where
  "remote_entity_reply request_id origin rx =
     (case rx of
        Some (Inr result) \<Rightarrow> RpcResult request_id result origin
      | None \<Rightarrow> RpcErr request_id ResultChannelClosed origin
      | Some (Inl e) \<Rightarrow> RpcErr request_id e origin)"

section \<open>Recovery\<close>

datatype shard_event = StartEntity actor_id recipe | PassivateEntity actor_id | RemoveEntity actor_id

fun recover_event :: "nat \<Rightarrow> shard_event \<Rightarrow> shard \<Rightarrow> shard" where
  "recover_event now (StartEntity aid rcp) sh =
     sh\<lparr>entities := hm_insert aid
          \<lparr>entity_actor_id = aid, entity_recipe = rcp, entity_state = entity_starting None,
           last_request = now\<rparr> (entities sh)\<rparr>"
| "recover_event now (PassivateEntity aid) sh =
     sh\<lparr>entities := hm_modify aid (\<lambda>e. e\<lparr>entity_state := EntityPassivated\<rparr>) (entities sh)\<rparr>"
| "recover_event now (RemoveEntity aid) sh = sh\<lparr>entities := hm_remove aid (entities sh)\<rparr>"

definition get_active_entities :: "shard \<Rightarrow> entity list" where
  "get_active_entities sh =
     map entity_clone (filter (\<lambda>e. entity_is_starting (entity_state e)) (hm_values (entities sh)))"

definition recover_entities :: "shard \<Rightarrow> shard_action list" where
  "recover_entities sh =
     concat (map (\<lambda>e. start_entity (entity_actor_id e) (entity_recipe e) True sh) (get_active_entities sh))"

definition shard_post_recovery :: "shard \<Rightarrow> shard_action list" where
  "shard_post_recovery sh =
     (if length (entities sh) > 0 then recover_entities sh else []) @ [NotifyShardReady (shard_id sh)]"

record shard_state_snapshot =
  snap_shard_id :: shard_id
  snap_node_id :: node_id
  snap_entities :: "entity list"

definition save_snapshot :: "node_id \<Rightarrow> shard \<Rightarrow> shard_state_snapshot" where
  "save_snapshot node sh =
     \<lparr>snap_shard_id = shard_id sh, snap_node_id = node,
      snap_entities = map entity_clone (hm_values (entities sh))\<rparr>"

definition recover_shard_snapshot :: "shard_state_snapshot \<Rightarrow> shard \<Rightarrow> shard" where
  "recover_shard_snapshot s sh =
     sh\<lparr>entities := fold (\<lambda>e. hm_insert (entity_actor_id e) e) (snap_entities s) []\<rparr>"

datatype proto_entity_state = ProtoIdle | ProtoActive | ProtoPassivated

text \<open>The state of an entity in a snapshot; \<open>None\<close> stands for a number that the enum does not have.\<close>

record proto_entity =
  pe_actor_id :: string
  pe_recipe :: bytes
  pe_state :: "proto_entity_state option"

record proto_snapshot =
  ps_shard_id :: shard_id
  ps_node_id :: node_id
  ps_entities :: "proto_entity list"

definition entity_to_proto :: "entity \<Rightarrow> proto_entity" where
  "entity_to_proto e =
     \<lparr>pe_actor_id = entity_actor_id e, pe_recipe = entity_recipe e,
      pe_state = Some (case entity_state e of EntityPassivated \<Rightarrow> ProtoPassivated | _ \<Rightarrow> ProtoIdle)\<rparr>"

definition entity_from_proto :: "nat \<Rightarrow> proto_entity \<Rightarrow> entity may_panic" where
  "entity_from_proto now p =
     (case pe_state p of
        None \<Rightarrow> Inl (Panic ''called unwrap on an Err value'')
      | Some st \<Rightarrow>
          Inr \<lparr>entity_actor_id = pe_actor_id p, entity_recipe = pe_recipe p,
               entity_state = (case st of ProtoPassivated \<Rightarrow> EntityPassivated | _ \<Rightarrow> EntityIdle),
               last_request = now\<rparr>)"

fun entities_from_proto :: "nat \<Rightarrow> proto_entity list \<Rightarrow> entity list may_panic" where
  "entities_from_proto now [] = Inr []"
| "entities_from_proto now (p # ps) =
     (case entity_from_proto now p of
        Inl e \<Rightarrow> Inl e
      | Inr e \<Rightarrow> map_sum id (\<lambda>es. e # es) (entities_from_proto now ps))"

definition snapshot_into_remote_envelope ::
  "(proto_snapshot \<Rightarrow> 'err + bytes) \<Rightarrow> shard_state_snapshot \<Rightarrow>
   message_wrap_err + shard_state_snapshot envelope" where
  "snapshot_into_remote_envelope proto_write s =
     (case proto_write \<lparr>ps_shard_id = snap_shard_id s, ps_node_id = snap_node_id s,
                        ps_entities = map entity_to_proto (snap_entities s)\<rparr> of
        Inl _ \<Rightarrow> Inl SerializationErr
      | Inr b \<Rightarrow> Inr (EnvRemote b))"

definition snapshot_from_remote_envelope ::
  "(bytes \<Rightarrow> 'err + proto_snapshot) \<Rightarrow> nat \<Rightarrow> bytes \<Rightarrow> (message_unwrap_err + shard_state_snapshot) may_panic" where
  "snapshot_from_remote_envelope proto_parse now b =
     (case proto_parse b of
        Inl _ \<Rightarrow> Inr (Inl DeserializationErr)
      | Inr p \<Rightarrow>
          map_sum id
            (\<lambda>es. Inr \<lparr>snap_shard_id = ps_shard_id p, snap_node_id = ps_node_id p, snap_entities = es\<rparr>)
            (entities_from_proto now (ps_entities p)))"

record shard_stats =
  sst_shard_id :: shard_id
  sst_node_id :: node_id
  sst_entities :: "string list"

definition get_shard_stats :: "node_id \<Rightarrow> shard \<Rightarrow> shard_stats" where
  "get_shard_stats node sh =
     \<lparr>sst_shard_id = shard_id sh, sst_node_id = node, sst_entities = hm_keys (entities sh)\<rparr>"

section \<open>Each entity is a machine of its own\<close>

text \<open>The messages of a shard that concern entities, each with the clock at its handling.\<close>

datatype shard_input =
    InRequest nat entity_req
  | InStart nat actor_id recipe
  | InStarted actor_id "actor_ref_err + actor_ref"

fun input_id :: "shard_input \<Rightarrow> actor_id" where
  "input_id (InRequest _ m) = er_actor_id m"
| "input_id (InStart _ aid _) = aid"
| "input_id (InStarted aid _) = aid"

fun shard_step ::
  "(string \<Rightarrow> string option) \<Rightarrow> shard_input \<Rightarrow> shard \<Rightarrow> actor_context \<Rightarrow>
   shard \<times> actor_context \<times> shard_action list" where
  "shard_step mh (InRequest now m) sh ctx =
     (let (sh', acts) = handle_entity_request mh now m sh in (sh', ctx, acts))"
| "shard_step mh (InStart now aid rcp) sh ctx =
     (let (sh', acts) = handle_start_entity now aid rcp sh in (sh', ctx, acts))"
| "shard_step mh (InStarted aid res) sh ctx = handle_entity_start_result aid res sh ctx"

text \<open>A run of the shard, with what each message caused.\<close>

fun shard_run ::
  "(string \<Rightarrow> string option) \<Rightarrow> shard_input list \<Rightarrow> shard \<Rightarrow> actor_context \<Rightarrow>
   shard \<times> (shard_input \<times> shard_action list) list" where
  "shard_run mh [] sh ctx = (sh, [])"
| "shard_run mh (x # xs) sh ctx =
     (let (sh1, ctx1, acts) = shard_step mh x sh ctx;
          (sh2, tr) = shard_run mh xs sh1 ctx1
      in (sh2, (x, acts) # tr))"

definition acts_for :: "actor_id \<Rightarrow> (shard_input \<times> shard_action list) list \<Rightarrow> shard_action list" where
  "acts_for aid tr = concat (map snd (filter (\<lambda>(x, _). input_id x = aid) tr))"

text \<open>
  The specification: one entity alone, absent (\<open>None\<close>) or present. \<open>persistent\<close> and \<open>handler\<close> are the
  shard's configuration.
\<close>

definition buffered :: "string \<Rightarrow> entity_req \<Rightarrow> buffered_req" where
  "buffered h m =
     \<lparr>req_handler = h, req_message = er_message m, req_result_channel = er_result_channel m\<rparr>"

definition start_acts :: "bool \<Rightarrow> actor_id \<Rightarrow> recipe \<Rightarrow> shard_action list" where
  "start_acts persistent aid rcp =
     (if persistent then [PersistStartEntity aid rcp] else []) @ [CreateEntity aid rcp False]"

fun entity_step ::
  "(string \<Rightarrow> string option) \<Rightarrow> bool \<Rightarrow> type_name \<Rightarrow> shard_input \<Rightarrow> entity option \<Rightarrow>
   entity option \<times> shard_action list" where
  "entity_step mh persistent handler (InRequest now m) eo =
     (case mh (er_message_type m) of
        None \<Rightarrow> (eo, reply_err (er_result_channel m)
                       (NotSupported (er_actor_id m) (er_message_type m) handler))
      | Some h \<Rightarrow>
          (case eo of
             Some e \<Rightarrow> apfst Some (entity_request (buffered h m) e)
           | None \<Rightarrow>
               (case er_recipe m of
                  Some rcp \<Rightarrow>
                    (Some \<lparr>entity_actor_id = er_actor_id m, entity_recipe = rcp,
                           entity_state = EntityStarting [buffered h m], last_request = now\<rparr>,
                     start_acts persistent (er_actor_id m) rcp)
                | None \<Rightarrow> (None, reply_err (er_result_channel m) (NotFound (er_actor_id m))))))"
| "entity_step mh persistent handler (InStart now aid rcp) eo =
     (Some \<lparr>entity_actor_id = aid, entity_recipe = rcp, entity_state = EntityStarting [],
            last_request = now\<rparr>,
      start_acts persistent aid rcp)"
| "entity_step mh persistent handler (InStarted aid res) eo =
     (case (res, eo) of
        (Inr r, Some e) \<Rightarrow>
          (Some (e\<lparr>entity_state := EntityActive r\<rparr>),
           case entity_state e of EntityStarting buf \<Rightarrow> map (SpawnDirect r) buf | _ \<Rightarrow> [])
      | _ \<Rightarrow> (eo, []))"

abbreviation entity_run ::
  "(string \<Rightarrow> string option) \<Rightarrow> bool \<Rightarrow> type_name \<Rightarrow> shard_input list \<Rightarrow> entity option \<Rightarrow>
   entity option \<times> shard_action list" where
  "entity_run mh persistent handler \<equiv> slot_run (entity_step mh persistent handler)"

lemma flush_active:
  "entity_requests rs (e\<lparr>entity_state := EntityActive r\<rparr>) =
     (e\<lparr>entity_state := EntityActive r\<rparr>, map (SpawnDirect r) rs)"
  by (induction rs) (simp_all add: entity_request_def)

lemma shard_step_entity:
  assumes "shard_step mh x sh ctx = (sh', ctx', acts)"
  shows "persistent_entities sh' = persistent_entities sh \<and> shard_handler sh' = shard_handler sh \<and>
         hm_get (entities sh') = (hm_get (entities sh))(input_id x :=
           fst (entity_step mh (persistent_entities sh) (shard_handler sh) x
                  (hm_get (entities sh) (input_id x)))) \<and>
         acts = snd (entity_step mh (persistent_entities sh) (shard_handler sh) x
                       (hm_get (entities sh) (input_id x)))"
proof (cases x)
  case (InRequest now m)
  with assms show ?thesis
    by (auto simp: handle_entity_request_def start_entity_def start_acts_def buffered_def
        entity_starting_def Let_def split_beta apfst_def map_prod_def fun_upd_idem
        split: option.splits)
next
  case (InStart now aid rcp)
  with assms show ?thesis
    by (auto simp: handle_start_entity_def start_entity_def start_acts_def entity_starting_def)
next
  case (InStarted aid res)
  with assms show ?thesis
    by (auto simp: handle_entity_start_result_def Let_def split_beta flush_active fun_upd_idem
        split: sum.splits option.splits entity_state.splits)
qed

text \<open>A shard with its context is a keyed machine; the configuration of the shard never changes.\<close>

fun shard_machine ::
  "(string \<Rightarrow> string option) \<Rightarrow> shard_input \<Rightarrow> shard \<times> actor_context \<Rightarrow>
   ((shard \<times> actor_context) \<times> shard_action list) may_panic" where
  "shard_machine mh x (sh, ctx) = (let (sh', ctx', acts) = shard_step mh x sh ctx in Inr ((sh', ctx'), acts))"

lemma run_shard_machine:
  "\<exists>ctx'. run_inputs (shard_machine mh) xs (sh, ctx) = Inr ((fst (shard_run mh xs sh ctx), ctx'), snd (shard_run mh xs sh ctx))"
proof (induction xs arbitrary: sh ctx)
  case Nil
  then show ?case by simp
next
  case (Cons x xs)
  obtain sh1 ctx1 acts where st: "shard_step mh x sh ctx = (sh1, ctx1, acts)"
    by (cases "shard_step mh x sh ctx")
  obtain ctx' where "run_inputs (shard_machine mh) xs (sh1, ctx1) =
      Inr ((fst (shard_run mh xs sh1 ctx1), ctx'), snd (shard_run mh xs sh1 ctx1))"
    using Cons.IH by blast
  with st show ?case by (auto simp: split_beta)
qed

interpretation entity_family: keyed_machine "shard_machine mh" input_id "\<lambda>s. hm_get (entities (fst s))"
    "entity_step mh persistent handler"
    "\<lambda>s. persistent_entities (fst s) = persistent \<and> shard_handler (fst s) = handler"
  for mh persistent handler
proof
  show "\<exists>s' acts. shard_machine mh x s = Inr (s', acts)" for x s
    by (cases s) (auto simp: split_beta)
next
  fix s x s' acts
  assume "persistent_entities (fst s) = persistent \<and> shard_handler (fst s) = handler"
    and "shard_machine mh x s = Inr (s', acts)"
  then show "(persistent_entities (fst s') = persistent \<and> shard_handler (fst s') = handler) \<and>
      hm_get (entities (fst s')) = (hm_get (entities (fst s)))(input_id x :=
        fst (entity_step mh persistent handler x (hm_get (entities (fst s)) (input_id x)))) \<and>
      acts = snd (entity_step mh persistent handler x (hm_get (entities (fst s)) (input_id x)))"
    using shard_step_entity [of mh x "fst s" "snd s" "fst s'" "snd s'" acts]
    by (cases s) (auto split: prod.splits)
qed

lemma shard_refines_run:
  assumes "shard_run mh xs sh ctx = (sh', tr)"
  shows "entity_run mh (persistent_entities sh) (shard_handler sh)
           (filter (\<lambda>x. input_id x = aid) xs) (hm_get (entities sh) aid) =
         (hm_get (entities sh') aid, acts_for aid tr)"
proof -
  obtain ctx' where "run_inputs (shard_machine mh) xs (sh, ctx) = Inr ((sh', ctx'), tr)"
    using run_shard_machine [of mh xs sh ctx] assms by auto
  from entity_family.run_slot [OF _ this, of "persistent_entities sh" "shard_handler sh" aid]
  show ?thesis by (simp add: acts_for_def caused_for_def)
qed

text \<open>C26: Refinement: a shard behaves as a family of independent entity machines. After any
  interleaving of requests, starts and start results for any entities, the state of each entity and
  the actions its messages caused are those of that entity's machine run on its own messages alone.\<close>

theorem shard_refines_entities:
  assumes "shard_run mh xs sh ctx = (sh', tr)"
  shows "entity_run mh (persistent_entities sh) (shard_handler sh)
           (filter (\<lambda>x. input_id x = aid) xs) (hm_get (entities sh) aid) =
         (hm_get (entities sh') aid, acts_for aid tr)"
  by (rule shard_refines_run [OF assms])

lemma ex_request_ctx:
  "\<exists>sh' tr. shard_run Some [InRequest 0 \<lparr>er_actor_id = ''e'', er_message_type = ''t'', er_message = [1],
        er_recipe = Some [9], er_result_channel = Some 4\<rparr>] (shard_new 1 ''h'' True)
      (fst (actor_context_new None 0 Starting (start_actor ''t'' ''a'' ''p'' 0) NoTags)) = (sh', tr)"
  by (metis surj_pair)

theorem shard_refines_entities_witness:
  "\<exists>sh' tr. shard_run Some [InRequest 0 \<lparr>er_actor_id = ''e'', er_message_type = ''t'', er_message = [1],
        er_recipe = Some [9], er_result_channel = Some 4\<rparr>] (shard_new 1 ''h'' True)
      (fst (actor_context_new None 0 Starting (start_actor ''t'' ''a'' ''p'' 0) NoTags)) = (sh', tr) \<and>
     acts_for ''e'' tr = [PersistStartEntity ''e'' [9], CreateEntity ''e'' [9] False]"
proof -
  obtain sh' tr where r: "shard_run Some [InRequest 0 \<lparr>er_actor_id = ''e'', er_message_type = ''t'',
        er_message = [1], er_recipe = Some [9], er_result_channel = Some 4\<rparr>] (shard_new 1 ''h'' True)
      (fst (actor_context_new None 0 Starting (start_actor ''t'' ''a'' ''p'' 0) NoTags)) = (sh', tr)"
    using ex_request_ctx by blast
  from shard_refines_entities [OF r, of "''e''"] r show ?thesis
    by (auto simp: shard_new_def start_acts_def)
qed

section \<open>Requests reach the entity exactly once\<close>

abbreviation known :: "(string \<Rightarrow> string option) \<Rightarrow> entity_req \<Rightarrow> bool" where
  "known mh m \<equiv> mh (er_message_type m) \<noteq> None"

abbreviation to_buffer :: "(string \<Rightarrow> string option) \<Rightarrow> entity_req \<Rightarrow> buffered_req" where
  "to_buffer mh m \<equiv> buffered (the (mh (er_message_type m))) m"

lemma requests_while_starting:
  assumes "\<forall>m\<in>snd ` set ms. known mh m"
  shows "entity_run mh persistent handler (map (\<lambda>(t, m). InRequest t m) ms)
           (Some (e\<lparr>entity_state := EntityStarting buf\<rparr>)) =
         (Some (e\<lparr>entity_state := EntityStarting (buf @ map (\<lambda>(_, m). to_buffer mh m) ms)\<rparr>), [])"
  using assms
proof (induction ms arbitrary: buf)
  case Nil
  then show ?case by simp
next
  case (Cons tm ms)
  obtain t m where tm: "tm = (t, m)" by (cases tm)
  then obtain h where "mh (er_message_type m) = Some h" using Cons.prems by auto
  with Cons tm show ?case by (simp add: entity_request_def)
qed

lemma requests_while_active:
  assumes "\<forall>m\<in>snd ` set ms. known mh m"
  shows "entity_run mh persistent handler (map (\<lambda>(t, m). InRequest t m) ms)
           (Some (e\<lparr>entity_state := EntityActive r\<rparr>)) =
         (Some (e\<lparr>entity_state := EntityActive r\<rparr>), map (\<lambda>(_, m). SpawnDirect r (to_buffer mh m)) ms)"
  using assms
proof (induction ms)
  case Nil
  then show ?case by simp
next
  case (Cons tm ms)
  obtain t m where tm: "tm = (t, m)" by (cases tm)
  then obtain h where "mh (er_message_type m) = Some h" using Cons.prems by auto
  with Cons tm show ?case by (simp add: entity_request_def)
qed

lemma entity_requests_delivered:
  assumes "shard_run mh xs sh ctx = (sh', tr)" and "hm_get (entities sh) aid = None"
    and "filter (\<lambda>x. input_id x = aid) xs =
           InRequest tt m0 # map (\<lambda>(t, m). InRequest t m) ms @ InStarted aid (Inr r) #
           map (\<lambda>(t, m). InRequest t m) ms'"
    and "\<forall>m\<in>insert m0 (snd ` set (ms @ ms')). known mh m" and "er_recipe m0 = Some rcp"
  shows "acts_for aid tr =
           start_acts (persistent_entities sh) aid rcp @
           map (\<lambda>m. SpawnDirect r (to_buffer mh m)) (m0 # map snd ms @ map snd ms')"
proof -
  let ?P = "persistent_entities sh" and ?H = "shard_handler sh"
  let ?e = "\<lparr>entity_actor_id = aid, entity_recipe = rcp, entity_state = EntityStarting [to_buffer mh m0],
             last_request = tt\<rparr>"
  let ?es = "?e\<lparr>entity_state := EntityStarting [to_buffer mh m0]\<rparr>"
  have "InRequest tt m0 \<in> set (filter (\<lambda>x. input_id x = aid) xs)" unfolding assms(3) by simp
  then have aid: "er_actor_id m0 = aid" by simp
  obtain h where h: "mh (er_message_type m0) = Some h" using assms(4) by auto
  have first: "entity_step mh ?P ?H (InRequest tt m0) None = (Some ?es, start_acts ?P aid rcp)"
    using h assms(5) aid by simp
  have ms: "entity_run mh ?P ?H (map (\<lambda>(t, m). InRequest t m) ms) (Some ?es) =
      (Some (?e\<lparr>entity_state := EntityStarting ([to_buffer mh m0] @ map (\<lambda>(_, m). to_buffer mh m) ms)\<rparr>), [])"
    by (rule requests_while_starting) (use assms(4) in auto)
  have ms': "entity_run mh ?P ?H (map (\<lambda>(t, m). InRequest t m) ms') (Some (?e\<lparr>entity_state := EntityActive r\<rparr>)) =
      (Some (?e\<lparr>entity_state := EntityActive r\<rparr>), map (\<lambda>(_, m). SpawnDirect r (to_buffer mh m)) ms')"
    by (rule requests_while_active) (use assms(4) in auto)
  have "entity_run mh ?P ?H (filter (\<lambda>x. input_id x = aid) xs) None =
      (Some (?e\<lparr>entity_state := EntityActive r\<rparr>),
       start_acts ?P aid rcp @ map (SpawnDirect r) ([to_buffer mh m0] @ map (\<lambda>(_, m). to_buffer mh m) ms) @
       map (\<lambda>(_, m). SpawnDirect r (to_buffer mh m)) ms')"
    unfolding assms(3) using first ms ms' by (simp add: slot_run_append)
  with shard_refines_run [OF assms(1), of aid] assms(2) show ?thesis
    by (simp add: comp_def case_prod_unfold)
qed

text \<open>The tasks that hand requests to an entity's actor.\<close>

fun direct_task :: "shard_action \<Rightarrow> (actor_ref \<times> buffered_req) option" where
  "direct_task (SpawnDirect r b) = Some (r, b)"
| "direct_task _ = None"

lemma direct_tasks_sends: "List.map_filter direct_task (map (\<lambda>m. SpawnDirect r (f m)) ms) = map (\<lambda>m. (r, f m)) ms"
  by (induction ms) (simp_all add: map_filter_simps)

lemma direct_tasks_start: "List.map_filter direct_task (start_acts persistent aid rcp) = []"
  by (simp add: start_acts_def map_filter_simps)

text \<open>C24: No request for an entity is lost or doubled. When the first request for an absent entity carries a recipe,
  the entity is created once; the requests that arrive while it starts are buffered; the shard spawns one task per
  request, in the order of arrival, those that were buffered when the actor has started and before those that arrive
  later, and answers none with an error, whatever other entities do in between. However the tasks are interleaved with
  each other and with later messages of the shard, the entity's actor is handed every request exactly once, and no order
  is excluded: two requests may overtake each other.\<close>

theorem entity_requests_once:
  assumes "shard_run mh xs sh ctx = (sh', tr)" and "hm_get (entities sh) aid = None"
    and "filter (\<lambda>x. input_id x = aid) xs =
           InRequest tt m0 # map (\<lambda>(t, m). InRequest t m) ms @ InStarted aid (Inr r) #
           map (\<lambda>(t, m). InRequest t m) ms'"
    and "\<forall>m\<in>insert m0 (snd ` set (ms @ ms')). known mh m" and "er_recipe m0 = Some rcp"
  shows "acts_for aid tr =
           start_acts (persistent_entities sh) aid rcp @
           map (\<lambda>m. SpawnDirect r (to_buffer mh m)) (m0 # map snd ms @ map snd ms') \<and>
         (\<forall>handed. runs_tasks (task_batches direct_task (\<lambda>x. input_id x = aid) tr) {#} handed \<longleftrightarrow>
            mset handed = mset (map (\<lambda>m. (r, to_buffer mh m)) (m0 # map snd ms @ map snd ms')))"
proof -
  have acts: "acts_for aid tr = start_acts (persistent_entities sh) aid rcp @
      map (\<lambda>m. SpawnDirect r (to_buffer mh m)) (m0 # map snd ms @ map snd ms')"
    by (rule entity_requests_delivered [OF assms])
  then have "List.map_filter direct_task (acts_for aid tr) =
      map (\<lambda>m. (r, to_buffer mh m)) (m0 # map snd ms @ map snd ms')"
    by (simp only: map_filter_append direct_tasks_start direct_tasks_sends append_Nil)
  with acts show ?thesis by (simp add: tasks_of_trace acts_for_def)
qed

definition ex_req :: "bytes \<Rightarrow> entity_req" where
  "ex_req b = \<lparr>er_actor_id = ''e'', er_message_type = ''t'', er_message = b, er_recipe = Some [9],
               er_result_channel = Some 4\<rparr>"

definition ex_shard_ctx :: actor_context where
  "ex_shard_ctx = fst (actor_context_new None 0 Starting (start_actor ''t'' ''a'' ''p'' 0) NoTags)"

theorem entity_requests_once_witness:
  "\<exists>sh' tr. shard_run Some [InRequest 0 (ex_req [1]), InStart 0 ''other'' [], InRequest 0 (ex_req [2]),
        InStarted ''e'' (Inr (start_actor ''t'' ''e'' ''p'' 1)), InRequest 0 (ex_req [3])]
      (shard_new 1 ''h'' False) ex_shard_ctx = (sh', tr) \<and>
     acts_for ''e'' tr = CreateEntity ''e'' [9] False #
       map (\<lambda>m. SpawnDirect (start_actor ''t'' ''e'' ''p'' 1) (buffered ''t'' m))
         [ex_req [1], ex_req [2], ex_req [3]] \<and>
     runs_tasks (task_batches direct_task (\<lambda>x. input_id x = ''e'') tr) {#}
       (map (\<lambda>m. (start_actor ''t'' ''e'' ''p'' 1, buffered ''t'' m)) [ex_req [2], ex_req [1], ex_req [3]])"
proof -
  let ?xs = "[InRequest 0 (ex_req [1]), InStart 0 ''other'' [], InRequest 0 (ex_req [2]),
        InStarted ''e'' (Inr (start_actor ''t'' ''e'' ''p'' 1)), InRequest 0 (ex_req [3])]"
  obtain sh' tr where r: "shard_run Some ?xs (shard_new 1 ''h'' False) ex_shard_ctx = (sh', tr)"
    by (cases "shard_run Some ?xs (shard_new 1 ''h'' False) ex_shard_ctx")
  note once = entity_requests_once [OF r, of "''e''" 0 "ex_req [1]" "[(0, ex_req [2])]"
      "start_actor ''t'' ''e'' ''p'' 1" "[(0, ex_req [3])]" "[9]"]
  have "acts_for ''e'' tr = CreateEntity ''e'' [9] False #
      map (\<lambda>m. SpawnDirect (start_actor ''t'' ''e'' ''p'' 1) (buffered ''t'' m)) [ex_req [1], ex_req [2], ex_req [3]] \<and>
     runs_tasks (task_batches direct_task (\<lambda>x. input_id x = ''e'') tr) {#}
       (map (\<lambda>m. (start_actor ''t'' ''e'' ''p'' 1, buffered ''t'' m)) [ex_req [2], ex_req [1], ex_req [3]])"
    using once by (simp add: start_acts_def shard_new_def ex_req_def add_mset_commute)
  with r show ?thesis by blast
qed

text \<open>A failed start strands its requests: when the actor of a starting entity cannot be created, the
  shard does nothing: the entity stays in the starting state, and neither the requests already
  buffered nor any later request for it is ever delivered or answered with an error.\<close>

theorem failed_start_strands_requests:
  assumes "shard_run mh xs sh ctx = (sh', tr)"
    and "hm_get (entities sh) aid = Some e" and "entity_state e = EntityStarting buf"
    and "filter (\<lambda>x. input_id x = aid) xs = InStarted aid (Inl err) # map (\<lambda>(t, m). InRequest t m) ms"
    and "\<forall>m\<in>snd ` set ms. known mh m"
  shows "acts_for aid tr = [] \<and>
         hm_get (entities sh') aid =
           Some (e\<lparr>entity_state := EntityStarting (buf @ map (\<lambda>(_, m). to_buffer mh m) ms)\<rparr>)"
proof -
  have e: "e = e\<lparr>entity_state := EntityStarting buf\<rparr>" using assms(3) by simp
  have "entity_run mh (persistent_entities sh) (shard_handler sh) (map (\<lambda>(t, m). InRequest t m) ms) (Some e) =
      (Some (e\<lparr>entity_state := EntityStarting (buf @ map (\<lambda>(_, m). to_buffer mh m) ms)\<rparr>), [])"
    by (subst e) (rule requests_while_starting [OF assms(5)])
  with shard_refines_run [OF assms(1), of aid] assms(2,4) show ?thesis by simp
qed

theorem failed_start_strands_requests_witness:
  "\<exists>sh' tr. shard_run Some [InRequest 0 (ex_req [1]), InStarted ''e'' (Inl ActorUnavailable), InRequest 0 (ex_req [2])]
        (shard_new 1 ''h'' False) ex_shard_ctx = (sh', tr) \<and>
      acts_for ''e'' (tl tr) = []"
proof -
  let ?e = "\<lparr>entity_actor_id = ''e'', entity_recipe = [9],
             entity_state = EntityStarting [buffered ''t'' (ex_req [1])], last_request = 0\<rparr>"
  let ?sh = "(shard_new 1 ''h'' False)\<lparr>entities := [(''e'', ?e)]\<rparr>"
  have sh: "shard_step Some (InRequest 0 (ex_req [1])) (shard_new 1 ''h'' False) ex_shard_ctx =
      (?sh, ex_shard_ctx, [CreateEntity ''e'' [9] False])" and g: "hm_get (entities ?sh) ''e'' = Some ?e"
    by (simp_all add: handle_entity_request_def shard_new_def ex_req_def start_entity_def buffered_def
        entity_starting_def)
  obtain sh' tr where r: "shard_run Some [InStarted ''e'' (Inl ActorUnavailable), InRequest 0 (ex_req [2])]
      ?sh ex_shard_ctx = (sh', tr)"
    by (cases "shard_run Some [InStarted ''e'' (Inl ActorUnavailable), InRequest 0 (ex_req [2])] ?sh ex_shard_ctx")
  have a: "acts_for ''e'' tr = []"
    using failed_start_strands_requests [OF r g, where ms = "[(0, ex_req [2])]"] by (simp add: ex_req_def)
  have run: "shard_run Some [InRequest 0 (ex_req [1]), InStarted ''e'' (Inl ActorUnavailable),
      InRequest 0 (ex_req [2])] (shard_new 1 ''h'' False) ex_shard_ctx =
      (sh', (InRequest 0 (ex_req [1]), [CreateEntity ''e'' [9] False]) # tr)"
    by (subst shard_run.simps) (simp only: sh r prod.case Let_def)
  show ?thesis by (rule exI, rule exI, rule conjI, rule run) (simp add: a)
qed

section \<open>Recovery of a shard\<close>

text \<open>What the log of a shard says of an entity, newest event first: its recipe and whether it was
  passivated.\<close>

fun life :: "shard_event list \<Rightarrow> actor_id \<Rightarrow> (recipe \<times> bool) option" where
  "life [] aid = None"
| "life (StartEntity a r # evs) aid = (if a = aid then Some (r, False) else life evs aid)"
| "life (PassivateEntity a # evs) aid =
     (if a = aid then map_option (\<lambda>(r, _). (r, True)) (life evs aid) else life evs aid)"
| "life (RemoveEntity a # evs) aid = (if a = aid then None else life evs aid)"

definition shard_recovered :: "nat \<Rightarrow> shard_event list \<Rightarrow> shard \<Rightarrow> shard" where
  "shard_recovered now evs sh = foldl (\<lambda>sh e. recover_event now e sh) sh evs"

definition life_entity :: "nat \<Rightarrow> actor_id \<Rightarrow> recipe \<times> bool \<Rightarrow> entity" where
  "life_entity now aid rp =
     \<lparr>entity_actor_id = aid, entity_recipe = fst rp,
      entity_state = (if snd rp then EntityPassivated else EntityStarting []), last_request = now\<rparr>"

lemma recovered_entities:
  assumes "entities sh = []"
  shows "hm_wf (entities (shard_recovered now evs sh)) \<and>
         hm_get (entities (shard_recovered now evs sh)) =
           (\<lambda>aid. map_option (life_entity now aid) (life (rev evs) aid)) \<and>
         persistent_entities (shard_recovered now evs sh) = persistent_entities sh"
proof (induction evs rule: rev_induct)
  case Nil
  with assms show ?case by (simp add: shard_recovered_def)
next
  case (snoc e evs)
  then show ?case
    by (cases e)
       (auto simp: shard_recovered_def fun_eq_iff life_entity_def entity_starting_def option.map_comp comp_def
         intro!: option.map_cong)
qed

text \<open>C28: Recovery of a shard from its log: an entity is present exactly when it was started and not
  removed since; it is passivated when it was passivated after its last start; and after recovery the
  shard starts exactly the entities that were started and neither passivated nor removed since,
  each once, with the recipe of their last start, before it reports that it is ready.\<close>

theorem shard_recovery:
  fixes now :: nat and evs :: "shard_event list"
  assumes "entities sh = []"
  defines "sh' \<equiv> shard_recovered now evs sh"
  shows "(\<forall>aid. hm_get (entities sh') aid = map_option (life_entity now aid) (life (rev evs) aid)) \<and>
         (\<exists>started. shard_post_recovery sh' =
            map (\<lambda>(aid, rcp). CreateEntity aid rcp True) started @ [NotifyShardReady (shard_id sh')] \<and>
            distinct (map fst started) \<and>
            (\<forall>aid rcp. (aid, rcp) \<in> set started \<longleftrightarrow> life (rev evs) aid = Some (rcp, False)))"
proof -
  let ?m = "entities sh'"
  have wf: "hm_wf ?m" and get: "hm_get ?m = (\<lambda>aid. map_option (life_entity now aid) (life (rev evs) aid))"
    using recovered_entities [OF assms(1)] by (auto simp: sh'_def)
  let ?act = "filter (\<lambda>e. entity_is_starting (entity_state (snd e))) ?m"
  let ?st = "map (\<lambda>(aid, e). (aid, entity_recipe e)) ?act"
  have id: "entity_actor_id e = aid" if "(aid, e) \<in> set ?m" for aid e
    using that wf get by (auto simp: hm_get_in_set [symmetric] life_entity_def)
  have "recover_entities sh' = map (\<lambda>(aid, rcp). CreateEntity aid rcp True) ?st"
  proof -
    have "recover_entities sh' = map (\<lambda>p. CreateEntity (entity_actor_id (snd p)) (entity_recipe (snd p)) True) ?act"
      by (simp add: recover_entities_def get_active_entities_def start_entity_def entity_clone_def filter_map comp_def
          concat_map_singleton)
    also have "\<dots> = map (\<lambda>(aid, rcp). CreateEntity aid rcp True) ?st"
      using id by (auto intro!: map_cong)
    finally show ?thesis .
  qed
  then have post: "shard_post_recovery sh' =
      map (\<lambda>(aid, rcp). CreateEntity aid rcp True) ?st @ [NotifyShardReady (shard_id sh')]"
    by (auto simp: shard_post_recovery_def)
  have "map fst ?st = map fst ?act" by (auto intro!: map_cong)
  then have dist: "distinct (map fst ?st)" using wf by (simp only: distinct_map_filter)
  have "(aid, rcp) \<in> set ?st \<longleftrightarrow> life (rev evs) aid = Some (rcp, False)" for aid rcp
  proof -
    have "(aid, rcp) \<in> set ?st \<longleftrightarrow>
        (\<exists>e. hm_get ?m aid = Some e \<and> entity_is_starting (entity_state e) \<and> entity_recipe e = rcp)"
      using wf by (auto simp: hm_get_in_set image_iff)
    also have "\<dots> \<longleftrightarrow> life (rev evs) aid = Some (rcp, False)"
      by (cases "life (rev evs) aid") (auto simp: get life_entity_def entity_is_starting_def)
    finally show ?thesis .
  qed
  then show ?thesis
    by (intro conjI exI [of _ ?st] allI) (simp only: get, rule post, rule dist)
qed

theorem shard_recovery_witness:
  "\<exists>started. shard_post_recovery (shard_recovered 0 [StartEntity ''a'' [1], StartEntity ''b'' [2], PassivateEntity ''b'']
       (shard_new 1 ''h'' True)) =
     map (\<lambda>(aid, rcp). CreateEntity aid rcp True) started @ [NotifyShardReady 1] \<and> set started = {(''a'', [1])}"
proof -
  let ?evs = "[StartEntity ''a'' [1], StartEntity ''b'' [2], PassivateEntity ''b'']"
  have "entities (shard_new 1 ''h'' True) = []" by (simp add: shard_new_def)
  from shard_recovery [OF this, of 0 ?evs] obtain st where
    "shard_post_recovery (shard_recovered 0 ?evs (shard_new 1 ''h'' True)) =
       map (\<lambda>(aid, rcp). CreateEntity aid rcp True) st @
         [NotifyShardReady (shard_id (shard_recovered 0 ?evs (shard_new 1 ''h'' True)))]"
    "\<forall>aid rcp. (aid, rcp) \<in> set st \<longleftrightarrow> life (rev ?evs) aid = Some (rcp, False)" by blast
  note st = this
  have "shard_id (shard_recovered 0 ?evs (shard_new 1 ''h'' True)) = 1"
    by (simp add: shard_recovered_def shard_new_def)
  moreover have "x \<in> set st \<longleftrightarrow> x = (''a'', [1])" for x
    by (cases x, simp only: st(2)) auto
  ultimately have "shard_post_recovery (shard_recovered 0 ?evs (shard_new 1 ''h'' True)) =
       map (\<lambda>(aid, rcp). CreateEntity aid rcp True) st @ [NotifyShardReady 1] \<and> set st = {(''a'', [1])}"
    using st(1) by (simp add: set_eq_iff)
  then show ?thesis by blast
qed

text \<open>C31: A snapshot of a shard forgets what its entities were doing: every entity, starting, active or
  passivated, comes back idle (cloning an entity resets its state before it is written), so the
  recovered shard starts none of them, and every request for one of them is refused with
  \<open>ActorUnavailable\<close> instead of starting it.\<close>

theorem snapshot_makes_entities_unavailable:
  assumes "proto_roundtrip w p" and "hm_wf (entities sh)"
    and "\<forall>aid e. hm_get (entities sh) aid = Some e \<longrightarrow> entity_actor_id e = aid"
    and "snapshot_into_remote_envelope w (save_snapshot node sh) = Inr (EnvRemote b)"
  shows "\<exists>snap. snapshot_from_remote_envelope p now b = Inr (Inr snap) \<and>
           (let sh' = recover_shard_snapshot snap (shard_new sid handler persistent) in
            (\<forall>aid. hm_get (entities sh') aid =
               map_option (\<lambda>e. e\<lparr>entity_state := EntityIdle, last_request := now\<rparr>) (hm_get (entities sh) aid)) \<and>
            shard_post_recovery sh' = [NotifyShardReady sid] \<and>
            (\<forall>mh t m. hm_get (entities sh) (er_actor_id m) \<noteq> None \<and> known mh m \<longrightarrow>
               snd (handle_entity_request mh t m sh') = reply_err (er_result_channel m) ActorUnavailable))"
proof -
  let ?es = "map (\<lambda>(aid, e). (aid, e\<lparr>entity_state := EntityIdle, last_request := now\<rparr>)) (entities sh)"
  let ?snap = "\<lparr>snap_shard_id = shard_id sh, snap_node_id = node, snap_entities = map snd ?es\<rparr>"
  have "entities_from_proto now (map entity_to_proto (map entity_clone (map snd es))) =
      Inr (map snd (map (\<lambda>(aid, e). (aid, e\<lparr>entity_state := EntityIdle, last_request := now\<rparr>)) es))" for es :: "(actor_id \<times> entity) list"
    by (induction es) (auto simp: entity_from_proto_def entity_to_proto_def entity_clone_def)
  then have enc: "entities_from_proto now (map entity_to_proto (map entity_clone (hm_values (entities sh)))) = Inr (map snd ?es)" .
  obtain pr where pr: "w pr = Inr b"
    "pr = \<lparr>ps_shard_id = shard_id sh, ps_node_id = node,
           ps_entities = map entity_to_proto (map entity_clone (hm_values (entities sh)))\<rparr>"
    using assms(4) by (auto simp: snapshot_into_remote_envelope_def save_snapshot_def split: sum.splits)
  then have dec: "snapshot_from_remote_envelope p now b = Inr (Inr ?snap)"
    using proto_roundtripD [OF assms(1) pr(1)] enc by (simp add: snapshot_from_remote_envelope_def)
  let ?sh = "recover_shard_snapshot ?snap (shard_new sid handler persistent)"
  have "entity_actor_id e = aid" if "(aid, e) \<in> set (entities sh)" for aid e
    using assms(3) that unfolding hm_get_in_set [OF assms(2)] by blast
  then have "map (\<lambda>e. (entity_actor_id e, e)) (map snd ?es) = ?es"
    by (auto intro!: map_idI)
  then have "fold (\<lambda>e. hm_insert (entity_actor_id e) e) (map snd ?es) [] = fold (\<lambda>(k, v). hm_insert k v) ?es []"
    by (simp only: fold_insert_keyed)
  then have ent: "entities ?sh = fold (\<lambda>(k, v). hm_insert k v) ?es []"
    by (simp add: recover_shard_snapshot_def)
  have get: "hm_get (entities ?sh) aid =
      map_option (\<lambda>e. e\<lparr>entity_state := EntityIdle, last_request := now\<rparr>) (hm_get (entities sh) aid)" for aid
  proof -
    have "hm_wf ?es" using assms(2) by (simp add: comp_def case_prod_unfold)
    then have "map_of (rev ?es) = map_of ?es"
      by (subst map_of_inject_set) (simp_all only: rev_map [symmetric] distinct_rev set_rev)
    then show ?thesis unfolding ent by (simp add: hm.get_fold_ins map_of_map option.case_eq_if)
  qed
  have "\<not> entity_is_starting (entity_state e)" if "(aid, e) \<in> set (entities ?sh)" for aid e
  proof -
    have "hm_wf (entities ?sh)" unfolding ent by (rule hm.wf_fold_ins) simp
    then have "hm_get (entities ?sh) aid = Some e" using that by (simp add: hm_get_in_set)
    then show ?thesis unfolding get by (auto simp: entity_is_starting_def)
  qed
  then have "get_active_entities ?sh = []"
    by (auto simp: get_active_entities_def filter_empty_conv)
  then have "shard_post_recovery ?sh = [NotifyShardReady sid]"
    by (simp add: shard_post_recovery_def recover_entities_def recover_shard_snapshot_def shard_new_def)
  moreover have "snd (handle_entity_request mh t m ?sh) = reply_err (er_result_channel m) ActorUnavailable"
    if "hm_get (entities sh) (er_actor_id m) \<noteq> None" and "known mh m" for mh t m
    using that get by (auto simp: handle_entity_request_def entity_request_def)
  ultimately show ?thesis using dec get by (auto simp: Let_def)
qed

definition ex_active_shard :: shard where
  "ex_active_shard = (shard_new 1 ''h'' True)\<lparr>entities :=
     [(''e'', \<lparr>entity_actor_id = ''e'', entity_recipe = [9],
               entity_state = EntityActive (start_actor ''t'' ''e'' ''p'' 1), last_request = 3\<rparr>)]\<rparr>"

definition ex_snapshot_write :: "proto_snapshot \<Rightarrow> unit + bytes" where
  "ex_snapshot_write s =
     (if s = \<lparr>ps_shard_id = 1, ps_node_id = 2, ps_entities = [\<lparr>pe_actor_id = ''e'', pe_recipe = [9], pe_state = Some ProtoIdle\<rparr>]\<rparr>
      then Inr [7] else Inl ())"

definition ex_snapshot_parse :: "bytes \<Rightarrow> unit + proto_snapshot" where
  "ex_snapshot_parse b =
     Inr \<lparr>ps_shard_id = 1, ps_node_id = 2, ps_entities = [\<lparr>pe_actor_id = ''e'', pe_recipe = [9], pe_state = Some ProtoIdle\<rparr>]\<rparr>"

theorem snapshot_makes_entities_unavailable_witness:
  "\<exists>snap. snapshot_from_remote_envelope ex_snapshot_parse 5 [7] = Inr (Inr snap) \<and>
     shard_post_recovery (recover_shard_snapshot snap (shard_new 1 ''h'' True)) = [NotifyShardReady 1] \<and>
     snd (handle_entity_request Some 6 (ex_req [1]) (recover_shard_snapshot snap (shard_new 1 ''h'' True))) =
       [ReplyErr 4 ActorUnavailable]"
proof -
  have rt: "proto_roundtrip ex_snapshot_write ex_snapshot_parse"
    by (simp add: proto_roundtrip_def ex_snapshot_write_def ex_snapshot_parse_def)
  have wf: "hm_wf (entities ex_active_shard)"
    "\<forall>aid e. hm_get (entities ex_active_shard) aid = Some e \<longrightarrow> entity_actor_id e = aid"
    by (auto simp: ex_active_shard_def split: if_splits)
  have enc: "snapshot_into_remote_envelope ex_snapshot_write (save_snapshot 2 ex_active_shard) = Inr (EnvRemote [7])"
    by (simp add: snapshot_into_remote_envelope_def save_snapshot_def ex_active_shard_def shard_new_def
        ex_snapshot_write_def entity_to_proto_def entity_clone_def)
  have "hm_get (entities ex_active_shard) (er_actor_id (ex_req [1])) \<noteq> None" "known Some (ex_req [1])"
    "reply_err (er_result_channel (ex_req [1])) ActorUnavailable = [ReplyErr 4 ActorUnavailable]"
    by (simp_all add: ex_active_shard_def ex_req_def reply_err_def)
  with snapshot_makes_entities_unavailable [OF rt wf enc, of 5 1 "''h''" True] show ?thesis
    unfolding Let_def by metis
qed

end
