(* ===== verification/Shard_Host.thy ===== *)
theory Shard_Host
  imports Shard_Coordinator Shard_Entities
begin

text \<open>
  The shard host of a node: \<open>sharding/host/mod.rs\<close>, \<open>sharding/host/request.rs\<close> and
  \<open>sharding/host/stats.rs\<close>. A host routes each request to a local shard, to the node that holds the
  shard, or keeps it until the coordinator has allocated the shard.

  A handler returns the new state and the tasks it spawns. The shard allocator is a user's trait object
  that may keep state: it is the argument \<open>alloc\<close>, and the state is a field of the host. \<open>mb\<close> is the
  fresh mailbox of an actor the host starts.
\<close>

section \<open>State\<close>

record stop_requested =
  sr_origin_node_id :: node_id
  sr_request_id :: uuid

datatype shard_state =
    ShardStarting actor_ref "entity_req list" "stop_requested option"
  | ShardReady actor_ref
  | ShardStopping

definition shard_actor_ref :: "shard_state \<Rightarrow> actor_ref option" where
  "shard_actor_ref st =
     (case st of ShardReady r \<Rightarrow> Some r | ShardStarting r _ _ \<Rightarrow> Some r | ShardStopping \<Rightarrow> None)"

record remote_shard_ref =
  rs_actor_id :: actor_id
  rs_node_id :: node_id

record 'al shard_host =
  sh_entity :: string
  sh_actor_handler :: type_name
  hosted_shards :: "(shard_id, shard_state) hash_map"
  remote_shards :: "(shard_id, remote_shard_ref) hash_map"
  requests_pending :: "(shard_id, entity_req list) hash_map"
  sh_allocator :: 'al
  sh_coordinator :: "unit option"

definition shard_host_new :: "'al \<Rightarrow> string \<Rightarrow> type_name \<Rightarrow> 'al option \<Rightarrow> 'al shard_host" where
  "shard_host_new default_allocator entity handler al =
     \<lparr>sh_entity = entity, sh_actor_handler = handler, hosted_shards = [], remote_shards = [],
      requests_pending = [], sh_allocator = (case al of None \<Rightarrow> default_allocator | Some a \<Rightarrow> a),
      sh_coordinator = None\<rparr>"

definition shard_host_actor_id :: "string \<Rightarrow> node_id \<Rightarrow> actor_id" where
  "shard_host_actor_id entity node = ''shard-host-'' @ entity @ ''-'' @ show_nat (unat node)"

definition shard_actor_id :: "string \<Rightarrow> shard_id \<Rightarrow> actor_id" where
  "shard_actor_id entity sid = entity @ ''-Shard-'' @ show_nat (unat sid)"

definition handle_init :: "'al shard_host \<Rightarrow> 'al shard_host" where
  "handle_init h = h\<lparr>sh_coordinator := Some ()\<rparr>"

definition get_coordinator :: "'al shard_host \<Rightarrow> unit may_panic" where
  "get_coordinator h =
     (case sh_coordinator h of
        Some c \<Rightarrow> Inr c
      | None \<Rightarrow> Inl (Panic ''coordinator singleton reference''))"

datatype host_action =
    SpawnSend actor_ref entity_req
  | SpawnRemoteRequest remote_shard_ref entity_req
  | SpawnAllocate shard_id
  | SpawnShard actor_ref shard_id
  | NotifyStop actor_ref
  | SpawnStop shard_id actor_ref "stop_requested option"

section \<open>Requests\<close>

text \<open>A request for a ready shard is handed to a task of its own (\<open>SpawnSend\<close>). The actions of a handler are listed in
  the order in which the tasks are spawned; the tasks themselves run in any order.\<close>

definition handle_request :: "entity_req \<Rightarrow> shard_state \<Rightarrow> shard_state \<times> host_action list" where
  "handle_request m st =
     (case st of
        ShardStarting r buf stop \<Rightarrow> (ShardStarting r (buf @ [m]) stop, [])
      | ShardReady r \<Rightarrow> (st, [SpawnSend r m])
      | ShardStopping \<Rightarrow> (st, []))"

fun handle_requests :: "entity_req list \<Rightarrow> shard_state \<Rightarrow> shard_state \<times> host_action list" where
  "handle_requests [] st = (st, [])"
| "handle_requests (m # ms) st =
     (let (st1, as1) = handle_request m st; (st2, as2) = handle_requests ms st1 in (st2, as1 @ as2))"

definition handle_host_request ::
  "('al \<Rightarrow> actor_id \<Rightarrow> shard_id \<times> 'al) \<Rightarrow> entity_req \<Rightarrow> 'al shard_host \<Rightarrow>
   ('al shard_host \<times> host_action list) may_panic" where
  "handle_host_request alloc m h =
     (let (sid, al) = alloc (sh_allocator h) (er_actor_id m);
          h1 = h\<lparr>sh_allocator := al\<rparr>
      in case hm_get (hosted_shards h1) sid of
           Some st \<Rightarrow>
             (let (st', acts) = handle_request m st
              in Inr (h1\<lparr>hosted_shards := hm_insert sid st' (hosted_shards h1)\<rparr>, acts))
         | None \<Rightarrow>
             (case hm_get (remote_shards h1) sid of
                Some r \<Rightarrow> Inr (h1, [SpawnRemoteRequest r m])
              | None \<Rightarrow>
                  (case get_coordinator h1 of
                     Inl p \<Rightarrow> Inl p
                   | Inr _ \<Rightarrow>
                       (let buf = (case hm_get (requests_pending h1) sid of Some b \<Rightarrow> b | None \<Rightarrow> [])
                        in Inr (h1\<lparr>requests_pending := hm_insert sid (buf @ [m]) (requests_pending h1)\<rparr>,
                                [SpawnAllocate sid])))))"

text \<open>The task that asks the coordinator: what it notifies the host of.\<close>

definition allocation_task :: "actor_ref_err + allocate_shard_result \<Rightarrow> (shard_id \<times> node_id) option" where
  "allocation_task reply =
     (case reply of
        Inr (Allocated sid nid) \<Rightarrow> Some (sid, nid)
      | Inr (AlreadyAllocated sid nid) \<Rightarrow> Some (sid, nid)
      | _ \<Rightarrow> None)"

text \<open>
  The task that forwards a request to another node: the message it notifies the remote shard of, and
  what follows once the pending reply of that request id has come or its channel was dropped.
\<close>

definition remote_request :: "node_id \<Rightarrow> uuid \<Rightarrow> entity_req \<Rightarrow> remote_entity_req" where
  "remote_request self_node request_id m =
     \<lparr>rer_request_id = request_id, rer_actor_id = er_actor_id m, rer_message_type = er_message_type m,
      rer_message = er_message m, rer_recipe = er_recipe m, rer_origin_node = self_node\<rparr>"

definition remote_request_outcome ::
  "actor_ref_err + unit \<Rightarrow> (actor_ref_err + bytes) option \<Rightarrow> entity_req \<Rightarrow>
   ((sender \<times> (actor_ref_err + bytes)) list \<times> (actor_ref_err + unit)) may_panic" where
  "remote_request_outcome notified rx m =
     (case notified of
        Inl _ \<Rightarrow> Inl (Panic ''shard notify'')
      | Inr _ \<Rightarrow>
          (case rx of
             Some response \<Rightarrow>
               Inr (case er_result_channel m of Some tx \<Rightarrow> [(tx, response)] | None \<Rightarrow> [], Inr ())
           | None \<Rightarrow> Inr ([], Inl ResultChannelClosed)))"

section \<open>Allocation, start and stop of shards\<close>

fun handle_host_requests ::
  "('al \<Rightarrow> actor_id \<Rightarrow> shard_id \<times> 'al) \<Rightarrow> entity_req list \<Rightarrow> 'al shard_host \<Rightarrow>
   ('al shard_host \<times> host_action list) may_panic" where
  "handle_host_requests alloc [] h = Inr (h, [])"
| "handle_host_requests alloc (m # ms) h =
     (case handle_host_request alloc m h of
        Inl p \<Rightarrow> Inl p
      | Inr (h1, as1) \<Rightarrow>
          (case handle_host_requests alloc ms h1 of
             Inl p \<Rightarrow> Inl p
           | Inr (h2, as2) \<Rightarrow> Inr (h2, as1 @ as2)))"

record host_env =
  env_node_id :: node_id
  env_system_name :: string
  env_shard_type :: type_name

definition allocated_here ::
  "host_env \<Rightarrow> mailbox_id \<Rightarrow> shard_id \<Rightarrow> 'al shard_host \<Rightarrow> actor_context \<Rightarrow>
   'al shard_host \<times> actor_context \<times> host_action list" where
  "allocated_here env mb sid h ctx =
     (let h1 = h\<lparr>remote_shards := hm_remove sid (remote_shards h)\<rparr>
      in case hm_get (hosted_shards h1) sid of
           Some _ \<Rightarrow> (h1, ctx, [])
         | None \<Rightarrow>
             (let r = start_actor (env_shard_type env) (shard_actor_id (sh_entity h) sid)
                        (env_system_name env) mb
              in (h1\<lparr>hosted_shards := hm_insert sid (ShardStarting r [] None) (hosted_shards h1)\<rparr>,
                  ctx_attach_child_ref r ctx, [SpawnShard r sid])))"

definition allocated_elsewhere ::
  "shard_id \<Rightarrow> node_id \<Rightarrow> 'al shard_host \<Rightarrow> 'al shard_host \<times> host_action list" where
  "allocated_elsewhere sid nid h =
     (let stop = (case hm_get (hosted_shards h) sid of
                    Some st \<Rightarrow> (case shard_actor_ref st of Some r \<Rightarrow> [NotifyStop r] | None \<Rightarrow> [])
                  | None \<Rightarrow> [])
      in (h\<lparr>hosted_shards := hm_remove sid (hosted_shards h),
            remote_shards := hm_insert sid
              \<lparr>rs_actor_id = shard_actor_id (sh_entity h) sid, rs_node_id = nid\<rparr> (remote_shards h)\<rparr>,
          stop))"

definition handle_shard_allocated ::
  "host_env \<Rightarrow> ('al \<Rightarrow> actor_id \<Rightarrow> shard_id \<times> 'al) \<Rightarrow> mailbox_id \<Rightarrow> shard_id \<Rightarrow> node_id \<Rightarrow>
   'al shard_host \<Rightarrow> actor_context \<Rightarrow> ('al shard_host \<times> actor_context \<times> host_action list) may_panic" where
  "handle_shard_allocated env alloc mb sid nid h ctx =
     (let (h1, ctx1, as1) =
            (if nid = env_node_id env then allocated_here env mb sid h ctx
             else let (h', acts) = allocated_elsewhere sid nid h in (h', ctx, acts))
      in case hm_get (requests_pending h1) sid of
           None \<Rightarrow> Inr (h1, ctx1, as1)
         | Some reqs \<Rightarrow>
             (case handle_host_requests alloc reqs
                     (h1\<lparr>requests_pending := hm_remove sid (requests_pending h1)\<rparr>) of
                Inl p \<Rightarrow> Inl p
              | Inr (h2, as2) \<Rightarrow> Inr (h2, ctx1, as1 @ as2)))"

definition handle_shard_ready ::
  "shard_id \<Rightarrow> actor_ref \<Rightarrow> 'al shard_host \<Rightarrow> actor_context \<Rightarrow>
   'al shard_host \<times> actor_context \<times> host_action list" where
  "handle_shard_ready sid r h ctx =
     (h\<lparr>hosted_shards := hm_insert sid (ShardReady r) (hosted_shards h)\<rparr>,
      ctx_attach_child_ref r ctx,
      (case hm_get (hosted_shards h) sid of
         Some (ShardStarting _ buf (Some stop)) \<Rightarrow> [SpawnStop sid r (Some stop)]
       | Some (ShardStarting _ buf None) \<Rightarrow> snd (handle_requests buf (ShardReady r))
       | _ \<Rightarrow> []))"

definition handle_shard_reallocating :: "shard_id \<Rightarrow> 'al shard_host \<Rightarrow> 'al shard_host" where
  "handle_shard_reallocating sid h = h\<lparr>remote_shards := hm_remove sid (remote_shards h)\<rparr>"

text \<open>
  In the starting case the handler assigns the stop request to a local variable it has moved out of
  the replaced state, so nothing remains of it.
\<close>

definition handle_stop_shard :: "stop_shard \<Rightarrow> 'al shard_host \<Rightarrow> 'al shard_host \<times> host_action list" where
  "handle_stop_shard m h =
     (let sid = stop_shard_id m;
          stop = \<lparr>sr_origin_node_id = stop_origin_node_id m, sr_request_id = stop_request_id m\<rparr>
      in case hm_get (hosted_shards h) sid of
           None \<Rightarrow> (h, [])
         | Some previous \<Rightarrow>
             (h\<lparr>hosted_shards := hm_insert sid ShardStopping (hosted_shards h)\<rparr>,
              case previous of
                ShardStarting _ _ _ \<Rightarrow> []
              | ShardReady r \<Rightarrow> [SpawnStop sid r (Some stop)]
              | ShardStopping \<Rightarrow> []))"

record shard_stopped =
  stopped_shard_id :: shard_id
  stopped_successfully :: bool

definition handle_shard_stopped :: "shard_stopped \<Rightarrow> 'al shard_host \<Rightarrow> 'al shard_host" where
  "handle_shard_stopped m h = h\<lparr>hosted_shards := hm_remove (stopped_shard_id m) (hosted_shards h)\<rparr>"

section \<open>Messages on the wire\<close>

record proto_remote_shard =
  prs_shard_id :: shard_id
  prs_node_id :: node_id

record proto_stop_shard =
  pstop_shard_id :: shard_id
  pstop_request_id :: string
  pstop_origin_node_id :: node_id

record proto_shard_stopped =
  pss_shard_id :: shard_id
  pss_is_successful :: bool

record proto_remote_entity_request =
  prer_request_id :: string
  prer_actor_id :: string
  prer_message_type :: string
  prer_message :: bytes
  prer_recipe :: "bytes option"
  prer_origin_node :: node_id

definition unwrap_none :: panic where
  "unwrap_none = Panic ''called unwrap on a None value''"

definition unwrap_err :: panic where
  "unwrap_err = Panic ''called unwrap on an Err value''"

text \<open>The generated message \<open>ShardAllocated\<close> has one optional field.\<close>

definition shard_allocated_as_bytes ::
  "(proto_remote_shard option \<Rightarrow> 'err + bytes) \<Rightarrow> shard_id \<times> node_id \<Rightarrow> message_wrap_err + bytes" where
  "shard_allocated_as_bytes w = (\<lambda>(sid, nid). to_bytes w (Some \<lparr>prs_shard_id = sid, prs_node_id = nid\<rparr>))"

definition shard_allocated_from_bytes ::
  "(bytes \<Rightarrow> 'err + proto_remote_shard option) \<Rightarrow> bytes \<Rightarrow>
   (message_unwrap_err + shard_id \<times> node_id) may_panic" where
  "shard_allocated_from_bytes p b =
     (case parse_bytes p b of
        Inl e \<Rightarrow> Inr (Inl e)
      | Inr None \<Rightarrow> Inl unwrap_none
      | Inr (Some s) \<Rightarrow> Inr (Inr (prs_shard_id s, prs_node_id s)))"

text \<open>\<open>uuid_show\<close> and \<open>uuid_parse\<close> are the printer and parser of the \<open>uuid\<close> crate.\<close>

definition stop_shard_as_bytes ::
  "(proto_stop_shard \<Rightarrow> 'err + bytes) \<Rightarrow> (uuid \<Rightarrow> string) \<Rightarrow> stop_shard \<Rightarrow> message_wrap_err + bytes" where
  "stop_shard_as_bytes w uuid_show m =
     to_bytes w \<lparr>pstop_shard_id = stop_shard_id m, pstop_request_id = uuid_show (stop_request_id m),
                 pstop_origin_node_id = stop_origin_node_id m\<rparr>"

definition stop_shard_from_bytes ::
  "(bytes \<Rightarrow> 'err + proto_stop_shard) \<Rightarrow> (string \<Rightarrow> uuid option) \<Rightarrow> bytes \<Rightarrow>
   (message_unwrap_err + stop_shard) may_panic" where
  "stop_shard_from_bytes p uuid_parse b =
     (case parse_bytes p b of
        Inl e \<Rightarrow> Inr (Inl e)
      | Inr r \<Rightarrow>
          (case uuid_parse (pstop_request_id r) of
             None \<Rightarrow> Inl unwrap_err
           | Some u \<Rightarrow> Inr (Inr \<lparr>stop_shard_id = pstop_shard_id r, stop_request_id = u,
                               stop_origin_node_id = pstop_origin_node_id r\<rparr>)))"

text \<open>A reallocation is written as its own message and read with the parser of \<open>StopShard\<close>.\<close>

definition shard_reallocating_as_bytes :: "(shard_id \<Rightarrow> 'err + bytes) \<Rightarrow> shard_id \<Rightarrow> message_wrap_err + bytes" where
  "shard_reallocating_as_bytes w sid = to_bytes w sid"

definition shard_reallocating_from_bytes ::
  "(bytes \<Rightarrow> 'err + proto_stop_shard) \<Rightarrow> bytes \<Rightarrow> message_unwrap_err + shard_id" where
  "shard_reallocating_from_bytes p b = map_sum id pstop_shard_id (parse_bytes p b)"

definition shard_stopped_message ::
  "(proto_shard_stopped \<Rightarrow> 'err + bytes) \<Rightarrow> (bytes \<Rightarrow> 'err + proto_shard_stopped) \<Rightarrow>
   (shard_stopped, unit) message_impl" where
  "shard_stopped_message w p =
     \<lparr>as_bytes = (\<lambda>m. to_bytes w \<lparr>pss_shard_id = stopped_shard_id m, pss_is_successful = stopped_successfully m\<rparr>),
      from_bytes = (\<lambda>b. map_sum id (\<lambda>r. \<lparr>stopped_shard_id = pss_shard_id r,
                                         stopped_successfully = pss_is_successful r\<rparr>) (parse_bytes p b)),
      read_remote_result = (\<lambda>_. Inr ()),
      write_remote_result = (\<lambda>_. Inr [])\<rparr>"

definition remote_entity_request_as_bytes ::
  "(proto_remote_entity_request \<Rightarrow> 'err + bytes) \<Rightarrow> (uuid \<Rightarrow> string) \<Rightarrow> remote_entity_req \<Rightarrow>
   message_wrap_err + bytes" where
  "remote_entity_request_as_bytes w uuid_show m =
     to_bytes w \<lparr>prer_request_id = uuid_show (rer_request_id m), prer_actor_id = rer_actor_id m,
                 prer_message_type = rer_message_type m, prer_message = rer_message m,
                 prer_recipe = rer_recipe m, prer_origin_node = rer_origin_node m\<rparr>"

definition remote_entity_request_from_bytes ::
  "(bytes \<Rightarrow> 'err + proto_remote_entity_request) \<Rightarrow> (string \<Rightarrow> uuid option) \<Rightarrow> bytes \<Rightarrow>
   (message_unwrap_err + remote_entity_req) may_panic" where
  "remote_entity_request_from_bytes p uuid_parse b =
     (case parse_bytes p b of
        Inl e \<Rightarrow> Inr (Inl e)
      | Inr r \<Rightarrow>
          (case uuid_parse (prer_request_id r) of
             None \<Rightarrow> Inl unwrap_err
           | Some u \<Rightarrow> Inr (Inr
               \<lparr>rer_request_id = u, rer_actor_id = prer_actor_id r, rer_message_type = prer_message_type r,
                rer_message = prer_message r, rer_recipe = prer_recipe r,
                rer_origin_node = prer_origin_node r\<rparr>)))"

text \<open>
  The task of \<open>stop_shard\<close>: with the result of stopping the shard's actor, the message the host gets and
  the raw reply to the node that asked.
\<close>

definition stop_shard_task ::
  "(shard_stopped, unit) message_impl \<Rightarrow> shard_id \<Rightarrow> bool \<Rightarrow> stop_requested option \<Rightarrow>
   shard_stopped \<times> (rpc_reply option) may_panic" where
  "stop_shard_task M sid stopped_ok stop =
     (let m = \<lparr>stopped_shard_id = sid, stopped_successfully = stopped_ok\<rparr>
      in (m,
          case stop of
            None \<Rightarrow> Inr None
          | Some s \<Rightarrow>
              (case into_envelope M m TypeRemote of
                 Inl _ \<Rightarrow> Inl unwrap_err
               | Inr env \<Rightarrow>
                   map_sum id (\<lambda>b. Some (RpcResult (sr_request_id s) b (sr_origin_node_id s)))
                     (envelope_into_bytes env))))"

section \<open>Statistics\<close>

record host_stats =
  hs_requests_pending_count :: nat
  hs_hosted_shard_count :: nat
  hs_remote_shard_count :: nat
  hs_hosted_shards :: "(shard_id, shard_stats) hash_map"
  hs_remote_shards :: "(shard_id \<times> node_id) list"

text \<open>\<open>ask\<close> is the answer of a shard's actor to \<open>GetShardStats\<close>.\<close>

definition get_host_stats ::
  "(actor_ref \<Rightarrow> actor_ref_err + shard_stats) \<Rightarrow> 'al shard_host \<Rightarrow> host_stats" where
  "get_host_stats ask h =
     (let actors = List.map_filter (\<lambda>(_, st). shard_actor_ref st) (hosted_shards h);
          answers = List.map_filter (\<lambda>r. case ask r of Inr s \<Rightarrow> Some s | Inl _ \<Rightarrow> None) actors
      in \<lparr>hs_requests_pending_count = length (requests_pending h),
          hs_hosted_shard_count = length (hosted_shards h),
          hs_remote_shard_count = length (remote_shards h),
          hs_hosted_shards = collect_map (map (\<lambda>s. (sst_shard_id s, s)) answers),
          hs_remote_shards = map (\<lambda>(sid, r). (sid, rs_node_id r)) (remote_shards h)\<rparr>)"

section \<open>The client side\<close>

text \<open>
  \<open>Sharding::get\<close> and \<open>Sharded::send\<close> of \<open>sharding/mod.rs\<close>. \<open>handler_name\<close> is the name under which the
  system's configuration knows the message type, and \<open>rx\<close> what the result channel yields.
\<close>

record sharded =
  sharded_actor_id :: actor_id
  sharded_recipe :: "recipe option"

definition sharding_get :: "('rcp \<Rightarrow> bytes option) \<Rightarrow> actor_id \<Rightarrow> 'rcp option \<Rightarrow> sharded" where
  "sharding_get recipe_write aid rcp =
     \<lparr>sharded_actor_id = aid, sharded_recipe = Option.bind rcp recipe_write\<rparr>"

definition sharded_request ::
  "('m, 'r) message_impl \<Rightarrow> string option \<Rightarrow> type_name \<Rightarrow> type_name \<Rightarrow> sharded \<Rightarrow> sender \<Rightarrow> 'm \<Rightarrow>
   actor_ref_err + entity_req" where
  "sharded_request M handler_name message_type actor_type sd tx m =
     (case as_bytes M m of
        Inl e \<Rightarrow> Inl (Serialisation e)
      | Inr b \<Rightarrow>
          (case handler_name of
             None \<Rightarrow> Inl (NotSupported (sharded_actor_id sd) message_type actor_type)
           | Some n \<Rightarrow>
               Inr \<lparr>er_actor_id = sharded_actor_id sd, er_message_type = n, er_message = b,
                    er_recipe = sharded_recipe sd, er_result_channel = Some tx\<rparr>))"

definition sharded_result ::
  "('m, 'r) message_impl \<Rightarrow> (actor_ref_err + bytes) option \<Rightarrow> actor_ref_err + 'r" where
  "sharded_result M rx =
     (case rx of
        None \<Rightarrow> Inl ResultChannelClosed
      | Some (Inl e) \<Rightarrow> Inl e
      | Some (Inr b) \<Rightarrow>
          (case read_remote_result M b of Inl e \<Rightarrow> Inl (Deserialisation e) | Inr r \<Rightarrow> Inr r))"

section \<open>Each shard is a machine of its own\<close>

text \<open>The messages of a host that concern shards.\<close>

datatype host_input =
    HostRequest entity_req
  | HostAllocated mailbox_id shard_id node_id
  | HostShardReady shard_id actor_ref
  | HostReallocating shard_id
  | HostStopShard stop_shard
  | HostShardStopped shard_stopped

fun host_step ::
  "host_env \<Rightarrow> ('al \<Rightarrow> actor_id \<Rightarrow> shard_id \<times> 'al) \<Rightarrow> host_input \<Rightarrow> 'al shard_host \<times> actor_context \<Rightarrow>
   (('al shard_host \<times> actor_context) \<times> host_action list) may_panic" where
  "host_step env alloc (HostRequest m) (h, ctx) =
     map_sum id (\<lambda>(h', acts). ((h', ctx), acts)) (handle_host_request alloc m h)"
| "host_step env alloc (HostAllocated mb sid nid) (h, ctx) =
     map_sum id (\<lambda>(h', ctx', acts). ((h', ctx'), acts)) (handle_shard_allocated env alloc mb sid nid h ctx)"
| "host_step env alloc (HostShardReady sid r) (h, ctx) =
     (let (h', ctx', acts) = handle_shard_ready sid r h ctx in Inr ((h', ctx'), acts))"
| "host_step env alloc (HostReallocating sid) (h, ctx) = Inr ((handle_shard_reallocating sid h, ctx), [])"
| "host_step env alloc (HostStopShard m) (h, ctx) =
     (let (h', acts) = handle_stop_shard m h in Inr ((h', ctx), acts))"
| "host_step env alloc (HostShardStopped m) (h, ctx) = Inr ((handle_shard_stopped m h, ctx), [])"

text \<open>An allocator that gives an actor id the same shard every time, as the default allocator does.\<close>

definition stable_allocator :: "('al \<Rightarrow> actor_id \<Rightarrow> shard_id \<times> 'al) \<Rightarrow> (actor_id \<Rightarrow> shard_id) \<Rightarrow> bool" where
  "stable_allocator alloc shard_of \<longleftrightarrow> (\<forall>al aid. fst (alloc al aid) = shard_of aid)"

fun host_key :: "(actor_id \<Rightarrow> shard_id) \<Rightarrow> host_input \<Rightarrow> shard_id" where
  "host_key shard_of (HostRequest m) = shard_of (er_actor_id m)"
| "host_key shard_of (HostAllocated mb sid nid) = sid"
| "host_key shard_of (HostShardReady sid r) = sid"
| "host_key shard_of (HostReallocating sid) = sid"
| "host_key shard_of (HostStopShard m) = stop_shard_id m"
| "host_key shard_of (HostShardStopped m) = stopped_shard_id m"

text \<open>
  The specification: what a host knows of one shard. A request goes to the local shard if there is
  one, else to the remote one, else it waits.
\<close>

record shard_slot =
  slot_hosted :: "shard_state option"
  slot_remote :: "remote_shard_ref option"
  slot_waiting :: "entity_req list"

definition host_slot :: "'al shard_host \<Rightarrow> shard_id \<Rightarrow> shard_slot" where
  "host_slot h sid =
     \<lparr>slot_hosted = hm_get (hosted_shards h) sid, slot_remote = hm_get (remote_shards h) sid,
      slot_waiting = (case hm_get (requests_pending h) sid of Some b \<Rightarrow> b | None \<Rightarrow> [])\<rparr>"

fun slot_step ::
  "host_env \<Rightarrow> string \<Rightarrow> (actor_id \<Rightarrow> shard_id) \<Rightarrow> host_input \<Rightarrow> shard_slot \<Rightarrow> shard_slot \<times> host_action list" where
  "slot_step env entity shard_of (HostRequest m) s =
     (case (slot_hosted s, slot_remote s) of
        (Some (ShardStarting r buf stop), _) \<Rightarrow>
          (s\<lparr>slot_hosted := Some (ShardStarting r (buf @ [m]) stop)\<rparr>, [])
      | (Some (ShardReady r), _) \<Rightarrow> (s, [SpawnSend r m])
      | (Some ShardStopping, _) \<Rightarrow> (s, [])
      | (None, Some r) \<Rightarrow> (s, [SpawnRemoteRequest r m])
      | (None, None) \<Rightarrow> (s\<lparr>slot_waiting := slot_waiting s @ [m]\<rparr>, [SpawnAllocate (shard_of (er_actor_id m))]))"
| "slot_step env entity shard_of (HostAllocated mb sid nid) s =
     (if nid = env_node_id env then
        (case slot_hosted s of
           None \<Rightarrow>
             (let r = start_actor (env_shard_type env) (shard_actor_id entity sid) (env_system_name env) mb
              in (\<lparr>slot_hosted = Some (ShardStarting r (slot_waiting s) None), slot_remote = None,
                   slot_waiting = []\<rparr>, [SpawnShard r sid]))
         | Some (ShardStarting r buf stop) \<Rightarrow>
             (\<lparr>slot_hosted = Some (ShardStarting r (buf @ slot_waiting s) stop), slot_remote = None,
               slot_waiting = []\<rparr>, [])
         | Some (ShardReady r) \<Rightarrow>
             (\<lparr>slot_hosted = Some (ShardReady r), slot_remote = None, slot_waiting = []\<rparr>,
              map (SpawnSend r) (slot_waiting s))
         | Some ShardStopping \<Rightarrow>
             (\<lparr>slot_hosted = Some ShardStopping, slot_remote = None, slot_waiting = []\<rparr>, []))
      else
        (let r = \<lparr>rs_actor_id = shard_actor_id entity sid, rs_node_id = nid\<rparr>
         in (\<lparr>slot_hosted = None, slot_remote = Some r, slot_waiting = []\<rparr>,
             (case Option.bind (slot_hosted s) shard_actor_ref of Some a \<Rightarrow> [NotifyStop a] | None \<Rightarrow> []) @
             map (SpawnRemoteRequest r) (slot_waiting s))))"
| "slot_step env entity shard_of (HostShardReady sid r) s =
     (s\<lparr>slot_hosted := Some (ShardReady r)\<rparr>,
      case slot_hosted s of
        Some (ShardStarting _ buf None) \<Rightarrow> map (SpawnSend r) buf
      | Some (ShardStarting _ _ (Some stop)) \<Rightarrow> [SpawnStop sid r (Some stop)]
      | _ \<Rightarrow> [])"
| "slot_step env entity shard_of (HostReallocating sid) s = (s\<lparr>slot_remote := None\<rparr>, [])"
| "slot_step env entity shard_of (HostStopShard m) s =
     (case slot_hosted s of
        None \<Rightarrow> (s, [])
      | Some st \<Rightarrow>
          (s\<lparr>slot_hosted := Some ShardStopping\<rparr>,
           case st of
             ShardReady r \<Rightarrow>
               [SpawnStop (stop_shard_id m) r
                  (Some \<lparr>sr_origin_node_id = stop_origin_node_id m, sr_request_id = stop_request_id m\<rparr>)]
           | _ \<Rightarrow> []))"
| "slot_step env entity shard_of (HostShardStopped m) s = (s\<lparr>slot_hosted := None\<rparr>, [])"

lemma handle_requests_ready [simp]:
  "handle_requests ms (ShardReady r) = (ShardReady r, map (SpawnSend r) ms)"
  by (induction ms) (simp_all add: handle_request_def)

lemma handle_requests_starting [simp]:
  "handle_requests ms (ShardStarting r buf stop) = (ShardStarting r (buf @ ms) stop, [])"
  by (induction ms arbitrary: buf) (simp_all add: handle_request_def)

lemma handle_requests_stopping [simp]: "handle_requests ms ShardStopping = (ShardStopping, [])"
  by (induction ms) (simp_all add: handle_request_def)

text \<open>Every update of the host's maps is an update of one slot.\<close>

lemma host_slot_hosted [simp]:
  "host_slot (h\<lparr>hosted_shards := hm_insert sid st m\<rparr>) =
     (host_slot (h\<lparr>hosted_shards := m\<rparr>))(sid := (host_slot h sid)\<lparr>slot_hosted := Some st\<rparr>)"
  "host_slot (h\<lparr>hosted_shards := hm_remove sid m\<rparr>) =
     (host_slot (h\<lparr>hosted_shards := m\<rparr>))(sid := (host_slot h sid)\<lparr>slot_hosted := None\<rparr>)"
  by (simp_all add: host_slot_def fun_eq_iff)

lemma host_slot_remote [simp]:
  "host_slot (h\<lparr>remote_shards := hm_insert sid r m\<rparr>) =
     (host_slot (h\<lparr>remote_shards := m\<rparr>))(sid := (host_slot h sid)\<lparr>slot_remote := Some r\<rparr>)"
  "host_slot (h\<lparr>remote_shards := hm_remove sid m\<rparr>) =
     (host_slot (h\<lparr>remote_shards := m\<rparr>))(sid := (host_slot h sid)\<lparr>slot_remote := None\<rparr>)"
  by (simp_all add: host_slot_def fun_eq_iff)

lemma host_slot_pending [simp]:
  "host_slot (h\<lparr>requests_pending := hm_insert sid ms m\<rparr>) =
     (host_slot (h\<lparr>requests_pending := m\<rparr>))(sid := (host_slot h sid)\<lparr>slot_waiting := ms\<rparr>)"
  "host_slot (h\<lparr>requests_pending := hm_remove sid m\<rparr>) =
     (host_slot (h\<lparr>requests_pending := m\<rparr>))(sid := (host_slot h sid)\<lparr>slot_waiting := []\<rparr>)"
  by (simp_all add: host_slot_def fun_eq_iff)

lemma host_slot_allocator [simp]: "host_slot (h\<lparr>sh_allocator := al\<rparr>) = host_slot h"
  by (simp add: host_slot_def fun_eq_iff)

lemma host_slot_sel [simp]:
  "slot_hosted (host_slot h sid) = hm_get (hosted_shards h) sid"
  "slot_remote (host_slot h sid) = hm_get (remote_shards h) sid"
  "slot_waiting (host_slot h sid) = (case hm_get (requests_pending h) sid of Some b \<Rightarrow> b | None \<Rightarrow> [])"
  by (simp_all add: host_slot_def)

lemma host_slot_unchanged [simp]:
  "host_slot (h\<lparr>hosted_shards := hosted_shards h\<rparr>) = host_slot h"
  "host_slot (h\<lparr>remote_shards := remote_shards h\<rparr>) = host_slot h"
  "host_slot (h\<lparr>requests_pending := requests_pending h\<rparr>) = host_slot h"
  by (simp_all add: host_slot_def fun_eq_iff)

text \<open>A host that knows its coordinator does not panic, and keeps it.\<close>

definition host_ready :: "string \<Rightarrow> 'al shard_host \<Rightarrow> bool" where
  "host_ready e h \<longleftrightarrow> sh_entity h = e \<and> sh_coordinator h \<noteq> None"

lemma host_request_step:
  fixes m :: entity_req
  assumes "stable_allocator alloc shard_of" and "host_ready e h"
  defines "k \<equiv> shard_of (er_actor_id m)"
  shows "\<exists>h' acts. handle_host_request alloc m h = Inr (h', acts) \<and> host_ready e h' \<and>
           host_slot h' = (host_slot h)(k := fst (slot_step env e shard_of (HostRequest m) (host_slot h k))) \<and>
           acts = snd (slot_step env e shard_of (HostRequest m) (host_slot h k))"
proof -
  obtain al where al: "alloc (sh_allocator h) (er_actor_id m) = (k, al)"
    using assms(1) unfolding stable_allocator_def k_def by (metis prod.collapse)
  show ?thesis
  proof (cases "hm_get (hosted_shards h) k")
    case None
    with al assms(2) show ?thesis
      by (cases "hm_get (remote_shards h) k")
         (auto simp: handle_host_request_def get_coordinator_def host_ready_def k_def fun_upd_idem)
  next
    case (Some st)
    with al assms(2) show ?thesis
      by (cases st) (simp_all add: handle_host_request_def handle_request_def host_ready_def k_def fun_upd_idem)
  qed
qed

text \<open>A list of requests for one shard, in each situation of its slot.\<close>

abbreviation slot_requests ::
  "host_env \<Rightarrow> string \<Rightarrow> (actor_id \<Rightarrow> shard_id) \<Rightarrow> entity_req list \<Rightarrow> shard_slot \<Rightarrow> shard_slot \<times> host_action list" where
  "slot_requests env e shard_of ms \<equiv> slot_run (slot_step env e shard_of) (map HostRequest ms)"

lemma slot_requests_starting:
  "slot_hosted s = Some (ShardStarting r buf stop) \<Longrightarrow>
   slot_requests env e shard_of ms s = (s\<lparr>slot_hosted := Some (ShardStarting r (buf @ ms) stop)\<rparr>, [])"
  by (induction ms arbitrary: s buf) auto

lemma slot_requests_ready:
  "slot_hosted s = Some (ShardReady r) \<Longrightarrow>
   slot_requests env e shard_of ms s = (s, map (SpawnSend r) ms)"
  by (induction ms) auto

lemma slot_requests_stopping:
  "slot_hosted s = Some ShardStopping \<Longrightarrow> slot_requests env e shard_of ms s = (s, [])"
  by (induction ms) auto

lemma slot_requests_remote:
  "slot_hosted s = None \<Longrightarrow> slot_remote s = Some r \<Longrightarrow>
   slot_requests env e shard_of ms s = (s, map (SpawnRemoteRequest r) ms)"
  by (induction ms) auto

lemma slot_requests_waiting:
  "slot_hosted s = None \<Longrightarrow> slot_remote s = None \<Longrightarrow> \<forall>m\<in>set ms. shard_of (er_actor_id m) = k \<Longrightarrow>
   slot_requests env e shard_of ms s =
     (s\<lparr>slot_waiting := slot_waiting s @ ms\<rparr>, map (\<lambda>_. SpawnAllocate k) ms)"
  by (induction ms arbitrary: s) auto

lemmas slot_requests_simps =
  slot_requests_starting slot_requests_ready slot_requests_stopping slot_requests_remote

lemma host_requests_steps:
  assumes "stable_allocator alloc shard_of" and "host_ready e h"
    and "\<forall>m\<in>set ms. shard_of (er_actor_id m) = k"
  shows "\<exists>h' acts. handle_host_requests alloc ms h = Inr (h', acts) \<and> host_ready e h' \<and>
           host_slot h' = (host_slot h)(k := fst (slot_requests env e shard_of ms (host_slot h k))) \<and>
           acts = snd (slot_requests env e shard_of ms (host_slot h k))"
  using assms(2,3)
proof (induction ms arbitrary: h)
  case Nil
  then show ?case by (simp add: fun_upd_idem)
next
  case (Cons m ms)
  obtain h1 as1 where h1: "handle_host_request alloc m h = Inr (h1, as1)" "host_ready e h1"
    "host_slot h1 = (host_slot h)(k := fst (slot_step env e shard_of (HostRequest m) (host_slot h k)))"
    "as1 = snd (slot_step env e shard_of (HostRequest m) (host_slot h k))"
    using host_request_step [OF assms(1) Cons.prems(1), of m env] Cons.prems(2) by auto
  have "\<forall>m\<in>set ms. shard_of (er_actor_id m) = k" using Cons.prems(2) by simp
  from Cons.IH [OF h1(2) this] obtain h2 as2 where "handle_host_requests alloc ms h1 = Inr (h2, as2)" "host_ready e h2"
    "host_slot h2 = (host_slot h1)(k := fst (slot_requests env e shard_of ms (host_slot h1 k)))"
    "as2 = snd (slot_requests env e shard_of ms (host_slot h1 k))"
    by blast
  with h1 show ?case by (simp add: split_beta fun_eq_iff del: slot_step.simps)
qed

text \<open>The buffered requests are those of their shard.\<close>

definition pending_ok :: "(actor_id \<Rightarrow> shard_id) \<Rightarrow> 'al shard_host \<Rightarrow> bool" where
  "pending_ok shard_of h \<longleftrightarrow> (\<forall>k. \<forall>m\<in>set (slot_waiting (host_slot h k)). shard_of (er_actor_id m) = k)"

definition host_ok :: "(actor_id \<Rightarrow> shard_id) \<Rightarrow> string \<Rightarrow> 'al shard_host \<Rightarrow> bool" where
  "host_ok shard_of e h \<longleftrightarrow> host_ready e h \<and> pending_ok shard_of h"

lemma slot_step_waiting:
  "m \<in> set (slot_waiting (fst (slot_step env e shard_of x s))) \<Longrightarrow>
   m \<in> set (slot_waiting s) \<or> x = HostRequest m"
  by (cases x) (auto simp: Let_def split: option.splits shard_state.splits if_splits)

lemma pending_ok_step:
  assumes "pending_ok shard_of h" and "k = host_key shard_of x"
    and "host_slot h' = (host_slot h)(k := fst (slot_step env e shard_of x (host_slot h k)))"
  shows "pending_ok shard_of h'"
  unfolding pending_ok_def
proof (intro allI ballI)
  fix j m
  assume m: "m \<in> set (slot_waiting (host_slot h' j))"
  show "shard_of (er_actor_id m) = j"
  proof (cases "j = k")
    case True
    with m assms(3) have "m \<in> set (slot_waiting (fst (slot_step env e shard_of x (host_slot h k))))"
      by (simp del: slot_step.simps)
    from slot_step_waiting [OF this] True assms(1,2) show ?thesis
      unfolding pending_ok_def by auto
  next
    case False
    with m assms(3) have "m \<in> set (slot_waiting (host_slot h j))" by (simp del: host_slot_sel)
    with assms(1) show ?thesis unfolding pending_ok_def by blast
  qed
qed

text \<open>The effect of an allocation on the slot, before the buffered requests are handled again.\<close>

fun slot_allocated ::
  "host_env \<Rightarrow> string \<Rightarrow> mailbox_id \<Rightarrow> shard_id \<Rightarrow> node_id \<Rightarrow> shard_slot \<Rightarrow> shard_slot \<times> host_action list" where
  "slot_allocated env e mb sid nid s =
     (if nid = env_node_id env then
        (case slot_hosted s of
           None \<Rightarrow>
             (let r = start_actor (env_shard_type env) (shard_actor_id e sid) (env_system_name env) mb
              in (s\<lparr>slot_hosted := Some (ShardStarting r [] None), slot_remote := None\<rparr>, [SpawnShard r sid]))
         | Some _ \<Rightarrow> (s\<lparr>slot_remote := None\<rparr>, []))
      else (s\<lparr>slot_hosted := None, slot_remote := Some \<lparr>rs_actor_id = shard_actor_id e sid, rs_node_id = nid\<rparr>\<rparr>,
            case Option.bind (slot_hosted s) shard_actor_ref of Some a \<Rightarrow> [NotifyStop a] | None \<Rightarrow> []))"

lemma slot_allocated_then_requests:
  "slot_step env e shard_of (HostAllocated mb sid nid) s =
     (let (s1, as1) = slot_allocated env e mb sid nid s;
          (s2, as2) = slot_requests env e shard_of (slot_waiting s) (s1\<lparr>slot_waiting := []\<rparr>)
      in (s2, as1 @ as2))"
  by (auto simp: Let_def slot_requests_simps split: option.splits shard_state.splits if_splits)

lemma host_allocated_step:
  assumes "stable_allocator alloc shard_of" and "host_ok shard_of e h"
  shows "\<exists>h' ctx' acts. handle_shard_allocated env alloc mb sid nid h ctx = Inr (h', ctx', acts) \<and>
           host_ready e h' \<and>
           host_slot h' = (host_slot h)(sid := fst (slot_step env e shard_of (HostAllocated mb sid nid) (host_slot h sid))) \<and>
           acts = snd (slot_step env e shard_of (HostAllocated mb sid nid) (host_slot h sid))"
proof -
  let ?s = "host_slot h sid"
  obtain h1 ctx1 as1 where first:
    "(if nid = env_node_id env then allocated_here env mb sid h ctx
      else let (h', acts) = allocated_elsewhere sid nid h in (h', ctx, acts)) = (h1, ctx1, as1)"
    by (metis prod_cases3)
  have h1: "host_ready e h1" "host_slot h1 = (host_slot h)(sid := fst (slot_allocated env e mb sid nid ?s))"
    "as1 = snd (slot_allocated env e mb sid nid ?s)" "requests_pending h1 = requests_pending h"
    using assms(2) first
    by (auto simp: host_ok_def host_ready_def allocated_here_def allocated_elsewhere_def Let_def fun_eq_iff
        split: if_splits option.splits)
  show ?thesis
  proof (cases "hm_get (requests_pending h) sid")
    case None
    then have w: "slot_waiting ?s = []" by simp
    then have "(fst (slot_allocated env e mb sid nid ?s))\<lparr>slot_waiting := []\<rparr> = fst (slot_allocated env e mb sid nid ?s)"
      by (auto simp: Let_def split: option.splits)
    with None w h1 first show ?thesis
      unfolding slot_allocated_then_requests handle_shard_allocated_def
      by (simp add: split_beta del: slot_allocated.simps)
  next
    case (Some reqs)
    let ?h = "h1\<lparr>requests_pending := hm_remove sid (requests_pending h1)\<rparr>"
    have w: "slot_waiting ?s = reqs" using Some by simp
    have ready: "host_ready e ?h" using h1(1) by (simp add: host_ready_def)
    have "\<forall>m\<in>set reqs. shard_of (er_actor_id m) = sid"
      using assms(2) w unfolding host_ok_def pending_ok_def by blast
    from host_requests_steps [OF assms(1) ready this, of env] obtain h2 as2 where
      "handle_host_requests alloc reqs ?h = Inr (h2, as2)" "host_ready e h2"
      "host_slot h2 = (host_slot ?h)(sid := fst (slot_requests env e shard_of reqs (host_slot ?h sid)))"
      "as2 = snd (slot_requests env e shard_of reqs (host_slot ?h sid))"
      by blast
    moreover have "h1\<lparr>requests_pending := requests_pending h\<rparr> = h1"
      unfolding h1(4) [symmetric] by simp
    ultimately show ?thesis
      using Some w h1 first unfolding slot_allocated_then_requests handle_shard_allocated_def
      by (simp add: split_beta del: slot_allocated.simps)
  qed
qed

lemma host_machine:
  assumes "stable_allocator alloc shard_of"
  shows "keyed_machine (host_step env alloc) (host_key shard_of) (\<lambda>s. host_slot (fst s))
           (slot_step env e shard_of) (\<lambda>s. host_ok shard_of e (fst s))"
proof
  fix s :: "'a shard_host \<times> actor_context" and x
  assume ok: "host_ok shard_of e (fst s)"
  let ?k = "host_key shard_of x"
  have "\<exists>s' acts. host_step env alloc x s = Inr (s', acts) \<and> host_ready e (fst s') \<and>
      host_slot (fst s') = (host_slot (fst s))(?k := fst (slot_step env e shard_of x (host_slot (fst s) ?k))) \<and>
      acts = snd (slot_step env e shard_of x (host_slot (fst s) ?k))"
  proof (cases s)
    case (Pair h ctx)
    with ok have ready: "host_ready e h" and ok: "host_ok shard_of e h" by (auto simp: host_ok_def)
    show ?thesis
    proof (cases x)
      case (HostRequest m)
      with host_request_step [OF assms ready, of m env] Pair show ?thesis
        by (auto simp del: slot_step.simps)
    next
      case (HostAllocated mb sid nid)
      with host_allocated_step [OF assms ok, of env mb sid nid ctx] Pair show ?thesis
        by (auto simp del: slot_step.simps)
    next
      case (HostShardReady sid r)
      with Pair ready show ?thesis
        by (auto simp: handle_shard_ready_def host_ready_def split: option.splits shard_state.splits)
    next
      case (HostReallocating sid)
      with Pair ready show ?thesis by (simp add: handle_shard_reallocating_def host_ready_def)
    next
      case (HostStopShard m)
      with Pair ready show ?thesis
        by (auto simp: handle_stop_shard_def host_ready_def Let_def fun_upd_idem split: option.splits shard_state.splits)
    next
      case (HostShardStopped m)
      with Pair ready show ?thesis by (simp add: handle_shard_stopped_def host_ready_def)
    qed
  qed
  note step = this
  then show "\<exists>s' acts. host_step env alloc x s = Inr (s', acts)" by blast
  fix s' acts
  assume "host_step env alloc x s = Inr (s', acts)"
  with step have r: "host_ready e (fst s')"
    "host_slot (fst s') = (host_slot (fst s))(?k := fst (slot_step env e shard_of x (host_slot (fst s) ?k)))"
    "acts = snd (slot_step env e shard_of x (host_slot (fst s) ?k))" by auto
  moreover have "pending_ok shard_of (fst s')"
    using pending_ok_step [OF _ refl r(2)] ok by (simp add: host_ok_def)
  ultimately show "host_ok shard_of e (fst s') \<and>
      host_slot (fst s') = (host_slot (fst s))(?k := fst (slot_step env e shard_of x (host_slot (fst s) ?k))) \<and>
      acts = snd (slot_step env e shard_of x (host_slot (fst s) ?k))"
    by (simp only: host_ok_def simp_thms)
qed

lemmas host_run_slot = keyed_machine.run_slot [OF host_machine]
lemmas host_run_exists = keyed_machine.run_exists [OF host_machine]

section \<open>Routing of requests\<close>

lemma requests_of_shard:
  assumes "filter (\<lambda>x. host_key shard_of x = k) xs = ys @ map HostRequest ms @ zs"
  shows "\<forall>m\<in>set ms. shard_of (er_actor_id m) = k"
proof
  fix m
  assume "m \<in> set ms"
  then have "HostRequest m \<in> set (filter (\<lambda>x. host_key shard_of x = k) xs)" unfolding assms by auto
  then show "shard_of (er_actor_id m) = k" by simp
qed

lemma host_refines_run:
  assumes "stable_allocator alloc shard_of" and "host_ok shard_of e h"
  shows "\<exists>h' ctx' tr. run_inputs (host_step env alloc) xs (h, ctx) = Inr ((h', ctx'), tr) \<and>
           slot_run (slot_step env e shard_of) (filter (\<lambda>x. host_key shard_of x = k) xs) (host_slot h k) =
             (host_slot h' k, caused_for (host_key shard_of) k tr)"
proof -
  have ok: "host_ok shard_of e (fst (h, ctx))" using assms(2) by simp
  obtain s tr where r: "run_inputs (host_step env alloc) xs (h, ctx) = Inr (s, tr)"
    using host_run_exists [OF assms(1) ok] by blast
  from host_run_slot [OF assms(1) ok r, of k] r show ?thesis
    by (cases s) auto
qed

text \<open>C27: Refinement: a shard host is a family of independent machines, one per shard. A host that knows its
  coordinator never panics, whatever messages it gets, and after any interleaving of requests,
  allocations, reallocations, starts and stops of any shards, what it knows of a shard and what its
  messages caused are what that shard's machine does with the messages of that shard alone.\<close>

theorem host_refines_slots:
  assumes "stable_allocator alloc shard_of" and "host_ok shard_of e h"
  shows "\<exists>h' ctx' tr. run_inputs (host_step env alloc) xs (h, ctx) = Inr ((h', ctx'), tr) \<and>
           slot_run (slot_step env e shard_of) (filter (\<lambda>x. host_key shard_of x = k) xs) (host_slot h k) =
             (host_slot h' k, caused_for (host_key shard_of) k tr)"
  by (rule host_refines_run [OF assms])

definition ex_host :: "unit shard_host" where
  "ex_host = handle_init (shard_host_new () ''e'' ''h'' None)"

definition ex_env :: host_env where
  "ex_env = \<lparr>env_node_id = 1, env_system_name = ''sys'', env_shard_type = ''Shard''\<rparr>"

definition ex_alloc :: "unit \<Rightarrow> actor_id \<Rightarrow> shard_id \<times> unit" where
  "ex_alloc u aid = (of_nat (length aid), u)"

lemma ex_alloc_stable: "stable_allocator ex_alloc (\<lambda>aid. of_nat (length aid))"
  by (simp add: stable_allocator_def ex_alloc_def)

lemma ex_host_ok: "host_ok shard_of ''e'' ex_host"
  by (simp add: host_ok_def host_ready_def pending_ok_def ex_host_def handle_init_def shard_host_new_def)

theorem host_refines_slots_witness:
  "\<exists>h' ctx' tr. run_inputs (host_step ex_env ex_alloc)
       [HostRequest (ex_req [1]), HostReallocating 7, HostAllocated 3 1 2] (ex_host, ex_shard_ctx) = Inr ((h', ctx'), tr) \<and>
     caused_for (host_key (\<lambda>aid. of_nat (length aid))) 1 tr =
       [SpawnAllocate 1, SpawnRemoteRequest \<lparr>rs_actor_id = ''e-Shard-1'', rs_node_id = 2\<rparr> (ex_req [1])]"
proof -
  let ?xs = "[HostRequest (ex_req [1]), HostReallocating 7, HostAllocated 3 1 2]"
  obtain h' ctx' tr where r: "run_inputs (host_step ex_env ex_alloc) ?xs (ex_host, ex_shard_ctx) = Inr ((h', ctx'), tr)"
    "slot_run (slot_step ex_env ''e'' (\<lambda>aid. of_nat (length aid)))
       (filter (\<lambda>x. host_key (\<lambda>aid. of_nat (length aid)) x = 1) ?xs) (host_slot ex_host 1) =
     (host_slot h' 1, caused_for (host_key (\<lambda>aid. of_nat (length aid))) 1 tr)"
    using host_refines_slots [OF ex_alloc_stable ex_host_ok] by blast
  have "shard_actor_id ''e'' 1 = ''e-Shard-1''"
    by (simp add: shard_actor_id_def show_nat.simps digit_def char_of_eq_iff)
  with r(2) have "caused_for (host_key (\<lambda>aid. of_nat (length aid))) 1 tr =
       [SpawnAllocate 1, SpawnRemoteRequest \<lparr>rs_actor_id = ''e-Shard-1'', rs_node_id = 2\<rparr> (ex_req [1])]"
    by (simp add: ex_req_def ex_host_def handle_init_def shard_host_new_def ex_env_def Let_def)
  with r(1) show ?thesis by blast
qed

text \<open>The tasks that send requests to a shard's actor.\<close>

fun send_task :: "host_action \<Rightarrow> (actor_ref \<times> entity_req) option" where
  "send_task (SpawnSend r m) = Some (r, m)"
| "send_task _ = None"

lemma send_tasks_sends: "List.map_filter send_task (map (SpawnSend r) ms) = map (Pair r) ms"
  by (induction ms) (simp_all add: map_filter_simps)

lemma send_tasks_allocate: "List.map_filter send_task (map (\<lambda>_. SpawnAllocate k) ms) = []"
  by (induction ms) (simp_all add: map_filter_simps)

text \<open>C25: No request for a shard that becomes local is lost or doubled. Requests that arrive before the shard is
  allocated wait (each asks the coordinator); those that arrive while it starts are buffered; when it is ready the host
  spawns one task for each of them, oldest first, and one for each later request, and starts the shard's actor once and
  sends none to another node, whatever happens to other shards in between. However the tasks are interleaved with each
  other and with later messages of the host, the shard's actor is sent every request exactly once, and no order is
  excluded.\<close>

theorem host_requests_once:
  assumes "stable_allocator alloc shard_of" and "host_ok shard_of e h"
    and "host_slot h k = \<lparr>slot_hosted = None, slot_remote = None, slot_waiting = []\<rparr>"
    and "filter (\<lambda>x. host_key shard_of x = k) xs =
           map HostRequest ms1 @ [HostAllocated mb k (env_node_id env)] @
           map HostRequest ms2 @ [HostShardReady k r] @ map HostRequest ms3"
  shows "\<exists>s' tr. run_inputs (host_step env alloc) xs (h, ctx) = Inr (s', tr) \<and>
           caused_for (host_key shard_of) k tr =
             map (\<lambda>_. SpawnAllocate k) ms1 @
             [SpawnShard (start_actor (env_shard_type env) (shard_actor_id e k) (env_system_name env) mb) k] @
             map (SpawnSend r) (ms1 @ ms2 @ ms3) \<and>
           (\<forall>sent. runs_tasks (task_batches send_task (\<lambda>x. host_key shard_of x = k) tr) {#} sent \<longleftrightarrow>
              mset sent = mset (map (Pair r) (ms1 @ ms2 @ ms3)))"
proof -
  let ?F = "slot_step env e shard_of"
  let ?acts = "map (\<lambda>_. SpawnAllocate k) ms1 @
      [SpawnShard (start_actor (env_shard_type env) (shard_actor_id e k) (env_system_name env) mb) k] @
      map (SpawnSend r) (ms1 @ ms2 @ ms3)"
  have ms1: "\<forall>m\<in>set ms1. shard_of (er_actor_id m) = k"
    using requests_of_shard [of shard_of k xs "[]"] assms(4) by simp
  have "snd (slot_run ?F (filter (\<lambda>x. host_key shard_of x = k) xs) (host_slot h k)) = ?acts"
    unfolding assms(3,4)
    by (simp add: slot_run_append slot_requests_waiting [OF _ _ ms1] slot_requests_starting slot_requests_ready Let_def)
  with host_refines_run [OF assms(1,2)] obtain s' tr where
    r: "run_inputs (host_step env alloc) xs (h, ctx) = Inr (s', tr)" "caused_for (host_key shard_of) k tr = ?acts"
    by (metis snd_conv)
  have "List.map_filter send_task ?acts = map (Pair r) (ms1 @ ms2 @ ms3)"
    unfolding map_filter_append send_tasks_sends send_tasks_allocate by (simp add: map_filter_simps)
  then have "\<forall>sent. runs_tasks (task_batches send_task (\<lambda>x. host_key shard_of x = k) tr) {#} sent \<longleftrightarrow>
      mset sent = mset (map (Pair r) (ms1 @ ms2 @ ms3))"
    unfolding tasks_of_trace caused_for_def [symmetric] r(2) by simp
  with r show ?thesis by blast
qed

theorem host_requests_once_witness:
  "\<exists>s' tr. run_inputs (host_step ex_env ex_alloc)
       [HostRequest (ex_req [1]), HostAllocated 3 1 1, HostRequest (ex_req [2]), HostReallocating 7,
        HostShardReady 1 (start_actor ''Shard'' ''s'' ''sys'' 3), HostRequest (ex_req [3])]
       (ex_host, ex_shard_ctx) = Inr (s', tr) \<and>
     caused_for (host_key (\<lambda>aid. of_nat (length aid))) 1 tr =
       [SpawnAllocate 1, SpawnShard (start_actor ''Shard'' (shard_actor_id ''e'' 1) ''sys'' 3) 1] @
       map (SpawnSend (start_actor ''Shard'' ''s'' ''sys'' 3)) [ex_req [1], ex_req [2], ex_req [3]] \<and>
     runs_tasks (task_batches send_task (\<lambda>x. host_key (\<lambda>aid. of_nat (length aid)) x = 1) tr) {#}
       (map (Pair (start_actor ''Shard'' ''s'' ''sys'' 3)) [ex_req [3], ex_req [1], ex_req [2]])"
proof -
  let ?xs = "[HostRequest (ex_req [1]), HostAllocated 3 1 1, HostRequest (ex_req [2]), HostReallocating 7,
        HostShardReady 1 (start_actor ''Shard'' ''s'' ''sys'' 3), HostRequest (ex_req [3])]"
  have f: "filter (\<lambda>x. host_key (\<lambda>aid. of_nat (length aid)) x = 1) ?xs =
      map HostRequest [ex_req [1]] @ [HostAllocated 3 1 (env_node_id ex_env)] @ map HostRequest [ex_req [2]] @
      [HostShardReady 1 (start_actor ''Shard'' ''s'' ''sys'' 3)] @ map HostRequest [ex_req [3]]"
    by (simp add: ex_env_def ex_req_def)
  have "host_slot ex_host 1 = \<lparr>slot_hosted = None, slot_remote = None, slot_waiting = []\<rparr>"
    by (simp add: host_slot_def ex_host_def handle_init_def shard_host_new_def)
  from host_requests_once [OF ex_alloc_stable ex_host_ok this f, of ex_shard_ctx] show ?thesis
    by (auto simp: ex_env_def add_mset_commute)
qed

text \<open>Requests for a shard that is allocated to another node are forwarded to that node by one task each, spawned in
  the order of arrival, those that waited for the allocation first; none is handled locally, and the local shard
  that the host may still have is told to stop.\<close>

theorem host_requests_forwarded:
  assumes "stable_allocator alloc shard_of" and "host_ok shard_of e h"
    and "hm_get (remote_shards h) k = None" and "nid \<noteq> env_node_id env"
    and "filter (\<lambda>x. host_key shard_of x = k) xs =
           map HostRequest ms1 @ [HostAllocated mb k nid] @ map HostRequest ms2"
    and "hm_get (hosted_shards h) k = None \<or> ms1 = []"
  shows "\<exists>h' ctx' tr. run_inputs (host_step env alloc) xs (h, ctx) = Inr ((h', ctx'), tr) \<and>
           caused_for (host_key shard_of) k tr =
             map (\<lambda>_. SpawnAllocate k) ms1 @
             (case Option.bind (hm_get (hosted_shards h) k) shard_actor_ref of Some r \<Rightarrow> [NotifyStop r] | None \<Rightarrow> []) @
             map (SpawnRemoteRequest \<lparr>rs_actor_id = shard_actor_id e k, rs_node_id = nid\<rparr>)
               (slot_waiting (host_slot h k) @ ms1 @ ms2) \<and>
           host_slot h' k = \<lparr>slot_hosted = None,
             slot_remote = Some \<lparr>rs_actor_id = shard_actor_id e k, rs_node_id = nid\<rparr>, slot_waiting = []\<rparr>"
proof -
  let ?F = "slot_step env e shard_of"
  have ms1: "\<forall>m\<in>set ms1. shard_of (er_actor_id m) = k"
    using requests_of_shard [of shard_of k xs "[]"] assms(5) by simp
  have "slot_requests env e shard_of ms1 (host_slot h k) =
      ((host_slot h k)\<lparr>slot_waiting := slot_waiting (host_slot h k) @ ms1\<rparr>, map (\<lambda>_. SpawnAllocate k) ms1)"
    using assms(3,6) slot_requests_waiting [OF _ _ ms1, of "host_slot h k" env e] by auto
  then have "slot_run ?F (filter (\<lambda>x. host_key shard_of x = k) xs) (host_slot h k) =
      (\<lparr>slot_hosted = None, slot_remote = Some \<lparr>rs_actor_id = shard_actor_id e k, rs_node_id = nid\<rparr>, slot_waiting = []\<rparr>,
       map (\<lambda>_. SpawnAllocate k) ms1 @
       (case Option.bind (hm_get (hosted_shards h) k) shard_actor_ref of Some r \<Rightarrow> [NotifyStop r] | None \<Rightarrow> []) @
       map (SpawnRemoteRequest \<lparr>rs_actor_id = shard_actor_id e k, rs_node_id = nid\<rparr>)
         (slot_waiting (host_slot h k) @ ms1 @ ms2))"
    unfolding assms(5) using assms(4)
    by (simp add: slot_run_append slot_requests_remote Let_def)
  with host_refines_run [OF assms(1,2), of env xs ctx k] show ?thesis by auto
qed

theorem host_requests_forwarded_witness:
  "\<exists>h' ctx' tr. run_inputs (host_step ex_env ex_alloc)
       [HostRequest (ex_req [1]), HostAllocated 3 1 2, HostRequest (ex_req [2])] (ex_host, ex_shard_ctx) =
       Inr ((h', ctx'), tr) \<and>
     caused_for (host_key (\<lambda>aid. of_nat (length aid))) 1 tr =
       SpawnAllocate 1 # map (SpawnRemoteRequest \<lparr>rs_actor_id = shard_actor_id ''e'' 1, rs_node_id = 2\<rparr>)
         [ex_req [1], ex_req [2]]"
proof -
  let ?xs = "[HostRequest (ex_req [1]), HostAllocated 3 1 2, HostRequest (ex_req [2])]"
  have n: "hm_get (remote_shards ex_host) 1 = None" "(2 :: node_id) \<noteq> env_node_id ex_env"
    "hm_get (hosted_shards ex_host) 1 = None \<or> [ex_req [1]] = []" "slot_waiting (host_slot ex_host 1) = []"
    "hm_get (hosted_shards ex_host) 1 = None"
    by (simp_all add: ex_host_def handle_init_def shard_host_new_def ex_env_def)
  have f: "filter (\<lambda>x. host_key (\<lambda>aid. of_nat (length aid)) x = 1) ?xs =
      map HostRequest [ex_req [1]] @ [HostAllocated 3 1 2] @ map HostRequest [ex_req [2]]"
    by (simp add: ex_req_def)
  from host_requests_forwarded [OF ex_alloc_stable ex_host_ok n(1,2) f n(3), of ex_shard_ctx] show ?thesis
    unfolding n(4,5) by auto
qed

section \<open>Two ways to lose requests\<close>

text \<open>A stop request for a shard that is still starting is lost: the shard is not stopped, the node that
  asked for the stop gets no answer, and the shard becomes ready as if nothing had been asked. The
  requests buffered before and those that arrive until the shard is ready are dropped.\<close>

theorem stop_while_starting_is_lost:
  assumes "stable_allocator alloc shard_of" and "host_ok shard_of e h"
    and "hm_get (hosted_shards h) k = Some (ShardStarting a buf stop)"
    and "filter (\<lambda>x. host_key shard_of x = k) xs =
           HostStopShard m # map HostRequest ms @ [HostShardReady k r]"
  shows "\<exists>h' ctx' tr. run_inputs (host_step env alloc) xs (h, ctx) = Inr ((h', ctx'), tr) \<and>
           caused_for (host_key shard_of) k tr = [] \<and>
           hm_get (hosted_shards h') k = Some (ShardReady r)"
proof -
  let ?s = "(host_slot h k)\<lparr>slot_hosted := Some ShardStopping\<rparr>"
  have "slot_requests env e shard_of ms ?s = (?s, [])" by (rule slot_requests_stopping) simp
  then have "slot_run (slot_step env e shard_of) (filter (\<lambda>x. host_key shard_of x = k) xs) (host_slot h k) =
      ((host_slot h k)\<lparr>slot_hosted := Some (ShardReady r)\<rparr>, [])"
    unfolding assms(4) using assms(3) by (simp add: slot_run_append)
  with host_refines_run [OF assms(1,2), of env xs ctx k] obtain h' ctx' tr where
    "run_inputs (host_step env alloc) xs (h, ctx) = Inr ((h', ctx'), tr)"
    and c: "caused_for (host_key shard_of) k tr = []"
    and s: "host_slot h' k = (host_slot h k)\<lparr>slot_hosted := Some (ShardReady r)\<rparr>" by auto
  moreover have "hm_get (hosted_shards h') k = Some (ShardReady r)" using arg_cong [OF s, of slot_hosted] by simp
  ultimately show ?thesis by blast
qed

definition ex_starting_host :: "unit shard_host" where
  "ex_starting_host = ex_host\<lparr>hosted_shards :=
     [(1, ShardStarting (start_actor ''Shard'' ''s'' ''sys'' 3) [ex_req [1]] None)]\<rparr>"

lemma ex_starting_host_ok:
  "host_ok shard_of ''e'' ex_starting_host"
  "hm_get (hosted_shards ex_starting_host) 1 =
     Some (ShardStarting (start_actor ''Shard'' ''s'' ''sys'' 3) [ex_req [1]] None)"
  by (simp_all add: host_ok_def host_ready_def pending_ok_def ex_starting_host_def ex_host_def handle_init_def
      shard_host_new_def)

theorem stop_while_starting_is_lost_witness:
  "\<exists>h' ctx' tr. run_inputs (host_step ex_env ex_alloc)
       [HostStopShard \<lparr>stop_shard_id = 1, stop_request_id = 5, stop_origin_node_id = 2\<rparr>, HostRequest (ex_req [2]),
        HostShardReady 1 (start_actor ''Shard'' ''s'' ''sys'' 3)] (ex_starting_host, ex_shard_ctx) = Inr ((h', ctx'), tr) \<and>
     caused_for (host_key (\<lambda>aid. of_nat (length aid))) 1 tr = []"
proof -
  let ?xs = "[HostStopShard \<lparr>stop_shard_id = 1, stop_request_id = 5, stop_origin_node_id = 2\<rparr>, HostRequest (ex_req [2]),
        HostShardReady 1 (start_actor ''Shard'' ''s'' ''sys'' 3)]"
  have f: "filter (\<lambda>x. host_key (\<lambda>aid. of_nat (length aid)) x = 1) ?xs =
      HostStopShard \<lparr>stop_shard_id = 1, stop_request_id = 5, stop_origin_node_id = 2\<rparr> #
      map HostRequest [ex_req [2]] @ [HostShardReady 1 (start_actor ''Shard'' ''s'' ''sys'' 3)]"
    by (simp add: ex_req_def)
  from stop_while_starting_is_lost [OF ex_alloc_stable ex_starting_host_ok f, of ex_env ex_shard_ctx]
  show ?thesis by blast
qed

text \<open>A late ready message captures requests: when a shard that is still starting is allocated to another
  node, the host tells it to stop and forgets it; the ready message the shard had already sent then
  puts it back among the hosted shards, and every later request goes to that stopping actor although
  the shard's node is known.\<close>

theorem late_ready_captures_requests:
  assumes "stable_allocator alloc shard_of" and "host_ok shard_of e h"
    and "hm_get (hosted_shards h) k = Some (ShardStarting a buf stop)" and "hm_get (requests_pending h) k = None"
    and "nid \<noteq> env_node_id env"
    and "filter (\<lambda>x. host_key shard_of x = k) xs =
           HostAllocated mb k nid # HostShardReady k a # map HostRequest ms"
  shows "\<exists>h' ctx' tr. run_inputs (host_step env alloc) xs (h, ctx) = Inr ((h', ctx'), tr) \<and>
           caused_for (host_key shard_of) k tr = NotifyStop a # map (SpawnSend a) ms \<and>
           hm_get (remote_shards h') k = Some \<lparr>rs_actor_id = shard_actor_id e k, rs_node_id = nid\<rparr>"
proof -
  let ?r = "\<lparr>rs_actor_id = shard_actor_id e k, rs_node_id = nid\<rparr>"
  let ?s = "\<lparr>slot_hosted = Some (ShardReady a), slot_remote = Some ?r, slot_waiting = []\<rparr>"
  have "slot_requests env e shard_of ms ?s = (?s, map (SpawnSend a) ms)" by (rule slot_requests_ready) simp
  then have "slot_run (slot_step env e shard_of) (filter (\<lambda>x. host_key shard_of x = k) xs) (host_slot h k) =
      (?s, NotifyStop a # map (SpawnSend a) ms)"
    unfolding assms(6) using assms(3-5) by (simp add: Let_def shard_actor_ref_def)
  with host_refines_run [OF assms(1,2), of env xs ctx k] obtain h' ctx' tr where
    "run_inputs (host_step env alloc) xs (h, ctx) = Inr ((h', ctx'), tr)"
    and c: "caused_for (host_key shard_of) k tr = NotifyStop a # map (SpawnSend a) ms"
    and s: "host_slot h' k = ?s" by auto
  moreover have "hm_get (remote_shards h') k = Some ?r" using arg_cong [OF s, of slot_remote] by simp
  ultimately show ?thesis by blast
qed

theorem late_ready_captures_requests_witness:
  "\<exists>h' ctx' tr. run_inputs (host_step ex_env ex_alloc)
       [HostAllocated 9 1 2, HostShardReady 1 (start_actor ''Shard'' ''s'' ''sys'' 3), HostRequest (ex_req [2])]
       (ex_starting_host, ex_shard_ctx) = Inr ((h', ctx'), tr) \<and>
     caused_for (host_key (\<lambda>aid. of_nat (length aid))) 1 tr =
       [NotifyStop (start_actor ''Shard'' ''s'' ''sys'' 3), SpawnSend (start_actor ''Shard'' ''s'' ''sys'' 3) (ex_req [2])]"
proof -
  let ?a = "start_actor ''Shard'' ''s'' ''sys'' 3"
  let ?xs = "[HostAllocated 9 1 2, HostShardReady 1 ?a, HostRequest (ex_req [2])]"
  have n: "hm_get (requests_pending ex_starting_host) 1 = None" "(2 :: node_id) \<noteq> env_node_id ex_env"
    by (simp_all add: ex_starting_host_def ex_host_def handle_init_def shard_host_new_def ex_env_def)
  have f: "filter (\<lambda>x. host_key (\<lambda>aid. of_nat (length aid)) x = 1) ?xs =
      HostAllocated 9 1 2 # HostShardReady 1 ?a # map HostRequest [ex_req [2]]"
    by (simp add: ex_req_def)
  from late_ready_captures_requests [OF ex_alloc_stable ex_starting_host_ok n f, of ex_shard_ctx]
  show ?thesis by auto
qed

section \<open>Names and messages\<close>

text \<open>Shards never share an actor id: the ids of two shards are equal only for the same shard of the same
  entity type, and so for the ids of shard hosts, whatever characters the entity's name has.\<close>

theorem shard_actor_ids_unique:
  "(shard_actor_id e1 s1 = shard_actor_id e2 s2 \<longleftrightarrow> e1 = e2 \<and> s1 = s2) \<and>
   (shard_host_actor_id e1 n1 = shard_host_actor_id e2 n2 \<longleftrightarrow> e1 = e2 \<and> n1 = n2)"
proof -
  have "shard_actor_id e s = (e @ ''-Shard'') @ ''-'' @ show_nat (unat s)" for e s
    by (simp add: shard_actor_id_def)
  moreover have "shard_host_actor_id e n = (''shard-host-'' @ e) @ ''-'' @ show_nat (unat n)" for e n
    by (simp add: shard_host_actor_id_def)
  ultimately show ?thesis by (simp only: dash_decimal_inj same_append_eq append_same_eq word_unat_eq_iff)
qed

lemma shard_stopped_wire: "proto_roundtrip w p \<Longrightarrow> wire_message (shard_stopped_message w p)"
  by unfold_locales (auto simp: shard_stopped_message_def dest: to_bytes_parse)

text \<open>The messages between shard hosts survive the wire: for a lawful protobuf codec and a lawful UUID
  parser, whenever an allocation, a stop request, a stop reply or a forwarded entity request is
  encoded, the receiver decodes the same message, without an error and without a panic.\<close>

theorem host_messages_roundtrip:
  assumes "proto_roundtrip w1 p1" and "proto_roundtrip w2 p2" and "proto_roundtrip w3 p3"
    and "proto_roundtrip w4 p4" and "\<forall>u. uuid_parse (uuid_show u) = Some u"
  shows "(shard_allocated_as_bytes w1 a = Inr b1 \<longrightarrow> shard_allocated_from_bytes p1 b1 = Inr (Inr a)) \<and>
         (stop_shard_as_bytes w2 uuid_show m = Inr b2 \<longrightarrow> stop_shard_from_bytes p2 uuid_parse b2 = Inr (Inr m)) \<and>
         (as_bytes (shard_stopped_message w3 p3) s = Inr b3 \<longrightarrow> from_bytes (shard_stopped_message w3 p3) b3 = Inr s) \<and>
         (remote_entity_request_as_bytes w4 uuid_show r = Inr b4 \<longrightarrow>
            remote_entity_request_from_bytes p4 uuid_parse b4 = Inr (Inr r))"
proof (intro conjI impI)
  assume "shard_allocated_as_bytes w1 a = Inr b1"
  then show "shard_allocated_from_bytes p1 b1 = Inr (Inr a)"
    by (cases a) (auto simp: shard_allocated_as_bytes_def shard_allocated_from_bytes_def dest: to_bytes_parse [OF assms(1)])
next
  assume "stop_shard_as_bytes w2 uuid_show m = Inr b2"
  then show "stop_shard_from_bytes p2 uuid_parse b2 = Inr (Inr m)"
    using assms(5) by (auto simp: stop_shard_as_bytes_def stop_shard_from_bytes_def dest: to_bytes_parse [OF assms(2)])
next
  assume "as_bytes (shard_stopped_message w3 p3) s = Inr b3"
  then show "from_bytes (shard_stopped_message w3 p3) b3 = Inr s"
    by (rule wire_message.wire_roundtrip [OF shard_stopped_wire [OF assms(3)]])
next
  assume "remote_entity_request_as_bytes w4 uuid_show r = Inr b4"
  then show "remote_entity_request_from_bytes p4 uuid_parse b4 = Inr (Inr r)"
    using assms(5)
    by (auto simp: remote_entity_request_as_bytes_def remote_entity_request_from_bytes_def
        dest: to_bytes_parse [OF assms(4)])
qed

text \<open>A codec for a single value, and unary numbers as UUIDs.\<close>

definition one_write :: "'p \<Rightarrow> 'p \<Rightarrow> unit + bytes" where
  "one_write v x = (if x = v then Inr [1] else Inl ())"

definition one_parse :: "'p \<Rightarrow> bytes \<Rightarrow> unit + 'p" where
  "one_parse v b = Inr v"

definition unary_show :: "uuid \<Rightarrow> string" where
  "unary_show u = replicate u CHR ''0''"

definition unary_parse :: "string \<Rightarrow> uuid option" where
  "unary_parse s = Some (length s)"

lemma one_roundtrip: "proto_roundtrip (one_write v) (one_parse v)"
  by (simp add: proto_roundtrip_def one_write_def one_parse_def)

lemma unary_roundtrip: "\<forall>u. unary_parse (unary_show u) = Some u"
  by (simp add: unary_parse_def unary_show_def)

definition ex_stop :: stop_shard where
  "ex_stop = \<lparr>stop_shard_id = 1, stop_request_id = 2, stop_origin_node_id = 3\<rparr>"

definition ex_proto_stop :: proto_stop_shard where
  "ex_proto_stop = \<lparr>pstop_shard_id = 1, pstop_request_id = ''00'', pstop_origin_node_id = 3\<rparr>"

theorem host_messages_roundtrip_witness:
  "stop_shard_as_bytes (one_write ex_proto_stop) unary_show ex_stop = Inr [1] \<and>
   stop_shard_from_bytes (one_parse ex_proto_stop) unary_parse [1] = Inr (Inr ex_stop)"
proof -
  have enc: "stop_shard_as_bytes (one_write ex_proto_stop) unary_show ex_stop = Inr [1]"
    by (simp add: stop_shard_as_bytes_def ex_stop_def unary_show_def ex_proto_stop_def one_write_def to_bytes_def
        numeral_2_eq_2)
  moreover have "stop_shard_from_bytes (one_parse ex_proto_stop) unary_parse [1] = Inr (Inr ex_stop)"
    using host_messages_roundtrip [OF one_roundtrip one_roundtrip one_roundtrip one_roundtrip unary_roundtrip] enc
    by blast
  ultimately show ?thesis by blast
qed

end
