(* ===== verification/Remote_System.thy ===== *)
theory Remote_System
  imports Cluster_Nodes Actor_Context
begin

text \<open>
  The remote system of a node: the table of requests in flight and the replies to them
  (\<open>remote/actor/mod.rs\<close>, \<open>remote/system/rpc.rs\<close>, the result events of
  \<open>remote/net/server/session/mod.rs\<close>), the leader cell (\<open>remote/system/cluster.rs\<close>), the distributed
  registry of actors (\<open>remote/actor/registry.rs\<close>), the registry of clients (\<open>remote/actor/clients.rs\<close>)
  and the handlers that decode a remote message for a local actor (\<open>remote/handler.rs\<close>).

  Sending an event to another node is an action of the model; a channel that is dropped without an
  answer is \<open>None\<close>. The parser and the printer of UUIDs are arguments.
\<close>

section \<open>Requests in flight\<close>

datatype remote_response = RemoteOk bytes | RemoteErr actor_ref_err

definition response_is_ok :: "remote_response \<Rightarrow> bool" where
  "response_is_ok r = (case r of RemoteOk _ \<Rightarrow> True | _ \<Rightarrow> False)"

definition response_is_err :: "remote_response \<Rightarrow> bool" where
  "response_is_err r = (case r of RemoteErr _ \<Rightarrow> True | _ \<Rightarrow> False)"

definition response_into_result :: "remote_response \<Rightarrow> actor_ref_err + bytes" where
  "response_into_result r = (case r of RemoteOk b \<Rightarrow> Inr b | RemoteErr e \<Rightarrow> Inl e)"

record remote_handler =
  requests :: "(uuid, sender) hash_map"

definition remote_handler_new :: remote_handler where
  "remote_handler_new = \<lparr>requests = []\<rparr>"

definition push_request :: "uuid \<Rightarrow> sender \<Rightarrow> remote_handler \<Rightarrow> remote_handler" where
  "push_request u tx h = h\<lparr>requests := hm_insert u tx (requests h)\<rparr>"

definition pop_request :: "uuid \<Rightarrow> remote_handler \<Rightarrow> sender option \<times> remote_handler" where
  "pop_request u h = (hm_get (requests h) u, h\<lparr>requests := hm_remove u (requests h)\<rparr>)"

definition inflight_request_count :: "remote_handler \<Rightarrow> nat" where
  "inflight_request_count h = length (requests h)"

section \<open>Calls and replies between nodes\<close>

datatype session_event = EventResult string bytes | EventErr string actor_ref_err

datatype rpc_action =
    Respond sender remote_response
  | SendEvent node_id session_event

datatype node_rpc_err = NodeUnreachable | NodeSerialisation | ReceiveFailed | NodeRefErr actor_ref_err

text \<open>
  \<open>node_rpc_raw\<close> stores the request, writes the event and waits: its first part, and what it returns
  once the channel yields a response or is dropped.
\<close>

definition node_rpc_raw ::
  "uuid \<Rightarrow> sender \<Rightarrow> session_event \<Rightarrow> node_id \<Rightarrow> remote_handler \<Rightarrow> remote_handler \<times> rpc_action list" where
  "node_rpc_raw u tx ev node h = (push_request u tx h, [SendEvent node ev])"

definition node_rpc_raw_result :: "remote_response option \<Rightarrow> node_rpc_err + bytes" where
  "node_rpc_raw_result rx =
     (case rx of
        Some (RemoteOk b) \<Rightarrow> Inr b
      | Some (RemoteErr e) \<Rightarrow> Inl (NodeRefErr e)
      | None \<Rightarrow> Inl ReceiveFailed)"

definition node_rpc_result :: "(bytes \<Rightarrow> 't option) \<Rightarrow> remote_response option \<Rightarrow> node_rpc_err + 't" where
  "node_rpc_result read rx =
     (case node_rpc_raw_result rx of
        Inr b \<Rightarrow> (case read b of Some t \<Rightarrow> Inr t | None \<Rightarrow> Inl NodeSerialisation)
      | Inl _ \<Rightarrow> Inl ReceiveFailed)"

text \<open>Replies to a request; \<open>tx\<close> is the fresh channel that a reply to another node waits on.\<close>

definition notify_raw_rpc_result ::
  "(uuid \<Rightarrow> string) \<Rightarrow> node_id \<Rightarrow> sender \<Rightarrow> uuid \<Rightarrow> bytes \<Rightarrow> node_id \<Rightarrow> remote_handler \<Rightarrow>
   remote_handler \<times> rpc_action list" where
  "notify_raw_rpc_result uuid_show self tx u result node h =
     (if node = self then
        (case pop_request u h of
           (Some s, h') \<Rightarrow> (h', [Respond s (RemoteOk result)])
         | (None, h') \<Rightarrow> (h', []))
      else node_rpc_raw u tx (EventResult (uuid_show u) result) node h)"

definition notify_rpc_err ::
  "(uuid \<Rightarrow> string) \<Rightarrow> node_id \<Rightarrow> sender \<Rightarrow> uuid \<Rightarrow> actor_ref_err \<Rightarrow> node_id \<Rightarrow> remote_handler \<Rightarrow>
   remote_handler \<times> rpc_action list" where
  "notify_rpc_err uuid_show self tx u err node h =
     (if node = self then
        (case pop_request u h of
           (Some s, h') \<Rightarrow> (h', [Respond s (RemoteErr err)])
         | (None, h') \<Rightarrow> (h', []))
      else node_rpc_raw u tx (EventErr (uuid_show u) err) node h)"

text \<open>The two reply events at the receiving session: neither is acknowledged.\<close>

definition session_reply ::
  "(string \<Rightarrow> uuid option) \<Rightarrow> session_event \<Rightarrow> remote_handler \<Rightarrow> (remote_handler \<times> rpc_action list) may_panic" where
  "session_reply uuid_parse ev h =
     (let (id, response) = (case ev of EventResult i b \<Rightarrow> (i, RemoteOk b) | EventErr i e \<Rightarrow> (i, RemoteErr e))
      in case uuid_parse id of
           None \<Rightarrow> Inl (Panic ''called unwrap on an Err value'')
         | Some u \<Rightarrow>
             (case pop_request u h of
                (Some s, h') \<Rightarrow> Inr (h', [Respond s response])
              | (None, h') \<Rightarrow> Inr (h', [])))"

section \<open>The leader cell\<close>

text \<open>An \<open>AtomicI64\<close> that holds a \<open>u64\<close> node id, negative for none.\<close>

definition current_leader :: "int \<Rightarrow> node_id option" where
  "current_leader n = (if 0 \<le> n then Some (word_of_int n) else None)"

definition update_leader :: "node_id \<Rightarrow> int \<Rightarrow> int \<times> node_id option" where
  "update_leader new_leader n = (sint new_leader, current_leader n)"

section \<open>The registry of actors\<close>

record 'ring remote_registry =
  reg_nodes :: "'ring remote_node_store"
  reg_actors :: "(actor_id, node_id) hash_map"
  reg_system :: "node_id option"

definition remote_registry_new :: "'ring hash_ring \<Rightarrow> 'ring remote_registry" where
  "remote_registry_new ring = \<lparr>reg_nodes = node_store_new ring [], reg_actors = [], reg_system = None\<rparr>"

definition registry_set_remote :: "node_id \<Rightarrow> 'ring remote_registry \<Rightarrow> 'ring remote_registry" where
  "registry_set_remote node r = r\<lparr>reg_system := Some node\<rparr>"

definition registry_get_nodes :: "'ring remote_registry \<Rightarrow> remote_node_state list" where
  "registry_get_nodes r = get_all (reg_nodes r)"

definition registry_register_node ::
  "'ring hash_ring \<Rightarrow> remote_node \<Rightarrow> 'ring remote_registry \<Rightarrow> 'ring remote_registry" where
  "registry_register_node ring n r = r\<lparr>reg_nodes := node_store_add ring n (reg_nodes r)\<rparr>"

definition registry_update_nodes ::
  "remote_node_state list \<Rightarrow> 'ring remote_registry \<Rightarrow> 'ring remote_registry" where
  "registry_update_nodes ns r = r\<lparr>reg_nodes := update_nodes ns (reg_nodes r)\<rparr>"

definition registry_node_terminated :: "node_id \<Rightarrow> 'ring remote_registry \<Rightarrow> 'ring remote_registry" where
  "registry_node_terminated nid r = r\<lparr>reg_nodes := node_terminated nid (reg_nodes r)\<rparr>"

datatype registry_action =
    AnswerNode sender "node_id option"
  | AskNode node_id actor_id sender
  | SendRegister node_id actor_id node_id

definition assigned_node :: "'ring hash_ring \<Rightarrow> actor_id \<Rightarrow> node_id \<Rightarrow> 'ring remote_registry \<Rightarrow> node_id" where
  "assigned_node ring aid self r =
     (case get_by_key ring aid (reg_nodes r) of Some n \<Rightarrow> node_id n | None \<Rightarrow> self)"

definition get_actor_node ::
  "'ring hash_ring \<Rightarrow> actor_id \<Rightarrow> sender \<Rightarrow> 'ring remote_registry \<Rightarrow> registry_action may_panic" where
  "get_actor_node ring aid tx r =
     (case reg_system r of
        None \<Rightarrow> Inl (Panic ''called unwrap on a None value'')
      | Some self \<Rightarrow>
          (let target = assigned_node ring aid self r;
               entry = hm_get (reg_actors r) aid
           in Inr (if entry \<noteq> None \<or> target = self then AnswerNode tx entry else AskNode target aid tx)))"

text \<open>What the lookup task sends to its caller once the other node has answered.\<close>

definition actor_node_reply ::
  "(bytes \<Rightarrow> 'err + node_id option) \<Rightarrow> remote_response option \<Rightarrow> (node_id option) may_panic" where
  "actor_node_reply parse_address rx =
     (case rx of
        Some (RemoteOk b) \<Rightarrow>
          (case parse_address b of
             Inr n \<Rightarrow> Inr n
           | Inl _ \<Rightarrow> Inl (Panic ''failed to decode message''))
      | _ \<Rightarrow> Inl (Panic ''get actornode failed''))"

definition registry_register_actor ::
  "'ring hash_ring \<Rightarrow> actor_id \<Rightarrow> node_id option \<Rightarrow> 'ring remote_registry \<Rightarrow>
   'ring remote_registry \<times> registry_action list" where
  "registry_register_actor ring aid node r =
     (case node of
        Some n \<Rightarrow> (r\<lparr>reg_actors := hm_insert aid n (reg_actors r)\<rparr>, [])
      | None \<Rightarrow>
          (case reg_system r of
             None \<Rightarrow> (r, [])
           | Some self \<Rightarrow>
               (let target = assigned_node ring aid self r
                in if target = self then (r\<lparr>reg_actors := hm_insert aid self (reg_actors r)\<rparr>, [])
                   else (r, [SendRegister target aid self]))))"

section \<open>The registry of clients\<close>

record client_registry =
  node_addr_registry :: "(string, actor_ref) hash_map"
  node_id_registry :: "(node_id, actor_ref) hash_map"

definition client_registry_new :: client_registry where
  "client_registry_new = \<lparr>node_addr_registry = [], node_id_registry = []\<rparr>"

text \<open>\<open>client\<close> is the actor that is created when the address has none.\<close>

definition new_client :: "actor_ref \<Rightarrow> string \<Rightarrow> client_registry \<Rightarrow> actor_ref option \<times> client_registry" where
  "new_client client addr c =
     (case hm_get (node_addr_registry c) addr of
        Some r \<Rightarrow> (Some r, c)
      | None \<Rightarrow> (Some client, c\<lparr>node_addr_registry := hm_insert addr client (node_addr_registry c)\<rparr>))"

definition remove_client :: "string \<Rightarrow> node_id option \<Rightarrow> client_registry \<Rightarrow> client_registry" where
  "remove_client addr node c =
     c\<lparr>node_id_registry := (case node of Some n \<Rightarrow> hm_remove n (node_id_registry c) | None \<Rightarrow> node_id_registry c),
       node_addr_registry := hm_remove addr (node_addr_registry c)\<rparr>"

definition client_connected :: "node_id \<Rightarrow> actor_ref \<Rightarrow> client_registry \<Rightarrow> client_registry" where
  "client_connected node r c = c\<lparr>node_id_registry := hm_insert node r (node_id_registry c)\<rparr>"

text \<open>A write goes to the client of the node; without one it is dropped. A closed client panics.\<close>

definition client_write ::
  "(actor_ref \<Rightarrow> bool) \<Rightarrow> node_id \<Rightarrow> 'ev \<Rightarrow> client_registry \<Rightarrow> ((actor_ref \<times> 'ev) option) may_panic" where
  "client_write is_open node ev c =
     (case hm_get (node_id_registry c) node of
        None \<Rightarrow> Inr None
      | Some r \<Rightarrow> if is_open r then Inr (Some (r, ev)) else Inl (Panic ''send client msg''))"

section \<open>Messages for local actors\<close>

text \<open>
  The cache of references in front of the scheduler. \<open>valid\<close> says whether a reference's mailbox is open
  and \<open>tracked\<close> is what the scheduler answers.
\<close>

definition cached_actor_ref ::
  "type_name \<Rightarrow> (actor_ref \<Rightarrow> bool) \<Rightarrow> (actor_id \<Rightarrow> actor_ref option) \<Rightarrow> actor_id \<Rightarrow>
   (actor_id, actor_ref) hash_map \<Rightarrow> actor_ref option \<times> (actor_id, actor_ref) hash_map" where
  "cached_actor_ref ty valid tracked aid cache =
     (case hm_get cache aid of
        Some r \<Rightarrow>
          if ref_type r = ty \<and> valid r then (Some r, cache)
          else (case tracked aid of
                  Some t \<Rightarrow> (Some t, hm_insert aid t cache)
                | None \<Rightarrow> (None, cache))
      | None \<Rightarrow>
          (case tracked aid of
             Some t \<Rightarrow> (Some t, hm_insert aid t cache)
           | None \<Rightarrow> (None, cache)))"

definition max_retries :: nat where
  "max_retries = 10"

text \<open>
  \<open>look\<close> gives the reference found at each attempt and \<open>send\<close> the actor's answer; the result is what
  reaches the result channel, \<open>None\<close> when it is dropped.
\<close>

definition handle_found ::
  "('m, 'r) message_impl \<Rightarrow> (actor_ref \<Rightarrow> 'm \<Rightarrow> actor_ref_err + 'r) \<Rightarrow> bytes \<Rightarrow> actor_ref \<Rightarrow>
   (actor_ref_err + bytes) option" where
  "handle_found M send buffer actor =
     (case from_envelope M (EnvRemote buffer) of
        Inl e \<Rightarrow> Some (Inl (Deserialisation e))
      | Inr m \<Rightarrow>
          (case send actor m of
             Inl _ \<Rightarrow> None
           | Inr r \<Rightarrow>
               (case write_remote_result M r of
                  Inr b \<Rightarrow> Some (Inr b)
                | Inl e \<Rightarrow> Some (Inl (Serialisation e)))))"

function handle_attempt ::
  "('m, 'r) message_impl \<Rightarrow> (nat \<Rightarrow> actor_ref option) \<Rightarrow> (actor_ref \<Rightarrow> 'm \<Rightarrow> actor_ref_err + 'r) \<Rightarrow>
   actor_id \<Rightarrow> bytes \<Rightarrow> nat \<Rightarrow> (actor_ref_err + bytes) option" where
  "handle_attempt M look send aid buffer attempt =
     (case look attempt of
        Some actor \<Rightarrow> handle_found M send buffer actor
      | None \<Rightarrow>
          if attempt + 1 \<ge> max_retries then Some (Inl (NotFound aid))
          else handle_attempt M look send aid buffer (attempt + 1))"
  by pat_completeness auto
termination
  by (relation "measure (\<lambda>(_, _, _, _, _, attempt). max_retries - attempt)") auto

declare handle_attempt.simps [simp del]

definition remote_handle_message ::
  "('m, 'r) message_impl option \<Rightarrow> (nat \<Rightarrow> actor_ref option) \<Rightarrow> (actor_ref \<Rightarrow> 'm \<Rightarrow> actor_ref_err + 'r) \<Rightarrow>
   string \<Rightarrow> actor_id \<Rightarrow> bytes \<Rightarrow> actor_ref_err + bytes" where
  "remote_handle_message handler look send identifier aid buffer =
     (case handler of
        None \<Rightarrow> Inl (NotSupported aid identifier '''')
      | Some M \<Rightarrow>
          (case handle_attempt M look send aid buffer 1 of
             Some res \<Rightarrow> res
           | None \<Rightarrow> Inl ResultChannelClosed))"

text \<open>\<open>handle_direct\<close>: the actor is known. With no result channel it is only notified.\<close>

datatype 'm direct_effect = DirectAnswer "actor_ref_err + bytes" | DirectNotify actor_ref 'm | DirectNothing

definition handle_direct ::
  "type_name \<Rightarrow> ('m, 'r) message_impl \<Rightarrow> (actor_ref \<Rightarrow> 'm \<Rightarrow> actor_ref_err + 'r) \<Rightarrow> actor_ref \<Rightarrow> bytes \<Rightarrow> bool \<Rightarrow>
   'm direct_effect" where
  "handle_direct ty M send actor buffer has_channel =
     (case from_envelope M (EnvRemote buffer) of
        Inr m \<Rightarrow>
          (if ref_type actor = ty then
             (if has_channel then
                DirectAnswer
                  (case send actor m of
                     Inl e \<Rightarrow> Inl e
                   | Inr r \<Rightarrow> (case write_remote_result M r of Inr b \<Rightarrow> Inr b | Inl e \<Rightarrow> Inl (Serialisation e)))
              else DirectNotify actor m)
           else if has_channel then DirectAnswer (Inl InvalidRef) else DirectNothing)
      | Inl e \<Rightarrow> if has_channel then DirectAnswer (Inl (Deserialisation e)) else DirectNothing)"

section \<open>Location and creation of actors across nodes\<close>

text \<open>
  An \<open>ActorRef\<close> is local or remote. \<open>rx\<close> is what the lookup's channel yields within its five seconds.
\<close>

datatype any_ref = LocalRef actor_ref | RemoteRef actor_id node_id

type_synonym actor_address = "actor_id \<times> node_id option"

definition locate_actor_node :: "actor_ref_err + unit \<Rightarrow> node_id option option \<Rightarrow> node_id option" where
  "locate_actor_node sent rx =
     (case sent of
        Inl _ \<Rightarrow> None
      | Inr _ \<Rightarrow> (case rx of Some res \<Rightarrow> res | None \<Rightarrow> None))"

definition remote_actor_ref ::
  "(actor_id \<Rightarrow> actor_ref option) \<Rightarrow> node_id \<Rightarrow> node_id option \<Rightarrow> actor_id \<Rightarrow> any_ref option" where
  "remote_actor_ref tracked self located aid =
     (case located of
        Some n \<Rightarrow> if n = self then map_option LocalRef (tracked aid) else Some (RemoteRef aid n)
      | None \<Rightarrow> None)"

datatype remote_actor_err =
    RemActorUnavailable | RemActorExists | RecipeSerializationErr | MessageSerializationErr
  | ResultSerializationErr | ActorNotSupported | RemNodeErr node_rpc_err

text \<open>
  \<open>ActorHandler::create\<close>: \<open>read_recipe\<close> and \<open>build\<close> are the factory's, \<open>start\<close> starts the actor under its parent
  or as a tracked actor.
\<close>

definition actor_handler_create ::
  "(bytes \<Rightarrow> 'rcp option) \<Rightarrow> ('rcp \<Rightarrow> 'e + 'st) \<Rightarrow> (actor_id \<Rightarrow> 'st \<Rightarrow> actor_ref option \<Rightarrow> actor_ref_err + actor_ref) \<Rightarrow>
   actor_id option \<Rightarrow> actor_id \<Rightarrow> bytes \<Rightarrow> actor_ref option \<Rightarrow> actor_ref_err + actor_ref" where
  "actor_handler_create read_recipe build start aid fresh_id recipe parent =
     (case read_recipe recipe of
        None \<Rightarrow> Inl ActorUnavailable
      | Some r \<Rightarrow>
          (case build r of
             Inl _ \<Rightarrow> Inl ActorUnavailable
           | Inr st \<Rightarrow> start (case aid of Some a \<Rightarrow> a | None \<Rightarrow> fresh_id) st parent))"

text \<open>
  \<open>located\<close> is where the registry found the id; \<open>create\<close> the handler of the actor type; \<open>write_address\<close>
  encodes the address of the new actor.
\<close>

definition handle_create_actor ::
  "(actor_address \<Rightarrow> 'err + bytes) \<Rightarrow> node_id option \<Rightarrow> (actor_id \<Rightarrow> bytes \<Rightarrow> actor_ref_err + actor_ref) option \<Rightarrow>
   node_id \<Rightarrow> actor_id option \<Rightarrow> actor_id \<Rightarrow> bytes \<Rightarrow> remote_actor_err + bytes" where
  "handle_create_actor write_address located create self aid fresh_id recipe =
     (if aid \<noteq> None \<and> located \<noteq> None then Inl RemActorExists
      else
        (case create of
           None \<Rightarrow> Inl ActorNotSupported
         | Some f \<Rightarrow>
             (case f (case aid of Some a \<Rightarrow> a | None \<Rightarrow> fresh_id) recipe of
                Inl _ \<Rightarrow> Inl RemActorUnavailable
              | Inr r \<Rightarrow>
                  (case write_address (ref_id r, Some self) of
                     Inr b \<Rightarrow> Inr b
                   | Inl _ \<Rightarrow> Inl RemActorUnavailable))))"

text \<open>
  \<open>deploy_actor\<close>: \<open>local\<close> is the result of creating the actor here, \<open>rpc\<close> that of asking the other node. An
  absent message field reads as its default.
\<close>

definition deploy_actor ::
  "(bytes \<Rightarrow> 'err + actor_address) \<Rightarrow> node_id \<Rightarrow> bytes option \<Rightarrow> node_id option \<Rightarrow>
   remote_actor_err + bytes \<Rightarrow> node_rpc_err + actor_address \<Rightarrow> (remote_actor_err + any_ref) may_panic" where
  "deploy_actor parse_address self recipe node local rpc =
     (case recipe of
        None \<Rightarrow> Inr (Inl RecipeSerializationErr)
      | Some _ \<Rightarrow>
          (let to_ref = (\<lambda>(aid, n). Inr (Inr (RemoteRef aid (case n of Some v \<Rightarrow> v | None \<Rightarrow> 0))))
           in if (case node of Some n \<Rightarrow> n | None \<Rightarrow> self) = self then
                (case local of
                   Inl e \<Rightarrow> Inr (Inl e)
                 | Inr b \<Rightarrow>
                     (case parse_address b of
                        Inl _ \<Rightarrow> Inl (Panic ''called unwrap on an Err value'')
                      | Inr addr \<Rightarrow> to_ref addr))
              else
                (case rpc of
                   Inl e \<Rightarrow> Inr (Inl (RemNodeErr e))
                 | Inr addr \<Rightarrow> to_ref addr)))"

section \<open>Replies\<close>

lemma pop_after_push [simp]:
  "pop_request u (push_request u tx h) = (Some tx, h\<lparr>requests := hm_remove u (hm_insert u tx (requests h))\<rparr>)"
  by (simp add: pop_request_def push_request_def)

text \<open>A call to another node gets the reply of its own request: when the callee answers a request that
  is not already in flight at the caller, the caller's session decodes the request id, hands the
  bytes or the error to the channel of that request and to no other, and leaves the other requests in
  flight as they were.\<close>

theorem rpc_reply_reaches_caller:
  assumes "\<forall>u. uuid_parse (uuid_show u) = Some u" and "caller \<noteq> callee"
    and "hm_get (requests ha) u = None"
  shows "\<exists>ha'. hm_get (requests ha') = hm_get (requests ha) \<and>
           session_reply uuid_parse (EventResult (uuid_show u) b) (fst (node_rpc_raw u tx ev callee ha)) =
             Inr (ha', [Respond tx (RemoteOk b)]) \<and>
           session_reply uuid_parse (EventErr (uuid_show u) err) (fst (node_rpc_raw u tx ev callee ha)) =
             Inr (ha', [Respond tx (RemoteErr err)]) \<and>
           snd (notify_raw_rpc_result uuid_show callee tx' u b caller hb) =
             [SendEvent caller (EventResult (uuid_show u) b)] \<and>
           snd (notify_rpc_err uuid_show callee tx' u err caller hb) =
             [SendEvent caller (EventErr (uuid_show u) err)]"
proof -
  let ?ha = "ha\<lparr>requests := hm_remove u (hm_insert u tx (requests ha))\<rparr>"
  have "hm_get (requests ?ha) = hm_get (requests ha)" using assms(3) by (simp add: fun_eq_iff)
  moreover have "session_reply uuid_parse (EventResult (uuid_show u) b) (fst (node_rpc_raw u tx ev callee ha)) =
      Inr (?ha, [Respond tx (RemoteOk b)])"
    "session_reply uuid_parse (EventErr (uuid_show u) err) (fst (node_rpc_raw u tx ev callee ha)) =
      Inr (?ha, [Respond tx (RemoteErr err)])"
    using assms(1) by (simp_all add: session_reply_def node_rpc_raw_def)
  ultimately show ?thesis
    using assms(2) by (intro exI [of _ ?ha]) (simp add: notify_raw_rpc_result_def notify_rpc_err_def node_rpc_raw_def)
qed

definition unary :: "uuid \<Rightarrow> string" where
  "unary u = replicate u CHR ''0''"

theorem rpc_reply_reaches_caller_witness:
  "\<exists>ha'. session_reply (\<lambda>s. Some (length s)) (EventResult (unary 5) [7])
     (fst (node_rpc_raw 5 9 (EventResult [] []) 2 remote_handler_new)) = Inr (ha', [Respond 9 (RemoteOk [7])])"
proof -
  have "\<forall>u. Some (length (unary u)) = Some u" "(1 :: node_id) \<noteq> 2"
    "hm_get (requests remote_handler_new) 5 = None"
    by (simp_all add: unary_def remote_handler_new_def)
  from rpc_reply_reaches_caller [OF this, of "[7]" 9 "EventResult [] []" ActorUnavailable] show ?thesis by blast
qed

text \<open>Every reply sent to another node leaves an entry behind: the replying node stores the request id in
  its own table and waits for an answer that the receiving session never sends, so that after replies
  to any number of distinct requests its count of requests in flight has grown by that number.\<close>

theorem remote_reply_leaks_entry:
  assumes "distinct (map fst replies)" and "\<forall>(u, b, node)\<in>set replies. node \<noteq> self \<and> hm_get (requests h) u = None"
  shows "inflight_request_count
           (foldl (\<lambda>h (u, b, node). fst (notify_raw_rpc_result uuid_show self (tx u) u b node h)) h replies) =
         inflight_request_count h + length replies"
  using assms
proof (induction replies arbitrary: h)
  case Nil
  then show ?case by simp
next
  case (Cons r replies)
  obtain u b node where r: "r = (u, b, node)" by (cases r) auto
  let ?h = "push_request u (tx u) h"
  have "fst (notify_raw_rpc_result uuid_show self (tx u) u b node h) = ?h"
    using Cons.prems(2) r by (simp add: notify_raw_rpc_result_def node_rpc_raw_def)
  moreover have "\<forall>(u', b, node)\<in>set replies. node \<noteq> self \<and> hm_get (requests ?h) u' = None"
    using Cons.prems r by (force simp: push_request_def)
  moreover have "inflight_request_count ?h = inflight_request_count h + 1"
    using Cons.prems(2) r by (simp add: inflight_request_count_def push_request_def hm_length_insert)
  ultimately show ?case using Cons.IH [of ?h] Cons.prems(1) r by simp
qed

theorem remote_reply_leaks_entry_witness:
  "inflight_request_count
     (foldl (\<lambda>h (u, b, node). fst (notify_raw_rpc_result unary 1 ((\<lambda>u. u) u) u b node h)) remote_handler_new
        [(5, [7], 2), (6, [8], 2)]) = 2"
proof -
  have "distinct (map fst [(5 :: uuid, [7 :: byte], 2 :: node_id), (6, [8], 2)])"
    "\<forall>(u, b, node)\<in>set [(5 :: uuid, [7 :: byte], 2 :: node_id), (6, [8], 2)].
       node \<noteq> 1 \<and> hm_get (requests remote_handler_new) u = None"
    by (simp_all add: remote_handler_new_def)
  from remote_reply_leaks_entry [OF this, of unary "\<lambda>u. u"] show ?thesis
    by (simp add: inflight_request_count_def remote_handler_new_def)
qed

lemma leader_cell:
  "current_leader (fst (update_leader n c)) = (if n < 2 ^ 63 then Some n else None)"
proof (cases "n < 2 ^ 63")
  case True
  then have "uint n < 2 ^ 63" by (simp add: word_less_def)
  moreover have "- (2 ^ 63) \<le> uint n" by (rule order_trans [OF _ unsigned_greater_eq]) simp
  ultimately have "sint n = uint n" by (simp add: sint_uint signed_take_bit_int_eq_self)
  with True show ?thesis by (simp add: update_leader_def current_leader_def)
next
  case False
  then have "2 ^ 63 \<le> uint n" by (simp add: word_less_def)
  moreover have "uint n < 2 ^ 64" using unsigned_less [where 'a = int, of n] by simp
  ultimately have "uint n div 2 ^ 63 = 1" by (intro int_div_pos_eq [of _ _ _ "uint n - 2 ^ 63"]) simp_all
  then have "bit (uint n) 63" by (simp add: bit_iff_odd)
  then have "sint n < 0" by (simp add: sint_uint)
  with False show ?thesis by (simp add: update_leader_def current_leader_def)
qed

text \<open>The leader cell loses half of the node ids: a \<open>u64\<close> id is kept as an \<open>i64\<close> whose negative values
  mean no leader, so the leader that was just stored is read back exactly when its id is below 2^63;
  every larger id (ids are drawn at random from all 64-bit numbers) reads as no leader at all.\<close>

theorem leader_cell_bounds:
  "current_leader (fst (update_leader n c)) = (if n < 2 ^ 63 then Some n else None)"
  by (rule leader_cell)

section \<open>Retries\<close>

lemma handle_attempt_finds:
  "n < max_retries \<Longrightarrow>
   handle_attempt M look send aid buffer n =
     (case find (\<lambda>k. look k \<noteq> None) [n..<max_retries] of
        None \<Rightarrow> Some (Inl (NotFound aid))
      | Some k \<Rightarrow> handle_found M send buffer (the (look k)))"
proof (induction "max_retries - n" arbitrary: n)
  case 0
  then show ?case by simp
next
  case (Suc d)
  have upt: "[n..<max_retries] = n # [Suc n..<max_retries]" using Suc.prems by (simp add: upt_conv_Cons)
  show ?case
  proof (cases "look n")
    case (Some r)
    then show ?thesis by (simp add: handle_attempt.simps upt)
  next
    case None
    show ?thesis
    proof (cases "n + 1 \<ge> max_retries")
      case True
      with None Suc.prems show ?thesis by (simp add: handle_attempt.simps upt)
    next
      case False
      then have "handle_attempt M look send aid buffer (Suc n) =
          (case find (\<lambda>k. look k \<noteq> None) [Suc n..<max_retries] of
             None \<Rightarrow> Some (Inl (NotFound aid)) | Some k \<Rightarrow> handle_found M send buffer (the (look k)))"
        using Suc.hyps by simp
      with None False show ?thesis by (subst handle_attempt.simps) (simp add: upt)
    qed
  qed
qed

text \<open>A remote message for a local actor is retried a bounded number of times and always answered: the
  actor is looked up at most nine times; the message goes to the first reference found and the
  answer is the actor's encoded result or the encoding error; if no attempt finds it the answer is
  \<open>NotFound\<close>, and a handler whose channel is dropped yields \<open>ResultChannelClosed\<close>.\<close>

theorem remote_message_retries:
  "remote_handle_message (Some M) look send identifier aid buffer =
     (case find (\<lambda>k. look k \<noteq> None) [1..<10] of
        None \<Rightarrow> Inl (NotFound aid)
      | Some k \<Rightarrow>
          (case handle_found M send buffer (the (look k)) of
             Some res \<Rightarrow> res
           | None \<Rightarrow> Inl ResultChannelClosed))"
  by (simp add: remote_handle_message_def handle_attempt_finds max_retries_def split: option.splits)

section \<open>Registration and lookup across the cluster\<close>

text \<open>
  A cluster is a registry per node. Registering at a node and delivering the event it may send;
  looking up at a node, asking the assigned node when it says so, at most \<open>fuel\<close> nodes deep.
\<close>

definition cluster_register ::
  "'ring hash_ring \<Rightarrow> actor_id \<Rightarrow> node_id \<Rightarrow> (node_id \<Rightarrow> 'ring remote_registry) \<Rightarrow> node_id \<Rightarrow> 'ring remote_registry" where
  "cluster_register ring aid n cl =
     (let (r, acts) = registry_register_actor ring aid None (cl n); cl1 = cl(n := r)
      in case acts of
           [SendRegister target a m] \<Rightarrow> cl1(target := fst (registry_register_actor ring a (Some m) (cl1 target)))
         | _ \<Rightarrow> cl1)"

fun cluster_lookup ::
  "nat \<Rightarrow> 'ring hash_ring \<Rightarrow> actor_id \<Rightarrow> node_id \<Rightarrow> (node_id \<Rightarrow> 'ring remote_registry) \<Rightarrow> node_id option option" where
  "cluster_lookup 0 ring aid q cl = None"
| "cluster_lookup (Suc fuel) ring aid q cl =
     (case get_actor_node ring aid 0 (cl q) of
        Inr (AnswerNode _ n) \<Rightarrow> Some n
      | Inr (AskNode target a _) \<Rightarrow> cluster_lookup fuel ring a target cl
      | _ \<Rightarrow> None)"

text \<open>An actor that registered is found from every node: when the nodes agree on the node their ring
  assigns to the actor's id, then after the actor's own node registered it, a lookup at any node
  answers that node, after at most one hop, provided the asking node holds no stale entry.\<close>

theorem registered_actor_is_found:
  assumes "\<forall>m\<in>{n, q, a}. reg_system (cl m) = Some m \<and> assigned_node ring aid m (cl m) = a"
    and "q \<noteq> a \<longrightarrow> hm_get (reg_actors (cl q)) aid = None"
  shows "cluster_lookup 2 ring aid q (cluster_register ring aid n cl) = Some (Some n)"
proof -
  let ?r = "(cl a)\<lparr>reg_actors := hm_insert aid n (reg_actors (cl a))\<rparr>"
  have "cluster_register ring aid n cl = cl(a := ?r)"
    using assms(1) by (cases "n = a") (auto simp: cluster_register_def registry_register_actor_def)
  moreover have "assigned_node ring aid a ?r = a" "reg_system ?r = Some a"
    using assms(1) by (simp_all add: assigned_node_def)
  then have "get_actor_node ring aid 0 ?r = Inr (AnswerNode 0 (Some n))"
    by (simp add: get_actor_node_def)
  moreover have "get_actor_node ring aid 0 (cl q) = Inr (AskNode a aid 0)" if "q \<noteq> a"
    using assms that by (simp add: get_actor_node_def)
  ultimately show ?thesis by (cases "q = a") (simp_all add: numeral_2_eq_2)
qed

theorem registered_actor_is_found_witness:
  "cluster_lookup 2 list_ring ''x'' 2
     (cluster_register list_ring ''x'' 2
        (\<lambda>m. registry_register_node list_ring (ex_node 1) (registry_set_remote m (remote_registry_new list_ring)))) =
   Some (Some 2)"
proof (rule registered_actor_is_found [where a = 1])
qed (simp_all add: registry_register_node_def registry_set_remote_def remote_registry_new_def assigned_node_def
    get_by_key_def node_store_add_def node_store_new_def list_ring_def ex_node_def
    Let_def get_all_def collect_map_def remote_node_state_new_def remote_node_from_state_def)

end
