(* ===== verification/Conduits.thy ===== *)
theory Conduits
  imports Keyed_Machines
begin

text \<open>
  Machines that pass messages on. The proxy of a singleton and the client of a connection take messages,
  hold them while they cannot be passed on and put them out later. The locale states what both promise
  of a single step; its lemmas are what they promise of a whole run: what is put out, followed by what is held, is what
  was taken, in order, so nothing is lost, doubled or reordered on the way out of the machine.

  \<open>adm\<close> are the inputs considered. What a machine takes with an input may depend on its state. \<open>panics\<close> says when a step
  panics, and \<open>stops\<close> marks the effect with which a machine gives up; up to there it is \<open>live\<close>.
\<close>

definition effects :: "('x \<times> 'a list) list \<Rightarrow> 'a list" where
  "effects tr = concat (map snd tr)"

lemma effects_simps [simp]: "effects [] = []" "effects ((x, acts) # tr) = acts @ effects tr"
  by (simp_all add: effects_def)

lemma effects_append [simp]: "effects (tr @ tr') = effects tr @ effects tr'"
  by (simp add: effects_def)

lemma run_inputs_snoc:
  "run_inputs step xs s = Inr (s1, tr) \<Longrightarrow> step x s1 = Inr (s2, acts) \<Longrightarrow>
   run_inputs step (xs @ [x]) s = Inr (s2, tr @ [(x, acts)])"
  by (induction xs arbitrary: s tr) (auto split: sum.splits)

text \<open>What a machine takes along a run.\<close>

fun takes ::
  "('x \<Rightarrow> 's \<Rightarrow> ('s \<times> 'a list) may_panic) \<Rightarrow> ('x \<Rightarrow> 's \<Rightarrow> 'm list) \<Rightarrow> 'x list \<Rightarrow> 's \<Rightarrow> 'm list" where
  "takes step taken [] s = []"
| "takes step taken (x # xs) s =
     taken x s @ (case step x s of Inr (s', _) \<Rightarrow> takes step taken xs s' | Inl _ \<Rightarrow> [])"

lemma takes_stateless:
  "run_inputs step xs s = Inr (s', tr) \<Longrightarrow> takes step (\<lambda>x _. f x) xs s = concat (map f xs)"
  by (induction xs arbitrary: s tr) (auto split: sum.splits prod.splits)

locale conduit =
  fixes step :: "'x \<Rightarrow> 's \<Rightarrow> ('s \<times> 'a list) may_panic"
    and adm :: "'x \<Rightarrow> bool"
    and panics :: "'x \<Rightarrow> 's \<Rightarrow> bool"
    and taken :: "'x \<Rightarrow> 's \<Rightarrow> 'm list"
    and held :: "'s \<Rightarrow> 'm list"
    and out :: "'a \<Rightarrow> 'm list"
    and stops :: "'a \<Rightarrow> bool"
    and wf live :: "'s \<Rightarrow> bool"
  assumes step_panics: "wf s \<Longrightarrow> adm x \<Longrightarrow> step x s = Inl p \<Longrightarrow> panics x s"
    and step_passes: "wf s \<Longrightarrow> adm x \<Longrightarrow> step x s = Inr (s', acts) \<Longrightarrow>
      wf s' \<and> (live s \<longrightarrow> (\<forall>a \<in> set acts. \<not> stops a) \<longrightarrow>
        live s' \<and> concat (map out acts) @ held s' = held s @ taken x s)"
begin

lemma run_passes:
  assumes "run_inputs step xs s = Inr (s', tr)" "wf s" "\<forall>x \<in> set xs. adm x"
  shows "wf s' \<and> (live s \<longrightarrow> (\<forall>a \<in> set (effects tr). \<not> stops a) \<longrightarrow>
    live s' \<and> concat (map out (effects tr)) @ held s' = held s @ takes step taken xs s)"
  using assms
proof (induction xs arbitrary: s tr)
  case (Cons x xs)
  then obtain s1 acts tr1 where s1: "step x s = Inr (s1, acts)" "run_inputs step xs s1 = Inr (s', tr1)"
    "tr = (x, acts) # tr1"
    by (auto split: sum.splits)
  from step_passes [OF Cons.prems(2) _ s1(1)] Cons.prems(3) have p: "wf s1"
    "live s \<longrightarrow> (\<forall>a \<in> set acts. \<not> stops a) \<longrightarrow> live s1 \<and> concat (map out acts) @ held s1 = held s @ taken x s"
    by auto
  have "wf s' \<and> (live s1 \<longrightarrow> (\<forall>a \<in> set (effects tr1). \<not> stops a) \<longrightarrow>
      live s' \<and> concat (map out (effects tr1)) @ held s' = held s1 @ takes step taken xs s1)"
    using Cons.IH [OF s1(2) p(1)] Cons.prems(3) by simp
  with p(2) show ?case unfolding s1(3) by (auto simp: s1(1) ball_Un)
qed simp

lemma run_panics:
  assumes "run_inputs step xs s = Inl p" "wf s" "\<forall>x \<in> set xs. adm x"
  shows "\<exists>ys x zs s1 tr. xs = ys @ x # zs \<and> run_inputs step ys s = Inr (s1, tr) \<and> panics x s1"
  using assms
proof (induction xs arbitrary: s)
  case (Cons x xs)
  show ?case
  proof (cases "step x s")
    case (Inl q)
    with step_panics Cons.prems(2,3) have "panics x s" by simp
    then show ?thesis by (intro exI [of _ "[]"] exI) auto
  next
    case (Inr r)
    then obtain s1 acts where s1: "step x s = Inr (s1, acts)" by (cases r) auto
    have r1: "run_inputs step xs s1 = Inl p" using s1 Cons.prems(1) by (auto split: sum.splits)
    have w1: "wf s1" "\<forall>x \<in> set xs. adm x" using step_passes [OF Cons.prems(2) _ s1] Cons.prems(3) by simp_all
    from Cons.IH [OF r1 w1] obtain ys y zs s2 tr where
      "xs = ys @ y # zs" "run_inputs step ys s1 = Inr (s2, tr)" "panics y s2" by blast
    with s1 show ?thesis by (intro exI [of _ "x # ys"] exI [of _ y] exI [of _ zs] exI [of _ s2]) auto
  qed
qed simp

lemma run_completes:
  assumes "wf s" "\<forall>x \<in> set xs. adm x" "\<And>x s. \<not> panics x s"
  obtains s' tr where "run_inputs step xs s = Inr (s', tr)"
  using run_panics [of xs s] assms by (cases "run_inputs step xs s") auto

end

end
