(* ===== verification/Singleton.thy ===== *)
theory Singleton
  imports Remote_System Conduits
begin

text \<open>
  Cluster singletons: the manager of each node (\<open>singleton/manager/mod.rs\<close>, \<open>lease.rs\<close>, \<open>start.rs\<close>,
  \<open>status.rs\<close>) and the proxy through which a node reaches the singleton (\<open>singleton/proxy/mod.rs\<close>,
  \<open>send.rs\<close>).

  A manager keeps a reference per other manager; the model keeps its actor id under its node id. A
  handler returns the new state and what it causes: messages to managers and to the proxy, the task
  that starts the singleton's actor and the stop of it.
\<close>

section \<open>The manager\<close>

datatype manager_state =
    MJoining "node_id option"
  | MIdle
  | MStarting "node_id list"
  | MRunning actor_ref
  | MStopping actor_ref node_id

definition manager_state_default :: manager_state where
  "manager_state_default = MJoining None"

definition is_running :: "manager_state \<Rightarrow> bool" where
  "is_running s = (case s of MRunning _ \<Rightarrow> True | MStarting _ \<Rightarrow> True | _ \<Rightarrow> False)"

definition is_joining :: "manager_state \<Rightarrow> bool" where
  "is_joining s = (case s of MJoining _ \<Rightarrow> True | _ \<Rightarrow> False)"

definition get_singleton_actor :: "manager_state \<Rightarrow> actor_ref option" where
  "get_singleton_actor s = (case s of MRunning r \<Rightarrow> Some r | MStopping r _ \<Rightarrow> Some r | _ \<Rightarrow> None)"

record manager =
  mg_state :: manager_state
  mg_leader :: "node_id option"
  mg_node_id :: node_id
  mg_manager_id :: actor_id
  mg_singleton_id :: actor_id
  mg_managers :: "(node_id, actor_id) hash_map"
  mg_selector :: node_selector
  mg_subscribed :: bool

definition manager_new :: "node_id \<Rightarrow> actor_id \<Rightarrow> actor_id \<Rightarrow> node_selector \<Rightarrow> manager" where
  "manager_new node manager_id singleton_id sel =
     \<lparr>mg_state = manager_state_default, mg_leader = None, mg_node_id = node, mg_manager_id = manager_id,
      mg_singleton_id = singleton_id, mg_managers = [], mg_selector = sel, mg_subscribed = False\<rparr>"

datatype manager_msg =
    RequestLease node_id
  | LeaseAck node_id
  | SingletonStarted node_id
  | SingletonStopped node_id

datatype manager_action =
    NotifyManager node_id manager_msg
  | ScheduleNotify node_id manager_msg
  | StartSingleton
  | StopSingleton actor_ref
  | ProxyStarted any_ref
  | ProxyStopping

definition notify_manager :: "node_id \<Rightarrow> manager_msg \<Rightarrow> manager \<Rightarrow> manager_action list" where
  "notify_manager nid msg m =
     (case hm_get (mg_managers m) nid of Some _ \<Rightarrow> [NotifyManager nid msg] | None \<Rightarrow> [])"

definition notify_managers :: "manager_msg \<Rightarrow> manager \<Rightarrow> manager_action list" where
  "notify_managers msg m = map (\<lambda>nid. NotifyManager nid msg) (hm_keys (mg_managers m))"

text \<open>A notification that fails is scheduled again; the scheduled message looks the manager up anew.\<close>

definition notify_failed :: "node_id \<Rightarrow> manager_msg \<Rightarrow> manager_action list" where
  "notify_failed nid msg = [ScheduleNotify nid msg]"

definition handle_notify :: "node_id \<Rightarrow> manager_msg \<Rightarrow> manager \<Rightarrow> manager_action list" where
  "handle_notify nid msg m = notify_manager nid msg m"

definition on_all_managers_acknowledged :: "manager \<Rightarrow> manager_action list" where
  "on_all_managers_acknowledged m = [StartSingleton]"

definition request_lease :: "manager \<Rightarrow> manager_action list" where
  "request_lease m =
     (if length (mg_managers m) = 0 then on_all_managers_acknowledged m
      else notify_managers (RequestLease (mg_node_id m)) m)"

definition begin_starting :: "manager \<Rightarrow> manager \<times> manager_action list" where
  "begin_starting m = (m\<lparr>mg_state := MStarting []\<rparr>, request_lease (m\<lparr>mg_state := MStarting []\<rparr>))"

definition begin_stopping :: "node_id \<Rightarrow> manager \<Rightarrow> manager \<times> manager_action list" where
  "begin_stopping nid m =
     (case get_singleton_actor (mg_state m) of
        None \<Rightarrow> (m, [])
      | Some r \<Rightarrow>
          (m\<lparr>mg_state := MStopping r nid\<rparr>,
           StopSingleton r # notify_managers (SingletonStopped (mg_node_id m)) m))"

definition on_leader_changed :: "node_id \<Rightarrow> manager \<Rightarrow> manager \<times> manager_action list" where
  "on_leader_changed leader m =
     (if leader = mg_node_id m \<and> \<not> is_running (mg_state m) then begin_starting m else (m, []))"

definition grant_lease :: "node_id \<Rightarrow> manager \<Rightarrow> manager \<times> manager_action list" where
  "grant_lease nid m =
     (case mg_state m of
        MJoining _ \<Rightarrow> (m\<lparr>mg_state := MJoining (Some nid)\<rparr>, [])
      | _ \<Rightarrow> (m, notify_manager nid (LeaseAck (mg_node_id m)) m))"

definition handle_request_lease :: "node_id \<Rightarrow> manager \<Rightarrow> manager \<times> manager_action list" where
  "handle_request_lease source m =
     (if \<not> is_running (mg_state m) then grant_lease source m else begin_stopping source m)"

definition on_lease_ack :: "node_id \<Rightarrow> manager \<Rightarrow> manager \<times> manager_action list" where
  "on_lease_ack nid m =
     (case mg_state m of
        MStarting acks \<Rightarrow>
          (let acks' = hs_insert nid acks;
               m' = m\<lparr>mg_state := MStarting acks'\<rparr>
           in (m', if length acks' = length (mg_managers m) then on_all_managers_acknowledged m' else []))
      | _ \<Rightarrow> (m, []))"

definition manager_started :: "int \<Rightarrow> manager \<Rightarrow> manager" where
  "manager_started leader m = m\<lparr>mg_subscribed := True, mg_leader := current_leader leader\<rparr>"

definition on_child_stopped :: "actor_id \<Rightarrow> manager \<Rightarrow> manager \<times> manager_action list" where
  "on_child_stopped aid m =
     (if aid \<noteq> mg_singleton_id m then (m, [])
      else
        (case mg_state m of
           MStopping _ requested_by \<Rightarrow>
             (let (m', acts) = grant_lease requested_by m in (m'\<lparr>mg_state := MIdle\<rparr>, acts))
         | _ \<Rightarrow> (m, [])))"

definition handle_start_result :: "actor_ref_err + actor_ref \<Rightarrow> manager \<Rightarrow> manager \<times> manager_action list" where
  "handle_start_result res m =
     (case res of
        Inl _ \<Rightarrow> (m, [])
      | Inr r \<Rightarrow>
          (let m' = m\<lparr>mg_state := MRunning r\<rparr>
           in (m', ProxyStarted (LocalRef r) # notify_managers (SingletonStarted (mg_node_id m)) m')))"

definition handle_manager_msg :: "manager_msg \<Rightarrow> manager \<Rightarrow> manager \<times> manager_action list" where
  "handle_manager_msg msg m =
     (case msg of
        RequestLease n \<Rightarrow> handle_request_lease n m
      | LeaseAck n \<Rightarrow> on_lease_ack n m
      | SingletonStarted n \<Rightarrow> (m, [ProxyStarted (RemoteRef (mg_singleton_id m) n)])
      | SingletonStopped n \<Rightarrow> (m, [ProxyStopping]))"

section \<open>Cluster events\<close>

definition manager_ref_id :: "manager \<Rightarrow> node_id \<Rightarrow> actor_id" where
  "manager_ref_id m nid = mg_manager_id m @ ''-'' @ show_nat (unat nid)"

definition manages :: "remote_node \<Rightarrow> manager \<Rightarrow> bool" where
  "manages n m \<longleftrightarrow> node_id n \<noteq> mg_node_id m \<and> selector_includes (mg_selector m) n"

definition member_up :: "cluster_member_up \<Rightarrow> manager \<Rightarrow> manager \<times> manager_action list" where
  "member_up up m =
     (let m1 = m\<lparr>mg_managers := fold (\<lambda>n ms. if manages n m then hm_insert (node_id n) (manager_ref_id m (node_id n)) ms
                                              else ms) (up_nodes up) (mg_managers m)\<rparr>;
          m2 = m1\<lparr>mg_state := MIdle\<rparr>;
          as1 = (case mg_state m1 of
                   MJoining (Some nid) \<Rightarrow> notify_manager nid (LeaseAck (mg_node_id m)) m2
                 | _ \<Rightarrow> [])
      in if up_leader_id up = mg_node_id m
         then (let (m3, as2) = begin_starting m2 in (m3, as1 @ as2))
         else (m2, as1))"

definition node_added :: "remote_node \<Rightarrow> manager \<Rightarrow> manager \<times> manager_action list" where
  "node_added n m =
     (if manages n m \<and> hm_get (mg_managers m) (node_id n) = None then
        (m\<lparr>mg_managers := hm_insert (node_id n) (manager_ref_id m (node_id n)) (mg_managers m)\<rparr>,
         (case mg_state m of
            MStarting _ \<Rightarrow> [NotifyManager (node_id n) (RequestLease (mg_node_id m))]
          | MRunning _ \<Rightarrow> [NotifyManager (node_id n) (SingletonStarted (mg_node_id m))]
          | _ \<Rightarrow> []))
      else (m, []))"

definition node_removed :: "remote_node \<Rightarrow> manager \<Rightarrow> manager \<times> manager_action list" where
  "node_removed n m =
     (let m1 = m\<lparr>mg_managers := hm_remove (node_id n) (mg_managers m)\<rparr>
      in case mg_state m of
           MStarting acks \<Rightarrow>
             (let acks' = hs_remove (node_id n) acks;
                  m2 = m1\<lparr>mg_state := MStarting acks'\<rparr>
              in (m2, if length acks' = length (mg_managers m1) then on_all_managers_acknowledged m2 else []))
         | _ \<Rightarrow> (m1, []))"

definition handle_system_event :: "cluster_event \<Rightarrow> manager \<Rightarrow> manager \<times> manager_action list" where
  "handle_system_event e m =
     (case e of
        MemberUp up \<Rightarrow> member_up up m
      | LeaderChanged leader \<Rightarrow>
          (if \<not> is_joining (mg_state m) then on_leader_changed leader m else (m, []))
      | NodeAdded n \<Rightarrow> node_added n m
      | NodeRemoved n \<Rightarrow> node_removed n m)"

section \<open>Status and messages on the wire\<close>

datatype singleton_state = SJoining | SIdle | SStarting | SRunning | SStopping
datatype proto_singleton_state = PJOINING | PIDLE | PSTARTING | PRUNNING | PSTOPPING

definition get_status :: "manager \<Rightarrow> singleton_state" where
  "get_status m =
     (case mg_state m of
        MJoining _ \<Rightarrow> SJoining | MIdle \<Rightarrow> SIdle | MStarting _ \<Rightarrow> SStarting | MRunning _ \<Rightarrow> SRunning
      | MStopping _ _ \<Rightarrow> SStopping)"

definition state_into_proto :: "singleton_state \<Rightarrow> proto_singleton_state" where
  "state_into_proto s =
     (case s of SJoining \<Rightarrow> PJOINING | SIdle \<Rightarrow> PIDLE | SStarting \<Rightarrow> PSTARTING | SRunning \<Rightarrow> PRUNNING
      | SStopping \<Rightarrow> PSTOPPING)"

definition state_from_proto :: "proto_singleton_state \<Rightarrow> singleton_state" where
  "state_from_proto s =
     (case s of PJOINING \<Rightarrow> SJoining | PIDLE \<Rightarrow> SIdle | PSTARTING \<Rightarrow> SStarting | PRUNNING \<Rightarrow> SRunning
      | PSTOPPING \<Rightarrow> SStopping)"

text \<open>
  Each of the four messages carries a node id and has no result; \<open>w\<close> and \<open>p\<close> are the generated codec
  of its type.
\<close>

definition node_message :: "(node_id \<Rightarrow> 'err + bytes) \<Rightarrow> (bytes \<Rightarrow> 'err + node_id) \<Rightarrow> (node_id, unit) message_impl" where
  "node_message w p =
     \<lparr>as_bytes = to_bytes w, from_bytes = parse_bytes p, read_remote_result = (\<lambda>_. Inr ()),
      write_remote_result = (\<lambda>_. Inr [])\<rparr>"

definition request_lease_codec :: "(node_id \<Rightarrow> 'err + bytes) \<Rightarrow> (bytes \<Rightarrow> 'err + node_id) \<Rightarrow> (node_id, unit) message_impl" where
  "request_lease_codec = node_message"

definition lease_ack_codec :: "(node_id \<Rightarrow> 'err + bytes) \<Rightarrow> (bytes \<Rightarrow> 'err + node_id) \<Rightarrow> (node_id, unit) message_impl" where
  "lease_ack_codec = node_message"

definition singleton_started_codec :: "(node_id \<Rightarrow> 'err + bytes) \<Rightarrow> (bytes \<Rightarrow> 'err + node_id) \<Rightarrow> (node_id, unit) message_impl" where
  "singleton_started_codec = node_message"

definition singleton_stopped_codec :: "(node_id \<Rightarrow> 'err + bytes) \<Rightarrow> (bytes \<Rightarrow> 'err + node_id) \<Rightarrow> (node_id, unit) message_impl" where
  "singleton_stopped_codec = node_message"

definition status_write_result ::
  "(proto_singleton_state \<Rightarrow> 'err + bytes) \<Rightarrow> singleton_state \<Rightarrow> message_wrap_err + bytes" where
  "status_write_result w s = to_bytes w (state_into_proto s)"

text \<open>The enum field may hold a number the enum does not know: \<open>None\<close>.\<close>

definition status_read_result ::
  "(bytes \<Rightarrow> 'err + proto_singleton_state option) \<Rightarrow> bytes \<Rightarrow> (message_unwrap_err + singleton_state) may_panic" where
  "status_read_result p b =
     (case parse_bytes p b of
        Inl e \<Rightarrow> Inr (Inl e)
      | Inr None \<Rightarrow> Inl (Panic ''called unwrap on an Err value'')
      | Inr (Some s) \<Rightarrow> Inr (Inr (state_from_proto s)))"

section \<open>The proxy\<close>

record 'm deliver =
  dl_message :: "'m option"
  dl_channel :: "sender option"

definition deliver_new :: "'m \<Rightarrow> sender option \<Rightarrow> 'm deliver" where
  "deliver_new msg ch = \<lparr>dl_message = Some msg, dl_channel = ch\<rparr>"

datatype 'm proxy_state = PBuffered "'m deliver list" | PActive any_ref

definition proxy_new :: "'m proxy_state" where
  "proxy_new = PBuffered []"

definition proxy_is_active :: "'m proxy_state \<Rightarrow> bool" where
  "proxy_is_active p = (case p of PActive _ \<Rightarrow> True | _ \<Rightarrow> False)"

text \<open>A delivery spawns a task that sends the message and passes the answer to the channel. The list of actions is in
  the order in which the tasks are spawned; the tasks themselves run in any order.\<close>

datatype 'm proxy_action = SpawnDeliver any_ref 'm sender

definition deliver_to :: "any_ref \<Rightarrow> 'm deliver \<Rightarrow> 'm proxy_action may_panic" where
  "deliver_to r d =
     (case (dl_message d, dl_channel d) of
        (Some msg, Some ch) \<Rightarrow> Inr (SpawnDeliver r msg ch)
      | _ \<Rightarrow> Inl (Panic ''called unwrap on a None value''))"

fun deliver_all :: "any_ref \<Rightarrow> 'm deliver list \<Rightarrow> 'm proxy_action list may_panic" where
  "deliver_all r [] = Inr []"
| "deliver_all r (d # ds) =
     (case deliver_to r d of
        Inl p \<Rightarrow> Inl p
      | Inr a \<Rightarrow> map_sum id (\<lambda>as. a # as) (deliver_all r ds))"

definition proxy_started :: "any_ref \<Rightarrow> 'm proxy_state \<Rightarrow> ('m proxy_state \<times> 'm proxy_action list) may_panic" where
  "proxy_started r p =
     (case p of
        PBuffered q \<Rightarrow> map_sum id (\<lambda>as. (PActive r, as)) (deliver_all r q)
      | PActive _ \<Rightarrow> Inr (PActive r, []))"

definition proxy_stopping :: "'m proxy_state \<Rightarrow> 'm proxy_state" where
  "proxy_stopping p = (if proxy_is_active p then PBuffered [] else p)"

definition proxy_deliver :: "'m deliver \<Rightarrow> 'm proxy_state \<Rightarrow> ('m proxy_state \<times> 'm proxy_action list) may_panic" where
  "proxy_deliver d p =
     (case p of
        PBuffered q \<Rightarrow> Inr (PBuffered (q @ [d]), [])
      | PActive r \<Rightarrow> map_sum id (\<lambda>a. (p, [a])) (deliver_to r d))"

section \<open>Building and using a singleton\<close>

record 'f singleton_builder =
  sb_factory :: "'f option"
  sb_singleton_id :: "actor_id option"
  sb_manager_id :: "actor_id option"
  sb_proxy_id :: "actor_id option"
  sb_selector :: node_selector

definition singleton_builder_new :: "type_name \<Rightarrow> 'f singleton_builder" where
  "singleton_builder_new tn =
     \<lparr>sb_factory = None, sb_singleton_id = Some tn,
      sb_manager_id = Some (''singleton-manager<'' @ tn @ ''>''),
      sb_proxy_id = Some (''singleton-proxy<'' @ tn @ ''>''), sb_selector = SelectAll\<rparr>"

definition singleton_factory :: "'f \<Rightarrow> 'f singleton_builder \<Rightarrow> 'f singleton_builder" where
  "singleton_factory f b = b\<lparr>sb_factory := Some f\<rparr>"

text \<open>\<open>build\<close> starts the proxy and the manager under the ids it returns; \<open>start\<close> is the start of an actor.\<close>

definition singleton_build ::
  "(actor_id \<Rightarrow> actor_ref_err + actor_ref) \<Rightarrow> node_id \<Rightarrow> 'f singleton_builder \<Rightarrow> (actor_ref \<times> actor_ref \<times> manager) may_panic" where
  "singleton_build start node b =
     (case (sb_factory b, sb_manager_id b, sb_proxy_id b, sb_singleton_id b) of
        (Some _, Some base_manager, Some base_proxy, Some sid) \<Rightarrow>
          (case start (base_proxy @ ''-'' @ show_nat (unat node)) of
             Inl _ \<Rightarrow> Inl (Panic ''start proxy actor'')
           | Inr proxy \<Rightarrow>
               (case start (base_manager @ ''-'' @ show_nat (unat node)) of
                  Inl _ \<Rightarrow> Inl (Panic ''start manager actor'')
                | Inr mgr \<Rightarrow> Inr (proxy, mgr, manager_new node base_manager sid (sb_selector b))))
      | _ \<Rightarrow> Inl (Panic ''expect''))"

definition singleton_send :: "'m \<Rightarrow> sender \<Rightarrow> 'm deliver" where
  "singleton_send msg tx = deliver_new msg (Some tx)"

text \<open>The answer is awaited and unwrapped: a dropped channel (\<open>None\<close>) panics.\<close>

definition singleton_send_result ::
  "actor_ref_err + unit \<Rightarrow> (actor_ref_err + 'r) option \<Rightarrow> (actor_ref_err + 'r) may_panic" where
  "singleton_send_result queued answer =
     (case queued of
        Inl e \<Rightarrow> Inr (Inl e)
      | Inr () \<Rightarrow> (case answer of Some r \<Rightarrow> Inr r | None \<Rightarrow> Inl (Panic ''called unwrap on an Err value'')))"

definition singleton_notify :: "'m \<Rightarrow> 'm deliver" where
  "singleton_notify msg = deliver_new msg None"

definition singleton_handlers :: "type_name \<Rightarrow> string list" where
  "singleton_handlers tn =
     map (\<lambda>h. ''SingletonManager<'' @ tn @ ''>.'' @ h)
       [''RequestLease'', ''LeaseAck'', ''SingletonStarted'', ''SingletonStopped'']"

text \<open>
  Every manager addresses the manager of another node under the id with which that node's builder
  starts it.
\<close>

lemma managers_find_each_other:
  assumes "singleton_build start n b = Inr (p, r, m)" "singleton_build start' n' b = Inr (p', r', m')"
  shows "start' (manager_ref_id m n') = Inr r'"
  using assms
  by (auto simp: singleton_build_def manager_ref_id_def manager_new_def split: option.splits sum.splits prod.splits)

lemma manager_ref_id_inj: "manager_ref_id m n = manager_ref_id m n' \<longleftrightarrow> n = n'"
  unfolding manager_ref_id_def dash_decimal_inj by (simp add: word_unat_eq_iff)

section \<open>What the proxy keeps\<close>

datatype 'm proxy_input = ProxyDeliver "'m deliver" | ProxyOnStarted any_ref | ProxyOnStopping

definition proxy_step :: "'m proxy_input \<Rightarrow> 'm proxy_state \<Rightarrow> ('m proxy_state \<times> 'm proxy_action list) may_panic" where
  "proxy_step i p =
     (case i of
        ProxyDeliver d \<Rightarrow> proxy_deliver d p
      | ProxyOnStarted r \<Rightarrow> proxy_started r p
      | ProxyOnStopping \<Rightarrow> Inr (proxy_stopping p, []))"

text \<open>What a run was given, what it still holds and what it spawned, as messages with their channels.\<close>

definition well_formed_deliver :: "'m deliver \<Rightarrow> bool" where
  "well_formed_deliver d \<longleftrightarrow> dl_message d \<noteq> None \<and> dl_channel d \<noteq> None"

definition deliver_pair :: "'m deliver \<Rightarrow> 'm \<times> sender" where
  "deliver_pair d = (the (dl_message d), the (dl_channel d))"

primrec given :: "'m proxy_input \<Rightarrow> 'm deliver list" where
  "given (ProxyDeliver d) = [d]"
| "given (ProxyOnStarted r) = []"
| "given ProxyOnStopping = []"

primrec held :: "'m proxy_state \<Rightarrow> 'm deliver list" where
  "held (PBuffered q) = q"
| "held (PActive r) = []"

primrec spawned :: "'m proxy_action \<Rightarrow> 'm \<times> sender" where
  "spawned (SpawnDeliver r msg ch) = (msg, ch)"

lemma deliver_to_ok: "well_formed_deliver d \<Longrightarrow> \<exists>a. deliver_to r d = Inr a \<and> spawned a = deliver_pair d"
  by (auto simp: well_formed_deliver_def deliver_to_def deliver_pair_def)

lemma deliver_all_ok:
  "\<forall>d \<in> set ds. well_formed_deliver d \<Longrightarrow> \<exists>as. deliver_all r ds = Inr as \<and> map spawned as = map deliver_pair ds"
proof (induction ds)
  case (Cons d ds)
  then show ?case using deliver_to_ok [of d r] by auto
qed simp

lemma proxy_step_ok:
  assumes "\<forall>d \<in> set (held p @ given i). well_formed_deliver d"
  shows "\<exists>p' as. proxy_step i p = Inr (p', as) \<and>
    map spawned as @ map deliver_pair (held p') = map deliver_pair (held p @ given i) \<and>
    set (held p') \<subseteq> set (held p @ given i)"
proof (cases i)
  case (ProxyDeliver d)
  show ?thesis
  proof (cases p)
    case (PActive r)
    then show ?thesis
      using assms deliver_to_ok [of d r] ProxyDeliver by (auto simp: proxy_step_def proxy_deliver_def)
  qed (simp add: ProxyDeliver proxy_step_def proxy_deliver_def)
next
  case (ProxyOnStarted r)
  show ?thesis
  proof (cases p)
    case (PBuffered q)
    then show ?thesis
      using assms deliver_all_ok [of q r] ProxyOnStarted by (auto simp: proxy_step_def proxy_started_def)
  qed (simp add: ProxyOnStarted proxy_step_def proxy_started_def)
next
  case ProxyOnStopping
  then show ?thesis
    by (cases p) (auto simp: proxy_step_def proxy_stopping_def proxy_is_active_def)
qed

definition proxy_wf :: "'m proxy_state \<Rightarrow> bool" where
  "proxy_wf p \<longleftrightarrow> (\<forall>d \<in> set (held p). well_formed_deliver d)"

definition proxy_adm :: "'m proxy_input \<Rightarrow> bool" where
  "proxy_adm i \<longleftrightarrow> (\<forall>d \<in> set (given i). well_formed_deliver d)"

interpretation proxy: conduit proxy_step proxy_adm "\<lambda>_ _. False" "\<lambda>i _. map deliver_pair (given i)"
  "\<lambda>p. map deliver_pair (held p)" "\<lambda>a. [spawned a]" "\<lambda>_. False" proxy_wf "\<lambda>_. True"
proof unfold_locales
  fix p :: "'m proxy_state" and i :: "'m proxy_input"
  assume "proxy_wf p" "proxy_adm i"
  then have wf: "\<forall>d \<in> set (held p @ given i). well_formed_deliver d"
    by (auto simp: proxy_wf_def proxy_adm_def)
  note step = proxy_step_ok [OF wf]
  show False if "proxy_step i p = Inl e" for e using step that by auto
  show "proxy_wf p' \<and> (True \<longrightarrow> (\<forall>a \<in> set acts. \<not> False) \<longrightarrow>
      True \<and> concat (map (\<lambda>a. [spawned a]) acts) @ map deliver_pair (held p') =
        map deliver_pair (held p) @ map deliver_pair (given i))"
    if "proxy_step i p = Inr (p', acts)" for p' acts
    using step wf that by (auto simp: proxy_wf_def)
qed

text \<open>C30: The proxy loses and doubles nothing. Whatever the singleton's starts and stops in between, no run panics, and
  every message given to the proxy with a channel for its answer is in the queue or in exactly one task that sends it to
  the singleton; the tasks are spawned in the order of arrival. However they are interleaved with each other and with
  later messages of the proxy, the messages they send are each of those once, and no order is excluded: the singleton
  may get two messages of one sender in the opposite order.\<close>

theorem proxy_delivers_once:
  assumes "\<forall>i \<in> set xs. \<forall>d \<in> set (given i). dl_message d \<noteq> None \<and> dl_channel d \<noteq> None"
  shows "\<exists>p tr. run_inputs proxy_step xs proxy_new = Inr (p, tr) \<and>
    map spawned (effects tr) @ map deliver_pair (held p) = map deliver_pair (concat (map given xs)) \<and>
    (\<forall>sent. runs_tasks (map (\<lambda>(_, acts). map spawned acts) tr) {#} sent \<longleftrightarrow>
       mset sent + mset (map deliver_pair (held p)) = mset (map deliver_pair (concat (map given xs))))"
proof -
  have wf: "proxy_wf (proxy_new :: 'm proxy_state)" "\<forall>i \<in> set xs. proxy_adm i"
    using assms by (auto simp: proxy_wf_def proxy_adm_def proxy_new_def well_formed_deliver_def)
  obtain p tr where r: "run_inputs proxy_step xs proxy_new = Inr (p, tr)"
    using proxy.run_completes [OF wf] by blast
  have "map spawned (effects tr) @ map deliver_pair (held p) = map deliver_pair (concat (map given xs))"
    using proxy.run_passes [OF r wf] takes_stateless [OF r]
    by (simp add: proxy_new_def map_concat comp_def)
  moreover have "concat (map (\<lambda>(_, acts). map spawned acts) tr) = map spawned (effects tr)"
    by (simp add: effects_def map_concat comp_def case_prod_unfold)
  then have "runs_tasks (map (\<lambda>(_, acts). map spawned acts) tr) {#} sent \<longleftrightarrow>
       mset sent + mset (map deliver_pair (held p)) = mset (map deliver_pair (concat (map given xs)))" for sent
    unfolding calculation [symmetric] runs_tasks_iff by simp
  ultimately show ?thesis using r by blast
qed

theorem proxy_delivers_once_witness:
  "\<exists>p tr. run_inputs proxy_step [ProxyDeliver (deliver_new (1::nat) (Some 7)), ProxyDeliver (deliver_new 2 (Some 8)),
        ProxyOnStarted (RemoteRef ''s'' 2), ProxyOnStopping, ProxyDeliver (deliver_new 3 (Some 9))] proxy_new = Inr (p, tr) \<and>
     map spawned (effects tr) @ map deliver_pair (held p) = [(1, 7), (2, 8), (3, 9)] \<and>
     runs_tasks (map (\<lambda>(_, acts). map spawned acts) tr) {#} [(2, 8), (1, 7)]"
proof -
  let ?xs = "[ProxyDeliver (deliver_new (1::nat) (Some 7)), ProxyDeliver (deliver_new 2 (Some 8)),
      ProxyOnStarted (RemoteRef ''s'' 2), ProxyOnStopping, ProxyDeliver (deliver_new 3 (Some 9))]"
  have ok: "\<forall>i \<in> set ?xs. \<forall>d \<in> set (given i). dl_message d \<noteq> None \<and> dl_channel d \<noteq> None"
    by (simp add: deliver_new_def)
  from proxy_delivers_once [OF ok] obtain p tr where r: "run_inputs proxy_step ?xs proxy_new = Inr (p, tr)"
    "map spawned (effects tr) @ map deliver_pair (held p) = [(1, 7), (2, 8), (3, 9)]"
    "\<forall>sent. runs_tasks (map (\<lambda>(_, acts). map spawned acts) tr) {#} sent \<longleftrightarrow>
       mset sent + mset (map deliver_pair (held p)) = mset [(1, 7), (2, 8), (3, 9)]"
    by (auto simp: deliver_new_def deliver_pair_def)
  have "held p = [deliver_new 3 (Some 9)]"
    using r(1) by (auto simp: proxy_step_def proxy_deliver_def proxy_started_def proxy_stopping_def proxy_new_def
        proxy_is_active_def deliver_to_def deliver_new_def)
  then have "mset [(2, 8), (1, 7)] + mset (map deliver_pair (held p)) = mset [(1, 7), (2, 8), (3 :: nat, 9 :: sender)]"
    by (simp add: deliver_new_def deliver_pair_def add_mset_commute)
  with r show ?thesis by blast
qed

text \<open>
  A notification carries no channel, and the proxy unwraps the channel of every message it delivers:
  the proxy panics on the first notification, at once when it is active and otherwise as soon as the
  singleton starts.
\<close>

lemma notify_panics_proxy:
  "run_inputs proxy_step [ProxyOnStarted r, ProxyDeliver (singleton_notify msg)] proxy_new = Inl (Panic ''called unwrap on a None value'')"
  "run_inputs proxy_step [ProxyDeliver (singleton_notify msg), ProxyOnStarted r] proxy_new = Inl (Panic ''called unwrap on a None value'')"
  by (simp_all add: proxy_step_def proxy_new_def proxy_started_def proxy_deliver_def deliver_to_def
      singleton_notify_def deliver_new_def)

text \<open>
  A manager whose managers have all acknowledged has a start under way. The removal of any of them
  makes the counts equal again and starts the singleton a second time.
\<close>

lemma node_removed_starts_again:
  assumes "mg_state m = MStarting acks" "distinct acks" "hm_wf (mg_managers m)"
    and "set acks = set (hm_keys (mg_managers m))" "node_id n \<in> set acks"
  shows "snd (node_removed n m) = [StartSingleton]"
proof -
  have "distinct (hs_remove (node_id n) acks)" "hm_wf (hm_remove (node_id n) (mg_managers m))"
    using assms by (simp_all add: distinct_removeAll)
  moreover have "set (hs_remove (node_id n) acks) = set (hm_keys (hm_remove (node_id n) (mg_managers m)))"
    using assms(4) by (auto simp: image_iff)
  ultimately have "length (hs_remove (node_id n) acks) = length (hm_remove (node_id n) (mg_managers m))"
    by (metis distinct_card length_map)
  then show ?thesis
    using assms(1) by (simp add: node_removed_def Let_def on_all_managers_acknowledged_def)
qed

end
