(* ===== verification/Lease_Protocol.thy ===== *)
theory Lease_Protocol
  imports Prelude "HOL-Library.Multiset"
begin

text \<open>
  The lease protocol that the singleton managers of a cluster run, as an abstract specification: who
  asked whom for the lease, which grants are under way, and which node may start. A node asks all
  others, collects their grants and holds the lease when all have granted it. The refinement of the
  managers of \<open>singleton/manager\<close> to this protocol is in the theory of the singleton.

  \<open>Free p\<close> is a node that neither asks nor holds; \<open>p\<close> is the node it owes a grant to.
\<close>

section \<open>The protocol\<close>

datatype 'n lease_phase = Free "'n option" | Asking "'n set" | Holding

record 'n lease =
  ls_phase :: "'n \<Rightarrow> 'n lease_phase"
  ls_asks :: "('n \<times> 'n) multiset"
  ls_acks :: "('n \<times> 'n) multiset"
  ls_starts :: "'n \<Rightarrow> nat"

definition lease_init :: "'n lease" where
  "lease_init = \<lparr>ls_phase = (\<lambda>_. Free None), ls_asks = {#}, ls_acks = {#}, ls_starts = (\<lambda>_. 0)\<rparr>"

definition ask_all :: "'n set \<Rightarrow> 'n \<Rightarrow> ('n \<times> 'n) multiset" where
  "ask_all N i = mset_set (Pair i ` (N - {i}))"

inductive lease_step :: "'n set \<Rightarrow> 'n lease \<Rightarrow> 'n lease \<Rightarrow> bool" for N where
  ask: "i \<in> N \<Longrightarrow> ls_phase s i = Free p \<Longrightarrow>
     lease_step N s (s\<lparr>ls_phase := (ls_phase s)(i := Asking {}), ls_asks := ls_asks s + ask_all N i,
                       ls_starts := (ls_starts s)(i := ls_starts s i + of_bool (N = {i}))\<rparr>)"
| grant: "(i, j) \<in># ls_asks s \<Longrightarrow> ls_phase s j = Free p \<Longrightarrow>
     lease_step N s (s\<lparr>ls_asks := ls_asks s - {#(i, j)#}, ls_acks := add_mset (i, j) (ls_acks s)\<rparr>)"
| owe: "(i, j) \<in># ls_asks s \<Longrightarrow> ls_phase s j = Free p \<or> ls_phase s j = Holding \<Longrightarrow>
     lease_step N s (s\<lparr>ls_asks := ls_asks s - {#(i, j)#}, ls_phase := (ls_phase s)(j := Free (Some i))\<rparr>)"
| repay: "ls_phase s j = Free (Some i) \<Longrightarrow>
     lease_step N s (s\<lparr>ls_phase := (ls_phase s)(j := Free None), ls_acks := add_mset (i, j) (ls_acks s)\<rparr>)"
| collect: "(i, j) \<in># ls_acks s \<Longrightarrow> ls_phase s i = Asking A \<Longrightarrow>
     lease_step N s (s\<lparr>ls_acks := ls_acks s - {#(i, j)#}, ls_phase := (ls_phase s)(i := Asking (insert j A)),
                       ls_starts := (ls_starts s)(i := ls_starts s i + of_bool (insert j A = N - {i}))\<rparr>)"
| hold: "0 < ls_starts s i \<Longrightarrow>
     lease_step N s (s\<lparr>ls_starts := (ls_starts s)(i := ls_starts s i - 1), ls_phase := (ls_phase s)(i := Holding)\<rparr>)"
| fail: "0 < ls_starts s i \<Longrightarrow>
     lease_step N s (s\<lparr>ls_starts := (ls_starts s)(i := ls_starts s i - 1)\<rparr>)"
| drop_ask: "lease_step N s (s\<lparr>ls_asks := ls_asks s - {#x#}\<rparr>)"
| drop_ack: "lease_step N s (s\<lparr>ls_acks := ls_acks s - {#x#}\<rparr>)"

section \<open>Mutual exclusion\<close>

text \<open>
  For a pair of nodes, what is left of the request of \<open>i\<close> to \<open>j\<close> is one token: the request, the debt,
  the grant under way or the grant collected. \<open>promised i j\<close> holds from the moment \<open>j\<close> grants the
  lease to \<open>i\<close> until \<open>i\<close> gives it up.
\<close>

primrec collected :: "'n lease_phase \<Rightarrow> 'n set" where
  "collected (Free p) = {}"
| "collected (Asking A) = A"
| "collected Holding = {}"

primrec asking :: "'n lease_phase \<Rightarrow> bool" where
  "asking (Free p) = False"
| "asking (Asking A) = True"
| "asking Holding = False"

definition tokens :: "'n lease \<Rightarrow> 'n \<Rightarrow> 'n \<Rightarrow> nat" where
  "tokens s i j =
     count (ls_asks s) (i, j) + count (ls_acks s) (i, j) + of_bool (j \<in> collected (ls_phase s i))
     + of_bool (ls_phase s j = Free (Some i))"

definition promised :: "'n lease \<Rightarrow> 'n \<Rightarrow> 'n \<Rightarrow> bool" where
  "promised s i j \<longleftrightarrow> ls_phase s i = Holding \<or> j \<in> collected (ls_phase s i) \<or> (i, j) \<in># ls_acks s"

definition token_inv :: "'n set \<Rightarrow> 'n lease \<Rightarrow> bool" where
  "token_inv N s \<longleftrightarrow>
     (\<forall>i j. tokens s i j \<le> of_bool (i \<in> N \<and> j \<in> N \<and> i \<noteq> j \<and> asking (ls_phase s i)))"

definition start_inv :: "'n set \<Rightarrow> 'n lease \<Rightarrow> bool" where
  "start_inv N s \<longleftrightarrow>
     (\<forall>i. ls_starts s i \<le> of_bool (ls_phase s i = Asking (N - {i}) \<and> i \<in> N))"

definition promise_inv :: "'n set \<Rightarrow> 'n lease \<Rightarrow> bool" where
  "promise_inv N s \<longleftrightarrow>
     (\<forall>i j. i \<in> N \<longrightarrow> j \<in> N \<longrightarrow> i \<noteq> j \<longrightarrow> promised s i j \<longrightarrow> \<not> promised s j i)"

definition lease_inv :: "'n set \<Rightarrow> 'n lease \<Rightarrow> bool" where
  "lease_inv N s \<longleftrightarrow> token_inv N s \<and> start_inv N s \<and> promise_inv N s"

lemma token_invD:
  "token_inv N s \<Longrightarrow> tokens s i j \<le> of_bool (i \<in> N \<and> j \<in> N \<and> i \<noteq> j \<and> asking (ls_phase s i))"
  by (simp add: token_inv_def)

lemma not_asking_no_token: "token_inv N s \<Longrightarrow> \<not> asking (ls_phase s i) \<Longrightarrow> tokens s i j = 0"
  using token_invD [of N s i j] by simp

lemma start_invD: "start_inv N s \<Longrightarrow> 0 < ls_starts s i \<Longrightarrow>
    ls_starts s i = 1 \<and> ls_phase s i = Asking (N - {i}) \<and> i \<in> N"
  unfolding start_inv_def by (drule spec [of _ i]) (auto split: if_splits simp: of_bool_def)

lemma count_ask_all: "finite N \<Longrightarrow> count (ask_all N i) (k, j) = of_bool (k = i \<and> j \<in> N \<and> j \<noteq> i)"
  by (auto simp: ask_all_def count_mset_set' image_iff)

lemma promised_token: "promised s i j \<Longrightarrow> ls_phase s i = Holding \<or> 0 < tokens s i j"
  by (auto simp: promised_def tokens_def)

text \<open>A node that neither asks nor holds has been promised nothing.\<close>

lemma free_not_promised: "token_inv N s \<Longrightarrow> ls_phase s j = Free p \<Longrightarrow> \<not> promised s j i"
  using promised_token [of s j i] not_asking_no_token [of N s j i] by auto

lemma token_member: "token_inv N s \<Longrightarrow> 0 < tokens s i j \<Longrightarrow> i \<in> N \<and> j \<in> N \<and> i \<noteq> j \<and> asking (ls_phase s i)"
  using token_invD [of N s i j] by (auto simp: of_bool_def split: if_splits)

lemma token_inv_mono:
  assumes "token_inv N s" "\<And>i j. tokens s' i j \<le> tokens s i j"
    and "\<And>i. asking (ls_phase s i) \<Longrightarrow> asking (ls_phase s' i)"
  shows "token_inv N s'"
  unfolding token_inv_def
proof (intro allI)
  fix i j
  show "tokens s' i j \<le> of_bool (i \<in> N \<and> j \<in> N \<and> i \<noteq> j \<and> asking (ls_phase s' i))"
    using assms(2) [of i j] token_invD [OF assms(1), of i j] assms(3) [of i]
    by (auto simp: of_bool_def split: if_splits)
qed

lemma promise_inv_mono:
  assumes "promise_inv N s"
    and "\<And>i j. i \<in> N \<Longrightarrow> j \<in> N \<Longrightarrow> i \<noteq> j \<Longrightarrow> promised s' i j \<Longrightarrow> promised s i j"
  shows "promise_inv N s'"
  using assms unfolding promise_inv_def by blast

text \<open>A new promise to \<open>i\<close> by \<open>j\<close> is consistent when \<open>j\<close> is free.\<close>

lemma promise_inv_new:
  assumes "promise_inv N s" "token_inv N s" "ls_phase s j = Free p"
    and "\<And>k l. promised s' k l \<Longrightarrow> promised s k l \<or> (k, l) = (i, j)"
  shows "promise_inv N s'"
proof -
  have "\<not> promised s j k" for k
    using free_not_promised [OF assms(2,3)] .
  moreover have "i = j \<or> \<not> promised s' j i"
    using assms(4) [of j i] calculation by auto
  ultimately show ?thesis
    using assms(1,4) unfolding promise_inv_def by blast
qed

lemma token_inv_less:
  assumes "token_inv N s" "\<And>i j. tokens s' i j \<le> f i j"
    and "\<And>i j. tokens s i j \<le> of_bool (i \<in> N \<and> j \<in> N \<and> i \<noteq> j \<and> asking (ls_phase s i)) \<Longrightarrow>
      f i j \<le> of_bool (i \<in> N \<and> j \<in> N \<and> i \<noteq> j \<and> asking (ls_phase s' i))"
  shows "token_inv N s'"
  unfolding token_inv_def
  using order_trans [OF assms(2) assms(3) [OF token_invD [OF assms(1)]]] by blast

lemma token_inv_swap:
  assumes "token_inv N s" "\<And>i j. tokens s' i j = tokens s i j" "ls_phase s' = ls_phase s"
  shows "token_inv N s'"
  using assms by (simp add: token_inv_def)

lemma lease_init_inv: "lease_inv N lease_init"
  by (simp add: lease_inv_def token_inv_def start_inv_def promise_inv_def tokens_def promised_def lease_init_def)

lemma token_inv_step: "lease_step N s s' \<Longrightarrow> finite N \<Longrightarrow> lease_inv N s \<Longrightarrow> token_inv N s'"
proof (induction rule: lease_step.induct)
  case (ask i s p)
  have t: "token_inv N s" and z: "tokens s i j = 0" for j
    using ask.prems ask.hyps not_asking_no_token [of N s i] by (auto simp: lease_inv_def)
  have "tokens (s\<lparr>ls_phase := (ls_phase s)(i := Asking {}), ls_asks := ls_asks s + ask_all N i,
      ls_starts := (ls_starts s)(i := ls_starts s i + of_bool (N = {i}))\<rparr>) k j
    \<le> tokens s k j + of_bool (k = i \<and> j \<in> N \<and> j \<noteq> i)" for k j
    using ask.hyps z [of j] by (auto simp: tokens_def count_ask_all [OF ask.prems(1)])
  then show ?case
    using ask.hyps z by - (rule token_inv_less [OF t], assumption, auto simp: of_bool_def)
next
  case (grant i j s p)
  then show ?case
    by - (rule token_inv_swap [of N s], auto simp: lease_inv_def tokens_def)
next
  case (owe i j s p)
  then have "0 < tokens s i j" by (simp add: tokens_def)
  with owe show ?case
    by - (rule token_inv_mono [of N s], auto simp: lease_inv_def tokens_def)
next
  case (repay s j i)
  then show ?case
    by - (rule token_inv_mono [of N s], auto simp: lease_inv_def tokens_def)
next
  case (collect i j s A)
  then show ?case
    by - (rule token_inv_mono [of N s], auto simp: lease_inv_def tokens_def)
next
  case (hold s i)
  then have t: "token_inv N s" and st: "ls_phase s i = Asking (N - {i})" "i \<in> N"
    using start_invD [of N s i] by (auto simp: lease_inv_def)
  have "tokens (s\<lparr>ls_starts := (ls_starts s)(i := ls_starts s i - 1), ls_phase := (ls_phase s)(i := Holding)\<rparr>) k j
     \<le> (if k = i then 0 else tokens s k j)" for k j
    using st token_invD [OF t, of i j] by (cases "j \<in> N"; cases "j = i") (auto simp: tokens_def)
  then show ?case
    by - (rule token_inv_less [OF t], assumption, auto simp: of_bool_def)
qed (rule token_inv_mono, auto simp: lease_inv_def tokens_def)+

lemma start_inv_step: "lease_step N s s' \<Longrightarrow> lease_inv N s \<Longrightarrow> start_inv N s'"
proof (induction rule: lease_step.induct)
  case (collect i j s A)
  then have t: "token_inv N s" and st: "start_inv N s" by (auto simp: lease_inv_def)
  have m: "i \<in> N" "j \<in> N" "i \<noteq> j" and nj: "j \<notin> A"
    using collect.hyps token_member [OF t, of i j] token_invD [OF t, of i j]
    by (auto simp: tokens_def of_bool_def count_eq_zero_iff split: if_splits)
  then have "ls_starts s i = 0"
    using start_invD [OF st, of i] collect.hyps by (cases "ls_starts s i = 0") auto
  then show ?case
    using st m collect.hyps by (auto simp: start_inv_def)
next
  case (hold s i)
  then show ?case
    using start_invD [of N s i] by (auto simp: lease_inv_def start_inv_def)
next
  case (fail s i)
  then show ?case
    using start_invD [of N s i] by (auto simp: lease_inv_def start_inv_def)
next
  case (ask i s p)
  then have "ls_starts s i = 0"
    using start_invD [of N s i] by (cases "ls_starts s i = 0") (auto simp: lease_inv_def)
  with ask show ?case by (auto simp: lease_inv_def start_inv_def)
next
  case (owe i j s p)
  then have "ls_starts s j = 0"
    using start_invD [of N s j] by (cases "ls_starts s j = 0") (auto simp: lease_inv_def)
  with owe show ?case by (auto simp: lease_inv_def start_inv_def)
next
  case (repay s j i)
  then have "ls_starts s j = 0"
    using start_invD [of N s j] by (cases "ls_starts s j = 0") (auto simp: lease_inv_def)
  with repay show ?case by (auto simp: lease_inv_def start_inv_def)
qed (simp_all add: lease_inv_def start_inv_def)

lemma promise_inv_step: "lease_step N s s' \<Longrightarrow> lease_inv N s \<Longrightarrow> promise_inv N s'"
proof (induction rule: lease_step.induct)
  case (grant i j s p)
  then show ?case
    by - (rule promise_inv_new [of N s j p _ i], auto simp: lease_inv_def promised_def)
next
  case (repay s j i)
  then show ?case
    by - (rule promise_inv_new [of N s j "Some i" _ i], auto simp: lease_inv_def promised_def split: if_splits)
next
  case (hold s i)
  then have "ls_phase s i = Asking (N - {i})"
    using start_invD [of N s i] by (auto simp: lease_inv_def)
  with hold show ?case
    by - (rule promise_inv_mono [of N s], auto simp: lease_inv_def promised_def split: if_splits)
next
  case (drop_ack s x)
  then show ?case
    by - (rule promise_inv_mono [of N s], auto simp: lease_inv_def promised_def dest: in_diffD)
next
  case (collect i j s A)
  then show ?case
    by - (rule promise_inv_mono [of N s], auto simp: lease_inv_def promised_def dest: in_diffD split: if_splits)
qed (rule promise_inv_mono, auto simp: lease_inv_def promised_def split: if_splits)+

lemma lease_inv_step: "lease_step N s s' \<Longrightarrow> finite N \<Longrightarrow> lease_inv N s \<Longrightarrow> lease_inv N s'"
  using token_inv_step [of N s s'] start_inv_step [of N s s'] promise_inv_step [of N s s']
  by (simp add: lease_inv_def)

lemma lease_inv_steps: "(lease_step N)\<^sup>*\<^sup>* s s' \<Longrightarrow> finite N \<Longrightarrow> lease_inv N s \<Longrightarrow> lease_inv N s'"
  by (induction rule: rtranclp_induct) (auto intro: lease_inv_step)

lemma one_holder:
  "lease_inv N s \<Longrightarrow> i \<in> N \<Longrightarrow> j \<in> N \<Longrightarrow> ls_phase s i = Holding \<Longrightarrow> ls_phase s j = Holding \<Longrightarrow> i = j"
  unfolding lease_inv_def promise_inv_def promised_def by blast

section \<open>Two askers\<close>

text \<open>Two nodes that ask at the same time, each having dropped the request of the other, never hold.\<close>

definition locked :: "'n \<Rightarrow> 'n \<Rightarrow> 'n lease \<Rightarrow> bool" where
  "locked i j s \<longleftrightarrow>
     asking (ls_phase s i) \<and> asking (ls_phase s j) \<and> tokens s i j = 0 \<and> tokens s j i = 0"

lemma locked_no_start:
  "start_inv N s \<Longrightarrow> i \<in> N \<Longrightarrow> j \<in> N \<Longrightarrow> i \<noteq> j \<Longrightarrow> tokens s i j = 0 \<Longrightarrow> ls_starts s i = 0"
  using start_invD [of N s i] by (cases "ls_starts s i = 0") (auto simp: tokens_def)

lemma locked_step:
  assumes "lease_step N s s'" "lease_inv N s" "finite N" "i \<in> N" "j \<in> N" "i \<noteq> j" "locked i j s"
  shows "locked i j s'"
proof -
  have ns: "ls_starts s i = 0" "ls_starts s j = 0"
    using assms locked_no_start [of N s i j] locked_no_start [of N s j i] by (auto simp: lease_inv_def locked_def)
  show ?thesis
    using assms(1,3-7) ns
    by (induction rule: lease_step.induct)
       (auto simp: locked_def tokens_def count_ask_all simp flip: count_greater_zero_iff split: if_splits)
qed

lemma locked_steps:
  assumes "(lease_step N)\<^sup>*\<^sup>* s s'" "lease_inv N s" "finite N" "i \<in> N" "j \<in> N" "i \<noteq> j" "locked i j s"
  shows "locked i j s'"
  using assms(1)
proof (induction rule: rtranclp_induct)
  case (step y z)
  then show ?case
    using locked_step [of N y z] lease_inv_steps [OF step.hyps(1)] assms by blast
qed (use assms in blast)

end
