(* ===== verification/Singleton_Cluster.thy ===== *)
theory Singleton_Cluster
  imports Singleton Lease_Protocol
begin

text \<open>
  The singleton managers of a cluster together: their handlers, composed by a network that may delay,
  reorder and lose messages, refine the abstract lease protocol. From the refinement: at most one
  manager is running, and what the protocol does not give (concurrent starters block each other, the
  actors of two nodes may overlap).
\<close>

section \<open>The managers of a cluster\<close>

text \<open>
  The managers of the nodes \<open>ns\<close>, once the membership is settled: each node joins with a member-up
  event that lists them all, then handles the messages of the other managers (which may be lost),
  changes of the leader, the results of its own starts and the end of its singleton.
\<close>

record singleton_cluster =
  cl_mgr :: "node_id \<Rightarrow> manager"
  cl_net :: "(node_id \<times> manager_msg) multiset"
  cl_starts :: "node_id \<Rightarrow> nat"

definition cluster_boot :: "actor_id \<Rightarrow> actor_id \<Rightarrow> node_selector \<Rightarrow> singleton_cluster" where
  "cluster_boot mid sid sel =
     \<lparr>cl_mgr = (\<lambda>j. manager_new j mid sid sel), cl_net = {#}, cl_starts = (\<lambda>_. 0)\<rparr>"

primrec action_sends :: "manager_action \<Rightarrow> (node_id \<times> manager_msg) multiset" where
  "action_sends (NotifyManager nid msg) = {#(nid, msg)#}"
| "action_sends (ScheduleNotify nid msg) = {#(nid, msg)#}"
| "action_sends StartSingleton = {#}"
| "action_sends (StopSingleton r) = {#}"
| "action_sends (ProxyStarted r) = {#}"
| "action_sends ProxyStopping = {#}"

definition emit :: "node_id \<Rightarrow> manager \<times> manager_action list \<Rightarrow> singleton_cluster \<Rightarrow> singleton_cluster" where
  "emit j res c =
     c\<lparr>cl_mgr := (cl_mgr c)(j := fst res), cl_net := cl_net c + (\<Sum>a\<leftarrow>snd res. action_sends a),
       cl_starts := (cl_starts c)(j := cl_starts c j + count_list (snd res) StartSingleton)\<rparr>"

definition settled_up :: "node_id list \<Rightarrow> cluster_member_up \<Rightarrow> manager \<Rightarrow> bool" where
  "settled_up ns up m \<longleftrightarrow>
     node_id ` set (up_nodes up) = set ns \<and> (\<forall>n \<in> set (up_nodes up). selector_includes (mg_selector m) n)"

inductive singleton_step :: "node_id list \<Rightarrow> singleton_cluster \<Rightarrow> singleton_cluster \<Rightarrow> bool" for ns where
  deliver: "cl_net c = add_mset (j, msg) net \<Longrightarrow> j \<in> set ns \<Longrightarrow>
     singleton_step ns c (emit j (handle_manager_msg msg (cl_mgr c j)) (c\<lparr>cl_net := net\<rparr>))"
| lose: "cl_net c = add_mset x net \<Longrightarrow> singleton_step ns c (c\<lparr>cl_net := net\<rparr>)"
| up: "j \<in> set ns \<Longrightarrow> is_joining (mg_state (cl_mgr c j)) \<Longrightarrow> settled_up ns up (cl_mgr c j) \<Longrightarrow>
     singleton_step ns c (emit j (handle_system_event (MemberUp up) (cl_mgr c j)) c)"
| leader: "j \<in> set ns \<Longrightarrow>
     singleton_step ns c (emit j (handle_system_event (LeaderChanged l) (cl_mgr c j)) c)"
| start_done: "j \<in> set ns \<Longrightarrow> 0 < cl_starts c j \<Longrightarrow>
     singleton_step ns c (emit j (handle_start_result res (cl_mgr c j))
       (c\<lparr>cl_starts := (cl_starts c)(j := cl_starts c j - 1)\<rparr>))"
| child_stopped: "j \<in> set ns \<Longrightarrow>
     singleton_step ns c (emit j (on_child_stopped aid (cl_mgr c j)) c)"

section \<open>The managers refine the lease protocol\<close>

definition phase_of :: "manager_state \<Rightarrow> node_id lease_phase" where
  "phase_of s =
     (case s of
        MJoining p \<Rightarrow> Free p
      | MIdle \<Rightarrow> Free None
      | MStarting acks \<Rightarrow> Asking (set acks)
      | MRunning r \<Rightarrow> Holding
      | MStopping r i \<Rightarrow> Free (Some i))"

primrec ask_in :: "node_id \<Rightarrow> manager_msg \<Rightarrow> (node_id \<times> node_id) multiset" where
  "ask_in j (RequestLease i) = {#(i, j)#}"
| "ask_in j (LeaseAck i) = {#}"
| "ask_in j (SingletonStarted i) = {#}"
| "ask_in j (SingletonStopped i) = {#}"

primrec ack_in :: "node_id \<Rightarrow> manager_msg \<Rightarrow> (node_id \<times> node_id) multiset" where
  "ack_in i (RequestLease j) = {#}"
| "ack_in i (LeaseAck j) = {#(i, j)#}"
| "ack_in i (SingletonStarted j) = {#}"
| "ack_in i (SingletonStopped j) = {#}"

definition asks_of :: "(node_id \<times> manager_msg) multiset \<Rightarrow> (node_id \<times> node_id) multiset" where
  "asks_of net = (\<Sum>(j, msg)\<in>#net. ask_in j msg)"

definition acks_of :: "(node_id \<times> manager_msg) multiset \<Rightarrow> (node_id \<times> node_id) multiset" where
  "acks_of net = (\<Sum>(i, msg)\<in>#net. ack_in i msg)"

definition lease_of :: "singleton_cluster \<Rightarrow> node_id lease" where
  "lease_of c =
     \<lparr>ls_phase = (\<lambda>j. phase_of (mg_state (cl_mgr c j))), ls_asks = asks_of (cl_net c),
      ls_acks = acks_of (cl_net c), ls_starts = cl_starts c\<rparr>"

lemma asks_of_simps [simp]:
  "asks_of {#} = {#}" "asks_of (add_mset x net) = ask_in (fst x) (snd x) + asks_of net"
  "asks_of (net + net') = asks_of net + asks_of net'"
  by (auto simp: asks_of_def case_prod_beta)

lemma acks_of_simps [simp]:
  "acks_of {#} = {#}" "acks_of (add_mset x net) = ack_in (fst x) (snd x) + acks_of net"
  "acks_of (net + net') = acks_of net + acks_of net'"
  by (auto simp: acks_of_def case_prod_beta)

definition manager_ok :: "node_id list \<Rightarrow> node_id \<Rightarrow> manager \<Rightarrow> bool" where
  "manager_ok ns j m \<longleftrightarrow>
     mg_node_id m = j \<and> hm_wf (mg_managers m) \<and>
     set (hm_keys (mg_managers m)) = (if is_joining (mg_state m) then {} else set ns - {j}) \<and>
     (case mg_state m of MStarting acks \<Rightarrow> distinct acks | _ \<Rightarrow> True)"

definition cluster_ok :: "node_id list \<Rightarrow> singleton_cluster \<Rightarrow> bool" where
  "cluster_ok ns c \<longleftrightarrow> (\<forall>j \<in> set ns. manager_ok ns j (cl_mgr c j)) \<and> lease_inv (set ns) (lease_of c)"

definition other_managers :: "manager \<Rightarrow> node_id multiset" where
  "other_managers m = mset (hm_keys (mg_managers m))"

lemma other_managers_state [simp]: "other_managers (m\<lparr>mg_state := s\<rparr>) = other_managers m"
  by (simp add: other_managers_def)

lemma other_managers_none [simp]: "other_managers m = {#} \<longleftrightarrow> mg_managers m = []"
  by (simp add: other_managers_def)

lemma notify_managers_sends [simp]:
  "(\<Sum>a\<leftarrow>notify_managers msg m. action_sends a) = {#(k, msg). k \<in># other_managers m#}"
  by (simp add: notify_managers_def other_managers_def comp_def image_mset.compositionality
      flip: sum_mset_sum_list)

lemma notify_managers_starts [simp]: "count_list (notify_managers msg m) StartSingleton = 0"
  by (simp add: notify_managers_def count_list_0_iff image_iff)

lemma asks_of_all [simp]:
  "asks_of {#(k, RequestLease i). k \<in># M#} = image_mset (Pair i) M"
  "asks_of {#(k, SingletonStarted i). k \<in># M#} = {#}"
  "asks_of {#(k, SingletonStopped i). k \<in># M#} = {#}"
  by (induction M) auto

lemma acks_of_all [simp]:
  "acks_of {#(k, RequestLease i). k \<in># M#} = {#}"
  "acks_of {#(k, SingletonStarted i). k \<in># M#} = {#}"
  "acks_of {#(k, SingletonStopped i). k \<in># M#} = {#}"
  by (induction M) auto

lemma ask_all_keys:
  assumes "manager_ok ns j m" "\<not> is_joining (mg_state m)"
  shows "ask_all (set ns) j = image_mset (Pair j) (other_managers m)"
proof -
  have "mset_set (set ns - {j}) = other_managers m"
    using assms by (metis manager_ok_def mset_set_set other_managers_def)
  moreover have "image_mset (Pair j) (mset_set (set ns - {j})) = ask_all (set ns) j"
    unfolding ask_all_def by (rule image_mset_mset_set) (simp add: inj_on_def)
  ultimately show ?thesis by simp
qed

lemma in_asks_of: "(i, j) \<in># asks_of net \<longleftrightarrow> (j, RequestLease i) \<in># net"
proof (induction net)
  case (add x net)
  then show ?case by (cases x; cases "snd x") auto
qed simp

lemma in_acks_of: "(i, j) \<in># acks_of net \<longleftrightarrow> (i, LeaseAck j) \<in># net"
proof (induction net)
  case (add x net)
  then show ?case by (cases x; cases "snd x") auto
qed simp

lemma lease_of_fields [simp]:
  "ls_phase (lease_of c) j = phase_of (mg_state (cl_mgr c j))" "ls_starts (lease_of c) = cl_starts c"
  "ls_asks (lease_of c) = asks_of (cl_net c)" "ls_acks (lease_of c) = acks_of (cl_net c)"
  by (simp_all add: lease_of_def)

lemma lease_step_eq: "lease_step N s t \<Longrightarrow> t = s' \<Longrightarrow> lease_step N s s'"
  by simp

text \<open>The leader starts: it asks all others, or starts at once when it is alone.\<close>

lemma begin_starting_sim:
  assumes "manager_ok ns j m" "\<not> is_running (mg_state m)" "\<not> is_joining (mg_state m)" "j \<in> set ns"
    and "mg_state (cl_mgr c j) = mg_state m"
  shows "lease_step (set ns) (lease_of c) (lease_of (emit j (begin_starting m) c))"
proof -
  obtain p where p: "phase_of (mg_state (cl_mgr c j)) = Free p"
    using assms by (auto simp: phase_of_def is_running_def split: manager_state.splits)
  have "length (mg_managers m) = 0 \<longleftrightarrow> set ns = {j}"
    using assms(1,3,4) by (auto simp: manager_ok_def)
  then show ?thesis
    using assms p ask_all_keys [OF assms(1,3)]
    by (intro lease_step_eq [OF lease_step.ask [of j _ _ p]])
       (auto simp: begin_starting_def request_lease_def on_all_managers_acknowledged_def lease_of_def emit_def
          phase_of_def manager_ok_def)
qed

text \<open>A grant that cannot be sent, since the requester is not known, is a request that is dropped.\<close>

lemma grant_sim:
  assumes "cl_net c = add_mset (j, RequestLease i) net" "mg_node_id (cl_mgr c j) = j"
    and "phase_of (mg_state (cl_mgr c j)) = Free p"
  shows "lease_step N (lease_of c)
    (lease_of (emit j (cl_mgr c j, notify_manager i (LeaseAck (mg_node_id (cl_mgr c j))) (cl_mgr c j)) (c\<lparr>cl_net := net\<rparr>)))"
proof (cases "hm_get (mg_managers (cl_mgr c j)) i")
  case None
  then show ?thesis using assms
    by (intro lease_step_eq [OF lease_step.drop_ask [of _ _ "(i, j)"]])
       (simp add: notify_manager_def lease_of_def emit_def)
next
  case (Some a)
  then show ?thesis using assms
    by (intro lease_step_eq [OF lease_step.grant [of i j _ p]])
       (simp_all add: notify_manager_def lease_of_def emit_def)
qed

lemma request_lease_sim:
  assumes "cl_net c = add_mset (j, RequestLease i) net" "manager_ok ns j (cl_mgr c j)"
  shows "lease_step (set ns) (lease_of c)
    (lease_of (emit j (handle_request_lease i (cl_mgr c j)) (c\<lparr>cl_net := net\<rparr>)))"
proof (cases "mg_state (cl_mgr c j)")
  case (MJoining p)
  then show ?thesis using assms
    by (intro lease_step_eq [OF lease_step.owe [of i j _ p]])
       (auto simp: handle_request_lease_def grant_lease_def is_running_def lease_of_def emit_def phase_of_def)
next
  case (MRunning r)
  then show ?thesis using assms
    by (intro lease_step_eq [OF lease_step.owe [of i j _ None]])
       (auto simp: handle_request_lease_def begin_stopping_def get_singleton_actor_def is_running_def
          lease_of_def emit_def phase_of_def)
next
  case (MStarting acks)
  then show ?thesis using assms
    by (intro lease_step_eq [OF lease_step.drop_ask [of _ _ "(i, j)"]])
       (auto simp: handle_request_lease_def begin_stopping_def get_singleton_actor_def is_running_def
          lease_of_def emit_def)
next
  case MIdle
  then show ?thesis using assms grant_sim [of c j i net None "set ns"]
    by (simp add: handle_request_lease_def grant_lease_def is_running_def manager_ok_def phase_of_def)
next
  case (MStopping r k)
  then show ?thesis using assms grant_sim [of c j i net "Some k" "set ns"]
    by (simp add: handle_request_lease_def grant_lease_def is_running_def manager_ok_def phase_of_def)
qed

lemma lease_ack_sim:
  assumes "cl_net c = add_mset (j, LeaseAck i) net" "manager_ok ns j (cl_mgr c j)" "token_inv (set ns) (lease_of c)"
  shows "lease_step (set ns) (lease_of c)
    (lease_of (emit j (on_lease_ack i (cl_mgr c j)) (c\<lparr>cl_net := net\<rparr>)))"
proof (cases "\<exists>acks. mg_state (cl_mgr c j) = MStarting acks")
  case False
  then show ?thesis using assms
    by (intro lease_step_eq [OF lease_step.drop_ack [of _ _ "(j, i)"]])
       (auto simp: on_lease_ack_def lease_of_def emit_def split: manager_state.splits)
next
  case True
  then obtain acks where st: "mg_state (cl_mgr c j) = MStarting acks" by blast
  let ?ms = "mg_managers (cl_mgr c j)"
  have "set (List.insert i acks) \<subseteq> set ns - {j}"
  proof
    fix k
    assume "k \<in> set (List.insert i acks)"
    then have "0 < tokens (lease_of c) j k"
      using st assms(1) by (auto simp: tokens_def phase_of_def)
    then show "k \<in> set ns - {j}"
      using token_member [OF assms(3)] by blast
  qed
  moreover have "distinct (List.insert i acks)" "distinct (hm_keys ?ms)" "set (hm_keys ?ms) = set ns - {j}"
    using assms(2) st by (auto simp: manager_ok_def is_joining_def)
  ultimately have full: "length (List.insert i acks) = length ?ms \<longleftrightarrow> set (List.insert i acks) = set ns - {j}"
    using distinct_card [of "List.insert i acks"] distinct_card [of "hm_keys ?ms"]
      card_subset_eq [of "set ns - {j}" "set (List.insert i acks)"] by auto
  show ?thesis using assms(1) st full
    by (intro lease_step_eq [OF lease_step.collect [of j i _ "set acks"]])
       (auto simp: on_lease_ack_def Let_def on_all_managers_acknowledged_def lease_of_def emit_def phase_of_def
          fun_eq_iff)
qed

lemma manager_msg_sim:
  assumes "cl_net c = add_mset (j, msg) net" "manager_ok ns j (cl_mgr c j)" "token_inv (set ns) (lease_of c)"
  shows "(lease_step (set ns))\<^sup>*\<^sup>* (lease_of c)
    (lease_of (emit j (handle_manager_msg msg (cl_mgr c j)) (c\<lparr>cl_net := net\<rparr>)))"
proof (cases msg)
  case (RequestLease i)
  then show ?thesis
    using request_lease_sim [of c j i net ns] assms by (simp add: handle_manager_msg_def r_into_rtranclp)
next
  case (LeaseAck i)
  then show ?thesis
    using lease_ack_sim [of c j i net ns] assms by (simp add: handle_manager_msg_def r_into_rtranclp)
next
  case (SingletonStarted i)
  then have "lease_of (emit j (handle_manager_msg msg (cl_mgr c j)) (c\<lparr>cl_net := net\<rparr>)) = lease_of c"
    using assms(1) by (simp add: handle_manager_msg_def lease_of_def emit_def)
  then show ?thesis by simp
next
  case (SingletonStopped i)
  then have "lease_of (emit j (handle_manager_msg msg (cl_mgr c j)) (c\<lparr>cl_net := net\<rparr>)) = lease_of c"
    using assms(1) by (simp add: handle_manager_msg_def lease_of_def emit_def)
  then show ?thesis by simp
qed

lemma lose_sim:
  assumes "cl_net c = add_mset x net"
  shows "(lease_step N)\<^sup>*\<^sup>* (lease_of c) (lease_of (c\<lparr>cl_net := net\<rparr>))"
proof (cases "snd x")
  case (RequestLease i)
  then have "lease_step N (lease_of c) (lease_of (c\<lparr>cl_net := net\<rparr>))"
    using assms by (intro lease_step_eq [OF lease_step.drop_ask [of _ _ "(i, fst x)"]]) (simp add: lease_of_def)
  then show ?thesis by blast
next
  case (LeaseAck i)
  then have "lease_step N (lease_of c) (lease_of (c\<lparr>cl_net := net\<rparr>))"
    using assms by (intro lease_step_eq [OF lease_step.drop_ack [of _ _ "(fst x, i)"]]) (simp add: lease_of_def)
  then show ?thesis by blast
qed (use assms in \<open>simp_all add: lease_of_def\<close>)

lemma leader_sim:
  assumes "j \<in> set ns" "manager_ok ns j (cl_mgr c j)"
  shows "(lease_step (set ns))\<^sup>*\<^sup>* (lease_of c)
    (lease_of (emit j (handle_system_event (LeaderChanged l) (cl_mgr c j)) c))"
proof (cases "l = mg_node_id (cl_mgr c j) \<and> \<not> is_joining (mg_state (cl_mgr c j)) \<and> \<not> is_running (mg_state (cl_mgr c j))")
  case True
  then show ?thesis
    using begin_starting_sim [of ns j "cl_mgr c j" c] assms
    by (auto simp: handle_system_event_def on_leader_changed_def)
next
  case False
  then have "emit j (handle_system_event (LeaderChanged l) (cl_mgr c j)) c = c"
    by (auto simp: handle_system_event_def on_leader_changed_def emit_def)
  then show ?thesis by simp
qed

lemma start_done_sim:
  assumes "0 < cl_starts c j"
  shows "lease_step N (lease_of c) (lease_of (emit j (handle_start_result res (cl_mgr c j))
       (c\<lparr>cl_starts := (cl_starts c)(j := cl_starts c j - 1)\<rparr>)))"
proof (cases res)
  case (Inl e)
  then show ?thesis using assms
    by (intro lease_step_eq [OF lease_step.fail [of _ j]])
       (simp_all add: handle_start_result_def lease_of_def emit_def)
next
  case (Inr r)
  then show ?thesis using assms
    by (intro lease_step_eq [OF lease_step.hold [of _ j]])
       (simp_all add: handle_start_result_def lease_of_def emit_def phase_of_def fun_eq_iff Let_def)
qed

lemma repay_sim:
  assumes "phase_of (mg_state (cl_mgr c j)) = Free (Some i)" "phase_of (mg_state m) = Free None"
  shows "(lease_step N)\<^sup>*\<^sup>* (lease_of c) (lease_of (emit j (m, notify_manager i (LeaseAck j) m') c))"
proof -
  let ?s = "(lease_of c)\<lparr>ls_phase := (ls_phase (lease_of c))(j := Free None), ls_acks := add_mset (i, j) (ls_acks (lease_of c))\<rparr>"
  have repay: "lease_step N (lease_of c) ?s"
    using assms(1) by (intro lease_step.repay) simp
  show ?thesis
  proof (cases "hm_get (mg_managers m') i")
    case None
    then have "lease_step N ?s (lease_of (emit j (m, notify_manager i (LeaseAck j) m') c))"
      using assms(2) by (intro lease_step_eq [OF lease_step.drop_ack [of _ _ "(i, j)"]])
        (simp add: notify_manager_def lease_of_def emit_def fun_eq_iff)
    with repay show ?thesis by (meson converse_rtranclp_into_rtranclp r_into_rtranclp)
  next
    case (Some a)
    then have "?s = lease_of (emit j (m, notify_manager i (LeaseAck j) m') c)"
      using assms(2) by (simp add: notify_manager_def lease_of_def emit_def fun_eq_iff)
    with repay show ?thesis by auto
  qed
qed

lemma child_stopped_sim:
  assumes "manager_ok ns j (cl_mgr c j)"
  shows "(lease_step N)\<^sup>*\<^sup>* (lease_of c) (lease_of (emit j (on_child_stopped aid (cl_mgr c j)) c))"
proof (cases "aid = mg_singleton_id (cl_mgr c j) \<and> (\<exists>r i. mg_state (cl_mgr c j) = MStopping r i)")
  case True
  then obtain r i where st: "mg_state (cl_mgr c j) = MStopping r i" by blast
  then have "on_child_stopped aid (cl_mgr c j) =
      ((cl_mgr c j)\<lparr>mg_state := MIdle\<rparr>, notify_manager i (LeaseAck j) (cl_mgr c j))"
    using True assms by (simp add: on_child_stopped_def grant_lease_def manager_ok_def)
  then show ?thesis
    using repay_sim [of c j i "(cl_mgr c j)\<lparr>mg_state := MIdle\<rparr>"] st by (simp add: phase_of_def)
next
  case False
  then have "emit j (on_child_stopped aid (cl_mgr c j)) c = c"
    by (auto simp: on_child_stopped_def emit_def split: manager_state.splits)
  then show ?thesis by simp
qed

lemma emit_append: "emit j (m', as @ bs) c = emit j (m', bs) (emit j (m, as) c)"
  by (simp add: emit_def add.assoc)

definition joined :: "cluster_member_up \<Rightarrow> manager \<Rightarrow> manager" where
  "joined up m =
     m\<lparr>mg_managers := fold (\<lambda>n ms. if manages n m then hm_insert (node_id n) (manager_ref_id m (node_id n)) ms
                                   else ms) (up_nodes up) (mg_managers m), mg_state := MIdle\<rparr>"

definition pending_ack :: "node_id option \<Rightarrow> manager \<Rightarrow> manager_action list" where
  "pending_ack p m = (case p of Some i \<Rightarrow> notify_manager i (LeaseAck (mg_node_id m)) m | None \<Rightarrow> [])"

lemma member_up_joining:
  assumes "mg_state m = MJoining p"
  shows "member_up up m =
    (if up_leader_id up = mg_node_id m
     then (fst (begin_starting (joined up m)), pending_ack p (joined up m) @ snd (begin_starting (joined up m)))
     else (joined up m, pending_ack p (joined up m)))"
  using assms
  by (simp add: member_up_def Let_def joined_def pending_ack_def case_prod_beta split: option.splits)

lemma joined_keys:
  fixes m :: manager and ms :: "(node_id, actor_id) hash_map"
  defines "ins \<equiv> \<lambda>n ms. if manages n m then hm_insert (node_id n) (manager_ref_id m (node_id n)) ms else ms"
  shows "hm_wf ms \<Longrightarrow> hm_wf (fold ins xs ms) \<and>
    set (hm_keys (fold ins xs ms)) = set (hm_keys ms) \<union> node_id ` {n \<in> set xs. manages n m}"
  unfolding ins_def
  by (induction xs arbitrary: ms) auto

lemma joined_ok:
  assumes "manager_ok ns j m" "is_joining (mg_state m)" "settled_up ns up m"
  shows "manager_ok ns j (joined up m)"
proof -
  have "{n \<in> set (up_nodes up). manages n m} = {n \<in> set (up_nodes up). node_id n \<noteq> j}"
    using assms by (auto simp: settled_up_def manages_def manager_ok_def)
  then have "node_id ` {n \<in> set (up_nodes up). manages n m} = set ns - {j}"
    using assms(3) by (auto simp: settled_up_def)
  then show ?thesis
    using assms joined_keys [where m = m and ms = "mg_managers m" and xs = "up_nodes up"]
    by (simp add: manager_ok_def joined_def is_joining_def)
qed

lemma up_sim:
  assumes "j \<in> set ns" "manager_ok ns j (cl_mgr c j)" "is_joining (mg_state (cl_mgr c j))"
    and "settled_up ns up (cl_mgr c j)"
  shows "(lease_step (set ns))\<^sup>*\<^sup>* (lease_of c)
    (lease_of (emit j (handle_system_event (MemberUp up) (cl_mgr c j)) c))"
proof -
  obtain p where p: "mg_state (cl_mgr c j) = MJoining p"
    using assms(3) by (auto simp: is_joining_def split: manager_state.splits)
  let ?m = "joined up (cl_mgr c j)"
  let ?c = "emit j (?m, pending_ack p ?m) c"
  have ok: "manager_ok ns j ?m" and st: "mg_state ?m = MIdle"
    using joined_ok [OF assms(2-4)] by (auto simp: joined_def)
  have self: "mg_node_id ?m = j" "mg_node_id (cl_mgr c j) = j"
    using ok assms(2) by (simp_all add: manager_ok_def)
  have first: "(lease_step (set ns))\<^sup>*\<^sup>* (lease_of c) (lease_of ?c)"
  proof (cases p)
    case None
    then have "lease_of ?c = lease_of c"
      using p st by (simp add: pending_ack_def lease_of_def emit_def phase_of_def fun_eq_iff)
    then show ?thesis by simp
  next
    case (Some i)
    then show ?thesis
      using repay_sim [of c j i ?m "set ns" ?m] p st self by (simp add: pending_ack_def phase_of_def)
  qed
  have second: "lease_step (set ns) (lease_of ?c) (lease_of (emit j (begin_starting ?m) ?c))"
    using begin_starting_sim [of ns j ?m ?c] ok st assms(1) by (simp add: is_running_def is_joining_def emit_def)
  show ?thesis
    using first rtranclp.rtrancl_into_rtrancl [OF first second] emit_append [of j "fst (begin_starting ?m)" "pending_ack p ?m" "snd (begin_starting ?m)" c ?m]
    by (simp add: handle_system_event_def member_up_joining [OF p] self)
qed

lemma singleton_sim:
  assumes "singleton_step ns c c'" "cluster_ok ns c"
  shows "(lease_step (set ns))\<^sup>*\<^sup>* (lease_of c) (lease_of c')"
  using assms
proof (induction rule: singleton_step.induct)
  case (deliver c j msg net)
  then show ?case by (intro manager_msg_sim) (auto simp: cluster_ok_def lease_inv_def)
next
  case (lose c x net)
  then show ?case by (simp add: lose_sim)
next
  case (up j c up)
  then show ?case by (intro up_sim) (auto simp: cluster_ok_def)
next
  case (leader j c l)
  then show ?case by (intro leader_sim) (auto simp: cluster_ok_def)
next
  case (start_done j c res)
  then show ?case by (intro r_into_rtranclp start_done_sim) auto
next
  case (child_stopped j c aid)
  then show ?case by (intro child_stopped_sim) (auto simp: cluster_ok_def)
qed

section \<open>Every handler keeps the manager well-formed\<close>

lemma manager_ok_state:
  "manager_ok ns j m \<Longrightarrow> is_joining (mg_state m) = is_joining s \<Longrightarrow>
   (case s of MStarting acks \<Rightarrow> distinct acks | _ \<Rightarrow> True) \<Longrightarrow> manager_ok ns j (m\<lparr>mg_state := s\<rparr>)"
  by (simp add: manager_ok_def)

lemma manager_msg_ok: "manager_ok ns j m \<Longrightarrow> manager_ok ns j (fst (handle_manager_msg msg m))"
  by (cases msg; cases "mg_state m")
     (auto simp: handle_manager_msg_def handle_request_lease_def grant_lease_def begin_stopping_def on_lease_ack_def
        get_singleton_actor_def is_running_def Let_def is_joining_def manager_ok_def)

lemma begin_starting_ok:
  "manager_ok ns j m \<Longrightarrow> \<not> is_joining (mg_state m) \<Longrightarrow> manager_ok ns j (fst (begin_starting m))"
  by (simp add: begin_starting_def manager_ok_state is_joining_def split: manager_state.splits)

lemma leader_ok:
  "manager_ok ns j m \<Longrightarrow> manager_ok ns j (fst (handle_system_event (LeaderChanged l) m))"
  using begin_starting_ok [of ns j m] by (auto simp: handle_system_event_def on_leader_changed_def)

lemma up_ok:
  assumes "manager_ok ns j m" "is_joining (mg_state m)" "settled_up ns up m"
  shows "manager_ok ns j (fst (handle_system_event (MemberUp up) m))"
proof -
  obtain p where p: "mg_state m = MJoining p"
    using assms(2) by (auto simp: is_joining_def split: manager_state.splits)
  show ?thesis
    using joined_ok [OF assms] begin_starting_ok [of ns j "joined up m"]
    by (auto simp: handle_system_event_def member_up_joining [OF p] joined_def is_joining_def)
qed

lemma start_result_ok:
  "manager_ok ns j m \<Longrightarrow> \<not> is_joining (mg_state m) \<Longrightarrow> manager_ok ns j (fst (handle_start_result res m))"
  by (auto simp: handle_start_result_def Let_def manager_ok_state is_joining_def split: sum.split manager_state.splits)

lemma child_stopped_ok: "manager_ok ns j m \<Longrightarrow> manager_ok ns j (fst (on_child_stopped aid m))"
  by (cases "mg_state m")
     (auto simp: on_child_stopped_def grant_lease_def is_joining_def manager_ok_def)

lemma started_not_joining:
  assumes "cluster_ok ns c" "0 < cl_starts c j"
  shows "\<not> is_joining (mg_state (cl_mgr c j))"
  using start_invD [of "set ns" "lease_of c" j] assms
  by (auto simp: cluster_ok_def lease_inv_def phase_of_def is_joining_def split: manager_state.splits)

lemma singleton_step_managers:
  assumes "singleton_step ns c c'" "cluster_ok ns c" "k \<in> set ns"
  shows "manager_ok ns k (cl_mgr c' k)"
  using assms
proof (induction rule: singleton_step.induct)
  case (start_done j c res)
  then show ?case
    using start_result_ok [OF _ started_not_joining] by (auto simp: cluster_ok_def emit_def)
qed (auto simp: cluster_ok_def emit_def manager_msg_ok up_ok leader_ok child_stopped_ok)

lemma cluster_ok_step: "singleton_step ns c c' \<Longrightarrow> cluster_ok ns c \<Longrightarrow> cluster_ok ns c'"
  using singleton_step_managers [of ns c c'] lease_inv_steps [OF singleton_sim, of ns c c']
  by (auto simp: cluster_ok_def)

lemma cluster_boot_ok: "cluster_ok ns (cluster_boot mid sid sel)"
proof -
  have "lease_of (cluster_boot mid sid sel) = lease_init"
    by (simp add: lease_of_def cluster_boot_def lease_init_def manager_new_def manager_state_default_def phase_of_def)
  then show ?thesis
    by (simp add: cluster_ok_def lease_init_inv manager_ok_def cluster_boot_def manager_new_def
        manager_state_default_def is_joining_def)
qed

lemma cluster_ok_steps: "(singleton_step ns)\<^sup>*\<^sup>* c c' \<Longrightarrow> cluster_ok ns c \<Longrightarrow> cluster_ok ns c'"
  by (induction rule: rtranclp_induct) (auto intro: cluster_ok_step)

lemma singleton_sims:
  "(singleton_step ns)\<^sup>*\<^sup>* c c' \<Longrightarrow> cluster_ok ns c \<Longrightarrow> (lease_step (set ns))\<^sup>*\<^sup>* (lease_of c) (lease_of c')"
proof (induction rule: rtranclp_induct)
  case (step y z)
  then show ?case
    using singleton_sim [of ns y z] cluster_ok_steps [of ns c y] by (meson rtranclp_trans)
qed simp

section \<open>Running a cluster on given inputs\<close>

datatype cluster_input =
    Deliver node_id manager_msg
  | Up node_id cluster_member_up
  | Leader node_id node_id
  | StartDone node_id "actor_ref_err + actor_ref"
  | ChildStopped node_id actor_id

fun cluster_exec :: "node_id list \<Rightarrow> cluster_input \<Rightarrow> singleton_cluster \<Rightarrow> singleton_cluster option" where
  "cluster_exec ns (Deliver j msg) c =
     (if j \<in> set ns \<and> (j, msg) \<in># cl_net c
      then Some (emit j (handle_manager_msg msg (cl_mgr c j)) (c\<lparr>cl_net := cl_net c - {#(j, msg)#}\<rparr>)) else None)"
| "cluster_exec ns (Up j up) c =
     (if j \<in> set ns \<and> is_joining (mg_state (cl_mgr c j)) \<and> settled_up ns up (cl_mgr c j)
      then Some (emit j (handle_system_event (MemberUp up) (cl_mgr c j)) c) else None)"
| "cluster_exec ns (Leader j l) c =
     (if j \<in> set ns then Some (emit j (handle_system_event (LeaderChanged l) (cl_mgr c j)) c) else None)"
| "cluster_exec ns (StartDone j res) c =
     (if j \<in> set ns \<and> 0 < cl_starts c j
      then Some (emit j (handle_start_result res (cl_mgr c j)) (c\<lparr>cl_starts := (cl_starts c)(j := cl_starts c j - 1)\<rparr>))
      else None)"
| "cluster_exec ns (ChildStopped j aid) c =
     (if j \<in> set ns then Some (emit j (on_child_stopped aid (cl_mgr c j)) c) else None)"

fun cluster_run :: "node_id list \<Rightarrow> cluster_input list \<Rightarrow> singleton_cluster \<Rightarrow> singleton_cluster option" where
  "cluster_run ns [] c = Some c"
| "cluster_run ns (i # is) c = Option.bind (cluster_exec ns i c) (cluster_run ns is)"

lemma cluster_exec_step: "cluster_exec ns i c = Some c' \<Longrightarrow> singleton_step ns c c'"
proof (cases i)
  case (Deliver j msg)
  moreover assume "cluster_exec ns i c = Some c'"
  ultimately show ?thesis
    using singleton_step.deliver [of c j msg "cl_net c - {#(j, msg)#}" ns] by (auto split: if_splits)
qed (auto split: if_splits intro: singleton_step.intros singleton_step.start_done [unfolded One_nat_def])

lemma cluster_run_steps: "cluster_run ns is c = Some c' \<Longrightarrow> (singleton_step ns)\<^sup>*\<^sup>* c c'"
  by (induction "is" arbitrary: c)
     (auto simp: bind_eq_Some_conv dest!: cluster_exec_step intro: converse_rtranclp_into_rtranclp)

section \<open>Properties of the cluster\<close>

text \<open>C11: at most one manager runs the singleton. In every state that the managers of a settled cluster
  reach, whatever the order of messages, losses and changes of the leader: while the manager of one
  node is running, the manager of no other node is.
\<close>

theorem at_most_one_running:
  assumes "(singleton_step ns)\<^sup>*\<^sup>* (cluster_boot mid sid sel) c"
    and "i \<in> set ns" "j \<in> set ns" "i \<noteq> j" "mg_state (cl_mgr c i) = MRunning r"
  shows "mg_state (cl_mgr c j) \<noteq> MRunning r'"
proof
  assume "mg_state (cl_mgr c j) = MRunning r'"
  then show False
    using one_holder [of "set ns" "lease_of c" i j] cluster_ok_steps [OF assms(1) cluster_boot_ok] assms(2-5)
    by (simp add: cluster_ok_def phase_of_def)
qed

definition ex_member :: "node_id \<Rightarrow> remote_node" where
  "ex_member k = \<lparr>node_id = k, node_addr = ''a'', node_tag = ''t'', node_started_at = None, node_attributes = []\<rparr>"

definition ex_up :: "node_id \<Rightarrow> node_id list \<Rightarrow> cluster_member_up" where
  "ex_up l ns = \<lparr>up_leader_id = l, up_nodes = map ex_member ns\<rparr>"

abbreviation ex_boot :: singleton_cluster where
  "ex_boot \<equiv> cluster_boot ''m'' ''s'' SelectAll"

definition ex_ref :: actor_ref where
  "ex_ref = \<lparr>ref_id = ''s'', ref_path = ''s'', ref_type = ''S'', ref_mailbox = 0\<rparr>"

lemmas cluster_eval =
  emit_def handle_manager_msg_def handle_system_event_def member_up_def manages_def selector_includes_def
  begin_starting_def request_lease_def on_all_managers_acknowledged_def notify_managers_def notify_manager_def
  on_leader_changed_def handle_request_lease_def grant_lease_def begin_stopping_def on_lease_ack_def
  handle_start_result_def on_child_stopped_def is_running_def is_joining_def get_singleton_actor_def settled_up_def
  ex_up_def ex_member_def ex_ref_def cluster_boot_def manager_new_def manager_state_default_def

lemma ex_two_nodes:
  "\<exists>c. cluster_run [1, 2] [Up 1 (ex_up 1 [1, 2]), Up 2 (ex_up 1 [1, 2]), Deliver 2 (RequestLease 1),
      Deliver 1 (LeaseAck 2), StartDone 1 (Inr ex_ref)] ex_boot = Some c \<and> mg_state (cl_mgr c 1) = MRunning ex_ref"
  by (simp add: cluster_eval)

theorem at_most_one_running_witness:
  "\<exists>c. (singleton_step [1, 2])\<^sup>*\<^sup>* ex_boot c \<and> mg_state (cl_mgr c 1) = MRunning ex_ref \<and>
     mg_state (cl_mgr c 2) \<noteq> MRunning ex_ref"
proof -
  obtain c where c: "(singleton_step [1, 2])\<^sup>*\<^sup>* ex_boot c" "mg_state (cl_mgr c 1) = MRunning ex_ref"
    using ex_two_nodes cluster_run_steps by blast
  then show ?thesis
    using at_most_one_running [OF c(1), of 1 2 ex_ref ex_ref] by auto
qed

text \<open>C12: two nodes that start the singleton at the same time block each other for ever. A manager that is
  starting drops a request for the lease without an answer; once each of the two has dropped the
  request of the other, both are still starting in every later state, so neither ever runs.
\<close>

theorem concurrent_starters_never_run:
  assumes "(singleton_step ns)\<^sup>*\<^sup>* (cluster_boot mid sid sel) c" "(singleton_step ns)\<^sup>*\<^sup>* c c'"
    and "i \<in> set ns" "j \<in> set ns" "i \<noteq> j"
    and "mg_state (cl_mgr c i) = MStarting as" "j \<notin> set as" "mg_state (cl_mgr c j) = MStarting bs" "i \<notin> set bs"
    and "(j, RequestLease i) \<notin># cl_net c" "(i, LeaseAck j) \<notin># cl_net c"
    and "(i, RequestLease j) \<notin># cl_net c" "(j, LeaseAck i) \<notin># cl_net c"
  shows "(\<exists>as'. mg_state (cl_mgr c' i) = MStarting as') \<and> (\<exists>bs'. mg_state (cl_mgr c' j) = MStarting bs')"
proof -
  have ok: "cluster_ok ns c"
    using cluster_ok_steps [OF assms(1) cluster_boot_ok] .
  have "locked i j (lease_of c)"
    using assms(6-13) by (simp add: locked_def tokens_def phase_of_def count_eq_zero_iff in_asks_of in_acks_of)
  then have "locked i j (lease_of c')"
    using locked_steps [OF singleton_sims [OF assms(2) ok]] ok assms(3-5) by (simp add: cluster_ok_def)
  then show ?thesis
    by (auto simp: locked_def phase_of_def split: manager_state.splits)
qed

text \<open>Both nodes join while each takes itself for the leader; the two requests cross.\<close>

lemma ex_two_starters:
  "\<exists>c. cluster_run [1, 2] [Up 1 (ex_up 1 [1, 2]), Up 2 (ex_up 2 [1, 2]), Deliver 2 (RequestLease 1),
      Deliver 1 (RequestLease 2)] ex_boot = Some c \<and> mg_state (cl_mgr c 1) = MStarting [] \<and>
      mg_state (cl_mgr c 2) = MStarting [] \<and> cl_net c = {#}"
  by (simp add: cluster_eval)

theorem concurrent_starters_never_run_witness:
  "\<exists>c. (singleton_step [1, 2])\<^sup>*\<^sup>* ex_boot c \<and> mg_state (cl_mgr c 1) = MStarting [] \<and>
     (\<exists>as. mg_state (cl_mgr c 1) = MStarting as) \<and> (\<exists>bs. mg_state (cl_mgr c 2) = MStarting bs)"
proof -
  obtain c where c: "(singleton_step [1, 2])\<^sup>*\<^sup>* ex_boot c" "mg_state (cl_mgr c 1) = MStarting []"
      "mg_state (cl_mgr c 2) = MStarting []" "cl_net c = {#}"
    using ex_two_starters cluster_run_steps by blast
  then show ?thesis
    using concurrent_starters_never_run [OF c(1) rtranclp.rtrancl_refl, of 1 2 "[]" "[]"] by auto
qed

text \<open>The actors themselves are not exclusive. A manager that is stopping its singleton for one node
  grants the lease to any other node at once, so a run of three nodes reaches a state in which one
  manager runs the singleton while the actor of another has not stopped yet.
\<close>

theorem granted_while_stopping:
  "\<exists>c. (singleton_step [1, 2, 3])\<^sup>*\<^sup>* ex_boot c \<and> mg_state (cl_mgr c 1) = MStopping ex_ref 2 \<and>
     mg_state (cl_mgr c 3) = MRunning ex_ref"
proof -
  have "\<exists>c. cluster_run [1, 2, 3]
     [Up 1 (ex_up 1 [1, 2, 3]), Up 2 (ex_up 1 [1, 2, 3]), Up 3 (ex_up 1 [1, 2, 3]),
      Deliver 2 (RequestLease 1), Deliver 3 (RequestLease 1), Deliver 1 (LeaseAck 2), Deliver 1 (LeaseAck 3),
      StartDone 1 (Inr ex_ref), Leader 3 3, Deliver 2 (RequestLease 3), Deliver 3 (LeaseAck 2), Leader 2 2,
      Deliver 1 (RequestLease 2), Deliver 1 (RequestLease 3), Deliver 3 (LeaseAck 1), StartDone 3 (Inr ex_ref)]
     ex_boot = Some c \<and> mg_state (cl_mgr c 1) = MStopping ex_ref 2 \<and> mg_state (cl_mgr c 3) = MRunning ex_ref"
    by (simp add: cluster_eval)
  then show ?thesis
    using cluster_run_steps by blast
qed

end
