(* ===== verification/Net_Messages.thy ===== *)
theory Net_Messages
  imports Remote_System
begin

text \<open>
  The messages between nodes: \<open>remote/net/message.rs\<close> (events of clients and sessions, errors and times
  on the wire), the conversions of nodes in \<open>remote/cluster/node.rs\<close> and the system events of
  \<open>remote/stream/system.rs\<close>.

  An event is one tag byte and the protobuf encoding of its payload. The generated encoders and decoders
  are arguments; the payloads are records of the fields the code reads or writes. Numbers of an enum
  that the decoder does not know are \<open>None\<close>. Times are milliseconds on the scale of the node's clock,
  with the Unix epoch at \<open>epoch\<close>.
\<close>

section \<open>Times and errors on the wire\<close>

record timestamp =
  ts_seconds :: int
  ts_nanos :: int

definition datetime_to_timestamp :: "time \<Rightarrow> time \<Rightarrow> timestamp" where
  "datetime_to_timestamp epoch t =
     (let ms = int t - int epoch in \<lparr>ts_seconds = ms div 1000, ts_nanos = (ms mod 1000) * 1000000\<rparr>)"

text \<open>\<open>from_timestamp_opt\<close> refuses nanoseconds of two seconds or more and times out of its range.\<close>

definition timestamp_to_datetime :: "time \<Rightarrow> timestamp \<Rightarrow> time may_panic" where
  "timestamp_to_datetime epoch ts =
     (let ms = ts_seconds ts * 1000 + ts_nanos ts div 1000000 + int epoch
      in if 0 \<le> ts_nanos ts \<and> ts_nanos ts < 2000000000 \<and> 0 \<le> ms then Inr (nat ms)
         else Inl (Panic ''called unwrap on a None value''))"

datatype proto_wrap_err = UnknownWrapErr | WrapUnsupported | ProtoSerializationErr
datatype proto_unwrap_err = UnknownUnwrapErr | UnwrapUnsupported | ProtoDeserializationErr

datatype error_type =
    ETActorUnavailable | ETNotFound | ETAlreadyExists | ETSerialisation | ETDeserialisation | ETTimeout
  | ETActorStartFailed | ETInvalidRef | ETResultChannelClosed | ETResultSendFailed | ETNotSupported | ETNotImplemented

record proto_ref_err =
  pre_type :: "error_type option"
  pre_actor_id :: string
  pre_message_type :: string
  pre_actor_type :: string
  pre_time_taken_millis :: u64
  pre_serialization_error :: "proto_wrap_err option"
  pre_deserialization_error :: "proto_unwrap_err option"

definition proto_ref_err_default :: proto_ref_err where
  "proto_ref_err_default =
     \<lparr>pre_type = Some ETActorUnavailable, pre_actor_id = '''', pre_message_type = '''', pre_actor_type = '''',
      pre_time_taken_millis = 0, pre_serialization_error = Some UnknownWrapErr,
      pre_deserialization_error = Some UnknownUnwrapErr\<rparr>"

definition wrap_err_to_proto :: "message_wrap_err \<Rightarrow> proto_wrap_err" where
  "wrap_err_to_proto e =
     (case e of WrapNotTransmittable \<Rightarrow> WrapUnsupported | SerializationErr \<Rightarrow> ProtoSerializationErr | WrapUnknown \<Rightarrow> UnknownWrapErr)"

definition unwrap_err_to_proto :: "message_unwrap_err \<Rightarrow> proto_unwrap_err" where
  "unwrap_err_to_proto e =
     (case e of UnwrapNotTransmittable \<Rightarrow> UnwrapUnsupported | DeserializationErr \<Rightarrow> ProtoDeserializationErr
      | UnwrapUnknown \<Rightarrow> UnknownUnwrapErr)"

definition ref_err_to_proto :: "actor_ref_err \<Rightarrow> proto_ref_err" where
  "ref_err_to_proto err =
     (let d = proto_ref_err_default
      in case err of
           ActorUnavailable \<Rightarrow> d\<lparr>pre_type := Some ETActorUnavailable\<rparr>
         | NotFound aid \<Rightarrow> d\<lparr>pre_actor_id := aid, pre_type := Some ETNotFound\<rparr>
         | AlreadyExists aid \<Rightarrow> d\<lparr>pre_actor_id := aid, pre_type := Some ETAlreadyExists\<rparr>
         | Serialisation e \<Rightarrow>
             d\<lparr>pre_serialization_error := Some (wrap_err_to_proto e), pre_type := Some ETSerialisation\<rparr>
         | Deserialisation e \<Rightarrow>
             d\<lparr>pre_deserialization_error := Some (unwrap_err_to_proto e), pre_type := Some ETDeserialisation\<rparr>
         | Timeout t \<Rightarrow> d\<lparr>pre_time_taken_millis := t, pre_type := Some ETTimeout\<rparr>
         | ActorStartFailed \<Rightarrow> d\<lparr>pre_type := Some ETActorStartFailed\<rparr>
         | InvalidRef \<Rightarrow> d\<lparr>pre_type := Some ETInvalidRef\<rparr>
         | ResultChannelClosed \<Rightarrow> d\<lparr>pre_type := Some ETResultChannelClosed\<rparr>
         | ResultSendFailed \<Rightarrow> d\<lparr>pre_type := Some ETResultSendFailed\<rparr>
         | NotSupported aid mt ty \<Rightarrow>
             d\<lparr>pre_actor_id := aid, pre_message_type := mt, pre_actor_type := ty, pre_type := Some ETNotSupported\<rparr>
         | NotImplemented \<Rightarrow> d\<lparr>pre_type := Some ETNotImplemented\<rparr>)"

definition unwrap_enum :: "'a option \<Rightarrow> 'a may_panic" where
  "unwrap_enum v = (case v of Some x \<Rightarrow> Inr x | None \<Rightarrow> Inl (Panic ''called unwrap on an Err value''))"

definition wrap_err_from_proto :: "proto_wrap_err \<Rightarrow> message_wrap_err" where
  "wrap_err_from_proto e =
     (case e of WrapUnsupported \<Rightarrow> WrapNotTransmittable | ProtoSerializationErr \<Rightarrow> SerializationErr | UnknownWrapErr \<Rightarrow> WrapUnknown)"

definition unwrap_err_from_proto :: "proto_unwrap_err \<Rightarrow> message_unwrap_err" where
  "unwrap_err_from_proto e =
     (case e of UnwrapUnsupported \<Rightarrow> UnwrapNotTransmittable | ProtoDeserializationErr \<Rightarrow> DeserializationErr
      | UnknownUnwrapErr \<Rightarrow> UnwrapUnknown)"

definition ref_err_from_proto :: "proto_ref_err \<Rightarrow> actor_ref_err may_panic" where
  "ref_err_from_proto p =
     (case unwrap_enum (pre_type p) of
        Inl e \<Rightarrow> Inl e
      | Inr t \<Rightarrow>
          (case t of
             ETActorUnavailable \<Rightarrow> Inr ActorUnavailable
           | ETNotFound \<Rightarrow> Inr (NotFound (pre_actor_id p))
           | ETAlreadyExists \<Rightarrow> Inr (AlreadyExists (pre_actor_id p))
           | ETSerialisation \<Rightarrow>
               map_sum id (\<lambda>e. Serialisation (wrap_err_from_proto e)) (unwrap_enum (pre_serialization_error p))
           | ETDeserialisation \<Rightarrow>
               map_sum id (\<lambda>e. Deserialisation (unwrap_err_from_proto e)) (unwrap_enum (pre_deserialization_error p))
           | ETTimeout \<Rightarrow> Inr (Timeout (pre_time_taken_millis p))
           | ETActorStartFailed \<Rightarrow> Inr ActorStartFailed
           | ETInvalidRef \<Rightarrow> Inr InvalidRef
           | ETResultChannelClosed \<Rightarrow> Inr ResultChannelClosed
           | ETResultSendFailed \<Rightarrow> Inr ResultSendFailed
           | ETNotSupported \<Rightarrow> Inr (NotSupported (pre_actor_id p) (pre_message_type p) (pre_actor_type p))
           | ETNotImplemented \<Rightarrow> Inr NotImplemented))"

lemma unwrap_enum_Some [simp]: "unwrap_enum (Some x) = Inr x"
  by (simp add: unwrap_enum_def)

text \<open>Every error of an actor reference crosses the network unchanged, without a panic.\<close>

lemma wrap_err_roundtrip [simp]: "wrap_err_from_proto (wrap_err_to_proto e) = e"
  by (cases e) (simp_all add: wrap_err_from_proto_def wrap_err_to_proto_def)

lemma unwrap_err_roundtrip [simp]: "unwrap_err_from_proto (unwrap_err_to_proto e) = e"
  by (cases e) (simp_all add: unwrap_err_from_proto_def unwrap_err_to_proto_def)

lemma ref_err_roundtrip [simp]: "ref_err_from_proto (ref_err_to_proto e) = Inr e"
  by (cases e) (simp_all add: ref_err_from_proto_def ref_err_to_proto_def Let_def)

lemma timestamp_roundtrip [simp]: "timestamp_to_datetime epoch (datetime_to_timestamp epoch t) = Inr t"
proof -
  let ?ms = "int t - int epoch"
  have "0 \<le> ?ms mod 1000" "?ms mod 1000 < 1000" by simp_all
  moreover have "?ms div 1000 * 1000 + ?ms mod 1000 = ?ms" by simp
  ultimately show ?thesis
    by (simp add: timestamp_to_datetime_def datetime_to_timestamp_def Let_def)
qed

section \<open>Nodes on the wire\<close>

record proto_node =
  pn_node_id :: node_id
  pn_addr :: string
  pn_tag :: string
  pn_started_at :: "timestamp option"
  pn_attributes :: "(string, string) hash_map"

definition node_to_proto :: "time \<Rightarrow> remote_node \<Rightarrow> proto_node" where
  "node_to_proto epoch n =
     \<lparr>pn_node_id = node_id n, pn_addr = node_addr n, pn_tag = node_tag n,
      pn_started_at = map_option (datetime_to_timestamp epoch) (node_started_at n),
      pn_attributes = collect_map (node_attributes n)\<rparr>"

definition node_state_to_proto :: "time \<Rightarrow> remote_node_state \<Rightarrow> proto_node" where
  "node_state_to_proto epoch s =
     \<lparr>pn_node_id = state_id s, pn_addr = state_addr s, pn_tag = state_tag s,
      pn_started_at = map_option (datetime_to_timestamp epoch) (state_started_at s),
      pn_attributes = collect_map (state_attributes s)\<rparr>"

definition started_from_proto :: "time \<Rightarrow> timestamp option \<Rightarrow> (time option) may_panic" where
  "started_from_proto epoch ts =
     (case ts of None \<Rightarrow> Inr None | Some s \<Rightarrow> map_sum id Some (timestamp_to_datetime epoch s))"

definition node_from_proto :: "time \<Rightarrow> proto_node \<Rightarrow> remote_node may_panic" where
  "node_from_proto epoch p =
     map_sum id
       (\<lambda>st. \<lparr>node_id = pn_node_id p, node_addr = pn_addr p, node_tag = pn_tag p, node_started_at = st,
              node_attributes = collect_map (pn_attributes p)\<rparr>)
       (started_from_proto epoch (pn_started_at p))"

fun nodes_from_proto :: "time \<Rightarrow> proto_node list \<Rightarrow> remote_node list may_panic" where
  "nodes_from_proto epoch [] = Inr []"
| "nodes_from_proto epoch (p # ps) =
     (case node_from_proto epoch p of
        Inl e \<Rightarrow> Inl e
      | Inr n \<Rightarrow> map_sum id (\<lambda>ns. n # ns) (nodes_from_proto epoch ps))"

lemma collect_map_id: "hm_wf m \<Longrightarrow> collect_map m = m"
proof (induction m rule: rev_induct)
  case (snoc x m)
  then show ?case
    by (cases x) (auto simp: collect_map_def hm_insert_absent image_iff)
qed (simp add: collect_map_def)

definition node_wf :: "remote_node \<Rightarrow> bool" where
  "node_wf n \<longleftrightarrow> hm_wf (node_attributes n)"

lemma started_roundtrip [simp]:
  "started_from_proto epoch (map_option (datetime_to_timestamp epoch) st) = Inr st"
  by (cases st) (simp_all add: started_from_proto_def)

lemma node_roundtrip [simp]: "node_wf n \<Longrightarrow> node_from_proto epoch (node_to_proto epoch n) = Inr n"
  by (simp add: node_from_proto_def node_to_proto_def node_wf_def collect_map_id collect_map_wf)

lemma node_state_roundtrip:
  "hm_wf (state_attributes s) \<Longrightarrow> node_from_proto epoch (node_state_to_proto epoch s) = Inr (remote_node_from_state s)"
  by (simp add: node_from_proto_def node_state_to_proto_def remote_node_from_state_def collect_map_id collect_map_wf)

lemma nodes_roundtrip [simp]:
  "\<forall>n \<in> set ns. node_wf n \<Longrightarrow> nodes_from_proto epoch (map (node_to_proto epoch) ns) = Inr ns"
  by (induction ns) simp_all

section \<open>Payloads\<close>

text \<open>
  The generated messages, without their unknown fields, the trace ids of requests and the protocol version of an
  identity, which are always empty. An event whose only field is an identifier is that identifier. The
  handshakes of a client and of a session share one record; each leaves the other's fields at their defaults.
\<close>

datatype client_type = ClientTypeClient | ClientTypeWorker

record system_capabilities =
  cap_actors :: "string list"
  cap_messages :: "string list"

record proto_identity =
  pid_node_id :: node_id
  pid_node_tag :: string
  pid_addr :: string
  pid_application_version :: string
  pid_started_at :: "timestamp option"
  pid_peers :: "proto_node list"
  pid_capabilities :: "system_capabilities option"
  pid_attributes :: "(string, string) hash_map"

record proto_handshake =
  phs_node_id :: node_id
  phs_nodes :: "proto_node list"
  phs_node_tag :: string
  phs_trace_id :: string
  phs_started_at :: "timestamp option"
  phs_token :: bytes
  phs_client_type :: "client_type option"

record proto_identify =
  pidf_source_node_id :: node_id
  pidf_source_node_tag :: string
  pidf_token :: string

record client_result =
  cr_message_id :: string
  cr_result :: bytes

record client_err =
  ce_message_id :: string
  ce_error :: "proto_ref_err option"

record ping_event =
  ping_message_id :: string
  ping_node_id :: node_id
  ping_system_terminated :: bool

record message_request =
  mr_message_id :: string
  mr_handler_type :: string
  mr_actor_id :: string
  mr_message :: bytes
  mr_requires_response :: bool
  mr_origin_node_id :: node_id

record create_actor_event =
  ca_message_id :: string
  ca_actor_id :: string
  ca_actor_type :: string
  ca_recipe :: bytes

record find_actor_event =
  fa_message_id :: string
  fa_actor_id :: string

record stream_publish_event =
  sp_topic :: string
  sp_key :: string
  sp_message :: bytes

section \<open>Events\<close>

datatype event =
    EvIdentify | EvHandshake | EvResult | EvErr | EvPing | EvPong | EvCreateActor | EvFindActor
  | EvRegisterActor | EvNotifyActor | EvStreamPublish | EvRaft | EvIdentity

definition event_value :: "event \<Rightarrow> byte" where
  "event_value e =
     (case e of EvIdentify \<Rightarrow> 0 | EvHandshake \<Rightarrow> 1 | EvResult \<Rightarrow> 2 | EvErr \<Rightarrow> 3 | EvPing \<Rightarrow> 4 | EvPong \<Rightarrow> 5
      | EvCreateActor \<Rightarrow> 6 | EvFindActor \<Rightarrow> 7 | EvRegisterActor \<Rightarrow> 8 | EvNotifyActor \<Rightarrow> 9 | EvStreamPublish \<Rightarrow> 10
      | EvRaft \<Rightarrow> 11 | EvIdentity \<Rightarrow> 12)"

definition event_from :: "byte \<Rightarrow> event option" where
  "event_from b =
     List.find (\<lambda>e. event_value e = b)
       [EvIdentify, EvHandshake, EvResult, EvErr, EvPing, EvPong, EvCreateActor, EvFindActor, EvRegisterActor,
        EvNotifyActor, EvStreamPublish, EvRaft, EvIdentity]"

datatype client_event =
    CEIdentity proto_identity
  | CEHandshake proto_handshake
  | CEResult client_result
  | CEErr client_err
  | CEPing ping_event
  | CEPong string

datatype net_session_event =
    SEIdentify proto_identify
  | SEPing ping_event
  | SEPong string
  | SEHandshake proto_handshake
  | SENotifyActor message_request
  | SECreateActor create_actor_event
  | SERegisterActor "string \<times> node_id option"
  | SEFindActor find_actor_event
  | SEStreamPublish stream_publish_event
  | SEResult client_result
  | SEErr client_err
  | SERaft

type_synonym ('p, 'err) codec = "('p \<Rightarrow> 'err + bytes) \<times> (bytes \<Rightarrow> 'err + 'p)"

record 'err net_codec =
  c_identity :: "(proto_identity, 'err) codec"
  c_client_handshake :: "(proto_handshake, 'err) codec"
  c_session_handshake :: "(proto_handshake, 'err) codec"
  c_identify :: "(proto_identify, 'err) codec"
  c_result :: "(client_result, 'err) codec"
  c_err :: "(client_err, 'err) codec"
  c_ping :: "(ping_event, 'err) codec"
  c_pong :: "(string, 'err) codec"
  c_notify :: "(message_request, 'err) codec"
  c_create :: "(create_actor_event, 'err) codec"
  c_register :: "(string \<times> node_id option, 'err) codec"
  c_find :: "(find_actor_event, 'err) codec"
  c_publish :: "(stream_publish_event, 'err) codec"

definition write_event :: "event \<Rightarrow> 'err + bytes \<Rightarrow> bytes option" where
  "write_event ev message = (case message of Inr m \<Rightarrow> Some (event_value ev # m) | Inl _ \<Rightarrow> None)"

text \<open>Both readers unwrap the decoded payload.\<close>

definition read_payload :: "('p, 'err) codec \<Rightarrow> ('p \<Rightarrow> 'ev) \<Rightarrow> bytes \<Rightarrow> ('ev option) may_panic" where
  "read_payload c f m =
     (case snd c m of Inr p \<Rightarrow> Inr (Some (f p)) | Inl _ \<Rightarrow> Inl (Panic ''called unwrap on an Err value''))"

definition client_event_read :: "'err net_codec \<Rightarrow> bytes \<Rightarrow> (client_event option) may_panic" where
  "client_event_read C data =
     (case data of
        [] \<Rightarrow> Inr None
      | e # m \<Rightarrow>
          (case event_from e of
             Some EvIdentity \<Rightarrow> read_payload (c_identity C) CEIdentity m
           | Some EvHandshake \<Rightarrow> read_payload (c_client_handshake C) CEHandshake m
           | Some EvResult \<Rightarrow> read_payload (c_result C) CEResult m
           | Some EvErr \<Rightarrow> read_payload (c_err C) CEErr m
           | Some EvPing \<Rightarrow> read_payload (c_ping C) CEPing m
           | Some EvPong \<Rightarrow> read_payload (c_pong C) CEPong m
           | _ \<Rightarrow> Inr None))"

definition client_event_write :: "'err net_codec \<Rightarrow> client_event \<Rightarrow> bytes option" where
  "client_event_write C ev =
     (case ev of
        CEIdentity e \<Rightarrow> write_event EvIdentity (fst (c_identity C) e)
      | CEHandshake e \<Rightarrow> write_event EvHandshake (fst (c_client_handshake C) e)
      | CEResult e \<Rightarrow> write_event EvResult (fst (c_result C) e)
      | CEErr e \<Rightarrow> write_event EvErr (fst (c_err C) e)
      | CEPing e \<Rightarrow> write_event EvPing (fst (c_ping C) e)
      | CEPong e \<Rightarrow> write_event EvPong (fst (c_pong C) e))"

definition session_event_read :: "'err net_codec \<Rightarrow> bytes \<Rightarrow> (net_session_event option) may_panic" where
  "session_event_read C data =
     (case data of
        [] \<Rightarrow> Inr None
      | e # m \<Rightarrow>
          (case event_from e of
             Some EvIdentify \<Rightarrow> read_payload (c_identify C) SEIdentify m
           | Some EvHandshake \<Rightarrow> read_payload (c_session_handshake C) SEHandshake m
           | Some EvPing \<Rightarrow> read_payload (c_ping C) SEPing m
           | Some EvPong \<Rightarrow> read_payload (c_pong C) SEPong m
           | Some EvCreateActor \<Rightarrow> read_payload (c_create C) SECreateActor m
           | Some EvFindActor \<Rightarrow> read_payload (c_find C) SEFindActor m
           | Some EvNotifyActor \<Rightarrow> read_payload (c_notify C) SENotifyActor m
           | Some EvRegisterActor \<Rightarrow> read_payload (c_register C) SERegisterActor m
           | Some EvStreamPublish \<Rightarrow> read_payload (c_publish C) SEStreamPublish m
           | Some EvResult \<Rightarrow> read_payload (c_result C) SEResult m
           | Some EvErr \<Rightarrow> read_payload (c_err C) SEErr m
           | _ \<Rightarrow> Inr None))"

definition session_event_write :: "'err net_codec \<Rightarrow> net_session_event \<Rightarrow> bytes option" where
  "session_event_write C ev =
     (case ev of
        SEHandshake e \<Rightarrow> write_event EvHandshake (fst (c_session_handshake C) e)
      | SEPing e \<Rightarrow> write_event EvPing (fst (c_ping C) e)
      | SEPong e \<Rightarrow> write_event EvPong (fst (c_pong C) e)
      | SERegisterActor e \<Rightarrow> write_event EvRegisterActor (fst (c_register C) e)
      | SENotifyActor e \<Rightarrow> write_event EvNotifyActor (fst (c_notify C) e)
      | SEFindActor e \<Rightarrow> write_event EvFindActor (fst (c_find C) e)
      | SECreateActor e \<Rightarrow> write_event EvCreateActor (fst (c_create C) e)
      | SEStreamPublish e \<Rightarrow> write_event EvStreamPublish (fst (c_publish C) e)
      | SEResult e \<Rightarrow> write_event EvResult (fst (c_result C) e)
      | SEIdentify e \<Rightarrow> write_event EvIdentify (fst (c_identify C) e)
      | SEErr e \<Rightarrow> write_event EvErr (fst (c_err C) e)
      | SERaft \<Rightarrow> None)"

lemma event_from_value [simp]: "event_from (event_value e) = Some e"
  by (cases e) (simp_all add: event_from_def event_value_def)

definition codec_lawful :: "('p, 'err) codec \<Rightarrow> bool" where
  "codec_lawful c \<longleftrightarrow> proto_roundtrip (fst c) (snd c)"

definition net_lawful :: "'err net_codec \<Rightarrow> bool" where
  "net_lawful C \<longleftrightarrow>
     codec_lawful (c_identity C) \<and> codec_lawful (c_client_handshake C) \<and> codec_lawful (c_session_handshake C) \<and>
     codec_lawful (c_identify C) \<and> codec_lawful (c_result C) \<and> codec_lawful (c_err C) \<and> codec_lawful (c_ping C) \<and>
     codec_lawful (c_pong C) \<and> codec_lawful (c_notify C) \<and> codec_lawful (c_create C) \<and>
     codec_lawful (c_register C) \<and> codec_lawful (c_find C) \<and> codec_lawful (c_publish C)"

lemma write_event_Some: "write_event ev r = Some b \<longleftrightarrow> (\<exists>m. r = Inr m \<and> b = event_value ev # m)"
  by (auto simp: write_event_def split: sum.splits)

lemma read_written: "codec_lawful c \<Longrightarrow> fst c p = Inr m \<Longrightarrow> read_payload c f m = Inr (Some (f p))"
  by (simp add: codec_lawful_def read_payload_def proto_roundtripD)

lemma client_event_roundtrip:
  assumes "net_lawful C" "client_event_write C ev = Some b"
  shows "client_event_read C b = Inr (Some ev)"
  using assms
  by (cases ev) (auto simp: client_event_write_def client_event_read_def write_event_Some net_lawful_def read_written)

lemma session_event_roundtrip:
  assumes "net_lawful C" "session_event_write C ev = Some b"
  shows "session_event_read C b = Inr (Some ev)"
  using assms
  by (cases ev) (auto simp: session_event_write_def session_event_read_def write_event_Some net_lawful_def read_written)

section \<open>System events\<close>

text \<open>The payloads of the four events on the topic \<open>coerce\<close>; a missing node is \<open>None\<close>.\<close>

record 'err system_codec =
  c_new_node :: "(proto_node option, 'err) codec"
  c_node_removed :: "(proto_node option, 'err) codec"
  c_leader_changed :: "(node_id, 'err) codec"
  c_member_up :: "(node_id \<times> proto_node list, 'err) codec"

datatype sys_event = ClusterNewNode | ClusterNodeRemoved | ClusterLeaderChanged | ClusterMemberUp

definition sys_event_value :: "sys_event \<Rightarrow> byte" where
  "sys_event_value e =
     (case e of ClusterNewNode \<Rightarrow> 0 | ClusterNodeRemoved \<Rightarrow> 1 | ClusterLeaderChanged \<Rightarrow> 2 | ClusterMemberUp \<Rightarrow> 3)"

definition sys_event_from :: "byte \<Rightarrow> sys_event option" where
  "sys_event_from b =
     List.find (\<lambda>e. sys_event_value e = b) [ClusterNewNode, ClusterNodeRemoved, ClusterLeaderChanged, ClusterMemberUp]"

definition write_system_event :: "sys_event \<Rightarrow> 'err + bytes \<Rightarrow> bytes option" where
  "write_system_event ev message = (case message of Inr m \<Rightarrow> Some (sys_event_value ev # m) | Inl _ \<Rightarrow> None)"

definition unwrap_parsed :: "('p, 'err) codec \<Rightarrow> bytes \<Rightarrow> 'p may_panic" where
  "unwrap_parsed c m =
     (case snd c m of Inr p \<Rightarrow> Inr p | Inl _ \<Rightarrow> Inl (Panic ''called unwrap on an Err value''))"

definition event_of_node :: "time \<Rightarrow> (remote_node \<Rightarrow> cluster_event) \<Rightarrow> proto_node option \<Rightarrow> cluster_event may_panic" where
  "event_of_node epoch f n =
     (case n of
        None \<Rightarrow> Inl (Panic ''called unwrap on a None value'')
      | Some p \<Rightarrow> map_sum id f (node_from_proto epoch p))"

definition event_of_member_up :: "time \<Rightarrow> node_id \<times> proto_node list \<Rightarrow> cluster_event may_panic" where
  "event_of_member_up epoch p =
     map_sum id (\<lambda>ns. MemberUp \<lparr>up_leader_id = fst p, up_nodes = ns\<rparr>) (nodes_from_proto epoch (snd p))"

definition system_event_read :: "'err system_codec \<Rightarrow> time \<Rightarrow> bytes \<Rightarrow> (cluster_event option) may_panic" where
  "system_event_read C epoch data =
     (case data of
        [] \<Rightarrow> Inr None
      | e # m \<Rightarrow>
          (case sys_event_from e of
             None \<Rightarrow> Inr None
           | Some t \<Rightarrow>
               map_sum id Some
                 (case t of
                    ClusterNodeRemoved \<Rightarrow>
                      (case unwrap_parsed (c_node_removed C) m of Inl x \<Rightarrow> Inl x | Inr p \<Rightarrow> event_of_node epoch NodeRemoved p)
                  | ClusterNewNode \<Rightarrow>
                      (case unwrap_parsed (c_new_node C) m of Inl x \<Rightarrow> Inl x | Inr p \<Rightarrow> event_of_node epoch NodeAdded p)
                  | ClusterLeaderChanged \<Rightarrow> map_sum id LeaderChanged (unwrap_parsed (c_leader_changed C) m)
                  | ClusterMemberUp \<Rightarrow>
                      (case unwrap_parsed (c_member_up C) m of Inl x \<Rightarrow> Inl x | Inr p \<Rightarrow> event_of_member_up epoch p))))"

definition system_event_write :: "'err system_codec \<Rightarrow> time \<Rightarrow> cluster_event \<Rightarrow> bytes option" where
  "system_event_write C epoch ev =
     (case ev of
        NodeAdded n \<Rightarrow> write_system_event ClusterNewNode (fst (c_new_node C) (Some (node_to_proto epoch n)))
      | NodeRemoved n \<Rightarrow> write_system_event ClusterNodeRemoved (fst (c_node_removed C) (Some (node_to_proto epoch n)))
      | LeaderChanged n \<Rightarrow> write_system_event ClusterLeaderChanged (fst (c_leader_changed C) n)
      | MemberUp up \<Rightarrow>
          write_system_event ClusterMemberUp
            (fst (c_member_up C) (up_leader_id up, map (node_to_proto epoch) (up_nodes up))))"

lemma sys_event_from_value [simp]: "sys_event_from (sys_event_value e) = Some e"
  by (cases e) (simp_all add: sys_event_from_def sys_event_value_def)

definition system_lawful :: "'err system_codec \<Rightarrow> bool" where
  "system_lawful C \<longleftrightarrow>
     codec_lawful (c_new_node C) \<and> codec_lawful (c_node_removed C) \<and> codec_lawful (c_leader_changed C) \<and>
     codec_lawful (c_member_up C)"

fun event_nodes :: "cluster_event \<Rightarrow> remote_node list" where
  "event_nodes (MemberUp up) = up_nodes up"
| "event_nodes (NodeAdded n) = [n]"
| "event_nodes (NodeRemoved n) = [n]"
| "event_nodes (LeaderChanged _) = []"

lemma write_system_event_Some:
  "write_system_event ev r = Some b \<longleftrightarrow> (\<exists>m. r = Inr m \<and> b = sys_event_value ev # m)"
  by (auto simp: write_system_event_def split: sum.splits)

lemma unwrap_written: "codec_lawful c \<Longrightarrow> fst c p = Inr m \<Longrightarrow> unwrap_parsed c m = Inr p"
  by (simp add: codec_lawful_def unwrap_parsed_def proto_roundtripD)

lemma system_event_roundtrip:
  assumes "system_lawful C" "\<forall>n \<in> set (event_nodes ev). node_wf n" "system_event_write C epoch ev = Some b"
  shows "system_event_read C epoch b = Inr (Some ev)"
  using assms
  by (cases ev)
     (auto simp: system_event_write_def system_event_read_def write_system_event_Some system_lawful_def unwrap_written
        event_of_node_def event_of_member_up_def)

text \<open>Every event that a node can write is read back by the other side as it was: for a lawful protobuf
  codec, the events of clients, of sessions and of the system topic, whatever their payload, with every
  error, time and node in it, survive the wire without an error and without a panic.\<close>

theorem network_events_roundtrip:
  assumes "net_lawful C" and "system_lawful S" and "\<forall>n \<in> set (event_nodes ev). hm_wf (node_attributes n)"
  shows "(client_event_write C c = Some b1 \<longrightarrow> client_event_read C b1 = Inr (Some c)) \<and>
         (session_event_write C e = Some b2 \<longrightarrow> session_event_read C b2 = Inr (Some e)) \<and>
         (system_event_write S epoch ev = Some b3 \<longrightarrow> system_event_read S epoch b3 = Inr (Some ev)) \<and>
         ref_err_from_proto (ref_err_to_proto err) = Inr err"
  using client_event_roundtrip [OF assms(1)] session_event_roundtrip [OF assms(1)]
    system_event_roundtrip [OF assms(2)] assms(3)
  by (simp add: node_wf_def)

text \<open>A codec that writes one given payload and refuses all others.\<close>

definition only :: "'p \<Rightarrow> ('p, unit) codec" where
  "only v = (\<lambda>x. if x = v then Inr [7] else Inl (), \<lambda>_. Inr v)"

lemma only_lawful [simp]: "codec_lawful (only v)"
  by (auto simp: only_def codec_lawful_def proto_roundtrip_def)

definition none_codec :: "('p, unit) codec" where
  "none_codec = (\<lambda>_. Inl (), \<lambda>_. Inl ())"

lemma none_codec_lawful [simp]: "codec_lawful none_codec"
  by (auto simp: none_codec_def codec_lawful_def proto_roundtrip_def)

definition ex_net :: "unit net_codec" where
  "ex_net =
     \<lparr>c_identity = none_codec, c_client_handshake = none_codec, c_session_handshake = none_codec,
      c_identify = none_codec, c_result = none_codec, c_err = none_codec, c_ping = none_codec, c_pong = only ''p'',
      c_notify = none_codec, c_create = none_codec, c_register = none_codec, c_find = none_codec,
      c_publish = none_codec\<rparr>"

definition ex_system_codec :: "unit system_codec" where
  "ex_system_codec =
     \<lparr>c_new_node = none_codec, c_node_removed = none_codec, c_leader_changed = only 4, c_member_up = none_codec\<rparr>"

lemma ex_codecs_lawful: "net_lawful ex_net" "system_lawful ex_system_codec"
  by (simp_all add: net_lawful_def ex_net_def system_lawful_def ex_system_codec_def)

theorem network_events_roundtrip_witness:
  "client_event_write ex_net (CEPong ''p'') = Some [5, 7] \<and> client_event_read ex_net [5, 7] = Inr (Some (CEPong ''p'')) \<and>
   system_event_write ex_system_codec 0 (LeaderChanged 4) = Some [2, 7] \<and>
   system_event_read ex_system_codec 0 [2, 7] = Inr (Some (LeaderChanged 4))"
proof -
  have w: "client_event_write ex_net (CEPong ''p'') = Some [5, 7]"
    "system_event_write ex_system_codec 0 (LeaderChanged 4) = Some [2, 7]"
    by (simp_all add: client_event_write_def system_event_write_def write_event_def write_system_event_def ex_net_def
        ex_system_codec_def only_def event_value_def sys_event_value_def)
  then show ?thesis
    using network_events_roundtrip [OF ex_codecs_lawful, of "LeaderChanged 4" "CEPong ''p''" "[5, 7]" SERaft "[]" 0 "[2, 7]"]
    by simp
qed

text \<open>
  A payload that does not parse panics in the task that reads the stream; the branch for messages that
  cannot be read is reached only for an empty frame or an unknown tag.
\<close>

lemma malformed_payload_panics:
  assumes "snd (c_ping C) m = Inl e"
  shows "session_event_read C (event_value EvPing # m) = Inl (Panic ''called unwrap on an Err value'')"
    and "client_event_read C (event_value EvPing # m) = Inl (Panic ''called unwrap on an Err value'')"
  using assms by (simp_all add: session_event_read_def client_event_read_def read_payload_def)

end
