(* ===== verification/Heartbeat.thy ===== *)
theory Heartbeat
  imports Remote_System "HOL-Library.Product_Lexorder"
begin

text \<open>
  The heartbeat of a node: \<open>remote/heartbeat/mod.rs\<close> (node status from pings, election of the oldest
  healthy node, announcements) and \<open>remote/heartbeat/health.rs\<close> (health checks of a system's actors).

  Times are milliseconds since \<open>MIN_UTC\<close>, so a node without a start time counts as started at 0. One
  tick reads the clock several times; the model reads it once, as \<open>now\<close>. The remote system is the part
  of it the heartbeat touches: the node's id, the leader cell and the registry's node store.
\<close>

section \<open>State\<close>

record heartbeat_config =
  hc_interval :: nat
  hc_ping_timeout :: nat
  hc_unhealthy_timeout :: nat
  hc_terminated_timeout :: nat
  hc_minimum_cluster_size :: "nat option"

definition heartbeat_config_default :: heartbeat_config where
  "heartbeat_config_default =
     \<lparr>hc_interval = 500, hc_ping_timeout = 15000, hc_unhealthy_timeout = 1500,
      hc_terminated_timeout = 30000, hc_minimum_cluster_size = None\<rparr>"

datatype ping_result = PingOk string nat time | PingTimeout | PingDisconnected | PingErr

definition ping_is_ok :: "ping_result \<Rightarrow> bool" where
  "ping_is_ok p = (case p of PingOk _ _ _ \<Rightarrow> True | _ \<Rightarrow> False)"

record heartbeat =
  hb_system :: bool
  hb_member_up :: bool
  hb_last :: "time option"
  hb_pings :: "(node_id, ping_result) hash_map"
  hb_listeners :: "sender list"
  hb_health_checks :: "actor_ref list"
  hb_config :: heartbeat_config

definition heartbeat_start :: "heartbeat_config \<Rightarrow> heartbeat" where
  "heartbeat_start cfg =
     \<lparr>hb_system = False, hb_member_up = False, hb_last = None, hb_pings = [], hb_listeners = [],
      hb_health_checks = [], hb_config = cfg\<rparr>"

record 'ring cluster_sys =
  sys_node_id :: node_id
  sys_leader :: int
  sys_nodes :: "'ring remote_node_store"

datatype heartbeat_action =
    Publish cluster_event
  | AnswerLeader sender node_id
  | StartHeartbeatTimer nat
  | NotifyTick

section \<open>The status of a peer\<close>

definition ping_status ::
  "time \<Rightarrow> heartbeat_config \<Rightarrow> node_status \<Rightarrow> time option \<Rightarrow> ping_result option \<Rightarrow> node_status may_panic" where
  "ping_status now cfg previous heard ping =
     (case ping of
        Some (PingOk _ latency received) \<Rightarrow>
          (if now < received then Inl (Panic ''called unwrap on an Err value'')
           else
             (let since = now - received
              in Inr (if hc_terminated_timeout cfg \<le> since then NodeTerminated
                      else if hc_unhealthy_timeout cfg \<le> since then Unhealthy
                      else if hc_unhealthy_timeout cfg < latency then Unhealthy
                      else Healthy)))
      | None \<Rightarrow> Inr (if previous = NodeTerminated then NodeTerminated else Joining)
      | Some PingTimeout \<Rightarrow>
          Inr (if (case heard of None \<Rightarrow> True | Some h \<Rightarrow> now \<le> h + hc_terminated_timeout cfg)
               then NodeTerminated else Unhealthy)
      | Some PingDisconnected \<Rightarrow> Inr NodeTerminated
      | Some PingErr \<Rightarrow> Inr (if previous = Unhealthy then NodeTerminated else Unhealthy))"

definition update_node ::
  "time \<Rightarrow> heartbeat_config \<Rightarrow> ping_result option \<Rightarrow> remote_node_state \<Rightarrow> remote_node_state may_panic" where
  "update_node now cfg ping n =
     (let n1 = (case ping of
                  None \<Rightarrow> n
                | Some (PingOk _ latency received) \<Rightarrow> n\<lparr>last_heartbeat := Some received, ping_latency := Some latency\<rparr>
                | Some _ \<Rightarrow> n\<lparr>ping_latency := None\<rparr>)
      in map_sum id (\<lambda>st. n1\<lparr>node_status := st\<rparr>)
           (ping_status now cfg (node_status n1) (last_heartbeat n1) ping))"

text \<open>The loop over the nodes; the node itself is healthy.\<close>

fun update_all ::
  "time \<Rightarrow> heartbeat_config \<Rightarrow> node_id \<Rightarrow> (node_id, ping_result) hash_map \<Rightarrow> remote_node_state list \<Rightarrow>
   remote_node_state list may_panic" where
  "update_all now cfg self pings [] = Inr []"
| "update_all now cfg self pings (n # ns) =
     (case (if state_id n = self then Inr (n\<lparr>node_status := Healthy, last_heartbeat := Some now\<rparr>)
            else update_node now cfg (hm_get pings (state_id n)) n) of
        Inl p \<Rightarrow> Inl p
      | Inr n' \<Rightarrow> map_sum id (\<lambda>ns'. n' # ns') (update_all now cfg self pings ns))"

section \<open>Election\<close>

definition age_key :: "remote_node_state \<Rightarrow> time \<times> node_id" where
  "age_key n = ((case state_started_at n of Some t \<Rightarrow> t | None \<Rightarrow> 0), state_id n)"

definition oldest_healthy :: "remote_node_state list \<Rightarrow> remote_node_state option" where
  "oldest_healthy ns =
     (case filter (\<lambda>n. is_healthy (node_status n)) (sort_key age_key ns) of [] \<Rightarrow> None | n # _ \<Rightarrow> Some n)"

definition hb_update_leader ::
  "node_id \<Rightarrow> heartbeat \<Rightarrow> 'ring cluster_sys \<Rightarrow> heartbeat \<times> 'ring cluster_sys \<times> heartbeat_action list" where
  "hb_update_leader leader hb sys =
     (hb\<lparr>hb_listeners := []\<rparr>,
      sys\<lparr>sys_leader := fst (update_leader leader (sys_leader sys))\<rparr>,
      Publish (LeaderChanged leader) # map (\<lambda>tx. AnswerLeader tx leader) (hb_listeners hb))"

definition on_min_cluster_size_reached ::
  "node_id \<Rightarrow> remote_node list \<Rightarrow> heartbeat \<Rightarrow> heartbeat \<times> heartbeat_action list" where
  "on_min_cluster_size_reached leader ns hb =
     (hb\<lparr>hb_member_up := True\<rparr>, [Publish (MemberUp \<lparr>up_leader_id = leader, up_nodes = ns\<rparr>)])"

definition min_cluster_size_reached :: "heartbeat \<Rightarrow> bool" where
  "min_cluster_size_reached hb =
     (case hc_minimum_cluster_size (hb_config hb) of None \<Rightarrow> True | Some n \<Rightarrow> length (hb_pings hb) \<le> n)"

definition new_leader_id ::
  "heartbeat \<Rightarrow> 'ring cluster_sys \<Rightarrow> remote_node_state list \<Rightarrow> node_id option" where
  "new_leader_id hb sys updates =
     (if hb_last hb = None then None
      else case oldest_healthy updates of
             None \<Rightarrow> None
           | Some n \<Rightarrow> if Some (state_id n) \<noteq> current_leader (sys_leader sys) then Some (state_id n) else None)"

definition heartbeat_tick ::
  "time \<Rightarrow> heartbeat \<Rightarrow> 'ring cluster_sys \<Rightarrow>
   (heartbeat \<times> 'ring cluster_sys \<times> heartbeat_action list) may_panic" where
  "heartbeat_tick now hb sys =
     (if \<not> hb_system hb then Inl (Panic ''called unwrap on a None value'')
      else
        (case update_all now (hb_config hb) (sys_node_id sys) (hb_pings hb) (get_all (sys_nodes sys)) of
           Inl p \<Rightarrow> Inl p
         | Inr us \<Rightarrow>
             (let updates = sort_key age_key us;
                  sys1 = sys\<lparr>sys_nodes := update_nodes updates (sys_nodes sys)\<rparr>;
                  (hb2, sys2, acts) =
                    (case new_leader_id hb sys us of
                       None \<Rightarrow> (hb, sys1, [])
                     | Some leader \<Rightarrow>
                         (let (hb1, as1) =
                                (if \<not> hb_member_up hb \<and> min_cluster_size_reached hb
                                 then on_min_cluster_size_reached leader (map remote_node_from_state updates) hb
                                 else (hb, []));
                              (hb2, sys2, as2) = hb_update_leader leader hb1 sys1
                          in (hb2, sys2, as1 @ as2)))
              in Inr (hb2\<lparr>hb_last := Some now\<rparr>, sys2, acts))))"

section \<open>The other handlers\<close>

definition handle_node_ping :: "node_id \<Rightarrow> ping_result \<Rightarrow> heartbeat \<Rightarrow> heartbeat" where
  "handle_node_ping nid p hb = hb\<lparr>hb_pings := hm_insert nid p (hb_pings hb)\<rparr>"

definition handle_node_terminated ::
  "time \<Rightarrow> node_id \<Rightarrow> heartbeat \<Rightarrow> 'ring cluster_sys \<Rightarrow>
   (heartbeat \<times> 'ring cluster_sys \<times> heartbeat_action list) may_panic" where
  "handle_node_terminated now nid hb sys =
     heartbeat_tick now (hb\<lparr>hb_pings := hm_remove nid (hb_pings hb)\<rparr>)
       (if hb_system hb then sys\<lparr>sys_nodes := node_terminated nid (sys_nodes sys)\<rparr> else sys)"

definition handle_on_leader_changed :: "sender \<Rightarrow> heartbeat \<Rightarrow> heartbeat" where
  "handle_on_leader_changed tx hb = hb\<lparr>hb_listeners := hb_listeners hb @ [tx]\<rparr>"

text \<open>\<open>defaults\<close> are the system actors of the initial health check, in the order of the code.\<close>

definition heartbeat_set_remote :: "actor_ref list \<Rightarrow> heartbeat \<Rightarrow> heartbeat \<times> heartbeat_action list" where
  "heartbeat_set_remote defaults hb =
     (hb\<lparr>hb_system := True, hb_health_checks := defaults\<rparr>,
      [StartHeartbeatTimer (hc_interval (hb_config hb)), NotifyTick])"

definition register_health_check :: "actor_ref \<Rightarrow> heartbeat \<Rightarrow> heartbeat" where
  "register_health_check r hb = hb\<lparr>hb_health_checks := hb_health_checks hb @ [r]\<rparr>"

definition remove_health_check :: "actor_id \<Rightarrow> heartbeat \<Rightarrow> heartbeat" where
  "remove_health_check aid hb = hb\<lparr>hb_health_checks := filter (\<lambda>r. ref_id r \<noteq> aid) (hb_health_checks hb)\<rparr>"

datatype health_status = HealthHealthy | HealthDegraded | HealthUnhealthy

definition slow_actor_duration :: nat where
  "slow_actor_duration = 1000"

text \<open>
  The check of one actor: its path and the time it took to answer \<open>Started\<close>. The loop over the checks
  stops at the first that failed.
\<close>

definition health_check ::
  "(actor_ref \<Rightarrow> (actor_ref_err + actor_status) \<times> nat) \<Rightarrow> actor_ref \<Rightarrow> actor_path \<times> nat option" where
  "health_check ask r =
     (ref_path r @ ''/'' @ ref_id r,
      case ask r of (Inr Started, taken) \<Rightarrow> Some taken | _ \<Rightarrow> None)"

fun scan_checks :: "(actor_path \<times> nat option) list \<Rightarrow> bool \<Rightarrow> bool \<times> bool" where
  "scan_checks [] slow = (False, slow)"
| "scan_checks ((_, None) # cs) slow = (True, slow)"
| "scan_checks ((_, Some taken) # cs) slow = scan_checks cs (slow \<or> slow_actor_duration < taken)"

definition get_health ::
  "(actor_ref \<Rightarrow> (actor_ref_err + actor_status) \<times> nat) \<Rightarrow> heartbeat \<Rightarrow>
   (health_status \<times> (actor_path, nat option) hash_map) may_panic" where
  "get_health ask hb =
     (if \<not> hb_system hb then Inl (Panic ''called unwrap on a None value'')
      else
        (let checks = map (health_check ask) (hb_health_checks hb);
             (errors, slow) = scan_checks checks False
         in Inr (if errors then HealthUnhealthy else if slow then HealthDegraded else HealthHealthy,
                 collect_map checks)))"

section \<open>What a tick does\<close>

lemma oldest_healthy_Some:
  assumes "oldest_healthy ns = Some n"
  shows "n \<in> set ns" "is_healthy (node_status n)"
    "\<forall>m\<in>set ns. is_healthy (node_status m) \<longrightarrow> age_key n \<le> age_key m"
proof -
  let ?h = "filter (\<lambda>n. is_healthy (node_status n)) (sort_key age_key ns)"
  obtain rest where h: "?h = n # rest" using assms by (auto simp: oldest_healthy_def split: list.splits)
  have "n \<in> set ?h" unfolding h by simp
  then show "n \<in> set ns" "is_healthy (node_status n)" by auto
  have "sorted (map age_key ?h)" by (rule sorted_filter) simp
  then have "\<forall>m\<in>set ?h. age_key n \<le> age_key m" unfolding h by auto
  then show "\<forall>m\<in>set ns. is_healthy (node_status m) \<longrightarrow> age_key n \<le> age_key m" by simp
qed

lemma oldest_healthy_None: "oldest_healthy ns = None \<longleftrightarrow> (\<forall>m\<in>set ns. \<not> is_healthy (node_status m))"
proof -
  have "oldest_healthy ns = None \<longleftrightarrow> filter (\<lambda>n. is_healthy (node_status n)) (sort_key age_key ns) = []"
    by (simp add: oldest_healthy_def split: list.split)
  then show ?thesis by (simp add: filter_empty_conv)
qed

lemma update_node_id: "update_node now cfg p n = Inr n' \<Longrightarrow> state_id n' = state_id n"
  by (auto simp: update_node_def Let_def map_sum_def split: option.splits ping_result.splits sum.splits)

lemma update_all_ids: "update_all now cfg self pings ns = Inr us \<Longrightarrow> map state_id us = map state_id ns"
  by (induction ns arbitrary: us)
     (auto simp: map_sum_def dest: update_node_id split: sum.splits if_splits)

lemma update_all_Cons:
  assumes "update_all now cfg self pings (n # ns) = Inr us"
  obtains n' us' where "us = n' # us'" "update_all now cfg self pings ns = Inr us'"
    "state_id n' = state_id n" "state_id n = self \<longrightarrow> node_status n' = Healthy"
  using assms by (auto simp: map_sum_def dest: update_node_id split: sum.splits if_splits)

lemma update_all_self:
  "update_all now cfg self pings ns = Inr us \<Longrightarrow> \<forall>m\<in>set us. state_id m = self \<longrightarrow> node_status m = Healthy"
proof (induction ns arbitrary: us)
  case Nil
  then show ?case by simp
next
  case (Cons n ns)
  from Cons.prems obtain n' us' where "us = n' # us'" "update_all now cfg self pings ns = Inr us'"
    "state_id n' = state_id n" "state_id n = self \<longrightarrow> node_status n' = Healthy" by (rule update_all_Cons)
  with Cons.IH show ?case by simp
qed

text \<open>A store whose nodes are kept under their own ids.\<close>

definition keyed_store :: "'ring remote_node_store \<Rightarrow> bool" where
  "keyed_store st \<longleftrightarrow> hm_wf (nodes st) \<and> (\<forall>(k, n)\<in>set (nodes st). state_id n = k)"

lemma keyed_store_ids: "keyed_store st \<Longrightarrow> map state_id (get_all st) = map fst (nodes st)"
  by (auto simp: keyed_store_def get_all_def)

text \<open>The node's own view after a tick: the updated nodes and nothing else.\<close>

lemma tick_nodes:
  assumes "keyed_store st" and "map state_id us = map state_id (get_all st)"
  shows "hm_get (nodes (update_nodes (sort_key age_key us) st)) k = Some m \<longleftrightarrow> m \<in> set us \<and> state_id m = k"
proof -
  let ?us = "sort_key age_key us"
  have ids: "map state_id us = map fst (nodes st)" using assms keyed_store_ids by metis
  then have d: "distinct (map state_id us)" using assms(1) by (simp add: keyed_store_def)
  then have "inj_on state_id (set us)" "distinct us" by (simp_all add: distinct_map)
  then have d': "distinct (map state_id ?us)" by (simp add: distinct_map)
  have get: "hm_get (nodes (update_nodes ?us st)) k =
      (case find (\<lambda>n. state_id n = k) ?us of Some n \<Rightarrow> Some n | None \<Rightarrow> hm_get (nodes st) k)"
    by (simp add: update_nodes_def hm_get_fold_keyed [OF d'])
  show ?thesis
  proof (cases "find (\<lambda>n. state_id n = k) ?us")
    case None
    then have "k \<notin> set (map state_id us)" by (auto simp: find_None_iff)
    then have "k \<notin> fst ` set (nodes st)" unfolding ids by simp
    then have "hm_get (nodes st) k = None" by (simp add: map_of_eq_None_iff)
    with None get \<open>k \<notin> set (map state_id us)\<close> show ?thesis by auto
  next
    case (Some n)
    then have "n \<in> set us" "state_id n = k" by (auto dest: find_SomeD)
    with Some get \<open>inj_on state_id (set us)\<close> show ?thesis by (auto simp: inj_on_def)
  qed
qed

text \<open>A tick, split into the view it computes and the announcement it makes.\<close>

definition announcement :: "heartbeat \<Rightarrow> remote_node_state list \<Rightarrow> node_id \<Rightarrow> heartbeat_action list" where
  "announcement hb us l =
     (if \<not> hb_member_up hb \<and> min_cluster_size_reached hb
      then [Publish (MemberUp \<lparr>up_leader_id = l, up_nodes = map remote_node_from_state (sort_key age_key us)\<rparr>)]
      else []) @
     Publish (LeaderChanged l) # map (\<lambda>tx. AnswerLeader tx l) (hb_listeners hb)"

lemma heartbeat_tick_cases:
  assumes "heartbeat_tick now hb sys = Inr (hb', sys', acts)"
  obtains us where
    "update_all now (hb_config hb) (sys_node_id sys) (hb_pings hb) (get_all (sys_nodes sys)) = Inr us"
    "sys_nodes sys' = update_nodes (sort_key age_key us) (sys_nodes sys)"
    "case new_leader_id hb sys us of
       None \<Rightarrow> acts = [] \<and> sys_leader sys' = sys_leader sys \<and> hb_listeners hb' = hb_listeners hb
     | Some l \<Rightarrow> acts = announcement hb us l \<and> sys_leader sys' = fst (update_leader l (sys_leader sys)) \<and>
                 hb_listeners hb' = []"
proof -
  from assms obtain us where
    us: "update_all now (hb_config hb) (sys_node_id sys) (hb_pings hb) (get_all (sys_nodes sys)) = Inr us"
    by (auto simp: heartbeat_tick_def split: if_splits sum.splits)
  then show thesis
    using assms that [OF us]
    by (cases "new_leader_id hb sys us")
       (auto simp: heartbeat_tick_def hb_update_leader_def on_min_cluster_size_reached_def announcement_def Let_def
         split: if_splits)
qed

definition healthy_nodes :: "'ring cluster_sys \<Rightarrow> remote_node_state set" where
  "healthy_nodes sys = {m. (\<exists>k. hm_get (nodes (sys_nodes sys)) k = Some m) \<and> is_healthy (node_status m)}"

text \<open>The premises of an election: a second or later tick, nodes kept under their ids, this node among them.\<close>

definition can_elect :: "heartbeat \<Rightarrow> 'ring cluster_sys \<Rightarrow> bool" where
  "can_elect hb sys \<longleftrightarrow>
     hb_last hb \<noteq> None \<and> keyed_store (sys_nodes sys) \<and> sys_node_id sys \<in> set (map fst (nodes (sys_nodes sys)))"

text \<open>What an election leaves behind: nothing when the node was the leader, otherwise the announcements and the cell.\<close>

definition elected ::
  "node_id \<Rightarrow> heartbeat \<Rightarrow> 'ring cluster_sys \<Rightarrow> heartbeat \<Rightarrow> 'ring cluster_sys \<Rightarrow> heartbeat_action list \<Rightarrow> bool" where
  "elected l hb sys hb' sys' acts \<longleftrightarrow>
     (if current_leader (sys_leader sys) = Some l then acts = [] \<and> sys_leader sys' = sys_leader sys
      else Publish (LeaderChanged l) \<in> set acts \<and>
           (\<forall>tx\<in>set (hb_listeners hb). AnswerLeader tx l \<in> set acts) \<and> hb_listeners hb' = [] \<and>
           current_leader (sys_leader sys') = (if l < 2 ^ 63 then Some l else None))"

lemma elected_leader: "elected l hb sys hb' sys' acts \<Longrightarrow> l < 2 ^ 63 \<Longrightarrow> current_leader (sys_leader sys') = Some l"
  by (simp add: elected_def split: if_splits)

lemma tick_elects:
  assumes tick: "heartbeat_tick now hb sys = Inr (hb', sys', acts)" and ok: "can_elect hb sys"
  obtains n where "n \<in> healthy_nodes sys'" "\<forall>m\<in>healthy_nodes sys'. age_key n \<le> age_key m"
    "elected (state_id n) hb sys hb' sys' acts"
proof -
  obtain us where
    us: "update_all now (hb_config hb) (sys_node_id sys) (hb_pings hb) (get_all (sys_nodes sys)) = Inr us"
    and st: "sys_nodes sys' = update_nodes (sort_key age_key us) (sys_nodes sys)"
    and effect: "case new_leader_id hb sys us of
       None \<Rightarrow> acts = [] \<and> sys_leader sys' = sys_leader sys \<and> hb_listeners hb' = hb_listeners hb
     | Some l \<Rightarrow> acts = announcement hb us l \<and> sys_leader sys' = fst (update_leader l (sys_leader sys)) \<and>
                 hb_listeners hb' = []"
    by (rule heartbeat_tick_cases [OF tick])
  have keyed: "keyed_store (sys_nodes sys)" using ok by (simp add: can_elect_def)
  have ids: "map state_id us = map fst (nodes (sys_nodes sys))"
    using update_all_ids [OF us] keyed_store_ids [OF keyed] by simp
  have healthy: "healthy_nodes sys' = {m \<in> set us. is_healthy (node_status m)}"
    using tick_nodes [OF keyed update_all_ids [OF us]] by (auto simp: healthy_nodes_def st)
  have "sys_node_id sys \<in> set (map state_id us)" using ok unfolding ids can_elect_def by blast
  then obtain me where me: "me \<in> set us" "state_id me = sys_node_id sys" by auto
  then have "is_healthy (node_status me)" using update_all_self [OF us] by (simp add: is_healthy_def)
  with me(1) obtain n where n: "oldest_healthy us = Some n"
    using oldest_healthy_None [of us] by (cases "oldest_healthy us") auto
  note old = oldest_healthy_Some [OF n]
  have nl: "new_leader_id hb sys us =
      (if current_leader (sys_leader sys) = Some (state_id n) then None else Some (state_id n))"
    using ok n by (auto simp: new_leader_id_def can_elect_def)
  show ?thesis
  proof (rule that [of n])
    show "n \<in> healthy_nodes sys'" "\<forall>m\<in>healthy_nodes sys'. age_key n \<le> age_key m"
      using old unfolding healthy by auto
    show "elected (state_id n) hb sys hb' sys' acts"
      using nl effect by (auto simp: elected_def announcement_def leader_cell split: if_splits)
  qed
qed

section \<open>The elected leader\<close>

text \<open>A pong that carries a time after \<open>now\<close>, of a node that the tick looks at.\<close>

definition future_pong :: "time \<Rightarrow> heartbeat \<Rightarrow> 'ring cluster_sys \<Rightarrow> bool" where
  "future_pong now hb sys \<longleftrightarrow>
     (\<exists>n\<in>set (get_all (sys_nodes sys)). state_id n \<noteq> sys_node_id sys \<and>
        (\<exists>p l t. hm_get (hb_pings hb) (state_id n) = Some (PingOk p l t) \<and> now < t))"

lemma update_node_panics:
  "(\<exists>n'. update_node now cfg ping n = Inr n') \<longleftrightarrow> \<not> (\<exists>p l t. ping = Some (PingOk p l t) \<and> now < t)"
proof -
  have "(\<exists>s. ping_status now cfg st heard ping = Inr s) \<longleftrightarrow> \<not> (\<exists>p l t. ping = Some (PingOk p l t) \<and> now < t)" for st heard
    by (auto simp: ping_status_def Let_def split: option.splits ping_result.splits)
  moreover have "(\<exists>y. map_sum id f r = Inr y) \<longleftrightarrow> (\<exists>x. r = Inr x)" for f :: "node_status \<Rightarrow> remote_node_state" and r :: "node_status may_panic"
    by (cases r) simp_all
  ultimately show ?thesis unfolding update_node_def Let_def by (simp only:)
qed

lemma update_all_panics:
  "(\<exists>us. update_all now cfg self pings ns = Inr us) \<longleftrightarrow>
   \<not> (\<exists>n\<in>set ns. state_id n \<noteq> self \<and> (\<exists>p l t. hm_get pings (state_id n) = Some (PingOk p l t) \<and> now < t))"
proof (induction ns)
  case (Cons n ns)
  show ?case
  proof (cases "state_id n = self")
    case False
    then have "(\<exists>us. update_all now cfg self pings (n # ns) = Inr us) \<longleftrightarrow>
        (\<exists>n'. update_node now cfg (hm_get pings (state_id n)) n = Inr n') \<and> (\<exists>us. update_all now cfg self pings ns = Inr us)"
      by (auto simp: map_sum_def split: sum.splits)
    with False show ?thesis unfolding update_node_panics Cons.IH by simp
  qed (use Cons.IH in \<open>auto simp: map_sum_def split: sum.splits\<close>)
qed simp

lemma tick_panics:
  assumes "hb_system hb"
  shows "(\<exists>r. heartbeat_tick now hb sys = Inr r) \<longleftrightarrow> \<not> future_pong now hb sys"
  using assms update_all_panics [of now "hb_config hb" "sys_node_id sys" "hb_pings hb" "get_all (sys_nodes sys)"]
  by (auto simp: heartbeat_tick_def future_pong_def Let_def split_beta split: sum.splits)

lemma tick_runs:
  assumes "hb_system hb" and "\<not> future_pong now hb sys"
  obtains hb' sys' acts where "heartbeat_tick now hb sys = Inr (hb', sys', acts)"
  using tick_panics [OF assms(1)] assms(2) that by (metis prod_cases3)

text \<open>C17: The elected leader is the oldest healthy node, whatever the ids. A tick of a heartbeat that has its system,
  other than the first, on a node that is itself in its node store, panics exactly when a peer in the store has a pong from the future (a clock
  that was set back). Otherwise a node is chosen that the store holds as healthy, and no healthy node is older (ties
  broken by the smaller id); when it was the leader nothing happens, and when it was not, it is put into the leader cell
  and announced, to the system topic and to every waiting listener. The cell is read back as this node for ids below
  2^63 and as no leader for the others, which are therefore elected and announced anew by every tick.\<close>

theorem elects_oldest_healthy:
  assumes "hb_system hb" and "can_elect hb sys"
  shows "case heartbeat_tick now hb sys of
           Inl _ \<Rightarrow> future_pong now hb sys
         | Inr (hb', sys', acts) \<Rightarrow>
             \<not> future_pong now hb sys \<and>
             (\<exists>n\<in>healthy_nodes sys'. (\<forall>m\<in>healthy_nodes sys'. age_key n \<le> age_key m) \<and>
                (if current_leader (sys_leader sys) = Some (state_id n) then acts = [] \<and> sys_leader sys' = sys_leader sys
                 else Publish (LeaderChanged (state_id n)) \<in> set acts \<and>
                      (\<forall>tx\<in>set (hb_listeners hb). AnswerLeader tx (state_id n) \<in> set acts) \<and> hb_listeners hb' = [] \<and>
                      current_leader (sys_leader sys') = (if state_id n < 2 ^ 63 then Some (state_id n) else None)))"
proof (cases "heartbeat_tick now hb sys")
  case (Inl p)
  with tick_panics [OF assms(1), of now sys] show ?thesis by auto
next
  case (Inr r)
  obtain hb' sys' acts where r: "r = (hb', sys', acts)" by (rule prod_cases3)
  note tick = Inr [unfolded r]
  obtain n where "n \<in> healthy_nodes sys'" "\<forall>m\<in>healthy_nodes sys'. age_key n \<le> age_key m"
    "elected (state_id n) hb sys hb' sys' acts"
    by (rule tick_elects [OF tick assms(2)])
  with tick_panics [OF assms(1), of now sys] tick show ?thesis
    unfolding elected_def by auto
qed

definition ex_peer :: "node_id \<Rightarrow> time \<Rightarrow> remote_node_state" where
  "ex_peer k t = \<lparr>state_id = k, state_addr = ''a'', state_tag = ''t'', ping_latency = None, last_heartbeat = None,
                  state_started_at = Some t, node_status = Joining, state_attributes = []\<rparr>"

definition ex_hb :: "(node_id, ping_result) hash_map \<Rightarrow> nat option \<Rightarrow> heartbeat" where
  "ex_hb pings least =
     (fst (heartbeat_set_remote [] (heartbeat_start (heartbeat_config_default\<lparr>hc_minimum_cluster_size := least\<rparr>))))
       \<lparr>hb_last := Some 10, hb_pings := pings, hb_listeners := [7]\<rparr>"

definition ex_sys :: "node_id \<Rightarrow> unit cluster_sys" where
  "ex_sys self = \<lparr>sys_node_id = self, sys_leader = -1,
                  sys_nodes = \<lparr>nodes = [(1, ex_peer 1 5), (2, ex_peer 2 3)], table = ()\<rparr>\<rparr>"

lemma ex_can_elect:
  "can_elect (ex_hb pings least) (ex_sys 1)" "can_elect (ex_hb pings least) (ex_sys 2)"
  "hb_system (ex_hb pings least)" "\<not> future_pong 100 (ex_hb [(k, PingOk [] 1 99)] least) (ex_sys self)"
  by (auto simp: can_elect_def ex_hb_def ex_sys_def keyed_store_def ex_peer_def heartbeat_set_remote_def
      future_pong_def split: if_splits)

theorem elects_oldest_healthy_witness:
  "\<exists>hb' sys' acts. heartbeat_tick 100 (ex_hb [(2, PingOk [] 1 99)] None) (ex_sys 1) = Inr (hb', sys', acts) \<and>
     (\<exists>n\<in>healthy_nodes sys'. Publish (LeaderChanged (state_id n)) \<in> set acts)"
proof -
  obtain hb' sys' acts where t: "heartbeat_tick 100 (ex_hb [(2, PingOk [] 1 99)] None) (ex_sys 1) = Inr (hb', sys', acts)"
    by (rule tick_runs [OF ex_can_elect(3,4)])
  have "current_leader (sys_leader (ex_sys 1)) = None" by (simp add: ex_sys_def current_leader_def)
  with t elects_oldest_healthy [OF ex_can_elect(3,1), of 100 "[(2, PingOk [] 1 99)]" None] show ?thesis by auto
qed

text \<open>Nodes that see the same healthy nodes agree on the leader: when two nodes, each with its own pings,
  clock and previous leader, have ticked and hold the same ages and ids, all below 2^63, for their healthy
  nodes, they read the same leader.\<close>

theorem leaders_agree:
  assumes "heartbeat_tick now hb sys = Inr (hb', sys', acts)" and "can_elect hb sys"
    and "heartbeat_tick now2 hb2 sys2 = Inr (hb2', sys2', acts2)" and "can_elect hb2 sys2"
    and "age_key ` healthy_nodes sys' = age_key ` healthy_nodes sys2'"
    and "\<forall>n\<in>healthy_nodes sys'. state_id n < 2 ^ 63"
  shows "current_leader (sys_leader sys') = current_leader (sys_leader sys2')"
proof -
  obtain n where n: "n \<in> healthy_nodes sys'" "\<forall>m\<in>healthy_nodes sys'. age_key n \<le> age_key m"
    "elected (state_id n) hb sys hb' sys' acts" by (rule tick_elects [OF assms(1,2)])
  obtain m where m: "m \<in> healthy_nodes sys2'" "\<forall>k\<in>healthy_nodes sys2'. age_key m \<le> age_key k"
    "elected (state_id m) hb2 sys2 hb2' sys2' acts2" by (rule tick_elects [OF assms(3,4)])
  have "age_key n \<in> age_key ` healthy_nodes sys2'" using n(1) unfolding assms(5) [symmetric] by simp
  moreover have "age_key m \<in> age_key ` healthy_nodes sys'" using m(1) unfolding assms(5) by simp
  ultimately have "age_key n = age_key m" using n(2) m(2) by (auto intro!: antisym)
  then have "state_id n = state_id m" by (simp add: age_key_def)
  moreover have "state_id n < 2 ^ 63" using n(1) assms(6) by blast
  ultimately show ?thesis using elected_leader [OF n(3)] elected_leader [OF m(3)] by simp
qed

lemma tick_healthy:
  assumes "heartbeat_tick now hb sys = Inr (hb', sys', acts)" and "keyed_store (sys_nodes sys)"
    and "update_all now (hb_config hb) (sys_node_id sys) (hb_pings hb) (get_all (sys_nodes sys)) = Inr us"
  shows "healthy_nodes sys' = {m \<in> set us. is_healthy (node_status m)}"
proof -
  have "sys_nodes sys' = update_nodes (sort_key age_key us) (sys_nodes sys)"
    using assms(3) by (auto intro: heartbeat_tick_cases [OF assms(1)])
  with tick_nodes [OF assms(2) update_all_ids [OF assms(3)]] show ?thesis by (auto simp: healthy_nodes_def)
qed

lemma ex_healthy:
  "heartbeat_tick 100 (ex_hb [(2, PingOk [] 1 99)] None) (ex_sys 1) = Inr (hb', sys', acts) \<Longrightarrow>
     age_key ` healthy_nodes sys' = {(5, 1), (3, 2)}"
  "heartbeat_tick 100 (ex_hb [(1, PingOk [] 1 99)] None) (ex_sys 2) = Inr (hb', sys', acts) \<Longrightarrow>
     age_key ` healthy_nodes sys' = {(5, 1), (3, 2)}"
proof -
  note simps = ex_hb_def ex_sys_def ex_peer_def heartbeat_set_remote_def heartbeat_start_def
    heartbeat_config_default_def get_all_def update_node_def ping_status_def keyed_store_def
  let ?a = "(ex_peer 1 5)\<lparr>node_status := Healthy, last_heartbeat := Some 100\<rparr>"
  let ?b = "(ex_peer 2 3)\<lparr>node_status := Healthy, last_heartbeat := Some 99, ping_latency := Some 1\<rparr>"
  let ?c = "(ex_peer 1 5)\<lparr>node_status := Healthy, last_heartbeat := Some 99, ping_latency := Some 1\<rparr>"
  let ?d = "(ex_peer 2 3)\<lparr>node_status := Healthy, last_heartbeat := Some 100\<rparr>"
  have "{m \<in> set [?a, ?b]. is_healthy (node_status m)} = {?a, ?b}" "{m \<in> set [?c, ?d]. is_healthy (node_status m)} = {?c, ?d}"
    by (auto simp: is_healthy_def)
  then have img: "age_key ` {m \<in> set [?a, ?b]. is_healthy (node_status m)} = {(5, 1), (3, 2)}"
    "age_key ` {m \<in> set [?c, ?d]. is_healthy (node_status m)} = {(5, 1), (3, 2)}"
    by (simp_all only: image_insert image_empty) (simp_all add: age_key_def ex_peer_def)
  show "heartbeat_tick 100 (ex_hb [(2, PingOk [] 1 99)] None) (ex_sys 1) = Inr (hb', sys', acts) \<Longrightarrow>
     age_key ` healthy_nodes sys' = {(5, 1), (3, 2)}"
    by (subst tick_healthy [where us = "[?a, ?b]"], assumption) (simp_all only: img, simp_all add: simps)
  show "heartbeat_tick 100 (ex_hb [(1, PingOk [] 1 99)] None) (ex_sys 2) = Inr (hb', sys', acts) \<Longrightarrow>
     age_key ` healthy_nodes sys' = {(5, 1), (3, 2)}"
    by (subst tick_healthy [where us = "[?c, ?d]"], assumption) (simp_all only: img, simp_all add: simps)
qed

theorem leaders_agree_witness:
  "\<exists>hb1 sys1 acts1 hb2 sys2 acts2.
     heartbeat_tick 100 (ex_hb [(2, PingOk [] 1 99)] None) (ex_sys 1) = Inr (hb1, sys1, acts1) \<and>
     heartbeat_tick 100 (ex_hb [(1, PingOk [] 1 99)] None) (ex_sys 2) = Inr (hb2, sys2, acts2) \<and>
     current_leader (sys_leader sys1) = current_leader (sys_leader sys2)"
proof -
  obtain hb1 sys1 acts1 where a: "heartbeat_tick 100 (ex_hb [(2, PingOk [] 1 99)] None) (ex_sys 1) = Inr (hb1, sys1, acts1)"
    by (rule tick_runs [OF ex_can_elect(3,4)])
  obtain hb2 sys2 acts2 where b: "heartbeat_tick 100 (ex_hb [(1, PingOk [] 1 99)] None) (ex_sys 2) = Inr (hb2, sys2, acts2)"
    by (rule tick_runs [OF ex_can_elect(3,4)])
  have "age_key ` healthy_nodes sys1 = age_key ` healthy_nodes sys2"
    by (simp only: ex_healthy(1) [OF a] ex_healthy(2) [OF b])
  moreover have "\<forall>n\<in>healthy_nodes sys1. state_id n < 2 ^ 63"
  proof
    fix n assume "n \<in> healthy_nodes sys1"
    then have "age_key n \<in> {(5, 1), (3, 2)}" using ex_healthy(1) [OF a] by blast
    then show "state_id n < 2 ^ 63" by (auto simp: age_key_def)
  qed
  ultimately show ?thesis using a b leaders_agree [OF a ex_can_elect(1) b ex_can_elect(2)] by blast
qed

section \<open>Inverted tests\<close>

text \<open>A ping that times out is judged the wrong way round: a peer heard within the termination timeout
  is marked as terminated because of one late ping, and a peer silent for longer than the timeout is
  only unhealthy.\<close>

theorem timeout_status_inverted:
  assumes "h \<le> now"
  shows "ping_status now cfg previous (Some h) (Some PingTimeout) =
           Inr (if now - h \<le> hc_terminated_timeout cfg then NodeTerminated else Unhealthy)"
  using assms by (auto simp: ping_status_def)

theorem timeout_status_inverted_witness:
  "ping_status 100 heartbeat_config_default Healthy (Some 99) (Some PingTimeout) = Inr NodeTerminated \<and>
   ping_status 100000 heartbeat_config_default Healthy (Some 99) (Some PingTimeout) = Inr Unhealthy"
  using timeout_status_inverted [of 99 100 heartbeat_config_default Healthy]
    timeout_status_inverted [of 99 100000 heartbeat_config_default Healthy]
  by (simp add: heartbeat_config_default_def)

text \<open>The minimum cluster size is a maximum: at the first election of a node, the announcement that the
  cluster is up is made when at most the configured number of peers has been pinged, so a node that
  sees no peer at all announces it, and one that elects its first leader after more peers than the
  minimum were pinged does not.\<close>

theorem minimum_cluster_size_inverted:
  assumes "heartbeat_tick now hb sys = Inr (hb', sys', acts)" and "\<not> hb_member_up hb"
    and "Publish (LeaderChanged l) \<in> set acts" and "hc_minimum_cluster_size (hb_config hb) = Some least"
  shows "(\<exists>up. Publish (MemberUp up) \<in> set acts) \<longleftrightarrow> length (hb_pings hb) \<le> least"
proof -
  obtain us where "case new_leader_id hb sys us of
       None \<Rightarrow> acts = [] \<and> sys_leader sys' = sys_leader sys \<and> hb_listeners hb' = hb_listeners hb
     | Some l \<Rightarrow> acts = announcement hb us l \<and> sys_leader sys' = fst (update_leader l (sys_leader sys)) \<and>
                 hb_listeners hb' = []"
    by (rule heartbeat_tick_cases [OF assms(1)])
  with assms(2-4) show ?thesis
    by (auto simp: announcement_def min_cluster_size_reached_def split: option.splits if_splits)
qed

theorem minimum_cluster_size_inverted_witness:
  "\<exists>hb' sys' acts. heartbeat_tick 100 (ex_hb [] (Some 3)) (ex_sys 1) = Inr (hb', sys', acts) \<and>
     (\<exists>up. Publish (MemberUp up) \<in> set acts)"
proof -
  have nf: "\<not> future_pong 100 (ex_hb [] (Some 3)) (ex_sys 1)" by (simp add: future_pong_def ex_hb_def)
  obtain hb' sys' acts where t: "heartbeat_tick 100 (ex_hb [] (Some 3)) (ex_sys 1) = Inr (hb', sys', acts)"
    by (rule tick_runs [OF ex_can_elect(3) nf])
  obtain n where "n \<in> healthy_nodes sys'" "\<forall>m\<in>healthy_nodes sys'. age_key n \<le> age_key m"
    "elected (state_id n) (ex_hb [] (Some 3)) (ex_sys 1) hb' sys' acts"
    by (rule tick_elects [OF t ex_can_elect(1)])
  then have l: "Publish (LeaderChanged (state_id n)) \<in> set acts"
    by (simp add: elected_def ex_sys_def current_leader_def)
  have "\<not> hb_member_up (ex_hb [] (Some 3))" "hc_minimum_cluster_size (hb_config (ex_hb [] (Some 3))) = Some 3"
    "hb_pings (ex_hb [] (Some 3)) = []"
    by (simp_all add: ex_hb_def heartbeat_set_remote_def heartbeat_start_def)
  with minimum_cluster_size_inverted [OF t _ l] t show ?thesis by auto
qed

section \<open>Health\<close>

text \<open>The early exit of the scan does not matter: the status depends on all checks.\<close>

lemma scan_checks_result:
  "scan_checks cs slow =
     (if None \<in> snd ` set cs then (True, snd (scan_checks cs slow))
      else (False, slow \<or> (\<exists>c\<in>set cs. slow_actor_duration < the (snd c))))"
  by (induction cs slow rule: scan_checks.induct) auto

end
