(* ===== verification/System_Config.thy ===== *)
theory System_Config
  imports Heartbeat "HOL-Library.List_Lexorder" "HOL-Library.Char_ord"
begin

text \<open>
  The configuration of a remote system: \<open>remote/config/mod.rs\<close>, the builders of
  \<open>remote/system/builder.rs\<close> and the authentication of clients in \<open>remote/net/security/auth\<close>.

  A message handler stands for a pair of an actor type and a message type: its \<open>TypeId\<close> is the pair of
  the two type names. Random ids, the clock and the JWT library are arguments.
\<close>

section \<open>Client authentication\<close>

record token_payload =
  tok_id :: uuid
  tok_timestamp :: time

text \<open>Signing and verification of the \<open>jwt\<close> crate for one secret.\<close>

record jwt =
  jwt_sign :: "token_payload \<Rightarrow> string option"
  jwt_verify :: "string \<Rightarrow> token_payload option"
  jwt_token_ttl :: "nat option"

datatype client_auth = AuthNone | AuthJwt jwt

definition jwt_generate_token :: "uuid \<Rightarrow> time \<Rightarrow> jwt \<Rightarrow> string option" where
  "jwt_generate_token u now j = jwt_sign j \<lparr>tok_id = u, tok_timestamp = now\<rparr>"

definition is_token_still_valid :: "time \<Rightarrow> token_payload \<Rightarrow> nat \<Rightarrow> bool" where
  "is_token_still_valid now p ttl \<longleftrightarrow> now \<le> tok_timestamp p + ttl"

definition jwt_validate_token :: "time \<Rightarrow> jwt \<Rightarrow> string \<Rightarrow> bool" where
  "jwt_validate_token now j token =
     (case jwt_verify j token of
        None \<Rightarrow> False
      | Some p \<Rightarrow> (case jwt_token_ttl j of Some ttl \<Rightarrow> is_token_still_valid now p ttl | None \<Rightarrow> True))"

definition generate_token :: "uuid \<Rightarrow> time \<Rightarrow> client_auth \<Rightarrow> string may_panic" where
  "generate_token u now a =
     (case a of
        AuthNone \<Rightarrow> Inr ''''
      | AuthJwt j \<Rightarrow>
          (case jwt_generate_token u now j of
             Some t \<Rightarrow> Inr t
           | None \<Rightarrow> Inl (Panic ''called unwrap on a None value'')))"

definition validate_token :: "time \<Rightarrow> client_auth \<Rightarrow> string \<Rightarrow> bool" where
  "validate_token now a token = (case a of AuthNone \<Rightarrow> True | AuthJwt j \<Rightarrow> jwt_validate_token now j token)"

section \<open>Configuration\<close>

type_synonym handler_id = "type_name \<times> type_name"

text \<open>The names of actor types are kept under Rust type ids: \<open>ActorHandlerType\<close> is the type of the handler of an
  actor (\<open>RemoteActorHandler\<close>), \<open>ActorMarkerType\<close> that of its marker (\<open>RemoteActorMarker\<close>).\<close>

datatype actor_type_id = ActorHandlerType type_name | ActorMarkerType type_name

record 'h remote_config =
  rc_node_tag :: string
  rc_node_version :: string
  rc_actor_types :: "(actor_type_id, string) hash_map"
  rc_handler_types :: "(handler_id, string) hash_map"
  rc_message_handlers :: "(string, handler_id \<times> 'h) hash_map"
  rc_actor_handlers :: "(string, type_name) hash_map"
  rc_heartbeat :: heartbeat_config
  rc_attributes :: "(string, string) hash_map"
  rc_client_auth :: client_auth

definition handler_name :: "type_name \<Rightarrow> type_name \<Rightarrow> 'h remote_config \<Rightarrow> string option" where
  "handler_name actor message cfg = hm_get (rc_handler_types cfg) (actor, message)"

definition actor_name :: "type_name \<Rightarrow> 'h remote_config \<Rightarrow> string option" where
  "actor_name actor cfg = hm_get (rc_actor_types cfg) (ActorMarkerType actor)"

definition message_handler :: "string \<Rightarrow> 'h remote_config \<Rightarrow> (handler_id \<times> 'h) option" where
  "message_handler key cfg = hm_get (rc_message_handlers cfg) key"

definition actor_handler :: "string \<Rightarrow> 'h remote_config \<Rightarrow> type_name option" where
  "actor_handler key cfg = hm_get (rc_actor_handlers cfg) key"

text \<open>\<open>lower\<close> is the lower-case conversion of the standard library.\<close>

definition get_capabilities :: "(string \<Rightarrow> string) \<Rightarrow> 'h remote_config \<Rightarrow> string list \<times> string list" where
  "get_capabilities lower cfg =
     (sort_key lower (hm_values (rc_actor_types cfg)), sort_key lower (hm_values (rc_handler_types cfg)))"

section \<open>The builder of a configuration\<close>

record 'h config_builder =
  cb_heartbeat :: "heartbeat_config option"
  cb_actors :: "(string, type_name) hash_map"
  cb_handlers :: "(string, handler_id \<times> 'h) hash_map"

definition config_builder_new :: "'h config_builder" where
  "config_builder_new = \<lparr>cb_heartbeat = None, cb_actors = [], cb_handlers = []\<rparr>"

definition with_handler :: "type_name \<Rightarrow> type_name \<Rightarrow> 'h \<Rightarrow> string \<Rightarrow> 'h config_builder \<Rightarrow> 'h config_builder" where
  "with_handler actor message h name b = b\<lparr>cb_handlers := hm_insert name ((actor, message), h) (cb_handlers b)\<rparr>"

definition with_actor :: "type_name \<Rightarrow> 'h config_builder \<Rightarrow> 'h config_builder" where
  "with_actor actor b = b\<lparr>cb_actors := hm_insert actor actor (cb_actors b)\<rparr>"

definition with_heartbeat :: "heartbeat_config \<Rightarrow> 'h config_builder \<Rightarrow> 'h config_builder" where
  "with_heartbeat hc b = b\<lparr>cb_heartbeat := Some hc\<rparr>"

definition config_build ::
  "string \<Rightarrow> string option \<Rightarrow> string option \<Rightarrow> client_auth option \<Rightarrow> (string, string) hash_map \<Rightarrow>
   'h config_builder \<Rightarrow> 'h remote_config" where
  "config_build random_tag tag version auth attributes b =
     \<lparr>rc_node_tag = (case tag of Some t \<Rightarrow> t | None \<Rightarrow> ''cluster-node-'' @ random_tag),
      rc_node_version = (case version of Some v \<Rightarrow> v | None \<Rightarrow> ''0.0.0''),
      rc_actor_types = fold (\<lambda>(k, v). hm_insert (ActorHandlerType v) k) (cb_actors b) [],
      rc_handler_types = fold (\<lambda>(k, v). hm_insert (fst v) k) (cb_handlers b) [],
      rc_message_handlers = cb_handlers b,
      rc_actor_handlers = cb_actors b,
      rc_heartbeat = (case cb_heartbeat b of Some h \<Rightarrow> h | None \<Rightarrow> heartbeat_config_default),
      rc_attributes = collect_map attributes,
      rc_client_auth = (case auth of Some a \<Rightarrow> a | None \<Rightarrow> AuthNone)\<rparr>"

section \<open>The builder of a system\<close>

record 'h system_builder =
  rb_node_id :: "node_id option"
  rb_node_tag :: "string option"
  rb_node_version :: "string option"
  rb_system_name :: "string option"
  rb_configs :: "('h config_builder \<Rightarrow> 'h config_builder) list"
  rb_mediator :: bool
  rb_client_auth :: "client_auth option"
  rb_single_node :: bool
  rb_attributes :: "(string, string) hash_map"

text \<open>\<open>sharding\<close> is the configuration that the sharding feature adds.\<close>

definition system_builder_new :: "('h config_builder \<Rightarrow> 'h config_builder) list \<Rightarrow> 'h system_builder" where
  "system_builder_new sharding =
     \<lparr>rb_node_id = None, rb_node_tag = None, rb_node_version = None, rb_system_name = None, rb_configs = sharding,
      rb_mediator = True, rb_client_auth = None, rb_single_node = False, rb_attributes = []\<rparr>"

definition with_tag :: "string \<Rightarrow> 'h system_builder \<Rightarrow> 'h system_builder" where
  "with_tag t b = b\<lparr>rb_node_tag := Some t\<rparr>"

definition with_id :: "node_id \<Rightarrow> 'h system_builder \<Rightarrow> 'h system_builder" where
  "with_id n b = b\<lparr>rb_node_id := Some n\<rparr>"

definition with_version :: "string \<Rightarrow> 'h system_builder \<Rightarrow> 'h system_builder" where
  "with_version v b = b\<lparr>rb_node_version := Some v\<rparr>"

definition configure :: "('h config_builder \<Rightarrow> 'h config_builder) \<Rightarrow> 'h system_builder \<Rightarrow> 'h system_builder" where
  "configure f b = b\<lparr>rb_configs := rb_configs b @ [f]\<rparr>"

definition with_actor_system :: "string \<Rightarrow> 'h system_builder \<Rightarrow> 'h system_builder" where
  "with_actor_system name b = b\<lparr>rb_system_name := Some name\<rparr>"

definition single_node :: "'h system_builder \<Rightarrow> 'h system_builder" where
  "single_node b = b\<lparr>rb_single_node := True\<rparr>"

definition client_auth_jwt :: "jwt \<Rightarrow> 'h system_builder \<Rightarrow> 'h system_builder" where
  "client_auth_jwt j b = b\<lparr>rb_client_auth := Some (AuthJwt j)\<rparr>"

definition with_attribute :: "string \<Rightarrow> string \<Rightarrow> 'h system_builder \<Rightarrow> 'h system_builder" where
  "with_attribute k v b = b\<lparr>rb_attributes := hm_insert k v (rb_attributes b)\<rparr>"

text \<open>
  The parts of the built system: its id, its configuration, its leader cell and whether it has a
  mediator. The actors it starts (registry, clients, discovery, heartbeat, mediator) are those of the
  other components; each of them is told of the system with \<open>SetRemote\<close>.
\<close>

record 'h remote_system =
  rsys_node_id :: node_id
  rsys_config :: "'h remote_config"
  rsys_leader :: int
  rsys_mediator :: bool

definition system_build :: "string \<Rightarrow> node_id \<Rightarrow> string \<Rightarrow> 'h system_builder \<Rightarrow> 'h remote_system" where
  "system_build global_name random_id random_tag b =
     (let name = (case rb_system_name b of Some n \<Rightarrow> n | None \<Rightarrow> global_name);
          cb = fold (\<lambda>f c. f c) (rb_configs b) config_builder_new;
          nid = (case rb_node_id b of Some n \<Rightarrow> n | None \<Rightarrow> random_id);
          tag = (case rb_node_tag b of Some t \<Rightarrow> t | None \<Rightarrow> name)
      in \<lparr>rsys_node_id = nid,
          rsys_config = config_build random_tag (Some tag) (rb_node_version b) (rb_client_auth b) (rb_attributes b) cb,
          rsys_leader = (if rb_single_node b then sint nid else -1),
          rsys_mediator = rb_mediator b\<rparr>)"

section \<open>Names and types agree\<close>

lemma fold_inverse_sound:
  "hm_get (fold (\<lambda>(k, v). hm_insert (g v) k) kvs m) t = Some k \<Longrightarrow>
   (\<exists>v. (k, v) \<in> set kvs \<and> g v = t) \<or> hm_get m t = Some k"
proof (induction kvs arbitrary: m)
  case (Cons x kvs)
  then show ?case
    by (cases x) (auto split: if_splits dest!: Cons.IH)
qed simp

lemma fold_inverse_keeps:
  "hm_get m t \<noteq> None \<Longrightarrow> hm_get (fold (\<lambda>(k, v). hm_insert (g v) k) kvs m) t \<noteq> None"
proof (induction kvs arbitrary: m)
  case (Cons x kvs)
  show ?case using Cons.prems Cons.IH [of "hm_insert (g (snd x)) (fst x) m"] by (simp add: case_prod_beta)
qed simp

lemma fold_inverse_complete:
  "(k, v) \<in> set kvs \<Longrightarrow> hm_get (fold (\<lambda>(k, v). hm_insert (g v) k) kvs m) (g v) \<noteq> None"
proof (induction kvs arbitrary: m)
  case (Cons x kvs)
  then show ?case using fold_inverse_keeps [of "hm_insert (g v) k m" "g v" g kvs] by auto
qed simp

text \<open>What a configuration function may do with the builder: any sequence of its three methods.\<close>

datatype 'h builder_call =
    CallHandler type_name type_name 'h string
  | CallActor type_name
  | CallHeartbeat heartbeat_config

fun run_call :: "'h builder_call \<Rightarrow> 'h config_builder \<Rightarrow> 'h config_builder" where
  "run_call (CallHandler a m h name) b = with_handler a m h name b"
| "run_call (CallActor a) b = with_actor a b"
| "run_call (CallHeartbeat hc) b = with_heartbeat hc b"

definition call_sequences :: "('h config_builder \<Rightarrow> 'h config_builder) list \<Rightarrow> bool" where
  "call_sequences fs \<longleftrightarrow> (\<forall>f \<in> set fs. \<exists>calls. f = fold run_call calls)"

definition builder_wf :: "'h config_builder \<Rightarrow> bool" where
  "builder_wf b \<longleftrightarrow> hm_wf (cb_handlers b) \<and> hm_wf (cb_actors b)"

lemma run_call_wf: "builder_wf b \<Longrightarrow> builder_wf (run_call c b)"
  by (cases c) (auto simp: builder_wf_def with_handler_def with_actor_def with_heartbeat_def)

lemma run_calls_wf: "builder_wf b \<Longrightarrow> builder_wf (fold run_call calls b)"
  by (induction calls arbitrary: b) (auto intro: run_call_wf)

lemma configs_wf: "call_sequences fs \<Longrightarrow> builder_wf b \<Longrightarrow> builder_wf (fold (\<lambda>f c. f c) fs b)"
proof (induction fs arbitrary: b)
  case (Cons f fs)
  then obtain calls where "f = fold run_call calls" by (auto simp: call_sequences_def)
  then have "builder_wf (f b)" using Cons.prems(2) run_calls_wf by blast
  with Cons show ?case by (simp add: call_sequences_def)
qed simp

lemma config_build_names:
  assumes "builder_wf b"
  shows "handler_name A M (config_build r t v a at b) = Some k \<Longrightarrow>
      \<exists>h. message_handler k (config_build r t v a at b) = Some ((A, M), h)"
    and "message_handler k (config_build r t v a at b) = Some ((A, M), h) \<Longrightarrow>
      \<exists>k'. handler_name A M (config_build r t v a at b) = Some k'"
proof -
  assume "handler_name A M (config_build r t v a at b) = Some k"
  then obtain h where "(k, ((A, M), h)) \<in> set (cb_handlers b)"
    using fold_inverse_sound [of fst "cb_handlers b" "[]" "(A, M)" k] by (auto simp: handler_name_def config_build_def)
  then show "\<exists>h. message_handler k (config_build r t v a at b) = Some ((A, M), h)"
    using assms by (auto simp: message_handler_def config_build_def builder_wf_def hm_get_in_set)
next
  assume "message_handler k (config_build r t v a at b) = Some ((A, M), h)"
  then have "(k, ((A, M), h)) \<in> set (cb_handlers b)"
    using assms by (simp add: message_handler_def config_build_def builder_wf_def hm_get_in_set)
  from fold_inverse_complete [OF this, of fst "[]"]
  show "\<exists>k'. handler_name A M (config_build r t v a at b) = Some k'"
    by (auto simp: handler_name_def config_build_def)
qed

text \<open>C34: Remote messages are well typed by name: in every system that is built, whatever the order and the
  repetition of the registrations, the name under which a message for an actor is sent is registered,
  and the handler behind it is one for that actor type and that message type; and every actor and
  message type with a registered handler has such a name.\<close>

theorem handler_names_are_typed:
  assumes "call_sequences (rb_configs b)"
  shows "(handler_name A M (rsys_config (system_build g rid rtag b)) = Some k \<longrightarrow>
            (\<exists>h. message_handler k (rsys_config (system_build g rid rtag b)) = Some ((A, M), h))) \<and>
         (message_handler k (rsys_config (system_build g rid rtag b)) = Some ((A, M), h) \<longrightarrow>
            (\<exists>k'. handler_name A M (rsys_config (system_build g rid rtag b)) = Some k'))"
proof -
  have "builder_wf (fold (\<lambda>f c. f c) (rb_configs b) config_builder_new)"
    using assms by (rule configs_wf) (simp add: builder_wf_def config_builder_new_def)
  from config_build_names [OF this] show ?thesis
    by (simp add: system_build_def Let_def)
qed

theorem handler_names_are_typed_witness:
  "\<exists>h. message_handler ''A.M'' (rsys_config (system_build ''g'' 1 ''t''
     (configure (fold run_call [CallHandler ''A'' ''M'' (7::nat) ''A.M'']) (system_builder_new [])))) = Some ((''A'', ''M''), h)"
proof -
  let ?b = "configure (fold run_call [CallHandler ''A'' ''M'' (7::nat) ''A.M'']) (system_builder_new [])"
  have calls: "call_sequences (rb_configs ?b)"
    by (auto simp: call_sequences_def configure_def system_builder_new_def
        intro!: exI [of _ "[CallHandler ''A'' ''M'' (7::nat) ''A.M'']"])
  have "handler_name ''A'' ''M'' (rsys_config (system_build ''g'' 1 ''t'' ?b)) = Some ''A.M''"
    by (simp add: handler_name_def system_build_def Let_def config_build_def configure_def system_builder_new_def
        with_handler_def config_builder_new_def hm_insert_absent)
  then show ?thesis
    using handler_names_are_typed [OF calls, of "''A''" "''M''" "''g''" 1 "''t''" "''A.M''" 7] by simp
qed

text \<open>The names of the actor types are entered under the type of the handler and looked up under the type of the
  marker, so no look-up finds one, whatever actors were registered.\<close>

lemma actor_name_never_found: "actor_name A (rsys_config (system_build g rid rtag b)) = None"
proof -
  have "actor_name A (config_build r t v a at cb) = None" for r t v a at and cb :: "'a config_builder"
    using fold_inverse_sound [of ActorHandlerType "cb_actors cb" "[]" "ActorMarkerType A"]
    by (cases "actor_name A (config_build r t v a at cb)") (auto simp: actor_name_def config_build_def)
  then show ?thesis by (simp add: system_build_def Let_def)
qed

text \<open>A generated token is valid for its whole lifetime and not after it.\<close>

lemma generated_token_valid:
  assumes "\<forall>p t. jwt_sign j p = Some t \<longrightarrow> jwt_verify j t = Some p" and "generate_token u now (AuthJwt j) = Inr t"
  shows "validate_token later (AuthJwt j) t \<longleftrightarrow> (case jwt_token_ttl j of None \<Rightarrow> True | Some ttl \<Rightarrow> later \<le> now + ttl)"
  using assms
  by (auto simp: generate_token_def jwt_generate_token_def validate_token_def jwt_validate_token_def
      is_token_still_valid_def split: option.splits)

end
