(* ===== verification/Sessions.thy ===== *)
theory Sessions
  imports Net_Messages System_Config
begin

text \<open>
  Calls between nodes: the remote reference (\<open>remote/actor_ref.rs\<close>), the sessions of a server
  (\<open>remote/net/server/session/mod.rs\<close>, \<open>store.rs\<close>), the loop that reads a stream
  (\<open>remote/net/mod.rs\<close>) and the client's side of a connection (\<open>remote/net/client/receive.rs\<close>).

  A handler returns the new state and what it causes: replies to requests in flight, writes to the
  session's stream, tasks it spawns.
\<close>

section \<open>Remote references\<close>

definition create_header ::
  "string option \<Rightarrow> type_name \<Rightarrow> type_name \<Rightarrow> actor_id \<Rightarrow> actor_ref_err + actor_id \<times> string" where
  "create_header handler message actor aid =
     (case handler of Some h \<Rightarrow> Inr (aid, h) | None \<Rightarrow> Inl (NotSupported aid message actor))"

definition create_request ::
  "(uuid \<Rightarrow> string) \<Rightarrow> node_id \<Rightarrow> string option \<Rightarrow> type_name \<Rightarrow> type_name \<Rightarrow> actor_id \<Rightarrow> 'm envelope \<Rightarrow> uuid \<Rightarrow> bool \<Rightarrow>
   actor_ref_err + net_session_event" where
  "create_request uuid_show self handler message actor aid env u requires_response =
     (case env of
        EnvRemote b \<Rightarrow>
          map_sum id
            (\<lambda>(target, h). SENotifyActor
               \<lparr>mr_message_id = uuid_show u, mr_handler_type = h, mr_actor_id = target, mr_message = b,
                mr_requires_response = requires_response, mr_origin_node_id = self\<rparr>)
            (create_header handler message actor aid)
      | _ \<Rightarrow> Inl (Serialisation WrapNotTransmittable))"

text \<open>\<open>send\<close> stores the request before it builds the event.\<close>

definition remote_ref_send ::
  "(uuid \<Rightarrow> string) \<Rightarrow> node_id \<Rightarrow> string option \<Rightarrow> type_name \<Rightarrow> type_name \<Rightarrow> actor_id \<Rightarrow> 'm envelope \<Rightarrow> uuid \<Rightarrow> sender \<Rightarrow>
   remote_handler \<Rightarrow> remote_handler \<times> (actor_ref_err + net_session_event)" where
  "remote_ref_send uuid_show self handler message actor aid env u tx tb =
     (push_request u tx tb, create_request uuid_show self handler message actor aid env u True)"

definition remote_ref_result :: "('m, 'r) message_impl \<Rightarrow> remote_response option \<Rightarrow> actor_ref_err + 'r" where
  "remote_ref_result M rx =
     (case rx of
        Some (RemoteOk b) \<Rightarrow>
          (case read_remote_result M b of Inr r \<Rightarrow> Inr r | Inl e \<Rightarrow> Inl (Deserialisation e))
      | None \<Rightarrow> Inl ResultChannelClosed
      | Some (RemoteErr e) \<Rightarrow> Inl e)"

definition remote_ref_notify ::
  "(uuid \<Rightarrow> string) \<Rightarrow> node_id \<Rightarrow> string option \<Rightarrow> type_name \<Rightarrow> type_name \<Rightarrow> actor_id \<Rightarrow> 'm envelope \<Rightarrow> uuid \<Rightarrow>
   actor_ref_err + net_session_event" where
  "remote_ref_notify uuid_show self handler message actor aid env u =
     create_request uuid_show self handler message actor aid env u False"

section \<open>The events of a session\<close>

record session_receiver =
  rcv_session_id :: int
  rcv_node_id :: "node_id option"
  rcv_addr :: string
  rcv_should_close :: bool

definition session_receiver_new :: "int \<Rightarrow> string \<Rightarrow> session_receiver" where
  "session_receiver_new sid addr =
     \<lparr>rcv_session_id = sid, rcv_node_id = None, rcv_addr = addr, rcv_should_close = False\<rparr>"

datatype session_action =
    SpawnHandshake proto_handshake
  | SpawnLookup uuid actor_id
  | RegisterAt actor_id node_id
  | SpawnMessage message_request
  | StopSession
  | TellHeartbeat node_id
  | WriteSession int client_event
  | SpawnCreate create_actor_event
  | SpawnPublish stream_publish_event
  | SessionRpc rpc_action

definition parse_uuid :: "(string \<Rightarrow> uuid option) \<Rightarrow> string \<Rightarrow> uuid may_panic" where
  "parse_uuid uuid_parse s =
     (case uuid_parse s of Some u \<Rightarrow> Inr u | None \<Rightarrow> Inl (Panic ''called unwrap on an Err value''))"

definition answer_request ::
  "uuid \<Rightarrow> remote_response \<Rightarrow> remote_handler \<Rightarrow> remote_handler \<times> rpc_action list" where
  "answer_request u response tb =
     (case pop_request u tb of
        (Some tx, tb') \<Rightarrow> (tb', [Respond tx response])
      | (None, tb') \<Rightarrow> (tb', []))"

text \<open>
  A ping of a terminated peer calls \<open>self.close()\<close> without awaiting it, which does nothing.
  \<open>session_open\<close> says whether the session's actor still takes messages.
\<close>

definition receive_ping ::
  "bool \<Rightarrow> bool \<Rightarrow> ping_event \<Rightarrow> session_receiver \<Rightarrow> (session_receiver \<times> session_action list) may_panic" where
  "receive_ping system_terminated session_open ping rcv =
     (if system_terminated then Inr (rcv\<lparr>rcv_should_close := True\<rparr>, [StopSession])
      else if ping_system_terminated ping then Inr (rcv, [TellHeartbeat (ping_node_id ping)])
      else if session_open then Inr (rcv, [WriteSession (rcv_session_id rcv) (CEPong (ping_message_id ping))])
      else Inl (Panic ''send session write''))"

definition session_on_receive ::
  "(string \<Rightarrow> uuid option) \<Rightarrow> bool \<Rightarrow> bool \<Rightarrow> net_session_event \<Rightarrow> session_receiver \<times> remote_handler \<Rightarrow>
   ((session_receiver \<times> remote_handler) \<times> session_action list) may_panic" where
  "session_on_receive uuid_parse system_terminated session_open ev s =
     (let (rcv, tb) = s
      in case ev of
           SEIdentify _ \<Rightarrow> Inr (s, [])
         | SEHandshake h \<Rightarrow> Inr (s, [SpawnHandshake h])
         | SEFindActor f \<Rightarrow>
             map_sum id (\<lambda>u. (s, [SpawnLookup u (fa_actor_id f)])) (parse_uuid uuid_parse (fa_message_id f))
         | SERegisterActor (aid, node) \<Rightarrow>
             Inr (s, case node of Some n \<Rightarrow> [RegisterAt aid n] | None \<Rightarrow> [])
         | SENotifyActor m \<Rightarrow> Inr (s, [SpawnMessage m])
         | SEPing p \<Rightarrow>
             map_sum id (\<lambda>(rcv', acts). ((rcv', tb), acts)) (receive_ping system_terminated session_open p rcv)
         | SEPong _ \<Rightarrow> Inr (s, [])
         | SECreateActor m \<Rightarrow> Inr (s, [SpawnCreate m])
         | SEStreamPublish m \<Rightarrow> Inr (s, [SpawnPublish m])
         | SERaft \<Rightarrow> Inr (s, [])
         | SEResult r \<Rightarrow>
             map_sum id
               (\<lambda>u. let (tb', acts) = answer_request u (RemoteOk (cr_result r)) tb
                    in ((rcv, tb'), map SessionRpc acts))
               (parse_uuid uuid_parse (cr_message_id r))
         | SEErr e \<Rightarrow>
             (case ce_error e of
                None \<Rightarrow> Inl (Panic ''called unwrap on a None value'')
              | Some p \<Rightarrow>
                  (case ref_err_from_proto p of
                     Inl x \<Rightarrow> Inl x
                   | Inr err \<Rightarrow>
                       map_sum id
                         (\<lambda>u. let (tb', acts) = answer_request u (RemoteErr err) tb
                              in ((rcv, tb'), map SessionRpc acts))
                         (parse_uuid uuid_parse (ce_message_id e)))))"

definition session_on_close :: "session_receiver \<times> remote_handler \<Rightarrow> session_action list" where
  "session_on_close s = [StopSession]"

section \<open>The tasks of a session\<close>

definition send_result :: "(uuid \<Rightarrow> string) \<Rightarrow> uuid \<Rightarrow> bytes \<Rightarrow> int \<Rightarrow> session_action" where
  "send_result uuid_show u res sid = WriteSession sid (CEResult \<lparr>cr_message_id = uuid_show u, cr_result = res\<rparr>)"

text \<open>
  The task of a message: \<open>res\<close> is the result of \<open>handle_message\<close>. An error goes back as a call to the
  node the message came from, on the fresh channel \<open>tx\<close>.
\<close>

definition session_handle_message ::
  "(uuid \<Rightarrow> string) \<Rightarrow> (string \<Rightarrow> uuid option) \<Rightarrow> node_id \<Rightarrow> sender \<Rightarrow> message_request \<Rightarrow> int \<Rightarrow> actor_ref_err + bytes \<Rightarrow>
   remote_handler \<Rightarrow> (remote_handler \<times> session_action list) may_panic" where
  "session_handle_message uuid_show uuid_parse self tx m sid res tb =
     (case res of
        Inr buf \<Rightarrow>
          if mr_requires_response m
          then map_sum id (\<lambda>u. (tb, [send_result uuid_show u buf sid])) (parse_uuid uuid_parse (mr_message_id m))
          else Inr (tb, [])
      | Inl e \<Rightarrow>
          map_sum id
            (\<lambda>u. let (tb', acts) = notify_rpc_err uuid_show self tx u e (mr_origin_node_id m) tb
                 in (tb', map SessionRpc acts))
            (parse_uuid uuid_parse (mr_message_id m)))"

definition session_handle_lookup ::
  "(uuid \<Rightarrow> string) \<Rightarrow> (actor_id \<times> node_id option \<Rightarrow> 'err + bytes) \<Rightarrow> uuid \<Rightarrow> actor_id \<Rightarrow> int \<Rightarrow> node_id option \<Rightarrow>
   session_action list" where
  "session_handle_lookup uuid_show write u aid sid located =
     (case write (aid, located) of Inr buf \<Rightarrow> [send_result uuid_show u buf sid] | Inl _ \<Rightarrow> [])"

definition created_actor_id :: "create_actor_event \<Rightarrow> actor_id option" where
  "created_actor_id m = (if ca_actor_id m = [] then None else Some (ca_actor_id m))"

definition session_create_actor ::
  "(uuid \<Rightarrow> string) \<Rightarrow> (string \<Rightarrow> uuid option) \<Rightarrow> create_actor_event \<Rightarrow> int \<Rightarrow> ('e + bytes) \<Rightarrow> (session_action list) may_panic" where
  "session_create_actor uuid_show uuid_parse m sid res =
     (case res of
        Inr buf \<Rightarrow> map_sum id (\<lambda>u. [send_result uuid_show u buf sid]) (parse_uuid uuid_parse (ca_message_id m))
      | Inl _ \<Rightarrow> Inr [])"

text \<open>The nodes of a handshake; the address of the peer itself may be replaced by the one it connects from.\<close>

fun split_colon :: "string \<Rightarrow> string list" where
  "split_colon [] = [[]]"
| "split_colon (c # cs) =
     (if c = CHR '':'' then [] # split_colon cs
      else case split_colon cs of p # ps \<Rightarrow> (c # p) # ps | [] \<Rightarrow> [[c]])"

definition incoming_addr :: "bool \<Rightarrow> string \<Rightarrow> node_id \<Rightarrow> proto_node \<Rightarrow> string" where
  "incoming_addr override host peer n =
     (if override \<and> pn_node_id n = peer then host @ '':'' @ List.last (split_colon (pn_addr n)) else pn_addr n)"

fun handshake_nodes ::
  "time \<Rightarrow> bool \<Rightarrow> string \<Rightarrow> node_id \<Rightarrow> node_id \<Rightarrow> proto_node list \<Rightarrow> remote_node list may_panic" where
  "handshake_nodes epoch override host self peer [] = Inr []"
| "handshake_nodes epoch override host self peer (n # ns) =
     (if pn_node_id n = self then handshake_nodes epoch override host self peer ns
      else case node_from_proto epoch (n\<lparr>pn_addr := incoming_addr override host peer n\<rparr>) of
             Inl e \<Rightarrow> Inl e
           | Inr r \<Rightarrow> map_sum id (\<lambda>rs. r # rs) (handshake_nodes epoch override host self peer ns))"

definition handshake_response ::
  "time \<Rightarrow> node_id \<Rightarrow> string \<Rightarrow> time \<Rightarrow> remote_node_state list \<Rightarrow> proto_handshake \<Rightarrow> proto_handshake" where
  "handshake_response epoch self tag started ns h =
     \<lparr>phs_node_id = self, phs_nodes = map (node_state_to_proto epoch) ns, phs_node_tag = tag,
      phs_trace_id = phs_trace_id h, phs_started_at = Some (datetime_to_timestamp epoch started), phs_token = [],
      phs_client_type = None\<rparr>"

text \<open>
  The handshake task: the nodes it asks discovery to visit, and what it writes once discovery is done.
  \<open>discovered\<close> is false when discovery dropped its channel.
\<close>

definition session_handshake ::
  "time \<Rightarrow> bool \<Rightarrow> string \<Rightarrow> node_id \<Rightarrow> string \<Rightarrow> time \<Rightarrow> remote_node_state list \<Rightarrow> proto_handshake \<Rightarrow> int \<Rightarrow> bool \<Rightarrow>
   (remote_node list \<times> session_action list) may_panic" where
  "session_handshake epoch override host self tag started known h sid discovered =
     (case handshake_nodes epoch override host self (phs_node_id h) (phs_nodes h) of
        Inl e \<Rightarrow> Inl e
      | Inr ns \<Rightarrow>
          if discovered then Inr (ns, [WriteSession sid (CEHandshake (handshake_response epoch self tag started known h))])
          else Inl (Panic ''unable to discover nodes''))"

section \<open>Start of a session\<close>

definition validate_session_token ::
  "'err net_codec \<Rightarrow> time \<Rightarrow> client_auth \<Rightarrow> (unit + bytes) option \<Rightarrow> bool may_panic" where
  "validate_session_token C now auth frame =
     (case frame of
        Some (Inr b) \<Rightarrow>
          (case session_event_read C b of
             Inl e \<Rightarrow> Inl e
           | Inr (Some (SEIdentify i)) \<Rightarrow> Inr (validate_token now auth (pidf_token i))
           | Inr _ \<Rightarrow> Inr False)
      | _ \<Rightarrow> Inr False)"

definition session_identity ::
  "time \<Rightarrow> string \<Rightarrow> (string \<Rightarrow> string) \<Rightarrow> string \<Rightarrow> time \<Rightarrow> remote_node_state list \<Rightarrow> 'h remote_system \<Rightarrow> proto_identity" where
  "session_identity epoch version lower external_addr started peers sys =
     (let caps = get_capabilities lower (rsys_config sys)
      in \<lparr>pid_node_id = rsys_node_id sys, pid_node_tag = rc_node_tag (rsys_config sys), pid_addr = external_addr,
          pid_application_version = ''pkg_version='' @ version @ '',protocol_version=1'',
          pid_started_at = Some (datetime_to_timestamp epoch started),
          pid_peers = map (node_state_to_proto epoch) peers,
          pid_capabilities = Some \<lparr>cap_actors = fst caps, cap_messages = snd caps\<rparr>,
          pid_attributes = rc_attributes (rsys_config sys)\<rparr>)"

text \<open>A session without a valid token stops itself; otherwise it writes its identity and starts reading.\<close>

definition session_started :: "bool may_panic \<Rightarrow> int \<Rightarrow> proto_identity \<Rightarrow> (session_action list) may_panic" where
  "session_started valid sid identity =
     map_sum id (\<lambda>ok. if ok then [WriteSession sid (CEIdentity identity)] else [StopSession]) valid"

section \<open>The store of sessions\<close>

type_synonym session_store = "(int, actor_ref) hash_map"

definition new_session :: "int \<Rightarrow> actor_ref_err + actor_ref \<Rightarrow> session_store \<Rightarrow> (actor_ref \<times> session_store) may_panic" where
  "new_session sid spawned st =
     (case spawned of
        Inl _ \<Rightarrow> Inl (Panic ''unable to create session actor'')
      | Inr r \<Rightarrow> Inr (r, hm_insert sid r st))"

definition session_closed :: "int \<Rightarrow> session_store \<Rightarrow> session_store" where
  "session_closed sid st = hm_remove sid st"

definition session_write :: "int \<Rightarrow> client_event \<Rightarrow> session_store \<Rightarrow> (actor_ref \<times> client_event) option" where
  "session_write sid ev st = map_option (\<lambda>r. (r, ev)) (hm_get st sid)"

section \<open>Reading a stream\<close>

fun receive_loop ::
  "(bytes \<Rightarrow> ('msg option) may_panic) \<Rightarrow> ('msg \<Rightarrow> 'st \<Rightarrow> ('st \<times> 'act list) may_panic) \<Rightarrow> ('st \<Rightarrow> bool) \<Rightarrow>
   ('st \<Rightarrow> 'act list) \<Rightarrow> (unit + bytes) list \<Rightarrow> 'st \<Rightarrow> ('st \<times> 'act list) may_panic" where
  "receive_loop read on_receive should_close on_close [] s = Inr (s, on_close s)"
| "receive_loop read on_receive should_close on_close (Inl _ # frames) s = Inr (s, on_close s)"
| "receive_loop read on_receive should_close on_close (Inr b # frames) s =
     (case read b of
        Inl e \<Rightarrow> Inl e
      | Inr None \<Rightarrow> receive_loop read on_receive should_close on_close frames s
      | Inr (Some msg) \<Rightarrow>
          (case on_receive msg s of
             Inl e \<Rightarrow> Inl e
           | Inr (s', acts) \<Rightarrow>
               if should_close s' then Inr (s', acts @ on_close s')
               else map_sum id (\<lambda>(s'', acts'). (s'', acts @ acts'))
                      (receive_loop read on_receive should_close on_close frames s')))"

section \<open>The client's side\<close>

record node_identity =
  ni_node :: remote_node
  ni_peers :: "remote_node list"
  ni_capabilities :: system_capabilities

datatype client_action =
    SendIdentity sender node_identity
  | AckHandshake node_id string time "remote_node list"
  | ClientRpc rpc_action
  | SendDisconnected

record client_receiver =
  crv_identity_sender :: "sender option"
  crv_addr :: string
  crv_should_close :: bool

definition client_receiver_new :: "sender \<Rightarrow> string \<Rightarrow> client_receiver" where
  "client_receiver_new tx addr = \<lparr>crv_identity_sender = Some tx, crv_addr = addr, crv_should_close = False\<rparr>"

definition identity_node :: "time \<Rightarrow> proto_identity \<Rightarrow> remote_node may_panic" where
  "identity_node epoch i =
     map_sum id
       (\<lambda>st. \<lparr>node_id = pid_node_id i, node_addr = pid_addr i, node_tag = pid_node_tag i, node_started_at = st,
              node_attributes = collect_map (pid_attributes i)\<rparr>)
       (started_from_proto epoch (pid_started_at i))"

definition receive_identity ::
  "time \<Rightarrow> proto_identity \<Rightarrow> client_receiver \<Rightarrow> (client_receiver \<times> client_action list) may_panic" where
  "receive_identity epoch i rcv =
     (case crv_identity_sender rcv of
        None \<Rightarrow> Inr (rcv, [])
      | Some tx \<Rightarrow>
          (case identity_node epoch i of
             Inl e \<Rightarrow> Inl e
           | Inr n \<Rightarrow>
               map_sum id
                 (\<lambda>peers. (rcv\<lparr>crv_identity_sender := None\<rparr>,
                    [SendIdentity tx
                       \<lparr>ni_node = n, ni_peers = peers,
                        ni_capabilities = (case pid_capabilities i of Some c \<Rightarrow> c
                                           | None \<Rightarrow> \<lparr>cap_actors = [], cap_messages = []\<rparr>)\<rparr>]))
                 (nodes_from_proto epoch (pid_peers i))))"

definition receive_handshake ::
  "time \<Rightarrow> time \<Rightarrow> proto_handshake \<Rightarrow> (client_action list) may_panic" where
  "receive_handshake epoch now h =
     (case (case phs_started_at h of None \<Rightarrow> Inr now | Some ts \<Rightarrow> timestamp_to_datetime epoch ts) of
        Inl e \<Rightarrow> Inl e
      | Inr started \<Rightarrow>
          map_sum id (\<lambda>ns. [AckHandshake (phs_node_id h) (phs_node_tag h) started ns])
            (nodes_from_proto epoch (filter (\<lambda>n. pn_node_id n \<noteq> phs_node_id h) (phs_nodes h))))"

definition client_answer ::
  "(string \<Rightarrow> uuid option) \<Rightarrow> string \<Rightarrow> remote_response may_panic \<Rightarrow> client_receiver \<Rightarrow> remote_handler \<Rightarrow>
   ((client_receiver \<times> remote_handler) \<times> client_action list) may_panic" where
  "client_answer uuid_parse mid response rcv tb =
     (case parse_uuid uuid_parse mid of
        Inl e \<Rightarrow> Inl e
      | Inr u \<Rightarrow>
          (case pop_request u tb of
             (None, tb') \<Rightarrow> Inr ((rcv, tb'), [])
           | (Some tx, tb') \<Rightarrow>
               map_sum id (\<lambda>r. ((rcv, tb'), [ClientRpc (Respond tx r)])) response))"

text \<open>\<open>pong_write\<close> is the encoder of the pong event, which the client passes on as bytes.\<close>

definition client_on_receive ::
  "(string \<Rightarrow> uuid option) \<Rightarrow> (string \<Rightarrow> 'err + bytes) \<Rightarrow> time \<Rightarrow> time \<Rightarrow> client_event \<Rightarrow> client_receiver \<times> remote_handler \<Rightarrow>
   ((client_receiver \<times> remote_handler) \<times> client_action list) may_panic" where
  "client_on_receive uuid_parse pong_write epoch now ev s =
     (let (rcv, tb) = s
      in case ev of
           CEIdentity i \<Rightarrow> map_sum id (\<lambda>(rcv', acts). ((rcv', tb), acts)) (receive_identity epoch i rcv)
         | CEHandshake h \<Rightarrow> map_sum id (\<lambda>acts. (s, acts)) (receive_handshake epoch now h)
         | CEResult r \<Rightarrow> client_answer uuid_parse (cr_message_id r) (Inr (RemoteOk (cr_result r))) rcv tb
         | CEErr e \<Rightarrow>
             client_answer uuid_parse (ce_message_id e)
               (case ce_error e of
                  None \<Rightarrow> Inl (Panic ''called unwrap on a None value'')
                | Some p \<Rightarrow> map_sum id RemoteErr (ref_err_from_proto p)) rcv tb
         | CEPing _ \<Rightarrow> Inr (s, [])
         | CEPong mid \<Rightarrow>
             client_answer uuid_parse mid
               (case pong_write mid of Inr b \<Rightarrow> Inr (RemoteOk b) | Inl _ \<Rightarrow> Inl (Panic ''serialised pong'')) rcv tb)"

definition client_on_close :: "client_receiver \<times> remote_handler \<Rightarrow> client_action list" where
  "client_on_close s = [SendDisconnected]"

section \<open>A call across the network\<close>

text \<open>
  The events with which a node answers another: as a write on the session the request came in on, or as
  a call of its own. The second kind is written as a session event.
\<close>

definition wire_event :: "session_event \<Rightarrow> net_session_event" where
  "wire_event ev =
     (case ev of
        EventResult i b \<Rightarrow> SEResult \<lparr>cr_message_id = i, cr_result = b\<rparr>
      | EventErr i e \<Rightarrow> SEErr \<lparr>ce_message_id = i, ce_error = Some (ref_err_to_proto e)\<rparr>)"

datatype net_reply = ViaSession client_event | ViaCall node_id net_session_event

fun reply_of :: "session_action \<Rightarrow> net_reply option" where
  "reply_of (WriteSession _ ev) = Some (ViaSession ev)"
| "reply_of (SessionRpc (SendEvent n ev)) = Some (ViaCall n (wire_event ev))"
| "reply_of _ = None"

text \<open>The node that is called, \<open>handle\<close> being its \<open>handle_message\<close>.\<close>

definition serve_call ::
  "(uuid \<Rightarrow> string) \<Rightarrow> (string \<Rightarrow> uuid option) \<Rightarrow> node_id \<Rightarrow> sender \<Rightarrow> (string \<Rightarrow> actor_id \<Rightarrow> bytes \<Rightarrow> actor_ref_err + bytes) \<Rightarrow>
   net_session_event \<Rightarrow> session_receiver \<times> remote_handler \<Rightarrow> (net_reply list) may_panic" where
  "serve_call uuid_show uuid_parse self tx handle ev s =
     (case session_on_receive uuid_parse False True ev s of
        Inr (s', [SpawnMessage m]) \<Rightarrow>
          map_sum id (\<lambda>(_, acts). List.map_filter reply_of acts)
            (session_handle_message uuid_show uuid_parse self tx m (rcv_session_id (fst s'))
               (handle (mr_handler_type m) (mr_actor_id m) (mr_message m)) (snd s'))
      | Inr _ \<Rightarrow> Inr []
      | Inl e \<Rightarrow> Inl e)"

text \<open>The node that called, with its client and its session for the other node.\<close>

fun rpc_responses :: "rpc_action list \<Rightarrow> (sender \<times> remote_response) list" where
  "rpc_responses [] = []"
| "rpc_responses (Respond tx r # as) = (tx, r) # rpc_responses as"
| "rpc_responses (_ # as) = rpc_responses as"

definition client_rpcs :: "client_action list \<Rightarrow> rpc_action list" where
  "client_rpcs = List.map_filter (\<lambda>a. case a of ClientRpc r \<Rightarrow> Some r | _ \<Rightarrow> None)"

definition session_rpcs :: "session_action list \<Rightarrow> rpc_action list" where
  "session_rpcs = List.map_filter (\<lambda>a. case a of SessionRpc r \<Rightarrow> Some r | _ \<Rightarrow> None)"

definition receive_reply ::
  "(string \<Rightarrow> uuid option) \<Rightarrow> (string \<Rightarrow> 'err + bytes) \<Rightarrow> time \<Rightarrow> time \<Rightarrow> client_receiver \<Rightarrow> session_receiver \<Rightarrow> net_reply \<Rightarrow>
   remote_handler \<Rightarrow> (remote_handler \<times> (sender \<times> remote_response) list) may_panic" where
  "receive_reply uuid_parse pong_write epoch now crv rcv reply tb =
     (case reply of
        ViaSession ev \<Rightarrow>
          map_sum id (\<lambda>((_, tb'), acts). (tb', rpc_responses (client_rpcs acts)))
            (client_on_receive uuid_parse pong_write epoch now ev (crv, tb))
      | ViaCall _ ev \<Rightarrow>
          map_sum id (\<lambda>((_, tb'), acts). (tb', rpc_responses (session_rpcs acts)))
            (session_on_receive uuid_parse False True ev (rcv, tb)))"

lemma serve_call_ok:
  assumes "uuid_parse mid = Some u" "uuid_show u = mid" "mr_message_id m = mid" "mr_requires_response m"
    and "handle (mr_handler_type m) (mr_actor_id m) (mr_message m) = Inr buf"
  shows "serve_call uuid_show uuid_parse self tx handle (SENotifyActor m) s =
    Inr [ViaSession (CEResult \<lparr>cr_message_id = mid, cr_result = buf\<rparr>)]"
  using assms
  by (simp add: serve_call_def session_on_receive_def session_handle_message_def parse_uuid_def send_result_def
      List.map_filter_def case_prod_beta)

lemma serve_call_err:
  assumes "uuid_parse mid = Some u" "uuid_show u = mid" "mr_message_id m = mid" "mr_origin_node_id m \<noteq> self"
    and "handle (mr_handler_type m) (mr_actor_id m) (mr_message m) = Inl e"
  shows "serve_call uuid_show uuid_parse self tx handle (SENotifyActor m) s =
    Inr [ViaCall (mr_origin_node_id m) (SEErr \<lparr>ce_message_id = mid, ce_error = Some (ref_err_to_proto e)\<rparr>)]"
  using assms
  by (simp add: serve_call_def session_on_receive_def session_handle_message_def parse_uuid_def
      notify_rpc_err_def node_rpc_raw_def wire_event_def List.map_filter_def case_prod_beta)

lemma receive_reply_ok:
  assumes "uuid_parse mid = Some u" "hm_get (requests tb) u = Some tx"
  shows "receive_reply uuid_parse pw epoch now crv rcv (ViaSession (CEResult \<lparr>cr_message_id = mid, cr_result = b\<rparr>)) tb =
    Inr (tb\<lparr>requests := hm_remove u (requests tb)\<rparr>, [(tx, RemoteOk b)])"
  using assms
  by (simp add: receive_reply_def client_on_receive_def client_answer_def parse_uuid_def pop_request_def
      client_rpcs_def List.map_filter_def)

lemma receive_reply_err:
  assumes "uuid_parse mid = Some u" "hm_get (requests tb) u = Some tx"
  shows "receive_reply uuid_parse pw epoch now crv rcv
      (ViaCall n (SEErr \<lparr>ce_message_id = mid, ce_error = Some (ref_err_to_proto e)\<rparr>)) tb =
    Inr (tb\<lparr>requests := hm_remove u (requests tb)\<rparr>, [(tx, RemoteErr e)])"
  using assms
  by (simp add: receive_reply_def session_on_receive_def answer_request_def parse_uuid_def pop_request_def
      session_rpcs_def List.map_filter_def)

definition response_of :: "actor_ref_err + bytes \<Rightarrow> remote_response" where
  "response_of res = (case res of Inr b \<Rightarrow> RemoteOk b | Inl e \<Rightarrow> RemoteErr e)"

text \<open>
  The whole way of one call: the request is stored and sent, the other node handles it, its answer comes
  back by either way to the caller's channel, and the entry is taken out again.
\<close>

lemma call_roundtrip:
  assumes "\<forall>v. uuid_parse (uuid_show v) = Some v" "caller \<noteq> callee"
    and "remote_ref_send uuid_show caller (Some h) mt ty aid (EnvRemote b) u tx tb = (tb', ev)"
  shows "\<exists>m reply. ev = Inr (SENotifyActor m) \<and>
     serve_call uuid_show uuid_parse callee tx' handle (SENotifyActor m) s = Inr [reply] \<and>
     receive_reply uuid_parse pw epoch now crv rcv reply tb' =
       Inr (tb'\<lparr>requests := hm_remove u (requests tb')\<rparr>, [(tx, response_of (handle h aid b))])"
proof -
  let ?m = "\<lparr>mr_message_id = uuid_show u, mr_handler_type = h, mr_actor_id = aid, mr_message = b,
             mr_requires_response = True, mr_origin_node_id = caller\<rparr>"
  have ev: "ev = Inr (SENotifyActor ?m)" and tb': "hm_get (requests tb') u = Some tx"
    using assms(3) by (auto simp: remote_ref_send_def create_request_def create_header_def push_request_def)
  have parse: "uuid_parse (uuid_show u) = Some u" using assms(1) by blast
  show ?thesis
  proof (cases "handle h aid b")
    case (Inl e)
    have "serve_call uuid_show uuid_parse callee tx' handle (SENotifyActor ?m) s =
        Inr [ViaCall caller (SEErr \<lparr>ce_message_id = uuid_show u, ce_error = Some (ref_err_to_proto e)\<rparr>)]"
      using serve_call_err [of uuid_parse "uuid_show u" u uuid_show ?m callee handle e tx' s] parse assms(2) Inl by simp
    then show ?thesis
      using ev receive_reply_err [of uuid_parse "uuid_show u" u tb' tx] parse tb' Inl by (simp add: response_of_def)
  next
    case (Inr buf)
    have "serve_call uuid_show uuid_parse callee tx' handle (SENotifyActor ?m) s =
        Inr [ViaSession (CEResult \<lparr>cr_message_id = uuid_show u, cr_result = buf\<rparr>)]"
      using serve_call_ok [of uuid_parse "uuid_show u" u uuid_show ?m handle buf callee tx' s] parse Inr by simp
    then show ?thesis
      using ev receive_reply_ok [of uuid_parse "uuid_show u" u tb' tx] parse tb' Inr by (simp add: response_of_def)
  qed
qed

text \<open>The reply events of the remote system are those of the session.\<close>

lemma session_reply_wire:
  "session_on_receive uuid_parse st op (wire_event ev) (rcv, tb) =
     map_sum id (\<lambda>(tb', acts). ((rcv, tb'), map SessionRpc acts)) (session_reply uuid_parse ev tb)"
  by (cases ev)
     (auto simp: session_on_receive_def wire_event_def session_reply_def answer_request_def parse_uuid_def pop_request_def
        Let_def split: option.splits)

text \<open>
  A request that cannot be built, for want of a handler's name or of an encoding, is stored all the same
  and stays in the table of requests in flight.
\<close>

lemma unsent_request_leaks:
  assumes "remote_ref_send uuid_show self handler mt ty aid env u tx tb = (tb', Inl e)"
  shows "hm_get (requests tb') u = Some tx"
  using assms by (auto simp: remote_ref_send_def push_request_def)

text \<open>The notice of a terminated peer leaves the loop of its session running.\<close>

lemma terminated_peer_keeps_session:
  assumes "ping_system_terminated p"
  shows "session_on_receive uuid_parse False op (SEPing p) (rcv, tb) =
    Inr ((rcv, tb), [TellHeartbeat (ping_node_id p)])"
  using assms by (simp add: session_on_receive_def receive_ping_def)

text \<open>Without a valid first frame a session ends before it has told anything about its node.\<close>

lemma unauthenticated_session_stops:
  assumes "validate_session_token C now auth frame = Inr False"
  shows "session_started (validate_session_token C now auth frame) sid identity = Inr [StopSession]"
  using assms by (simp add: session_started_def)

end
