(* ===== verification/Pub_Sub.thy ===== *)
theory Pub_Sub
  imports Sessions
begin

text \<open>
  Publishing and subscribing: the mediator of a node (\<open>remote/stream/mediator/mod.rs\<close>) and the stores of
  its subscribers (\<open>remote/stream/pubsub.rs\<close>).

  A topic has a name, a type and a message type; \<open>'m\<close> is the type of all messages, and a store knows the types it
  was made for. A broadcast channel of tokio holds its last 1024 messages: a receiver that is further
  behind loses the oldest, and its next \<open>recv\<close> is an error. Each subscriber is modelled by the messages
  it has yet to receive.
\<close>

section \<open>Channels and subscribers\<close>

definition channel_capacity :: nat where
  "channel_capacity = 1024"

record 'm subscriber =
  sub_ref :: actor_ref
  sub_pending :: "'m list"
  sub_lagged :: bool
  sub_ended :: bool

definition subscription_new :: "actor_ref \<Rightarrow> 'm subscriber" where
  "subscription_new r = \<lparr>sub_ref = r, sub_pending = [], sub_lagged = False, sub_ended = False\<rparr>"

definition channel_send :: "'m \<Rightarrow> 'm subscriber \<Rightarrow> 'm subscriber" where
  "channel_send m s =
     (if length (sub_pending s) < channel_capacity then s\<lparr>sub_pending := sub_pending s @ [m]\<rparr>
      else s\<lparr>sub_pending := tl (sub_pending s) @ [m], sub_lagged := True\<rparr>)"

text \<open>
  One turn of a subscription's task: it notifies its actor of the next message; an error of \<open>recv\<close> ends
  the loop. \<open>is_open\<close> says whether the actor takes messages; if not, the task panics.
\<close>

datatype 'm sub_effect = NotifyReceive actor_ref 'm | SubscriptionEnds | SubscriptionPanics

definition subscription_turn :: "(actor_ref \<Rightarrow> bool) \<Rightarrow> 'm subscriber \<Rightarrow> 'm subscriber \<times> 'm sub_effect list" where
  "subscription_turn is_open s =
     (if sub_ended s then (s, [])
      else if sub_lagged s then (s\<lparr>sub_ended := True\<rparr>, [SubscriptionEnds])
      else
        (case sub_pending s of
           [] \<Rightarrow> (s, [])
         | m # ms \<Rightarrow>
             if is_open (sub_ref s) then (s\<lparr>sub_pending := ms\<rparr>, [NotifyReceive (sub_ref s) m])
             else (s\<lparr>sub_ended := True\<rparr>, [SubscriptionPanics])))"

definition unsubscribe :: "'m subscriber \<Rightarrow> 'm subscriber" where
  "unsubscribe s = s\<lparr>sub_ended := True\<rparr>"

text \<open>A topic's type with the type of its messages. A store is found by the first; a message that is published must have
  the second.\<close>

type_synonym topic_ty = "type_name \<times> type_name"

record 'm topic_store =
  store_type :: topic_ty
  channels :: "(string, 'm subscriber list) hash_map"

definition topic_store_new :: "topic_ty \<Rightarrow> 'm topic_store" where
  "topic_store_new ty = \<lparr>store_type = ty, channels = []\<rparr>"

text \<open>A receiver of a key, for the subscriber that will read it.\<close>

definition store_receiver :: "string \<Rightarrow> actor_ref \<Rightarrow> 'm topic_store \<Rightarrow> 'm topic_store" where
  "store_receiver key r st =
     st\<lparr>channels := hm_insert key
          ((case hm_get (channels st) key of Some subs \<Rightarrow> subs | None \<Rightarrow> []) @ [subscription_new r]) (channels st)\<rparr>"

definition store_broadcast :: "string \<Rightarrow> 'm \<Rightarrow> 'm topic_store \<Rightarrow> 'm topic_store" where
  "store_broadcast key m st =
     (case hm_get (channels st) key of
        Some subs \<Rightarrow> st\<lparr>channels := hm_insert key (map (channel_send m) subs) (channels st)\<rparr>
      | None \<Rightarrow> st)"

definition emit_serialised ::
  "(bytes \<Rightarrow> ('m option) may_panic) \<Rightarrow> string \<Rightarrow> bytes \<Rightarrow> 'm topic_store \<Rightarrow> ('m topic_store) may_panic" where
  "emit_serialised read key b st =
     (case read b of
        Inl p \<Rightarrow> Inl p
      | Inr (Some m) \<Rightarrow> Inr (store_broadcast key m st)
      | Inr None \<Rightarrow> Inr st)"

text \<open>\<open>emit\<close> casts the message to the type of the store's messages.\<close>

definition store_emit :: "type_name \<Rightarrow> string \<Rightarrow> 'm \<Rightarrow> 'm topic_store \<Rightarrow> ('m topic_store) may_panic" where
  "store_emit message_ty key m st =
     (if snd (store_type st) = message_ty then Inr (store_broadcast key m st)
      else Inl (Panic ''called unwrap on an Err value''))"

section \<open>The mediator\<close>

record 'm mediator =
  md_remote :: "node_id option"
  md_nodes :: "node_id list"
  md_topics :: "(string, 'm topic_store) hash_map"
  md_subscribed :: bool

definition mediator_new :: "'m mediator" where
  "mediator_new = \<lparr>md_remote = None, md_nodes = [], md_topics = [], md_subscribed = False\<rparr>"

text \<open>The type \<open>T\<close> of a topic: its name, its type and the encoder of its messages. The decoder
  is found by the type of the store.\<close>

record 'm topic =
  topic_name :: string
  topic_type :: topic_ty
  topic_write :: "'m \<Rightarrow> bytes option"

definition mediator_subscribe ::
  "'m topic \<Rightarrow> string \<Rightarrow> actor_ref \<Rightarrow> 'm mediator \<Rightarrow> 'm mediator \<times> bool" where
  "mediator_subscribe t key r md =
     (let st = (case hm_get (md_topics md) (topic_name t) of Some st \<Rightarrow> st | None \<Rightarrow> topic_store_new (topic_type t));
          md1 = md\<lparr>md_topics := hm_insert (topic_name t) st (md_topics md)\<rparr>
      in if store_type st = topic_type t
         then (md1\<lparr>md_topics := hm_insert (topic_name t) (store_receiver key r st) (md_topics md1)\<rparr>, True)
         else (md1, False))"

definition mediator_set_remote ::
  "'m topic \<Rightarrow> node_id \<Rightarrow> actor_ref \<Rightarrow> 'm mediator \<Rightarrow> ('m mediator) may_panic" where
  "mediator_set_remote system_topic self me md =
     (case mediator_subscribe system_topic '''' me (md\<lparr>md_remote := Some self\<rparr>) of
        (md', True) \<Rightarrow> Inr (md'\<lparr>md_subscribed := True\<rparr>)
      | (_, False) \<Rightarrow> Inl (Panic ''called unwrap on an Err value''))"

definition mediator_system_event :: "cluster_event \<Rightarrow> 'm mediator \<Rightarrow> ('m mediator) may_panic" where
  "mediator_system_event ev md =
     (case ev of
        NodeAdded n \<Rightarrow>
          (case md_remote md of
             None \<Rightarrow> Inl (Panic ''StreamMediator remote actor system not set'')
           | Some self \<Rightarrow>
               Inr (if node_id n \<noteq> self then md\<lparr>md_nodes := hs_insert (node_id n) (md_nodes md)\<rparr> else md))
      | NodeRemoved n \<Rightarrow> Inr (md\<lparr>md_nodes := hs_remove (node_id n) (md_nodes md)\<rparr>)
      | _ \<Rightarrow> Inr md)"

datatype reach = ReachLocal | ReachCluster

definition remote_publish :: "reach \<Rightarrow> bool" where
  "remote_publish r = (case r of ReachLocal \<Rightarrow> False | ReachCluster \<Rightarrow> True)"

definition emit_topic :: "'m topic \<Rightarrow> string \<Rightarrow> 'm \<Rightarrow> 'm mediator \<Rightarrow> ('m mediator) may_panic" where
  "emit_topic t key m md =
     (case hm_get (md_topics md) (topic_name t) of
        None \<Rightarrow> Inr md
      | Some st \<Rightarrow>
          map_sum id (\<lambda>st'. md\<lparr>md_topics := hm_insert (topic_name t) st' (md_topics md)\<rparr>)
            (store_emit (snd (topic_type t)) key m st))"

text \<open>
  A publication: the new state, the events for other nodes, and whether the message could be encoded. The subscribers of
  this node have the message when the handler returns; the events are sent by one task that the handler spawns, so
  nothing is said about the order in which the events of two publications get to another node, nor, since the session
  there spawns a task for each as well, about the order in which its mediator handles them.
\<close>

definition mediator_publish ::
  "'m topic \<Rightarrow> string \<Rightarrow> 'm \<Rightarrow> reach \<Rightarrow> 'm mediator \<Rightarrow>
   ('m mediator \<times> (node_id \<times> net_session_event) list \<times> bool) may_panic" where
  "mediator_publish t key m r md =
     (case emit_topic t key m md of
        Inl p \<Rightarrow> Inl p
      | Inr md' \<Rightarrow>
          if remote_publish r \<and> md_nodes md' \<noteq> [] then
            (case topic_write t m of
               Some b \<Rightarrow>
                 (case md_remote md' of
                    None \<Rightarrow> Inl (Panic ''StreamMediator remote actor system not set'')
                  | Some _ \<Rightarrow>
                      Inr (md', map (\<lambda>n. (n, SEStreamPublish \<lparr>sp_topic = topic_name t, sp_key = key, sp_message = b\<rparr>)) (md_nodes md'),
                           True))
             | None \<Rightarrow> Inr (md', [], False))
          else Inr (md', [], True))"

text \<open>At the other node: the session hands the event to its mediator as a raw publication.\<close>

definition publish_raw_from :: "stream_publish_event \<Rightarrow> string \<times> string \<times> bytes" where
  "publish_raw_from e = (sp_topic e, sp_key e, sp_message e)"

definition mediator_publish_raw ::
  "(topic_ty \<Rightarrow> bytes \<Rightarrow> ('m option) may_panic) \<Rightarrow> string \<times> string \<times> bytes \<Rightarrow> 'm mediator \<Rightarrow> ('m mediator) may_panic" where
  "mediator_publish_raw reader p md =
     (case p of
        (name, key, b) \<Rightarrow>
          (case hm_get (md_topics md) name of
             None \<Rightarrow> Inr md
           | Some st \<Rightarrow>
               map_sum id (\<lambda>st'. md\<lparr>md_topics := hm_insert name st' (md_topics md)\<rparr>)
                 (emit_serialised (reader (store_type st)) key b st)))"

definition session_stream_publish ::
  "(topic_ty \<Rightarrow> bytes \<Rightarrow> ('m option) may_panic) \<Rightarrow> stream_publish_event \<Rightarrow> 'm mediator option \<Rightarrow> ('m mediator option) may_panic" where
  "session_stream_publish reader e md =
     (case md of
        None \<Rightarrow> Inr None
      | Some m \<Rightarrow> map_sum id Some (mediator_publish_raw reader (publish_raw_from e) m))"

text \<open>
  \<open>PubSub::subscribe\<close>, \<open>publish\<close> and \<open>publish_locally\<close> ask the mediator of the system. A system without one makes the caller
  panic, and so does a mediator that has gone or goes down over the request.
\<close>

definition ask_mediator :: "bool \<Rightarrow> ('m mediator \<Rightarrow> 'r may_panic) \<Rightarrow> 'm mediator option \<Rightarrow> 'r may_panic" where
  "ask_mediator alive f mdo =
     (case mdo of
        None \<Rightarrow> Inl (Panic ''no stream mediator found, system not setup for distributed streams'')
      | Some md \<Rightarrow>
          (case (if alive then f md else Inl (Panic ''mediator stopped'')) of
             Inl _ \<Rightarrow> Inl (Panic ''called unwrap on an Err value'')
           | Inr r \<Rightarrow> Inr r))"

definition pubsub_subscribe ::
  "bool \<Rightarrow> 'm topic \<Rightarrow> string \<Rightarrow> actor_ref \<Rightarrow> 'm mediator option \<Rightarrow> ('m mediator \<times> bool) may_panic" where
  "pubsub_subscribe alive t key r = ask_mediator alive (\<lambda>md. Inr (mediator_subscribe t key r md))"

definition pubsub_publish ::
  "bool \<Rightarrow> 'm topic \<Rightarrow> string \<Rightarrow> 'm \<Rightarrow> 'm mediator option \<Rightarrow>
   ('m mediator \<times> (node_id \<times> net_session_event) list) may_panic" where
  "pubsub_publish alive t key m =
     ask_mediator alive (\<lambda>md. map_sum id (\<lambda>(md', evs, _). (md', evs)) (mediator_publish t key m ReachCluster md))"

definition pubsub_publish_locally ::
  "bool \<Rightarrow> 'm topic \<Rightarrow> string \<Rightarrow> 'm \<Rightarrow> 'm mediator option \<Rightarrow>
   ('m mediator \<times> (node_id \<times> net_session_event) list) may_panic" where
  "pubsub_publish_locally alive t key m =
     ask_mediator alive (\<lambda>md. map_sum id (\<lambda>(md', evs, _). (md', evs)) (mediator_publish t key m ReachLocal md))"

section \<open>Publications reach every node\<close>

lemma raw_publish_is_local:
  assumes "topic_write t m = Some b" "reader (topic_type t) b = Inr (Some m)"
    and "\<forall>st. hm_get (md_topics md) (topic_name t) = Some st \<longrightarrow> store_type st = topic_type t"
  shows "mediator_publish_raw reader (topic_name t, key, b) md = emit_topic t key m md"
  using assms
  by (auto simp: mediator_publish_raw_def emit_topic_def emit_serialised_def store_emit_def split: option.splits)

lemma mediator_nodes_distinct:
  "distinct (md_nodes md) \<Longrightarrow> mediator_system_event ev md = Inr md' \<Longrightarrow> distinct (md_nodes md')"
  by (auto simp: mediator_system_event_def distinct_removeAll split: cluster_event.splits option.splits if_splits)

text \<open>C32: A message published to the cluster has at every node the effect of a local publication: it is sent
  once to each node the mediator knows, with its topic, key and encoding, and what the mediator of such
  a node does with it is exactly what publishing the same message there would do.\<close>

theorem published_everywhere:
  assumes "mediator_publish t key m ReachCluster md = Inr (md', events, True)"
    and "distinct (md_nodes md)" "n \<in> set (md_nodes md)"
    and "\<forall>b. topic_write t m = Some b \<longrightarrow> reader (topic_type t) b = Inr (Some m)"
    and "\<forall>st. hm_get (md_topics other) (topic_name t) = Some st \<longrightarrow> store_type st = topic_type t"
  shows "\<exists>e. filter (\<lambda>(k, _). k = n) events = [(n, SEStreamPublish e)] \<and>
    session_stream_publish reader e (Some other) = map_sum id Some (emit_topic t key m other)"
proof -
  have nodes: "md_nodes md' = md_nodes md" if "emit_topic t key m md = Inr md'" for md'
    using that by (auto simp: emit_topic_def store_emit_def split: option.splits if_splits)
  obtain b where b: "topic_write t m = Some b"
    and ev: "events = map (\<lambda>k. (k, SEStreamPublish \<lparr>sp_topic = topic_name t, sp_key = key, sp_message = b\<rparr>)) (md_nodes md)"
    using assms(1,3) nodes
    by (auto simp: mediator_publish_def remote_publish_def split: sum.splits if_splits option.splits)
  let ?e = "\<lparr>sp_topic = topic_name t, sp_key = key, sp_message = b\<rparr>"
  have "filter (\<lambda>k. k = n) ks = [n]" if "distinct ks" "n \<in> set ks" for ks
    using that by (induction ks) (auto simp: filter_empty_conv)
  then have "filter (\<lambda>(k, _). k = n) events = [(n, SEStreamPublish ?e)]"
    using assms(2,3) ev by (simp add: filter_map comp_def)
  moreover have "session_stream_publish reader ?e (Some other) = map_sum id Some (emit_topic t key m other)"
    using raw_publish_is_local [OF b, of reader other key] assms(4,5) b
    by (simp add: session_stream_publish_def publish_raw_from_def)
  ultimately show ?thesis by blast
qed

definition ex_topic :: "nat topic" where
  "ex_topic = \<lparr>topic_name = ''t'', topic_type = (''T'', ''M''), topic_write = (\<lambda>m. Some (replicate m 0))\<rparr>"

definition ex_receiver :: actor_ref where
  "ex_receiver = \<lparr>ref_id = ''r'', ref_path = ''r'', ref_type = ''R'', ref_mailbox = 0\<rparr>"

definition ex_mediator :: "nat mediator" where
  "ex_mediator = \<lparr>md_remote = Some 1, md_nodes = [2, 3], md_topics = [], md_subscribed = True\<rparr>"

theorem published_everywhere_witness:
  "\<exists>e. filter (\<lambda>(k, _). k = 3) [(2, SEStreamPublish e), (3, SEStreamPublish e)] = [(3 :: node_id, SEStreamPublish e)] \<and>
     session_stream_publish (\<lambda>_ b. Inr (Some (length b))) e (Some (fst (mediator_subscribe ex_topic ''k'' ex_receiver mediator_new))) =
       map_sum id Some (emit_topic ex_topic ''k'' 5 (fst (mediator_subscribe ex_topic ''k'' ex_receiver mediator_new)))"
proof -
  let ?other = "fst (mediator_subscribe ex_topic ''k'' ex_receiver mediator_new)"
  let ?e = "\<lparr>sp_topic = ''t'', sp_key = ''k'', sp_message = replicate 5 0\<rparr>"
  have p: "mediator_publish ex_topic ''k'' 5 ReachCluster ex_mediator =
      Inr (ex_mediator, [(2, SEStreamPublish ?e), (3, SEStreamPublish ?e)], True)"
    by (simp add: mediator_publish_def emit_topic_def remote_publish_def ex_mediator_def ex_topic_def)
  have t: "\<forall>st. hm_get (md_topics ?other) (topic_name ex_topic) = Some st \<longrightarrow> store_type st = topic_type ex_topic"
    by (simp add: mediator_subscribe_def mediator_new_def Let_def topic_store_new_def store_receiver_def)
  show ?thesis
    using published_everywhere [OF p, of 3 "\<lambda>_ b. Inr (Some (length b))" ?other] t
    by (auto simp: ex_mediator_def ex_topic_def)
qed

section \<open>One subscription\<close>

lemma publish_emits:
  "pubsub_publish alive t key m (Some md) = Inr (md', evs) \<Longrightarrow> emit_topic t key m md = Inr md'"
  "pubsub_publish_locally alive t key m (Some md) = Inr (md', evs) \<Longrightarrow> emit_topic t key m md = Inr md' \<and> evs = []"
  by (auto simp: pubsub_publish_def pubsub_publish_locally_def ask_mediator_def mediator_publish_def remote_publish_def
      split: if_splits sum.splits option.splits)

text \<open>The subscriber with index \<open>i\<close> among those of a key, and a mediator in which it has changed.\<close>

definition key_subs :: "'m topic \<Rightarrow> string \<Rightarrow> 'm mediator \<Rightarrow> 'm subscriber list" where
  "key_subs t key md =
     (case hm_get (md_topics md) (topic_name t) of
        None \<Rightarrow> []
      | Some st \<Rightarrow> (case hm_get (channels st) key of None \<Rightarrow> [] | Some subs \<Rightarrow> subs))"

definition set_key_subs :: "'m topic \<Rightarrow> string \<Rightarrow> 'm subscriber list \<Rightarrow> 'm mediator \<Rightarrow> 'm mediator" where
  "set_key_subs t key subs md =
     (case hm_get (md_topics md) (topic_name t) of
        None \<Rightarrow> md
      | Some st \<Rightarrow>
          md\<lparr>md_topics := hm_insert (topic_name t) (st\<lparr>channels := hm_insert key subs (channels st)\<rparr>) (md_topics md)\<rparr>)"

lemma emit_key_subs:
  "emit_topic t key m md = Inr md' \<Longrightarrow> key_subs t key md' = map (channel_send m) (key_subs t key md)"
  by (auto simp: emit_topic_def key_subs_def store_emit_def store_broadcast_def split: option.splits if_splits)

lemma subscribe_key_subs:
  "mediator_subscribe t key r md = (md', True) \<Longrightarrow>
     key_subs t key md' = key_subs t key md @ [subscription_new r] \<and> hm_get (md_topics md') (topic_name t) \<noteq> None"
  by (auto simp: mediator_subscribe_def key_subs_def store_receiver_def topic_store_new_def Let_def
      split: option.splits if_splits)

lemma set_key_subs_get:
  "hm_get (md_topics md) (topic_name t) \<noteq> None \<Longrightarrow> key_subs t key (set_key_subs t key subs md) = subs"
  "hm_get (md_topics (set_key_subs t key subs md)) (topic_name t) = None \<longleftrightarrow> hm_get (md_topics md) (topic_name t) = None"
  by (auto simp: set_key_subs_def key_subs_def split: option.splits)

text \<open>What happens to a subscription: a message is sent to its key, or its task takes a turn.\<close>

fun sub_run ::
  "(actor_ref \<Rightarrow> bool) \<Rightarrow> 'm option list \<Rightarrow> 'm subscriber \<Rightarrow> 'm subscriber \<times> 'm sub_effect list" where
  "sub_run is_open [] s = (s, [])"
| "sub_run is_open (Some m # xs) s = sub_run is_open xs (channel_send m s)"
| "sub_run is_open (None # xs) s =
     (let (s1, e1) = subscription_turn is_open s; (s2, e2) = sub_run is_open xs s1 in (s2, e1 @ e2))"

lemma sub_run_lagged: "sub_lagged s \<Longrightarrow> sub_lagged (fst (sub_run is_open xs s))"
  by (induction is_open xs s rule: sub_run.induct)
     (auto simp: channel_send_def subscription_turn_def split: prod.splits if_splits)

text \<open>A subscription that does not fall behind notifies its actor of every message once, in the order of publication.\<close>

lemma sub_run_in_order:
  assumes "sub_run is_open xs s = (s', effs)" "\<not> sub_lagged s'" "\<not> sub_ended s" "is_open (sub_ref s)"
  shows "\<exists>got. effs = map (NotifyReceive (sub_ref s)) got \<and> got @ sub_pending s' = sub_pending s @ List.map_filter (\<lambda>x. x) xs \<and>
    \<not> sub_ended s' \<and> sub_ref s' = sub_ref s"
  using assms
proof (induction is_open xs s arbitrary: effs rule: sub_run.induct)
  case (2 is_open m xs s)
  have nl: "\<not> sub_lagged (channel_send m s)"
    using 2(2,3) sub_run_lagged [of "channel_send m s" is_open xs] by auto
  then have "sub_pending (channel_send m s) = sub_pending s @ [m]" "\<not> sub_ended (channel_send m s)"
    "sub_ref (channel_send m s) = sub_ref s"
    using 2(4) by (auto simp: channel_send_def split: if_splits)
  with 2 show ?case by (auto simp: map_filter_simps)
next
  case (3 is_open xs s)
  obtain s1 e1 where t: "subscription_turn is_open s = (s1, e1)" by (cases "subscription_turn is_open s")
  with 3(2) obtain e2 where r: "sub_run is_open xs s1 = (s', e2)" "effs = e1 @ e2" by (auto split: prod.splits)
  have "\<not> sub_lagged s1" using r(1) 3(3) sub_run_lagged [of s1 is_open xs] by auto
  then have nl: "\<not> sub_lagged s" using t 3(4) by (auto simp: subscription_turn_def split: if_splits list.splits)
  with t 3(4,5) have s1: "\<not> sub_ended s1" "sub_ref s1 = sub_ref s"
    "e1 = map (NotifyReceive (sub_ref s)) (take 1 (sub_pending s))" "sub_pending s1 = drop 1 (sub_pending s)"
    by (auto simp: subscription_turn_def split: list.splits)
  from 3(1) [OF t [symmetric] refl r(1) 3(3) s1(1)] 3(5) s1(2) obtain got where
    got: "e2 = map (NotifyReceive (sub_ref s)) got" "got @ sub_pending s' = sub_pending s1 @ List.map_filter (\<lambda>x. x) xs"
    "\<not> sub_ended s'" "sub_ref s' = sub_ref s" by auto
  show ?case
    by (rule exI [of _ "take 1 (sub_pending s) @ got"]) (use got s1 r(2) in \<open>auto simp: map_filter_simps\<close>)
qed (auto simp: map_filter_simps)

section \<open>Slow subscribers\<close>

text \<open>A subscriber that falls more than the capacity behind is never notified again.\<close>

lemma lagged_forever: "sub_lagged s \<Longrightarrow> sub_lagged (channel_send m s)"
  by (simp add: channel_send_def)

lemma lagged_subscription_ends:
  assumes "sub_lagged s"
  shows "snd (subscription_turn is_open s) \<in> {[], [SubscriptionEnds]}"
    and "sub_ended (fst (subscription_turn is_open s))"
  using assms by (auto simp: subscription_turn_def)

lemma sends_pending:
  "\<not> sub_lagged s \<Longrightarrow> length (sub_pending s) + length ms \<le> channel_capacity \<Longrightarrow>
   fold channel_send ms s = s\<lparr>sub_pending := sub_pending s @ ms\<rparr>"
proof (induction ms arbitrary: s)
  case (Cons m ms)
  then have "channel_send m s = s\<lparr>sub_pending := sub_pending s @ [m]\<rparr>" by (simp add: channel_send_def)
  then show ?case using Cons by simp
qed simp

lemma overflow_ends_subscription:
  assumes "length ms = channel_capacity" "sub_pending s = []" "\<not> sub_lagged s"
  shows "sub_lagged (channel_send m (fold channel_send ms s))"
  using assms sends_pending [of s ms] by (simp add: channel_send_def)

end
