(* ===== verification/Remote_Client.thy ===== *)
theory Remote_Client
  imports Sessions Conduits
begin

text \<open>
  The client of a connection to another node: \<open>remote/net/client/mod.rs\<close>, \<open>connect.rs\<close>, \<open>send.rs\<close> and
  \<open>ping.rs\<close>. A client connects and reconnects, buffers what is written while it has no connection, shakes
  hands once per connection and pings.

  The stream of a connection is modelled by the number of frames it takes before it fails (\<open>None\<close>: it
  does not fail); a stream that has failed stays failed. What reaches the stream is the effect
  \<open>WriteFrame\<close>.
\<close>

section \<open>State\<close>

record handshake_ack =
  ack_node_id :: node_id
  ack_node_tag :: string
  ack_started_at :: time
  ack_known_nodes :: "remote_node list"

datatype handshake_status = HandshakeNone | HandshakePending | HandshakeAcknowledged handshake_ack

record connection_state =
  conn_identity :: node_identity
  conn_handshake :: handshake_status
  conn_accepts :: "nat option"

datatype client_state = ClientIdle nat | ClientConnected connection_state | ClientTerminated

record remote_client =
  rcl_addr :: string
  rcl_node_id :: "node_id option"
  rcl_type :: client_type
  rcl_state :: "client_state option"
  rcl_write_buffer :: "bytes list"
  rcl_buffer_total :: nat
  rcl_identified :: "sender list"
  rcl_handshake_acks :: "(uuid \<times> sender) list"
  rcl_ping_timer :: bool

definition remote_client_new :: "string \<Rightarrow> client_type \<Rightarrow> remote_client" where
  "remote_client_new addr ty =
     \<lparr>rcl_addr = addr, rcl_node_id = None, rcl_type = ty, rcl_state = Some (ClientIdle 0), rcl_write_buffer = [],
      rcl_buffer_total = 0, rcl_identified = [], rcl_handshake_acks = [], rcl_ping_timer = False\<rparr>"

definition remote_client_id :: "string \<Rightarrow> actor_id" where
  "remote_client_id addr = ''remote-client-'' @ addr"

definition connection_attempts :: "client_state \<Rightarrow> nat option" where
  "connection_attempts s = (case s of ClientIdle n \<Rightarrow> Some n | _ \<Rightarrow> None)"

definition is_connected :: "client_state \<Rightarrow> bool" where
  "is_connected s = (case s of ClientConnected _ \<Rightarrow> True | _ \<Rightarrow> False)"

datatype remote_client_err = ClientEncoding | ClientStreamErr

datatype client_effect =
    WriteFrame bytes
  | TellConnected string node_id
  | AnswerIdentify sender "node_identity option"
  | AnswerHandshake sender
  | DiscoverAddr string
  | ForgetAddr string
  | ScheduleConnect
  | TellRemoved string "node_id option"
  | StopClient
  | TellPing node_id ping_result
  | AwaitPong uuid node_id
  | NotifyTerminating

section \<open>Writing\<close>

definition stream_write :: "bytes \<Rightarrow> connection_state \<Rightarrow> (remote_client_err + unit) \<times> connection_state \<times> client_effect list" where
  "stream_write b conn =
     (case conn_accepts conn of
        None \<Rightarrow> (Inr (), conn, [WriteFrame b])
      | Some 0 \<Rightarrow> (Inl ClientStreamErr, conn, [])
      | Some (Suc n) \<Rightarrow> (Inr (), conn\<lparr>conn_accepts := Some n\<rparr>, [WriteFrame b]))"

definition sub_total :: "nat \<Rightarrow> nat \<Rightarrow> nat may_panic" where
  "sub_total tot n = (if n \<le> tot then Inr (tot - n) else Inl (Panic ''attempt to subtract with overflow''))"

fun flush_loop ::
  "bytes list \<Rightarrow> nat \<Rightarrow> connection_state \<Rightarrow> (bytes list \<times> nat \<times> connection_state \<times> client_effect list) may_panic" where
  "flush_loop [] tot conn = Inr ([], tot, conn, [])"
| "flush_loop (b # bs) tot conn =
     (case stream_write b conn of
        (Inr _, conn', effs) \<Rightarrow>
          (case sub_total tot (length b) of
             Inl p \<Rightarrow> Inl p
           | Inr tot' \<Rightarrow>
               map_sum id (\<lambda>(bs', t', c', effs'). (bs', t', c', effs @ effs')) (flush_loop bs tot' conn'))
      | (Inl _, conn', effs) \<Rightarrow> Inr (b # bs, tot, conn', effs))"

definition flush_buffered_writes :: "remote_client \<Rightarrow> (remote_client \<times> client_effect list) may_panic" where
  "flush_buffered_writes c =
     (case rcl_state c of
        Some (ClientConnected conn) \<Rightarrow>
          map_sum id
            (\<lambda>(bs, t, conn', effs).
               (c\<lparr>rcl_write_buffer := bs, rcl_buffer_total := t, rcl_state := Some (ClientConnected conn')\<rparr>, effs))
            (flush_loop (rcl_write_buffer c) (rcl_buffer_total c) conn)
      | _ \<Rightarrow> Inr (c, []))"

definition buffer_message :: "bytes \<Rightarrow> remote_client \<Rightarrow> remote_client" where
  "buffer_message b c =
     c\<lparr>rcl_buffer_total := rcl_buffer_total c + length b, rcl_write_buffer := rcl_write_buffer c @ [b]\<rparr>"

section \<open>Connecting\<close>

definition max_connection_attempts :: nat where
  "max_connection_attempts = 10"

definition handle_disconnected :: "remote_client \<Rightarrow> (remote_client \<times> client_effect list) may_panic" where
  "handle_disconnected c =
     (case rcl_state c of
        None \<Rightarrow> Inl (Panic ''called unwrap on a None value'')
      | Some st \<Rightarrow>
          (let (st', reconnect) =
                 (case st of
                    ClientIdle n \<Rightarrow>
                      (if n + 1 > max_connection_attempts then (ClientTerminated, False) else (ClientIdle (n + 1), True))
                  | ClientConnected _ \<Rightarrow> (ClientIdle 1, True)
                  | ClientTerminated \<Rightarrow> (ClientTerminated, True))
           in Inr (c\<lparr>rcl_state := Some st'\<rparr>,
                   if reconnect then [ScheduleConnect] else [TellRemoved (rcl_addr c) (rcl_node_id c), StopClient])))"

text \<open>
  How an attempt to connect ends: the address cannot be reached or the identify message not written, no
  identity arrives, or the connection is there. In the last two the ping timer has been started.
\<close>

datatype connect_outcome = ConnectFailed | NoIdentity | ConnectedTo connection_state

definition client_identify :: "'err net_codec \<Rightarrow> node_id \<Rightarrow> string \<Rightarrow> string may_panic \<Rightarrow> bytes may_panic" where
  "client_identify C self tag token =
     (case token of
        Inl p \<Rightarrow> Inl p
      | Inr t \<Rightarrow>
          (case session_event_write C (SEIdentify \<lparr>pidf_source_node_id = self, pidf_source_node_tag = tag, pidf_token = t\<rparr>) of
             Some b \<Rightarrow> Inr b
           | None \<Rightarrow> Inl (Panic ''called unwrap on a None value'')))"

definition identified_answers :: "node_identity option \<Rightarrow> remote_client \<Rightarrow> client_effect list" where
  "identified_answers i c = map (\<lambda>tx. AnswerIdentify tx i) (rev (rcl_identified c))"

definition handle_connect :: "connect_outcome \<Rightarrow> remote_client \<Rightarrow> (remote_client \<times> client_effect list) may_panic" where
  "handle_connect outcome c =
     (if (case rcl_state c of Some st \<Rightarrow> is_connected st | None \<Rightarrow> False) then Inr (c, [])
      else
        (case outcome of
           ConnectedTo conn \<Rightarrow>
             (let n = ni_node (conn_identity conn);
                  c1 = c\<lparr>rcl_ping_timer := True, rcl_identified := [], rcl_node_id := Some (node_id n),
                         rcl_state := Some (ClientConnected conn)\<rparr>
              in map_sum id
                   (\<lambda>(c2, effs).
                      (c2, TellConnected (node_addr n) (node_id n) # identified_answers (Some (conn_identity conn)) c @
                           [DiscoverAddr (rcl_addr c)] @ effs))
                   (flush_buffered_writes c1))
         | _ \<Rightarrow>
             map_sum id (\<lambda>(c2, effs). (c2, identified_answers None c @ effs))
               (handle_disconnected
                  (c\<lparr>rcl_identified := [], rcl_ping_timer := rcl_ping_timer c \<or> outcome = NoIdentity\<rparr>))))"

text \<open>A write to a terminated client is dropped, and the client asked to reconnect.\<close>

definition client_write_event ::
  "bytes option \<Rightarrow> remote_client \<Rightarrow> (remote_client \<times> client_effect list \<times> (remote_client_err + unit)) may_panic" where
  "client_write_event encoded c =
     (case encoded of
        None \<Rightarrow> Inr (c, [], Inl ClientEncoding)
      | Some b \<Rightarrow>
          (case rcl_state c of
             None \<Rightarrow> Inl (Panic ''called unwrap on a None value'')
           | Some (ClientIdle _) \<Rightarrow> Inr (buffer_message b c, [], Inr ())
           | Some (ClientConnected conn) \<Rightarrow>
               (case stream_write b conn of
                  (Inr _, conn', effs) \<Rightarrow> Inr (c\<lparr>rcl_state := Some (ClientConnected conn')\<rparr>, effs, Inr ())
                | (Inl _, conn', effs) \<Rightarrow>
                    map_sum id (\<lambda>(c', effs'). (c', effs @ effs', Inr ()))
                      (handle_disconnected (buffer_message b (c\<lparr>rcl_state := Some (ClientConnected conn')\<rparr>))))
           | Some ClientTerminated \<Rightarrow>
               map_sum id (\<lambda>(c', effs). (c', effs, Inr ())) (handle_disconnected c)))"

section \<open>Identity and handshake\<close>

definition handle_identify :: "sender \<Rightarrow> remote_client \<Rightarrow> remote_client \<times> client_effect list" where
  "handle_identify tx c =
     (case rcl_state c of
        Some (ClientConnected conn) \<Rightarrow> (c, [AnswerIdentify tx (Some (conn_identity conn))])
      | _ \<Rightarrow> (c\<lparr>rcl_identified := rcl_identified c @ [tx]\<rparr>, []))"

definition handshake_message ::
  "time \<Rightarrow> (uuid \<Rightarrow> string) \<Rightarrow> node_id \<Rightarrow> string \<Rightarrow> client_type \<Rightarrow> uuid \<Rightarrow> remote_node list \<Rightarrow> proto_handshake" where
  "handshake_message epoch uuid_show self tag ty u seeds =
     \<lparr>phs_node_id = self, phs_nodes = map (node_to_proto epoch) seeds, phs_node_tag = tag, phs_trace_id = uuid_show u,
      phs_started_at = None, phs_token = [], phs_client_type = Some ty\<rparr>"

text \<open>The handshake is written past the buffer; the client panics when it cannot be encoded or written.\<close>

definition handle_begin_handshake ::
  "'err net_codec \<Rightarrow> time \<Rightarrow> (uuid \<Rightarrow> string) \<Rightarrow> node_id \<Rightarrow> string \<Rightarrow> uuid \<Rightarrow> remote_node list \<Rightarrow> sender \<Rightarrow> remote_client \<Rightarrow>
   (remote_client \<times> client_effect list) may_panic" where
  "handle_begin_handshake C epoch uuid_show self tag u seeds tx c =
     (case rcl_state c of
        Some (ClientConnected conn) \<Rightarrow>
          (case conn_handshake conn of
             HandshakeAcknowledged _ \<Rightarrow> Inr (c, [AnswerHandshake tx])
           | HandshakePending \<Rightarrow> Inr (c\<lparr>rcl_handshake_acks := rcl_handshake_acks c @ [(u, tx)]\<rparr>, [])
           | HandshakeNone \<Rightarrow>
               (case session_event_write C (SEHandshake (handshake_message epoch uuid_show self tag (rcl_type c) u seeds)) of
                  None \<Rightarrow> Inl (Panic ''called unwrap on a None value'')
                | Some b \<Rightarrow>
                    (case stream_write b (conn\<lparr>conn_handshake := HandshakePending\<rparr>) of
                       (Inl _, _, _) \<Rightarrow> Inl (Panic ''write handshake'')
                     | (Inr _, conn', effs) \<Rightarrow>
                         Inr (c\<lparr>rcl_state := Some (ClientConnected conn'),
                                rcl_handshake_acks := rcl_handshake_acks c @ [(u, tx)]\<rparr>, effs))))
      | _ \<Rightarrow> Inr (c, []))"

definition handle_handshake_ack :: "handshake_ack \<Rightarrow> remote_client \<Rightarrow> remote_client \<times> client_effect list" where
  "handle_handshake_ack a c =
     (case rcl_state c of
        Some (ClientConnected conn) \<Rightarrow>
          (c\<lparr>rcl_state := Some (ClientConnected (conn\<lparr>conn_handshake := HandshakeAcknowledged a\<rparr>)), rcl_handshake_acks := []\<rparr>,
           map (\<lambda>(_, tx). AnswerHandshake tx) (rev (rcl_handshake_acks c)))
      | _ \<Rightarrow> (c, []))"

definition handshake_max_attempts :: nat where
  "handshake_max_attempts = 5"

text \<open>The caller's loop over the results of its attempts; only a timeout is tried again.\<close>

fun handshake_loop :: "nat \<Rightarrow> (nat \<Rightarrow> actor_ref_err + unit) \<Rightarrow> nat \<Rightarrow> u64 \<Rightarrow> actor_ref_err + unit" where
  "handshake_loop 0 attempt k elapsed = Inl (Timeout elapsed)"
| "handshake_loop (Suc n) attempt k elapsed =
     (case attempt k of
        Inl (Timeout _) \<Rightarrow> handshake_loop n attempt (k + 1) elapsed
      | r \<Rightarrow> r)"

definition client_handshake :: "(nat \<Rightarrow> actor_ref_err + unit) \<Rightarrow> u64 \<Rightarrow> actor_ref_err + unit" where
  "client_handshake attempt elapsed = handshake_loop handshake_max_attempts attempt 0 elapsed"

text \<open>What the caller gets of a channel within its time: \<open>None\<close> when the time is over.\<close>

definition await_timeout :: "'t option option \<Rightarrow> u64 \<Rightarrow> actor_ref_err + 't" where
  "await_timeout rx taken =
     (case rx of
        Some (Some t) \<Rightarrow> Inr t
      | Some None \<Rightarrow> Inl ResultChannelClosed
      | None \<Rightarrow> Inl (Timeout taken))"

section \<open>Pings\<close>

definition ping_outcome ::
  "(bytes \<Rightarrow> 'err + string) \<Rightarrow> nat \<Rightarrow> time \<Rightarrow> remote_response option option \<Rightarrow> ping_result may_panic" where
  "ping_outcome pong_parse latency now rx =
     (case rx of
        None \<Rightarrow> Inr PingTimeout
      | Some None \<Rightarrow> Inr PingErr
      | Some (Some (RemoteErr _)) \<Rightarrow> Inr PingErr
      | Some (Some (RemoteOk b)) \<Rightarrow>
          (case pong_parse b of
             Inr p \<Rightarrow> Inr (PingOk p latency now)
           | Inl _ \<Rightarrow> Inl (Panic ''called unwrap on an Err value'')))"

definition handle_ping_tick ::
  "'err net_codec \<Rightarrow> (uuid \<Rightarrow> string) \<Rightarrow> node_id \<Rightarrow> uuid \<Rightarrow> sender \<Rightarrow> remote_client \<Rightarrow> remote_handler \<Rightarrow>
   (remote_client \<times> remote_handler \<times> client_effect list) may_panic" where
  "handle_ping_tick C uuid_show self u tx c tb =
     (case rcl_state c of
        None \<Rightarrow> Inr (c, tb, [])
      | Some (ClientConnected conn) \<Rightarrow>
          (let peer = node_id (ni_node (conn_identity conn));
               ev = session_event_write C (SEPing \<lparr>ping_message_id = uuid_show u, ping_node_id = self,
                                                   ping_system_terminated = False\<rparr>)
           in map_sum id
                (\<lambda>(c', effs, res). (c', push_request u tx tb,
                    effs @ (case res of Inr _ \<Rightarrow> [AwaitPong u peer] | Inl _ \<Rightarrow> [])))
                (client_write_event ev c))
      | Some _ \<Rightarrow>
          Inr (c\<lparr>rcl_ping_timer := False\<rparr>, tb,
               (case rcl_node_id c of Some n \<Rightarrow> [TellPing n PingDisconnected] | None \<Rightarrow> []) @ [ForgetAddr (rcl_addr c)]))"

definition client_stopped :: "bool \<Rightarrow> remote_client \<Rightarrow> remote_client \<times> client_effect list" where
  "client_stopped system_terminated c =
     (c\<lparr>rcl_ping_timer := False\<rparr>,
      (case rcl_state c of
         Some (ClientConnected _) \<Rightarrow> if system_terminated then [NotifyTerminating] else []
       | _ \<Rightarrow> []))"

section \<open>Runs of a client\<close>

text \<open>
  The messages of a client: everything it handles between its start and its stop. What it takes from its system is
  \<open>client_env\<close>: the codec, the node's id and tag and how identifiers are shown; a ping also puts a request into the
  node's table. A message to be written that cannot be encoded is \<open>InWrite None\<close>.
\<close>

record 'err client_env =
  ce_codec :: "'err net_codec"
  ce_epoch :: time
  ce_uuid_show :: "uuid \<Rightarrow> string"
  ce_node_id :: node_id
  ce_node_tag :: string

datatype client_input =
    InWrite "bytes option"
  | InConnect connect_outcome
  | InDisconnected
  | InIdentify sender
  | InBeginHandshake uuid "remote_node list" sender
  | InHandshakeAck handshake_ack
  | InPingTick uuid sender

fun client_step ::
  "'err client_env \<Rightarrow> client_input \<Rightarrow> remote_client \<times> remote_handler \<Rightarrow>
   ((remote_client \<times> remote_handler) \<times> client_effect list) may_panic" where
  "client_step E (InWrite b) (c, tb) = map_sum id (\<lambda>(c', effs, _). ((c', tb), effs)) (client_write_event b c)"
| "client_step E (InConnect o') (c, tb) = map_sum id (\<lambda>(c', effs). ((c', tb), effs)) (handle_connect o' c)"
| "client_step E InDisconnected (c, tb) = map_sum id (\<lambda>(c', effs). ((c', tb), effs)) (handle_disconnected c)"
| "client_step E (InIdentify tx) (c, tb) = (let (c', effs) = handle_identify tx c in Inr ((c', tb), effs))"
| "client_step E (InBeginHandshake u seeds tx) (c, tb) =
     map_sum id (\<lambda>(c', effs). ((c', tb), effs))
       (handle_begin_handshake (ce_codec E) (ce_epoch E) (ce_uuid_show E) (ce_node_id E) (ce_node_tag E) u seeds tx c)"
| "client_step E (InHandshakeAck a) (c, tb) = (let (c', effs) = handle_handshake_ack a c in Inr ((c', tb), effs))"
| "client_step E (InPingTick u tx) (c, tb) =
     map_sum id (\<lambda>(c', tb', effs). ((c', tb'), effs)) (handle_ping_tick (ce_codec E) (ce_uuid_show E) (ce_node_id E) u tx c tb)"

text \<open>
  What a client is to write with a message: the message of a write, the handshake of a connection that has begun none,
  the ping of a tick while it is connected.
\<close>

definition handshake_frame :: "'err client_env \<Rightarrow> uuid \<Rightarrow> remote_node list \<Rightarrow> remote_client \<Rightarrow> bytes option" where
  "handshake_frame E u seeds c =
     session_event_write (ce_codec E)
       (SEHandshake (handshake_message (ce_epoch E) (ce_uuid_show E) (ce_node_id E) (ce_node_tag E) (rcl_type c) u seeds))"

definition ping_frame :: "'err client_env \<Rightarrow> uuid \<Rightarrow> bytes option" where
  "ping_frame E u =
     session_event_write (ce_codec E)
       (SEPing \<lparr>ping_message_id = ce_uuid_show E u, ping_node_id = ce_node_id E, ping_system_terminated = False\<rparr>)"

definition unshaken :: "remote_client \<Rightarrow> connection_state \<Rightarrow> bool" where
  "unshaken c conn \<longleftrightarrow> rcl_state c = Some (ClientConnected conn) \<and> conn_handshake conn = HandshakeNone"

definition written :: "'err client_env \<Rightarrow> client_input \<Rightarrow> remote_client \<times> remote_handler \<Rightarrow> bytes list" where
  "written E i s =
     (case i of
        InWrite b \<Rightarrow> (case b of Some b \<Rightarrow> [b] | None \<Rightarrow> [])
      | InBeginHandshake u seeds tx \<Rightarrow>
          (case rcl_state (fst s) of
             Some (ClientConnected conn) \<Rightarrow>
               (if conn_handshake conn = HandshakeNone
                then (case handshake_frame E u seeds (fst s) of Some b \<Rightarrow> [b] | None \<Rightarrow> []) else [])
           | _ \<Rightarrow> [])
      | InPingTick u tx \<Rightarrow>
          (case rcl_state (fst s) of
             Some (ClientConnected _) \<Rightarrow> (case ping_frame E u of Some b \<Rightarrow> [b] | None \<Rightarrow> [])
           | _ \<Rightarrow> [])
      | _ \<Rightarrow> [])"

text \<open>The one way to panic: to begin a handshake on a stream that has failed, or one that cannot be encoded.\<close>

definition client_panics :: "'err client_env \<Rightarrow> client_input \<Rightarrow> remote_client \<times> remote_handler \<Rightarrow> bool" where
  "client_panics E i s \<longleftrightarrow>
     (\<exists>u seeds tx conn. i = InBeginHandshake u seeds tx \<and> unshaken (fst s) conn \<and>
        (conn_accepts conn = Some 0 \<or> handshake_frame E u seeds (fst s) = None))"

fun frames :: "client_effect \<Rightarrow> bytes list" where
  "frames (WriteFrame b) = [b]"
| "frames _ = []"

text \<open>
  The counter of buffered bytes is exact, the state is never taken away, and a connection with messages
  left in the buffer is one whose stream has failed.
\<close>

definition client_wf :: "remote_client \<Rightarrow> bool" where
  "client_wf c \<longleftrightarrow>
     rcl_buffer_total c = sum_list (map length (rcl_write_buffer c)) \<and>
     (case rcl_state c of
        None \<Rightarrow> False
      | Some (ClientConnected conn) \<Rightarrow> rcl_write_buffer c = [] \<or> conn_accepts conn = Some 0
      | Some _ \<Rightarrow> True)"

definition client_live :: "remote_client \<Rightarrow> bool" where
  "client_live c \<longleftrightarrow> rcl_state c \<noteq> Some ClientTerminated"

lemma stream_write_cases:
  obtains "conn_accepts conn = Some 0" "stream_write b conn = (Inl ClientStreamErr, conn, [])"
  | conn' where "conn_accepts conn \<noteq> Some 0" "stream_write b conn = (Inr (), conn', [WriteFrame b])"
proof (cases "conn_accepts conn")
  case (Some n)
  then show ?thesis using that by (cases n) (auto simp: stream_write_def)
qed (use that in \<open>auto simp: stream_write_def\<close>)

lemma flush_loop_ok:
  assumes "tot = sum_list (map length bs)"
  shows "\<exists>bs' tot' conn' effs. flush_loop bs tot conn = Inr (bs', tot', conn', effs) \<and>
    concat (map frames effs) @ bs' = bs \<and> tot' = sum_list (map length bs') \<and>
    (bs' = [] \<or> conn_accepts conn' = Some 0) \<and> StopClient \<notin> set effs"
  using assms
proof (induction bs arbitrary: tot conn)
  case (Cons b bs)
  show ?case
  proof (cases rule: stream_write_cases [of conn b])
    case 1
    then show ?thesis using Cons.prems by simp
  next
    case (2 conn')
    have "sub_total tot (length b) = Inr (sum_list (map length bs))"
      using Cons.prems by (simp add: sub_total_def)
    moreover obtain bs' tot' conn'' effs where
      "flush_loop bs (sum_list (map length bs)) conn' = Inr (bs', tot', conn'', effs)"
      "concat (map frames effs) @ bs' = bs" "tot' = sum_list (map length bs')"
      "bs' = [] \<or> conn_accepts conn'' = Some 0" "StopClient \<notin> set effs"
      using Cons.IH [OF refl, of conn'] by blast
    ultimately show ?thesis using 2 by (auto simp:)
  qed
qed simp

lemma handle_disconnected_ok:
  assumes "rcl_state c = Some st" "rcl_buffer_total c = sum_list (map length (rcl_write_buffer c))"
  shows "\<exists>c' effs. handle_disconnected c = Inr (c', effs) \<and> client_wf c' \<and> concat (map frames effs) = [] \<and>
    rcl_write_buffer c' = rcl_write_buffer c \<and> (st \<noteq> ClientTerminated \<longrightarrow> StopClient \<notin> set effs \<longrightarrow> client_live c')"
  using assms
  by (cases st) (auto simp: handle_disconnected_def client_wf_def client_live_def)

lemma identified_answers_quiet:
  "concat (map frames (identified_answers i c)) = []" "StopClient \<notin> set (identified_answers i c)"
  by (auto simp: identified_answers_def)

lemma handle_connect_ok:
  assumes "client_wf c"
  shows "\<exists>c' effs. handle_connect outcome c = Inr (c', effs) \<and> client_wf c' \<and>
    (client_live c \<longrightarrow> StopClient \<notin> set effs \<longrightarrow>
      client_live c' \<and> concat (map frames effs) @ rcl_write_buffer c' = rcl_write_buffer c)"
proof (cases "\<exists>conn. rcl_state c = Some (ClientConnected conn)")
  case True
  then show ?thesis using assms by (auto simp: handle_connect_def is_connected_def)
next
  case False
  then have idle: "\<not> (case rcl_state c of Some st \<Rightarrow> is_connected st | None \<Rightarrow> False)"
    by (auto simp: is_connected_def split: option.splits client_state.splits)
  have tot: "rcl_buffer_total c = sum_list (map length (rcl_write_buffer c))"
    using assms by (simp add: client_wf_def)
  obtain st where st: "rcl_state c = Some st" using assms by (auto simp: client_wf_def split: option.splits)
  show ?thesis
  proof (cases "\<exists>conn. outcome = ConnectedTo conn")
    case True
    then obtain conn where o: "outcome = ConnectedTo conn" by blast
    obtain bs' tot' conn' effs where f:
      "flush_loop (rcl_write_buffer c) (rcl_buffer_total c) conn = Inr (bs', tot', conn', effs)"
      "concat (map frames effs) @ bs' = rcl_write_buffer c" "tot' = sum_list (map length bs')"
      "bs' = [] \<or> conn_accepts conn' = Some 0" "StopClient \<notin> set effs"
      using flush_loop_ok [OF tot] by blast
    then show ?thesis
      using o idle identified_answers_quiet [of "Some (conn_identity conn)" c]
      by (auto simp: handle_connect_def Let_def flush_buffered_writes_def client_wf_def client_live_def)
  next
    case False
    let ?c = "c\<lparr>rcl_identified := [], rcl_ping_timer := rcl_ping_timer c \<or> outcome = NoIdentity\<rparr>"
    obtain c' effs where d: "handle_disconnected ?c = Inr (c', effs)" "client_wf c'" "concat (map frames effs) = []"
      "rcl_write_buffer c' = rcl_write_buffer c" "st \<noteq> ClientTerminated \<longrightarrow> StopClient \<notin> set effs \<longrightarrow> client_live c'"
      using handle_disconnected_ok [of ?c st] st tot by auto
    then show ?thesis
      using False idle identified_answers_quiet [of None c] st
      by (cases outcome) (auto simp: handle_connect_def client_live_def)
  qed
qed

lemma client_write_ok:
  assumes "client_wf c"
  shows "\<exists>c' effs r. client_write_event (Some b) c = Inr (c', effs, r) \<and> client_wf c' \<and>
    (client_live c \<longrightarrow> StopClient \<notin> set effs \<longrightarrow>
      client_live c' \<and> concat (map frames effs) @ rcl_write_buffer c' = rcl_write_buffer c @ [b])"
proof -
  obtain st where st: "rcl_state c = Some st" and tot: "rcl_buffer_total c = sum_list (map length (rcl_write_buffer c))"
    using assms by (auto simp: client_wf_def split: option.splits)
  show ?thesis
  proof (cases st)
    case (ClientIdle n)
    then show ?thesis using st tot
      by (simp add: client_write_event_def buffer_message_def client_wf_def client_live_def)
  next
    case ClientTerminated
    then show ?thesis using st handle_disconnected_ok [OF st tot]
      by (auto simp: client_write_event_def client_live_def)
  next
    case (ClientConnected conn)
    show ?thesis
    proof (cases rule: stream_write_cases [of conn b])
      case 1
      let ?c = "buffer_message b (c\<lparr>rcl_state := Some (ClientConnected conn)\<rparr>)"
      have "rcl_state ?c = Some (ClientConnected conn)" "rcl_buffer_total ?c = sum_list (map length (rcl_write_buffer ?c))"
        using tot by (simp_all add: buffer_message_def)
      from handle_disconnected_ok [OF this] show ?thesis
        using 1 st ClientConnected by (auto simp: client_write_event_def buffer_message_def)
    next
      case (2 conn')
      then have "rcl_write_buffer c = []"
        using assms st ClientConnected by (auto simp: client_wf_def)
      then show ?thesis
        using 2 st ClientConnected tot by (simp add: client_write_event_def client_wf_def client_live_def)
    qed
  qed
qed

lemma client_write_opt:
  assumes "client_wf c"
  shows "\<exists>c' effs r. client_write_event bo c = Inr (c', effs, r) \<and> client_wf c' \<and>
    (client_live c \<longrightarrow> StopClient \<notin> set effs \<longrightarrow>
      client_live c' \<and> concat (map frames effs) @ rcl_write_buffer c' =
        rcl_write_buffer c @ (case bo of Some b \<Rightarrow> [b] | None \<Rightarrow> []))"
  using client_write_ok [OF assms] assms by (cases bo) (simp_all add: client_write_event_def)

lemma begin_handshake_ok:
  assumes "client_wf c" "\<not> client_panics E (InBeginHandshake u seeds tx) (c, tb)"
  shows "\<exists>c' effs. client_step E (InBeginHandshake u seeds tx) (c, tb) = Inr ((c', tb), effs) \<and> client_wf c' \<and>
    (client_live c \<longrightarrow> client_live c') \<and> StopClient \<notin> set effs \<and>
    concat (map frames effs) @ rcl_write_buffer c' = rcl_write_buffer c @ written E (InBeginHandshake u seeds tx) (c, tb)"
proof (cases "\<exists>conn. unshaken c conn")
  case True
  then obtain conn where conn: "rcl_state c = Some (ClientConnected conn)" "conn_handshake conn = HandshakeNone"
    by (auto simp: unshaken_def)
  with assms(2) obtain b where b: "handshake_frame E u seeds c = Some b" "conn_accepts conn \<noteq> Some 0"
    by (auto simp: client_panics_def unshaken_def)
  then have empty: "rcl_write_buffer c = []" using assms(1) conn(1) by (simp add: client_wf_def)
  obtain conn' where "stream_write b (conn\<lparr>conn_handshake := HandshakePending\<rparr>) = (Inr (), conn', [WriteFrame b])"
    using stream_write_cases [of "conn\<lparr>conn_handshake := HandshakePending\<rparr>" b] b(2) by auto
  then show ?thesis
    using conn b(1) empty assms(1)
    by (simp add: handle_begin_handshake_def handshake_frame_def written_def client_wf_def client_live_def)
next
  case False
  then show ?thesis
    using assms(1)
    by (cases "rcl_state c")
       (auto simp: handle_begin_handshake_def written_def unshaken_def client_wf_def client_live_def
         split: client_state.splits handshake_status.splits)
qed

lemma ping_tick_ok:
  assumes "client_wf c"
  shows "\<exists>c' tb' effs. client_step E (InPingTick u tx) (c, tb) = Inr ((c', tb'), effs) \<and> client_wf c' \<and>
    (client_live c \<longrightarrow> StopClient \<notin> set effs \<longrightarrow>
      client_live c' \<and> concat (map frames effs) @ rcl_write_buffer c' = rcl_write_buffer c @ written E (InPingTick u tx) (c, tb))"
proof (cases "\<exists>conn. rcl_state c = Some (ClientConnected conn)")
  case True
  then obtain conn where conn: "rcl_state c = Some (ClientConnected conn)" by blast
  obtain c' effs r where "client_write_event (ping_frame E u) c = Inr (c', effs, r)" "client_wf c'"
    "client_live c \<longrightarrow> StopClient \<notin> set effs \<longrightarrow> client_live c' \<and> concat (map frames effs) @ rcl_write_buffer c' =
        rcl_write_buffer c @ (case ping_frame E u of Some b \<Rightarrow> [b] | None \<Rightarrow> [])"
    using client_write_opt [OF assms] by blast
  then show ?thesis
    using conn by (cases r) (auto simp: handle_ping_tick_def ping_frame_def written_def Let_def)
next
  case False
  then show ?thesis
    using assms
    by (cases "rcl_state c") (auto simp: handle_ping_tick_def written_def client_wf_def client_live_def
      split: client_state.splits option.splits)
qed

lemma client_step_ok:
  assumes "client_wf (fst s)" "\<not> client_panics E i s"
  shows "\<exists>s' acts. client_step E i s = Inr (s', acts) \<and> client_wf (fst s') \<and>
    (client_live (fst s) \<longrightarrow> (\<forall>a \<in> set acts. a \<noteq> StopClient) \<longrightarrow>
      client_live (fst s') \<and> concat (map frames acts) @ rcl_write_buffer (fst s') = rcl_write_buffer (fst s) @ written E i s)"
proof -
  obtain c tb where s: "s = (c, tb)" by (cases s)
  have wf: "client_wf c" using assms(1) s by simp
  obtain st where st: "rcl_state c = Some st" and tot: "rcl_buffer_total c = sum_list (map length (rcl_write_buffer c))"
    using wf by (auto simp: client_wf_def split: option.splits)
  show ?thesis
  proof (cases i)
    case (InWrite b)
    then show ?thesis using client_write_opt [OF wf, of b] s by (fastforce simp: written_def)
  next
    case (InConnect o')
    then show ?thesis using handle_connect_ok [OF wf, of o'] s by (fastforce simp: written_def)
  next
    case InDisconnected
    then show ?thesis using handle_disconnected_ok [OF st tot] st s by (fastforce simp: client_live_def written_def)
  next
    case (InIdentify tx)
    then show ?thesis using wf st s
      by (cases st) (auto simp: handle_identify_def client_wf_def client_live_def written_def)
  next
    case (InBeginHandshake u seeds tx)
    then show ?thesis using begin_handshake_ok [of c E u seeds tx tb] wf assms(2) s by fastforce
  next
    case (InHandshakeAck a)
    have "concat (map frames (map (\<lambda>(_, tx). AnswerHandshake tx) xs)) = []" for xs :: "(uuid \<times> sender) list"
      by auto
    then show ?thesis using wf st s InHandshakeAck
      by (cases st) (auto simp: handle_handshake_ack_def client_wf_def client_live_def written_def)
  next
    case (InPingTick u tx)
    then show ?thesis using ping_tick_ok [OF wf, of E u tx tb] s by fastforce
  qed
qed

interpretation client: conduit "client_step E" "\<lambda>_. True" "client_panics E" "written E" "\<lambda>s. rcl_write_buffer (fst s)"
  frames "\<lambda>e. e = StopClient" "\<lambda>s. client_wf (fst s)" "\<lambda>s. client_live (fst s)" for E
proof unfold_locales
  fix s :: "remote_client \<times> remote_handler" and i
  assume wf: "client_wf (fst s)"
  show "client_panics E i s" if "client_step E i s = Inl p" for p
    using client_step_ok [OF wf, of E i] that by auto
  show "client_wf (fst s') \<and> (client_live (fst s) \<longrightarrow> (\<forall>a \<in> set acts. a \<noteq> StopClient) \<longrightarrow>
      client_live (fst s') \<and> concat (map frames acts) @ rcl_write_buffer (fst s') = rcl_write_buffer (fst s) @ written E i s)"
    if r: "client_step E i s = Inr (s', acts)" for s' acts
  proof -
    have "\<not> client_panics E i s"
      using r by (cases s) (auto simp: client_panics_def unshaken_def handshake_frame_def handle_begin_handshake_def
          stream_write_def split: option.splits)
    from client_step_ok [OF wf this] r show ?thesis by auto
  qed
qed






text \<open>A handshake on a connection that has been lost without notice panics the client, where a write would make it
  reconnect.\<close>

lemma handshake_on_lost_stream_panics:
  assumes "unshaken c conn" "conn_accepts conn = Some 0" "handshake_frame E u seeds c = Some b"
  shows "client_step E (InBeginHandshake u seeds tx) (c, tb) = Inl (Panic ''write handshake'')"
    and "\<exists>c'. client_step E (InWrite (Some m)) (c, tb) = Inr ((c', tb), [ScheduleConnect]) \<and>
           rcl_write_buffer c' = rcl_write_buffer c @ [m]"
  using assms
  by (simp_all add: unshaken_def handshake_frame_def handle_begin_handshake_def stream_write_def client_write_event_def
      handle_disconnected_def buffer_message_def)

section \<open>Giving up\<close>

lemma connect_failed_idle:
  assumes "rcl_state c = Some (ClientIdle k)" "rcl_identified c = []" "k < max_connection_attempts"
  shows "client_step E (InConnect ConnectFailed) (c, tb) = Inr ((c\<lparr>rcl_state := Some (ClientIdle (k + 1))\<rparr>, tb), [ScheduleConnect])"
  using assms
  by (simp add: handle_connect_def is_connected_def handle_disconnected_def identified_answers_def Let_def)

lemma run_connect_fails:
  assumes "rcl_state c = Some (ClientIdle k)" "rcl_identified c = []" "k + n \<le> max_connection_attempts"
  shows "\<exists>tr. run_inputs (client_step E) (replicate n (InConnect ConnectFailed)) (c, tb) =
      Inr ((c\<lparr>rcl_state := Some (ClientIdle (k + n))\<rparr>, tb), tr) \<and> effects tr = replicate n ScheduleConnect"
  using assms
proof (induction n arbitrary: c k)
  case 0
  then show ?case by (simp add: remote_client.equality)
next
  case (Suc n)
  let ?c = "c\<lparr>rcl_state := Some (ClientIdle (k + 1))\<rparr>"
  have "client_step E (InConnect ConnectFailed) (c, tb) = Inr ((?c, tb), [ScheduleConnect])"
    using Suc.prems by (intro connect_failed_idle) auto
  moreover obtain tr where "run_inputs (client_step E) (replicate n (InConnect ConnectFailed)) (?c, tb) =
      Inr ((?c\<lparr>rcl_state := Some (ClientIdle (k + 1 + n))\<rparr>, tb), tr)" "effects tr = replicate n ScheduleConnect"
    using Suc.IH [of ?c "k + 1"] Suc.prems by auto
  ultimately show ?case by simp
qed

text \<open>A client that never reaches its node tries exactly eleven times: ten failures schedule another
  attempt, the eleventh takes the client out of the registry and stops it. A message written to it from
  then on is reported as written and lost.\<close>

theorem client_gives_up:
  "\<exists>tr c'. run_inputs (client_step E) (replicate 11 (InConnect ConnectFailed)) (remote_client_new addr ty, tb) = Inr ((c', tb), tr) \<and>
     effects tr = replicate 10 ScheduleConnect @ [TellRemoved addr None, StopClient] \<and>
     rcl_state c' = Some ClientTerminated \<and>
     client_write_event (Some b) c' = Inr (c', [ScheduleConnect], Inr ())"
proof -
  let ?c = "remote_client_new addr ty"
  let ?d = "?c\<lparr>rcl_state := Some (ClientIdle 10)\<rparr>"
  let ?e = "?c\<lparr>rcl_state := Some ClientTerminated\<rparr>"
  obtain tr where r: "run_inputs (client_step E) (replicate 10 (InConnect ConnectFailed)) (?c, tb) = Inr ((?d, tb), tr)"
    "effects tr = replicate 10 ScheduleConnect"
    using run_connect_fails [of ?c 0 10 E tb] by (auto simp: remote_client_new_def max_connection_attempts_def)
  have s: "client_step E (InConnect ConnectFailed) (?d, tb) = Inr ((?e, tb), [TellRemoved addr None, StopClient])"
    by (simp add: handle_connect_def is_connected_def handle_disconnected_def identified_answers_def Let_def
        max_connection_attempts_def remote_client_new_def)
  have w: "client_write_event (Some b) ?e = Inr (?e, [ScheduleConnect], Inr ())"
    by (simp add: client_write_event_def handle_disconnected_def Let_def remote_client_new_def)
  have "replicate 11 (InConnect ConnectFailed) = replicate 10 (InConnect ConnectFailed) @ [InConnect ConnectFailed]"
    using replicate_add [of 10 1 "InConnect ConnectFailed"] by simp
  then show ?thesis
    using run_inputs_snoc [OF r(1) s] r(2) w by auto
qed

end
