(* ===== verification/Discovery.thy ===== *)
theory Discovery
  imports Remote_Client
begin

text \<open>
  Discovery of the nodes of a cluster: \<open>remote/cluster/discovery/mod.rs\<close>. A seed is an address or a list
  of nodes; each node that is not yet known is registered and shaken hands with.

  \<open>identify\<close> is what the client of an address answers within its time, \<open>None\<close> when there is no client or
  no answer; \<open>reachable\<close> says for which addresses a client is created. The registry of the node is passed
  along.
\<close>

section \<open>State\<close>

record discovery =
  dsc_discovering :: "node_id list"
  dsc_by_addr :: "(string, node_identity) hash_map"
  dsc_by_id :: "(node_id, node_identity) hash_map"
  dsc_remote :: "node_id option"

definition discovery_default :: discovery where
  "discovery_default = \<lparr>dsc_discovering = [], dsc_by_addr = [], dsc_by_id = [], dsc_remote = None\<rparr>"

definition discovery_set_remote :: "node_id \<Rightarrow> discovery \<Rightarrow> discovery" where
  "discovery_set_remote self d = d\<lparr>dsc_remote := Some self\<rparr>"

datatype discovery_effect =
    AnswerDiscovery sender bool
  | NotifyDiscoverNodes "remote_node list" "sender option"
  | SpawnNodeHandshake remote_node "remote_node list"
  | AwaitHandshakes "sender option"
  | PublishEvent cluster_event

section \<open>Identities\<close>

definition get_node_identity ::
  "(string \<Rightarrow> node_identity option) \<Rightarrow> string \<Rightarrow> discovery \<Rightarrow> node_identity option \<times> discovery" where
  "get_node_identity identify addr d =
     (case hm_get (dsc_by_addr d) addr of
        Some i \<Rightarrow> (Some i, d)
      | None \<Rightarrow>
          (case identify addr of
             None \<Rightarrow> (None, d)
           | Some i \<Rightarrow>
               (let remote_addr = node_addr (ni_node i);
                    by_addr = (if addr \<noteq> remote_addr then hm_insert addr i (dsc_by_addr d) else dsc_by_addr d)
                in (Some i, d\<lparr>dsc_by_addr := hm_insert remote_addr i by_addr,
                              dsc_by_id := hm_insert (node_id (ni_node i)) i (dsc_by_id d)\<rparr>))))"

fun discover_nodes ::
  "(string \<Rightarrow> node_identity option) \<Rightarrow> node_id \<Rightarrow> remote_node list \<Rightarrow> (node_id, node_identity) hash_map \<Rightarrow> discovery \<Rightarrow>
   (node_id, node_identity) hash_map \<times> discovery" where
  "discover_nodes identify self [] found d = (found, d)"
| "discover_nodes identify self (n # ns) found d =
     (if node_id n = self \<or> hm_get found (node_id n) \<noteq> None then discover_nodes identify self ns found d
      else
        (case get_node_identity identify (node_addr n) d of
           (Some i, d') \<Rightarrow> discover_nodes identify self ns (hm_insert (node_id n) i found) d'
         | (None, d') \<Rightarrow> discover_nodes identify self ns found d'))"

fun discover_peers ::
  "(string \<Rightarrow> node_identity option) \<Rightarrow> node_id \<Rightarrow> node_identity list \<Rightarrow> (node_id, node_identity) hash_map \<Rightarrow> discovery \<Rightarrow>
   (node_id, node_identity) hash_map \<times> discovery" where
  "discover_peers identify self [] found d = (found, d)"
| "discover_peers identify self (i # is) found d =
     (let (found', d') = discover_nodes identify self (ni_peers i) found d
      in discover_peers identify self is found' d')"

definition discover_addr ::
  "(string \<Rightarrow> node_identity option) \<Rightarrow> string \<Rightarrow> sender option \<Rightarrow> discovery \<Rightarrow> (discovery \<times> discovery_effect list) may_panic" where
  "discover_addr identify addr tx d =
     (case dsc_remote d of
        None \<Rightarrow> Inl (Panic ''called unwrap on a None value'')
      | Some self \<Rightarrow>
          if hm_get (dsc_by_addr d) addr \<noteq> None
          then Inr (d, case tx of Some t \<Rightarrow> [AnswerDiscovery t True] | None \<Rightarrow> [])
          else
            (case get_node_identity identify addr d of
               (None, d') \<Rightarrow> Inr (d', case tx of Some t \<Rightarrow> [AnswerDiscovery t False] | None \<Rightarrow> [])
             | (Some seed, d1) \<Rightarrow>
                 (let (found, d2) = discover_nodes identify self (ni_peers seed) [(node_id (ni_node seed), seed)] d1;
                      (found', d3) = (if length found > 1 then discover_peers identify self (hm_values found) found d2
                                      else (found, d2))
                  in Inr (d3, [NotifyDiscoverNodes (map ni_node (hm_values found')) tx]))))"

section \<open>Handshakes\<close>

definition live_nodes :: "'ring remote_registry \<Rightarrow> remote_node_state list" where
  "live_nodes reg = filter (\<lambda>n. node_status n \<noteq> NodeTerminated) (registry_get_nodes reg)"

fun discover_each ::
  "'ring hash_ring \<Rightarrow> (string \<Rightarrow> bool) \<Rightarrow> node_id list \<Rightarrow> remote_node list \<Rightarrow> discovery \<Rightarrow> 'ring remote_registry \<Rightarrow>
   discovery \<times> 'ring remote_registry \<times> discovery_effect list" where
  "discover_each ring reachable current [] d reg = (d, reg, [])"
| "discover_each ring reachable current (n # ns) d reg =
     (if node_id n \<notin> set current \<and> node_id n \<notin> set (dsc_discovering d) \<and> reachable (node_addr n) then
        (let reg1 = registry_register_node ring n reg;
             d1 = d\<lparr>dsc_discovering := hs_insert (node_id n) (dsc_discovering d)\<rparr>;
             (d2, reg2, effs) = discover_each ring reachable current ns d1 reg1
         in (d2, reg2, SpawnNodeHandshake n (map remote_node_from_state (live_nodes reg1)) # effs))
      else discover_each ring reachable current ns d reg)"

definition discover_listed ::
  "'ring hash_ring \<Rightarrow> (string \<Rightarrow> bool) \<Rightarrow> remote_node list \<Rightarrow> sender option \<Rightarrow> discovery \<Rightarrow> 'ring remote_registry \<Rightarrow>
   (discovery \<times> 'ring remote_registry \<times> discovery_effect list) may_panic" where
  "discover_listed ring reachable ns tx d reg =
     (case dsc_remote d of
        None \<Rightarrow> Inl (Panic ''called unwrap on a None value'')
      | Some _ \<Rightarrow>
          (let (d', reg', effs) = discover_each ring reachable (map state_id (live_nodes reg)) ns d reg
           in Inr (d', reg', effs @ [AwaitHandshakes tx])))"

text \<open>The task that waits for all handshakes answers its caller; each handshake reports its node.\<close>

definition handshakes_done :: "sender option \<Rightarrow> discovery_effect list" where
  "handshakes_done tx = (case tx of Some t \<Rightarrow> [AnswerDiscovery t True] | None \<Rightarrow> [])"

definition node_handshake :: "remote_node \<Rightarrow> actor_ref_err + unit \<Rightarrow> remote_node \<times> bool" where
  "node_handshake n res = (n, case res of Inr _ \<Rightarrow> True | Inl _ \<Rightarrow> False)"

definition handle_node_discovered ::
  "remote_node \<times> bool \<Rightarrow> discovery \<Rightarrow> (discovery \<times> discovery_effect list) may_panic" where
  "handle_node_discovered m d =
     (case dsc_remote d of
        None \<Rightarrow> Inl (Panic ''called unwrap on a None value'')
      | Some _ \<Rightarrow>
          Inr (if snd m then
                 (d\<lparr>dsc_discovering := hs_remove (node_id (fst m)) (dsc_discovering d)\<rparr>,
                  if node_id (fst m) \<in> set (dsc_discovering d) then [PublishEvent (NodeAdded (fst m))] else [])
               else (d, [])))"

definition handle_forget :: "string \<Rightarrow> discovery \<Rightarrow> discovery \<times> discovery_effect list" where
  "handle_forget addr d =
     (case hm_get (dsc_by_addr d) addr of
        None \<Rightarrow> (d, [])
      | Some i \<Rightarrow>
          (let nid = node_id (ni_node i)
           in (d\<lparr>dsc_by_addr := hm_remove addr (dsc_by_addr d), dsc_by_id := hm_remove nid (dsc_by_id d)\<rparr>,
               (case (hm_get (dsc_by_id d) nid, dsc_remote d) of
                  (Some j, Some _) \<Rightarrow> [PublishEvent (NodeRemoved (ni_node j))]
                | _ \<Rightarrow> []))))"

section \<open>One handshake per node\<close>

fun handshakes :: "discovery_effect list \<Rightarrow> node_id list" where
  "handshakes [] = []"
| "handshakes (SpawnNodeHandshake n _ # es) = node_id n # handshakes es"
| "handshakes (_ # es) = handshakes es"

lemma handshakes_append [simp]: "handshakes (xs @ ys) = handshakes xs @ handshakes ys"
  by (induction xs rule: handshakes.induct) simp_all

lemma discover_each_handshakes:
  "discover_each ring reachable current ns d reg = (d', reg', effs) \<Longrightarrow>
   distinct (handshakes effs) \<and> set (handshakes effs) \<inter> (set current \<union> set (dsc_discovering d)) = {} \<and>
   set (dsc_discovering d') = set (dsc_discovering d) \<union> set (handshakes effs) \<and>
   set (handshakes effs) = node_id ` {n \<in> set ns. reachable (node_addr n)} - set current - set (dsc_discovering d) \<and>
   dsc_remote d' = dsc_remote d"
proof (induction ns arbitrary: d reg d' reg' effs)
  case (Cons n ns)
  show ?case
  proof (cases "node_id n \<notin> set current \<and> node_id n \<notin> set (dsc_discovering d) \<and> reachable (node_addr n)")
    case True
    let ?d = "d\<lparr>dsc_discovering := hs_insert (node_id n) (dsc_discovering d)\<rparr>"
    let ?reg = "registry_register_node ring n reg"
    obtain d2 reg2 effs2 where r: "discover_each ring reachable current ns ?d ?reg = (d2, reg2, effs2)"
      by (cases "discover_each ring reachable current ns ?d ?reg")
    from Cons.IH [OF r] Cons.prems True r show ?thesis by auto
  next
    case False
    then have "discover_each ring reachable current ns d reg = (d', reg', effs)"
      using Cons.prems by auto
    from Cons.IH [OF this] False show ?thesis by auto
  qed
qed simp

text \<open>Discovery shakes hands with exactly the nodes it should, once each: of the nodes it is given, those
  that are neither registered and alive nor already being discovered and for whose address there is a
  client; all of them are then marked as being discovered.\<close>

theorem discovery_handshakes_once:
  assumes "discover_listed ring reachable ns tx d reg = Inr (d', reg', effs)"
  shows "distinct (handshakes effs) \<and>
    set (handshakes effs) = node_id ` {n \<in> set ns. reachable (node_addr n)}
      - set (map state_id (live_nodes reg)) - set (dsc_discovering d) \<and>
    set (dsc_discovering d') = set (dsc_discovering d) \<union> set (handshakes effs)"
proof -
  obtain effs' where "discover_each ring reachable (map state_id (live_nodes reg)) ns d reg = (d', reg', effs')"
    "effs = effs' @ [AwaitHandshakes tx]"
    using assms by (auto simp: discover_listed_def Let_def split: option.splits prod.splits)
  with discover_each_handshakes [OF this(1)] show ?thesis by auto
qed

definition ex_discovery :: discovery where
  "ex_discovery = (discovery_set_remote 3 discovery_default)\<lparr>dsc_discovering := [2]\<rparr>"

lemma discovery_handshakes_once_witness:
  "\<exists>d' reg' effs.
     discover_listed list_ring (\<lambda>_. True) [ex_node 1, ex_node 2, ex_node 1] None ex_discovery
       (remote_registry_new list_ring) = Inr (d', reg', effs) \<and>
     set (handshakes effs) = {1} \<and> set (dsc_discovering d') = {1, 2}"
proof -
  let ?r = "discover_listed list_ring (\<lambda>_. True) [ex_node 1, ex_node 2, ex_node 1] None ex_discovery
    (remote_registry_new list_ring)"
  obtain d' reg' effs where r: "?r = Inr (d', reg', effs)"
    by (cases "discover_each list_ring (\<lambda>_. True) (map state_id (live_nodes (remote_registry_new list_ring)))
        [ex_node 1, ex_node 2, ex_node 1] ex_discovery (remote_registry_new list_ring)")
      (simp add: discover_listed_def ex_discovery_def discovery_set_remote_def)
  have "live_nodes (remote_registry_new list_ring) = []"
    by (simp add: live_nodes_def registry_get_nodes_def get_all_def remote_registry_new_def node_store_new_def
        collect_map_def)
  moreover have "{n \<in> set [ex_node 1, ex_node 2, ex_node 1]. True} = {ex_node 1, ex_node 2}" by auto
  moreover have "dsc_discovering ex_discovery = [2]" "node_id (ex_node 1) = 1" "node_id (ex_node 2) = 2"
    by (simp_all add: ex_discovery_def ex_node_def)
  ultimately have "set (handshakes effs) = {1} \<and> set (dsc_discovering d') = {1, 2}"
    using discovery_handshakes_once [OF r] by (simp add: insert_Diff_if insert_commute)
  with r show ?thesis by blast
qed

section \<open>Handshakes that fail, addresses that are forgotten\<close>

text \<open>A node whose handshake failed stays marked as being discovered: no later discovery shakes hands with
  it, and no event ever says that it was added.\<close>

lemma failed_handshake_is_final:
  assumes "dsc_remote d = Some self" "node_id n \<in> set (dsc_discovering d)"
    and "handle_node_discovered (node_handshake n (Inl e)) d = Inr (d1, effs1)"
    and "discover_listed ring reachable ns tx d1 reg = Inr (d2, reg2, effs2)"
  shows "effs1 = [] \<and> node_id n \<notin> set (handshakes effs2) \<and> node_id n \<in> set (dsc_discovering d2)"
proof -
  have d1: "d1 = d \<and> effs1 = []"
    using assms(1,3) by (simp add: handle_node_discovered_def node_handshake_def)
  obtain effs' where e: "discover_each ring reachable (map state_id (live_nodes reg)) ns d1 reg = (d2, reg2, effs')"
    "effs2 = effs' @ [AwaitHandshakes tx]"
    using assms(4) by (auto simp: discover_listed_def Let_def split: option.splits prod.splits)
  with discover_each_handshakes [OF e(1)] d1 assms(2) show ?thesis by auto
qed

text \<open>A node that was identified through an address that is not its own is cached under both. Forgetting its
  own address leaves the other one behind, and discovering that one again is answered at once, without
  asking anybody.\<close>

lemma forgotten_alias_stays:
  assumes fresh: "hm_get (dsc_by_addr d) addr = None"
    and ident: "identify addr = Some i" "node_addr (ni_node i) \<noteq> addr"
    and remote: "dsc_remote d = Some self"
    and d1: "get_node_identity identify addr d = (r, d1)"
    and d2: "handle_forget (node_addr (ni_node i)) d1 = (d2, effs)"
  shows "effs = [PublishEvent (NodeRemoved (ni_node i))] \<and>
    discover_addr identify' addr (Some t) d2 = Inr (d2, [AnswerDiscovery t True])"
proof -
  have "d1 = d\<lparr>dsc_by_addr := hm_insert (node_addr (ni_node i)) i (hm_insert addr i (dsc_by_addr d)),
      dsc_by_id := hm_insert (node_id (ni_node i)) i (dsc_by_id d)\<rparr>"
    using d1 fresh ident by (simp add: get_node_identity_def Let_def)
  with d2 remote ident(2) show ?thesis
    by (auto simp: handle_forget_def discover_addr_def Let_def)
qed

text \<open>An address that answers, with a node that has no peers, is discovered to be exactly that node.\<close>

lemma seed_without_peers:
  assumes "hm_get (dsc_by_addr d) addr = None" "identify addr = Some i" "ni_peers i = []" "dsc_remote d = Some self"
  shows "\<exists>d'. discover_addr identify addr tx d = Inr (d', [NotifyDiscoverNodes [ni_node i] tx])"
  using assms by (simp add: discover_addr_def get_node_identity_def Let_def)

end
