(* ===== verification/Remote_Calls.thy ===== *)
theory Remote_Calls
  imports Sessions
begin

text \<open>
  A call of an actor on another node, from the caller's \<open>ActorRef::send\<close> (\<open>actor/refs/mod.rs\<close>) through the
  tables, the sessions and the handlers of both nodes and back.
\<close>

section \<open>The node that is called\<close>

text \<open>
  \<open>peer_look\<close> gives the reference found for an actor at each attempt, \<open>peer_send\<close> the answer of the actor.
\<close>

record ('m, 'r) peer =
  peer_system :: "('m, 'r) message_impl remote_system"
  peer_session :: "session_receiver \<times> remote_handler"
  peer_channel :: sender
  peer_look :: "actor_id \<Rightarrow> nat \<Rightarrow> actor_ref option"
  peer_send :: "actor_ref \<Rightarrow> 'm \<Rightarrow> actor_ref_err + 'r"

definition peer_handle :: "('m, 'r) peer \<Rightarrow> string \<Rightarrow> actor_id \<Rightarrow> bytes \<Rightarrow> actor_ref_err + bytes" where
  "peer_handle P identifier aid buffer =
     remote_handle_message (map_option snd (message_handler identifier (rsys_config (peer_system P))))
       (peer_look P aid) (peer_send P) identifier aid buffer"

section \<open>The call\<close>

record uuid_codec =
  uc_show :: "uuid \<Rightarrow> string"
  uc_parse :: "string \<Rightarrow> uuid option"

text \<open>
  The call returns the table of the caller's requests and the result it has, \<open>None\<close> as long as there is no
  answer. \<open>pong_write\<close>, \<open>epoch\<close> and \<open>now\<close> are those of the receiving ends.
\<close>

definition remote_call ::
  "uuid_codec \<Rightarrow> (string \<Rightarrow> unit + bytes) \<Rightarrow> time \<Rightarrow> time \<Rightarrow> client_receiver \<Rightarrow> session_receiver \<Rightarrow>
   ('m, 'r) message_impl remote_system \<Rightarrow> ('m, 'r) peer \<Rightarrow> ('m, 'r) message_impl \<Rightarrow> type_name \<Rightarrow> type_name \<Rightarrow>
   actor_id \<Rightarrow> 'm \<Rightarrow> uuid \<Rightarrow> sender \<Rightarrow> remote_handler \<Rightarrow>
   (remote_handler \<times> (actor_ref_err + 'r) option) may_panic" where
  "remote_call U pong_write epoch now crv rcv sys P M actor message aid m u tx tb =
     (case as_bytes M m of
        Inl e \<Rightarrow> Inr (tb, Some (Inl (Serialisation e)))
      | Inr b \<Rightarrow>
          (case remote_ref_send (uc_show U) (rsys_node_id sys) (handler_name actor message (rsys_config sys))
                  message actor aid (EnvRemote b :: 'm envelope) u tx tb of
             (tb', Inl e) \<Rightarrow> Inr (tb', Some (Inl e))
           | (tb', Inr ev) \<Rightarrow>
               (case serve_call (uc_show U) (uc_parse U) (rsys_node_id (peer_system P)) (peer_channel P)
                       (peer_handle P) ev (peer_session P) of
                  Inl e \<Rightarrow> Inl e
                | Inr [reply] \<Rightarrow>
                    map_sum id (\<lambda>(tb'', rs). (tb'', map_option (\<lambda>r. remote_ref_result M (Some r)) (map_of rs tx)))
                      (receive_reply (uc_parse U) pong_write epoch now crv rcv reply tb')
                | Inr _ \<Rightarrow> Inr (tb', None))))"

section \<open>Systems with the same configuration\<close>

lemma built_message_handler:
  "message_handler k (rsys_config (system_build g rid rtag b)) =
     hm_get (cb_handlers (fold (\<lambda>f c. f c) (rb_configs b) config_builder_new)) k"
  by (simp add: message_handler_def system_build_def config_build_def Let_def)

lemma built_handler_name:
  assumes "call_sequences (rb_configs b)" "rb_configs b' = rb_configs b"
    and "message_handler k (rsys_config (system_build g rid rtag b)) = Some ((A, Mt), h)"
  obtains k' h' where "handler_name A Mt (rsys_config (system_build g rid rtag b)) = Some k'"
    "message_handler k' (rsys_config (system_build g' rid' rtag' b')) = Some ((A, Mt), h')"
proof -
  have wf: "builder_wf (fold (\<lambda>f c. f c) (rb_configs b) config_builder_new)"
    using assms(1) by (rule configs_wf) (simp add: builder_wf_def config_builder_new_def)
  obtain k' where k': "handler_name A Mt (rsys_config (system_build g rid rtag b)) = Some k'"
    using config_build_names(2) [OF wf] assms(3) by (fastforce simp: system_build_def Let_def)
  with config_build_names(1) [OF wf] obtain h' where
    "message_handler k' (rsys_config (system_build g rid rtag b)) = Some ((A, Mt), h')"
    by (fastforce simp: system_build_def Let_def)
  with k' assms(2) that show thesis by (simp add: built_message_handler)
qed

section \<open>Transparency\<close>

definition local_answer :: "('m, 'r) peer \<Rightarrow> actor_id \<Rightarrow> 'm \<Rightarrow> actor_ref_err + 'r" where
  "local_answer P aid m =
     (case find (\<lambda>k. peer_look P aid k \<noteq> None) [1..<10] of
        None \<Rightarrow> Inl (NotFound aid)
      | Some k \<Rightarrow>
          (case peer_send P (the (peer_look P aid k)) m of Inr r \<Rightarrow> Inr r | Inl _ \<Rightarrow> Inl ResultChannelClosed))"

definition wire_results :: "('m, 'r) message_impl \<Rightarrow> bool" where
  "wire_results M \<longleftrightarrow> (\<forall>r. \<exists>b. write_remote_result M r = Inr b \<and> read_remote_result M b = Inr r)"

lemma peer_handle_answer:
  assumes "wire_message M" "wire_results M" "as_bytes M m = Inr b"
    and "message_handler k (rsys_config (peer_system P)) = Some (ty, M)"
  shows "remote_ref_result M (Some (response_of (peer_handle P k aid b))) = local_answer P aid m"
proof -
  have b: "from_envelope M (EnvRemote b :: 'a envelope) = Inr m"
    using wire_message.wire_roundtrip [OF assms(1,3)] by (simp add: from_envelope_def)
  obtain w where w: "\<And>r. write_remote_result M r = Inr (w r)" "\<And>r. read_remote_result M (w r) = Inr r"
    using assms(2) unfolding wire_results_def by metis
  have "peer_handle P k aid b =
     (case find (\<lambda>k. peer_look P aid k \<noteq> None) [1..<10] of
        None \<Rightarrow> Inl (NotFound aid)
      | Some j \<Rightarrow> (case handle_found M (peer_send P) b (the (peer_look P aid j)) of
             Some res \<Rightarrow> res | None \<Rightarrow> Inl ResultChannelClosed))"
    using assms(4)
    by (simp add: peer_handle_def remote_handle_message_def handle_attempt_finds max_retries_def split: option.splits)
  then show ?thesis
    by (auto simp: local_answer_def handle_found_def b w response_of_def remote_ref_result_def
        split: option.splits sum.splits)
qed

lemma removed_request_restored:
  assumes "\<not> hm_contains (requests tb) u"
  shows "(push_request u tx tb)\<lparr>requests := hm_remove u (requests (push_request u tx tb))\<rparr> = tb"
proof -
  have "hm_remove u (hm_insert u tx (requests tb)) = requests tb"
    using assms by (auto simp: hm_insert_absent hm_remove_filter filter_id_conv)
  then show ?thesis by (simp add: push_request_def)
qed

text \<open>The whole way of a call whose handler has a name: one answer comes back, whatever it is.\<close>

lemma remote_call_answered:
  assumes "\<forall>v. uc_parse U (uc_show U v) = Some v"
    and "rsys_node_id sys \<noteq> rsys_node_id (peer_system P)" "\<not> hm_contains (requests tb) u"
    and "as_bytes M m = Inr b" "handler_name A Mt (rsys_config sys) = Some k"
  shows "remote_call U pw epoch now crv rcv sys P M A Mt aid m u tx tb =
    Inr (tb, Some (remote_ref_result M (Some (response_of (peer_handle P k aid b)))))"
proof -
  obtain tb' ev where ev: "remote_ref_send (uc_show U) (rsys_node_id sys) (Some k) Mt A aid
      (EnvRemote b :: 'a envelope) u tx tb = (tb', ev)"
    by (cases "remote_ref_send (uc_show U) (rsys_node_id sys) (Some k) Mt A aid (EnvRemote b :: 'a envelope) u tx tb")
  have tb': "tb' = push_request u tx tb" using ev by (simp add: remote_ref_send_def)
  show ?thesis
    using call_roundtrip [OF assms(1,2) ev, of "peer_channel P" "peer_handle P" "peer_session P" pw epoch now crv rcv]
      ev assms(4,5) removed_request_restored [OF assms(3), of tx]
    by (auto simp: remote_call_def tb')
qed

end
