(* ===== verification/Redis_Journal.thy ===== *)
theory Redis_Journal
  imports Journal "HOL-Library.List_Lexorder" "HOL-Library.Product_Lexorder"
begin

text \<open>
  The Redis provider of the journal storage: \<open>coerce-redis/src/journal/actor.rs\<close> and \<open>mod.rs\<close>.

  The server is a parameter: a function from a command to a reply and the new database. What is relied
  on of it is \<open>redis_lawful\<close>, the documented behaviour of sorted sets: members are unique, ordered by
  score and then by their bytes, and scores are exact up to 2^53. Each handler of the actor runs its
  command in a task of its own; a panic of the task drops the result channel, which the caller sees as
  an error.
\<close>

section \<open>The server\<close>

datatype redis_cmd =
    ZAdd string "(int \<times> bytes) list"
  | ZRange string int "int option"
  | ZRangeRevFirst string
  | ZRemRangeByScore string int int
  | Del "string list"

datatype redis_reply = ReplyOk | ReplyArray "bytes list" | ReplyNil

type_synonym 'db redis = "redis_cmd \<Rightarrow> 'db \<Rightarrow> (storage_err + redis_reply) \<times> 'db"

definition zset_add :: "int \<times> bytes \<Rightarrow> (int \<times> bytes) list \<Rightarrow> (int \<times> bytes) list" where
  "zset_add x xs = insort x (filter (\<lambda>y. snd y \<noteq> snd x) xs)"

definition in_scores :: "int \<Rightarrow> int option \<Rightarrow> int \<times> bytes \<Rightarrow> bool" where
  "in_scores a b x \<longleftrightarrow> a \<le> fst x \<and> (case b of None \<Rightarrow> True | Some b \<Rightarrow> fst x \<le> b)"

definition max_score :: int where
  "max_score = 2 ^ 53"

text \<open>\<open>z db k\<close> is the sorted set under the key \<open>k\<close>, in the server's order.\<close>

definition redis_lawful :: "'db redis \<Rightarrow> ('db \<Rightarrow> string \<Rightarrow> (int \<times> bytes) list) \<Rightarrow> bool" where
  "redis_lawful q z \<longleftrightarrow>
     (\<forall>k xs db r db'. q (ZAdd k xs) db = (Inr r, db') \<and> (\<forall>x \<in> set xs. \<bar>fst x\<bar> \<le> max_score) \<longrightarrow>
        xs \<noteq> [] \<and> z db' = (z db)(k := fold zset_add xs (z db k))) \<and>
     (\<forall>k a b db r db'. q (ZRange k a b) db = (Inr r, db') \<longrightarrow>
        r = ReplyArray (map snd (filter (in_scores a b) (z db k)))) \<and>
     (\<forall>k db r db'. q (ZRangeRevFirst k) db = (Inr r, db') \<longrightarrow>
        r = ReplyArray (map snd (take 1 (rev (z db k))))) \<and>
     (\<forall>k a b db r db'. q (ZRemRangeByScore k a b) db = (Inr r, db') \<longrightarrow>
        z db' = (z db)(k := filter (\<lambda>x. \<not> in_scores a (Some b) x) (z db k))) \<and>
     (\<forall>ks db r db'. q (Del ks) db = (Inr r, db') \<longrightarrow> z db' = (\<lambda>k. if k \<in> set ks then [] else z db k))"

section \<open>The journal's actor\<close>

definition channel_closed :: storage_err where
  "channel_closed = ''channel closed''"

definition query_unit :: "'db redis \<Rightarrow> redis_cmd \<Rightarrow> 'db \<Rightarrow> (storage_err + unit) \<times> 'db" where
  "query_unit q cmd db = (case q cmd db of (Inl e, db') \<Rightarrow> (Inl e, db') | (Inr _, db') \<Rightarrow> (Inr (), db'))"

definition query_array :: "'db redis \<Rightarrow> redis_cmd \<Rightarrow> 'db \<Rightarrow> storage_err + bytes list option" where
  "query_array q cmd db =
     (case fst (q cmd db) of
        Inl e \<Rightarrow> Inl e
      | Inr (ReplyArray bs) \<Rightarrow> Inr (Some bs)
      | Inr ReplyNil \<Rightarrow> Inr None
      | Inr ReplyOk \<Rightarrow> Inl ''response type not convertible'')"

definition handle_write ::
  "(proto_journal_entry \<Rightarrow> 'err + bytes) \<Rightarrow> 'db redis \<Rightarrow> string \<Rightarrow> journal_entry \<Rightarrow> 'db \<Rightarrow> (storage_err + unit) \<times> 'db" where
  "handle_write w q key e db =
     (case entry_write_to_bytes w e of
        None \<Rightarrow> (Inl channel_closed, db)
      | Some b \<Rightarrow> query_unit q (ZAdd key [(sequence e, b)]) db)"

definition handle_write_batch ::
  "(proto_journal_entry \<Rightarrow> 'err + bytes) \<Rightarrow> 'db redis \<Rightarrow> string \<Rightarrow> journal_entry list \<Rightarrow> 'db \<Rightarrow>
   (storage_err + unit) \<times> 'db" where
  "handle_write_batch w q key es db =
     (case those (map (\<lambda>e. map_option (Pair (sequence e)) (entry_write_to_bytes w e)) es) of
        None \<Rightarrow> (Inl channel_closed, db)
      | Some xs \<Rightarrow> query_unit q (ZAdd key xs) db)"

definition handle_delete_range :: "'db redis \<Rightarrow> string \<Rightarrow> int \<Rightarrow> int \<Rightarrow> 'db \<Rightarrow> (storage_err + unit) \<times> 'db" where
  "handle_delete_range q key a b db = query_unit q (ZRemRangeByScore key a b) db"

definition handle_delete :: "'db redis \<Rightarrow> string list \<Rightarrow> 'db \<Rightarrow> (storage_err + unit) \<times> 'db" where
  "handle_delete q keys db = query_unit q (Del keys) db"

text \<open>\<open>read_journal_entry\<close> unwraps; the panic ends the task.\<close>

definition read_first ::
  "(bytes \<Rightarrow> 'err + proto_journal_entry) \<Rightarrow> storage_err + bytes list option \<Rightarrow> storage_err + journal_entry option" where
  "read_first p data =
     (case data of
        Inl e \<Rightarrow> Inl e
      | Inr (Some (b # _)) \<Rightarrow>
          (case entry_read_from_bytes p b of Some e \<Rightarrow> Inr (Some e) | None \<Rightarrow> Inl channel_closed)
      | Inr _ \<Rightarrow> Inr None)"

definition handle_read_snapshot ::
  "(bytes \<Rightarrow> 'err + proto_journal_entry) \<Rightarrow> 'db redis \<Rightarrow> string \<Rightarrow> 'db \<Rightarrow> storage_err + journal_entry option" where
  "handle_read_snapshot p q key db = read_first p (query_array q (ZRangeRevFirst key) db)"

definition handle_read_message ::
  "(bytes \<Rightarrow> 'err + proto_journal_entry) \<Rightarrow> 'db redis \<Rightarrow> string \<Rightarrow> int \<Rightarrow> 'db \<Rightarrow> storage_err + journal_entry option" where
  "handle_read_message p q key seq db = read_first p (query_array q (ZRange key seq (Some seq)) db)"

definition handle_read_messages ::
  "(bytes \<Rightarrow> 'err + proto_journal_entry) \<Rightarrow> 'db redis \<Rightarrow> string \<Rightarrow> int option \<Rightarrow> int option \<Rightarrow> 'db \<Rightarrow>
   storage_err + journal_entry list option" where
  "handle_read_messages p q key start_sequence end_sequence db =
     (let from_sequence = (case start_sequence of Some s \<Rightarrow> s | None \<Rightarrow> 0)
      in case query_array q (ZRange key from_sequence end_sequence) db of
           Inl e \<Rightarrow> Inl e
         | Inr None \<Rightarrow> Inr None
         | Inr (Some bs) \<Rightarrow>
             (case those (map (entry_read_from_bytes p) bs) of
                Some es \<Rightarrow> Inr (Some es)
              | None \<Rightarrow> Inl channel_closed))"

section \<open>The storage provider\<close>

record redis_config =
  rds_nodes :: "string list"
  rds_key_prefix :: string
  rds_cluster :: bool
  rds_use_key_hashtags :: bool

definition get_clustered_redis_key :: "string \<Rightarrow> string \<Rightarrow> redis_config \<Rightarrow> string" where
  "get_clustered_redis_key pid value_type cfg =
     ''{__'' @ pid @ ''}:'' @ rds_key_prefix cfg @ pid @ '':'' @ value_type"

definition get_redis_key :: "string \<Rightarrow> string \<Rightarrow> redis_config \<Rightarrow> string" where
  "get_redis_key pid value_type cfg = rds_key_prefix cfg @ pid @ '':'' @ value_type"

definition key_provider :: "redis_config \<Rightarrow> string \<Rightarrow> string \<Rightarrow> string" where
  "key_provider cfg pid value_type =
     (if rds_use_key_hashtags cfg then get_clustered_redis_key pid value_type cfg
      else get_redis_key pid value_type cfg)"

definition redis_storage ::
  "redis_config \<Rightarrow> (proto_journal_entry \<Rightarrow> 'err + bytes) \<Rightarrow> (bytes \<Rightarrow> 'err + proto_journal_entry) \<Rightarrow> 'db redis \<Rightarrow>
   'db journal_storage" where
  "redis_storage cfg w p q =
     \<lparr>write_snapshot = (\<lambda>db pid e. handle_write w q (key_provider cfg pid ''snapshot'') e db),
      write_message = (\<lambda>db pid e. handle_write w q (key_provider cfg pid ''journal'') e db),
      write_message_batch = (\<lambda>db pid es. handle_write_batch w q (key_provider cfg pid ''journal'') es db),
      read_latest_snapshot = (\<lambda>db pid. handle_read_snapshot p q (key_provider cfg pid ''snapshot'') db),
      read_latest_messages = (\<lambda>db pid from_sequence.
        handle_read_messages p q (key_provider cfg pid ''journal'') (Some from_sequence) None db),
      read_message = (\<lambda>db pid seq. handle_read_message p q (key_provider cfg pid ''journal'') seq db),
      read_messages = (\<lambda>db pid from_sequence to_sequence.
        Inr (handle_read_messages p q (key_provider cfg pid ''journal'') (Some from_sequence) (Some to_sequence) db)),
      delete_messages_to = (\<lambda>db pid to_sequence. handle_delete_range q (key_provider cfg pid ''journal'') 0 to_sequence db),
      delete_all = (\<lambda>db pid. handle_delete q [key_provider cfg pid ''journal'', key_provider cfg pid ''snapshot''] db)\<rparr>"

section \<open>Keys\<close>

text \<open>The keys of two actors never coincide, nor do those of an actor's journal and its snapshots.\<close>

lemma key_provider_inj:
  assumes "key_provider cfg pid a = key_provider cfg pid' b" "a \<in> {''journal'', ''snapshot''}" "b \<in> {''journal'', ''snapshot''}"
  shows "pid = pid' \<and> a = b"
proof -
  have "rev (key_provider cfg pid a) = rev (key_provider cfg pid' b)" using assms(1) by simp
  then have ab: "a = b"
    using assms(2,3) by (auto simp: key_provider_def get_redis_key_def get_clustered_redis_key_def split: if_splits)
  have "length (key_provider cfg pid a) = length (key_provider cfg pid' b)" using assms(1) by simp
  then have "length pid = length pid'"
    using ab by (auto simp: key_provider_def get_redis_key_def get_clustered_redis_key_def split: if_splits)
  with assms(1) ab show ?thesis
    by (auto simp: key_provider_def get_redis_key_def get_clustered_redis_key_def split: if_splits)
qed

lemma key_provider_neq [simp]: "key_provider cfg p ''journal'' \<noteq> key_provider cfg p' ''snapshot''"
  using key_provider_inj [of cfg p "''journal''" p' "''snapshot''"] by auto

section \<open>Logs in sorted sets\<close>

definition entry_image :: "(proto_journal_entry \<Rightarrow> 'err + bytes) \<Rightarrow> journal_entry \<Rightarrow> int \<times> bytes" where
  "entry_image w e = (sequence e, the (entry_write_to_bytes w e))"

definition entries_coded :: "(proto_journal_entry \<Rightarrow> 'err + bytes) \<Rightarrow> journal_entry list \<Rightarrow> bool" where
  "entries_coded w es \<longleftrightarrow> (\<forall>e \<in> set es. entry_write_to_bytes w e \<noteq> None)"

lemma entry_codec:
  assumes "proto_roundtrip w p" "entry_write_to_bytes w e = Some b"
  shows "entry_read_from_bytes p b = Some e"
proof -
  have "w \<lparr>proto_sequence = sequence e, proto_payload_type = payload_type e, proto_bytes = entry_bytes e\<rparr> = Inr b"
    using assms(2) by (simp add: entry_write_to_bytes_def Let_def split: sum.splits)
  from proto_roundtripD [OF assms(1) this] show ?thesis
    by (simp add: entry_read_from_bytes_def entry_read_from_slice_def)
qed

lemma entries_read_back:
  assumes "proto_roundtrip w p" "entries_coded w es"
  shows "those (map (entry_read_from_bytes p) (map (snd \<circ> entry_image w) es)) = Some es"
  using assms(2)
  by (induction es) (auto simp: entries_coded_def entry_image_def entry_codec [OF assms(1)])

lemma those_entries:
  "those (map (\<lambda>e. map_option (Pair (sequence e)) (entry_write_to_bytes w e)) es) =
     (if entries_coded w es then Some (map (entry_image w) es) else None)"
  by (induction es) (auto simp: entries_coded_def entry_image_def split: option.splits)

text \<open>Entries with growing sequence numbers are added at the end.\<close>

lemma insort_last: "\<forall>y \<in> set xs. y < x \<Longrightarrow> insort x xs = xs @ [x]"
  by (induction xs) (auto simp: not_le)

lemma zset_add_fresh:
  assumes "\<forall>y \<in> set xs. fst y < fst x" "\<forall>y \<in> set xs. snd y \<noteq> snd x"
  shows "zset_add x xs = xs @ [x]"
proof -
  have "filter (\<lambda>y. snd y \<noteq> snd x) xs = xs" using assms(2) by (simp add: filter_id_conv)
  moreover have "\<forall>y \<in> set xs. y < x" using assms(1) by (auto simp: less_prod_def)
  ultimately show ?thesis by (simp add: zset_add_def insort_last)
qed

lemma zset_add_log:
  assumes "proto_roundtrip w p" "entries_coded w (es @ fs)" "sorted_wrt (<) (map sequence (es @ fs))"
  shows "fold zset_add (map (entry_image w) fs) (map (entry_image w) es) = map (entry_image w) (es @ fs)"
  using assms(2,3)
proof (induction fs arbitrary: es)
  case (Cons f fs)
  have "zset_add (entry_image w f) (map (entry_image w) es) = map (entry_image w) es @ [entry_image w f]"
  proof (rule zset_add_fresh)
    show "\<forall>y \<in> set (map (entry_image w) es). fst y < fst (entry_image w f)"
      using Cons.prems by (auto simp: entry_image_def sorted_wrt_append)
    show "\<forall>y \<in> set (map (entry_image w) es). snd y \<noteq> snd (entry_image w f)"
    proof
      fix y assume "y \<in> set (map (entry_image w) es)"
      then obtain e where e: "e \<in> set es" "y = entry_image w e" by auto
      then obtain b c where bc: "entry_write_to_bytes w e = Some b" "entry_write_to_bytes w f = Some c"
        using Cons.prems(1) e(1) by (fastforce simp: entries_coded_def)
      moreover have "e \<noteq> f" using e(1) Cons.prems(2) by (auto simp: sorted_wrt_append)
      ultimately have "b \<noteq> c" using entry_codec [OF assms(1) bc(1)] entry_codec [OF assms(1) bc(2)] by auto
      with e(2) bc show "snd y \<noteq> snd (entry_image w f)" by (simp add: entry_image_def)
    qed
  qed
  then show ?case using Cons.IH [of "es @ [f]"] Cons.prems by simp
qed simp

text \<open>The log of an actor: its sorted set holds the images of these entries, in this order.\<close>

definition redis_log ::
  "(proto_journal_entry \<Rightarrow> 'err + bytes) \<Rightarrow> (string \<Rightarrow> (int \<times> bytes) list) \<Rightarrow> string \<Rightarrow> journal_entry list \<Rightarrow> bool" where
  "redis_log w zs key es \<longleftrightarrow>
     zs key = map (entry_image w) es \<and> entries_coded w es \<and> sorted_wrt (<) (map sequence es)"

lemma query_unit_ok: "query_unit q cmd db = (Inr u, db') \<Longrightarrow> \<exists>r. q cmd db = (Inr r, db')"
  by (auto simp: query_unit_def split: prod.splits sum.splits)

lemma zadd_lawful:
  assumes "redis_lawful q z" "query_unit q (ZAdd k xs) db = (Inr u, db')" "\<forall>x \<in> set xs. \<bar>fst x\<bar> \<le> max_score"
  shows "xs \<noteq> [] \<and> z db' = (z db)(k := fold zset_add xs (z db k))"
proof -
  obtain r where r: "q (ZAdd k xs) db = (Inr r, db')" using query_unit_ok [OF assms(2)] by blast
  from assms(1) have "\<forall>k xs db r db'. q (ZAdd k xs) db = (Inr r, db') \<and> (\<forall>x \<in> set xs. \<bar>fst x\<bar> \<le> max_score) \<longrightarrow>
      xs \<noteq> [] \<and> z db' = (z db)(k := fold zset_add xs (z db k))"
    unfolding redis_lawful_def by (elim conjE)
  with r assms(3) show ?thesis by blast
qed

lemma redis_batch_log:
  assumes "redis_lawful q z" "proto_roundtrip w p" "redis_log w (z db) key es"
    and "handle_write_batch w q key fs db = (Inr u, db')"
    and "sorted_wrt (<) (map sequence (es @ fs))" "\<forall>f \<in> set fs. \<bar>sequence f\<bar> \<le> max_score"
  shows "redis_log w (z db') key (es @ fs) \<and> (\<forall>k. k \<noteq> key \<longrightarrow> z db' k = z db k)"
proof -
  have coded: "entries_coded w fs" and w: "query_unit q (ZAdd key (map (entry_image w) fs)) db = (Inr u, db')"
    using assms(4) by (auto simp: handle_write_batch_def those_entries split: if_splits)
  have "z db' = (z db)(key := fold zset_add (map (entry_image w) fs) (z db key))"
    using zadd_lawful [OF assms(1) w] assms(6) by (auto simp: entry_image_def)
  moreover have "fold zset_add (map (entry_image w) fs) (z db key) = map (entry_image w) (es @ fs)"
    using zset_add_log [OF assms(2) _ assms(5)] assms(3) coded by (auto simp: redis_log_def entries_coded_def)
  ultimately show ?thesis
    using assms(3,5) coded by (auto simp: redis_log_def entries_coded_def)
qed

lemma handle_write_batch_single: "handle_write w q key e db = handle_write_batch w q key [e] db"
  by (simp add: handle_write_def handle_write_batch_def split: option.splits)


lemma zrange_lawful:
  assumes "redis_lawful q z" "query_array q (ZRange k a b) db = Inr r"
  shows "r = Some (map snd (filter (in_scores a b) (z db k)))"
proof -
  from assms(1) have "\<forall>k a b db r db'. q (ZRange k a b) db = (Inr r, db') \<longrightarrow>
      r = ReplyArray (map snd (filter (in_scores a b) (z db k)))"
    unfolding redis_lawful_def by (elim conjE)
  moreover obtain rep db' where rep: "q (ZRange k a b) db = (Inr rep, db')"
    using assms(2) by (cases "q (ZRange k a b) db") (auto simp: query_array_def split: sum.splits)
  ultimately have "rep = ReplyArray (map snd (filter (in_scores a b) (z db k)))" by blast
  with rep show ?thesis using assms(2) by (simp add: query_array_def)
qed

lemma zrev_lawful:
  assumes "redis_lawful q z" "query_array q (ZRangeRevFirst k) db = Inr r"
  shows "r = Some (map snd (take 1 (rev (z db k))))"
proof -
  from assms(1) have "\<forall>k db r db'. q (ZRangeRevFirst k) db = (Inr r, db') \<longrightarrow>
      r = ReplyArray (map snd (take 1 (rev (z db k))))"
    unfolding redis_lawful_def by (elim conjE)
  moreover obtain rep db' where rep: "q (ZRangeRevFirst k) db = (Inr rep, db')"
    using assms(2) by (cases "q (ZRangeRevFirst k) db") (auto simp: query_array_def split: sum.splits)
  ultimately have "rep = ReplyArray (map snd (take 1 (rev (z db k))))" by blast
  with rep show ?thesis using assms(2) by (simp add: query_array_def)
qed

text \<open>Reading a log: the entries whose numbers lie in the range, both bounds included.\<close>

lemma read_messages_log:
  assumes "redis_lawful q z" "proto_roundtrip w p" "redis_log w (z db) key es"
    and "handle_read_messages p q key (Some a) b db = Inr r"
  shows "r = Some (filter (\<lambda>e. a \<le> sequence e \<and> (case b of None \<Rightarrow> True | Some b \<Rightarrow> sequence e \<le> b)) es)"
proof -
  let ?fs = "filter (\<lambda>e. a \<le> sequence e \<and> (case b of None \<Rightarrow> True | Some b \<Rightarrow> sequence e \<le> b)) es"
  obtain bs where bs: "query_array q (ZRange key a b) db = Inr bs"
    using assms(4) by (auto simp: handle_read_messages_def split: sum.splits)
  have "map snd (filter (in_scores a b) (z db key)) = map (snd \<circ> entry_image w) ?fs"
    using assms(3) by (simp add: redis_log_def filter_map comp_def in_scores_def entry_image_def split: option.splits)
  then have "bs = Some (map (snd \<circ> entry_image w) ?fs)" using zrange_lawful [OF assms(1) bs] by simp
  moreover have "entries_coded w ?fs" using assms(3) by (auto simp: redis_log_def entries_coded_def)
  ultimately show ?thesis
    using assms(4) bs entries_read_back [OF assms(2), of ?fs] by (simp add: handle_read_messages_def)
qed

lemma read_snapshot_none:
  assumes "redis_lawful q z" "z db key = []" "handle_read_snapshot p q key db = Inr r"
  shows "r = None"
proof -
  obtain bs where bs: "query_array q (ZRangeRevFirst key) db = Inr bs"
    using assms(3) by (auto simp: handle_read_snapshot_def read_first_def split: sum.splits)
  with zrev_lawful [OF assms(1) bs] assms(2,3) show ?thesis
    by (simp add: handle_read_snapshot_def read_first_def)
qed

section \<open>Runs of a journal on Redis\<close>

text \<open>
  One operation: it appends its entries as long as their sequence numbers are new. A single message takes
  the number the counter has, so the numbers in the log must lie below it; a batch starts beyond the
  counter.
\<close>

definition room_for :: "journal_op \<Rightarrow> 'a journal \<Rightarrow> journal_entry list \<Rightarrow> bool" where
  "room_for x j es \<longleftrightarrow>
     0 \<le> last_sequence_id j \<and> last_sequence_id j + int (op_size x) \<le> max_score \<and>
     (\<forall>e \<in> set es. if is_single x then sequence e < last_sequence_id j else sequence e \<le> last_sequence_id j)"

lemma redis_run_op:
  assumes "redis_lawful q z" "proto_roundtrip w p"
    and "redis_log w (z db) (key_provider cfg (persistence_id j) ''journal'') es"
    and "run_op (redis_storage cfg w p q) x j db = Some (j', db')" "room_for x j es"
  shows "\<exists>fs. redis_log w (z db') (key_provider cfg (persistence_id j) ''journal'') (es @ fs) \<and>
    map entry_payload fs = op_payloads (journal_types j) x \<and>
    (\<forall>k. k \<noteq> key_provider cfg (persistence_id j) ''journal'' \<longrightarrow> z db' k = z db k) \<and>
    (\<forall>f \<in> set fs. last_sequence_id j \<le> sequence f \<and>
       (if is_single x then sequence f < last_sequence_id j' else sequence f \<le> last_sequence_id j')) \<and>
    last_sequence_id j' = last_sequence_id j + int (op_size x) \<and>
    persistence_id j' = persistence_id j \<and> journal_types j' = journal_types j"
proof -
  let ?k = "key_provider cfg (persistence_id j) ''journal''" and ?n = "last_sequence_id j"
  have small: "max_score \<le> i64_max" by (simp add: max_score_def i64_max_def)
  have es: "sorted_wrt (<) (map sequence es)" using assms(3) by (simp add: redis_log_def)
  show ?thesis
  proof (cases x)
    case (OpMessage t b)
    then obtain pt where pt: "message_type_mapping (journal_types j) t = Some pt"
      and w: "handle_write w q ?k \<lparr>sequence = ?n, payload_type = pt, entry_bytes = b\<rparr> db = (Inr (), db')"
      and j': "j' = j\<lparr>last_sequence_id := i64_add ?n 1\<rparr>"
      using assms(4) by (auto simp: redis_storage_def split: sum.splits elim!: persist_message_cases)
    let ?e = "\<lparr>sequence = ?n, payload_type = pt, entry_bytes = b\<rparr>"
    have "i64_add ?n 1 = ?n + 1" using assms(5) small OpMessage by (intro i64_add_exact) (auto simp: room_for_def)
    moreover have "redis_log w (z db') ?k (es @ [?e]) \<and> (\<forall>k. k \<noteq> ?k \<longrightarrow> z db' k = z db k)"
      using assms(5) es OpMessage
      by (intro redis_batch_log [OF assms(1-3) w [unfolded handle_write_batch_single]])
         (auto simp: room_for_def sorted_wrt_append)
    ultimately show ?thesis
      using OpMessage pt j' by (intro exI [of _ "[?e]"]) auto
  next
    case (OpBatch bs)
    let ?fs = "fst (number_entries ?n bs)"
    have w: "handle_write_batch w q ?k ?fs db = (Inr (), db')"
      and j': "j' = j\<lparr>last_sequence_id := snd (number_entries ?n bs)\<rparr>"
      using assms(4) OpBatch by (auto simp: redis_storage_def split: prod.splits sum.splits elim!: persist_batch_cases)
    have bound: "0 \<le> ?n" "?n + int (length bs) \<le> i64_max" "?n + int (length bs) \<le> max_score"
      using assms(5) small OpBatch by (auto simp: room_for_def)
    note exact = number_entries_exact [OF bound(1,2)] and ok = number_entries_log_ok [OF bound(1,2)]
    have "sorted_wrt (<) (map sequence ?fs)" using exact by (simp add: sorted_wrt_map sorted_wrt_upt)
    moreover have "\<forall>e \<in> set es. sequence e \<le> ?n" using assms(5) OpBatch by (simp add: room_for_def)
    ultimately have sorted: "sorted_wrt (<) (map sequence (es @ ?fs))"
      using es ok by (fastforce simp: sorted_wrt_append)
    have "redis_log w (z db') ?k (es @ ?fs) \<and> (\<forall>k. k \<noteq> ?k \<longrightarrow> z db' k = z db k)"
      using ok bound by (intro redis_batch_log [OF assms(1-3) w sorted]) (fastforce simp: log_ok_def)
    then show ?thesis
      using OpBatch exact ok j' by (intro exI [of _ ?fs]) (fastforce simp: log_ok_def)
  qed
qed

text \<open>Single messages first, then batches: no sequence number is used twice.\<close>

fun singles_first :: "journal_op list \<Rightarrow> bool" where
  "singles_first [] = True"
| "singles_first (x # xs) = (if is_single x then singles_first xs else list_all (\<lambda>y. \<not> is_single y) xs)"

lemma batches_singles_first: "list_all (\<lambda>y. \<not> is_single y) xs \<Longrightarrow> singles_first xs"
  by (cases xs) auto

lemma redis_run_ops:
  assumes "redis_lawful q z" "proto_roundtrip w p"
    and "redis_log w (z db) (key_provider cfg (persistence_id j) ''journal'') es"
    and "run_ops (redis_storage cfg w p q) xs j db = Some (j', db')"
    and "singles_first xs"
    and "0 \<le> last_sequence_id j" "last_sequence_id j + int (sum_list (map op_size xs)) \<le> max_score"
    and "if \<exists>x \<in> set xs. is_single x then \<forall>e \<in> set es. sequence e < last_sequence_id j
         else \<forall>e \<in> set es. sequence e \<le> last_sequence_id j"
  shows "\<exists>fs. redis_log w (z db') (key_provider cfg (persistence_id j) ''journal'') (es @ fs) \<and>
    map entry_payload fs = concat (map (op_payloads (journal_types j)) xs) \<and>
    (\<forall>f \<in> set fs. last_sequence_id j \<le> sequence f) \<and>
    (\<forall>k. k \<noteq> key_provider cfg (persistence_id j) ''journal'' \<longrightarrow> z db' k = z db k)"
  using assms(3-)
proof (induction xs arbitrary: j db es)
  case (Cons x xs)
  let ?k = "key_provider cfg (persistence_id j) ''journal''"
  obtain j1 db1 where x: "run_op (redis_storage cfg w p q) x j db = Some (j1, db1)"
    and xs: "run_ops (redis_storage cfg w p q) xs j1 db1 = Some (j', db')"
    using Cons.prems(2) by (auto split: bind_splits)
  have "\<forall>e \<in> set es. if is_single x then sequence e < last_sequence_id j else sequence e \<le> last_sequence_id j"
  proof (cases "is_single x")
    case False
    have "\<forall>e \<in> set es. sequence e \<le> last_sequence_id j"
      using Cons.prems(6) by (cases "\<exists>y \<in> set (x # xs). is_single y") (simp_all only: if_True if_False, force+)
    with False show ?thesis by simp
  qed (use Cons.prems(6) in simp)
  then have "room_for x j es" using Cons.prems(4,5) by (simp add: room_for_def)
  from redis_run_op [OF assms(1,2) Cons.prems(1) x this] obtain fs where
    fs: "redis_log w (z db1) ?k (es @ fs)" "map entry_payload fs = op_payloads (journal_types j) x"
    "\<forall>k. k \<noteq> ?k \<longrightarrow> z db1 k = z db k"
    "\<forall>f \<in> set fs. last_sequence_id j \<le> sequence f \<and>
       (if is_single x then sequence f < last_sequence_id j1 else sequence f \<le> last_sequence_id j1)"
    and j1: "last_sequence_id j1 = last_sequence_id j + int (op_size x)" "persistence_id j1 = persistence_id j"
    "journal_types j1 = journal_types j"
    by (elim exE conjE) (rule that)
  have single: "is_single x" if "y \<in> set xs" "is_single y" for y
    using that Cons.prems(3) by (auto simp: list_all_iff split: if_splits)
  have rest: "singles_first xs"
    using Cons.prems(3) by (simp add: batches_singles_first split: if_splits)
  have "\<exists>gs. redis_log w (z db') (key_provider cfg (persistence_id j1) ''journal'') ((es @ fs) @ gs) \<and>
    map entry_payload gs = concat (map (op_payloads (journal_types j1)) xs) \<and>
    (\<forall>f \<in> set gs. last_sequence_id j1 \<le> sequence f) \<and>
    (\<forall>k. k \<noteq> key_provider cfg (persistence_id j1) ''journal'' \<longrightarrow> z db' k = z db1 k)"
  proof (rule Cons.IH)
    show "redis_log w (z db1) (key_provider cfg (persistence_id j1) ''journal'') (es @ fs)" using fs(1) j1 by simp
    show "singles_first xs" by (rule rest)
    show "if \<exists>x \<in> set xs. is_single x then \<forall>e \<in> set (es @ fs). sequence e < last_sequence_id j1
       else \<forall>e \<in> set (es @ fs). sequence e \<le> last_sequence_id j1"
    proof (cases "is_single x")
      case True
      then have "\<forall>e \<in> set es. sequence e < last_sequence_id j1" using Cons.prems(6) j1(1) by fastforce
      with True fs(4) show ?thesis by fastforce
    next
      case False
      then have none: "\<not> (\<exists>y \<in> set xs. is_single y)" using single by blast
      with False have "\<forall>e \<in> set es. sequence e \<le> last_sequence_id j1" using Cons.prems(6) j1(1) by fastforce
      with False none fs(4) show ?thesis by fastforce
    qed
    show "run_ops (redis_storage cfg w p q) xs j1 db1 = Some (j', db')" by (rule xs)
    show "0 \<le> last_sequence_id j1" "last_sequence_id j1 + int (sum_list (map op_size xs)) \<le> max_score"
      using Cons.prems(4,5) j1(1) by simp_all
  qed
  then obtain gs where gs: "redis_log w (z db') ?k ((es @ fs) @ gs)"
    "map entry_payload gs = concat (map (op_payloads (journal_types j)) xs)"
    "\<forall>f \<in> set gs. last_sequence_id j1 \<le> sequence f" "\<forall>k. k \<noteq> ?k \<longrightarrow> z db' k = z db1 k"
    using j1 by auto
  show ?case
  proof (intro exI [of _ "fs @ gs"] conjI)
    show "redis_log w (z db') ?k (es @ fs @ gs)" using gs(1) by simp
    show "map entry_payload (fs @ gs) = concat (map (op_payloads (journal_types j)) (x # xs))"
      using gs(2) fs(2) by simp
    show "\<forall>f \<in> set (fs @ gs). last_sequence_id j \<le> sequence f" using gs(3) fs(4) j1(1) by fastforce
    show "\<forall>k. k \<noteq> ?k \<longrightarrow> z db' k = z db k" using gs(4) fs(3) by simp
  qed
qed auto

section \<open>What a restart recovers from Redis\<close>

lemma redis_restart:
  assumes "redis_lawful q z" "proto_roundtrip w pp"
    and "redis_log w (z db) (key_provider cfg p ''journal'') es" "z db (key_provider cfg p ''snapshot'') = []"
    and "\<forall>e \<in> set es. 0 \<le> sequence e" "journal_restart (redis_storage cfg w pp q) p types db snap rs j"
  shows "snap = None \<and> list_of rs = List.map_filter (recovered_of types) es \<and>
    j = (journal_new p types)\<lparr>last_sequence_id := if es = [] then 0 else sequence (last es)\<rparr>"
proof -
  let ?j = "journal_new p types"
  obtain j1 where s: "recover_snapshot (redis_storage cfg w pp q) ?j db = (Inr snap, j1)"
    and m: "recover_messages (redis_storage cfg w pp q) j1 db = (Inr rs, j)"
    using assms(6) by (auto simp: journal_restart_def)
  obtain r0 where r0: "handle_read_snapshot pp q (key_provider cfg p ''snapshot'') db = Inr r0"
    using s by (auto simp: recover_snapshot_def redis_storage_def journal_new_def split: sum.splits)
  with s read_snapshot_none [OF assms(1,4) r0] have s': "snap = None" "j1 = ?j"
    by (simp_all add: recover_snapshot_def redis_storage_def journal_new_def)
  obtain r where r: "handle_read_messages pp q (key_provider cfg p ''journal'') (Some 0) None db = Inr r"
    using m by (auto simp: s'(2) recover_messages_def redis_storage_def journal_new_def split: sum.splits)
  have "r = Some es" using read_messages_log [OF assms(1-3) r] assms(5) by (simp add: filter_id_conv)
  with m r s' show ?thesis
    by (auto simp: recover_messages_def redis_storage_def journal_new_def collect_messages_spec list_of_def)
qed

text \<open>C3: What an actor persists to Redis, single messages first and then batches, is what a restart replays:
  every payload its types can recover, exactly once and in the order in which it was persisted. It is
  assumed that the server keeps sorted sets as documented, that entries are decoded as they were
  encoded, that the actor's keys are unused at the start, and that the operations and the restart
  succeed.\<close>

theorem redis_roundtrip:
  assumes "redis_lawful q z" "proto_roundtrip w pp"
    and "z db (key_provider cfg p ''journal'') = []" "z db (key_provider cfg p ''snapshot'') = []"
    and "singles_first xs" "int (sum_list (map op_size xs)) \<le> max_score"
    and "run_ops (redis_storage cfg w pp q) xs (journal_new p types) db = Some (j, db')"
    and "journal_restart (redis_storage cfg w pp q) p types db' snap rs j'"
  shows "snap = None \<and>
    map recovered_pair (list_of rs) = replayable types (concat (map (op_payloads types) xs))"
proof -
  have "redis_log w (z db) (key_provider cfg p ''journal'') []"
    using assms(3) by (simp add: redis_log_def entries_coded_def)
  then have "\<exists>fs. redis_log w (z db') (key_provider cfg p ''journal'') fs \<and>
      map entry_payload fs = concat (map (op_payloads types) xs) \<and> (\<forall>f \<in> set fs. 0 \<le> sequence f) \<and>
      (\<forall>k. k \<noteq> key_provider cfg p ''journal'' \<longrightarrow> z db' k = z db k)"
    using redis_run_ops [OF assms(1,2) _ assms(7,5), of "[]"] assms(6) by (simp add: journal_new_def)
  then obtain fs where fs: "redis_log w (z db') (key_provider cfg p ''journal'') fs"
    "map entry_payload fs = concat (map (op_payloads types) xs)" "\<forall>f \<in> set fs. 0 \<le> sequence f"
    "\<forall>k. k \<noteq> key_provider cfg p ''journal'' \<longrightarrow> z db' k = z db k"
    by (elim exE conjE)
  have empty: "z db' (key_provider cfg p ''snapshot'') = []"
    using fs(4) [rule_format, of "key_provider cfg p ''snapshot''"] assms(4) key_provider_neq [of cfg p p] by simp
  from redis_restart [OF assms(1,2) fs(1) empty fs(3) assms(8)] fs(2) show ?thesis
    by (simp add: map_filter_recovered del: map_map)
qed

section \<open>Sequence numbers that are used twice\<close>

lemma zset_add_same: "zset_add x [x] = [x]"
  by (simp add: zset_add_def)

text \<open>C14: An event that is persisted again after a restart is lost. Recovery sets the counter to the number of
  the last entry and not beyond it, so the next message takes that number again; when it is the same
  event as the last one, its encoding is the member that the sorted set already has, and the server
  keeps one. Both writes succeed, and the next restart replays the event once.\<close>

theorem redis_loses_repeated_event:
  assumes "redis_lawful q z" "proto_roundtrip w pp"
    and "z db (key_provider cfg p ''journal'') = []" "z db (key_provider cfg p ''snapshot'') = []"
    and "run_ops (redis_storage cfg w pp q) [OpMessage t b] (journal_new p types) db = Some (j1, db1)"
    and "journal_restart (redis_storage cfg w pp q) p types db1 snap1 rs1 j2"
    and "run_ops (redis_storage cfg w pp q) [OpMessage t b] j2 db1 = Some (j3, db2)"
    and "journal_restart (redis_storage cfg w pp q) p types db2 snap2 rs2 j4"
  shows "map recovered_pair (list_of rs2) = replayable types (op_payloads types (OpMessage t b))"
proof -
  let ?R = "redis_storage cfg w pp q" and ?k = "key_provider cfg p ''journal''"
  obtain pt where pt: "message_type_mapping types t = Some pt"
    using assms(5) by (auto simp: persist_message_def journal_new_def split: option.splits)
  let ?e = "\<lparr>sequence = 0, payload_type = pt, entry_bytes = b\<rparr>"
  have w1: "handle_write w q ?k ?e db = (Inr (), db1)"
    using assms(5) pt
    by (auto simp: redis_storage_def journal_new_def persist_message_def split: sum.splits prod.splits bind_splits)
  have "redis_log w (z db) ?k []" using assms(3) by (simp add: redis_log_def entries_coded_def)
  from redis_batch_log [OF assms(1,2) this w1 [unfolded handle_write_batch_single]]
  have l1: "redis_log w (z db1) ?k [?e]" and o1: "z db1 (key_provider cfg p ''snapshot'') = []"
    using assms(4) by (auto simp: max_score_def key_provider_neq [symmetric])
  have j2: "j2 = journal_new p types"
    using redis_restart [OF assms(1,2) l1 o1 _ assms(6)] by (simp add: journal_new_def)
  have "handle_write w q ?k ?e db1 = (Inr (), db2)"
    using assms(7) pt j2
    by (auto simp: redis_storage_def journal_new_def persist_message_def split: sum.splits prod.splits bind_splits)
  then have "query_unit q (ZAdd ?k [entry_image w ?e]) db1 = (Inr (), db2)"
    by (auto simp: handle_write_def entry_image_def split: option.splits)
  from zadd_lawful [OF assms(1) this] l1
  have z2: "z db2 = z db1"
    by (auto simp: redis_log_def entry_image_def max_score_def zset_add_same)
  with l1 o1 have "redis_log w (z db2) ?k [?e]" "z db2 (key_provider cfg p ''snapshot'') = []" by simp_all
  from redis_restart [OF assms(1,2) this _ assms(8)]
  have "list_of rs2 = List.map_filter (recovered_of types) [?e]" by (simp del: map_filter_simps)
  with pt show ?thesis by (simp add: map_filter_recovered del: map_filter_simps)
qed

section \<open>The two providers\<close>

lemma zrem_lawful:
  assumes "redis_lawful q z" "query_unit q (ZRemRangeByScore k a b) db = (Inr u, db')"
  shows "z db' = (z db)(k := filter (\<lambda>x. \<not> in_scores a (Some b) x) (z db k))"
proof -
  obtain r where r: "q (ZRemRangeByScore k a b) db = (Inr r, db')" using query_unit_ok [OF assms(2)] by blast
  from assms(1) have "\<forall>k a b db r db'. q (ZRemRangeByScore k a b) db = (Inr r, db') \<longrightarrow>
      z db' = (z db)(k := filter (\<lambda>x. \<not> in_scores a (Some b) x) (z db k))"
    unfolding redis_lawful_def by (elim conjE)
  with r show ?thesis by blast
qed

text \<open>
  They disagree at the boundary, in both directions. From the same log, Redis reads the entry with the
  given number and the in-memory provider does not; Redis deletes it and the in-memory provider keeps it.
  With a snapshot's number, that is the number of the first single message after the snapshot.
\<close>

lemma providers_disagree:
  fixes store :: inmemory_store
  assumes "redis_lawful q z" "proto_roundtrip w pp" "n \<noteq> 0"
    and "redis_log w (z db) (key_provider cfg p ''journal'') (mem_messages store p)"
    and "\<forall>e \<in> set (mem_messages store p). 0 \<le> sequence e"
    and "read_latest_messages (redis_storage cfg w pp q) db p n = Inr r"
    and "read_latest_messages inmemory_storage store p n = Inr r'"
    and "delete_messages_to (redis_storage cfg w pp q) db p n = (Inr (), db')"
    and "delete_messages_to inmemory_storage store p n = (Inr (), store')"
  shows "list_of r = filter (\<lambda>e. n \<le> sequence e) (mem_messages store p) \<and>
    list_of r' = filter (\<lambda>e. n < sequence e) (mem_messages store p) \<and>
    redis_log w (z db') (key_provider cfg p ''journal'') (filter (\<lambda>e. n < sequence e) (mem_messages store p)) \<and>
    mem_messages store' p = filter (\<lambda>e. n \<le> sequence e) (mem_messages store p)"
proof -
  let ?es = "mem_messages store p" and ?k = "key_provider cfg p ''journal''"
  have less: "sorted_wrt (<) (map sequence ?es)" using assms(4) by (simp add: redis_log_def)
  then have sorted: "seq_sorted ?es" by (auto simp: strict_sorted_iff)
  have "r = Some (filter (\<lambda>e. n \<le> sequence e) ?es)"
    using read_messages_log [OF assms(1,2,4), of n None r] assms(6) by (simp add: redis_storage_def)
  moreover have "query_unit q (ZRemRangeByScore ?k 0 n) db = (Inr (), db')"
    using assms(8) by (simp add: redis_storage_def handle_delete_range_def)
  then have "z db' ?k = filter (\<lambda>x. \<not> in_scores 0 (Some n) x) (map (entry_image w) ?es)"
    using zrem_lawful [OF assms(1)] assms(4) by (fastforce simp: redis_log_def)
  moreover have "filter (\<lambda>x. \<not> in_scores 0 (Some n) x) (map (entry_image w) ?es) =
      map (entry_image w) (filter (\<lambda>e. n < sequence e) ?es)"
    unfolding filter_map using assms(5)
    by (intro arg_cong [of _ _ "map (entry_image w)"] filter_cong) (auto simp: in_scores_def entry_image_def)
  ultimately have "list_of r = filter (\<lambda>e. n \<le> sequence e) ?es"
    "redis_log w (z db') ?k (filter (\<lambda>e. n < sequence e) ?es)"
    using assms(4) less
    by (auto simp: list_of_def redis_log_def entries_coded_def sorted_wrt_map intro: sorted_wrt_filter)
  then show ?thesis
    using mem.read_latest_ok [OF assms(7) sorted] mem.delete_to_ok [OF assms(9) sorted] assms(3) by simp
qed

section \<open>Clearing old messages in Redis\<close>

lemma zset_add_last:
  assumes "\<forall>y \<in> set xs. fst y < fst x"
  shows "zset_add x xs = filter (\<lambda>y. snd y \<noteq> snd x) xs @ [x]"
proof -
  have "\<forall>y \<in> set (filter (\<lambda>y. snd y \<noteq> snd x) xs). y < x" using assms by (auto simp: less_prod_def)
  then show ?thesis by (simp add: zset_add_def insort_last)
qed

text \<open>An entry with a number above all others of its set is written at the end.\<close>

lemma handle_write_last:
  assumes "redis_lawful q z" "handle_write w q k e db = (Inr u, db')" "\<bar>sequence e\<bar> \<le> max_score"
    and "\<forall>y \<in> set (z db k). fst y < sequence e"
  shows "\<exists>b. entry_write_to_bytes w e = Some b \<and>
    z db' = (z db)(k := filter (\<lambda>y. snd y \<noteq> b) (z db k) @ [(sequence e, b)])"
proof -
  obtain b where b: "entry_write_to_bytes w e = Some b" "query_unit q (ZAdd k [(sequence e, b)]) db = (Inr u, db')"
    using assms(2) by (auto simp: handle_write_def split: option.splits)
  from zadd_lawful [OF assms(1) b(2)] assms(3,4) have "z db' = (z db)(k := filter (\<lambda>y. snd y \<noteq> b) (z db k) @ [(sequence e, b)])"
    by (simp add: zset_add_last)
  with b(1) show ?thesis by blast
qed

lemma read_snapshot_last:
  assumes "redis_lawful q z" "proto_roundtrip w pp" "handle_read_snapshot pp q key db = Inr r"
    and "z db key = xs @ [(n, b)]" "entry_write_to_bytes w e = Some b"
  shows "r = Some e"
proof -
  obtain bs where bs: "query_array q (ZRangeRevFirst key) db = Inr bs"
    using assms(3) by (auto simp: handle_read_snapshot_def read_first_def split: sum.splits)
  with zrev_lawful [OF assms(1) bs] assms(3,4) entry_codec [OF assms(2,5)] show ?thesis
    by (simp add: handle_read_snapshot_def read_first_def)
qed

text \<open>A restart from a snapshot reads the messages from the snapshot's own number on.\<close>

lemma redis_restart_from:
  assumes "redis_lawful q z" "proto_roundtrip w pp" "journal_restart (redis_storage cfg w pp q) p types db snap rs j"
    and "z db (key_provider cfg p ''snapshot'') = xs @ [(sequence se, sb)]" "entry_write_to_bytes w se = Some sb"
    and "filter (in_scores (sequence se) None) (z db (key_provider cfg p ''journal'')) = map (entry_image w) es"
    and "entries_coded w es"
  shows "snap = recovered_snapshot_of types se \<and> list_of rs = List.map_filter (recovered_of types) es"
proof -
  let ?j = "journal_new p types"
  obtain j1 where s: "recover_snapshot (redis_storage cfg w pp q) ?j db = (Inr snap, j1)"
    and m: "recover_messages (redis_storage cfg w pp q) j1 db = (Inr rs, j)"
    using assms(3) by (auto simp: journal_restart_def)
  obtain r0 where r0: "handle_read_snapshot pp q (key_provider cfg p ''snapshot'') db = Inr r0"
    using s by (auto simp: recover_snapshot_def redis_storage_def journal_new_def split: sum.splits)
  have "r0 = Some se" using read_snapshot_last [OF assms(1,2) r0, of xs "sequence se" sb se] assms(4,5) by simp
  with s r0 have s': "snap = recovered_snapshot_of types se"
    "j1 = ?j\<lparr>last_sequence_id := sequence se, last_snapshot_sequence_id := Some (sequence se)\<rparr>"
    by (simp_all add: recover_snapshot_def redis_storage_def journal_new_def recovered_snapshot_of_def)
  obtain r where r: "handle_read_messages pp q (key_provider cfg p ''journal'') (Some (sequence se)) None db = Inr r"
    using m by (auto simp: s'(2) recover_messages_def redis_storage_def journal_new_def split: sum.splits)
  obtain bs where bs: "query_array q (ZRange (key_provider cfg p ''journal'') (sequence se) None) db = Inr bs"
    using r by (auto simp: handle_read_messages_def split: sum.splits)
  have "bs = Some (map (snd \<circ> entry_image w) es)" using zrange_lawful [OF assms(1) bs] assms(6) by simp
  then have "r = Some es"
    using r bs entries_read_back [OF assms(2,7)] by (simp add: handle_read_messages_def)
  with m r s'(2) have "rs = (if List.map_filter (recovered_of types) es = [] then None else Some (List.map_filter (recovered_of types) es))"
    by (simp add: recover_messages_def redis_storage_def journal_new_def collect_messages_spec)
  with s'(1) show ?thesis by (simp add: list_of_def)
qed

text \<open>C15: Clearing old messages loses an event in Redis. A journal writes a snapshot and then a single message, whose
  number is that of the snapshot itself. A restart would replay the message (if its type is one the actor recovers), since the Redis provider reads from the
  snapshot's number on; but \<open>clear_old_messages\<close>, which is meant to delete what the snapshot made obsolete, deletes up to
  that number as well. It reports success, and every restart from then on finds the same snapshot and replays nothing.
  It is assumed that the server keeps sorted sets as documented, that entries are decoded as they were encoded, that
  what was stored before has smaller numbers, and that the operations and the restarts succeed.\<close>

theorem redis_clear_loses_event:
  assumes "redis_lawful q z" "proto_roundtrip w pp"
    and "0 \<le> last_sequence_id j" "last_sequence_id j < max_score"
    and "\<forall>x \<in> set (z db (key_provider cfg (persistence_id j) ''journal'')). fst x \<le> last_sequence_id j"
    and "\<forall>x \<in> set (z db (key_provider cfg (persistence_id j) ''snapshot'')). fst x \<le> last_sequence_id j"
    and "persist_snapshot (redis_storage cfg w pp q) j db st sb = Inr (Inr (), j1, db1)"
    and "persist_message (redis_storage cfg w pp q) j1 db1 t b = Inr (Inr (), j2, db2)"
    and "clear_old_messages (redis_storage cfg w pp q) j2 db2 = (True, db3)"
    and "journal_restart (redis_storage cfg w pp q) (persistence_id j) (journal_types j) db2 snap rs k"
    and "journal_restart (redis_storage cfg w pp q) (persistence_id j) (journal_types j) db3 snap' rs' k'"
  shows "map recovered_pair (list_of rs) = replayable (journal_types j) (op_payloads (journal_types j) (OpMessage t b)) \<and>
    snap' = snap \<and> list_of rs' = []"
proof -
  let ?R = "redis_storage cfg w pp q" and ?p = "persistence_id j" and ?n = "last_sequence_id j + 1"
  let ?jk = "key_provider cfg ?p ''journal''" and ?sk = "key_provider cfg ?p ''snapshot''"
  have n: "i64_add (last_sequence_id j) 1 = ?n" "\<bar>?n\<bar> \<le> max_score" "?n < i64_max"
    using assms(3,4) by (simp_all add: i64_add_exact i64_max_def max_score_def)
  obtain pt where pt: "message_type_mapping (journal_types j) t = Some pt" and spt: "\<exists>spt. snapshot_type_mapping (journal_types j) st = Some spt"
    using assms(7,8) by (auto simp: persist_message_def persist_snapshot_def Let_def split: option.splits sum.splits prod.splits)
  then obtain spt where spt: "snapshot_type_mapping (journal_types j) st = Some spt" by blast
  let ?se = "\<lparr>sequence = ?n, payload_type = spt, entry_bytes = sb\<rparr>" and ?e = "\<lparr>sequence = ?n, payload_type = pt, entry_bytes = b\<rparr>"
  have w1: "handle_write w q ?sk ?se db = (Inr (), db1)"
    and j1: "j1 = j\<lparr>last_sequence_id := ?n, last_snapshot_sequence_id := Some ?n\<rparr>"
    using assms(7) spt n(1) by (auto simp: persist_snapshot_def redis_storage_def Let_def split: sum.splits prod.splits)
  have w2: "handle_write w q ?jk ?e db1 = (Inr (), db2)" and j2: "last_snapshot_sequence_id j2 = Some ?n" "persistence_id j2 = ?p"
    using assms(8) pt j1 by (auto simp: persist_message_def redis_storage_def split: sum.splits prod.splits)
  obtain sbs where s: "entry_write_to_bytes w ?se = Some sbs"
    "z db1 = (z db)(?sk := filter (\<lambda>y. snd y \<noteq> sbs) (z db ?sk) @ [(?n, sbs)])"
    using handle_write_last [OF assms(1) w1] n(2) assms(6) by auto
  have ne: "?sk \<noteq> ?jk" using key_provider_neq [of cfg ?p ?p] by (rule not_sym)
  have jk: "z db1 ?jk = z db ?jk" using s(2) by simp
  obtain bs where m: "entry_write_to_bytes w ?e = Some bs"
    "z db2 = (z db1)(?jk := filter (\<lambda>y. snd y \<noteq> bs) (z db ?jk) @ [(?n, bs)])"
    using handle_write_last [OF assms(1) w2] n(2) assms(5) jk by fastforce
  have sk: "z db2 ?sk = filter (\<lambda>y. snd y \<noteq> sbs) (z db ?sk) @ [(?n, sbs)]"
    using m(2) s(2) ne by simp
  have old: "filter (in_scores ?n None) (filter P (z db ?jk)) = []" for P
    using assms(5) by (auto simp: in_scores_def filter_empty_conv)
  have "snap = recovered_snapshot_of (journal_types j) ?se \<and> list_of rs = List.map_filter (recovered_of (journal_types j)) [?e]"
    using m old sk s(1) by (intro redis_restart_from [OF assms(1,2,10)])
      (simp_all add: entries_coded_def entry_image_def in_scores_def)
  moreover have "query_unit q (ZRemRangeByScore ?jk 0 ?n) db2 = (Inr (), db3)"
    using assms(9) j2 by (auto simp: clear_old_messages_def redis_storage_def handle_delete_range_def split: sum.splits prod.splits)
  from zrem_lawful [OF assms(1) this] have "z db3 = (z db2)(?jk := filter (\<lambda>x. \<not> in_scores 0 (Some ?n) x) (z db2 ?jk))" .
  then have "z db3 ?jk = filter (\<lambda>x. \<not> in_scores 0 (Some ?n) x) (filter (\<lambda>y. snd y \<noteq> bs) (z db ?jk))" "z db3 ?sk = z db2 ?sk"
    using m(2) assms(3) ne by (simp_all add: in_scores_def)
  then have "filter (in_scores ?n None) (z db3 ?jk) = []" "z db3 ?sk = z db2 ?sk"
    using old by (simp_all only: filter_filter)
  then have "snap' = recovered_snapshot_of (journal_types j) ?se \<and> list_of rs' = List.map_filter (recovered_of (journal_types j)) []"
    using sk s(1) by (intro redis_restart_from [OF assms(1,2,11)]) (simp_all add: entries_coded_def)
  ultimately show ?thesis using pt by (simp add: map_filter_recovered del: map_filter_simps) (simp add: map_filter_simps)
qed

section \<open>A server\<close>

text \<open>Sorted sets as documented, for concrete runs.\<close>

definition ref_redis :: "(string \<Rightarrow> (int \<times> bytes) list) redis" where
  "ref_redis cmd db =
     (case cmd of
        ZAdd k xs \<Rightarrow> if xs = [] then (Inl ''wrong number of arguments'', db)
                     else (Inr ReplyOk, db(k := fold zset_add xs (db k)))
      | ZRange k a b \<Rightarrow> (Inr (ReplyArray (map snd (filter (in_scores a b) (db k)))), db)
      | ZRangeRevFirst k \<Rightarrow> (Inr (ReplyArray (map snd (take 1 (rev (db k))))), db)
      | ZRemRangeByScore k a b \<Rightarrow> (Inr ReplyOk, db(k := filter (\<lambda>x. \<not> in_scores a (Some b) x) (db k)))
      | Del ks \<Rightarrow> (Inr ReplyOk, \<lambda>k. if k \<in> set ks then [] else db k))"

lemma ref_redis_lawful: "redis_lawful ref_redis (\<lambda>db. db)"
  unfolding redis_lawful_def by (intro conjI allI impI) (auto simp: ref_redis_def split: if_splits)

definition ex_entry_write :: "proto_journal_entry \<Rightarrow> unit + bytes" where
  "ex_entry_write e =
     (if e = \<lparr>proto_sequence = 0, proto_payload_type = ''m'', proto_bytes = [1]\<rparr> then Inr [1]
      else if e = \<lparr>proto_sequence = 2, proto_payload_type = ''m'', proto_bytes = [2]\<rparr> then Inr [2]
      else Inl ())"

definition ex_entry_parse :: "bytes \<Rightarrow> unit + proto_journal_entry" where
  "ex_entry_parse b =
     (if b = [1] then Inr \<lparr>proto_sequence = 0, proto_payload_type = ''m'', proto_bytes = [1]\<rparr>
      else if b = [2] then Inr \<lparr>proto_sequence = 2, proto_payload_type = ''m'', proto_bytes = [2]\<rparr>
      else Inl ())"

lemma ex_entry_codec: "proto_roundtrip ex_entry_write ex_entry_parse"
  by (auto simp: proto_roundtrip_def ex_entry_write_def ex_entry_parse_def split: if_splits)

definition ex_redis_config :: redis_config where
  "ex_redis_config = \<lparr>rds_nodes = [''n''], rds_key_prefix = ''p:'', rds_cluster = False, rds_use_key_hashtags = False\<rparr>"

abbreviation ex_redis :: "(string \<Rightarrow> (int \<times> bytes) list) journal_storage" where
  "ex_redis \<equiv> redis_storage ex_redis_config ex_entry_write ex_entry_parse ref_redis"

lemmas ex_redis_run =
  redis_storage_def ref_redis_def handle_write_def handle_write_batch_def query_unit_def query_array_def
  entry_write_to_bytes_def ex_entry_write_def ex_entry_parse_def persist_message_def persist_batch_def journal_new_def
  i64_add_exact i64_max_def key_provider_def get_redis_key_def ex_redis_config_def zset_add_def

lemmas ex_redis_read =
  journal_restart_def recover_snapshot_def recover_messages_def handle_read_snapshot_def handle_read_messages_def
  read_first_def in_scores_def entry_read_from_bytes_def entry_read_from_slice_def

theorem redis_roundtrip_witness:
  "\<exists>j db snap rs j'.
     run_ops ex_redis [OpMessage ''M'' [1], OpBatch [\<lparr>batched_payload_type = ''m'', batched_bytes = [2]\<rparr>]]
       (journal_new ''a'' ex_types) (\<lambda>_. []) = Some (j, db) \<and>
     journal_restart ex_redis ''a'' ex_types db snap rs j' \<and> snap = None \<and>
     map recovered_pair (list_of rs) = replayable ex_types [(''m'', [1]), (''m'', [2])]"
proof -
  let ?xs = "[OpMessage ''M'' [1], OpBatch [\<lparr>batched_payload_type = ''m'', batched_bytes = [2]\<rparr>]]"
  obtain j db where r: "run_ops ex_redis ?xs (journal_new ''a'' ex_types) (\<lambda>_. []) = Some (j, db)"
    and db: "db = (\<lambda>_. [])(''p:a:journal'' := [(0, [1]), (2, [2])])"
    by (simp add: ex_redis_run)
  moreover obtain snap rs j' where re: "journal_restart ex_redis ''a'' ex_types db snap rs j'"
    by (simp add: ex_redis_run ex_redis_read db)
  ultimately show ?thesis
    using redis_roundtrip [OF ref_redis_lawful ex_entry_codec _ _ _ _ r re] by (auto simp: max_score_def)
qed

theorem redis_loses_repeated_event_witness:
  "\<exists>j1 db1 snap1 rs1 j2 j3 db2 snap2 rs2 j4.
     run_ops ex_redis [OpMessage ''M'' [1]] (journal_new ''a'' ex_types) (\<lambda>_. []) = Some (j1, db1) \<and>
     journal_restart ex_redis ''a'' ex_types db1 snap1 rs1 j2 \<and>
     run_ops ex_redis [OpMessage ''M'' [1]] j2 db1 = Some (j3, db2) \<and>
     journal_restart ex_redis ''a'' ex_types db2 snap2 rs2 j4 \<and>
     map recovered_pair (list_of rs2) = replayable ex_types [(''m'', [1])]"
proof -
  obtain j1 db1 where 1: "run_ops ex_redis [OpMessage ''M'' [1]] (journal_new ''a'' ex_types) (\<lambda>_. []) = Some (j1, db1)"
    and db1: "db1 = (\<lambda>_. [])(''p:a:journal'' := [(0, [1])])"
    by (simp add: ex_redis_run)
  obtain snap1 rs1 j2 where 2: "journal_restart ex_redis ''a'' ex_types db1 snap1 rs1 j2"
    and j2: "j2 = journal_new ''a'' ex_types"
    by (simp add: ex_redis_run ex_redis_read db1)
  obtain j3 db2 where 3: "run_ops ex_redis [OpMessage ''M'' [1]] j2 db1 = Some (j3, db2)" and db2: "db2 = db1"
    by (simp add: ex_redis_run db1 j2)
  obtain snap2 rs2 j4 where 4: "journal_restart ex_redis ''a'' ex_types db2 snap2 rs2 j4"
    using 2 db2 by blast
  show ?thesis
    using 1 2 3 4 redis_loses_repeated_event [OF ref_redis_lawful ex_entry_codec _ _ 1 2 3 4] by fastforce
qed

definition ex_clear_write :: "proto_journal_entry \<Rightarrow> unit + bytes" where
  "ex_clear_write e =
     (if e = \<lparr>proto_sequence = 1, proto_payload_type = ''s'', proto_bytes = [9]\<rparr> then Inr [1]
      else if e = \<lparr>proto_sequence = 1, proto_payload_type = ''m'', proto_bytes = [2]\<rparr> then Inr [2]
      else Inl ())"

definition ex_clear_parse :: "bytes \<Rightarrow> unit + proto_journal_entry" where
  "ex_clear_parse b =
     (if b = [1] then Inr \<lparr>proto_sequence = 1, proto_payload_type = ''s'', proto_bytes = [9]\<rparr>
      else if b = [2] then Inr \<lparr>proto_sequence = 1, proto_payload_type = ''m'', proto_bytes = [2]\<rparr>
      else Inl ())"

lemma ex_clear_codec: "proto_roundtrip ex_clear_write ex_clear_parse"
  by (auto simp: proto_roundtrip_def ex_clear_write_def ex_clear_parse_def split: if_splits)

abbreviation ex_clear :: "(string \<Rightarrow> (int \<times> bytes) list) journal_storage" where
  "ex_clear \<equiv> redis_storage ex_redis_config ex_clear_write ex_clear_parse ref_redis"

theorem redis_clear_loses_event_witness:
  "\<exists>j1 db1 j2 db2 db3 snap rs k snap' rs' k'.
     persist_snapshot ex_clear (journal_new ''a'' ex_types) (\<lambda>_. []) ''S'' [9] = Inr (Inr (), j1, db1) \<and>
     persist_message ex_clear j1 db1 ''M'' [2] = Inr (Inr (), j2, db2) \<and>
     clear_old_messages ex_clear j2 db2 = (True, db3) \<and>
     journal_restart ex_clear ''a'' ex_types db2 snap rs k \<and> journal_restart ex_clear ''a'' ex_types db3 snap' rs' k' \<and>
     map recovered_pair (list_of rs) = replayable ex_types [(''m'', [2])] \<and> list_of rs' = []"
proof -
  let ?j = "journal_new ''a'' ex_types"
  obtain j1 db1 where 1: "persist_snapshot ex_clear ?j (\<lambda>_. []) ''S'' [9] = Inr (Inr (), j1, db1)"
    and d1: "db1 = (\<lambda>_. [])(''p:a:snapshot'' := [(1, [1])])"
    and j1: "j1 = ?j\<lparr>last_sequence_id := 1, last_snapshot_sequence_id := Some 1\<rparr>"
    by (simp add: ex_redis_run persist_snapshot_def ex_clear_write_def)
  obtain j2 db2 where 2: "persist_message ex_clear j1 db1 ''M'' [2] = Inr (Inr (), j2, db2)"
    and d2: "db2 = db1(''p:a:journal'' := [(1, [2])])"
    and j2: "last_snapshot_sequence_id j2 = Some 1" "persistence_id j2 = ''a''"
    by (simp add: ex_redis_run j1 d1 ex_clear_write_def)
  obtain db3 where 3: "clear_old_messages ex_clear j2 db2 = (True, db3)" and d3: "db3 = db2(''p:a:journal'' := [])"
    by (simp add: clear_old_messages_def j2 d2 d1 ex_redis_run handle_delete_range_def in_scores_def)
  obtain snap rs k where 4: "journal_restart ex_clear ''a'' ex_types db2 snap rs k"
    by (simp add: ex_redis_run ex_redis_read d2 d1 ex_clear_parse_def)
  obtain snap' rs' k' where 5: "journal_restart ex_clear ''a'' ex_types db3 snap' rs' k'"
    by (simp add: ex_redis_run ex_redis_read d3 d2 d1 ex_clear_parse_def)
  have j: "persistence_id ?j = ''a''" "journal_types ?j = ex_types" "last_sequence_id ?j = 0" by (simp_all add: journal_new_def)
  have "map recovered_pair (list_of rs) = replayable ex_types [(''m'', [2])] \<and> list_of rs' = []"
    using redis_clear_loses_event [where j = ?j, unfolded j, OF ref_redis_lawful ex_clear_codec _ _ _ _ 1 2 3 4 5]
    by (simp add: max_score_def)
  with 1 2 3 4 5 show ?thesis by blast
qed

end
