(* ===== verification/Coordinator_Actor.thy ===== *)
theory Coordinator_Actor
  imports Persistent_Actor Shard_Balance Shard_Host
begin

text \<open>
  The shard coordinator as a persistent actor: its messages on the wire (\<open>coordinator/allocation.rs\<close>,
  \<open>stats.rs\<close>, \<open>shard/message.rs\<close>, \<open>shard/stats.rs\<close>), the events it writes to its journal, and what a new
  coordinator has after the old one is gone.

  The encoders of the generated messages are parameters; an enum of such a message is \<open>None\<close> when its
  number is unknown.
\<close>

section \<open>Allocation messages\<close>

record proto_allocate_shard =
  pas_shard_id :: shard_id
  pas_rebalancing :: bool

datatype alloc_type = TypeAllocated | TypeAlreadyAllocated | TypeNotAllocated | TypeErr

datatype proto_alloc_err = ProtoAllocUnknown | ProtoAllocPersistence

record proto_allocate_result =
  par_type :: "alloc_type option"
  par_allocation :: "proto_remote_shard option"
  par_err :: "proto_alloc_err option"

definition proto_allocate_result_default :: proto_allocate_result where
  "proto_allocate_result_default =
     \<lparr>par_type = Some TypeAllocated, par_allocation = None, par_err = Some ProtoAllocUnknown\<rparr>"

definition allocate_as_bytes ::
  "(proto_allocate_shard \<Rightarrow> 'err + bytes) \<Rightarrow> allocate_shard_msg \<Rightarrow> message_wrap_err + bytes" where
  "allocate_as_bytes w m =
     to_bytes w \<lparr>pas_shard_id = alloc_shard_id m, pas_rebalancing = alloc_rebalancing m\<rparr>"

definition allocate_from_bytes ::
  "(bytes \<Rightarrow> 'err + proto_allocate_shard) \<Rightarrow> bytes \<Rightarrow> message_unwrap_err + allocate_shard_msg" where
  "allocate_from_bytes p b =
     map_sum id (\<lambda>m. \<lparr>alloc_shard_id = pas_shard_id m, alloc_rebalancing = pas_rebalancing m\<rparr>) (parse_bytes p b)"

definition unwrap_opt :: "'a option \<Rightarrow> 'a may_panic" where
  "unwrap_opt x = (case x of Some v \<Rightarrow> Inr v | None \<Rightarrow> Inl (Panic ''called unwrap on a None value''))"

definition allocate_read_result ::
  "(bytes \<Rightarrow> 'err + proto_allocate_result) \<Rightarrow> bytes \<Rightarrow> (message_unwrap_err + allocate_shard_result) may_panic" where
  "allocate_read_result p b =
     (case parse_bytes p b of
        Inl e \<Rightarrow> Inr (Inl e)
      | Inr r \<Rightarrow>
          (case unwrap_opt (par_type r) of
             Inl e \<Rightarrow> Inl e
           | Inr TypeAllocated \<Rightarrow>
               map_sum id (\<lambda>a. Inr (Allocated (prs_shard_id a) (prs_node_id a))) (unwrap_opt (par_allocation r))
           | Inr TypeAlreadyAllocated \<Rightarrow>
               map_sum id (\<lambda>a. Inr (AlreadyAllocated (prs_shard_id a) (prs_node_id a))) (unwrap_opt (par_allocation r))
           | Inr TypeNotAllocated \<Rightarrow> Inr (Inr NotAllocated)
           | Inr TypeErr \<Rightarrow>
               map_sum id
                 (\<lambda>e. Inr (AllocErr (case e of ProtoAllocPersistence \<Rightarrow> AllocPersistence | ProtoAllocUnknown \<Rightarrow> AllocUnknown)))
                 (unwrap_opt (par_err r))))"

definition allocate_write_result ::
  "(proto_allocate_result \<Rightarrow> 'err + bytes) \<Rightarrow> allocate_shard_result \<Rightarrow> message_wrap_err + bytes" where
  "allocate_write_result w res =
     to_bytes w
       (case res of
          Allocated sid nid \<Rightarrow>
            proto_allocate_result_default\<lparr>par_type := Some TypeAllocated,
              par_allocation := Some \<lparr>prs_shard_id = sid, prs_node_id = nid\<rparr>\<rparr>
        | AlreadyAllocated sid nid \<Rightarrow>
            proto_allocate_result_default\<lparr>par_type := Some TypeAlreadyAllocated,
              par_allocation := Some \<lparr>prs_shard_id = sid, prs_node_id = nid\<rparr>\<rparr>
        | NotAllocated \<Rightarrow> proto_allocate_result_default\<lparr>par_type := Some TypeNotAllocated\<rparr>
        | AllocErr e \<Rightarrow>
            proto_allocate_result_default\<lparr>par_type := Some TypeErr,
              par_err := Some (case e of AllocPersistence \<Rightarrow> ProtoAllocPersistence | AllocUnknown \<Rightarrow> ProtoAllocUnknown)\<rparr>)"

section \<open>Statistics\<close>

datatype proto_host_status = ProtoUnknown | ProtoStarting | ProtoReady | ProtoUnavailable

definition status_to_proto :: "shard_host_status \<Rightarrow> proto_host_status" where
  "status_to_proto s =
     (case s of HostUnknown \<Rightarrow> ProtoUnknown | HostStarting \<Rightarrow> ProtoStarting | HostReady \<Rightarrow> ProtoReady
      | HostUnavailable \<Rightarrow> ProtoUnavailable)"

definition status_from_proto :: "proto_host_status \<Rightarrow> shard_host_status" where
  "status_from_proto s =
     (case s of ProtoUnknown \<Rightarrow> HostUnknown | ProtoStarting \<Rightarrow> HostStarting | ProtoReady \<Rightarrow> HostReady
      | ProtoUnavailable \<Rightarrow> HostUnavailable)"

record proto_node_stats =
  pns_node_id :: node_id
  pns_shard_count :: u64
  pns_status :: "proto_host_status option"

record proto_sharding_stats =
  pss_entity_type :: string
  pss_total_shards :: u64
  pss_shards :: "proto_remote_shard list"
  pss_nodes :: "proto_node_stats list"

definition sharding_stats_write ::
  "(proto_sharding_stats \<Rightarrow> 'err + bytes) \<Rightarrow> sharding_stats \<Rightarrow> message_wrap_err + bytes" where
  "sharding_stats_write w s =
     to_bytes w
       \<lparr>pss_entity_type = stats_entity_type s, pss_total_shards = stats_total_shards s,
        pss_shards = map (\<lambda>(sid, nid). \<lparr>prs_shard_id = sid, prs_node_id = nid\<rparr>) (stats_shards s),
        pss_nodes = map (\<lambda>n. \<lparr>pns_node_id = stats_node_id n, pns_shard_count = stats_shard_count n,
                              pns_status = Some (status_to_proto (stats_status n))\<rparr>) (stats_nodes s)\<rparr>"

fun node_stats_read :: "proto_node_stats list \<Rightarrow> (node_stats list) may_panic" where
  "node_stats_read [] = Inr []"
| "node_stats_read (n # ns) =
     (case unwrap_opt (pns_status n) of
        Inl e \<Rightarrow> Inl e
      | Inr st \<Rightarrow>
          map_sum id
            ((#) \<lparr>stats_node_id = pns_node_id n, stats_shard_count = pns_shard_count n, stats_status = status_from_proto st\<rparr>)
            (node_stats_read ns))"

definition sharding_stats_read ::
  "(bytes \<Rightarrow> 'err + proto_sharding_stats) \<Rightarrow> bytes \<Rightarrow> (message_unwrap_err + sharding_stats) may_panic" where
  "sharding_stats_read p b =
     (case parse_bytes p b of
        Inl e \<Rightarrow> Inr (Inl e)
      | Inr s \<Rightarrow>
          map_sum id
            (\<lambda>ns. Inr \<lparr>stats_entity_type = pss_entity_type s, stats_total_shards = pss_total_shards s,
                       stats_shards = map (\<lambda>r. (prs_shard_id r, prs_node_id r)) (pss_shards s), stats_nodes = ns\<rparr>)
            (node_stats_read (pss_nodes s)))"

text \<open>The question has no fields; its decoder ignores what it parses. The shard's does not even parse.\<close>

definition get_stats_as_bytes :: "(unit \<Rightarrow> 'err + bytes) \<Rightarrow> message_wrap_err + bytes" where
  "get_stats_as_bytes w = to_bytes w ()"

definition get_stats_from_bytes :: "(bytes \<Rightarrow> 'err + unit) \<Rightarrow> bytes \<Rightarrow> message_unwrap_err + unit" where
  "get_stats_from_bytes p b = map_sum id (\<lambda>_. ()) (parse_bytes p b)"

definition get_shard_stats_from_bytes :: "bytes \<Rightarrow> message_unwrap_err + unit" where
  "get_shard_stats_from_bytes b = Inr ()"

record proto_shard_stats =
  psh_shard_id :: shard_id
  psh_node_id :: node_id
  psh_entities :: "string list"

definition shard_stats_write :: "(proto_shard_stats \<Rightarrow> 'err + bytes) \<Rightarrow> shard_stats \<Rightarrow> message_wrap_err + bytes" where
  "shard_stats_write w s =
     to_bytes w \<lparr>psh_shard_id = sst_shard_id s, psh_node_id = sst_node_id s, psh_entities = sst_entities s\<rparr>"

definition shard_stats_read :: "(bytes \<Rightarrow> 'err + proto_shard_stats) \<Rightarrow> bytes \<Rightarrow> message_unwrap_err + shard_stats" where
  "shard_stats_read p b =
     map_sum id (\<lambda>s. \<lparr>sst_shard_id = psh_shard_id s, sst_node_id = psh_node_id s,
                       sst_entities = fold hs_insert (psh_entities s) []\<rparr>)
       (parse_bytes p b)"

section \<open>The events of a shard\<close>

record proto_entity =
  pen_actor_id :: string
  pen_recipe :: bytes

definition shard_event_as_bytes ::
  "(proto_entity \<Rightarrow> 'err + bytes) \<Rightarrow> (string \<Rightarrow> 'err + bytes) \<Rightarrow> (string \<Rightarrow> 'err + bytes) \<Rightarrow> shard_event \<Rightarrow>
   message_wrap_err + bytes" where
  "shard_event_as_bytes w_start w_remove w_passivate ev =
     (case ev of
        StartEntity aid rcp \<Rightarrow> to_bytes w_start \<lparr>pen_actor_id = aid, pen_recipe = rcp\<rparr>
      | RemoveEntity aid \<Rightarrow> to_bytes w_remove aid
      | PassivateEntity aid \<Rightarrow> to_bytes w_passivate aid)"

definition start_entity_from_bytes :: "(bytes \<Rightarrow> 'err + proto_entity) \<Rightarrow> bytes \<Rightarrow> message_unwrap_err + shard_event" where
  "start_entity_from_bytes p b = map_sum id (\<lambda>e. StartEntity (pen_actor_id e) (pen_recipe e)) (parse_bytes p b)"

definition remove_entity_from_bytes :: "(bytes \<Rightarrow> 'err + string) \<Rightarrow> bytes \<Rightarrow> message_unwrap_err + shard_event" where
  "remove_entity_from_bytes p b = map_sum id RemoveEntity (parse_bytes p b)"

definition passivate_entity_from_bytes :: "(bytes \<Rightarrow> 'err + string) \<Rightarrow> bytes \<Rightarrow> message_unwrap_err + shard_event" where
  "passivate_entity_from_bytes p b = map_sum id PassivateEntity (parse_bytes p b)"

section \<open>Round trips\<close>

lemma allocate_roundtrip:
  "proto_roundtrip w p \<Longrightarrow> allocate_as_bytes w m = Inr b \<Longrightarrow> allocate_from_bytes p b = Inr m"
  by (simp add: allocate_as_bytes_def allocate_from_bytes_def to_bytes_parse)

lemma allocate_result_roundtrip:
  "proto_roundtrip w p \<Longrightarrow> allocate_write_result w r = Inr b \<Longrightarrow> allocate_read_result p b = Inr (Inr r)"
  by (auto simp: allocate_write_result_def allocate_read_result_def to_bytes_parse proto_allocate_result_default_def
      unwrap_opt_def split: allocate_shard_result.splits allocate_shard_err.splits)

lemma status_roundtrip [simp]: "status_from_proto (status_to_proto s) = s"
  by (cases s) (simp_all add: status_to_proto_def status_from_proto_def)

lemma node_stats_roundtrip:
  "node_stats_read (map (\<lambda>n. \<lparr>pns_node_id = stats_node_id n, pns_shard_count = stats_shard_count n,
      pns_status = Some (status_to_proto (stats_status n))\<rparr>) ns) = Inr ns"
  by (induction ns) (simp_all add: unwrap_opt_def)

lemma sharding_stats_roundtrip:
  "proto_roundtrip w p \<Longrightarrow> sharding_stats_write w s = Inr b \<Longrightarrow> sharding_stats_read p b = Inr (Inr s)"
  by (simp add: sharding_stats_write_def sharding_stats_read_def to_bytes_parse node_stats_roundtrip comp_def case_prod_beta)

lemma shard_event_roundtrip:
  assumes "proto_roundtrip w1 p1" "proto_roundtrip w2 p2" "proto_roundtrip w3 p3"
    and "shard_event_as_bytes w1 w2 w3 ev = Inr b"
  shows "(case ev of StartEntity _ _ \<Rightarrow> start_entity_from_bytes p1 b | RemoveEntity _ \<Rightarrow> remove_entity_from_bytes p2 b
          | PassivateEntity _ \<Rightarrow> passivate_entity_from_bytes p3 b) = Inr ev"
  using assms
  by (cases ev)
     (simp_all add: shard_event_as_bytes_def start_entity_from_bytes_def remove_entity_from_bytes_def
       passivate_entity_from_bytes_def to_bytes_parse)

section \<open>The coordinator as a persistent actor\<close>

text \<open>The part of the message trait that a journal uses.\<close>

definition allocate_event ::
  "(proto_allocate_shard \<Rightarrow> 'err + bytes) \<Rightarrow> (bytes \<Rightarrow> 'err + proto_allocate_shard) \<Rightarrow>
   (allocate_shard_msg, allocate_shard_result) message_impl" where
  "allocate_event w p = default_message\<lparr>as_bytes := allocate_as_bytes w, from_bytes := allocate_from_bytes p\<rparr>"

definition coordinator_actor ::
  "(bytes \<Rightarrow> 'err + proto_allocate_shard) \<Rightarrow> node_id \<Rightarrow> string \<Rightarrow> remote_node_state list \<Rightarrow>
   shard_coordinator persistent_impl" where
  "coordinator_actor p self tag ns =
     \<lparr>persistence_key = (\<lambda>s. coordinator_persistence_key (fst s)),
      configured_types = types_message ''AllocateShard'' ''AllocateShard''
        (message_recovery_handler (allocate_from_bytes p) (\<lambda>s m. (recover_allocate_shard (fst s) m, snd s))
           ''AllocateShard'' ''ShardCoordinator'')
        journal_types_default,
      pre_recovery = (\<lambda>s. (fst (coordinator_pre_recovery self tag ns (fst s)), snd s)),
      post_recovery = id,
      recovery_failure_policy = (\<lambda>_. recovery_failure_policy_default),
      persist_failure_policy = (\<lambda>_. persist_failure_policy_default),
      on_recovery_err = (\<lambda>_. id), on_recovery_failed = id\<rparr>"

text \<open>\<open>Handler<AllocateShard>\<close> with its journal: the message is persisted only when its shard is new.\<close>

definition serve_allocate ::
  "shard_coordinator persistent_impl \<Rightarrow> 's journal_storage \<Rightarrow> (allocate_shard_msg, allocate_shard_result) message_impl \<Rightarrow>
   allocate_shard_msg \<Rightarrow> shard_coordinator \<Rightarrow> actor_context \<Rightarrow> (shard_coordinator \<times> actor_context) journal option \<Rightarrow> 's \<Rightarrow>
   ((allocate_shard_result \<times> shard_coordinator \<times> coordinator_action list) \<times> actor_context \<times>
    (shard_coordinator \<times> actor_context) journal option \<times> 's) may_panic option" where
  "serve_allocate P ops M msg c ctx jo st =
     (if hm_get (shards c) (alloc_shard_id msg) \<noteq> None \<or> alloc_rebalancing msg
      then Some (Inr (handle_allocate_shard (Inr ()) msg c, ctx, jo, st))
      else map_option (map_sum id (\<lambda>(res, rest). (handle_allocate_shard res msg c, rest)))
             (persist P ops M ''AllocateShard'' msg c ctx jo st))"

fun serve_all ::
  "shard_coordinator persistent_impl \<Rightarrow> 's journal_storage \<Rightarrow> (allocate_shard_msg, allocate_shard_result) message_impl \<Rightarrow>
   allocate_shard_msg list \<Rightarrow> shard_coordinator \<Rightarrow> actor_context \<Rightarrow> (shard_coordinator \<times> actor_context) journal option \<Rightarrow> 's \<Rightarrow>
   (shard_coordinator \<times> actor_context \<times> (shard_coordinator \<times> actor_context) journal option \<times> 's) option" where
  "serve_all P ops M [] c ctx jo st = Some (c, ctx, jo, st)"
| "serve_all P ops M (m # ms) c ctx jo st =
     (case serve_allocate P ops M m c ctx jo st of
        Some (Inr ((_, c', _), ctx', jo', st')) \<Rightarrow> serve_all P ops M ms c' ctx' jo' st'
      | _ \<Rightarrow> None)"

section \<open>What it persists\<close>

fun fresh_requests :: "shard_coordinator \<Rightarrow> allocate_shard_msg list \<Rightarrow> allocate_shard_msg list" where
  "fresh_requests c [] = []"
| "fresh_requests c (m # ms) =
     (if hm_get (shards c) (alloc_shard_id m) \<noteq> None then fresh_requests c ms
      else m # fresh_requests (recover_allocate_shard c m) ms)"

lemma fresh_requests_subset: "set (fresh_requests c ms) \<subseteq> set ms"
  by (induction ms arbitrary: c) auto

lemma length_fresh_requests: "length (fresh_requests c ms) \<le> length ms"
  by (induction ms arbitrary: c) (auto intro: le_SucI)

lemma serve_all_persists:
  assumes "\<forall>m \<in> set ms. as_bytes M m = Inr (enc m) \<and> \<not> alloc_rebalancing m"
    and "message_type_mapping (journal_types j) ''AllocateShard'' \<noteq> None"
  shows "\<exists>j' st'.
    run_ops inmemory_storage (map (\<lambda>m. OpMessage ''AllocateShard'' (enc m)) (fresh_requests c ms)) j st = Some (j', st') \<and>
    serve_all P inmemory_storage M ms c ctx (Some j) st =
      Some (foldl recover_allocate_shard c (fresh_requests c ms), ctx, Some j', st')"
  using assms
proof (induction ms arbitrary: c j st)
  case (Cons m ms)
  show ?case
  proof (cases "hm_get (shards c) (alloc_shard_id m)")
    case None
    obtain j1 st1 where op: "run_op inmemory_storage (OpMessage ''AllocateShard'' (enc m)) j st = Some (j1, st1)"
      and j1: "journal_types j1 = journal_types j"
      using inmemory_run_op_total [of "OpMessage ''AllocateShard'' (enc m)" j st] Cons.prems(2) by auto
    have "as_bytes M m = Inr (enc m)" using Cons.prems(1) by simp
    from persist_run_op [OF this op]
    have "serve_allocate P inmemory_storage M m c ctx (Some j) st =
        Some (Inr (allocate_shard (alloc_shard_id m) c, ctx, Some j1, st1))"
      using None Cons.prems(1) by (simp add: serve_allocate_def handle_allocate_shard_def)
    then have "serve_all P inmemory_storage M (m # ms) c ctx (Some j) st =
        serve_all P inmemory_storage M ms (recover_allocate_shard c m) ctx (Some j1) st1"
      by (simp add: recover_allocate_shard_def case_prod_beta)
    moreover have "\<exists>j' st'.
      run_ops inmemory_storage (map (\<lambda>m. OpMessage ''AllocateShard'' (enc m)) (fresh_requests (recover_allocate_shard c m) ms))
        j1 st1 = Some (j', st') \<and>
      serve_all P inmemory_storage M ms (recover_allocate_shard c m) ctx (Some j1) st1 =
        Some (foldl recover_allocate_shard (recover_allocate_shard c m) (fresh_requests (recover_allocate_shard c m) ms),
          ctx, Some j', st')"
      using Cons.prems j1 by (intro Cons.IH) simp_all
    ultimately show ?thesis using None op by (simp del: run_op.simps serve_all.simps)
  next
    case (Some n)
    then have "serve_allocate P inmemory_storage M m c ctx (Some j) st =
        Some (Inr ((AlreadyAllocated (alloc_shard_id m) n, c, []), ctx, Some j, st))"
      by (simp add: serve_allocate_def handle_allocate_shard_def)
    with Some Cons.IH [of j c st] Cons.prems show ?thesis by simp
  qed
qed simp

section \<open>A new coordinator\<close>

lemma pre_recovery_state:
  fixes entity self tag ns
  defines "c0 \<equiv> fst (coordinator_pre_recovery self tag ns (shard_coordinator_new entity))"
  shows "hm_get (shards c0) s = None" and "shard_entity c0 = entity" and "ready c0 self"
proof -
  define P where "P = (\<lambda>c. shards c = [] \<and> shard_entity c = entity \<and> ready c self)"
  have loop: "P (fold (\<lambda>n c. if state_id n \<noteq> self then add_host (f n) c else c) ns c)"
    if "P c" and "\<And>n. host_node_id (f n) = state_id n" for f c
    using that(1)
  proof (induction ns arbitrary: c)
    case (Cons n ns)
    then have "state_id n \<noteq> self \<Longrightarrow> P (add_host (f n) c)"
      using that(2) [of n] by (simp add: P_def add_host_def ready_def)
    with Cons show ?case by simp
  qed simp
  have "P c0"
    unfolding c0_def coordinator_pre_recovery_def Let_def fst_conv
    by (rule loop) (simp_all add: P_def add_host_def shard_coordinator_new_def ready_def is_ready_def)
  then show "hm_get (shards c0) s = None" "shard_entity c0 = entity" "ready c0 self" by (simp_all add: P_def)
qed

lemma pre_recovery_has_ready_host:
  "has_ready_host (fst (coordinator_pre_recovery self tag ns (shard_coordinator_new entity)))"
proof -
  have "coord_ok (fst (coordinator_pre_recovery self tag ns (shard_coordinator_new entity)))"
    using pre_recovery_inv by (simp add: coord_inv_def)
  note coord_ok_exceptD(1) [OF this]
  then show ?thesis using pre_recovery_state(3) [of self tag ns entity] by (simp only: has_ready_host_iff) (rule exI)
qed

lemma fresh_requests_shards:
  "alloc_shard_id ` set (fresh_requests c ms) \<union> {s. hm_get (shards c) s \<noteq> None} \<supseteq> alloc_shard_id ` set ms
    \<or> \<not> (coord_inv c \<and> has_ready_host c)"
proof (induction ms arbitrary: c)
  case (Cons m ms)
  show ?case
  proof (cases "coord_inv c \<and> has_ready_host c \<and> hm_get (shards c) (alloc_shard_id m) = None")
    case True
    let ?c1 = "recover_allocate_shard c m"
    from True coordinator_recovery_aux [of c "[m]"] have inv: "coord_inv ?c1"
      and new: "\<forall>s. hm_get (shards ?c1) s \<noteq> None \<longleftrightarrow> hm_get (shards c) s \<noteq> None \<or> s = alloc_shard_id m"
      by auto
    have "coord_ok c" using True by (simp add: coord_inv_def)
    from allocate_shard_effect(1) [OF this, of "alloc_shard_id m"]
    have "ready ?c1 = ready c" by (simp add: recover_allocate_shard_def)
    with True inv have "has_ready_host ?c1"
      using coord_ok_exceptD(1) by (auto simp: has_ready_host_iff coord_inv_def)
    with inv new True Cons.IH [of ?c1] show ?thesis by auto
  qed (use Cons.IH [of c] in auto)
qed simp

lemma fold_recover_pair:
  "fold (\<lambda>m s. (recover_allocate_shard (fst s) m, snd s)) ms (c, ctx) = (foldl recover_allocate_shard c ms, ctx)"
  by (induction ms arbitrary: c) simp_all

text \<open>C19: A coordinator that serves any list of allocation requests with the in-memory journal, and then
  disappears, is replaced without losing a shard: the coordinator that starts on another node with the
  same journal, whatever nodes it knows there, assigns exactly the shards the old one had assigned, which
  are the requested ones, every one of them to a host that is ready there, and it satisfies
  the invariant of the coordinator.\<close>

theorem coordinator_failover:
  fixes p :: "bytes \<Rightarrow> 'err + proto_allocate_shard" and store :: inmemory_store
  assumes "proto_roundtrip w p"
    and "\<forall>m \<in> set ms. \<not> alloc_rebalancing m \<and> (\<exists>b. allocate_as_bytes w m = Inr b)"
    and "hm_get store (entity @ ''-ShardCoordinator'') = None" and "int (length ms) \<le> i64_max"
  shows "\<exists>c j store' c' j'.
    serve_all (coordinator_actor p self tag ns) inmemory_storage (allocate_event w p) ms
      (fst (coordinator_pre_recovery self tag ns (shard_coordinator_new entity))) ctx
      (Some (journal_new (entity @ ''-ShardCoordinator'') (configured_types (coordinator_actor p self tag ns)))) store =
      Some (c, ctx, Some j, store') \<and>
    started (coordinator_actor p self' tag' ns') inmemory_storage (\<lambda>_. store') (shard_coordinator_new entity, ctx') =
      Some (Inr ((c', ctx'), j')) \<and>
    (\<forall>s. hm_get (shards c) s \<noteq> None \<longleftrightarrow> s \<in> alloc_shard_id ` set ms) \<and>
    (\<forall>s. hm_get (shards c') s \<noteq> None \<longleftrightarrow> s \<in> alloc_shard_id ` set ms) \<and>
    (\<forall>s n. hm_get (shards c') s = Some n \<longrightarrow>
       ready (fst (coordinator_pre_recovery self' tag' ns' (shard_coordinator_new entity))) n) \<and>
    coord_inv c'"
proof -
  let ?P = "coordinator_actor p self tag ns" and ?P' = "coordinator_actor p self' tag' ns'"
  let ?key = "entity @ ''-ShardCoordinator''" and ?M = "allocate_event w p" and ?t = "''AllocateShard''"
  let ?c0 = "fst (coordinator_pre_recovery self tag ns (shard_coordinator_new entity))"
  let ?c0' = "fst (coordinator_pre_recovery self' tag' ns' (shard_coordinator_new entity))"
  let ?fresh = "fresh_requests ?c0 ms" and ?j0 = "journal_new ?key (configured_types ?P)"
  obtain enc where enc: "\<forall>m \<in> set ms. as_bytes ?M m = Inr (enc m) \<and> \<not> alloc_rebalancing m"
    using bchoice [of "set ms" "\<lambda>m b. allocate_as_bytes w m = Inr b"] assms(2) by (auto simp: allocate_event_def)
  have types: "configured_types ?P = types_message ?t ?t
      (message_recovery_handler (from_bytes ?M) (\<lambda>s m. (recover_allocate_shard (fst s) m, snd s)) ?t ''ShardCoordinator'')
      journal_types_default" "configured_types ?P' = configured_types ?P"
    by (simp_all add: coordinator_actor_def allocate_event_def)
  have mapped: "message_type_mapping (journal_types ?j0) ?t \<noteq> None"
    by (simp add: types journal_new_def message_type_mapping_def types_message_def journal_types_default_def)
  obtain j store' where run: "run_ops inmemory_storage (map (\<lambda>m. OpMessage ?t (enc m)) ?fresh) ?j0 store = Some (j, store')"
    and served: "serve_all ?P inmemory_storage ?M ms ?c0 ctx (Some ?j0) store =
      Some (foldl recover_allocate_shard ?c0 ?fresh, ctx, Some j, store')"
    using serve_all_persists [OF enc mapped, of ?c0 store ?P ctx] by blast
  have enc': "\<forall>m \<in> set ?fresh. as_bytes ?M m = Inr (enc m)" using enc fresh_requests_subset by fastforce
  have wire: "wire_message ?M"
    using assms(1) by (auto simp: wire_message_def allocate_event_def intro: allocate_roundtrip)
  have len: "int (length ?fresh) \<le> i64_max" using assms(4) length_fresh_requests [of ?c0 ms] by linarith
  have key: "persistence_key ?P' (pre_recovery ?P' (shard_coordinator_new entity, ctx')) = ?key"
    by (simp add: coordinator_actor_def coordinator_persistence_key_def pre_recovery_state)
  obtain j2 store2 j' where es:
      "persist_all ?P' inmemory_storage ?M ?t ?fresh ?c0 ctx (Some (journal_new ?key (configured_types ?P'))) store =
         Some (ctx, Some j2, store2)"
      "started ?P' inmemory_storage (\<lambda>_. store2) (shard_coordinator_new entity, ctx') =
         Some (Inr (post_recovery ?P' (fold (\<lambda>m s. (recover_allocate_shard (fst s) m, snd s)) ?fresh
           (pre_recovery ?P' (shard_coordinator_new entity, ctx'))), j'))"
    using event_sourcing_aux [OF wire enc' types(1) [folded types(2)] key assms(3) len, of ?c0 ctx]
    by (elim exE conjE) (rule that)
  from es(1) persist_all_run_ops [OF enc' run, of ?P' ?c0 ctx] have "store2 = store'" by (simp add: types(2))
  with es(2) have restarted: "started ?P' inmemory_storage (\<lambda>_. store') (shard_coordinator_new entity, ctx') =
      Some (Inr ((foldl recover_allocate_shard ?c0' ?fresh, ctx'), j'))"
    by (simp add: coordinator_actor_def fold_recover_pair)
  have "alloc_shard_id ` set ms \<subseteq> alloc_shard_id ` set ?fresh"
    using fresh_requests_shards [of ms ?c0] pre_recovery_inv pre_recovery_has_ready_host
    by (simp add: pre_recovery_state(1))
  with fresh_requests_subset [of ?c0 ms] have requested: "alloc_shard_id ` set ?fresh = alloc_shard_id ` set ms" by blast
  note rec = coordinator_recovery_aux [OF pre_recovery_inv pre_recovery_has_ready_host, of _ _ _ entity ?fresh]
  have old: "\<forall>s. hm_get (shards (foldl recover_allocate_shard ?c0 ?fresh)) s \<noteq> None \<longleftrightarrow> s \<in> alloc_shard_id ` set ms"
    using rec [of self tag ns] by (simp only: requested pre_recovery_state(1)) simp
  have new: "\<forall>s. hm_get (shards (foldl recover_allocate_shard ?c0' ?fresh)) s \<noteq> None \<longleftrightarrow> s \<in> alloc_shard_id ` set ms"
    "\<forall>s n. hm_get (shards (foldl recover_allocate_shard ?c0' ?fresh)) s = Some n \<longrightarrow> ready ?c0' n"
    "coord_inv (foldl recover_allocate_shard ?c0' ?fresh)"
    using rec [of self' tag' ns'] by (simp_all only: requested pre_recovery_state(1)) simp_all
  show ?thesis
    by (intro exI conjI, rule served, rule restarted, rule old, rule new(1), rule new(2), rule new(3))
qed

text \<open>An encoding in unary, and a coordinator of node 1 that is replaced by one of node 2.\<close>

definition unary_write :: "proto_allocate_shard \<Rightarrow> unit + bytes" where
  "unary_write m = Inr ((if pas_rebalancing m then 1 else 0) # replicate (unat (pas_shard_id m)) 0)"

definition unary_parse :: "bytes \<Rightarrow> unit + proto_allocate_shard" where
  "unary_parse b =
     (case b of [] \<Rightarrow> Inl () | x # xs \<Rightarrow> Inr \<lparr>pas_shard_id = word_of_nat (length xs), pas_rebalancing = (x = 1)\<rparr>)"

lemma unary_allocate_roundtrip: "proto_roundtrip unary_write unary_parse"
  by (auto simp: proto_roundtrip_def unary_write_def unary_parse_def)

theorem coordinator_failover_witness:
  "\<exists>c j store' c' j'.
    serve_all (coordinator_actor unary_parse 1 ''a'' []) inmemory_storage (allocate_event unary_write unary_parse)
      [ex_event 3, ex_event 4, ex_event 3]
      (fst (coordinator_pre_recovery 1 ''a'' [] (shard_coordinator_new ''room''))) ex_ctx
      (Some (journal_new (''room'' @ ''-ShardCoordinator'') (configured_types (coordinator_actor unary_parse 1 ''a'' [])))) [] =
      Some (c, ex_ctx, Some j, store') \<and>
    started (coordinator_actor unary_parse 2 ''b'' []) inmemory_storage (\<lambda>_. store')
      (shard_coordinator_new ''room'', ex_ctx) = Some (Inr ((c', ex_ctx), j')) \<and>
    (\<forall>s. hm_get (shards c) s \<noteq> None \<longleftrightarrow> s \<in> alloc_shard_id ` set [ex_event 3, ex_event 4, ex_event 3]) \<and>
    (\<forall>s. hm_get (shards c') s \<noteq> None \<longleftrightarrow> s \<in> alloc_shard_id ` set [ex_event 3, ex_event 4, ex_event 3]) \<and>
    (\<forall>s n. hm_get (shards c') s = Some n \<longrightarrow>
       ready (fst (coordinator_pre_recovery 2 ''b'' [] (shard_coordinator_new ''room''))) n) \<and>
    coord_inv c'"
proof -
  have "\<forall>m \<in> set [ex_event 3, ex_event 4, ex_event 3]. \<not> alloc_rebalancing m \<and> (\<exists>b. allocate_as_bytes unary_write m = Inr b)"
    by (simp add: ex_event_def allocate_as_bytes_def to_bytes_def unary_write_def)
  then show ?thesis by (intro coordinator_failover [OF unary_allocate_roundtrip]) (simp_all add: i64_max_def)
qed

end
