(* ===== verification/Actor_Services.thy ===== *)
theory Actor_Services
  imports Actor_Lifecycle
begin

text \<open>
  What the actor runtime offers around its loop: watching (\<open>actor/watch\<close>), messages on their way through a
  mailbox (\<open>actor/message/mod.rs\<close>), creating actors and converting references (\<open>actor/mod.rs\<close>,
  \<open>actor/refs/mod.rs\<close>), the blocking interface (\<open>actor/blocking.rs\<close>), timers and delayed messages
  (\<open>actor/scheduler/timer.rs\<close>), attached streams (\<open>actor/context.rs\<close>), and the actor system as a whole
  (\<open>actor/system\<close>).

  Time is a number of milliseconds, with instants of outside events as parameters. A loop that need
  not end is run for a given number of iterations.
\<close>

section \<open>Watching\<close>

text \<open>\<open>ActorWatch::watch\<close> and \<open>unwatch\<close> put a message into the mailbox of the subject.\<close>

definition watch :: "actor_ref \<Rightarrow> 'u mailbox_msg mailbox \<Rightarrow> 'u mailbox_msg mailbox" where
  "watch self mb = snd (local_notify (MWatch self) mb)"

definition unwatch :: "actor_context \<Rightarrow> 'u mailbox_msg mailbox \<Rightarrow> 'u mailbox_msg mailbox" where
  "unwatch ctx mb = snd (local_notify (MUnwatch (ref_id (boxed_ref ctx))) mb)"

section \<open>A message and its result\<close>

record 'm actor_message =
  am_msg :: "'m option"
  am_sender :: "sender option"

definition actor_message_new :: "'m \<Rightarrow> sender option \<Rightarrow> 'm actor_message" where
  "actor_message_new m tx = \<lparr>am_msg = Some m, am_sender = tx\<rparr>"

text \<open>The result goes to the sender, if there is one; a second call finds no message to unwrap.\<close>

definition actor_message_handle ::
  "('m \<Rightarrow> 'a \<Rightarrow> actor_context \<Rightarrow> 'r \<times> 'a \<times> actor_context) \<Rightarrow> 'm actor_message \<Rightarrow> 'a \<Rightarrow> actor_context \<Rightarrow>
   ('m actor_message \<times> 'a \<times> actor_context \<times> (sender \<times> 'r) list) may_panic" where
  "actor_message_handle h am a ctx =
     (case am_msg am of
        None \<Rightarrow> Inl (Panic ''called unwrap on a None value'')
      | Some m \<Rightarrow>
          (let (res, a', ctx') = h m a ctx
           in Inr (am\<lparr>am_msg := None, am_sender := None\<rparr>, a', ctx',
                   case am_sender am of Some tx \<Rightarrow> [(tx, res)] | None \<Rightarrow> [])))"

definition exec_handle :: "('a \<Rightarrow> 'r \<times> 'a) \<Rightarrow> 'a \<Rightarrow> actor_context \<Rightarrow> 'r \<times> 'a \<times> actor_context" where
  "exec_handle func a ctx = (let (res, a') = func a in (res, a', ctx))"

section \<open>References of either kind\<close>

datatype 'rem any_ref = LocalRef actor_ref | RemoteRef 'rem

definition is_local :: "'rem any_ref \<Rightarrow> bool" where
  "is_local r = (case r of LocalRef _ \<Rightarrow> True | _ \<Rightarrow> False)"

definition is_remote :: "'rem any_ref \<Rightarrow> bool" where
  "is_remote r = (case r of RemoteRef _ \<Rightarrow> True | _ \<Rightarrow> False)"

definition unwrap_remote :: "'rem any_ref \<Rightarrow> 'rem may_panic" where
  "unwrap_remote r =
     (case r of RemoteRef x \<Rightarrow> Inr x | _ \<Rightarrow> Inl (Panic ''ActorRef does not contain a remote ref''))"

definition unwrap_local :: "'rem any_ref \<Rightarrow> actor_ref may_panic" where
  "unwrap_local r =
     (case r of LocalRef x \<Rightarrow> Inr x | _ \<Rightarrow> Inl (Panic ''ActorRef does not contain a local ref''))"

text \<open>\<open>remote_notify\<close> stands for the remote reference's own operation.\<close>

definition any_ref_notify ::
  "('m, 'r) message_impl \<Rightarrow> ('rem \<Rightarrow> 'm envelope \<Rightarrow> actor_ref_err + unit) \<Rightarrow> 'm \<Rightarrow> 'rem any_ref \<Rightarrow> 'm mailbox \<Rightarrow>
   (actor_ref_err + unit) \<times> 'm mailbox" where
  "any_ref_notify M remote_notify msg r mb =
     (case r of
        LocalRef _ \<Rightarrow> local_notify msg mb
      | RemoteRef x \<Rightarrow>
          ((case as_bytes M msg of
              Inr b \<Rightarrow> remote_notify x (EnvRemote b)
            | Inl e \<Rightarrow> Inl (Serialisation e)), mb))"

text \<open>Two local references are equal when path and id are, whatever mailbox they send to.\<close>

definition local_ref_eq :: "actor_ref \<Rightarrow> actor_ref \<Rightarrow> bool" where
  "local_ref_eq r r' \<longleftrightarrow> ref_path r = ref_path r' \<and> ref_id r = ref_id r'"

definition pipe_to ::
  "('m, 'r) message_impl \<Rightarrow> ('rem \<Rightarrow> 'm envelope \<Rightarrow> actor_ref_err + unit) \<Rightarrow> 'm \<Rightarrow> 'rem any_ref \<Rightarrow> 'm mailbox \<Rightarrow> 'm mailbox" where
  "pipe_to M remote_notify result r mb = snd (any_ref_notify M remote_notify result r mb)"

section \<open>Creating actors\<close>

text \<open>\<open>fresh\<close> is the identifier that \<open>new_actor_id\<close> makes up.\<close>

definition new_tracked_actor ::
  "string \<Rightarrow> type_name \<Rightarrow> actor_id \<Rightarrow> mailbox_id \<Rightarrow> bool \<Rightarrow> actor_scheduler option \<Rightarrow>
   (actor_ref_err + actor_ref) \<times> actor_scheduler option \<times> scheduler_action list" where
  "new_tracked_actor sys ty fresh mb ok sched = new_actor sys ty fresh Tracked mb ok sched"

definition new_anon_actor ::
  "string \<Rightarrow> type_name \<Rightarrow> actor_id \<Rightarrow> mailbox_id \<Rightarrow> bool \<Rightarrow> actor_scheduler option \<Rightarrow>
   (actor_ref_err + actor_ref) \<times> actor_scheduler option \<times> scheduler_action list" where
  "new_anon_actor sys ty fresh mb ok sched = new_actor sys ty fresh Anonymous mb ok sched"

definition into_actor ::
  "string \<Rightarrow> type_name \<Rightarrow> actor_id option \<Rightarrow> actor_id \<Rightarrow> mailbox_id \<Rightarrow> bool \<Rightarrow> actor_scheduler option \<Rightarrow>
   (actor_ref_err + actor_ref) \<times> actor_scheduler option \<times> scheduler_action list" where
  "into_actor sys ty aid fresh mb ok sched =
     (case aid of
        Some aid \<Rightarrow> new_actor sys ty aid Tracked mb ok sched
      | None \<Rightarrow> new_anon_actor sys ty fresh mb ok sched)"

definition into_anon_actor ::
  "string \<Rightarrow> type_name \<Rightarrow> actor_id option \<Rightarrow> actor_id \<Rightarrow> mailbox_id \<Rightarrow> bool \<Rightarrow> actor_scheduler option \<Rightarrow>
   (actor_ref_err + actor_ref) \<times> actor_scheduler option \<times> scheduler_action list" where
  "into_anon_actor sys ty aid fresh mb ok sched =
     new_actor sys ty (case aid of Some aid \<Rightarrow> aid | None \<Rightarrow> fresh) Anonymous mb ok sched"

definition into_child ::
  "actor_id option \<Rightarrow> actor_id \<Rightarrow> type_name \<Rightarrow> mailbox_id \<Rightarrow> bool \<Rightarrow> actor_context \<Rightarrow>
   ((actor_ref_err + actor_ref) \<times> actor_context) may_panic" where
  "into_child aid fresh ty mb ok ctx = ctx_spawn (case aid of Some aid \<Rightarrow> aid | None \<Rightarrow> fresh) ty mb ok ctx"

section \<open>The blocking interface\<close>

definition new_actor_blocking ::
  "string \<Rightarrow> type_name \<Rightarrow> actor_id \<Rightarrow> actor_type \<Rightarrow> mailbox_id \<Rightarrow> bool \<Rightarrow> actor_scheduler option \<Rightarrow>
   (actor_ref_err + actor_ref) \<times> actor_scheduler option \<times> scheduler_action list" where
  "new_actor_blocking system_name type_nm aid ty mb rx_ok sched =
     (let r = start_actor type_nm aid system_name mb;
          (sched', acts) =
            (if is_tracked ty then
               (case sched of
                  Some s \<Rightarrow> (let (s', acts) = register_actor aid r s in (Some s', acts))
                | None \<Rightarrow> (None, []))
             else (sched, []))
      in (if rx_ok then Inr r else Inl ActorStartFailed, sched', acts))"

definition send_blocking ::
  "'m \<Rightarrow> sender \<Rightarrow> 'r option \<Rightarrow> ('m \<times> sender option) mailbox \<Rightarrow>
   (actor_ref_err + 'r) \<times> ('m \<times> sender option) mailbox" where
  "send_blocking msg tx rx mb =
     (case mb of
        Some q \<Rightarrow> ((case rx of Some res \<Rightarrow> Inr res | None \<Rightarrow> Inl ResultChannelClosed), Some (q @ [(msg, Some tx)]))
      | None \<Rightarrow> (Inl InvalidRef, None))"

definition stop_blocking ::
  "(sender option \<Rightarrow> 'q) \<Rightarrow> sender \<Rightarrow> unit option \<Rightarrow> 'q mailbox \<Rightarrow> (actor_ref_err + unit) \<times> 'q mailbox" where
  "stop_blocking mk_stop tx rx mb =
     (let (res, mb') = local_notify (mk_stop (Some tx)) mb
      in (if res = Inr () then (case rx of Some _ \<Rightarrow> Inr () | None \<Rightarrow> Inl InvalidRef) else res, mb'))"

section \<open>Timers\<close>

datatype timer_mode = TimerNotify | TimerSend

text \<open>
  One timer: its period, the instant at which \<open>Timer::stop\<close> puts a value into the stop channel (never, when
  the timer is kept or only dropped: a closed channel is not a value), and for the k-th message
  how long it takes and whether it is accepted.
\<close>

record timer_world =
  tw_tick :: nat
  tw_stop_at :: "nat option"
  tw_duration :: "nat \<Rightarrow> nat"
  tw_accepted :: "nat \<Rightarrow> bool"

text \<open>
  \<open>next_tick\<close> is when \<open>interval.tick()\<close> returns next: a period after a reset, and otherwise the next
  scheduled instant, at once when that has passed.
\<close>

fun timer_iterations :: "nat \<Rightarrow> timer_world \<Rightarrow> timer_mode \<Rightarrow> nat \<Rightarrow> nat \<Rightarrow> nat \<Rightarrow> nat list \<times> bool" where
  "timer_iterations 0 tw mode k scheduled now = ([], False)"
| "timer_iterations (Suc n) tw mode k scheduled now =
     (if (case tw_stop_at tw of Some s \<Rightarrow> s \<le> now | None \<Rightarrow> False) then ([], True)
      else if \<not> tw_accepted tw k then ([now], True)
      else (let (next_scheduled, after) =
                  (case mode of
                     TimerSend \<Rightarrow> (now + tw_duration tw k + tw_tick tw, now + tw_duration tw k)
                   | TimerNotify \<Rightarrow> (scheduled + tw_tick tw, now));
                (ts, finished) = timer_iterations n tw mode (k + 1) next_scheduled (max after next_scheduled)
            in (now # ts, finished)))"

text \<open>\<open>interval_at\<close> refuses a period of zero; the panic ends the timer's task.\<close>

definition timer_loop :: "nat \<Rightarrow> timer_world \<Rightarrow> bool \<Rightarrow> timer_mode \<Rightarrow> nat \<Rightarrow> (nat list \<times> bool) may_panic" where
  "timer_loop n tw tick_immediately mode now =
     (let start = (if tick_immediately then now else now + tw_tick tw)
      in if tw_tick tw = 0 then Inl (Panic ''period must be non-zero'')
         else Inr (timer_iterations n tw mode 0 start start))"

definition timer_start_immediately :: "nat \<Rightarrow> timer_world \<Rightarrow> nat \<Rightarrow> (nat list \<times> bool) may_panic" where
  "timer_start_immediately n tw now = timer_loop n tw True TimerSend now"

definition timer_start :: "nat \<Rightarrow> timer_world \<Rightarrow> nat \<Rightarrow> (nat list \<times> bool) may_panic" where
  "timer_start n tw now = timer_loop n tw False TimerSend now"

text \<open>\<open>select!\<close> picks either branch when both are ready; \<open>pick\<close> resolves that.\<close>

definition scheduled_notify :: "bool \<Rightarrow> nat option \<Rightarrow> nat \<Rightarrow> 'q \<Rightarrow> 'q mailbox \<Rightarrow> 'q mailbox" where
  "scheduled_notify pick cancelled_at delay msg mb =
     (if (case cancelled_at of None \<Rightarrow> False | Some c \<Rightarrow> c < delay \<or> (c = delay \<and> pick))
      then mb else snd (local_notify msg mb))"

section \<open>Attached streams\<close>

text \<open>A converter that panics ends the stream's task, and the actor is not told.\<close>

fun attach_stream :: "bool \<Rightarrow> 'q \<Rightarrow> ('x \<Rightarrow> ('q option) may_panic) \<Rightarrow> ('e + 'x) list \<Rightarrow> 'q mailbox \<Rightarrow> 'q mailbox" where
  "attach_stream stop_on_stream_end stop_msg conv (Inr x # xs) mb =
     (case conv x of
        Inl _ \<Rightarrow> mb
      | Inr None \<Rightarrow> attach_stream stop_on_stream_end stop_msg conv xs mb
      | Inr (Some m) \<Rightarrow> attach_stream stop_on_stream_end stop_msg conv xs (snd (local_notify m mb)))"
| "attach_stream stop_on_stream_end stop_msg conv xs mb =
     (if stop_on_stream_end then snd (local_notify stop_msg mb) else mb)"

section \<open>The actor system\<close>

record actor_system =
  sys_id :: string
  sys_name :: string
  sys_scheduler :: actor_scheduler
  sys_terminated :: bool
  sys_context_counter :: u64
  sys_persistent :: bool
  sys_remote :: "node_id option"

text \<open>\<open>env\<close> is the variable \<open>COERCE_ACTOR_SYSTEM\<close>.\<close>

definition build_system :: "string option \<Rightarrow> string \<Rightarrow> string option \<Rightarrow> string option \<Rightarrow> bool \<Rightarrow> actor_system" where
  "build_system given_id fresh_id given_name env persistence =
     (let i = (case given_id of Some i \<Rightarrow> i | None \<Rightarrow> fresh_id);
          n = (case given_name of Some n \<Rightarrow> n | None \<Rightarrow> (case env of Some v \<Rightarrow> v | None \<Rightarrow> i))
      in \<lparr>sys_id = i, sys_name = n, sys_scheduler = scheduler_new, sys_terminated = False,
          sys_context_counter = 1, sys_persistent = persistence, sys_remote = None\<rparr>)"

definition to_remote :: "node_id \<Rightarrow> actor_system \<Rightarrow> actor_system" where
  "to_remote n s = s\<lparr>sys_remote := Some n\<rparr>"

definition to_persistent :: "actor_system \<Rightarrow> actor_system" where
  "to_persistent s = s\<lparr>sys_persistent := True\<rparr>"

definition system_remote :: "actor_system \<Rightarrow> node_id may_panic" where
  "system_remote s =
     (case sys_remote s of
        Some n \<Rightarrow> Inr n
      | None \<Rightarrow> Inl (Panic ''this ActorSystem is not setup for remoting''))"

datatype shutdown_effect = StopActor actor_ref | StopRemote node_id

text \<open>The flag is set first; then the scheduler stops, whose hook stops every tracked actor; then the remote part.\<close>

definition shutdown :: "actor_system \<Rightarrow> actor_system \<times> shutdown_effect list" where
  "shutdown s =
     (let s1 = s\<lparr>sys_terminated := True\<rparr>
      in (s1,
          map (StopActor \<circ> snd) (actors (sys_scheduler s1)) @
          (case sys_remote s1 of Some n \<Rightarrow> [StopRemote n] | None \<Rightarrow> [])))"

section \<open>Equivalences\<close>

text \<open>The blocking interface does what the asynchronous one does.\<close>

lemma new_actor_blocking_eq: "new_actor_blocking = new_actor"
  by (intro ext) (simp add: new_actor_blocking_def new_actor_def new_actor_deferred_def track_actor_def Let_def case_prod_beta)

lemma send_blocking_eq: "send_blocking = local_send"
  by (intro ext) (simp add: send_blocking_def local_send_def local_notify_def split: option.split)

lemma stop_blocking_eq: "stop_blocking = local_stop"
  by (intro ext) (simp add: stop_blocking_def local_stop_def local_notify_def split: option.split)

lemma local_ref_eq_equiv: "equivp local_ref_eq"
  by (rule equivpI) (auto simp: local_ref_eq_def reflp_def symp_def transp_def)

lemma handled_once:
  assumes "actor_message_handle h (actor_message_new m tx) a ctx = Inr (am, a', ctx', out)"
  shows "out = (case tx of Some tx \<Rightarrow> [(tx, fst (h m a ctx))] | None \<Rightarrow> [])"
    and "\<exists>p. actor_message_handle h am a' ctx' = Inl p"
  using assms by (auto simp: actor_message_handle_def actor_message_new_def Let_def case_prod_beta)

section \<open>Watchers are told\<close>

text \<open>The watchers left by the messages of a mailbox.\<close>

definition watch_step :: "'u mailbox_msg \<Rightarrow> (actor_id, actor_ref) hash_map \<Rightarrow> (actor_id, actor_ref) hash_map" where
  "watch_step m w = (case m of MWatch r \<Rightarrow> hm_insert (ref_id r) r w | MUnwatch i \<Rightarrow> hm_remove i w | _ \<Rightarrow> w)"

definition watching :: "'u mailbox_msg list \<Rightarrow> (actor_id, actor_ref) hash_map" where
  "watching ms = fold watch_step ms []"

definition notices :: "'e actor_event list \<Rightarrow> (actor_ref \<times> actor_ref) list" where
  "notices evs = concat (map (\<lambda>e. case e of TerminatedNotice w r \<Rightarrow> [(w, r)] | _ \<Rightarrow> []) evs)"

lemma notices_simps [simp]:
  "notices [] = []" "notices (xs @ ys) = notices xs @ notices ys"
  "notices (e # xs) = (case e of TerminatedNotice w r \<Rightarrow> [(w, r)] | _ \<Rightarrow> []) @ notices xs"
  by (simp_all add: notices_def)

lemma notices_none: "(\<And>e. e \<in> set evs \<Longrightarrow> \<forall>w r. e \<noteq> TerminatedNotice w r) \<Longrightarrow> notices evs = []"
  by (induction evs) (auto split: actor_event.split)

lemma notices_all: "notices (map (\<lambda>x. TerminatedNotice (f x) r) xs) = map (\<lambda>x. (f x, r)) xs"
  by (induction xs) simp_all

text \<open>User code that leaves the watchers alone.\<close>

definition keeps_watchers :: "('a, 'u, 'e) actor_impl \<Rightarrow> bool" where
  "keeps_watchers I \<longleftrightarrow>
     (\<forall>a ctx. watchers (snd (hook_started I a ctx)) = watchers ctx) \<and>
     (\<forall>a ctx. watchers (snd (hook_stopped I a ctx)) = watchers ctx) \<and>
     (\<forall>aid a ctx. watchers (snd (hook_child_stopped I aid a ctx)) = watchers ctx) \<and>
     (\<forall>u a ctx. watchers (fst (snd (user_handle I u a ctx))) = watchers ctx)"

lemma handle_message_watchers:
  assumes "keeps_watchers I"
  shows "watchers_mut (fst (snd (handle_message I m a ctx))) = watch_step m (watchers_mut ctx) \<and>
    notices (snd (snd (handle_message I m a ctx))) = []"
proof (cases m)
  case (MTerminated aid)
  with assms show ?thesis
    by (auto simp: keeps_watchers_def watchers_mut_def watch_step_def Let_def split_beta split: option.split)
next
  case (MUser u)
  have "notices (map UserEffect es) = []" for es :: "'c list" by (rule notices_none) auto
  with MUser assms show ?thesis by (simp add: keeps_watchers_def watchers_mut_def watch_step_def split_beta)
next
  case (MStop tx)
  then show ?thesis
    by (simp add: ctx_stop_def add_on_stopped_handler_def watchers_mut_def watch_step_def split: option.split)
qed (auto simp: add_watcher_def remove_watcher_def watchers_mut_def watch_step_def split: option.split)

lemma handle_all_watchers:
  assumes "keeps_watchers I"
  shows "watchers_mut (fst (snd (handle_all I ms a ctx))) = fold watch_step ms (watchers_mut ctx) \<and>
    notices (snd (snd (handle_all I ms a ctx))) = []"
proof (induction ms arbitrary: a ctx)
  case (Cons m ms)
  obtain a1 ctx1 evs1 where m: "handle_message I m a ctx = (a1, ctx1, evs1)" by (cases "handle_message I m a ctx")
  with handle_message_watchers [OF assms, of m a ctx] Cons.IH [of a1 ctx1] show ?case by (simp add: split_beta)
qed simp

lemma context_dropped_notices [simp]: "notices (context_dropped ctx) = []"
  by (rule notices_none) (auto simp: context_dropped_def split: option.splits)

lemma actor_stopped_notices:
  assumes "keeps_watchers I" "calm I" "dereg_ok"
  shows "\<exists>a' ctx' evs. actor_stopped I ty system terminated dereg_ok a ctx = Inr (a', ctx', evs) \<and>
    notices evs = map (\<lambda>w. (w, boxed_ref ctx)) (hm_values (watchers_mut ctx))"
proof -
  have "boxed_ref (snd (hook_stopped I a ctx)) = boxed_ref ctx" "watchers (snd (hook_stopped I a ctx)) = watchers ctx"
    using assms(1,2) by (simp_all add: calm_def keeps_ctx_def keeps_watchers_def)
  moreover have "notices (map StoppedSignal hs) = []" for hs :: "sender list" by (rule notices_none) auto
  ultimately show ?thesis
    using assms(3)
    by (auto simp: actor_stopped_def take_on_stopped_handlers_def take_watchers_def Let_def split_beta
        watchers_mut_def notices_all comp_def split: option.split)
qed

lemma notices_of_stop:
  assumes "calm I" and "keeps_watchers I" and "\<forall>m \<in> set pre. \<not> is_stop m" and "dereg_ok"
  shows "\<exists>a' ctx' evs.
    actor_run I ty on_start r parent system counter tgs terminated dereg_ok (pre @ MStop h # post) closed a =
      Inr (Finished a' ctx' evs) \<and>
    notices evs = map (\<lambda>w. (w, r)) (hm_values (watching pre))"
proof -
  define ctx0 where "ctx0 = initial_context system counter r tgs parent"
  obtain a1 ctx1 where st: "hook_started I a ctx0 = (a1, ctx1)" by (cases "hook_started I a ctx0")
  have c0: "status ctx0 = Starting" "boxed_ref ctx0 = r" "watchers ctx0 = None"
    by (auto simp: ctx0_def initial_context_def actor_context_new_def Let_def split_beta split: option.split)
  have "keeps_ctx ctx0 (snd (hook_started I a ctx0))" using assms(1) by (simp add: calm_def)
  moreover have "watchers (snd (hook_started I a ctx0)) = watchers ctx0" using assms(2) by (simp add: keeps_watchers_def)
  ultimately have c1: "status ctx1 = Starting" "boxed_ref ctx1 = r" "watchers ctx1 = None"
    using c0 st by (auto simp: keeps_ctx_def)
  let ?c = "ctx1\<lparr>status := Started\<rparr>"
  obtain a2 ctx2 evs where all: "handle_all I pre a1 ?c = (a2, ctx2, evs)" by (cases "handle_all I pre a1 ?c")
  have loop: "recv_loop I (pre @ MStop h # post) a1 ?c = (a2, ctx_stop h ctx2, evs, post)" and k: "keeps_ctx ?c ctx2"
    using recv_loop_to_stop [OF assms(1,3), of ?c a1 h post] all by auto
  have w: "watchers_mut ctx2 = watching pre" and n: "notices evs = []"
    using handle_all_watchers [OF assms(2), of pre a1 ?c] all c1(3)
    by (simp_all add: watching_def watchers_mut_def)
  have "watchers (ctx_stop h ctx2) = watchers ctx2" "boxed_ref (ctx_stop h ctx2) = boxed_ref ctx2"
    by (simp_all add: ctx_stop_def add_on_stopped_handler_def split: option.split)
  then have stop: "boxed_ref (ctx_stop h ctx2) = r" "watchers_mut (ctx_stop h ctx2) = watching pre"
    using k c1(2) w by (simp_all add: keeps_ctx_def watchers_mut_def)
  have idem: "(ctx_stop h ctx2)\<lparr>status := Stopping\<rparr> = ctx_stop h ctx2" by (simp add: ctx_stop_def)
  obtain a' ctx' evs' where fin:
      "actor_stopped I ty system terminated dereg_ok a2 (ctx_stop h ctx2) = Inr (a', ctx', evs')"
      "notices evs' = map (\<lambda>w. (w, r)) (hm_values (watching pre))"
    using actor_stopped_notices [OF assms(2,1,4), of ty system terminated a2 "ctx_stop h ctx2"] unfolding stop by blast
  have "actor_run I ty on_start r parent system counter tgs terminated dereg_ok (pre @ MStop h # post) closed a =
      Inr (Finished a' ctx' ((case on_start of Some tx \<Rightarrow> [StartedSignal tx] | None \<Rightarrow> []) @ evs @ evs' @ context_dropped ctx'))"
    using st c1(1) loop fin(1) by (simp add: actor_run_def ctx0_def [symmetric] finish_run_def Let_def idem)
  then show ?thesis using fin(2) n by (intro exI conjI) (assumption | simp split: option.split)+
qed

text \<open>The watcher under an id: the actor whose request to watch is the last request in the mailbox under that id.\<close>

definition watcher_under :: "actor_id \<Rightarrow> 'u mailbox_msg list \<Rightarrow> actor_ref option" where
  "watcher_under i ms =
     fold (\<lambda>m w. case m of MWatch r \<Rightarrow> if ref_id r = i then Some r else w
                          | MUnwatch k \<Rightarrow> if k = i then None else w
                          | _ \<Rightarrow> w) ms None"

lemma watching_get: "hm_get (watching ms) i = watcher_under i ms"
proof (induction ms rule: rev_induct)
  case (snoc m ms)
  then show ?case by (cases m) (simp_all add: watching_def watcher_under_def watch_step_def)
qed (simp add: watching_def watcher_under_def)

lemma watching_wf: "hm_wf (watching ms) \<and> (\<forall>(k, w) \<in> set (watching ms). ref_id w = k)"
proof (induction ms rule: rev_induct)
  case (snoc m ms)
  have "hm_wf (watching (ms @ [m]))" using snoc by (cases m) (simp_all add: watching_def watch_step_def)
  moreover have "ref_id w = k" if "(k, w) \<in> set (watching (ms @ [m]))" for k w
  proof -
    have "hm_get (watching (ms @ [m])) k = Some w" using that calculation by (simp add: hm_get_in_set)
    then have "(\<exists>r. m = MWatch r \<and> w = r \<and> ref_id r = k) \<or> hm_get (watching ms) k = Some w"
      by (cases m) (auto simp: watching_def watch_step_def split: if_splits)
    moreover have "ref_id w = k" if "hm_get (watching ms) k = Some w"
    proof -
      have "(k, w) \<in> set (watching ms)" using that by (rule map_of_SomeD)
      then show ?thesis using snoc by auto
    qed
    ultimately show ?thesis by blast
  qed
  ultimately show ?case by blast
qed (simp add: watching_def)

text \<open>C39: Watching: when an actor stops, for each actor id exactly one notice is sent if the last request under that id
  in the mailbox, up to the stop request, was to watch, to the actor that made it, and none otherwise. So every watcher
  is told exactly once unless another actor with the same id has taken its place or given its watch up: watchers are
  kept by id, and ids of children of different parents may coincide. The hypotheses are that the hooks and handlers of
  the actor leave its context alone and that its deregistration is answered.\<close>

theorem watchers_notified:
  assumes "calm I" and "keeps_watchers I" and "\<forall>m \<in> set pre. \<not> is_stop m" and "dereg_ok"
  shows "\<exists>a' ctx' evs.
    actor_run I ty on_start r parent system counter tgs terminated dereg_ok (pre @ MStop h # post) closed a =
      Inr (Finished a' ctx' evs) \<and>
    distinct (map (ref_id \<circ> fst) (notices evs)) \<and>
    (\<forall>w subject. (w, subject) \<in> set (notices evs) \<longleftrightarrow> subject = r \<and> watcher_under (ref_id w) pre = Some w)"
proof -
  obtain a' ctx' evs where run:
    "actor_run I ty on_start r parent system counter tgs terminated dereg_ok (pre @ MStop h # post) closed a =
      Inr (Finished a' ctx' evs)" and n: "notices evs = map (\<lambda>w. (w, r)) (hm_values (watching pre))"
    using notices_of_stop [OF assms] by blast
  note wf = watching_wf [of pre]
  have "map (ref_id \<circ> fst) (notices evs) = map fst (watching pre)"
    using wf unfolding n by auto
  then have "distinct (map (ref_id \<circ> fst) (notices evs))" using wf by simp
  moreover have "w \<in> set (hm_values (watching pre)) \<longleftrightarrow> watcher_under (ref_id w) pre = Some w" for w
  proof
    assume "w \<in> set (hm_values (watching pre))"
    then obtain k where k: "(k, w) \<in> set (watching pre)" by auto
    moreover from k wf have "ref_id w = k" by auto
    ultimately show "watcher_under (ref_id w) pre = Some w" using wf by (simp add: watching_get [symmetric] hm_get_in_set)
  next
    assume "watcher_under (ref_id w) pre = Some w"
    then show "w \<in> set (hm_values (watching pre))"
      unfolding watching_get [symmetric] by (metis image_eqI map_of_SomeD set_map snd_conv)
  qed
  then have "\<forall>w subject. (w, subject) \<in> set (notices evs) \<longleftrightarrow> subject = r \<and> watcher_under (ref_id w) pre = Some w"
    unfolding n by auto
  ultimately show ?thesis using run by blast
qed

theorem watchers_notified_witness:
  "\<exists>a' ctx' evs.
    actor_run counting_actor Tracked None (start_actor ''t'' ''a'' ''p'' 0) None (Some ''sys'') 0 NoTags False True
      ([MWatch (start_actor ''t'' ''w'' ''p'' 1), MUser 2, MWatch (start_actor ''t'' ''v'' ''p'' 2), MUnwatch ''w''] @
        MStop None # []) False 0 = Inr (Finished a' ctx' evs) \<and>
    (start_actor ''t'' ''v'' ''p'' 2, start_actor ''t'' ''a'' ''p'' 0) \<in> set (notices evs) \<and>
    (start_actor ''t'' ''w'' ''p'' 1, start_actor ''t'' ''a'' ''p'' 0) \<notin> set (notices evs)"
proof -
  let ?pre = "[MWatch (start_actor ''t'' ''w'' ''p'' 1), MUser (2::nat), MWatch (start_actor ''t'' ''v'' ''p'' 2), MUnwatch ''w'']"
  have "watcher_under ''v'' ?pre = Some (start_actor ''t'' ''v'' ''p'' 2)" "watcher_under ''w'' ?pre = None"
    by (simp_all add: watcher_under_def start_actor_def)
  moreover have "ref_id (start_actor ''t'' ''v'' ''p'' 2) = ''v''" "ref_id (start_actor ''t'' ''w'' ''p'' 1) = ''w''"
    by (simp_all add: start_actor_def)
  ultimately show ?thesis
    using watchers_notified [of counting_actor ?pre True Tracked None "start_actor ''t'' ''a'' ''p'' 0" None "Some ''sys''" 0
        NoTags False None "[]" False 0]
    by (auto simp: counting_actor_def calm_def keeps_ctx_def keeps_watchers_def)
qed

text \<open>Watchers are kept by id alone: of two actors with one id below different parents, only the later one is told.\<close>

lemma watchers_with_one_id:
  "ref_id w = ref_id w' \<Longrightarrow> watching [MWatch w, MWatch w'] = [(ref_id w', w')]"
  by (simp add: watching_def watch_step_def)

section \<open>Timers end when they are stopped\<close>

lemma timer_iterations_stop:
  assumes "0 < tw_tick tw" "tw_stop_at tw = Some s" "s < n + now" "0 < n"
  shows "\<exists>ts. timer_iterations n tw TimerSend k sch now = (ts, True) \<and> (\<forall>t \<in> set ts. now \<le> t \<and> t < s) \<and>
    (ts \<noteq> [] \<longrightarrow> hd ts = now) \<and>
    (\<forall>i. Suc i < length ts \<longrightarrow> ts ! Suc i = ts ! i + tw_duration tw (k + i) + tw_tick tw)"
  using assms(3,4)
proof (induction n arbitrary: k sch now)
  case (Suc n)
  show ?case
  proof (cases "now < s \<and> tw_accepted tw k")
    case True
    let ?next = "now + tw_duration tw k + tw_tick tw"
    have "s < n + ?next" "0 < n" using Suc.prems assms(1) True by auto
    from Suc.IH [OF this, of "k + 1" ?next] obtain ts where ts:
      "timer_iterations n tw TimerSend (k + 1) ?next ?next = (ts, True)" "\<forall>t \<in> set ts. ?next \<le> t \<and> t < s"
      "ts \<noteq> [] \<longrightarrow> hd ts = ?next"
      "\<forall>i. Suc i < length ts \<longrightarrow> ts ! Suc i = ts ! i + tw_duration tw (k + 1 + i) + tw_tick tw"
      by blast
    have "timer_iterations (Suc n) tw TimerSend k sch now = (now # ts, True)"
      using True assms(2) ts(1) by (simp add: max_def)
    moreover have "(now # ts) ! Suc i = (now # ts) ! i + tw_duration tw (k + i) + tw_tick tw"
      if "Suc i < length (now # ts)" for i
      using that ts(3,4) by (cases i) (auto simp: hd_conv_nth)
    ultimately show ?thesis using ts(2) True by (intro exI [of _ "now # ts"]) auto
  qed (use assms(2) in auto)
qed simp

text \<open>A timer that is stopped sends nothing from that instant on, and its task ends; until then each message is
  sent a full period after the previous one was answered.\<close>

theorem timer_stops:
  assumes "0 < tw_tick tw" and "tw_stop_at tw = Some s"
  shows "\<exists>ts. timer_loop (Suc s) tw imm TimerSend now = Inr (ts, True) \<and> (\<forall>t \<in> set ts. now \<le> t \<and> t < s) \<and>
    (ts \<noteq> [] \<longrightarrow> hd ts = (if imm then now else now + tw_tick tw)) \<and>
    (\<forall>i. Suc i < length ts \<longrightarrow> ts ! Suc i = ts ! i + tw_duration tw i + tw_tick tw)"
proof -
  let ?start = "if imm then now else now + tw_tick tw"
  have "s < Suc s + ?start" by simp
  from timer_iterations_stop [OF assms this zero_less_Suc, of 0 ?start] obtain ts where
    "timer_iterations (Suc s) tw TimerSend 0 ?start ?start = (ts, True)" "\<forall>t \<in> set ts. ?start \<le> t \<and> t < s"
    "ts \<noteq> [] \<longrightarrow> hd ts = ?start"
    "\<forall>i. Suc i < length ts \<longrightarrow> ts ! Suc i = ts ! i + tw_duration tw (0 + i) + tw_tick tw" by blast
  with assms(1) show ?thesis
    by (intro exI [of _ ts]) (fastforce simp: timer_loop_def simp del: timer_iterations.simps split: if_splits)
qed

theorem timer_stops_witness:
  "\<exists>ts. timer_loop 26 \<lparr>tw_tick = 10, tw_stop_at = Some 25, tw_duration = (\<lambda>_. 2), tw_accepted = (\<lambda>_. True)\<rparr> True TimerSend 0 =
     Inr (ts, True) \<and> (\<forall>t \<in> set ts. 0 \<le> t \<and> t < 25)"
  using timer_stops [of "\<lparr>tw_tick = 10, tw_stop_at = Some 25, tw_duration = (\<lambda>_. 2), tw_accepted = (\<lambda>_. True)\<rparr>" 25 True 0]
  by (auto simp del: timer_iterations.simps)

text \<open>A timer whose handle is only dropped goes on for as long as the actor accepts its messages.\<close>

lemma dropped_timer_goes_on:
  assumes "tw_stop_at tw = None" "\<forall>k. tw_accepted tw k"
  shows "length (fst (timer_iterations n tw mode k sch now)) = n \<and> \<not> snd (timer_iterations n tw mode k sch now)"
  using assms by (induction n arbitrary: k sch now) (auto simp: Let_def split_beta)

section \<open>Streams and shutdown\<close>

fun stream_items :: "('e + 'x) list \<Rightarrow> 'x list" where
  "stream_items (Inr x # xs) = x # stream_items xs"
| "stream_items xs = []"

lemma attach_stream_delivers:
  assumes "\<And>x. x \<in> set (stream_items xs) \<Longrightarrow> conv x = Inr (f x)"
  shows "attach_stream stop stop_msg conv xs (Some q) =
     Some (q @ List.map_filter f (stream_items xs) @ (if stop then [stop_msg] else []))"
  using assms
  by (induction stop stop_msg conv xs "Some q" arbitrary: q rule: attach_stream.induct)
     (auto simp: local_notify_def map_filter_simps split: option.split)

text \<open>
  The order in \<open>shutdown\<close> matters: the scheduler waits for every actor it stops, so an actor that asked the
  scheduler to deregister it would wait for ever. Under the flag none does.
\<close>

lemma shutdown_needs_no_scheduler:
  assumes "hm_get (actors (sys_scheduler s)) i = Some r"
  shows "StopActor r \<in> set (snd (shutdown s))"
    and "\<exists>a' ctx' evs. actor_stopped I ty system (sys_terminated (fst (shutdown s))) dereg_ok a ctx = Inr (a', ctx', evs) \<and>
      (\<forall>aid. Deregister aid \<notin> set evs)"
proof -
  show "StopActor r \<in> set (snd (shutdown s))"
    using assms by (force simp: shutdown_def Let_def dest: map_of_SomeD)
  show "\<exists>a' ctx' evs. actor_stopped I ty system (sys_terminated (fst (shutdown s))) dereg_ok a ctx = Inr (a', ctx', evs) \<and>
      (\<forall>aid. Deregister aid \<notin> set evs)"
    by (auto simp: shutdown_def actor_stopped_def Let_def split_beta split: option.split)
qed

end
