(* ===== verification/Actor_Describe.thy ===== *)
theory Actor_Describe
  imports Actor_Lifecycle
begin

text \<open>
  Descriptions of the actor hierarchy (\<open>actor/describe/mod.rs\<close>): an actor answers \<open>Describe\<close> with a
  description of itself and of the children it supervises, which it asks in turn, each under a time-out.

  What happens to a \<open>Describe\<close> message in an actor's mailbox is a parameter, \<open>world\<close>: the mailbox is closed,
  the actor handles the message after some milliseconds, it is dropped unhandled, or it is never reached.
  Fuel bounds the number of hops of a description down the hierarchy; a branch that runs out of it
  has not answered.
\<close>

section \<open>Messages\<close>

record describe_options =
  max_depth :: "nat option"
  max_children :: "nat option"
  child_describe_timeout :: "nat option"
  child_describe_attached :: bool

definition describe_options_default :: describe_options where
  "describe_options_default =
     \<lparr>max_depth = None, max_children = None, child_describe_timeout = None, child_describe_attached = True\<rparr>"

datatype describe_result =
    DescribeOk actor_description
  | DescribeErr actor_ref_err actor_id actor_path type_name
  | DescribeTimeout actor_id actor_path type_name
and actor_description =
    ActorDescription (desc_actor_id: actor_id) (desc_path: actor_path) (desc_type: type_name) (desc_context_id: u64)
      (desc_tags: actor_tags) (desc_supervised: "describe_result list option") (desc_time_taken: "nat option")

definition result_is_ok :: "describe_result \<Rightarrow> bool" where
  "result_is_ok r = (case r of DescribeOk _ \<Rightarrow> True | _ \<Rightarrow> False)"

definition from_err :: "actor_ref_err \<Rightarrow> actor_ref \<Rightarrow> describe_result" where
  "from_err e r = DescribeErr e (ref_id r) (ref_path r) (ref_type r)"

definition from_timeout_err :: "actor_ref \<Rightarrow> describe_result" where
  "from_timeout_err r = DescribeTimeout (ref_id r) (ref_path r) (ref_type r)"

section \<open>The world\<close>

record described_actor =
  da_context :: actor_context
  da_tags :: actor_tags

datatype mailbox_fate = Closed | HandledAfter nat described_actor | DroppedAfter nat | NeverHandled

type_synonym world = "actor_ref \<Rightarrow> mailbox_fate"

text \<open>What the receiving end of the answer's channel sees, and when.\<close>

datatype answer = Answered nat actor_description | SenderDropped nat | NoAnswer

section \<open>Handlers\<close>

definition get_describable_actors :: "child_ref list \<Rightarrow> bool \<Rightarrow> nat option \<Rightarrow> actor_ref list" where
  "get_describable_actors cs describe_attached_children max_n =
     map child_actor_ref
       ((case max_n of None \<Rightarrow> id | Some n \<Rightarrow> take n)
          (filter (\<lambda>c. describe_attached_children \<or> \<not> is_attached c) cs))"

definition describe_timeout :: "nat \<Rightarrow> nat" where
  "describe_timeout current_depth = (if current_depth > 0 then 5000 else 10000)"

definition set_time_taken :: "nat \<Rightarrow> actor_description \<Rightarrow> actor_description" where
  "set_time_taken t d =
     ActorDescription (desc_actor_id d) (desc_path d) (desc_type d) (desc_context_id d) (desc_tags d)
       (desc_supervised d) (Some t)"

text \<open>One element of \<open>describe_all\<close>: \<open>rx\<close> is the answer of the actor that is asked.\<close>

definition describe_one :: "world \<Rightarrow> (actor_ref \<Rightarrow> answer) \<Rightarrow> nat \<Rightarrow> actor_ref \<Rightarrow> nat \<times> describe_result" where
  "describe_one W rx timeout r =
     (if W r = Closed then (0, from_err InvalidRef r)
      else case rx r of
             Answered t d \<Rightarrow> if t \<le> timeout then (t, DescribeOk (set_time_taken t d)) else (timeout, from_timeout_err r)
           | SenderDropped t \<Rightarrow>
               if t \<le> timeout then (t, from_err ResultChannelClosed r) else (timeout, from_timeout_err r)
           | NoAnswer \<Rightarrow> (timeout, from_timeout_err r))"

definition describe_all :: "world \<Rightarrow> (actor_ref \<Rightarrow> answer) \<Rightarrow> nat \<Rightarrow> actor_ref list \<Rightarrow> nat \<times> describe_result list" where
  "describe_all W rx current_depth rs =
     (let ds = map (describe_one W rx (describe_timeout current_depth)) rs
      in (fold max (map fst ds) 0, map snd ds))"

definition describe_self :: "actor_ref \<Rightarrow> described_actor \<Rightarrow> describe_result list option \<Rightarrow> actor_description" where
  "describe_self r a subs =
     ActorDescription (ref_id (boxed_ref (da_context a))) (full_path (da_context a)) (ref_type r)
       (context_id (da_context a)) (da_tags a) subs None"

fun handle_describe :: "nat \<Rightarrow> world \<Rightarrow> describe_options \<Rightarrow> nat \<Rightarrow> actor_ref \<Rightarrow> answer" where
  "handle_describe 0 W opts depth r = NoAnswer"
| "handle_describe (Suc n) W opts depth r =
     (case W r of
        HandledAfter t a \<Rightarrow>
          (case ctx_supervised (da_context a) of
             None \<Rightarrow> Answered t (describe_self r a None)
           | Some s \<Rightarrow>
               (let next_depth = depth + 1 in
                if (case max_depth opts of Some m \<Rightarrow> m < next_depth | None \<Rightarrow> False)
                then Answered t (describe_self r a None)
                else
                  (let rs = get_describable_actors (hm_values (children s)) (child_describe_attached opts) (max_children opts)
                   in if rs \<noteq> []
                      then (let (t', ds) = describe_all W (handle_describe n W opts next_depth) depth rs
                            in Answered (t + t') (describe_self r a (Some ds)))
                      else Answered t (describe_self r a None))))
      | DroppedAfter t \<Rightarrow> SenderDropped t
      | _ \<Rightarrow> NoAnswer)"

text \<open>\<open>Handler<DescribeAll>\<close> of the scheduler: every tracked actor and the scheduler itself.\<close>

definition handle_describe_all ::
  "nat \<Rightarrow> world \<Rightarrow> describe_options \<Rightarrow> actor_ref \<Rightarrow> actor_scheduler \<Rightarrow> describe_result list" where
  "handle_describe_all n W opts self s =
     snd (describe_all W (handle_describe n W opts 1) 0 (hm_values (actors s) @ [self]))"

section \<open>Who is described\<close>

definition described_children :: "world \<Rightarrow> describe_options \<Rightarrow> actor_ref \<Rightarrow> actor_ref list" where
  "described_children W opts r =
     (case W r of
        HandledAfter t a \<Rightarrow>
          (case ctx_supervised (da_context a) of
             Some s \<Rightarrow> get_describable_actors (hm_values (children s)) (child_describe_attached opts) (max_children opts)
           | None \<Rightarrow> [])
      | _ \<Rightarrow> [])"

definition too_deep :: "describe_options \<Rightarrow> nat \<Rightarrow> bool" where
  "too_deep opts depth = (case max_depth opts of Some m \<Rightarrow> m < depth + 1 | None \<Rightarrow> False)"

lemma handle_describe_cases:
  "handle_describe (Suc n) W opts depth r =
     (case W r of
        HandledAfter t a \<Rightarrow>
          (if described_children W opts r = [] \<or> too_deep opts depth then Answered t (describe_self r a None)
           else (let (t', ds) = describe_all W (handle_describe n W opts (depth + 1)) depth (described_children W opts r)
                 in Answered (t + t') (describe_self r a (Some ds))))
      | DroppedAfter t \<Rightarrow> SenderDropped t
      | _ \<Rightarrow> NoAnswer)"
  by (auto simp: described_children_def too_deep_def Let_def case_prod_beta split: mailbox_fate.split option.split)

lemma fold_max_bounds:
  "fold max ts (m::nat) \<le> b \<longleftrightarrow> m \<le> b \<and> (\<forall>t \<in> set ts. t \<le> b)"
  by (induction ts arbitrary: m) auto

lemma fold_max_ge: "t \<in> set ts \<Longrightarrow> t \<le> fold max ts (m::nat)"
  using fold_max_bounds [of ts m "fold max ts m"] by blast

lemma describe_all_time:
  "r \<in> set rs \<Longrightarrow> fst (describe_one W rx (describe_timeout d) r) \<le> fst (describe_all W rx d rs)"
  by (auto simp: describe_all_def Let_def intro: fold_max_ge)

lemma describe_all_results: "snd (describe_all W rx d rs) = map (snd \<circ> describe_one W rx (describe_timeout d)) rs"
  by (simp add: describe_all_def Let_def)

text \<open>The option \<open>child_describe_timeout\<close> is not read.\<close>

lemma child_timeout_ignored:
  "handle_describe n W (opts\<lparr>child_describe_timeout := x\<rparr>) depth r = handle_describe n W opts depth r"
proof (induction n arbitrary: depth r)
  case (Suc n)
  have "described_children W (opts\<lparr>child_describe_timeout := x\<rparr>) r = described_children W opts r"
    "too_deep (opts\<lparr>child_describe_timeout := x\<rparr>) depth = too_deep opts depth"
    by (simp_all add: described_children_def too_deep_def split: mailbox_fate.split option.split)
  moreover have "handle_describe n W (opts\<lparr>child_describe_timeout := x\<rparr>) (depth + 1) = handle_describe n W opts (depth + 1)"
    using Suc.IH by (intro ext)
  ultimately show ?case by (simp only: handle_describe_cases)
qed simp

section \<open>Limits\<close>

lemma set_time_taken_sel [simp]:
  "desc_supervised (set_time_taken t d) = desc_supervised d" "desc_actor_id (set_time_taken t d) = desc_actor_id d"
  "desc_path (set_time_taken t d) = desc_path d"
  by (simp_all add: set_time_taken_def)

lemma describe_self_sel [simp]:
  "desc_supervised (describe_self r a subs) = subs"
  "desc_actor_id (describe_self r a subs) = ref_id (boxed_ref (da_context a))"
  "desc_path (describe_self r a subs) = full_path (da_context a)"
  by (simp_all add: describe_self_def)

text \<open>A description of at most \<open>k\<close> levels below its actor, at most \<open>w\<close> entries each.\<close>

fun within :: "nat \<Rightarrow> nat option \<Rightarrow> actor_description \<Rightarrow> bool" where
  "within 0 w d \<longleftrightarrow> desc_supervised d = None"
| "within (Suc k) w d \<longleftrightarrow>
     (case desc_supervised d of
        None \<Rightarrow> True
      | Some ds \<Rightarrow>
          (case w of None \<Rightarrow> True | Some w \<Rightarrow> length ds \<le> w) \<and>
          (\<forall>x \<in> set ds. case x of DescribeOk d' \<Rightarrow> within k w d' | _ \<Rightarrow> True))"

lemma within_time [simp]: "within k w (set_time_taken t d) = within k w d"
  by (cases k) simp_all

lemma within_leaf [simp]: "desc_supervised d = None \<Longrightarrow> within k w d"
  by (cases k) simp_all

lemma describable_width: "max_children opts = Some w \<Longrightarrow> length (described_children W opts r) \<le> w"
  by (simp add: described_children_def get_describable_actors_def split: mailbox_fate.split option.split)

lemma describe_one_ok:
  "describe_one W rx timeout r = (t, DescribeOk d) \<longleftrightarrow>
     W r \<noteq> Closed \<and> (\<exists>d'. rx r = Answered t d' \<and> t \<le> timeout \<and> d = set_time_taken t d')"
  by (auto simp: describe_one_def from_err_def from_timeout_err_def split: answer.splits)

lemma describe_within:
  assumes "max_depth opts = Some m" and "handle_describe n W opts depth r = Answered t d"
  shows "within (m - depth) (max_children opts) d"
  using assms(2)
proof (induction n arbitrary: depth r t d)
  case (Suc n)
  then obtain t0 a where w: "W r = HandledAfter t0 a"
    by (auto simp only: handle_describe_cases split: mailbox_fate.splits)
  show ?case
  proof (cases "described_children W opts r = [] \<or> too_deep opts depth")
    case True
    with Suc.prems w have "d = describe_self r a None" by (simp only: handle_describe_cases) simp
    then show ?thesis by simp
  next
    case False
    let ?rx = "handle_describe n W opts (depth + 1)" and ?rs = "described_children W opts r"
    have d: "d = describe_self r a (Some (map (snd \<circ> describe_one W ?rx (describe_timeout depth)) ?rs))"
      using False Suc.prems w
      by (simp only: handle_describe_cases) (simp add: case_prod_beta describe_all_results)
    have k: "m - depth = Suc (m - (depth + 1))" using False assms(1) by (auto simp: too_deep_def)
    have "within (m - (depth + 1)) (max_children opts) d'"
      if "snd (describe_one W ?rx (describe_timeout depth) c) = DescribeOk d'" for c d'
    proof -
      from that obtain t' where "describe_one W ?rx (describe_timeout depth) c = (t', DescribeOk d')"
        by (metis prod.collapse)
      then show ?thesis using Suc.IH [of "depth + 1" c] by (auto simp: describe_one_ok)
    qed
    then show ?thesis using describable_width [of opts _ W r]
      by (auto simp: d k split: option.split describe_result.split)
  qed
qed simp

lemma describe_fuel:
  assumes "max_depth opts = Some m" and "m - depth < n" and "m - depth < n'"
  shows "handle_describe n W opts depth r = handle_describe n' W opts depth r"
  using assms(2,3)
proof (induction n arbitrary: n' depth r)
  case (Suc n)
  then obtain k where k: "n' = Suc k" by (cases n') auto
  have "handle_describe n W opts (depth + 1) = handle_describe k W opts (depth + 1)" if "\<not> too_deep opts depth"
    using Suc.prems k that assms(1) by (intro ext Suc.IH) (auto simp: too_deep_def)
  then show ?case unfolding k
    by (cases "W r"; cases "too_deep opts depth") (simp_all add: handle_describe_cases del: handle_describe.simps)
qed simp

text \<open>A description with a depth limit ends, whatever the shape of the hierarchy, cycles included: more hops
  than the limit leaves make no difference, an actor that handles the message answers, and the answer has at most
  the allowed number of levels with at most the allowed number of children in each.\<close>

theorem describe_limited:
  assumes "max_depth opts = Some m" and "m - depth < n"
  shows "(\<forall>n'. m - depth < n' \<longrightarrow> handle_describe n' W opts depth r = handle_describe n W opts depth r) \<and>
    (\<forall>t a. W r = HandledAfter t a \<longrightarrow>
       (\<exists>t' d. handle_describe n W opts depth r = Answered t' d \<and> t \<le> t' \<and> within (m - depth) (max_children opts) d))"
proof (intro conjI allI impI)
  fix n' assume "m - depth < n'"
  then show "handle_describe n' W opts depth r = handle_describe n W opts depth r"
    using describe_fuel [OF assms(1)] assms(2) by blast
next
  fix t a assume w: "W r = HandledAfter t a"
  obtain k where k: "n = Suc k" using assms(2) by (cases n) auto
  have "\<exists>t' d. handle_describe n W opts depth r = Answered t' d \<and> t \<le> t'"
    unfolding k handle_describe_cases using w by (auto simp: case_prod_beta)
  then show "\<exists>t' d. handle_describe n W opts depth r = Answered t' d \<and> t \<le> t' \<and> within (m - depth) (max_children opts) d"
    using describe_within [OF assms(1)] by blast
qed

section \<open>Completeness\<close>

definition child_step :: "world \<Rightarrow> describe_options \<Rightarrow> actor_ref \<Rightarrow> actor_ref \<Rightarrow> bool" where
  "child_step W opts r r' \<longleftrightarrow> r' \<in> set (described_children W opts r)"

text \<open>The actors a description names, with their paths.\<close>

primrec described_result :: "describe_result \<Rightarrow> (actor_id \<times> actor_path) set"
  and described_in :: "actor_description \<Rightarrow> (actor_id \<times> actor_path) set" where
  "described_result (DescribeOk d) = described_in d"
| "described_result (DescribeErr e i p ty) = {}"
| "described_result (DescribeTimeout i p ty) = {}"
| "described_in (ActorDescription i p ty c tg subs t) =
     insert (i, p) (case map_option (map described_result) subs of None \<Rightarrow> {} | Some xs \<Rightarrow> \<Union> (set xs))"

lemma described_in_sel:
  "described_in d = insert (desc_actor_id d, desc_path d)
     (case desc_supervised d of None \<Rightarrow> {} | Some ds \<Rightarrow> \<Union> (described_result ` set ds))"
  by (cases d) (auto split: option.split)

definition identity_of :: "world \<Rightarrow> actor_ref \<Rightarrow> actor_id \<times> actor_path" where
  "identity_of W r =
     (case W r of HandledAfter t a \<Rightarrow> (ref_id (boxed_ref (da_context a)), full_path (da_context a)) | _ \<Rightarrow> (ref_id r, ref_path r))"

lemma described_in_time [simp]: "described_in (set_time_taken t d) = described_in d"
  by (simp add: described_in_sel)

lemma rtranclp_first_step: "{y. R\<^sup>*\<^sup>* x y} = insert x (\<Union>z \<in> {z. R x z}. {y. R\<^sup>*\<^sup>* z y})"
  by (auto elim: converse_rtranclpE intro: converse_rtranclp_into_rtranclp)

lemma describe_everything:
  assumes "max_depth opts = None" and "\<forall>r r'. child_step W opts r r' \<longrightarrow> rank r' < rank r"
    and "\<forall>r'. (child_step W opts)\<^sup>*\<^sup>* r r' \<longrightarrow> (\<exists>t a. W r' = HandledAfter t a \<and> t \<le> D)"
    and "Suc (rank r) * D \<le> 5000" and "rank r < n"
  shows "\<exists>t d. handle_describe n W opts depth r = Answered t d \<and> t \<le> Suc (rank r) * D \<and>
    described_in d = identity_of W ` {r'. (child_step W opts)\<^sup>*\<^sup>* r r'}"
  using assms(3-5)
proof (induction n arbitrary: r depth)
  case (Suc n)
  let ?R = "child_step W opts" and ?rs = "described_children W opts r"
  let ?rx = "handle_describe n W opts (depth + 1)"
  let ?one = "describe_one W ?rx (describe_timeout depth)"
  obtain t a where w: "W r = HandledAfter t a" and t: "t \<le> D" using Suc.prems(1) by blast
  have child: "\<exists>t' d'. ?one c = (t', DescribeOk d') \<and> t' \<le> rank r * D \<and>
      described_in d' = identity_of W ` {r'. ?R\<^sup>*\<^sup>* c r'}" if "?R r c" for c
  proof -
    have less: "rank c < rank r" using that assms(2) by blast
    then have le: "Suc (rank c) * D \<le> rank r * D" by (intro mult_le_mono1) simp
    have reach: "\<forall>r'. ?R\<^sup>*\<^sup>* c r' \<longrightarrow> (\<exists>t a. W r' = HandledAfter t a \<and> t \<le> D)"
      using Suc.prems(1) that by (blast intro: converse_rtranclp_into_rtranclp)
    then have open_c: "W c \<noteq> Closed" by fastforce
    obtain t' d' where "?rx c = Answered t' d'" "t' \<le> Suc (rank c) * D"
      "described_in d' = identity_of W ` {r'. ?R\<^sup>*\<^sup>* c r'}"
      using Suc.IH [OF reach, of "depth + 1"] Suc.prems(2,3) le less by fastforce
    moreover have "t' \<le> describe_timeout depth"
      using \<open>t' \<le> Suc (rank c) * D\<close> le Suc.prems(2) by (simp add: describe_timeout_def)
    ultimately show ?thesis using open_c le by (auto simp: describe_one_ok)
  qed
  have step_set: "{c. ?R r c} = set ?rs" by (simp add: child_step_def)
  have all: "identity_of W ` {r'. ?R\<^sup>*\<^sup>* r r'} =
      insert (identity_of W r) (\<Union>c \<in> {c. ?R r c}. described_result (snd (?one c)))"
    using child by (subst rtranclp_first_step) (fastforce simp: image_UN)
  show ?case
  proof (cases "?rs = []")
    case True
    with all w t show ?thesis
      by (simp only: handle_describe_cases) (simp add: identity_of_def described_in_sel child_step_def)
  next
    case False
    let ?d = "describe_self r a (Some (map (snd \<circ> ?one) ?rs))" and ?t = "fst (describe_all W ?rx depth ?rs)"
    have "handle_describe (Suc n) W opts depth r = Answered (t + ?t) ?d"
      using False w assms(1)
      by (simp only: handle_describe_cases) (simp add: too_deep_def case_prod_beta describe_all_results)
    moreover have "?t \<le> rank r * D"
      using child by (fastforce simp: describe_all_def Let_def fold_max_bounds child_step_def)
    moreover have "described_in ?d = identity_of W ` {r'. ?R\<^sup>*\<^sup>* r r'}"
      unfolding all step_set using w by (simp add: described_in_sel identity_of_def)
    ultimately show ?thesis using t by (intro exI conjI) (assumption | simp)+
  qed
qed simp

lemma tracked_described:
  assumes "hm_get (actors s) i = Some r" "describe_one W (handle_describe n W opts 1) 10000 r = (t, x)"
  shows "x \<in> set (handle_describe_all n W opts self s)"
proof -
  have "r \<in> set (hm_values (actors s))" using assms(1) by (force dest: map_of_SomeD)
  then show ?thesis using assms(2)
    by (force simp: handle_describe_all_def describe_all_results describe_timeout_def)
qed

text \<open>C40: The description of a system is complete: for a tracked actor above a hierarchy without cycles, in which
  every actor handles messages within \<open>D\<close> milliseconds, with \<open>D\<close> times the number of levels within five seconds, the
  scheduler's answer has an entry that names exactly the actor and every actor reachable from it through
  the children to be described, by id and path, and no entry of it is an error or a time-out in their place.\<close>

theorem describe_complete:
  assumes "max_depth opts = None" and "\<forall>r r'. child_step W opts r r' \<longrightarrow> rank r' < rank r"
    and "hm_get (actors s) i = Some r"
    and "\<forall>r'. (child_step W opts)\<^sup>*\<^sup>* r r' \<longrightarrow> (\<exists>t a. W r' = HandledAfter t a \<and> t \<le> D)"
    and "Suc (rank r) * D \<le> 5000" and "rank r < n"
  shows "\<exists>d. DescribeOk d \<in> set (handle_describe_all n W opts self s) \<and>
    described_in d = identity_of W ` {r'. (child_step W opts)\<^sup>*\<^sup>* r r'}"
proof -
  obtain t d where d: "handle_describe n W opts 1 r = Answered t d" "t \<le> 5000"
    and all: "described_in d = identity_of W ` {r'. (child_step W opts)\<^sup>*\<^sup>* r r'}"
    using describe_everything [OF assms(1,2,4,5,6), of 1] assms(5) by fastforce
  have "W r \<noteq> Closed" using assms(4) by fastforce
  with d have "describe_one W (handle_describe n W opts 1) 10000 r = (t, DescribeOk (set_time_taken t d))"
    by (simp add: describe_one_ok)
  from tracked_described [OF assms(3) this] all show ?thesis by (intro exI [of _ "set_time_taken t d"]) simp
qed

section \<open>An actor that does not answer\<close>

fun silent_chain :: "world \<Rightarrow> describe_options \<Rightarrow> actor_ref list \<Rightarrow> bool" where
  "silent_chain W opts (r # r' # rs) \<longleftrightarrow>
     child_step W opts r r' \<and> (case W r of HandledAfter t a \<Rightarrow> 0 < t | _ \<Rightarrow> False) \<and> silent_chain W opts (r' # rs)"
| "silent_chain W opts [r] \<longleftrightarrow> W r = NeverHandled"
| "silent_chain W opts [] \<longleftrightarrow> False"

definition late :: "answer \<Rightarrow> bool" where
  "late x = (case x of Answered t d \<Rightarrow> 5000 < t | SenderDropped t \<Rightarrow> 5000 < t | NoAnswer \<Rightarrow> True)"

lemma late_times_out:
  assumes "late (rx r)" "W r \<noteq> Closed" "0 < depth"
  shows "describe_one W rx (describe_timeout depth) r = (5000, from_timeout_err r)"
  using assms by (auto simp: late_def describe_one_def describe_timeout_def split: answer.splits)

lemma handle_describe_parent:
  assumes "W r = HandledAfter t a" "child_step W opts r c" "max_depth opts = None"
  shows "handle_describe (Suc n) W opts depth r =
    (let (t', ds) = describe_all W (handle_describe n W opts (depth + 1)) depth (described_children W opts r)
     in Answered (t + t') (describe_self r a (Some ds)))"
  using assms by (simp only: handle_describe_cases) (auto simp: child_step_def too_deep_def)

lemma silent_chain_not_closed: "silent_chain W opts (r # rs) \<Longrightarrow> W r \<noteq> Closed"
  by (cases rs) auto

lemma silent_chain_late:
  assumes "silent_chain W opts (r # rs)" "max_depth opts = None" "0 < depth"
  shows "late (handle_describe n W opts depth r)"
  using assms(1,3)
proof (induction n arbitrary: depth r rs)
  case (Suc n)
  show ?case
  proof (cases rs)
    case Nil
    with Suc.prems show ?thesis by (simp add: late_def)
  next
    case (Cons c cs)
    with Suc.prems(1) obtain t a where c: "child_step W opts r c" and w: "W r = HandledAfter t a" and t: "0 < t"
      and chain: "silent_chain W opts (c # cs)" by (auto split: mailbox_fate.splits)
    let ?rx = "handle_describe n W opts (depth + 1)"
    have "late (?rx c)" using Suc.IH [OF chain, of "depth + 1"] by simp
    from late_times_out [of ?rx c W depth, OF this silent_chain_not_closed [OF chain] Suc.prems(2)]
    have "5000 \<le> fst (describe_all W ?rx depth (described_children W opts r))"
      using describe_all_time [of c "described_children W opts r" W ?rx depth] c by (simp add: child_step_def)
    with t show ?thesis
      by (simp add: handle_describe_parent [OF w c assms(2)] late_def case_prod_beta del: handle_describe.simps)
  qed
qed (simp add: late_def)

text \<open>One actor that does not answer hides its whole branch. When it sits below other actors of a hierarchy,
  each of which takes some time to handle its message, the description of the tracked actor at the top reports a
  time-out for its child on the way down, although that child and all between it and the silent actor are
  responsive: every level waits five seconds, so each one answers after its parent has stopped waiting.\<close>

theorem silent_actor_hides_branch:
  assumes "max_depth opts = None" and "hm_get (actors s) i = Some r"
    and "silent_chain W opts (r # c # rs)" and "W r = HandledAfter t a" "t \<le> 5000"
  shows "\<exists>d ds. DescribeOk d \<in> set (handle_describe_all (Suc n) W opts self s) \<and>
    (desc_actor_id d, desc_path d) = identity_of W r \<and>
    desc_supervised d = Some ds \<and> from_timeout_err c \<in> set ds"
proof -
  let ?rx = "handle_describe n W opts 2" and ?rs = "described_children W opts r"
  have c: "child_step W opts r c" and chain: "silent_chain W opts (c # rs)" using assms(3) by simp_all
  have top: "handle_describe (Suc n) W opts 1 r =
      Answered (t + fst (describe_all W ?rx 1 ?rs)) (describe_self r a (Some (snd (describe_all W ?rx 1 ?rs))))"
    using handle_describe_parent [OF assms(4) c assms(1), of n 1]
    by (simp add: case_prod_beta numeral_2_eq_2 del: handle_describe.simps)
  have "fst (describe_one W ?rx 5000 x) \<le> 5000" for x
    by (simp add: describe_one_def split: answer.split)
  then have "fst (describe_all W ?rx 1 ?rs) \<le> 5000"
    by (simp add: describe_all_def Let_def fold_max_bounds describe_timeout_def)
  with assms(5) have "t + fst (describe_all W ?rx 1 ?rs) \<le> 10000" by simp
  with assms(4) have one: "describe_one W (handle_describe (Suc n) W opts 1) 10000 r =
      (t + fst (describe_all W ?rx 1 ?rs), DescribeOk (set_time_taken (t + fst (describe_all W ?rx 1 ?rs))
        (describe_self r a (Some (snd (describe_all W ?rx 1 ?rs))))))"
    unfolding describe_one_ok top by simp
  have "late (?rx c)" by (rule silent_chain_late [OF chain assms(1)]) simp
  from late_times_out [of ?rx c W 1, OF this silent_chain_not_closed [OF chain]]
  have "from_timeout_err c \<in> set (snd (describe_all W ?rx 1 ?rs))"
    using c by (force simp: describe_all_results child_step_def)
  with tracked_described [OF assms(2) one, of self] assms(4) show ?thesis
    by (intro exI conjI) (assumption | simp add: identity_of_def)+
qed

text \<open>A tracked actor with a child whose own child never gets to its messages.\<close>

definition ex_described :: "string \<Rightarrow> string \<Rightarrow> (actor_id \<times> mailbox_id) list \<Rightarrow> described_actor" where
  "ex_described path aid cs =
     \<lparr>da_context = (initial_context (Some ''sys'') 1 (start_actor ''Node'' aid path 0) NoTags None)
        \<lparr>ctx_supervised := Some \<lparr>sup_actor_id = aid, sup_path = path @ ''/'' @ aid,
           children = map (\<lambda>(c, mb). (c, child_spawned (start_actor ''Node'' c (path @ ''/'' @ aid) mb))) cs\<rparr>\<rparr>,
      da_tags = NoTags\<rparr>"

definition ex_top :: actor_ref where
  "ex_top = start_actor ''Node'' ''top'' ''sys'' 1"

definition ex_middle :: actor_ref where
  "ex_middle = start_actor ''Node'' ''middle'' ''sys/top'' 2"

definition ex_silent :: actor_ref where
  "ex_silent = start_actor ''Node'' ''silent'' ''sys/top/middle'' 3"

definition ex_world :: "bool \<Rightarrow> world" where
  "ex_world responsive r =
     (if r = ex_top then HandledAfter 2 (ex_described ''sys'' ''top'' [(''middle'', 2)])
      else if r = ex_middle then HandledAfter 3 (ex_described ''sys/top'' ''middle'' [(''silent'', 3)])
      else if r = ex_silent \<and> responsive then HandledAfter 4 (ex_described ''sys/top/middle'' ''silent'' [])
      else NeverHandled)"

lemma ex_world_children:
  "described_children (ex_world b) describe_options_default r =
     (if r = ex_top then [ex_middle] else if r = ex_middle then [ex_silent] else [])"
  by (simp add: described_children_def ex_world_def ex_top_def ex_middle_def ex_silent_def start_actor_def
      ex_described_def get_describable_actors_def describe_options_default_def child_spawned_def)

theorem silent_actor_hides_branch_witness:
  "\<exists>d ds. DescribeOk d \<in> set (handle_describe_all 5 (ex_world False) describe_options_default ex_top
       (scheduler_new\<lparr>actors := [(''top'', ex_top)]\<rparr>)) \<and>
     (desc_actor_id d, desc_path d) = identity_of (ex_world False) ex_top \<and>
     desc_supervised d = Some ds \<and> from_timeout_err ex_middle \<in> set ds"
proof -
  have "silent_chain (ex_world False) describe_options_default [ex_top, ex_middle, ex_silent]"
    by (simp add: child_step_def ex_world_children)
       (simp add: ex_world_def ex_top_def ex_middle_def ex_silent_def start_actor_def)
  from silent_actor_hides_branch [OF _ _ this, of "scheduler_new\<lparr>actors := [(''top'', ex_top)]\<rparr>" "''top''" 2 _ 4 ex_top]
  show ?thesis by (simp add: describe_options_default_def ex_world_def)
qed

theorem describe_complete_witness:
  "\<exists>d. DescribeOk d \<in> set (handle_describe_all 5 (ex_world True) describe_options_default ex_top
       (scheduler_new\<lparr>actors := [(''top'', ex_top)]\<rparr>)) \<and>
     described_in d = identity_of (ex_world True) ` {r'. (child_step (ex_world True) describe_options_default)\<^sup>*\<^sup>* ex_top r'}"
proof (rule describe_complete [where i = "''top''" and D = 4 and
      rank = "\<lambda>r. if r = ex_top then 2 else if r = ex_middle then 1 else 0"])
  let ?R = "child_step (ex_world True) describe_options_default"
  have neq: "ex_top \<noteq> ex_middle" "ex_top \<noteq> ex_silent" "ex_middle \<noteq> ex_silent"
    by (simp_all add: ex_top_def ex_middle_def ex_silent_def start_actor_def)
  then show "\<forall>r r'. ?R r r' \<longrightarrow> (if r' = ex_top then 2 else if r' = ex_middle then 1 else 0) <
      (if r = ex_top then 2 else if r = ex_middle then 1 else (0::nat))"
    by (auto simp: child_step_def ex_world_children)
  have "r' = ex_top \<or> r' = ex_middle \<or> r' = ex_silent" if "?R\<^sup>*\<^sup>* ex_top r'" for r'
    using that by (induction rule: rtranclp_induct) (auto simp: child_step_def ex_world_children split: if_splits)
  then show "\<forall>r'. ?R\<^sup>*\<^sup>* ex_top r' \<longrightarrow> (\<exists>t a. ex_world True r' = HandledAfter t a \<and> t \<le> 4)"
    using neq by (fastforce simp: ex_world_def)
qed (simp_all add: describe_options_default_def)

theorem describe_limited_witness:
  "\<exists>t' d. handle_describe 1 (ex_world False) (describe_options_default\<lparr>max_depth := Some 1\<rparr>) 1 ex_top = Answered t' d \<and>
     within 0 None d"
proof -
  have "\<exists>t' d. handle_describe 1 (ex_world False) (describe_options_default\<lparr>max_depth := Some 1\<rparr>) 1 ex_top = Answered t' d \<and>
      2 \<le> t' \<and> within (1 - 1) (max_children (describe_options_default\<lparr>max_depth := Some 1\<rparr>)) d"
    by (rule describe_limited [THEN conjunct2, rule_format]) (simp_all add: ex_world_def)
  then show ?thesis by (auto simp: describe_options_default_def simp del: handle_describe.simps)
qed

end
