(* ===== verification/Protobuf_Runtime.thy ===== *)
theory Protobuf_Runtime
  imports Messaging
begin

text \<open>
  What the generated protobuf code (\<open>remote/net/proto/network.rs\<close>, \<open>sharding/proto/sharding.rs\<close>,
  \<open>singleton/proto/singleton.rs\<close>, \<open>persistent/journal/proto/journal.rs\<close> and \<open>protocol/chat.rs\<close> of the example) uses of the \<open>protobuf\<close> crate.

  The crate is a parameter: a record of its primitive readers, writers and size functions. What the
  generated code relies on is the locale \<open>proto_runtime\<close>: a value that was written under a field number is
  announced by the tag of that number and read back, and the size functions give the number of
  bytes. \<open>varint_rt\<close> is such a runtime, the documented wire format.

  Unknown fields are not kept: reading one only skips it, and a message made by the program has none.
\<close>

section \<open>The runtime\<close>

type_synonym i32 = int
type_synonym i64 = int

text \<open>The messages of the crate that the generated ones contain.\<close>

record pb_timestamp =
  ts_seconds :: i64
  ts_nanos :: i32

record pb_uint64_value =
  uv_value :: u64

record pb_string_value =
  sv_value :: string

text \<open>
  An arm of \<open>merge_from\<close>'s match reads a field and updates the message; \<open>None\<close> is a nested loop that does not
  end. A writer extends the output.
\<close>

type_synonym ('e, 'm) arm = "bytes \<Rightarrow> 'm \<Rightarrow> ('e + 'm \<times> bytes) option"
type_synonym 'e writer = "bytes \<Rightarrow> 'e + bytes"

record 'e proto_rt =
  read_raw_tag_or_eof :: "bytes \<Rightarrow> 'e + (nat \<times> bytes) option"
  read_uint32 :: "bytes \<Rightarrow> 'e + (u32 \<times> bytes)"
  read_uint64 :: "bytes \<Rightarrow> 'e + (u64 \<times> bytes)"
  read_int64 :: "bytes \<Rightarrow> 'e + (i64 \<times> bytes)"
  read_bool :: "bytes \<Rightarrow> 'e + (bool \<times> bytes)"
  read_string :: "bytes \<Rightarrow> 'e + (string \<times> bytes)"
  read_bytes :: "bytes \<Rightarrow> 'e + (bytes \<times> bytes)"
  read_enum :: "bytes \<Rightarrow> 'e + (i32 \<times> bytes)"
  read_limited :: "bytes \<Rightarrow> 'e + (bytes \<times> bytes)"
  skip_field :: "nat \<Rightarrow> bytes \<Rightarrow> 'e + bytes"
  singular_replaces :: bool
  write_uint32 :: "nat \<Rightarrow> u32 \<Rightarrow> bytes \<Rightarrow> 'e + bytes"
  write_uint64 :: "nat \<Rightarrow> u64 \<Rightarrow> bytes \<Rightarrow> 'e + bytes"
  write_int64 :: "nat \<Rightarrow> i64 \<Rightarrow> bytes \<Rightarrow> 'e + bytes"
  write_bool :: "nat \<Rightarrow> bool \<Rightarrow> bytes \<Rightarrow> 'e + bytes"
  write_string :: "nat \<Rightarrow> string \<Rightarrow> bytes \<Rightarrow> 'e + bytes"
  write_bytes :: "nat \<Rightarrow> bytes \<Rightarrow> bytes \<Rightarrow> 'e + bytes"
  write_enum :: "nat \<Rightarrow> i32 \<Rightarrow> bytes \<Rightarrow> 'e + bytes"
  write_raw_varint32 :: "nat \<Rightarrow> bytes \<Rightarrow> 'e + bytes"
  uint32_size :: "nat \<Rightarrow> u32 \<Rightarrow> nat"
  uint64_size :: "nat \<Rightarrow> u64 \<Rightarrow> nat"
  int64_size :: "nat \<Rightarrow> i64 \<Rightarrow> nat"
  string_size :: "nat \<Rightarrow> string \<Rightarrow> nat"
  bytes_size :: "nat \<Rightarrow> bytes \<Rightarrow> nat"
  int32_size :: "nat \<Rightarrow> i32 \<Rightarrow> nat"
  compute_raw_varint64_size :: "nat \<Rightarrow> nat"
  timestamp_arms :: "(nat \<times> ('e, pb_timestamp) arm) list"
  timestamp_size :: "pb_timestamp \<Rightarrow> nat"
  timestamp_write :: "pb_timestamp \<Rightarrow> 'e writer"
  uint64_value_arms :: "(nat \<times> ('e, pb_uint64_value) arm) list"
  uint64_value_size :: "pb_uint64_value \<Rightarrow> nat"
  uint64_value_write :: "pb_uint64_value \<Rightarrow> 'e writer"
  string_value_arms :: "(nat \<times> ('e, pb_string_value) arm) list"
  string_value_size :: "pb_string_value \<Rightarrow> nat"
  string_value_write :: "pb_string_value \<Rightarrow> 'e writer"

definition timestamp_new :: pb_timestamp where
  "timestamp_new = \<lparr>ts_seconds = 0, ts_nanos = 0\<rparr>"

definition uint64_value_new :: pb_uint64_value where
  "uint64_value_new = \<lparr>uv_value = 0\<rparr>"

definition string_value_new :: pb_string_value where
  "string_value_new = \<lparr>sv_value = []\<rparr>"

section \<open>The shape of generated code\<close>

partial_function (option) merge_loop ::
  "'e proto_rt \<Rightarrow> (nat \<times> ('e, 'm) arm) list \<Rightarrow> bytes \<Rightarrow> 'm \<Rightarrow> ('e + 'm) option" where
  "merge_loop R arms is m =
     (case read_raw_tag_or_eof R is of
        Inl e \<Rightarrow> Some (Inl e)
      | Inr None \<Rightarrow> Some (Inr m)
      | Inr (Some (tag, is1)) \<Rightarrow>
          Option.bind
            (case map_of arms tag of
               Some arm \<Rightarrow> arm is1 m
             | None \<Rightarrow> Some (map_sum id (Pair m) (skip_field R tag is1)))
            (\<lambda>r. case r of Inl e \<Rightarrow> Some (Inl e) | Inr (m', is2) \<Rightarrow> merge_loop R arms is2 m'))"

definition read_into :: "(bytes \<Rightarrow> 'e + ('v \<times> bytes)) \<Rightarrow> ('v \<Rightarrow> 'm \<Rightarrow> 'm) \<Rightarrow> ('e, 'm) arm" where
  "read_into rd upd is m = Some (map_sum id (\<lambda>(v, is'). (upd v m, is')) (rd is))"

text \<open>A nested message is read within its limit, by its own \<open>merge_from\<close>.\<close>

definition read_nested ::
  "'e proto_rt \<Rightarrow> (nat \<times> ('e, 'n) arm) list \<Rightarrow> bytes \<Rightarrow> 'n \<Rightarrow> ('e + 'n \<times> bytes) option" where
  "read_nested R arms is n0 =
     (case read_limited R is of
        Inl e \<Rightarrow> Some (Inl e)
      | Inr (sub, rest) \<Rightarrow> map_option (map_sum id (\<lambda>n. (n, rest))) (merge_loop R arms sub n0))"

definition set_nested :: "('n \<Rightarrow> 'm \<Rightarrow> 'm) \<Rightarrow> 'm \<Rightarrow> ('e + 'n \<times> bytes) option \<Rightarrow> ('e + 'm \<times> bytes) option" where
  "set_nested upd m = map_option (map_sum id (\<lambda>(n, rest). (upd n m, rest)))"

text \<open>
  \<open>read_singular_message_into_field\<close>: when the field occurs again, the crate replaces the message or merges into it.
\<close>

definition read_singular ::
  "'e proto_rt \<Rightarrow> (nat \<times> ('e, 'n) arm) list \<Rightarrow> 'n \<Rightarrow> ('m \<Rightarrow> 'n option) \<Rightarrow> ('n option \<Rightarrow> 'm \<Rightarrow> 'm) \<Rightarrow> ('e, 'm) arm" where
  "read_singular R arms n_new get put is m =
     set_nested (\<lambda>n. put (Some n)) m
       (read_nested R arms is (case get m of Some n \<Rightarrow> if singular_replaces R then n_new else n | None \<Rightarrow> n_new))"

definition read_repeated ::
  "'e proto_rt \<Rightarrow> (nat \<times> ('e, 'n) arm) list \<Rightarrow> 'n \<Rightarrow> ('m \<Rightarrow> 'n list) \<Rightarrow> ('n list \<Rightarrow> 'm \<Rightarrow> 'm) \<Rightarrow> ('e, 'm) arm" where
  "read_repeated R arms n_new get put is m =
     set_nested (\<lambda>n. put (get m @ [n])) m (read_nested R arms is n_new)"

definition read_push ::
  "(bytes \<Rightarrow> 'e + ('v \<times> bytes)) \<Rightarrow> ('m \<Rightarrow> 'v list) \<Rightarrow> ('v list \<Rightarrow> 'm \<Rightarrow> 'm) \<Rightarrow> ('e, 'm) arm" where
  "read_push rd get put = read_into rd (\<lambda>v m. put (get m @ [v]) m)"

text \<open>An entry of a map is a nested message with the key as field 1 and the value as field 2.\<close>

definition map_entry_arms :: "'e proto_rt \<Rightarrow> (nat \<times> ('e, string \<times> string) arm) list" where
  "map_entry_arms R =
     [(10, read_into (read_string R) (\<lambda>k (_, v). (k, v))),
      (18, read_into (read_string R) (\<lambda>v (k, _). (k, v)))]"

definition read_map ::
  "'e proto_rt \<Rightarrow> ('m \<Rightarrow> (string, string) hash_map) \<Rightarrow> ((string, string) hash_map \<Rightarrow> 'm \<Rightarrow> 'm) \<Rightarrow> ('e, 'm) arm" where
  "read_map R get put is m =
     set_nested (\<lambda>(k, v). put (hm_insert k v (get m))) m (read_nested R (map_entry_arms R) is ([], []))"

fun write_all :: "'e writer list \<Rightarrow> 'e writer" where
  "write_all [] out = Inr out"
| "write_all (w # ws) out = (case w out of Inl e \<Rightarrow> Inl e | Inr out' \<Rightarrow> write_all ws out')"

definition write_if :: "bool \<Rightarrow> 'e writer \<Rightarrow> 'e writer" where
  "write_if b w out = (if b then w out else Inr out)"

definition size_if :: "bool \<Rightarrow> nat \<Rightarrow> nat" where
  "size_if b s = (if b then s else 0)"

definition header_size :: "'e proto_rt \<Rightarrow> nat \<Rightarrow> nat" where
  "header_size R len = 1 + compute_raw_varint64_size R len + len"

text \<open>
  \<open>write_message_field_with_cached_size\<close>: the tag with wire type 2, the size that \<open>compute_size\<close> has left in the
  message as a 32-bit number, and what the message writes.
\<close>

definition write_nested :: "'e proto_rt \<Rightarrow> nat \<Rightarrow> nat \<Rightarrow> 'e writer \<Rightarrow> 'e writer" where
  "write_nested R n len w =
     write_all [write_raw_varint32 R (8 * n + 2), write_raw_varint32 R (len mod 2 ^ 32), w]"

definition write_some :: "'n option \<Rightarrow> ('n \<Rightarrow> 'e writer) \<Rightarrow> 'e writer" where
  "write_some x w out = (case x of Some v \<Rightarrow> w v out | None \<Rightarrow> Inr out)"

definition size_some :: "'n option \<Rightarrow> ('n \<Rightarrow> nat) \<Rightarrow> nat" where
  "size_some x s = (case x of Some v \<Rightarrow> s v | None \<Rightarrow> 0)"

definition write_each :: "'n list \<Rightarrow> ('n \<Rightarrow> 'e writer) \<Rightarrow> 'e writer" where
  "write_each xs w = write_all (map w xs)"

definition size_each :: "'n list \<Rightarrow> ('n \<Rightarrow> nat) \<Rightarrow> nat" where
  "size_each xs s = sum_list (map s xs)"

definition map_entry_size :: "'e proto_rt \<Rightarrow> string \<times> string \<Rightarrow> nat" where
  "map_entry_size R = (\<lambda>(k, v). string_size R 1 k + string_size R 2 v)"

definition map_entry_write :: "'e proto_rt \<Rightarrow> string \<times> string \<Rightarrow> 'e writer" where
  "map_entry_write R = (\<lambda>(k, v). write_all [write_string R 1 k, write_string R 2 v])"

text \<open>\<open>write_to_bytes\<close> and \<open>parse_from_bytes\<close> of the crate.\<close>

definition proto_parse ::
  "'e proto_rt \<Rightarrow> (nat \<times> ('e, 'm) arm) list \<Rightarrow> 'm \<Rightarrow> bytes \<Rightarrow> ('e + 'm) option" where
  "proto_parse R arms m_new b = merge_loop R arms b m_new"

section \<open>Contract\<close>

text \<open>\<open>wt\<close> is the wire type; the program's field numbers are below 16, so that a tag is one byte.\<close>

definition field_law ::
  "'e proto_rt \<Rightarrow> ('v \<Rightarrow> bool) \<Rightarrow> nat \<Rightarrow> (nat \<Rightarrow> 'v \<Rightarrow> 'e writer) \<Rightarrow> (nat \<Rightarrow> 'v \<Rightarrow> nat) \<Rightarrow> (bytes \<Rightarrow> 'e + ('v \<times> bytes)) \<Rightarrow> bool" where
  "field_law R ok wt wr sz rd \<longleftrightarrow>
     (\<forall>n v out out'. 0 < n \<and> n < 16 \<and> ok v \<and> wr n v out = Inr out' \<longrightarrow>
        (\<exists>chunk. out' = out @ chunk \<and> length chunk = sz n v \<and>
           (\<forall>rest. \<exists>is. read_raw_tag_or_eof R (chunk @ rest) = Inr (Some (8 * n + wt, is)) \<and> rd is = Inr (v, rest))))"

definition limit_law :: "'e proto_rt \<Rightarrow> bool" where
  "limit_law R \<longleftrightarrow>
     (\<forall>n body out out1 out2. 0 < n \<and> n < 16 \<and> length body < 2 ^ 32 \<and>
        write_raw_varint32 R (8 * n + 2) out = Inr out1 \<and> write_raw_varint32 R (length body) out1 = Inr out2 \<longrightarrow>
        (\<exists>head. out2 = out @ head \<and> length head = 1 + compute_raw_varint64_size R (length body) \<and>
           (\<forall>rest. \<exists>is. read_raw_tag_or_eof R (head @ body @ rest) = Inr (Some (8 * n + 2, is)) \<and>
              read_limited R is = Inr (body, rest))))"

definition is_i32 :: "int \<Rightarrow> bool" where
  "is_i32 v \<longleftrightarrow> - (2 ^ 31) \<le> v \<and> v < 2 ^ 31"

definition is_i64 :: "int \<Rightarrow> bool" where
  "is_i64 v \<longleftrightarrow> - (2 ^ 63) \<le> v \<and> v < 2 ^ 63"

text \<open>
  \<open>encodes R arms w s m0 m1\<close>: what \<open>w\<close> writes is \<open>s\<close> bytes long, and merging it takes the message \<open>m0\<close> to \<open>m1\<close>.
\<close>

definition encodes :: "'e proto_rt \<Rightarrow> (nat \<times> ('e, 'm) arm) list \<Rightarrow> 'e writer \<Rightarrow> nat \<Rightarrow> 'm \<Rightarrow> 'm \<Rightarrow> bool" where
  "encodes R arms w s m0 m1 \<longleftrightarrow>
     (\<forall>out out'. w out = Inr out' \<longrightarrow>
        (\<exists>chunk. out' = out @ chunk \<and> length chunk = s \<and>
           (\<forall>rest. merge_loop R arms (chunk @ rest) m0 = merge_loop R arms rest m1)))"

locale proto_runtime =
  fixes R :: "'e proto_rt"
  assumes eof: "read_raw_tag_or_eof R [] = Inr None"
    and uint32_law: "field_law R (\<lambda>_. True) 0 (write_uint32 R) (uint32_size R) (read_uint32 R)"
    and uint64_law: "field_law R (\<lambda>_. True) 0 (write_uint64 R) (uint64_size R) (read_uint64 R)"
    and int64_law: "field_law R is_i64 0 (write_int64 R) (int64_size R) (read_int64 R)"
    and bool_law: "field_law R (\<lambda>_. True) 0 (write_bool R) (\<lambda>_ _. 2) (read_bool R)"
    and enum_law: "field_law R is_i32 0 (write_enum R) (int32_size R) (read_enum R)"
    and string_law: "field_law R (\<lambda>_. True) 2 (write_string R) (string_size R) (read_string R)"
    and bytes_law: "field_law R (\<lambda>_. True) 2 (write_bytes R) (bytes_size R) (read_bytes R)"
    and limit_law: "limit_law R"
    and timestamp_law: "is_i64 (ts_seconds t) \<Longrightarrow> is_i32 (ts_nanos t) \<Longrightarrow>
      encodes R (timestamp_arms R) (timestamp_write R t) (timestamp_size R t) timestamp_new t"
    and uint64_value_law:
      "encodes R (uint64_value_arms R) (uint64_value_write R u) (uint64_value_size R u) uint64_value_new u"
    and string_value_law:
      "encodes R (string_value_arms R) (string_value_write R v) (string_value_size R v) string_value_new v"

section \<open>Composing encodings\<close>

lemma encodesE:
  assumes "encodes R arms w s m0 m1" "w out = Inr out'"
  obtains chunk where "out' = out @ chunk" "length chunk = s"
    "\<And>rest. merge_loop R arms (chunk @ rest) m0 = merge_loop R arms rest m1"
  using assms by (auto simp: encodes_def)

lemma encodes_Nil: "encodes R arms (write_all []) (sum_list []) m m"
  by (auto simp: encodes_def)

lemma encodes_Cons:
  assumes "encodes R arms w s m0 m1" "encodes R arms (write_all ws) (sum_list ss) m1 m2"
  shows "encodes R arms (write_all (w # ws)) (sum_list (s # ss)) m0 m2"
  unfolding encodes_def
proof (intro allI impI)
  fix out out' assume "write_all (w # ws) out = Inr out'"
  then obtain out1 where o1: "w out = Inr out1" "write_all ws out1 = Inr out'" by (auto split: sum.splits)
  from assms(1) o1(1) obtain c1 where c1: "out1 = out @ c1" "length c1 = s"
    "\<And>rest. merge_loop R arms (c1 @ rest) m0 = merge_loop R arms rest m1" by (rule encodesE) (rule that)
  from assms(2) o1(2) obtain c2 where "out' = out1 @ c2" "length c2 = sum_list ss"
    "\<And>rest. merge_loop R arms (c2 @ rest) m1 = merge_loop R arms rest m2" by (rule encodesE) (rule that)
  with c1 show "\<exists>chunk. out' = out @ chunk \<and> length chunk = sum_list (s # ss) \<and>
      (\<forall>rest. merge_loop R arms (chunk @ rest) m0 = merge_loop R arms rest m2)"
    by (intro exI [of _ "c1 @ c2"]) simp
qed

lemma encodes_if:
  assumes "b \<Longrightarrow> encodes R arms w s m0 m1" "\<not> b \<Longrightarrow> m1 = m0"
  shows "encodes R arms (write_if b w) (size_if b s) m0 m1"
  using assms by (cases b) (auto simp: encodes_def write_if_def size_if_def)

lemma encodes_some:
  assumes "\<And>v. x = Some v \<Longrightarrow> encodes R arms (w v) (s v) m0 m1" "x = None \<Longrightarrow> m1 = m0"
  shows "encodes R arms (write_some x w) (size_some x s) m0 m1"
  using assms by (cases x) (auto simp: encodes_def write_some_def size_some_def)

lemma encodes_each:
  assumes "\<And>i. i < length xs \<Longrightarrow> encodes R arms (w (xs ! i)) (s (xs ! i)) (f i) (f (Suc i))"
  shows "encodes R arms (write_each xs w) (size_each xs s) (f 0) (f (length xs))"
  using assms
proof (induction xs arbitrary: f)
  case Nil
  then show ?case by (simp add: write_each_def size_each_def encodes_def)
next
  case (Cons x xs)
  have "encodes R arms (w x) (s x) (f 0) (f (Suc 0))" using Cons.prems [of 0] by simp
  moreover have "encodes R arms (write_each xs w) (size_each xs s) (f (Suc 0)) (f (Suc (length xs)))"
    using Cons.prems by (intro Cons.IH [of "f \<circ> Suc", simplified]) fastforce
  ultimately show ?case unfolding write_each_def size_each_def
    by (simp only: list.map list.size(4) add_Suc_right add_0_right) (rule encodes_Cons)
qed

lemma encodes_field:
  assumes law: "field_law R ok wt wr sz rd" and n: "0 < n" "n < 16" "ok v"
    and arm: "map_of arms (8 * n + wt) = Some (read_into rd upd)"
  shows "encodes R arms (wr n v) (sz n v) m0 (upd v m0)"
  unfolding encodes_def
proof (intro allI impI)
  fix out out' assume "wr n v out = Inr out'"
  then obtain chunk where c: "out' = out @ chunk" "length chunk = sz n v"
    "\<And>rest. \<exists>is. read_raw_tag_or_eof R (chunk @ rest) = Inr (Some (8 * n + wt, is)) \<and> rd is = Inr (v, rest)"
    using law n unfolding field_law_def by metis
  have "merge_loop R arms (chunk @ rest) m0 = merge_loop R arms rest (upd v m0)" for rest
  proof -
    obtain input where input: "read_raw_tag_or_eof R (chunk @ rest) = Inr (Some (8 * n + wt, input))" "rd input = Inr (v, rest)"
      using c(3) by blast
    show ?thesis by (subst merge_loop.simps) (simp add: input arm read_into_def)
  qed
  with c show "\<exists>chunk. out' = out @ chunk \<and> length chunk = sz n v \<and>
      (\<forall>rest. merge_loop R arms (chunk @ rest) m0 = merge_loop R arms rest (upd v m0))" by blast
qed

text \<open>One rule per kind of field, for the list of writers of a message beside the list of their sizes.\<close>

lemma field_step:
  assumes "field_law R ok wt wr sz rd" "map_of arms (8 * n + wt) = Some (read_into rd upd)" "0 < n" "n < 16" "ok v"
    "\<not> b \<Longrightarrow> upd v m0 = m0" "encodes R arms (write_all ws) (sum_list ss) (upd v m0) m"
  shows "encodes R arms (write_all (write_if b (wr n v) # ws)) (sum_list (size_if b (sz n v) # ss)) m0 m"
proof (rule encodes_Cons)
  show "encodes R arms (write_if b (wr n v)) (size_if b (sz n v)) m0 (upd v m0)"
    by (rule encodes_if) (use assms in \<open>auto intro: encodes_field\<close>)
qed (fact assms(7))

lemma last_step: "m0 = m \<Longrightarrow> encodes R arms (write_all []) (sum_list []) m0 m"
  by (simp only: encodes_Nil)

context proto_runtime
begin

lemma merge_end: "merge_loop R arms [] m = Some (Inr m)"
  by (subst merge_loop.simps) (simp add: eof)

lemma encodes_parse:
  assumes "encodes R arms w s m0 m1" "w [] = Inr b"
  shows "merge_loop R arms b m0 = Some (Inr m1)" "length b = s"
proof -
  from assms obtain chunk where "b = [] @ chunk" "length chunk = s"
    "\<And>rest. merge_loop R arms (chunk @ rest) m0 = merge_loop R arms rest m1" by (rule encodesE) (rule that)
  from this(1,2) this(3) [of "[]"] show "merge_loop R arms b m0 = Some (Inr m1)" "length b = s" by (simp_all add: merge_end)
qed

text \<open>The cached size is the right one, so that the limit cuts out just what the nested message wrote.\<close>

lemma encodes_nested:
  assumes enc: "encodes R arms' w s n_new v" and n: "0 < n" "n < 16" "s < 2 ^ 32"
    and arm: "map_of arms (8 * n + 2) = Some arm"
    and eff: "\<And>is rest. read_nested R arms' is n_new = Some (Inr (v, rest)) \<Longrightarrow> arm is m0 = Some (Inr (m1, rest))"
  shows "encodes R arms (write_nested R n s w) (header_size R s) m0 m1"
  unfolding encodes_def
proof (intro allI impI)
  fix out out' assume "write_nested R n s w out = Inr out'"
  then obtain out1 out2 where o: "write_raw_varint32 R (8 * n + 2) out = Inr out1"
    "write_raw_varint32 R s out1 = Inr out2" "w out2 = Inr out'"
    using n(3) by (auto simp: write_nested_def split: sum.splits)
  from enc o(3) obtain body where body: "out' = out2 @ body" "length body = s"
    "\<And>rest. merge_loop R arms' (body @ rest) n_new = merge_loop R arms' rest v" by (rule encodesE) (rule that)
  obtain head where head: "out2 = out @ head" "length head = 1 + compute_raw_varint64_size R s"
    "\<And>rest. \<exists>is. read_raw_tag_or_eof R (head @ body @ rest) = Inr (Some (8 * n + 2, is)) \<and>
       read_limited R is = Inr (body, rest)"
    using limit_law n o(1,2) body(2) unfolding limit_law_def by metis
  have "merge_loop R arms ((head @ body) @ rest) m0 = merge_loop R arms rest m1" for rest
  proof -
    obtain input where input: "read_raw_tag_or_eof R (head @ body @ rest) = Inr (Some (8 * n + 2, input))"
      "read_limited R input = Inr (body, rest)" using head(3) by blast
    have "merge_loop R arms' body n_new = Some (Inr v)" using body(3) [of "[]"] by (simp add: merge_end)
    with input(2) have "arm input m0 = Some (Inr (m1, rest))" by (intro eff) (simp add: read_nested_def)
    then show ?thesis using arm by (subst merge_loop.simps) (simp add: input(1))
  qed
  with body head show "\<exists>chunk. out' = out @ chunk \<and> length chunk = header_size R s \<and>
      (\<forall>rest. merge_loop R arms (chunk @ rest) m0 = merge_loop R arms rest m1)"
    by (intro exI [of _ "head @ body"]) (simp add: header_size_def)
qed

lemma encodes_singular:
  assumes "\<And>v. x = Some v \<Longrightarrow> encodes R arms' (w v) (s v) n_new v \<and> s v < 2 ^ 32" and n: "0 < n" "n < 16"
    and arm: "map_of arms (8 * n + 2) = Some (read_singular R arms' n_new get put)"
    and "get m0 = None" "put None m0 = m0"
  shows "encodes R arms (write_some x (\<lambda>v. write_nested R n (s v) (w v))) (size_some x (\<lambda>v. header_size R (s v)))
    m0 (put x m0)"
proof (rule encodes_some)
  fix v assume x: "x = Some v"
  with assms(1) have enc: "encodes R arms' (w v) (s v) n_new v" and s: "s v < 2 ^ 32" by blast+
  show "encodes R arms (write_nested R n (s v) (w v)) (header_size R (s v)) m0 (put x m0)"
    by (rule encodes_nested [OF enc n s arm]) (simp add: read_singular_def set_nested_def assms(5) x)
qed (simp add: assms(6))

lemma encodes_repeated:
  assumes "\<And>v. v \<in> set xs \<Longrightarrow> encodes R arms' (w v) (s v) n_new v \<and> s v < 2 ^ 32" and n: "0 < n" "n < 16"
    and arm: "map_of arms (8 * n + 2) = Some (read_repeated R arms' n_new get put)"
    and "\<And>ys. get (put ys m0) = ys" "put [] m0 = m0" "\<And>ys zs. put zs (put ys m0) = put zs m0"
  shows "encodes R arms (write_each xs (\<lambda>v. write_nested R n (s v) (w v))) (size_each xs (\<lambda>v. header_size R (s v)))
    m0 (put xs m0)"
proof -
  have "encodes R arms (write_each xs (\<lambda>v. write_nested R n (s v) (w v))) (size_each xs (\<lambda>v. header_size R (s v)))
      (put (take 0 xs) m0) (put (take (length xs) xs) m0)"
  proof (rule encodes_each)
    fix i assume i: "i < length xs"
    then have enc: "encodes R arms' (w (xs ! i)) (s (xs ! i)) n_new (xs ! i)" and s: "s (xs ! i) < 2 ^ 32"
      using assms(1) by simp_all
    show "encodes R arms (write_nested R n (s (xs ! i)) (w (xs ! i))) (header_size R (s (xs ! i)))
        (put (take i xs) m0) (put (take (Suc i) xs) m0)"
      by (rule encodes_nested [OF enc n s arm])
         (simp add: read_repeated_def set_nested_def assms(5,7) take_Suc_conv_app_nth [OF i])
  qed
  then show ?thesis by (simp add: assms(6))
qed

lemma encodes_map_entry: "encodes R (map_entry_arms R) (map_entry_write R (k, v)) (map_entry_size R (k, v)) ([], []) (k, v)"
proof -
  have key: "encodes R (map_entry_arms R) (write_string R 1 k) (string_size R 1 k) ([], []) (k, [])"
    using encodes_field [OF string_law, where n = 1 and v = k and arms = "map_entry_arms R" and upd = "\<lambda>k (_, v). (k, v)" and ?m0.0 = "([], [])"]
    by (simp add: map_entry_arms_def)
  have val: "encodes R (map_entry_arms R) (write_string R 2 v) (string_size R 2 v) (k, []) (k, v)"
    using encodes_field [OF string_law, where n = 2 and v = v and arms = "map_entry_arms R" and upd = "\<lambda>v (k, _). (k, v)" and ?m0.0 = "(k, [])"]
    by (simp add: map_entry_arms_def)
  from encodes_Cons [OF key encodes_Cons [OF val encodes_Nil]] show ?thesis
    by (simp add: map_entry_write_def map_entry_size_def)
qed

lemma encodes_map:
  assumes "hm_wf xs" "\<And>x. x \<in> set xs \<Longrightarrow> map_entry_size R x < 2 ^ 32" and n: "0 < n" "n < 16"
    and arm: "map_of arms (8 * n + 2) = Some (read_map R get put)"
    and "\<And>ys. get (put ys m0) = ys" "put [] m0 = m0" "\<And>ys zs. put zs (put ys m0) = put zs m0"
  shows "encodes R arms (write_each xs (\<lambda>x. write_nested R n (map_entry_size R x) (map_entry_write R x)))
    (size_each xs (\<lambda>x. header_size R (map_entry_size R x))) m0 (put xs m0)"
proof -
  have "encodes R arms (write_each xs (\<lambda>x. write_nested R n (map_entry_size R x) (map_entry_write R x)))
    (size_each xs (\<lambda>x. header_size R (map_entry_size R x))) (put (take 0 xs) m0) (put (take (length xs) xs) m0)"
  proof (rule encodes_each)
    fix i assume i: "i < length xs"
    obtain k v where x: "xs ! i = (k, v)" by (cases "xs ! i")
    have s: "map_entry_size R (k, v) < 2 ^ 32" using assms(2) [of "(k, v)"] i by (simp add: x [symmetric])
    have "distinct (map fst (take (Suc i) xs))" using assms(1) by (simp add: take_map [symmetric])
    then have "k \<notin> fst ` set (take i xs)" using take_Suc_conv_app_nth [OF i] x by auto
    then have ins: "hm_insert k v (take i xs) = take (Suc i) xs"
      using take_Suc_conv_app_nth [OF i] x by (simp add: hm_insert_absent)
    show "encodes R arms (write_nested R n (map_entry_size R (xs ! i)) (map_entry_write R (xs ! i)))
        (header_size R (map_entry_size R (xs ! i))) (put (take i xs) m0) (put (take (Suc i) xs) m0)"
      unfolding x
      by (rule encodes_nested [OF encodes_map_entry n s arm]) (simp add: read_map_def set_nested_def assms(6,8) ins)
  qed
  then show ?thesis by (simp add: assms(7))
qed

lemmas uint32_step = field_step [OF uint32_law, unfolded add_0_right]
lemmas uint64_step = field_step [OF uint64_law, unfolded add_0_right]
lemmas int64_step = field_step [OF int64_law, unfolded add_0_right]
lemmas bool_step = field_step [OF bool_law, unfolded add_0_right]
lemmas enum_step = field_step [OF enum_law, unfolded add_0_right]
lemmas string_step = field_step [OF string_law]
lemmas bytes_step = field_step [OF bytes_law]

lemma singular_step:
  assumes "map_of arms (8 * n + 2) = Some (read_singular R arms' n_new get put)" "0 < n" "n < 16"
    "\<And>v. x = Some v \<Longrightarrow> encodes R arms' (w v) (s v) n_new v" "\<And>v. x = Some v \<Longrightarrow> s v < 2 ^ 32"
    "get m0 = None" "put None m0 = m0" "encodes R arms (write_all ws) (sum_list ss) (put x m0) m"
  shows "encodes R arms (write_all (write_some x (\<lambda>v. write_nested R n (s v) (w v)) # ws))
    (sum_list (size_some x (\<lambda>v. header_size R (s v)) # ss)) m0 m"
  by (rule encodes_Cons [OF encodes_singular [OF _ assms(2,3,1,6,7)] assms(8)]) (use assms(4,5) in blast)

lemma repeated_step:
  assumes "map_of arms (8 * n + 2) = Some (read_repeated R arms' n_new get put)" "0 < n" "n < 16"
    "\<And>v. v \<in> set xs \<Longrightarrow> encodes R arms' (w v) (s v) n_new v" "\<And>v. v \<in> set xs \<Longrightarrow> s v < 2 ^ 32"
    "\<And>ys. get (put ys m0) = ys" "put [] m0 = m0" "\<And>ys zs. put zs (put ys m0) = put zs m0"
    "encodes R arms (write_all ws) (sum_list ss) (put xs m0) m"
  shows "encodes R arms (write_all (write_each xs (\<lambda>v. write_nested R n (s v) (w v)) # ws))
    (sum_list (size_each xs (\<lambda>v. header_size R (s v)) # ss)) m0 m"
  by (rule encodes_Cons [OF encodes_repeated [OF _ assms(2,3,1,6,7,8)] assms(9)]) (use assms(4,5) in blast)+

lemma map_step:
  assumes "map_of arms (8 * n + 2) = Some (read_map R get put)" "0 < n" "n < 16"
    "hm_wf xs" "\<And>x. x \<in> set xs \<Longrightarrow> map_entry_size R x < 2 ^ 32"
    "\<And>ys. get (put ys m0) = ys" "put [] m0 = m0" "\<And>ys zs. put zs (put ys m0) = put zs m0"
    "encodes R arms (write_all ws) (sum_list ss) (put xs m0) m"
  shows "encodes R arms (write_all (write_each xs (\<lambda>x. write_nested R n (map_entry_size R x) (map_entry_write R x)) # ws))
    (sum_list (size_each xs (\<lambda>x. header_size R (map_entry_size R x)) # ss)) m0 m"
  by (rule encodes_Cons [OF encodes_map [OF assms(4,5,2,3,1,6,7,8)] assms(9)])

lemma strings_step:
  assumes "map_of arms (8 * n + 2) = Some (read_push (read_string R) get put)" "0 < n" "n < 16"
    "\<And>ys. get (put ys m0) = ys" "put [] m0 = m0" "\<And>ys zs. put zs (put ys m0) = put zs m0"
    "encodes R arms (write_all ws) (sum_list ss) (put xs m0) m"
  shows "encodes R arms (write_all (write_each xs (write_string R n) # ws)) (sum_list (size_each xs (string_size R n) # ss)) m0 m"
proof (rule encodes_Cons [OF _ assms(7)])
  have "encodes R arms (write_each xs (write_string R n)) (size_each xs (string_size R n))
      (put (take 0 xs) m0) (put (take (length xs) xs) m0)"
  proof (rule encodes_each)
    fix i assume i: "i < length xs"
    show "encodes R arms (write_string R n (xs ! i)) (string_size R n (xs ! i)) (put (take i xs) m0) (put (take (Suc i) xs) m0)"
      using encodes_field [OF string_law assms(2,3) TrueI assms(1) [unfolded read_push_def], of "xs ! i" "put (take i xs) m0"]
      by (simp add: assms(4,6) take_Suc_conv_app_nth [OF i])
  qed
  then show "encodes R arms (write_each xs (write_string R n)) (size_each xs (string_size R n)) m0 (put xs m0)"
    by (simp add: assms(5))
qed

lemmas steps = last_step uint32_step uint64_step int64_step bool_step enum_step string_step bytes_step
  singular_step repeated_step strings_step map_step

end

section \<open>Parsing always ends\<close>

text \<open>
  A reader never gives back more input than it was given. \<open>arm_total\<close> is that for an arm of a match, with the
  termination of the loops inside it.
\<close>

definition shrinks :: "(bytes \<Rightarrow> 'e + ('v \<times> bytes)) \<Rightarrow> bool" where
  "shrinks rd \<longleftrightarrow> (\<forall>b v rest. rd b = Inr (v, rest) \<longrightarrow> length rest \<le> length b)"

definition arm_total :: "('e, 'm) arm \<Rightarrow> bool" where
  "arm_total a \<longleftrightarrow> (\<forall>b m. \<exists>r. a b m = Some r \<and> (\<forall>m' rest. r = Inr (m', rest) \<longrightarrow> length rest \<le> length b))"

definition arms_total :: "(nat \<times> ('e, 'm) arm) list \<Rightarrow> bool" where
  "arms_total arms \<longleftrightarrow> list_all (\<lambda>(_, a). arm_total a) arms"

lemma arms_total_simps [simp]:
  "arms_total []" "arms_total ((t, a) # arms) \<longleftrightarrow> arm_total a \<and> arms_total arms"
  by (simp_all add: arms_total_def)

lemma arms_totalD: "arms_total arms \<Longrightarrow> map_of arms t = Some a \<Longrightarrow> arm_total a"
  by (auto simp: arms_total_def list_all_iff dest: map_of_SomeD)

lemma read_into_total: "shrinks rd \<Longrightarrow> arm_total (read_into rd upd)"
  by (auto simp: arm_total_def read_into_def shrinks_def map_sum_def split: sum.splits)

locale proto_runtime_total = proto_runtime +
  assumes tag_progress: "read_raw_tag_or_eof R b = Inr (Some (t, rest)) \<Longrightarrow> length rest < length b"
    and skip_shrinks: "skip_field R t b = Inr rest \<Longrightarrow> length rest \<le> length b"
    and readers_shrink: "shrinks (read_uint32 R)" "shrinks (read_uint64 R)" "shrinks (read_int64 R)" "shrinks (read_bool R)"
      "shrinks (read_string R)" "shrinks (read_bytes R)" "shrinks (read_enum R)" "shrinks (read_limited R)"
    and timestamp_total: "arms_total (timestamp_arms R)"
    and uint64_value_total: "arms_total (uint64_value_arms R)"
    and string_value_total: "arms_total (string_value_arms R)"
begin

lemma merge_total:
  assumes "arms_total arms"
  shows "\<exists>r. merge_loop R arms b m = Some r"
proof (induction "length b" arbitrary: b m rule: less_induct)
  case less
  show ?case
  proof (cases "read_raw_tag_or_eof R b")
    case (Inl e)
    then show ?thesis by (subst merge_loop.simps) simp
  next
    case (Inr x)
    show ?thesis
    proof (cases x)
      case None
      with Inr show ?thesis by (subst merge_loop.simps) simp
    next
      case (Some y)
      obtain t b1 where y: "y = (t, b1)" by (cases y)
      have b1: "length b1 < length b" using tag_progress Inr Some y by blast
      obtain r where r: "(case map_of arms t of Some arm \<Rightarrow> arm b1 m | None \<Rightarrow> Some (map_sum id (Pair m) (skip_field R t b1))) = Some r"
        and small: "\<And>m' rest. r = Inr (m', rest) \<Longrightarrow> length rest \<le> length b1"
      proof (cases "map_of arms t")
        case None
        then show thesis
          by (intro that [of "map_sum id (Pair m) (skip_field R t b1)"])
             (auto simp: map_sum_def dest: skip_shrinks split: sum.splits)
      next
        case (Some a)
        from arms_totalD [OF assms this] obtain r where "a b1 m = Some r"
          "\<forall>m' rest. r = Inr (m', rest) \<longrightarrow> length rest \<le> length b1" unfolding arm_total_def by blast
        with Some show thesis by (intro that [of r]) simp_all
      qed
      show ?thesis
      proof (cases r)
        case (Inl e)
        with Inr Some y r show ?thesis by (subst merge_loop.simps) simp
      next
        case inner: (Inr z)
        obtain m' rest where z: "z = (m', rest)" by (cases z)
        have "length rest < length b" using small [of m' rest] b1 inner z by simp
        from less [OF this] obtain r' where "merge_loop R arms rest m' = Some r'" by blast
        with Inr Some y r inner z show ?thesis by (subst merge_loop.simps) simp
      qed
    qed
  qed
qed

lemma read_nested_total:
  assumes "arms_total arms"
  shows "\<exists>r. read_nested R arms b n = Some r \<and> (\<forall>n' rest. r = Inr (n', rest) \<longrightarrow> length rest \<le> length b)"
proof (cases "read_limited R b")
  case (Inr x)
  obtain inner rest where x: "x = (inner, rest)" by (cases x)
  obtain r where r: "merge_loop R arms inner n = Some r" using merge_total [OF assms] by blast
  have "length rest \<le> length b" using readers_shrink(8) Inr x by (auto simp: shrinks_def)
  then show ?thesis using Inr x r by (auto simp: read_nested_def map_sum_def split: sum.splits)
qed (simp add: read_nested_def)

lemma set_nested_total:
  assumes "\<exists>r. x = Some r \<and> (\<forall>n' rest. r = Inr (n', rest) \<longrightarrow> length rest \<le> k)"
  shows "\<exists>r. set_nested upd m x = Some r \<and> (\<forall>m' rest. r = Inr (m', rest) \<longrightarrow> length rest \<le> k)"
proof -
  obtain r where r: "x = Some r" "\<forall>n' rest. r = Inr (n', rest) \<longrightarrow> length rest \<le> k" using assms by blast
  then show ?thesis by (cases r) (auto simp: set_nested_def)
qed

lemma nested_arms_total:
  "arms_total arms \<Longrightarrow> arm_total (read_singular R arms n get put)"
  "arms_total arms \<Longrightarrow> arm_total (read_repeated R arms n get2 put2)"
  "arm_total (read_map R get3 put3)"
proof -
  show "arm_total (read_singular R arms n get put)" if "arms_total arms"
    unfolding arm_total_def read_singular_def by (intro allI set_nested_total read_nested_total that)
  show "arm_total (read_repeated R arms n get2 put2)" if "arms_total arms"
    unfolding arm_total_def read_repeated_def by (intro allI set_nested_total read_nested_total that)
  have "arms_total (map_entry_arms R)"
    by (simp add: map_entry_arms_def read_into_total readers_shrink)
  then show "arm_total (read_map R get3 put3)"
    unfolding arm_total_def read_map_def by (intro allI set_nested_total read_nested_total)
qed

lemma read_push_total: "arm_total (read_push (read_string R) get put)"
  by (simp add: read_push_def read_into_total readers_shrink)

lemmas totals = read_into_total readers_shrink nested_arms_total read_push_total timestamp_total uint64_value_total string_value_total

end

end
