(* ===== verification/Proto_Sharding.thy ===== *)
theory Proto_Sharding
  imports Protobuf_Runtime
begin

text \<open>
  The generated messages of the journal, of sharding and of singletons, as the generated code reads, measures and
  writes them: \<open>persistent/journal/proto/journal.rs\<close>, \<open>sharding/proto/sharding.rs\<close> and
  \<open>singleton/proto/singleton.rs\<close>. Every message is a record, with its \<open>_new\<close> value, the arms of its \<open>merge_from\<close>,
  its \<open>compute_size\<close> and its \<open>write_to_with_cached_sizes\<close>; an enum is the number it is on the wire.

  \<open>_ok\<close> says what the Rust types and the 32-bit cached sizes say: numbers are in range, the keys of a map are
  distinct, and nested messages are shorter than 4 GiB.
\<close>

section \<open>The journal\<close>

subsection \<open>\<open>JournalEntry\<close>\<close>

record pb_journal_entry =
  pb_journal_entry_sequence :: i64
  pb_journal_entry_payload_type :: string
  pb_journal_entry_bytes :: bytes

definition pb_journal_entry_new :: pb_journal_entry where
  "pb_journal_entry_new = \<lparr>pb_journal_entry_sequence = 0, pb_journal_entry_payload_type = [], pb_journal_entry_bytes = []\<rparr>"

definition pb_journal_entry_arms :: "'e proto_rt \<Rightarrow> (nat \<times> ('e, pb_journal_entry) arm) list" where
  "pb_journal_entry_arms R =
     [(8, read_into (read_int64 R) (\<lambda>v m. m\<lparr>pb_journal_entry_sequence := v\<rparr>)),
      (18, read_into (read_string R) (\<lambda>v m. m\<lparr>pb_journal_entry_payload_type := v\<rparr>)),
      (26, read_into (read_bytes R) (\<lambda>v m. m\<lparr>pb_journal_entry_bytes := v\<rparr>))]"

definition pb_journal_entry_size :: "'e proto_rt \<Rightarrow> pb_journal_entry \<Rightarrow> nat" where
  "pb_journal_entry_size R m =
     sum_list
       [size_if (pb_journal_entry_sequence m \<noteq> 0) (int64_size R 1 (pb_journal_entry_sequence m)),
        size_if (pb_journal_entry_payload_type m \<noteq> []) (string_size R 2 (pb_journal_entry_payload_type m)),
        size_if (pb_journal_entry_bytes m \<noteq> []) (bytes_size R 3 (pb_journal_entry_bytes m))]"

definition pb_journal_entry_write :: "'e proto_rt \<Rightarrow> pb_journal_entry \<Rightarrow> 'e writer" where
  "pb_journal_entry_write R m =
     write_all
       [write_if (pb_journal_entry_sequence m \<noteq> 0) (write_int64 R 1 (pb_journal_entry_sequence m)),
        write_if (pb_journal_entry_payload_type m \<noteq> []) (write_string R 2 (pb_journal_entry_payload_type m)),
        write_if (pb_journal_entry_bytes m \<noteq> []) (write_bytes R 3 (pb_journal_entry_bytes m))]"

definition pb_journal_entry_ok :: "'e proto_rt \<Rightarrow> pb_journal_entry \<Rightarrow> bool" where
  "pb_journal_entry_ok R m \<longleftrightarrow>
     is_i64 (pb_journal_entry_sequence m)"


section \<open>Sharding\<close>

subsection \<open>\<open>AllocateShard\<close>\<close>

record pb_allocate_shard =
  pb_allocate_shard_shard_id :: u32
  pb_allocate_shard_rebalancing :: bool

definition pb_allocate_shard_new :: pb_allocate_shard where
  "pb_allocate_shard_new = \<lparr>pb_allocate_shard_shard_id = 0, pb_allocate_shard_rebalancing = False\<rparr>"

definition pb_allocate_shard_arms :: "'e proto_rt \<Rightarrow> (nat \<times> ('e, pb_allocate_shard) arm) list" where
  "pb_allocate_shard_arms R =
     [(8, read_into (read_uint32 R) (\<lambda>v m. m\<lparr>pb_allocate_shard_shard_id := v\<rparr>)),
      (16, read_into (read_bool R) (\<lambda>v m. m\<lparr>pb_allocate_shard_rebalancing := v\<rparr>))]"

definition pb_allocate_shard_size :: "'e proto_rt \<Rightarrow> pb_allocate_shard \<Rightarrow> nat" where
  "pb_allocate_shard_size R m =
     sum_list
       [size_if (pb_allocate_shard_shard_id m \<noteq> 0) (uint32_size R 1 (pb_allocate_shard_shard_id m)),
        size_if (pb_allocate_shard_rebalancing m) 2]"

definition pb_allocate_shard_write :: "'e proto_rt \<Rightarrow> pb_allocate_shard \<Rightarrow> 'e writer" where
  "pb_allocate_shard_write R m =
     write_all
       [write_if (pb_allocate_shard_shard_id m \<noteq> 0) (write_uint32 R 1 (pb_allocate_shard_shard_id m)),
        write_if (pb_allocate_shard_rebalancing m) (write_bool R 2 (pb_allocate_shard_rebalancing m))]"

subsection \<open>\<open>RemoteShard\<close>\<close>

record pb_remote_shard =
  pb_remote_shard_shard_id :: u32
  pb_remote_shard_node_id :: u64

definition pb_remote_shard_new :: pb_remote_shard where
  "pb_remote_shard_new = \<lparr>pb_remote_shard_shard_id = 0, pb_remote_shard_node_id = 0\<rparr>"

definition pb_remote_shard_arms :: "'e proto_rt \<Rightarrow> (nat \<times> ('e, pb_remote_shard) arm) list" where
  "pb_remote_shard_arms R =
     [(8, read_into (read_uint32 R) (\<lambda>v m. m\<lparr>pb_remote_shard_shard_id := v\<rparr>)),
      (16, read_into (read_uint64 R) (\<lambda>v m. m\<lparr>pb_remote_shard_node_id := v\<rparr>))]"

definition pb_remote_shard_size :: "'e proto_rt \<Rightarrow> pb_remote_shard \<Rightarrow> nat" where
  "pb_remote_shard_size R m =
     sum_list
       [size_if (pb_remote_shard_shard_id m \<noteq> 0) (uint32_size R 1 (pb_remote_shard_shard_id m)),
        size_if (pb_remote_shard_node_id m \<noteq> 0) (uint64_size R 2 (pb_remote_shard_node_id m))]"

definition pb_remote_shard_write :: "'e proto_rt \<Rightarrow> pb_remote_shard \<Rightarrow> 'e writer" where
  "pb_remote_shard_write R m =
     write_all
       [write_if (pb_remote_shard_shard_id m \<noteq> 0) (write_uint32 R 1 (pb_remote_shard_shard_id m)),
        write_if (pb_remote_shard_node_id m \<noteq> 0) (write_uint64 R 2 (pb_remote_shard_node_id m))]"

subsection \<open>\<open>ShardAllocated\<close>\<close>

record pb_shard_allocated =
  pb_shard_allocated_shard :: "pb_remote_shard option"

definition pb_shard_allocated_new :: pb_shard_allocated where
  "pb_shard_allocated_new = \<lparr>pb_shard_allocated_shard = None\<rparr>"

definition pb_shard_allocated_arms :: "'e proto_rt \<Rightarrow> (nat \<times> ('e, pb_shard_allocated) arm) list" where
  "pb_shard_allocated_arms R =
     [(10, read_singular R (pb_remote_shard_arms R) pb_remote_shard_new pb_shard_allocated_shard (\<lambda>v m. m\<lparr>pb_shard_allocated_shard := v\<rparr>))]"

definition pb_shard_allocated_size :: "'e proto_rt \<Rightarrow> pb_shard_allocated \<Rightarrow> nat" where
  "pb_shard_allocated_size R m =
     sum_list
       [size_some (pb_shard_allocated_shard m) (\<lambda>v. header_size R (pb_remote_shard_size R v))]"

definition pb_shard_allocated_write :: "'e proto_rt \<Rightarrow> pb_shard_allocated \<Rightarrow> 'e writer" where
  "pb_shard_allocated_write R m =
     write_all
       [write_some (pb_shard_allocated_shard m) (\<lambda>v. write_nested R 1 (pb_remote_shard_size R v) (pb_remote_shard_write R v))]"

definition pb_shard_allocated_ok :: "'e proto_rt \<Rightarrow> pb_shard_allocated \<Rightarrow> bool" where
  "pb_shard_allocated_ok R m \<longleftrightarrow>
     (\<forall>v. pb_shard_allocated_shard m = Some v \<longrightarrow> pb_remote_shard_size R v < 2 ^ 32)"

subsection \<open>\<open>ShardReallocating\<close>\<close>

record pb_shard_reallocating =
  pb_shard_reallocating_shard_id :: u32

definition pb_shard_reallocating_new :: pb_shard_reallocating where
  "pb_shard_reallocating_new = \<lparr>pb_shard_reallocating_shard_id = 0\<rparr>"

definition pb_shard_reallocating_arms :: "'e proto_rt \<Rightarrow> (nat \<times> ('e, pb_shard_reallocating) arm) list" where
  "pb_shard_reallocating_arms R =
     [(8, read_into (read_uint32 R) (\<lambda>v m. m\<lparr>pb_shard_reallocating_shard_id := v\<rparr>))]"

definition pb_shard_reallocating_size :: "'e proto_rt \<Rightarrow> pb_shard_reallocating \<Rightarrow> nat" where
  "pb_shard_reallocating_size R m =
     sum_list
       [size_if (pb_shard_reallocating_shard_id m \<noteq> 0) (uint32_size R 1 (pb_shard_reallocating_shard_id m))]"

definition pb_shard_reallocating_write :: "'e proto_rt \<Rightarrow> pb_shard_reallocating \<Rightarrow> 'e writer" where
  "pb_shard_reallocating_write R m =
     write_all
       [write_if (pb_shard_reallocating_shard_id m \<noteq> 0) (write_uint32 R 1 (pb_shard_reallocating_shard_id m))]"

subsection \<open>\<open>StopShard\<close>\<close>

record pb_stop_shard =
  pb_stop_shard_shard_id :: u32
  pb_stop_shard_origin_node_id :: u64
  pb_stop_shard_request_id :: string

definition pb_stop_shard_new :: pb_stop_shard where
  "pb_stop_shard_new = \<lparr>pb_stop_shard_shard_id = 0, pb_stop_shard_origin_node_id = 0, pb_stop_shard_request_id = []\<rparr>"

definition pb_stop_shard_arms :: "'e proto_rt \<Rightarrow> (nat \<times> ('e, pb_stop_shard) arm) list" where
  "pb_stop_shard_arms R =
     [(8, read_into (read_uint32 R) (\<lambda>v m. m\<lparr>pb_stop_shard_shard_id := v\<rparr>)),
      (16, read_into (read_uint64 R) (\<lambda>v m. m\<lparr>pb_stop_shard_origin_node_id := v\<rparr>)),
      (26, read_into (read_string R) (\<lambda>v m. m\<lparr>pb_stop_shard_request_id := v\<rparr>))]"

definition pb_stop_shard_size :: "'e proto_rt \<Rightarrow> pb_stop_shard \<Rightarrow> nat" where
  "pb_stop_shard_size R m =
     sum_list
       [size_if (pb_stop_shard_shard_id m \<noteq> 0) (uint32_size R 1 (pb_stop_shard_shard_id m)),
        size_if (pb_stop_shard_origin_node_id m \<noteq> 0) (uint64_size R 2 (pb_stop_shard_origin_node_id m)),
        size_if (pb_stop_shard_request_id m \<noteq> []) (string_size R 3 (pb_stop_shard_request_id m))]"

definition pb_stop_shard_write :: "'e proto_rt \<Rightarrow> pb_stop_shard \<Rightarrow> 'e writer" where
  "pb_stop_shard_write R m =
     write_all
       [write_if (pb_stop_shard_shard_id m \<noteq> 0) (write_uint32 R 1 (pb_stop_shard_shard_id m)),
        write_if (pb_stop_shard_origin_node_id m \<noteq> 0) (write_uint64 R 2 (pb_stop_shard_origin_node_id m)),
        write_if (pb_stop_shard_request_id m \<noteq> []) (write_string R 3 (pb_stop_shard_request_id m))]"

subsection \<open>\<open>ShardStopped\<close>\<close>

record pb_shard_stopped =
  pb_shard_stopped_shard_id :: u32
  pb_shard_stopped_origin_node_id :: u64
  pb_shard_stopped_is_successful :: bool

definition pb_shard_stopped_new :: pb_shard_stopped where
  "pb_shard_stopped_new = \<lparr>pb_shard_stopped_shard_id = 0, pb_shard_stopped_origin_node_id = 0, pb_shard_stopped_is_successful = False\<rparr>"

definition pb_shard_stopped_arms :: "'e proto_rt \<Rightarrow> (nat \<times> ('e, pb_shard_stopped) arm) list" where
  "pb_shard_stopped_arms R =
     [(8, read_into (read_uint32 R) (\<lambda>v m. m\<lparr>pb_shard_stopped_shard_id := v\<rparr>)),
      (16, read_into (read_uint64 R) (\<lambda>v m. m\<lparr>pb_shard_stopped_origin_node_id := v\<rparr>)),
      (24, read_into (read_bool R) (\<lambda>v m. m\<lparr>pb_shard_stopped_is_successful := v\<rparr>))]"

definition pb_shard_stopped_size :: "'e proto_rt \<Rightarrow> pb_shard_stopped \<Rightarrow> nat" where
  "pb_shard_stopped_size R m =
     sum_list
       [size_if (pb_shard_stopped_shard_id m \<noteq> 0) (uint32_size R 1 (pb_shard_stopped_shard_id m)),
        size_if (pb_shard_stopped_origin_node_id m \<noteq> 0) (uint64_size R 2 (pb_shard_stopped_origin_node_id m)),
        size_if (pb_shard_stopped_is_successful m) 2]"

definition pb_shard_stopped_write :: "'e proto_rt \<Rightarrow> pb_shard_stopped \<Rightarrow> 'e writer" where
  "pb_shard_stopped_write R m =
     write_all
       [write_if (pb_shard_stopped_shard_id m \<noteq> 0) (write_uint32 R 1 (pb_shard_stopped_shard_id m)),
        write_if (pb_shard_stopped_origin_node_id m \<noteq> 0) (write_uint64 R 2 (pb_shard_stopped_origin_node_id m)),
        write_if (pb_shard_stopped_is_successful m) (write_bool R 3 (pb_shard_stopped_is_successful m))]"

subsection \<open>\<open>AllocateShardResult\<close>\<close>

record pb_allocate_shard_result =
  pb_allocate_shard_result_result_type :: i32
  pb_allocate_shard_result_allocation :: "pb_remote_shard option"
  pb_allocate_shard_result_err :: i32

definition pb_allocate_shard_result_new :: pb_allocate_shard_result where
  "pb_allocate_shard_result_new = \<lparr>pb_allocate_shard_result_result_type = 0, pb_allocate_shard_result_allocation = None, pb_allocate_shard_result_err = 0\<rparr>"

definition pb_allocate_shard_result_arms :: "'e proto_rt \<Rightarrow> (nat \<times> ('e, pb_allocate_shard_result) arm) list" where
  "pb_allocate_shard_result_arms R =
     [(8, read_into (read_enum R) (\<lambda>v m. m\<lparr>pb_allocate_shard_result_result_type := v\<rparr>)),
      (18, read_singular R (pb_remote_shard_arms R) pb_remote_shard_new pb_allocate_shard_result_allocation (\<lambda>v m. m\<lparr>pb_allocate_shard_result_allocation := v\<rparr>)),
      (24, read_into (read_enum R) (\<lambda>v m. m\<lparr>pb_allocate_shard_result_err := v\<rparr>))]"

definition pb_allocate_shard_result_size :: "'e proto_rt \<Rightarrow> pb_allocate_shard_result \<Rightarrow> nat" where
  "pb_allocate_shard_result_size R m =
     sum_list
       [size_if (pb_allocate_shard_result_result_type m \<noteq> 0) (int32_size R 1 (pb_allocate_shard_result_result_type m)),
        size_some (pb_allocate_shard_result_allocation m) (\<lambda>v. header_size R (pb_remote_shard_size R v)),
        size_if (pb_allocate_shard_result_err m \<noteq> 0) (int32_size R 3 (pb_allocate_shard_result_err m))]"

definition pb_allocate_shard_result_write :: "'e proto_rt \<Rightarrow> pb_allocate_shard_result \<Rightarrow> 'e writer" where
  "pb_allocate_shard_result_write R m =
     write_all
       [write_if (pb_allocate_shard_result_result_type m \<noteq> 0) (write_enum R 1 (pb_allocate_shard_result_result_type m)),
        write_some (pb_allocate_shard_result_allocation m) (\<lambda>v. write_nested R 2 (pb_remote_shard_size R v) (pb_remote_shard_write R v)),
        write_if (pb_allocate_shard_result_err m \<noteq> 0) (write_enum R 3 (pb_allocate_shard_result_err m))]"

definition pb_allocate_shard_result_ok :: "'e proto_rt \<Rightarrow> pb_allocate_shard_result \<Rightarrow> bool" where
  "pb_allocate_shard_result_ok R m \<longleftrightarrow>
     is_i32 (pb_allocate_shard_result_result_type m) \<and>
     (\<forall>v. pb_allocate_shard_result_allocation m = Some v \<longrightarrow> pb_remote_shard_size R v < 2 ^ 32) \<and>
     is_i32 (pb_allocate_shard_result_err m)"

subsection \<open>\<open>Recipe\<close>\<close>

record pb_remote_entity_recipe =
  pb_remote_entity_recipe_recipe :: bytes

definition pb_remote_entity_recipe_new :: pb_remote_entity_recipe where
  "pb_remote_entity_recipe_new = \<lparr>pb_remote_entity_recipe_recipe = []\<rparr>"

definition pb_remote_entity_recipe_arms :: "'e proto_rt \<Rightarrow> (nat \<times> ('e, pb_remote_entity_recipe) arm) list" where
  "pb_remote_entity_recipe_arms R =
     [(10, read_into (read_bytes R) (\<lambda>v m. m\<lparr>pb_remote_entity_recipe_recipe := v\<rparr>))]"

definition pb_remote_entity_recipe_size :: "'e proto_rt \<Rightarrow> pb_remote_entity_recipe \<Rightarrow> nat" where
  "pb_remote_entity_recipe_size R m =
     sum_list
       [size_if (pb_remote_entity_recipe_recipe m \<noteq> []) (bytes_size R 1 (pb_remote_entity_recipe_recipe m))]"

definition pb_remote_entity_recipe_write :: "'e proto_rt \<Rightarrow> pb_remote_entity_recipe \<Rightarrow> 'e writer" where
  "pb_remote_entity_recipe_write R m =
     write_all
       [write_if (pb_remote_entity_recipe_recipe m \<noteq> []) (write_bytes R 1 (pb_remote_entity_recipe_recipe m))]"

subsection \<open>\<open>RemoteEntityRequest\<close>\<close>

record pb_remote_entity_request =
  pb_remote_entity_request_request_id :: string
  pb_remote_entity_request_actor_id :: string
  pb_remote_entity_request_message_type :: string
  pb_remote_entity_request_message :: bytes
  pb_remote_entity_request_recipe :: "pb_remote_entity_recipe option"
  pb_remote_entity_request_origin_node :: u64

definition pb_remote_entity_request_new :: pb_remote_entity_request where
  "pb_remote_entity_request_new = \<lparr>pb_remote_entity_request_request_id = [], pb_remote_entity_request_actor_id = [], pb_remote_entity_request_message_type = [], pb_remote_entity_request_message = [], pb_remote_entity_request_recipe = None, pb_remote_entity_request_origin_node = 0\<rparr>"

definition pb_remote_entity_request_arms :: "'e proto_rt \<Rightarrow> (nat \<times> ('e, pb_remote_entity_request) arm) list" where
  "pb_remote_entity_request_arms R =
     [(10, read_into (read_string R) (\<lambda>v m. m\<lparr>pb_remote_entity_request_request_id := v\<rparr>)),
      (18, read_into (read_string R) (\<lambda>v m. m\<lparr>pb_remote_entity_request_actor_id := v\<rparr>)),
      (26, read_into (read_string R) (\<lambda>v m. m\<lparr>pb_remote_entity_request_message_type := v\<rparr>)),
      (34, read_into (read_bytes R) (\<lambda>v m. m\<lparr>pb_remote_entity_request_message := v\<rparr>)),
      (42, read_singular R (pb_remote_entity_recipe_arms R) pb_remote_entity_recipe_new pb_remote_entity_request_recipe (\<lambda>v m. m\<lparr>pb_remote_entity_request_recipe := v\<rparr>)),
      (48, read_into (read_uint64 R) (\<lambda>v m. m\<lparr>pb_remote_entity_request_origin_node := v\<rparr>))]"

definition pb_remote_entity_request_size :: "'e proto_rt \<Rightarrow> pb_remote_entity_request \<Rightarrow> nat" where
  "pb_remote_entity_request_size R m =
     sum_list
       [size_if (pb_remote_entity_request_request_id m \<noteq> []) (string_size R 1 (pb_remote_entity_request_request_id m)),
        size_if (pb_remote_entity_request_actor_id m \<noteq> []) (string_size R 2 (pb_remote_entity_request_actor_id m)),
        size_if (pb_remote_entity_request_message_type m \<noteq> []) (string_size R 3 (pb_remote_entity_request_message_type m)),
        size_if (pb_remote_entity_request_message m \<noteq> []) (bytes_size R 4 (pb_remote_entity_request_message m)),
        size_some (pb_remote_entity_request_recipe m) (\<lambda>v. header_size R (pb_remote_entity_recipe_size R v)),
        size_if (pb_remote_entity_request_origin_node m \<noteq> 0) (uint64_size R 6 (pb_remote_entity_request_origin_node m))]"

definition pb_remote_entity_request_write :: "'e proto_rt \<Rightarrow> pb_remote_entity_request \<Rightarrow> 'e writer" where
  "pb_remote_entity_request_write R m =
     write_all
       [write_if (pb_remote_entity_request_request_id m \<noteq> []) (write_string R 1 (pb_remote_entity_request_request_id m)),
        write_if (pb_remote_entity_request_actor_id m \<noteq> []) (write_string R 2 (pb_remote_entity_request_actor_id m)),
        write_if (pb_remote_entity_request_message_type m \<noteq> []) (write_string R 3 (pb_remote_entity_request_message_type m)),
        write_if (pb_remote_entity_request_message m \<noteq> []) (write_bytes R 4 (pb_remote_entity_request_message m)),
        write_some (pb_remote_entity_request_recipe m) (\<lambda>v. write_nested R 5 (pb_remote_entity_recipe_size R v) (pb_remote_entity_recipe_write R v)),
        write_if (pb_remote_entity_request_origin_node m \<noteq> 0) (write_uint64 R 6 (pb_remote_entity_request_origin_node m))]"

definition pb_remote_entity_request_ok :: "'e proto_rt \<Rightarrow> pb_remote_entity_request \<Rightarrow> bool" where
  "pb_remote_entity_request_ok R m \<longleftrightarrow>
     (\<forall>v. pb_remote_entity_request_recipe m = Some v \<longrightarrow> pb_remote_entity_recipe_size R v < 2 ^ 32)"

subsection \<open>\<open>StartEntity\<close>\<close>

record pb_start_entity =
  pb_start_entity_actor_id :: string
  pb_start_entity_recipe :: bytes

definition pb_start_entity_new :: pb_start_entity where
  "pb_start_entity_new = \<lparr>pb_start_entity_actor_id = [], pb_start_entity_recipe = []\<rparr>"

definition pb_start_entity_arms :: "'e proto_rt \<Rightarrow> (nat \<times> ('e, pb_start_entity) arm) list" where
  "pb_start_entity_arms R =
     [(10, read_into (read_string R) (\<lambda>v m. m\<lparr>pb_start_entity_actor_id := v\<rparr>)),
      (18, read_into (read_bytes R) (\<lambda>v m. m\<lparr>pb_start_entity_recipe := v\<rparr>))]"

definition pb_start_entity_size :: "'e proto_rt \<Rightarrow> pb_start_entity \<Rightarrow> nat" where
  "pb_start_entity_size R m =
     sum_list
       [size_if (pb_start_entity_actor_id m \<noteq> []) (string_size R 1 (pb_start_entity_actor_id m)),
        size_if (pb_start_entity_recipe m \<noteq> []) (bytes_size R 2 (pb_start_entity_recipe m))]"

definition pb_start_entity_write :: "'e proto_rt \<Rightarrow> pb_start_entity \<Rightarrow> 'e writer" where
  "pb_start_entity_write R m =
     write_all
       [write_if (pb_start_entity_actor_id m \<noteq> []) (write_string R 1 (pb_start_entity_actor_id m)),
        write_if (pb_start_entity_recipe m \<noteq> []) (write_bytes R 2 (pb_start_entity_recipe m))]"

subsection \<open>\<open>PassivateEntity\<close>\<close>

record pb_passivate_entity =
  pb_passivate_entity_actor_id :: string

definition pb_passivate_entity_new :: pb_passivate_entity where
  "pb_passivate_entity_new = \<lparr>pb_passivate_entity_actor_id = []\<rparr>"

definition pb_passivate_entity_arms :: "'e proto_rt \<Rightarrow> (nat \<times> ('e, pb_passivate_entity) arm) list" where
  "pb_passivate_entity_arms R =
     [(10, read_into (read_string R) (\<lambda>v m. m\<lparr>pb_passivate_entity_actor_id := v\<rparr>))]"

definition pb_passivate_entity_size :: "'e proto_rt \<Rightarrow> pb_passivate_entity \<Rightarrow> nat" where
  "pb_passivate_entity_size R m =
     sum_list
       [size_if (pb_passivate_entity_actor_id m \<noteq> []) (string_size R 1 (pb_passivate_entity_actor_id m))]"

definition pb_passivate_entity_write :: "'e proto_rt \<Rightarrow> pb_passivate_entity \<Rightarrow> 'e writer" where
  "pb_passivate_entity_write R m =
     write_all
       [write_if (pb_passivate_entity_actor_id m \<noteq> []) (write_string R 1 (pb_passivate_entity_actor_id m))]"

subsection \<open>\<open>RemoveEntity\<close>\<close>

record pb_remove_entity =
  pb_remove_entity_actor_id :: string

definition pb_remove_entity_new :: pb_remove_entity where
  "pb_remove_entity_new = \<lparr>pb_remove_entity_actor_id = []\<rparr>"

definition pb_remove_entity_arms :: "'e proto_rt \<Rightarrow> (nat \<times> ('e, pb_remove_entity) arm) list" where
  "pb_remove_entity_arms R =
     [(10, read_into (read_string R) (\<lambda>v m. m\<lparr>pb_remove_entity_actor_id := v\<rparr>))]"

definition pb_remove_entity_size :: "'e proto_rt \<Rightarrow> pb_remove_entity \<Rightarrow> nat" where
  "pb_remove_entity_size R m =
     sum_list
       [size_if (pb_remove_entity_actor_id m \<noteq> []) (string_size R 1 (pb_remove_entity_actor_id m))]"

definition pb_remove_entity_write :: "'e proto_rt \<Rightarrow> pb_remove_entity \<Rightarrow> 'e writer" where
  "pb_remove_entity_write R m =
     write_all
       [write_if (pb_remove_entity_actor_id m \<noteq> []) (write_string R 1 (pb_remove_entity_actor_id m))]"

subsection \<open>\<open>Entity\<close>\<close>

record pb_snapshot_entity =
  pb_snapshot_entity_actor_id :: string
  pb_snapshot_entity_recipe :: bytes
  pb_snapshot_entity_state :: i32

definition pb_snapshot_entity_new :: pb_snapshot_entity where
  "pb_snapshot_entity_new = \<lparr>pb_snapshot_entity_actor_id = [], pb_snapshot_entity_recipe = [], pb_snapshot_entity_state = 0\<rparr>"

definition pb_snapshot_entity_arms :: "'e proto_rt \<Rightarrow> (nat \<times> ('e, pb_snapshot_entity) arm) list" where
  "pb_snapshot_entity_arms R =
     [(10, read_into (read_string R) (\<lambda>v m. m\<lparr>pb_snapshot_entity_actor_id := v\<rparr>)),
      (18, read_into (read_bytes R) (\<lambda>v m. m\<lparr>pb_snapshot_entity_recipe := v\<rparr>)),
      (24, read_into (read_enum R) (\<lambda>v m. m\<lparr>pb_snapshot_entity_state := v\<rparr>))]"

definition pb_snapshot_entity_size :: "'e proto_rt \<Rightarrow> pb_snapshot_entity \<Rightarrow> nat" where
  "pb_snapshot_entity_size R m =
     sum_list
       [size_if (pb_snapshot_entity_actor_id m \<noteq> []) (string_size R 1 (pb_snapshot_entity_actor_id m)),
        size_if (pb_snapshot_entity_recipe m \<noteq> []) (bytes_size R 2 (pb_snapshot_entity_recipe m)),
        size_if (pb_snapshot_entity_state m \<noteq> 0) (int32_size R 3 (pb_snapshot_entity_state m))]"

definition pb_snapshot_entity_write :: "'e proto_rt \<Rightarrow> pb_snapshot_entity \<Rightarrow> 'e writer" where
  "pb_snapshot_entity_write R m =
     write_all
       [write_if (pb_snapshot_entity_actor_id m \<noteq> []) (write_string R 1 (pb_snapshot_entity_actor_id m)),
        write_if (pb_snapshot_entity_recipe m \<noteq> []) (write_bytes R 2 (pb_snapshot_entity_recipe m)),
        write_if (pb_snapshot_entity_state m \<noteq> 0) (write_enum R 3 (pb_snapshot_entity_state m))]"

definition pb_snapshot_entity_ok :: "'e proto_rt \<Rightarrow> pb_snapshot_entity \<Rightarrow> bool" where
  "pb_snapshot_entity_ok R m \<longleftrightarrow>
     is_i32 (pb_snapshot_entity_state m)"

subsection \<open>\<open>ShardStateSnapshot\<close>\<close>

record pb_shard_state_snapshot =
  pb_shard_state_snapshot_shard_id :: u32
  pb_shard_state_snapshot_node_id :: u64
  pb_shard_state_snapshot_entities :: "pb_snapshot_entity list"

definition pb_shard_state_snapshot_new :: pb_shard_state_snapshot where
  "pb_shard_state_snapshot_new = \<lparr>pb_shard_state_snapshot_shard_id = 0, pb_shard_state_snapshot_node_id = 0, pb_shard_state_snapshot_entities = []\<rparr>"

definition pb_shard_state_snapshot_arms :: "'e proto_rt \<Rightarrow> (nat \<times> ('e, pb_shard_state_snapshot) arm) list" where
  "pb_shard_state_snapshot_arms R =
     [(8, read_into (read_uint32 R) (\<lambda>v m. m\<lparr>pb_shard_state_snapshot_shard_id := v\<rparr>)),
      (16, read_into (read_uint64 R) (\<lambda>v m. m\<lparr>pb_shard_state_snapshot_node_id := v\<rparr>)),
      (26, read_repeated R (pb_snapshot_entity_arms R) pb_snapshot_entity_new pb_shard_state_snapshot_entities (\<lambda>v m. m\<lparr>pb_shard_state_snapshot_entities := v\<rparr>))]"

definition pb_shard_state_snapshot_size :: "'e proto_rt \<Rightarrow> pb_shard_state_snapshot \<Rightarrow> nat" where
  "pb_shard_state_snapshot_size R m =
     sum_list
       [size_if (pb_shard_state_snapshot_shard_id m \<noteq> 0) (uint32_size R 1 (pb_shard_state_snapshot_shard_id m)),
        size_if (pb_shard_state_snapshot_node_id m \<noteq> 0) (uint64_size R 2 (pb_shard_state_snapshot_node_id m)),
        size_each (pb_shard_state_snapshot_entities m) (\<lambda>v. header_size R (pb_snapshot_entity_size R v))]"

definition pb_shard_state_snapshot_write :: "'e proto_rt \<Rightarrow> pb_shard_state_snapshot \<Rightarrow> 'e writer" where
  "pb_shard_state_snapshot_write R m =
     write_all
       [write_if (pb_shard_state_snapshot_shard_id m \<noteq> 0) (write_uint32 R 1 (pb_shard_state_snapshot_shard_id m)),
        write_if (pb_shard_state_snapshot_node_id m \<noteq> 0) (write_uint64 R 2 (pb_shard_state_snapshot_node_id m)),
        write_each (pb_shard_state_snapshot_entities m) (\<lambda>v. write_nested R 3 (pb_snapshot_entity_size R v) (pb_snapshot_entity_write R v))]"

definition pb_shard_state_snapshot_ok :: "'e proto_rt \<Rightarrow> pb_shard_state_snapshot \<Rightarrow> bool" where
  "pb_shard_state_snapshot_ok R m \<longleftrightarrow>
     (\<forall>v \<in> set (pb_shard_state_snapshot_entities m). pb_snapshot_entity_ok R v \<and> pb_snapshot_entity_size R v < 2 ^ 32)"

subsection \<open>\<open>GetShardingStats\<close>\<close>

type_synonym pb_get_sharding_stats = unit

definition pb_get_sharding_stats_new :: pb_get_sharding_stats where
  "pb_get_sharding_stats_new = ()"

definition pb_get_sharding_stats_arms :: "'e proto_rt \<Rightarrow> (nat \<times> ('e, pb_get_sharding_stats) arm) list" where
  "pb_get_sharding_stats_arms R =
     []"

definition pb_get_sharding_stats_size :: "'e proto_rt \<Rightarrow> pb_get_sharding_stats \<Rightarrow> nat" where
  "pb_get_sharding_stats_size R m =
     sum_list
       []"

definition pb_get_sharding_stats_write :: "'e proto_rt \<Rightarrow> pb_get_sharding_stats \<Rightarrow> 'e writer" where
  "pb_get_sharding_stats_write R m =
     write_all
       []"

subsection \<open>\<open>NodeStats\<close>\<close>

record pb_node_stats =
  pb_node_stats_node_id :: u64
  pb_node_stats_shard_count :: u64
  pb_node_stats_status :: i32

definition pb_node_stats_new :: pb_node_stats where
  "pb_node_stats_new = \<lparr>pb_node_stats_node_id = 0, pb_node_stats_shard_count = 0, pb_node_stats_status = 0\<rparr>"

definition pb_node_stats_arms :: "'e proto_rt \<Rightarrow> (nat \<times> ('e, pb_node_stats) arm) list" where
  "pb_node_stats_arms R =
     [(8, read_into (read_uint64 R) (\<lambda>v m. m\<lparr>pb_node_stats_node_id := v\<rparr>)),
      (16, read_into (read_uint64 R) (\<lambda>v m. m\<lparr>pb_node_stats_shard_count := v\<rparr>)),
      (24, read_into (read_enum R) (\<lambda>v m. m\<lparr>pb_node_stats_status := v\<rparr>))]"

definition pb_node_stats_size :: "'e proto_rt \<Rightarrow> pb_node_stats \<Rightarrow> nat" where
  "pb_node_stats_size R m =
     sum_list
       [size_if (pb_node_stats_node_id m \<noteq> 0) (uint64_size R 1 (pb_node_stats_node_id m)),
        size_if (pb_node_stats_shard_count m \<noteq> 0) (uint64_size R 2 (pb_node_stats_shard_count m)),
        size_if (pb_node_stats_status m \<noteq> 0) (int32_size R 3 (pb_node_stats_status m))]"

definition pb_node_stats_write :: "'e proto_rt \<Rightarrow> pb_node_stats \<Rightarrow> 'e writer" where
  "pb_node_stats_write R m =
     write_all
       [write_if (pb_node_stats_node_id m \<noteq> 0) (write_uint64 R 1 (pb_node_stats_node_id m)),
        write_if (pb_node_stats_shard_count m \<noteq> 0) (write_uint64 R 2 (pb_node_stats_shard_count m)),
        write_if (pb_node_stats_status m \<noteq> 0) (write_enum R 3 (pb_node_stats_status m))]"

definition pb_node_stats_ok :: "'e proto_rt \<Rightarrow> pb_node_stats \<Rightarrow> bool" where
  "pb_node_stats_ok R m \<longleftrightarrow>
     is_i32 (pb_node_stats_status m)"

subsection \<open>\<open>ShardingStats\<close>\<close>

record pb_sharding_stats =
  pb_sharding_stats_entity_type :: string
  pb_sharding_stats_total_shards :: u64
  pb_sharding_stats_shards :: "pb_remote_shard list"
  pb_sharding_stats_nodes :: "pb_node_stats list"

definition pb_sharding_stats_new :: pb_sharding_stats where
  "pb_sharding_stats_new = \<lparr>pb_sharding_stats_entity_type = [], pb_sharding_stats_total_shards = 0, pb_sharding_stats_shards = [], pb_sharding_stats_nodes = []\<rparr>"

definition pb_sharding_stats_arms :: "'e proto_rt \<Rightarrow> (nat \<times> ('e, pb_sharding_stats) arm) list" where
  "pb_sharding_stats_arms R =
     [(10, read_into (read_string R) (\<lambda>v m. m\<lparr>pb_sharding_stats_entity_type := v\<rparr>)),
      (16, read_into (read_uint64 R) (\<lambda>v m. m\<lparr>pb_sharding_stats_total_shards := v\<rparr>)),
      (26, read_repeated R (pb_remote_shard_arms R) pb_remote_shard_new pb_sharding_stats_shards (\<lambda>v m. m\<lparr>pb_sharding_stats_shards := v\<rparr>)),
      (34, read_repeated R (pb_node_stats_arms R) pb_node_stats_new pb_sharding_stats_nodes (\<lambda>v m. m\<lparr>pb_sharding_stats_nodes := v\<rparr>))]"

definition pb_sharding_stats_size :: "'e proto_rt \<Rightarrow> pb_sharding_stats \<Rightarrow> nat" where
  "pb_sharding_stats_size R m =
     sum_list
       [size_if (pb_sharding_stats_entity_type m \<noteq> []) (string_size R 1 (pb_sharding_stats_entity_type m)),
        size_if (pb_sharding_stats_total_shards m \<noteq> 0) (uint64_size R 2 (pb_sharding_stats_total_shards m)),
        size_each (pb_sharding_stats_shards m) (\<lambda>v. header_size R (pb_remote_shard_size R v)),
        size_each (pb_sharding_stats_nodes m) (\<lambda>v. header_size R (pb_node_stats_size R v))]"

definition pb_sharding_stats_write :: "'e proto_rt \<Rightarrow> pb_sharding_stats \<Rightarrow> 'e writer" where
  "pb_sharding_stats_write R m =
     write_all
       [write_if (pb_sharding_stats_entity_type m \<noteq> []) (write_string R 1 (pb_sharding_stats_entity_type m)),
        write_if (pb_sharding_stats_total_shards m \<noteq> 0) (write_uint64 R 2 (pb_sharding_stats_total_shards m)),
        write_each (pb_sharding_stats_shards m) (\<lambda>v. write_nested R 3 (pb_remote_shard_size R v) (pb_remote_shard_write R v)),
        write_each (pb_sharding_stats_nodes m) (\<lambda>v. write_nested R 4 (pb_node_stats_size R v) (pb_node_stats_write R v))]"

definition pb_sharding_stats_ok :: "'e proto_rt \<Rightarrow> pb_sharding_stats \<Rightarrow> bool" where
  "pb_sharding_stats_ok R m \<longleftrightarrow>
     (\<forall>v \<in> set (pb_sharding_stats_shards m). pb_remote_shard_size R v < 2 ^ 32) \<and>
     (\<forall>v \<in> set (pb_sharding_stats_nodes m). pb_node_stats_ok R v \<and> pb_node_stats_size R v < 2 ^ 32)"

subsection \<open>\<open>GetShardStats\<close>\<close>

type_synonym pb_get_shard_stats = unit

definition pb_get_shard_stats_new :: pb_get_shard_stats where
  "pb_get_shard_stats_new = ()"

definition pb_get_shard_stats_arms :: "'e proto_rt \<Rightarrow> (nat \<times> ('e, pb_get_shard_stats) arm) list" where
  "pb_get_shard_stats_arms R =
     []"

definition pb_get_shard_stats_size :: "'e proto_rt \<Rightarrow> pb_get_shard_stats \<Rightarrow> nat" where
  "pb_get_shard_stats_size R m =
     sum_list
       []"

definition pb_get_shard_stats_write :: "'e proto_rt \<Rightarrow> pb_get_shard_stats \<Rightarrow> 'e writer" where
  "pb_get_shard_stats_write R m =
     write_all
       []"

subsection \<open>\<open>ShardStats\<close>\<close>

record pb_shard_stats =
  pb_shard_stats_shard_id :: u32
  pb_shard_stats_node_id :: u64
  pb_shard_stats_entities :: "string list"

definition pb_shard_stats_new :: pb_shard_stats where
  "pb_shard_stats_new = \<lparr>pb_shard_stats_shard_id = 0, pb_shard_stats_node_id = 0, pb_shard_stats_entities = []\<rparr>"

definition pb_shard_stats_arms :: "'e proto_rt \<Rightarrow> (nat \<times> ('e, pb_shard_stats) arm) list" where
  "pb_shard_stats_arms R =
     [(8, read_into (read_uint32 R) (\<lambda>v m. m\<lparr>pb_shard_stats_shard_id := v\<rparr>)),
      (16, read_into (read_uint64 R) (\<lambda>v m. m\<lparr>pb_shard_stats_node_id := v\<rparr>)),
      (26, read_push (read_string R) pb_shard_stats_entities (\<lambda>v m. m\<lparr>pb_shard_stats_entities := v\<rparr>))]"

definition pb_shard_stats_size :: "'e proto_rt \<Rightarrow> pb_shard_stats \<Rightarrow> nat" where
  "pb_shard_stats_size R m =
     sum_list
       [size_if (pb_shard_stats_shard_id m \<noteq> 0) (uint32_size R 1 (pb_shard_stats_shard_id m)),
        size_if (pb_shard_stats_node_id m \<noteq> 0) (uint64_size R 2 (pb_shard_stats_node_id m)),
        size_each (pb_shard_stats_entities m) (string_size R 3)]"

definition pb_shard_stats_write :: "'e proto_rt \<Rightarrow> pb_shard_stats \<Rightarrow> 'e writer" where
  "pb_shard_stats_write R m =
     write_all
       [write_if (pb_shard_stats_shard_id m \<noteq> 0) (write_uint32 R 1 (pb_shard_stats_shard_id m)),
        write_if (pb_shard_stats_node_id m \<noteq> 0) (write_uint64 R 2 (pb_shard_stats_node_id m)),
        write_each (pb_shard_stats_entities m) (write_string R 3)]"


section \<open>Singletons\<close>

subsection \<open>\<open>GetStatus\<close>\<close>

record pb_get_status =
  pb_get_status_source_node_id :: u64

definition pb_get_status_new :: pb_get_status where
  "pb_get_status_new = \<lparr>pb_get_status_source_node_id = 0\<rparr>"

definition pb_get_status_arms :: "'e proto_rt \<Rightarrow> (nat \<times> ('e, pb_get_status) arm) list" where
  "pb_get_status_arms R =
     [(8, read_into (read_uint64 R) (\<lambda>v m. m\<lparr>pb_get_status_source_node_id := v\<rparr>))]"

definition pb_get_status_size :: "'e proto_rt \<Rightarrow> pb_get_status \<Rightarrow> nat" where
  "pb_get_status_size R m =
     sum_list
       [size_if (pb_get_status_source_node_id m \<noteq> 0) (uint64_size R 1 (pb_get_status_source_node_id m))]"

definition pb_get_status_write :: "'e proto_rt \<Rightarrow> pb_get_status \<Rightarrow> 'e writer" where
  "pb_get_status_write R m =
     write_all
       [write_if (pb_get_status_source_node_id m \<noteq> 0) (write_uint64 R 1 (pb_get_status_source_node_id m))]"

subsection \<open>\<open>ManagerStatus\<close>\<close>

record pb_manager_status =
  pb_manager_status_singleton_state :: i32

definition pb_manager_status_new :: pb_manager_status where
  "pb_manager_status_new = \<lparr>pb_manager_status_singleton_state = 0\<rparr>"

definition pb_manager_status_arms :: "'e proto_rt \<Rightarrow> (nat \<times> ('e, pb_manager_status) arm) list" where
  "pb_manager_status_arms R =
     [(8, read_into (read_enum R) (\<lambda>v m. m\<lparr>pb_manager_status_singleton_state := v\<rparr>))]"

definition pb_manager_status_size :: "'e proto_rt \<Rightarrow> pb_manager_status \<Rightarrow> nat" where
  "pb_manager_status_size R m =
     sum_list
       [size_if (pb_manager_status_singleton_state m \<noteq> 0) (int32_size R 1 (pb_manager_status_singleton_state m))]"

definition pb_manager_status_write :: "'e proto_rt \<Rightarrow> pb_manager_status \<Rightarrow> 'e writer" where
  "pb_manager_status_write R m =
     write_all
       [write_if (pb_manager_status_singleton_state m \<noteq> 0) (write_enum R 1 (pb_manager_status_singleton_state m))]"

definition pb_manager_status_ok :: "'e proto_rt \<Rightarrow> pb_manager_status \<Rightarrow> bool" where
  "pb_manager_status_ok R m \<longleftrightarrow>
     is_i32 (pb_manager_status_singleton_state m)"

subsection \<open>\<open>RequestLease\<close>\<close>

record pb_request_lease =
  pb_request_lease_source_node_id :: u64

definition pb_request_lease_new :: pb_request_lease where
  "pb_request_lease_new = \<lparr>pb_request_lease_source_node_id = 0\<rparr>"

definition pb_request_lease_arms :: "'e proto_rt \<Rightarrow> (nat \<times> ('e, pb_request_lease) arm) list" where
  "pb_request_lease_arms R =
     [(8, read_into (read_uint64 R) (\<lambda>v m. m\<lparr>pb_request_lease_source_node_id := v\<rparr>))]"

definition pb_request_lease_size :: "'e proto_rt \<Rightarrow> pb_request_lease \<Rightarrow> nat" where
  "pb_request_lease_size R m =
     sum_list
       [size_if (pb_request_lease_source_node_id m \<noteq> 0) (uint64_size R 1 (pb_request_lease_source_node_id m))]"

definition pb_request_lease_write :: "'e proto_rt \<Rightarrow> pb_request_lease \<Rightarrow> 'e writer" where
  "pb_request_lease_write R m =
     write_all
       [write_if (pb_request_lease_source_node_id m \<noteq> 0) (write_uint64 R 1 (pb_request_lease_source_node_id m))]"

subsection \<open>\<open>LeaseAck\<close>\<close>

record pb_lease_ack =
  pb_lease_ack_source_node_id :: u64

definition pb_lease_ack_new :: pb_lease_ack where
  "pb_lease_ack_new = \<lparr>pb_lease_ack_source_node_id = 0\<rparr>"

definition pb_lease_ack_arms :: "'e proto_rt \<Rightarrow> (nat \<times> ('e, pb_lease_ack) arm) list" where
  "pb_lease_ack_arms R =
     [(8, read_into (read_uint64 R) (\<lambda>v m. m\<lparr>pb_lease_ack_source_node_id := v\<rparr>))]"

definition pb_lease_ack_size :: "'e proto_rt \<Rightarrow> pb_lease_ack \<Rightarrow> nat" where
  "pb_lease_ack_size R m =
     sum_list
       [size_if (pb_lease_ack_source_node_id m \<noteq> 0) (uint64_size R 1 (pb_lease_ack_source_node_id m))]"

definition pb_lease_ack_write :: "'e proto_rt \<Rightarrow> pb_lease_ack \<Rightarrow> 'e writer" where
  "pb_lease_ack_write R m =
     write_all
       [write_if (pb_lease_ack_source_node_id m \<noteq> 0) (write_uint64 R 1 (pb_lease_ack_source_node_id m))]"

subsection \<open>\<open>LeaseNack\<close>\<close>

record pb_lease_nack =
  pb_lease_nack_source_node_id :: u64

definition pb_lease_nack_new :: pb_lease_nack where
  "pb_lease_nack_new = \<lparr>pb_lease_nack_source_node_id = 0\<rparr>"

definition pb_lease_nack_arms :: "'e proto_rt \<Rightarrow> (nat \<times> ('e, pb_lease_nack) arm) list" where
  "pb_lease_nack_arms R =
     [(8, read_into (read_uint64 R) (\<lambda>v m. m\<lparr>pb_lease_nack_source_node_id := v\<rparr>))]"

definition pb_lease_nack_size :: "'e proto_rt \<Rightarrow> pb_lease_nack \<Rightarrow> nat" where
  "pb_lease_nack_size R m =
     sum_list
       [size_if (pb_lease_nack_source_node_id m \<noteq> 0) (uint64_size R 1 (pb_lease_nack_source_node_id m))]"

definition pb_lease_nack_write :: "'e proto_rt \<Rightarrow> pb_lease_nack \<Rightarrow> 'e writer" where
  "pb_lease_nack_write R m =
     write_all
       [write_if (pb_lease_nack_source_node_id m \<noteq> 0) (write_uint64 R 1 (pb_lease_nack_source_node_id m))]"

subsection \<open>\<open>SingletonStarted\<close>\<close>

record pb_singleton_started =
  pb_singleton_started_source_node_id :: u64

definition pb_singleton_started_new :: pb_singleton_started where
  "pb_singleton_started_new = \<lparr>pb_singleton_started_source_node_id = 0\<rparr>"

definition pb_singleton_started_arms :: "'e proto_rt \<Rightarrow> (nat \<times> ('e, pb_singleton_started) arm) list" where
  "pb_singleton_started_arms R =
     [(8, read_into (read_uint64 R) (\<lambda>v m. m\<lparr>pb_singleton_started_source_node_id := v\<rparr>))]"

definition pb_singleton_started_size :: "'e proto_rt \<Rightarrow> pb_singleton_started \<Rightarrow> nat" where
  "pb_singleton_started_size R m =
     sum_list
       [size_if (pb_singleton_started_source_node_id m \<noteq> 0) (uint64_size R 1 (pb_singleton_started_source_node_id m))]"

definition pb_singleton_started_write :: "'e proto_rt \<Rightarrow> pb_singleton_started \<Rightarrow> 'e writer" where
  "pb_singleton_started_write R m =
     write_all
       [write_if (pb_singleton_started_source_node_id m \<noteq> 0) (write_uint64 R 1 (pb_singleton_started_source_node_id m))]"

subsection \<open>\<open>SingletonStopping\<close>\<close>

record pb_singleton_stopping =
  pb_singleton_stopping_source_node_id :: u64

definition pb_singleton_stopping_new :: pb_singleton_stopping where
  "pb_singleton_stopping_new = \<lparr>pb_singleton_stopping_source_node_id = 0\<rparr>"

definition pb_singleton_stopping_arms :: "'e proto_rt \<Rightarrow> (nat \<times> ('e, pb_singleton_stopping) arm) list" where
  "pb_singleton_stopping_arms R =
     [(8, read_into (read_uint64 R) (\<lambda>v m. m\<lparr>pb_singleton_stopping_source_node_id := v\<rparr>))]"

definition pb_singleton_stopping_size :: "'e proto_rt \<Rightarrow> pb_singleton_stopping \<Rightarrow> nat" where
  "pb_singleton_stopping_size R m =
     sum_list
       [size_if (pb_singleton_stopping_source_node_id m \<noteq> 0) (uint64_size R 1 (pb_singleton_stopping_source_node_id m))]"

definition pb_singleton_stopping_write :: "'e proto_rt \<Rightarrow> pb_singleton_stopping \<Rightarrow> 'e writer" where
  "pb_singleton_stopping_write R m =
     write_all
       [write_if (pb_singleton_stopping_source_node_id m \<noteq> 0) (write_uint64 R 1 (pb_singleton_stopping_source_node_id m))]"

subsection \<open>\<open>SingletonStopped\<close>\<close>

record pb_singleton_stopped =
  pb_singleton_stopped_source_node_id :: u64

definition pb_singleton_stopped_new :: pb_singleton_stopped where
  "pb_singleton_stopped_new = \<lparr>pb_singleton_stopped_source_node_id = 0\<rparr>"

definition pb_singleton_stopped_arms :: "'e proto_rt \<Rightarrow> (nat \<times> ('e, pb_singleton_stopped) arm) list" where
  "pb_singleton_stopped_arms R =
     [(8, read_into (read_uint64 R) (\<lambda>v m. m\<lparr>pb_singleton_stopped_source_node_id := v\<rparr>))]"

definition pb_singleton_stopped_size :: "'e proto_rt \<Rightarrow> pb_singleton_stopped \<Rightarrow> nat" where
  "pb_singleton_stopped_size R m =
     sum_list
       [size_if (pb_singleton_stopped_source_node_id m \<noteq> 0) (uint64_size R 1 (pb_singleton_stopped_source_node_id m))]"

definition pb_singleton_stopped_write :: "'e proto_rt \<Rightarrow> pb_singleton_stopped \<Rightarrow> 'e writer" where
  "pb_singleton_stopped_write R m =
     write_all
       [write_if (pb_singleton_stopped_source_node_id m \<noteq> 0) (write_uint64 R 1 (pb_singleton_stopped_source_node_id m))]"

section \<open>Round trips\<close>

context proto_runtime
begin

lemma pb_journal_entry_encodes:
  assumes "pb_journal_entry_ok R m"
  shows "encodes R (pb_journal_entry_arms R) (pb_journal_entry_write R m) (pb_journal_entry_size R m) pb_journal_entry_new m"
  unfolding pb_journal_entry_arms_def pb_journal_entry_write_def pb_journal_entry_size_def pb_journal_entry_new_def
  by (rule steps | simp add: assms [unfolded pb_journal_entry_ok_def, simplified])+

lemma pb_allocate_shard_encodes: "encodes R (pb_allocate_shard_arms R) (pb_allocate_shard_write R m) (pb_allocate_shard_size R m) pb_allocate_shard_new m"
  unfolding pb_allocate_shard_arms_def pb_allocate_shard_write_def pb_allocate_shard_size_def pb_allocate_shard_new_def by (rule steps | simp)+

lemma pb_remote_shard_encodes: "encodes R (pb_remote_shard_arms R) (pb_remote_shard_write R m) (pb_remote_shard_size R m) pb_remote_shard_new m"
  unfolding pb_remote_shard_arms_def pb_remote_shard_write_def pb_remote_shard_size_def pb_remote_shard_new_def by (rule steps | simp)+

lemma pb_shard_allocated_encodes:
  assumes "pb_shard_allocated_ok R m"
  shows "encodes R (pb_shard_allocated_arms R) (pb_shard_allocated_write R m) (pb_shard_allocated_size R m) pb_shard_allocated_new m"
  unfolding pb_shard_allocated_arms_def pb_shard_allocated_write_def pb_shard_allocated_size_def pb_shard_allocated_new_def
  by (rule steps pb_remote_shard_encodes | simp add: assms [unfolded pb_shard_allocated_ok_def, simplified])+

lemma pb_shard_reallocating_encodes: "encodes R (pb_shard_reallocating_arms R) (pb_shard_reallocating_write R m) (pb_shard_reallocating_size R m) pb_shard_reallocating_new m"
  unfolding pb_shard_reallocating_arms_def pb_shard_reallocating_write_def pb_shard_reallocating_size_def pb_shard_reallocating_new_def by (rule steps | simp)+

lemma pb_stop_shard_encodes: "encodes R (pb_stop_shard_arms R) (pb_stop_shard_write R m) (pb_stop_shard_size R m) pb_stop_shard_new m"
  unfolding pb_stop_shard_arms_def pb_stop_shard_write_def pb_stop_shard_size_def pb_stop_shard_new_def by (rule steps | simp)+

lemma pb_shard_stopped_encodes: "encodes R (pb_shard_stopped_arms R) (pb_shard_stopped_write R m) (pb_shard_stopped_size R m) pb_shard_stopped_new m"
  unfolding pb_shard_stopped_arms_def pb_shard_stopped_write_def pb_shard_stopped_size_def pb_shard_stopped_new_def by (rule steps | simp)+

lemma pb_allocate_shard_result_encodes:
  assumes "pb_allocate_shard_result_ok R m"
  shows "encodes R (pb_allocate_shard_result_arms R) (pb_allocate_shard_result_write R m) (pb_allocate_shard_result_size R m) pb_allocate_shard_result_new m"
  unfolding pb_allocate_shard_result_arms_def pb_allocate_shard_result_write_def pb_allocate_shard_result_size_def pb_allocate_shard_result_new_def
  by (rule steps pb_remote_shard_encodes | simp add: assms [unfolded pb_allocate_shard_result_ok_def, simplified])+

lemma pb_remote_entity_recipe_encodes: "encodes R (pb_remote_entity_recipe_arms R) (pb_remote_entity_recipe_write R m) (pb_remote_entity_recipe_size R m) pb_remote_entity_recipe_new m"
  unfolding pb_remote_entity_recipe_arms_def pb_remote_entity_recipe_write_def pb_remote_entity_recipe_size_def pb_remote_entity_recipe_new_def by (rule steps | simp)+

lemma pb_remote_entity_request_encodes:
  assumes "pb_remote_entity_request_ok R m"
  shows "encodes R (pb_remote_entity_request_arms R) (pb_remote_entity_request_write R m) (pb_remote_entity_request_size R m) pb_remote_entity_request_new m"
  unfolding pb_remote_entity_request_arms_def pb_remote_entity_request_write_def pb_remote_entity_request_size_def pb_remote_entity_request_new_def
  by (rule steps pb_remote_entity_recipe_encodes | simp add: assms [unfolded pb_remote_entity_request_ok_def, simplified])+

lemma pb_start_entity_encodes: "encodes R (pb_start_entity_arms R) (pb_start_entity_write R m) (pb_start_entity_size R m) pb_start_entity_new m"
  unfolding pb_start_entity_arms_def pb_start_entity_write_def pb_start_entity_size_def pb_start_entity_new_def by (rule steps | simp)+

lemma pb_passivate_entity_encodes: "encodes R (pb_passivate_entity_arms R) (pb_passivate_entity_write R m) (pb_passivate_entity_size R m) pb_passivate_entity_new m"
  unfolding pb_passivate_entity_arms_def pb_passivate_entity_write_def pb_passivate_entity_size_def pb_passivate_entity_new_def by (rule steps | simp)+

lemma pb_remove_entity_encodes: "encodes R (pb_remove_entity_arms R) (pb_remove_entity_write R m) (pb_remove_entity_size R m) pb_remove_entity_new m"
  unfolding pb_remove_entity_arms_def pb_remove_entity_write_def pb_remove_entity_size_def pb_remove_entity_new_def by (rule steps | simp)+

lemma pb_snapshot_entity_encodes:
  assumes "pb_snapshot_entity_ok R m"
  shows "encodes R (pb_snapshot_entity_arms R) (pb_snapshot_entity_write R m) (pb_snapshot_entity_size R m) pb_snapshot_entity_new m"
  unfolding pb_snapshot_entity_arms_def pb_snapshot_entity_write_def pb_snapshot_entity_size_def pb_snapshot_entity_new_def
  by (rule steps | simp add: assms [unfolded pb_snapshot_entity_ok_def, simplified])+

lemma pb_shard_state_snapshot_encodes:
  assumes "pb_shard_state_snapshot_ok R m"
  shows "encodes R (pb_shard_state_snapshot_arms R) (pb_shard_state_snapshot_write R m) (pb_shard_state_snapshot_size R m) pb_shard_state_snapshot_new m"
  unfolding pb_shard_state_snapshot_arms_def pb_shard_state_snapshot_write_def pb_shard_state_snapshot_size_def pb_shard_state_snapshot_new_def
  by (rule steps pb_snapshot_entity_encodes | simp add: assms [unfolded pb_shard_state_snapshot_ok_def, simplified])+

lemma pb_get_sharding_stats_encodes: "encodes R (pb_get_sharding_stats_arms R) (pb_get_sharding_stats_write R m) (pb_get_sharding_stats_size R m) pb_get_sharding_stats_new m"
  unfolding pb_get_sharding_stats_arms_def pb_get_sharding_stats_write_def pb_get_sharding_stats_size_def pb_get_sharding_stats_new_def by (rule steps | simp)+

lemma pb_node_stats_encodes:
  assumes "pb_node_stats_ok R m"
  shows "encodes R (pb_node_stats_arms R) (pb_node_stats_write R m) (pb_node_stats_size R m) pb_node_stats_new m"
  unfolding pb_node_stats_arms_def pb_node_stats_write_def pb_node_stats_size_def pb_node_stats_new_def
  by (rule steps | simp add: assms [unfolded pb_node_stats_ok_def, simplified])+

lemma pb_sharding_stats_encodes:
  assumes "pb_sharding_stats_ok R m"
  shows "encodes R (pb_sharding_stats_arms R) (pb_sharding_stats_write R m) (pb_sharding_stats_size R m) pb_sharding_stats_new m"
  unfolding pb_sharding_stats_arms_def pb_sharding_stats_write_def pb_sharding_stats_size_def pb_sharding_stats_new_def
  by (rule steps pb_node_stats_encodes pb_remote_shard_encodes | simp add: assms [unfolded pb_sharding_stats_ok_def, simplified])+

lemma pb_get_shard_stats_encodes: "encodes R (pb_get_shard_stats_arms R) (pb_get_shard_stats_write R m) (pb_get_shard_stats_size R m) pb_get_shard_stats_new m"
  unfolding pb_get_shard_stats_arms_def pb_get_shard_stats_write_def pb_get_shard_stats_size_def pb_get_shard_stats_new_def by (rule steps | simp)+

lemma pb_shard_stats_encodes: "encodes R (pb_shard_stats_arms R) (pb_shard_stats_write R m) (pb_shard_stats_size R m) pb_shard_stats_new m"
  unfolding pb_shard_stats_arms_def pb_shard_stats_write_def pb_shard_stats_size_def pb_shard_stats_new_def by (rule steps | simp)+

lemma pb_get_status_encodes: "encodes R (pb_get_status_arms R) (pb_get_status_write R m) (pb_get_status_size R m) pb_get_status_new m"
  unfolding pb_get_status_arms_def pb_get_status_write_def pb_get_status_size_def pb_get_status_new_def by (rule steps | simp)+

lemma pb_manager_status_encodes:
  assumes "pb_manager_status_ok R m"
  shows "encodes R (pb_manager_status_arms R) (pb_manager_status_write R m) (pb_manager_status_size R m) pb_manager_status_new m"
  unfolding pb_manager_status_arms_def pb_manager_status_write_def pb_manager_status_size_def pb_manager_status_new_def
  by (rule steps | simp add: assms [unfolded pb_manager_status_ok_def, simplified])+

lemma pb_request_lease_encodes: "encodes R (pb_request_lease_arms R) (pb_request_lease_write R m) (pb_request_lease_size R m) pb_request_lease_new m"
  unfolding pb_request_lease_arms_def pb_request_lease_write_def pb_request_lease_size_def pb_request_lease_new_def by (rule steps | simp)+

lemma pb_lease_ack_encodes: "encodes R (pb_lease_ack_arms R) (pb_lease_ack_write R m) (pb_lease_ack_size R m) pb_lease_ack_new m"
  unfolding pb_lease_ack_arms_def pb_lease_ack_write_def pb_lease_ack_size_def pb_lease_ack_new_def by (rule steps | simp)+

lemma pb_lease_nack_encodes: "encodes R (pb_lease_nack_arms R) (pb_lease_nack_write R m) (pb_lease_nack_size R m) pb_lease_nack_new m"
  unfolding pb_lease_nack_arms_def pb_lease_nack_write_def pb_lease_nack_size_def pb_lease_nack_new_def by (rule steps | simp)+

lemma pb_singleton_started_encodes: "encodes R (pb_singleton_started_arms R) (pb_singleton_started_write R m) (pb_singleton_started_size R m) pb_singleton_started_new m"
  unfolding pb_singleton_started_arms_def pb_singleton_started_write_def pb_singleton_started_size_def pb_singleton_started_new_def by (rule steps | simp)+

lemma pb_singleton_stopping_encodes: "encodes R (pb_singleton_stopping_arms R) (pb_singleton_stopping_write R m) (pb_singleton_stopping_size R m) pb_singleton_stopping_new m"
  unfolding pb_singleton_stopping_arms_def pb_singleton_stopping_write_def pb_singleton_stopping_size_def pb_singleton_stopping_new_def by (rule steps | simp)+

lemma pb_singleton_stopped_encodes: "encodes R (pb_singleton_stopped_arms R) (pb_singleton_stopped_write R m) (pb_singleton_stopped_size R m) pb_singleton_stopped_new m"
  unfolding pb_singleton_stopped_arms_def pb_singleton_stopped_write_def pb_singleton_stopped_size_def pb_singleton_stopped_new_def by (rule steps | simp)+

end

context proto_runtime_total
begin

lemma pb_journal_entry_total: "arms_total (pb_journal_entry_arms R)"
  by (simp add: pb_journal_entry_arms_def totals)

lemma pb_allocate_shard_total: "arms_total (pb_allocate_shard_arms R)"
  by (simp add: pb_allocate_shard_arms_def totals)

lemma pb_remote_shard_total: "arms_total (pb_remote_shard_arms R)"
  by (simp add: pb_remote_shard_arms_def totals)

lemma pb_shard_allocated_total: "arms_total (pb_shard_allocated_arms R)"
  by (simp add: pb_shard_allocated_arms_def totals pb_remote_shard_total)

lemma pb_shard_reallocating_total: "arms_total (pb_shard_reallocating_arms R)"
  by (simp add: pb_shard_reallocating_arms_def totals)

lemma pb_stop_shard_total: "arms_total (pb_stop_shard_arms R)"
  by (simp add: pb_stop_shard_arms_def totals)

lemma pb_shard_stopped_total: "arms_total (pb_shard_stopped_arms R)"
  by (simp add: pb_shard_stopped_arms_def totals)

lemma pb_allocate_shard_result_total: "arms_total (pb_allocate_shard_result_arms R)"
  by (simp add: pb_allocate_shard_result_arms_def totals pb_remote_shard_total)

lemma pb_remote_entity_recipe_total: "arms_total (pb_remote_entity_recipe_arms R)"
  by (simp add: pb_remote_entity_recipe_arms_def totals)

lemma pb_remote_entity_request_total: "arms_total (pb_remote_entity_request_arms R)"
  by (simp add: pb_remote_entity_request_arms_def totals pb_remote_entity_recipe_total)

lemma pb_start_entity_total: "arms_total (pb_start_entity_arms R)"
  by (simp add: pb_start_entity_arms_def totals)

lemma pb_passivate_entity_total: "arms_total (pb_passivate_entity_arms R)"
  by (simp add: pb_passivate_entity_arms_def totals)

lemma pb_remove_entity_total: "arms_total (pb_remove_entity_arms R)"
  by (simp add: pb_remove_entity_arms_def totals)

lemma pb_snapshot_entity_total: "arms_total (pb_snapshot_entity_arms R)"
  by (simp add: pb_snapshot_entity_arms_def totals)

lemma pb_shard_state_snapshot_total: "arms_total (pb_shard_state_snapshot_arms R)"
  by (simp add: pb_shard_state_snapshot_arms_def totals pb_snapshot_entity_total)

lemma pb_get_sharding_stats_total: "arms_total (pb_get_sharding_stats_arms R)"
  by (simp add: pb_get_sharding_stats_arms_def totals)

lemma pb_node_stats_total: "arms_total (pb_node_stats_arms R)"
  by (simp add: pb_node_stats_arms_def totals)

lemma pb_sharding_stats_total: "arms_total (pb_sharding_stats_arms R)"
  by (simp add: pb_sharding_stats_arms_def totals pb_node_stats_total pb_remote_shard_total)

lemma pb_get_shard_stats_total: "arms_total (pb_get_shard_stats_arms R)"
  by (simp add: pb_get_shard_stats_arms_def totals)

lemma pb_shard_stats_total: "arms_total (pb_shard_stats_arms R)"
  by (simp add: pb_shard_stats_arms_def totals)

lemma pb_get_status_total: "arms_total (pb_get_status_arms R)"
  by (simp add: pb_get_status_arms_def totals)

lemma pb_manager_status_total: "arms_total (pb_manager_status_arms R)"
  by (simp add: pb_manager_status_arms_def totals)

lemma pb_request_lease_total: "arms_total (pb_request_lease_arms R)"
  by (simp add: pb_request_lease_arms_def totals)

lemma pb_lease_ack_total: "arms_total (pb_lease_ack_arms R)"
  by (simp add: pb_lease_ack_arms_def totals)

lemma pb_lease_nack_total: "arms_total (pb_lease_nack_arms R)"
  by (simp add: pb_lease_nack_arms_def totals)

lemma pb_singleton_started_total: "arms_total (pb_singleton_started_arms R)"
  by (simp add: pb_singleton_started_arms_def totals)

lemma pb_singleton_stopping_total: "arms_total (pb_singleton_stopping_arms R)"
  by (simp add: pb_singleton_stopping_arms_def totals)

lemma pb_singleton_stopped_total: "arms_total (pb_singleton_stopped_arms R)"
  by (simp add: pb_singleton_stopped_arms_def totals)

end

end
