(* ===== verification/Proto_Network.thy ===== *)
theory Proto_Network
  imports Protobuf_Runtime
begin

text \<open>
  The generated messages between nodes, as the generated code reads, measures and writes them:
  \<open>remote/net/proto/network.rs\<close>.
\<close>

section \<open>Messages between nodes\<close>

subsection \<open>\<open>RemoteNode\<close>\<close>

record pb_remote_node =
  pb_remote_node_node_id :: u64
  pb_remote_node_addr :: string
  pb_remote_node_node_started_at :: "pb_timestamp option"
  pb_remote_node_tag :: string
  pb_remote_node_attributes :: "(string, string) hash_map"

definition pb_remote_node_new :: pb_remote_node where
  "pb_remote_node_new = \<lparr>pb_remote_node_node_id = 0, pb_remote_node_addr = [], pb_remote_node_node_started_at = None, pb_remote_node_tag = [], pb_remote_node_attributes = []\<rparr>"

definition pb_remote_node_arms :: "'e proto_rt \<Rightarrow> (nat \<times> ('e, pb_remote_node) arm) list" where
  "pb_remote_node_arms R =
     [(8, read_into (read_uint64 R) (\<lambda>v m. m\<lparr>pb_remote_node_node_id := v\<rparr>)),
      (18, read_into (read_string R) (\<lambda>v m. m\<lparr>pb_remote_node_addr := v\<rparr>)),
      (26, read_singular R (timestamp_arms R) timestamp_new pb_remote_node_node_started_at (\<lambda>v m. m\<lparr>pb_remote_node_node_started_at := v\<rparr>)),
      (34, read_into (read_string R) (\<lambda>v m. m\<lparr>pb_remote_node_tag := v\<rparr>)),
      (42, read_map R pb_remote_node_attributes (\<lambda>v m. m\<lparr>pb_remote_node_attributes := v\<rparr>))]"

definition pb_remote_node_size :: "'e proto_rt \<Rightarrow> pb_remote_node \<Rightarrow> nat" where
  "pb_remote_node_size R m =
     sum_list
       [size_if (pb_remote_node_node_id m \<noteq> 0) (uint64_size R 1 (pb_remote_node_node_id m)),
        size_if (pb_remote_node_addr m \<noteq> []) (string_size R 2 (pb_remote_node_addr m)),
        size_some (pb_remote_node_node_started_at m) (\<lambda>v. header_size R (timestamp_size R v)),
        size_if (pb_remote_node_tag m \<noteq> []) (string_size R 4 (pb_remote_node_tag m)),
        size_each (pb_remote_node_attributes m) (\<lambda>x. header_size R (map_entry_size R x))]"

definition pb_remote_node_write :: "'e proto_rt \<Rightarrow> pb_remote_node \<Rightarrow> 'e writer" where
  "pb_remote_node_write R m =
     write_all
       [write_if (pb_remote_node_node_id m \<noteq> 0) (write_uint64 R 1 (pb_remote_node_node_id m)),
        write_if (pb_remote_node_addr m \<noteq> []) (write_string R 2 (pb_remote_node_addr m)),
        write_some (pb_remote_node_node_started_at m) (\<lambda>v. write_nested R 3 (timestamp_size R v) (timestamp_write R v)),
        write_if (pb_remote_node_tag m \<noteq> []) (write_string R 4 (pb_remote_node_tag m)),
        write_each (pb_remote_node_attributes m) (\<lambda>x. write_nested R 5 (map_entry_size R x) (map_entry_write R x))]"

definition pb_remote_node_ok :: "'e proto_rt \<Rightarrow> pb_remote_node \<Rightarrow> bool" where
  "pb_remote_node_ok R m \<longleftrightarrow>
     (\<forall>v. pb_remote_node_node_started_at m = Some v \<longrightarrow> is_i64 (ts_seconds v) \<and> is_i32 (ts_nanos v) \<and> timestamp_size R v < 2 ^ 32) \<and>
     hm_wf (pb_remote_node_attributes m) \<and> (\<forall>x \<in> set (pb_remote_node_attributes m). map_entry_size R x < 2 ^ 32)"

subsection \<open>\<open>IdentifyEvent\<close>\<close>

record pb_identify_event =
  pb_identify_event_source_node_id :: u64
  pb_identify_event_source_node_tag :: string
  pb_identify_event_token :: string

definition pb_identify_event_new :: pb_identify_event where
  "pb_identify_event_new = \<lparr>pb_identify_event_source_node_id = 0, pb_identify_event_source_node_tag = [], pb_identify_event_token = []\<rparr>"

definition pb_identify_event_arms :: "'e proto_rt \<Rightarrow> (nat \<times> ('e, pb_identify_event) arm) list" where
  "pb_identify_event_arms R =
     [(8, read_into (read_uint64 R) (\<lambda>v m. m\<lparr>pb_identify_event_source_node_id := v\<rparr>)),
      (18, read_into (read_string R) (\<lambda>v m. m\<lparr>pb_identify_event_source_node_tag := v\<rparr>)),
      (26, read_into (read_string R) (\<lambda>v m. m\<lparr>pb_identify_event_token := v\<rparr>))]"

definition pb_identify_event_size :: "'e proto_rt \<Rightarrow> pb_identify_event \<Rightarrow> nat" where
  "pb_identify_event_size R m =
     sum_list
       [size_if (pb_identify_event_source_node_id m \<noteq> 0) (uint64_size R 1 (pb_identify_event_source_node_id m)),
        size_if (pb_identify_event_source_node_tag m \<noteq> []) (string_size R 2 (pb_identify_event_source_node_tag m)),
        size_if (pb_identify_event_token m \<noteq> []) (string_size R 3 (pb_identify_event_token m))]"

definition pb_identify_event_write :: "'e proto_rt \<Rightarrow> pb_identify_event \<Rightarrow> 'e writer" where
  "pb_identify_event_write R m =
     write_all
       [write_if (pb_identify_event_source_node_id m \<noteq> 0) (write_uint64 R 1 (pb_identify_event_source_node_id m)),
        write_if (pb_identify_event_source_node_tag m \<noteq> []) (write_string R 2 (pb_identify_event_source_node_tag m)),
        write_if (pb_identify_event_token m \<noteq> []) (write_string R 3 (pb_identify_event_token m))]"

subsection \<open>\<open>SystemCapabilities\<close>\<close>

record pb_system_capabilities =
  pb_system_capabilities_actors :: "string list"
  pb_system_capabilities_messages :: "string list"

definition pb_system_capabilities_new :: pb_system_capabilities where
  "pb_system_capabilities_new = \<lparr>pb_system_capabilities_actors = [], pb_system_capabilities_messages = []\<rparr>"

definition pb_system_capabilities_arms :: "'e proto_rt \<Rightarrow> (nat \<times> ('e, pb_system_capabilities) arm) list" where
  "pb_system_capabilities_arms R =
     [(10, read_push (read_string R) pb_system_capabilities_actors (\<lambda>v m. m\<lparr>pb_system_capabilities_actors := v\<rparr>)),
      (18, read_push (read_string R) pb_system_capabilities_messages (\<lambda>v m. m\<lparr>pb_system_capabilities_messages := v\<rparr>))]"

definition pb_system_capabilities_size :: "'e proto_rt \<Rightarrow> pb_system_capabilities \<Rightarrow> nat" where
  "pb_system_capabilities_size R m =
     sum_list
       [size_each (pb_system_capabilities_actors m) (string_size R 1),
        size_each (pb_system_capabilities_messages m) (string_size R 2)]"

definition pb_system_capabilities_write :: "'e proto_rt \<Rightarrow> pb_system_capabilities \<Rightarrow> 'e writer" where
  "pb_system_capabilities_write R m =
     write_all
       [write_each (pb_system_capabilities_actors m) (write_string R 1),
        write_each (pb_system_capabilities_messages m) (write_string R 2)]"

subsection \<open>\<open>NodeIdentity\<close>\<close>

record pb_node_identity =
  pb_node_identity_node_id :: u64
  pb_node_identity_node_tag :: string
  pb_node_identity_addr :: string
  pb_node_identity_application_version :: string
  pb_node_identity_protocol_version :: string
  pb_node_identity_node_started_at :: "pb_timestamp option"
  pb_node_identity_peers :: "pb_remote_node list"
  pb_node_identity_capabilities :: "pb_system_capabilities option"
  pb_node_identity_attributes :: "(string, string) hash_map"

definition pb_node_identity_new :: pb_node_identity where
  "pb_node_identity_new = \<lparr>pb_node_identity_node_id = 0, pb_node_identity_node_tag = [], pb_node_identity_addr = [], pb_node_identity_application_version = [], pb_node_identity_protocol_version = [], pb_node_identity_node_started_at = None, pb_node_identity_peers = [], pb_node_identity_capabilities = None, pb_node_identity_attributes = []\<rparr>"

definition pb_node_identity_arms :: "'e proto_rt \<Rightarrow> (nat \<times> ('e, pb_node_identity) arm) list" where
  "pb_node_identity_arms R =
     [(8, read_into (read_uint64 R) (\<lambda>v m. m\<lparr>pb_node_identity_node_id := v\<rparr>)),
      (18, read_into (read_string R) (\<lambda>v m. m\<lparr>pb_node_identity_node_tag := v\<rparr>)),
      (26, read_into (read_string R) (\<lambda>v m. m\<lparr>pb_node_identity_addr := v\<rparr>)),
      (34, read_into (read_string R) (\<lambda>v m. m\<lparr>pb_node_identity_application_version := v\<rparr>)),
      (42, read_into (read_string R) (\<lambda>v m. m\<lparr>pb_node_identity_protocol_version := v\<rparr>)),
      (50, read_singular R (timestamp_arms R) timestamp_new pb_node_identity_node_started_at (\<lambda>v m. m\<lparr>pb_node_identity_node_started_at := v\<rparr>)),
      (58, read_repeated R (pb_remote_node_arms R) pb_remote_node_new pb_node_identity_peers (\<lambda>v m. m\<lparr>pb_node_identity_peers := v\<rparr>)),
      (66, read_singular R (pb_system_capabilities_arms R) pb_system_capabilities_new pb_node_identity_capabilities (\<lambda>v m. m\<lparr>pb_node_identity_capabilities := v\<rparr>)),
      (74, read_map R pb_node_identity_attributes (\<lambda>v m. m\<lparr>pb_node_identity_attributes := v\<rparr>))]"

definition pb_node_identity_size :: "'e proto_rt \<Rightarrow> pb_node_identity \<Rightarrow> nat" where
  "pb_node_identity_size R m =
     sum_list
       [size_if (pb_node_identity_node_id m \<noteq> 0) (uint64_size R 1 (pb_node_identity_node_id m)),
        size_if (pb_node_identity_node_tag m \<noteq> []) (string_size R 2 (pb_node_identity_node_tag m)),
        size_if (pb_node_identity_addr m \<noteq> []) (string_size R 3 (pb_node_identity_addr m)),
        size_if (pb_node_identity_application_version m \<noteq> []) (string_size R 4 (pb_node_identity_application_version m)),
        size_if (pb_node_identity_protocol_version m \<noteq> []) (string_size R 5 (pb_node_identity_protocol_version m)),
        size_some (pb_node_identity_node_started_at m) (\<lambda>v. header_size R (timestamp_size R v)),
        size_each (pb_node_identity_peers m) (\<lambda>v. header_size R (pb_remote_node_size R v)),
        size_some (pb_node_identity_capabilities m) (\<lambda>v. header_size R (pb_system_capabilities_size R v)),
        size_each (pb_node_identity_attributes m) (\<lambda>x. header_size R (map_entry_size R x))]"

definition pb_node_identity_write :: "'e proto_rt \<Rightarrow> pb_node_identity \<Rightarrow> 'e writer" where
  "pb_node_identity_write R m =
     write_all
       [write_if (pb_node_identity_node_id m \<noteq> 0) (write_uint64 R 1 (pb_node_identity_node_id m)),
        write_if (pb_node_identity_node_tag m \<noteq> []) (write_string R 2 (pb_node_identity_node_tag m)),
        write_if (pb_node_identity_addr m \<noteq> []) (write_string R 3 (pb_node_identity_addr m)),
        write_if (pb_node_identity_application_version m \<noteq> []) (write_string R 4 (pb_node_identity_application_version m)),
        write_if (pb_node_identity_protocol_version m \<noteq> []) (write_string R 5 (pb_node_identity_protocol_version m)),
        write_some (pb_node_identity_node_started_at m) (\<lambda>v. write_nested R 6 (timestamp_size R v) (timestamp_write R v)),
        write_each (pb_node_identity_peers m) (\<lambda>v. write_nested R 7 (pb_remote_node_size R v) (pb_remote_node_write R v)),
        write_some (pb_node_identity_capabilities m) (\<lambda>v. write_nested R 8 (pb_system_capabilities_size R v) (pb_system_capabilities_write R v)),
        write_each (pb_node_identity_attributes m) (\<lambda>x. write_nested R 9 (map_entry_size R x) (map_entry_write R x))]"

definition pb_node_identity_ok :: "'e proto_rt \<Rightarrow> pb_node_identity \<Rightarrow> bool" where
  "pb_node_identity_ok R m \<longleftrightarrow>
     (\<forall>v. pb_node_identity_node_started_at m = Some v \<longrightarrow> is_i64 (ts_seconds v) \<and> is_i32 (ts_nanos v) \<and> timestamp_size R v < 2 ^ 32) \<and>
     (\<forall>v \<in> set (pb_node_identity_peers m). pb_remote_node_ok R v \<and> pb_remote_node_size R v < 2 ^ 32) \<and>
     (\<forall>v. pb_node_identity_capabilities m = Some v \<longrightarrow> pb_system_capabilities_size R v < 2 ^ 32) \<and>
     hm_wf (pb_node_identity_attributes m) \<and> (\<forall>x \<in> set (pb_node_identity_attributes m). map_entry_size R x < 2 ^ 32)"

subsection \<open>\<open>ClientHandshake\<close>\<close>

record pb_client_handshake =
  pb_client_handshake_node_id :: u64
  pb_client_handshake_nodes :: "pb_remote_node list"
  pb_client_handshake_node_tag :: string
  pb_client_handshake_trace_id :: string
  pb_client_handshake_node_started_at :: "pb_timestamp option"

definition pb_client_handshake_new :: pb_client_handshake where
  "pb_client_handshake_new = \<lparr>pb_client_handshake_node_id = 0, pb_client_handshake_nodes = [], pb_client_handshake_node_tag = [], pb_client_handshake_trace_id = [], pb_client_handshake_node_started_at = None\<rparr>"

definition pb_client_handshake_arms :: "'e proto_rt \<Rightarrow> (nat \<times> ('e, pb_client_handshake) arm) list" where
  "pb_client_handshake_arms R =
     [(8, read_into (read_uint64 R) (\<lambda>v m. m\<lparr>pb_client_handshake_node_id := v\<rparr>)),
      (18, read_repeated R (pb_remote_node_arms R) pb_remote_node_new pb_client_handshake_nodes (\<lambda>v m. m\<lparr>pb_client_handshake_nodes := v\<rparr>)),
      (26, read_into (read_string R) (\<lambda>v m. m\<lparr>pb_client_handshake_node_tag := v\<rparr>)),
      (34, read_into (read_string R) (\<lambda>v m. m\<lparr>pb_client_handshake_trace_id := v\<rparr>)),
      (42, read_singular R (timestamp_arms R) timestamp_new pb_client_handshake_node_started_at (\<lambda>v m. m\<lparr>pb_client_handshake_node_started_at := v\<rparr>))]"

definition pb_client_handshake_size :: "'e proto_rt \<Rightarrow> pb_client_handshake \<Rightarrow> nat" where
  "pb_client_handshake_size R m =
     sum_list
       [size_if (pb_client_handshake_node_id m \<noteq> 0) (uint64_size R 1 (pb_client_handshake_node_id m)),
        size_each (pb_client_handshake_nodes m) (\<lambda>v. header_size R (pb_remote_node_size R v)),
        size_if (pb_client_handshake_node_tag m \<noteq> []) (string_size R 3 (pb_client_handshake_node_tag m)),
        size_if (pb_client_handshake_trace_id m \<noteq> []) (string_size R 4 (pb_client_handshake_trace_id m)),
        size_some (pb_client_handshake_node_started_at m) (\<lambda>v. header_size R (timestamp_size R v))]"

definition pb_client_handshake_write :: "'e proto_rt \<Rightarrow> pb_client_handshake \<Rightarrow> 'e writer" where
  "pb_client_handshake_write R m =
     write_all
       [write_if (pb_client_handshake_node_id m \<noteq> 0) (write_uint64 R 1 (pb_client_handshake_node_id m)),
        write_each (pb_client_handshake_nodes m) (\<lambda>v. write_nested R 2 (pb_remote_node_size R v) (pb_remote_node_write R v)),
        write_if (pb_client_handshake_node_tag m \<noteq> []) (write_string R 3 (pb_client_handshake_node_tag m)),
        write_if (pb_client_handshake_trace_id m \<noteq> []) (write_string R 4 (pb_client_handshake_trace_id m)),
        write_some (pb_client_handshake_node_started_at m) (\<lambda>v. write_nested R 5 (timestamp_size R v) (timestamp_write R v))]"

definition pb_client_handshake_ok :: "'e proto_rt \<Rightarrow> pb_client_handshake \<Rightarrow> bool" where
  "pb_client_handshake_ok R m \<longleftrightarrow>
     (\<forall>v \<in> set (pb_client_handshake_nodes m). pb_remote_node_ok R v \<and> pb_remote_node_size R v < 2 ^ 32) \<and>
     (\<forall>v. pb_client_handshake_node_started_at m = Some v \<longrightarrow> is_i64 (ts_seconds v) \<and> is_i32 (ts_nanos v) \<and> timestamp_size R v < 2 ^ 32)"

subsection \<open>\<open>ClientResult\<close>\<close>

record pb_client_result =
  pb_client_result_message_id :: string
  pb_client_result_result :: bytes
  pb_client_result_trace_id :: string

definition pb_client_result_new :: pb_client_result where
  "pb_client_result_new = \<lparr>pb_client_result_message_id = [], pb_client_result_result = [], pb_client_result_trace_id = []\<rparr>"

definition pb_client_result_arms :: "'e proto_rt \<Rightarrow> (nat \<times> ('e, pb_client_result) arm) list" where
  "pb_client_result_arms R =
     [(10, read_into (read_string R) (\<lambda>v m. m\<lparr>pb_client_result_message_id := v\<rparr>)),
      (18, read_into (read_bytes R) (\<lambda>v m. m\<lparr>pb_client_result_result := v\<rparr>)),
      (26, read_into (read_string R) (\<lambda>v m. m\<lparr>pb_client_result_trace_id := v\<rparr>))]"

definition pb_client_result_size :: "'e proto_rt \<Rightarrow> pb_client_result \<Rightarrow> nat" where
  "pb_client_result_size R m =
     sum_list
       [size_if (pb_client_result_message_id m \<noteq> []) (string_size R 1 (pb_client_result_message_id m)),
        size_if (pb_client_result_result m \<noteq> []) (bytes_size R 2 (pb_client_result_result m)),
        size_if (pb_client_result_trace_id m \<noteq> []) (string_size R 3 (pb_client_result_trace_id m))]"

definition pb_client_result_write :: "'e proto_rt \<Rightarrow> pb_client_result \<Rightarrow> 'e writer" where
  "pb_client_result_write R m =
     write_all
       [write_if (pb_client_result_message_id m \<noteq> []) (write_string R 1 (pb_client_result_message_id m)),
        write_if (pb_client_result_result m \<noteq> []) (write_bytes R 2 (pb_client_result_result m)),
        write_if (pb_client_result_trace_id m \<noteq> []) (write_string R 3 (pb_client_result_trace_id m))]"

subsection \<open>\<open>ActorRefErr\<close>\<close>

record pb_actor_ref_err =
  pb_actor_ref_err_type :: i32
  pb_actor_ref_err_actor_id :: string
  pb_actor_ref_err_message_type :: string
  pb_actor_ref_err_actor_type :: string
  pb_actor_ref_err_time_taken_millis :: u64
  pb_actor_ref_err_serialization_error :: i32
  pb_actor_ref_err_deserialization_error :: i32

definition pb_actor_ref_err_new :: pb_actor_ref_err where
  "pb_actor_ref_err_new = \<lparr>pb_actor_ref_err_type = 0, pb_actor_ref_err_actor_id = [], pb_actor_ref_err_message_type = [], pb_actor_ref_err_actor_type = [], pb_actor_ref_err_time_taken_millis = 0, pb_actor_ref_err_serialization_error = 0, pb_actor_ref_err_deserialization_error = 0\<rparr>"

definition pb_actor_ref_err_arms :: "'e proto_rt \<Rightarrow> (nat \<times> ('e, pb_actor_ref_err) arm) list" where
  "pb_actor_ref_err_arms R =
     [(8, read_into (read_enum R) (\<lambda>v m. m\<lparr>pb_actor_ref_err_type := v\<rparr>)),
      (18, read_into (read_string R) (\<lambda>v m. m\<lparr>pb_actor_ref_err_actor_id := v\<rparr>)),
      (26, read_into (read_string R) (\<lambda>v m. m\<lparr>pb_actor_ref_err_message_type := v\<rparr>)),
      (34, read_into (read_string R) (\<lambda>v m. m\<lparr>pb_actor_ref_err_actor_type := v\<rparr>)),
      (40, read_into (read_uint64 R) (\<lambda>v m. m\<lparr>pb_actor_ref_err_time_taken_millis := v\<rparr>)),
      (48, read_into (read_enum R) (\<lambda>v m. m\<lparr>pb_actor_ref_err_serialization_error := v\<rparr>)),
      (56, read_into (read_enum R) (\<lambda>v m. m\<lparr>pb_actor_ref_err_deserialization_error := v\<rparr>))]"

definition pb_actor_ref_err_size :: "'e proto_rt \<Rightarrow> pb_actor_ref_err \<Rightarrow> nat" where
  "pb_actor_ref_err_size R m =
     sum_list
       [size_if (pb_actor_ref_err_type m \<noteq> 0) (int32_size R 1 (pb_actor_ref_err_type m)),
        size_if (pb_actor_ref_err_actor_id m \<noteq> []) (string_size R 2 (pb_actor_ref_err_actor_id m)),
        size_if (pb_actor_ref_err_message_type m \<noteq> []) (string_size R 3 (pb_actor_ref_err_message_type m)),
        size_if (pb_actor_ref_err_actor_type m \<noteq> []) (string_size R 4 (pb_actor_ref_err_actor_type m)),
        size_if (pb_actor_ref_err_time_taken_millis m \<noteq> 0) (uint64_size R 5 (pb_actor_ref_err_time_taken_millis m)),
        size_if (pb_actor_ref_err_serialization_error m \<noteq> 0) (int32_size R 6 (pb_actor_ref_err_serialization_error m)),
        size_if (pb_actor_ref_err_deserialization_error m \<noteq> 0) (int32_size R 7 (pb_actor_ref_err_deserialization_error m))]"

definition pb_actor_ref_err_write :: "'e proto_rt \<Rightarrow> pb_actor_ref_err \<Rightarrow> 'e writer" where
  "pb_actor_ref_err_write R m =
     write_all
       [write_if (pb_actor_ref_err_type m \<noteq> 0) (write_enum R 1 (pb_actor_ref_err_type m)),
        write_if (pb_actor_ref_err_actor_id m \<noteq> []) (write_string R 2 (pb_actor_ref_err_actor_id m)),
        write_if (pb_actor_ref_err_message_type m \<noteq> []) (write_string R 3 (pb_actor_ref_err_message_type m)),
        write_if (pb_actor_ref_err_actor_type m \<noteq> []) (write_string R 4 (pb_actor_ref_err_actor_type m)),
        write_if (pb_actor_ref_err_time_taken_millis m \<noteq> 0) (write_uint64 R 5 (pb_actor_ref_err_time_taken_millis m)),
        write_if (pb_actor_ref_err_serialization_error m \<noteq> 0) (write_enum R 6 (pb_actor_ref_err_serialization_error m)),
        write_if (pb_actor_ref_err_deserialization_error m \<noteq> 0) (write_enum R 7 (pb_actor_ref_err_deserialization_error m))]"

definition pb_actor_ref_err_ok :: "'e proto_rt \<Rightarrow> pb_actor_ref_err \<Rightarrow> bool" where
  "pb_actor_ref_err_ok R m \<longleftrightarrow>
     is_i32 (pb_actor_ref_err_type m) \<and>
     is_i32 (pb_actor_ref_err_serialization_error m) \<and>
     is_i32 (pb_actor_ref_err_deserialization_error m)"

subsection \<open>\<open>ClientErr\<close>\<close>

record pb_client_err =
  pb_client_err_message_id :: string
  pb_client_err_error :: "pb_actor_ref_err option"
  pb_client_err_trace_id :: string

definition pb_client_err_new :: pb_client_err where
  "pb_client_err_new = \<lparr>pb_client_err_message_id = [], pb_client_err_error = None, pb_client_err_trace_id = []\<rparr>"

definition pb_client_err_arms :: "'e proto_rt \<Rightarrow> (nat \<times> ('e, pb_client_err) arm) list" where
  "pb_client_err_arms R =
     [(10, read_into (read_string R) (\<lambda>v m. m\<lparr>pb_client_err_message_id := v\<rparr>)),
      (18, read_singular R (pb_actor_ref_err_arms R) pb_actor_ref_err_new pb_client_err_error (\<lambda>v m. m\<lparr>pb_client_err_error := v\<rparr>)),
      (26, read_into (read_string R) (\<lambda>v m. m\<lparr>pb_client_err_trace_id := v\<rparr>))]"

definition pb_client_err_size :: "'e proto_rt \<Rightarrow> pb_client_err \<Rightarrow> nat" where
  "pb_client_err_size R m =
     sum_list
       [size_if (pb_client_err_message_id m \<noteq> []) (string_size R 1 (pb_client_err_message_id m)),
        size_some (pb_client_err_error m) (\<lambda>v. header_size R (pb_actor_ref_err_size R v)),
        size_if (pb_client_err_trace_id m \<noteq> []) (string_size R 3 (pb_client_err_trace_id m))]"

definition pb_client_err_write :: "'e proto_rt \<Rightarrow> pb_client_err \<Rightarrow> 'e writer" where
  "pb_client_err_write R m =
     write_all
       [write_if (pb_client_err_message_id m \<noteq> []) (write_string R 1 (pb_client_err_message_id m)),
        write_some (pb_client_err_error m) (\<lambda>v. write_nested R 2 (pb_actor_ref_err_size R v) (pb_actor_ref_err_write R v)),
        write_if (pb_client_err_trace_id m \<noteq> []) (write_string R 3 (pb_client_err_trace_id m))]"

definition pb_client_err_ok :: "'e proto_rt \<Rightarrow> pb_client_err \<Rightarrow> bool" where
  "pb_client_err_ok R m \<longleftrightarrow>
     (\<forall>v. pb_client_err_error m = Some v \<longrightarrow> pb_actor_ref_err_ok R v \<and> pb_actor_ref_err_size R v < 2 ^ 32)"

subsection \<open>\<open>PingEvent\<close>\<close>

record pb_ping_event =
  pb_ping_event_message_id :: string
  pb_ping_event_trace_id :: string
  pb_ping_event_node_id :: u64
  pb_ping_event_system_terminated :: bool

definition pb_ping_event_new :: pb_ping_event where
  "pb_ping_event_new = \<lparr>pb_ping_event_message_id = [], pb_ping_event_trace_id = [], pb_ping_event_node_id = 0, pb_ping_event_system_terminated = False\<rparr>"

definition pb_ping_event_arms :: "'e proto_rt \<Rightarrow> (nat \<times> ('e, pb_ping_event) arm) list" where
  "pb_ping_event_arms R =
     [(10, read_into (read_string R) (\<lambda>v m. m\<lparr>pb_ping_event_message_id := v\<rparr>)),
      (18, read_into (read_string R) (\<lambda>v m. m\<lparr>pb_ping_event_trace_id := v\<rparr>)),
      (24, read_into (read_uint64 R) (\<lambda>v m. m\<lparr>pb_ping_event_node_id := v\<rparr>)),
      (32, read_into (read_bool R) (\<lambda>v m. m\<lparr>pb_ping_event_system_terminated := v\<rparr>))]"

definition pb_ping_event_size :: "'e proto_rt \<Rightarrow> pb_ping_event \<Rightarrow> nat" where
  "pb_ping_event_size R m =
     sum_list
       [size_if (pb_ping_event_message_id m \<noteq> []) (string_size R 1 (pb_ping_event_message_id m)),
        size_if (pb_ping_event_trace_id m \<noteq> []) (string_size R 2 (pb_ping_event_trace_id m)),
        size_if (pb_ping_event_node_id m \<noteq> 0) (uint64_size R 3 (pb_ping_event_node_id m)),
        size_if (pb_ping_event_system_terminated m) 2]"

definition pb_ping_event_write :: "'e proto_rt \<Rightarrow> pb_ping_event \<Rightarrow> 'e writer" where
  "pb_ping_event_write R m =
     write_all
       [write_if (pb_ping_event_message_id m \<noteq> []) (write_string R 1 (pb_ping_event_message_id m)),
        write_if (pb_ping_event_trace_id m \<noteq> []) (write_string R 2 (pb_ping_event_trace_id m)),
        write_if (pb_ping_event_node_id m \<noteq> 0) (write_uint64 R 3 (pb_ping_event_node_id m)),
        write_if (pb_ping_event_system_terminated m) (write_bool R 4 (pb_ping_event_system_terminated m))]"

subsection \<open>\<open>PongEvent\<close>\<close>

record pb_pong_event =
  pb_pong_event_message_id :: string
  pb_pong_event_trace_id :: string

definition pb_pong_event_new :: pb_pong_event where
  "pb_pong_event_new = \<lparr>pb_pong_event_message_id = [], pb_pong_event_trace_id = []\<rparr>"

definition pb_pong_event_arms :: "'e proto_rt \<Rightarrow> (nat \<times> ('e, pb_pong_event) arm) list" where
  "pb_pong_event_arms R =
     [(10, read_into (read_string R) (\<lambda>v m. m\<lparr>pb_pong_event_message_id := v\<rparr>)),
      (18, read_into (read_string R) (\<lambda>v m. m\<lparr>pb_pong_event_trace_id := v\<rparr>))]"

definition pb_pong_event_size :: "'e proto_rt \<Rightarrow> pb_pong_event \<Rightarrow> nat" where
  "pb_pong_event_size R m =
     sum_list
       [size_if (pb_pong_event_message_id m \<noteq> []) (string_size R 1 (pb_pong_event_message_id m)),
        size_if (pb_pong_event_trace_id m \<noteq> []) (string_size R 2 (pb_pong_event_trace_id m))]"

definition pb_pong_event_write :: "'e proto_rt \<Rightarrow> pb_pong_event \<Rightarrow> 'e writer" where
  "pb_pong_event_write R m =
     write_all
       [write_if (pb_pong_event_message_id m \<noteq> []) (write_string R 1 (pb_pong_event_message_id m)),
        write_if (pb_pong_event_trace_id m \<noteq> []) (write_string R 2 (pb_pong_event_trace_id m))]"

subsection \<open>\<open>CreateActorEvent\<close>\<close>

record pb_create_actor_event =
  pb_create_actor_event_message_id :: string
  pb_create_actor_event_actor_id :: string
  pb_create_actor_event_actor_type :: string
  pb_create_actor_event_recipe :: bytes
  pb_create_actor_event_trace_id :: string

definition pb_create_actor_event_new :: pb_create_actor_event where
  "pb_create_actor_event_new = \<lparr>pb_create_actor_event_message_id = [], pb_create_actor_event_actor_id = [], pb_create_actor_event_actor_type = [], pb_create_actor_event_recipe = [], pb_create_actor_event_trace_id = []\<rparr>"

definition pb_create_actor_event_arms :: "'e proto_rt \<Rightarrow> (nat \<times> ('e, pb_create_actor_event) arm) list" where
  "pb_create_actor_event_arms R =
     [(10, read_into (read_string R) (\<lambda>v m. m\<lparr>pb_create_actor_event_message_id := v\<rparr>)),
      (18, read_into (read_string R) (\<lambda>v m. m\<lparr>pb_create_actor_event_actor_id := v\<rparr>)),
      (26, read_into (read_string R) (\<lambda>v m. m\<lparr>pb_create_actor_event_actor_type := v\<rparr>)),
      (34, read_into (read_bytes R) (\<lambda>v m. m\<lparr>pb_create_actor_event_recipe := v\<rparr>)),
      (42, read_into (read_string R) (\<lambda>v m. m\<lparr>pb_create_actor_event_trace_id := v\<rparr>))]"

definition pb_create_actor_event_size :: "'e proto_rt \<Rightarrow> pb_create_actor_event \<Rightarrow> nat" where
  "pb_create_actor_event_size R m =
     sum_list
       [size_if (pb_create_actor_event_message_id m \<noteq> []) (string_size R 1 (pb_create_actor_event_message_id m)),
        size_if (pb_create_actor_event_actor_id m \<noteq> []) (string_size R 2 (pb_create_actor_event_actor_id m)),
        size_if (pb_create_actor_event_actor_type m \<noteq> []) (string_size R 3 (pb_create_actor_event_actor_type m)),
        size_if (pb_create_actor_event_recipe m \<noteq> []) (bytes_size R 4 (pb_create_actor_event_recipe m)),
        size_if (pb_create_actor_event_trace_id m \<noteq> []) (string_size R 5 (pb_create_actor_event_trace_id m))]"

definition pb_create_actor_event_write :: "'e proto_rt \<Rightarrow> pb_create_actor_event \<Rightarrow> 'e writer" where
  "pb_create_actor_event_write R m =
     write_all
       [write_if (pb_create_actor_event_message_id m \<noteq> []) (write_string R 1 (pb_create_actor_event_message_id m)),
        write_if (pb_create_actor_event_actor_id m \<noteq> []) (write_string R 2 (pb_create_actor_event_actor_id m)),
        write_if (pb_create_actor_event_actor_type m \<noteq> []) (write_string R 3 (pb_create_actor_event_actor_type m)),
        write_if (pb_create_actor_event_recipe m \<noteq> []) (write_bytes R 4 (pb_create_actor_event_recipe m)),
        write_if (pb_create_actor_event_trace_id m \<noteq> []) (write_string R 5 (pb_create_actor_event_trace_id m))]"

subsection \<open>\<open>FindActorEvent\<close>\<close>

record pb_find_actor_event =
  pb_find_actor_event_message_id :: string
  pb_find_actor_event_actor_id :: string
  pb_find_actor_event_trace_id :: string

definition pb_find_actor_event_new :: pb_find_actor_event where
  "pb_find_actor_event_new = \<lparr>pb_find_actor_event_message_id = [], pb_find_actor_event_actor_id = [], pb_find_actor_event_trace_id = []\<rparr>"

definition pb_find_actor_event_arms :: "'e proto_rt \<Rightarrow> (nat \<times> ('e, pb_find_actor_event) arm) list" where
  "pb_find_actor_event_arms R =
     [(10, read_into (read_string R) (\<lambda>v m. m\<lparr>pb_find_actor_event_message_id := v\<rparr>)),
      (18, read_into (read_string R) (\<lambda>v m. m\<lparr>pb_find_actor_event_actor_id := v\<rparr>)),
      (26, read_into (read_string R) (\<lambda>v m. m\<lparr>pb_find_actor_event_trace_id := v\<rparr>))]"

definition pb_find_actor_event_size :: "'e proto_rt \<Rightarrow> pb_find_actor_event \<Rightarrow> nat" where
  "pb_find_actor_event_size R m =
     sum_list
       [size_if (pb_find_actor_event_message_id m \<noteq> []) (string_size R 1 (pb_find_actor_event_message_id m)),
        size_if (pb_find_actor_event_actor_id m \<noteq> []) (string_size R 2 (pb_find_actor_event_actor_id m)),
        size_if (pb_find_actor_event_trace_id m \<noteq> []) (string_size R 3 (pb_find_actor_event_trace_id m))]"

definition pb_find_actor_event_write :: "'e proto_rt \<Rightarrow> pb_find_actor_event \<Rightarrow> 'e writer" where
  "pb_find_actor_event_write R m =
     write_all
       [write_if (pb_find_actor_event_message_id m \<noteq> []) (write_string R 1 (pb_find_actor_event_message_id m)),
        write_if (pb_find_actor_event_actor_id m \<noteq> []) (write_string R 2 (pb_find_actor_event_actor_id m)),
        write_if (pb_find_actor_event_trace_id m \<noteq> []) (write_string R 3 (pb_find_actor_event_trace_id m))]"

subsection \<open>\<open>ActorAddress\<close>\<close>

record pb_actor_address =
  pb_actor_address_actor_id :: string
  pb_actor_address_node_id :: "pb_uint64_value option"
  pb_actor_address_trace_id :: string

definition pb_actor_address_new :: pb_actor_address where
  "pb_actor_address_new = \<lparr>pb_actor_address_actor_id = [], pb_actor_address_node_id = None, pb_actor_address_trace_id = []\<rparr>"

definition pb_actor_address_arms :: "'e proto_rt \<Rightarrow> (nat \<times> ('e, pb_actor_address) arm) list" where
  "pb_actor_address_arms R =
     [(10, read_into (read_string R) (\<lambda>v m. m\<lparr>pb_actor_address_actor_id := v\<rparr>)),
      (18, read_singular R (uint64_value_arms R) uint64_value_new pb_actor_address_node_id (\<lambda>v m. m\<lparr>pb_actor_address_node_id := v\<rparr>)),
      (26, read_into (read_string R) (\<lambda>v m. m\<lparr>pb_actor_address_trace_id := v\<rparr>))]"

definition pb_actor_address_size :: "'e proto_rt \<Rightarrow> pb_actor_address \<Rightarrow> nat" where
  "pb_actor_address_size R m =
     sum_list
       [size_if (pb_actor_address_actor_id m \<noteq> []) (string_size R 1 (pb_actor_address_actor_id m)),
        size_some (pb_actor_address_node_id m) (\<lambda>v. header_size R (uint64_value_size R v)),
        size_if (pb_actor_address_trace_id m \<noteq> []) (string_size R 3 (pb_actor_address_trace_id m))]"

definition pb_actor_address_write :: "'e proto_rt \<Rightarrow> pb_actor_address \<Rightarrow> 'e writer" where
  "pb_actor_address_write R m =
     write_all
       [write_if (pb_actor_address_actor_id m \<noteq> []) (write_string R 1 (pb_actor_address_actor_id m)),
        write_some (pb_actor_address_node_id m) (\<lambda>v. write_nested R 2 (uint64_value_size R v) (uint64_value_write R v)),
        write_if (pb_actor_address_trace_id m \<noteq> []) (write_string R 3 (pb_actor_address_trace_id m))]"

definition pb_actor_address_ok :: "'e proto_rt \<Rightarrow> pb_actor_address \<Rightarrow> bool" where
  "pb_actor_address_ok R m \<longleftrightarrow>
     (\<forall>v. pb_actor_address_node_id m = Some v \<longrightarrow> uint64_value_size R v < 2 ^ 32)"

subsection \<open>\<open>MessageRequest\<close>\<close>

record pb_message_request =
  pb_message_request_message_id :: string
  pb_message_request_handler_type :: string
  pb_message_request_actor_id :: string
  pb_message_request_message :: bytes
  pb_message_request_trace_id :: string
  pb_message_request_requires_response :: bool
  pb_message_request_origin_node_id :: u64

definition pb_message_request_new :: pb_message_request where
  "pb_message_request_new = \<lparr>pb_message_request_message_id = [], pb_message_request_handler_type = [], pb_message_request_actor_id = [], pb_message_request_message = [], pb_message_request_trace_id = [], pb_message_request_requires_response = False, pb_message_request_origin_node_id = 0\<rparr>"

definition pb_message_request_arms :: "'e proto_rt \<Rightarrow> (nat \<times> ('e, pb_message_request) arm) list" where
  "pb_message_request_arms R =
     [(10, read_into (read_string R) (\<lambda>v m. m\<lparr>pb_message_request_message_id := v\<rparr>)),
      (18, read_into (read_string R) (\<lambda>v m. m\<lparr>pb_message_request_handler_type := v\<rparr>)),
      (26, read_into (read_string R) (\<lambda>v m. m\<lparr>pb_message_request_actor_id := v\<rparr>)),
      (34, read_into (read_bytes R) (\<lambda>v m. m\<lparr>pb_message_request_message := v\<rparr>)),
      (42, read_into (read_string R) (\<lambda>v m. m\<lparr>pb_message_request_trace_id := v\<rparr>)),
      (48, read_into (read_bool R) (\<lambda>v m. m\<lparr>pb_message_request_requires_response := v\<rparr>)),
      (56, read_into (read_uint64 R) (\<lambda>v m. m\<lparr>pb_message_request_origin_node_id := v\<rparr>))]"

definition pb_message_request_size :: "'e proto_rt \<Rightarrow> pb_message_request \<Rightarrow> nat" where
  "pb_message_request_size R m =
     sum_list
       [size_if (pb_message_request_message_id m \<noteq> []) (string_size R 1 (pb_message_request_message_id m)),
        size_if (pb_message_request_handler_type m \<noteq> []) (string_size R 2 (pb_message_request_handler_type m)),
        size_if (pb_message_request_actor_id m \<noteq> []) (string_size R 3 (pb_message_request_actor_id m)),
        size_if (pb_message_request_message m \<noteq> []) (bytes_size R 4 (pb_message_request_message m)),
        size_if (pb_message_request_trace_id m \<noteq> []) (string_size R 5 (pb_message_request_trace_id m)),
        size_if (pb_message_request_requires_response m) 2,
        size_if (pb_message_request_origin_node_id m \<noteq> 0) (uint64_size R 7 (pb_message_request_origin_node_id m))]"

definition pb_message_request_write :: "'e proto_rt \<Rightarrow> pb_message_request \<Rightarrow> 'e writer" where
  "pb_message_request_write R m =
     write_all
       [write_if (pb_message_request_message_id m \<noteq> []) (write_string R 1 (pb_message_request_message_id m)),
        write_if (pb_message_request_handler_type m \<noteq> []) (write_string R 2 (pb_message_request_handler_type m)),
        write_if (pb_message_request_actor_id m \<noteq> []) (write_string R 3 (pb_message_request_actor_id m)),
        write_if (pb_message_request_message m \<noteq> []) (write_bytes R 4 (pb_message_request_message m)),
        write_if (pb_message_request_trace_id m \<noteq> []) (write_string R 5 (pb_message_request_trace_id m)),
        write_if (pb_message_request_requires_response m) (write_bool R 6 (pb_message_request_requires_response m)),
        write_if (pb_message_request_origin_node_id m \<noteq> 0) (write_uint64 R 7 (pb_message_request_origin_node_id m))]"

subsection \<open>\<open>SessionHandshake\<close>\<close>

record pb_session_handshake =
  pb_session_handshake_node_id :: u64
  pb_session_handshake_nodes :: "pb_remote_node list"
  pb_session_handshake_token :: bytes
  pb_session_handshake_node_tag :: string
  pb_session_handshake_client_type :: i32
  pb_session_handshake_trace_id :: string

definition pb_session_handshake_new :: pb_session_handshake where
  "pb_session_handshake_new = \<lparr>pb_session_handshake_node_id = 0, pb_session_handshake_nodes = [], pb_session_handshake_token = [], pb_session_handshake_node_tag = [], pb_session_handshake_client_type = 0, pb_session_handshake_trace_id = []\<rparr>"

definition pb_session_handshake_arms :: "'e proto_rt \<Rightarrow> (nat \<times> ('e, pb_session_handshake) arm) list" where
  "pb_session_handshake_arms R =
     [(8, read_into (read_uint64 R) (\<lambda>v m. m\<lparr>pb_session_handshake_node_id := v\<rparr>)),
      (18, read_repeated R (pb_remote_node_arms R) pb_remote_node_new pb_session_handshake_nodes (\<lambda>v m. m\<lparr>pb_session_handshake_nodes := v\<rparr>)),
      (26, read_into (read_bytes R) (\<lambda>v m. m\<lparr>pb_session_handshake_token := v\<rparr>)),
      (34, read_into (read_string R) (\<lambda>v m. m\<lparr>pb_session_handshake_node_tag := v\<rparr>)),
      (40, read_into (read_enum R) (\<lambda>v m. m\<lparr>pb_session_handshake_client_type := v\<rparr>)),
      (50, read_into (read_string R) (\<lambda>v m. m\<lparr>pb_session_handshake_trace_id := v\<rparr>))]"

definition pb_session_handshake_size :: "'e proto_rt \<Rightarrow> pb_session_handshake \<Rightarrow> nat" where
  "pb_session_handshake_size R m =
     sum_list
       [size_if (pb_session_handshake_node_id m \<noteq> 0) (uint64_size R 1 (pb_session_handshake_node_id m)),
        size_each (pb_session_handshake_nodes m) (\<lambda>v. header_size R (pb_remote_node_size R v)),
        size_if (pb_session_handshake_token m \<noteq> []) (bytes_size R 3 (pb_session_handshake_token m)),
        size_if (pb_session_handshake_node_tag m \<noteq> []) (string_size R 4 (pb_session_handshake_node_tag m)),
        size_if (pb_session_handshake_client_type m \<noteq> 0) (int32_size R 5 (pb_session_handshake_client_type m)),
        size_if (pb_session_handshake_trace_id m \<noteq> []) (string_size R 6 (pb_session_handshake_trace_id m))]"

definition pb_session_handshake_write :: "'e proto_rt \<Rightarrow> pb_session_handshake \<Rightarrow> 'e writer" where
  "pb_session_handshake_write R m =
     write_all
       [write_if (pb_session_handshake_node_id m \<noteq> 0) (write_uint64 R 1 (pb_session_handshake_node_id m)),
        write_each (pb_session_handshake_nodes m) (\<lambda>v. write_nested R 2 (pb_remote_node_size R v) (pb_remote_node_write R v)),
        write_if (pb_session_handshake_token m \<noteq> []) (write_bytes R 3 (pb_session_handshake_token m)),
        write_if (pb_session_handshake_node_tag m \<noteq> []) (write_string R 4 (pb_session_handshake_node_tag m)),
        write_if (pb_session_handshake_client_type m \<noteq> 0) (write_enum R 5 (pb_session_handshake_client_type m)),
        write_if (pb_session_handshake_trace_id m \<noteq> []) (write_string R 6 (pb_session_handshake_trace_id m))]"

definition pb_session_handshake_ok :: "'e proto_rt \<Rightarrow> pb_session_handshake \<Rightarrow> bool" where
  "pb_session_handshake_ok R m \<longleftrightarrow>
     (\<forall>v \<in> set (pb_session_handshake_nodes m). pb_remote_node_ok R v \<and> pb_remote_node_size R v < 2 ^ 32) \<and>
     is_i32 (pb_session_handshake_client_type m)"

subsection \<open>\<open>StreamPublishEvent\<close>\<close>

record pb_stream_publish_event =
  pb_stream_publish_event_topic :: string
  pb_stream_publish_event_key :: string
  pb_stream_publish_event_message :: bytes
  pb_stream_publish_event_trace_id :: string

definition pb_stream_publish_event_new :: pb_stream_publish_event where
  "pb_stream_publish_event_new = \<lparr>pb_stream_publish_event_topic = [], pb_stream_publish_event_key = [], pb_stream_publish_event_message = [], pb_stream_publish_event_trace_id = []\<rparr>"

definition pb_stream_publish_event_arms :: "'e proto_rt \<Rightarrow> (nat \<times> ('e, pb_stream_publish_event) arm) list" where
  "pb_stream_publish_event_arms R =
     [(10, read_into (read_string R) (\<lambda>v m. m\<lparr>pb_stream_publish_event_topic := v\<rparr>)),
      (18, read_into (read_string R) (\<lambda>v m. m\<lparr>pb_stream_publish_event_key := v\<rparr>)),
      (26, read_into (read_bytes R) (\<lambda>v m. m\<lparr>pb_stream_publish_event_message := v\<rparr>)),
      (34, read_into (read_string R) (\<lambda>v m. m\<lparr>pb_stream_publish_event_trace_id := v\<rparr>))]"

definition pb_stream_publish_event_size :: "'e proto_rt \<Rightarrow> pb_stream_publish_event \<Rightarrow> nat" where
  "pb_stream_publish_event_size R m =
     sum_list
       [size_if (pb_stream_publish_event_topic m \<noteq> []) (string_size R 1 (pb_stream_publish_event_topic m)),
        size_if (pb_stream_publish_event_key m \<noteq> []) (string_size R 2 (pb_stream_publish_event_key m)),
        size_if (pb_stream_publish_event_message m \<noteq> []) (bytes_size R 3 (pb_stream_publish_event_message m)),
        size_if (pb_stream_publish_event_trace_id m \<noteq> []) (string_size R 4 (pb_stream_publish_event_trace_id m))]"

definition pb_stream_publish_event_write :: "'e proto_rt \<Rightarrow> pb_stream_publish_event \<Rightarrow> 'e writer" where
  "pb_stream_publish_event_write R m =
     write_all
       [write_if (pb_stream_publish_event_topic m \<noteq> []) (write_string R 1 (pb_stream_publish_event_topic m)),
        write_if (pb_stream_publish_event_key m \<noteq> []) (write_string R 2 (pb_stream_publish_event_key m)),
        write_if (pb_stream_publish_event_message m \<noteq> []) (write_bytes R 3 (pb_stream_publish_event_message m)),
        write_if (pb_stream_publish_event_trace_id m \<noteq> []) (write_string R 4 (pb_stream_publish_event_trace_id m))]"

subsection \<open>\<open>NewNodeEvent\<close>\<close>

record pb_new_node_event =
  pb_new_node_event_node :: "pb_remote_node option"
  pb_new_node_event_trace_id :: string

definition pb_new_node_event_new :: pb_new_node_event where
  "pb_new_node_event_new = \<lparr>pb_new_node_event_node = None, pb_new_node_event_trace_id = []\<rparr>"

definition pb_new_node_event_arms :: "'e proto_rt \<Rightarrow> (nat \<times> ('e, pb_new_node_event) arm) list" where
  "pb_new_node_event_arms R =
     [(10, read_singular R (pb_remote_node_arms R) pb_remote_node_new pb_new_node_event_node (\<lambda>v m. m\<lparr>pb_new_node_event_node := v\<rparr>)),
      (18, read_into (read_string R) (\<lambda>v m. m\<lparr>pb_new_node_event_trace_id := v\<rparr>))]"

definition pb_new_node_event_size :: "'e proto_rt \<Rightarrow> pb_new_node_event \<Rightarrow> nat" where
  "pb_new_node_event_size R m =
     sum_list
       [size_some (pb_new_node_event_node m) (\<lambda>v. header_size R (pb_remote_node_size R v)),
        size_if (pb_new_node_event_trace_id m \<noteq> []) (string_size R 2 (pb_new_node_event_trace_id m))]"

definition pb_new_node_event_write :: "'e proto_rt \<Rightarrow> pb_new_node_event \<Rightarrow> 'e writer" where
  "pb_new_node_event_write R m =
     write_all
       [write_some (pb_new_node_event_node m) (\<lambda>v. write_nested R 1 (pb_remote_node_size R v) (pb_remote_node_write R v)),
        write_if (pb_new_node_event_trace_id m \<noteq> []) (write_string R 2 (pb_new_node_event_trace_id m))]"

definition pb_new_node_event_ok :: "'e proto_rt \<Rightarrow> pb_new_node_event \<Rightarrow> bool" where
  "pb_new_node_event_ok R m \<longleftrightarrow>
     (\<forall>v. pb_new_node_event_node m = Some v \<longrightarrow> pb_remote_node_ok R v \<and> pb_remote_node_size R v < 2 ^ 32)"

subsection \<open>\<open>NodeRemovedEvent\<close>\<close>

record pb_node_removed_event =
  pb_node_removed_event_node :: "pb_remote_node option"
  pb_node_removed_event_trace_id :: string

definition pb_node_removed_event_new :: pb_node_removed_event where
  "pb_node_removed_event_new = \<lparr>pb_node_removed_event_node = None, pb_node_removed_event_trace_id = []\<rparr>"

definition pb_node_removed_event_arms :: "'e proto_rt \<Rightarrow> (nat \<times> ('e, pb_node_removed_event) arm) list" where
  "pb_node_removed_event_arms R =
     [(10, read_singular R (pb_remote_node_arms R) pb_remote_node_new pb_node_removed_event_node (\<lambda>v m. m\<lparr>pb_node_removed_event_node := v\<rparr>)),
      (18, read_into (read_string R) (\<lambda>v m. m\<lparr>pb_node_removed_event_trace_id := v\<rparr>))]"

definition pb_node_removed_event_size :: "'e proto_rt \<Rightarrow> pb_node_removed_event \<Rightarrow> nat" where
  "pb_node_removed_event_size R m =
     sum_list
       [size_some (pb_node_removed_event_node m) (\<lambda>v. header_size R (pb_remote_node_size R v)),
        size_if (pb_node_removed_event_trace_id m \<noteq> []) (string_size R 2 (pb_node_removed_event_trace_id m))]"

definition pb_node_removed_event_write :: "'e proto_rt \<Rightarrow> pb_node_removed_event \<Rightarrow> 'e writer" where
  "pb_node_removed_event_write R m =
     write_all
       [write_some (pb_node_removed_event_node m) (\<lambda>v. write_nested R 1 (pb_remote_node_size R v) (pb_remote_node_write R v)),
        write_if (pb_node_removed_event_trace_id m \<noteq> []) (write_string R 2 (pb_node_removed_event_trace_id m))]"

definition pb_node_removed_event_ok :: "'e proto_rt \<Rightarrow> pb_node_removed_event \<Rightarrow> bool" where
  "pb_node_removed_event_ok R m \<longleftrightarrow>
     (\<forall>v. pb_node_removed_event_node m = Some v \<longrightarrow> pb_remote_node_ok R v \<and> pb_remote_node_size R v < 2 ^ 32)"

subsection \<open>\<open>LeaderChangedEvent\<close>\<close>

record pb_leader_changed_event =
  pb_leader_changed_event_node_id :: u64
  pb_leader_changed_event_trace_id :: string

definition pb_leader_changed_event_new :: pb_leader_changed_event where
  "pb_leader_changed_event_new = \<lparr>pb_leader_changed_event_node_id = 0, pb_leader_changed_event_trace_id = []\<rparr>"

definition pb_leader_changed_event_arms :: "'e proto_rt \<Rightarrow> (nat \<times> ('e, pb_leader_changed_event) arm) list" where
  "pb_leader_changed_event_arms R =
     [(8, read_into (read_uint64 R) (\<lambda>v m. m\<lparr>pb_leader_changed_event_node_id := v\<rparr>)),
      (18, read_into (read_string R) (\<lambda>v m. m\<lparr>pb_leader_changed_event_trace_id := v\<rparr>))]"

definition pb_leader_changed_event_size :: "'e proto_rt \<Rightarrow> pb_leader_changed_event \<Rightarrow> nat" where
  "pb_leader_changed_event_size R m =
     sum_list
       [size_if (pb_leader_changed_event_node_id m \<noteq> 0) (uint64_size R 1 (pb_leader_changed_event_node_id m)),
        size_if (pb_leader_changed_event_trace_id m \<noteq> []) (string_size R 2 (pb_leader_changed_event_trace_id m))]"

definition pb_leader_changed_event_write :: "'e proto_rt \<Rightarrow> pb_leader_changed_event \<Rightarrow> 'e writer" where
  "pb_leader_changed_event_write R m =
     write_all
       [write_if (pb_leader_changed_event_node_id m \<noteq> 0) (write_uint64 R 1 (pb_leader_changed_event_node_id m)),
        write_if (pb_leader_changed_event_trace_id m \<noteq> []) (write_string R 2 (pb_leader_changed_event_trace_id m))]"

subsection \<open>\<open>MemberUpEvent\<close>\<close>

record pb_member_up_event =
  pb_member_up_event_leader_id :: u64
  pb_member_up_event_nodes :: "pb_remote_node list"
  pb_member_up_event_trace_id :: string

definition pb_member_up_event_new :: pb_member_up_event where
  "pb_member_up_event_new = \<lparr>pb_member_up_event_leader_id = 0, pb_member_up_event_nodes = [], pb_member_up_event_trace_id = []\<rparr>"

definition pb_member_up_event_arms :: "'e proto_rt \<Rightarrow> (nat \<times> ('e, pb_member_up_event) arm) list" where
  "pb_member_up_event_arms R =
     [(8, read_into (read_uint64 R) (\<lambda>v m. m\<lparr>pb_member_up_event_leader_id := v\<rparr>)),
      (18, read_repeated R (pb_remote_node_arms R) pb_remote_node_new pb_member_up_event_nodes (\<lambda>v m. m\<lparr>pb_member_up_event_nodes := v\<rparr>)),
      (26, read_into (read_string R) (\<lambda>v m. m\<lparr>pb_member_up_event_trace_id := v\<rparr>))]"

definition pb_member_up_event_size :: "'e proto_rt \<Rightarrow> pb_member_up_event \<Rightarrow> nat" where
  "pb_member_up_event_size R m =
     sum_list
       [size_if (pb_member_up_event_leader_id m \<noteq> 0) (uint64_size R 1 (pb_member_up_event_leader_id m)),
        size_each (pb_member_up_event_nodes m) (\<lambda>v. header_size R (pb_remote_node_size R v)),
        size_if (pb_member_up_event_trace_id m \<noteq> []) (string_size R 3 (pb_member_up_event_trace_id m))]"

definition pb_member_up_event_write :: "'e proto_rt \<Rightarrow> pb_member_up_event \<Rightarrow> 'e writer" where
  "pb_member_up_event_write R m =
     write_all
       [write_if (pb_member_up_event_leader_id m \<noteq> 0) (write_uint64 R 1 (pb_member_up_event_leader_id m)),
        write_each (pb_member_up_event_nodes m) (\<lambda>v. write_nested R 2 (pb_remote_node_size R v) (pb_remote_node_write R v)),
        write_if (pb_member_up_event_trace_id m \<noteq> []) (write_string R 3 (pb_member_up_event_trace_id m))]"

definition pb_member_up_event_ok :: "'e proto_rt \<Rightarrow> pb_member_up_event \<Rightarrow> bool" where
  "pb_member_up_event_ok R m \<longleftrightarrow>
     (\<forall>v \<in> set (pb_member_up_event_nodes m). pb_remote_node_ok R v \<and> pb_remote_node_size R v < 2 ^ 32)"

subsection \<open>\<open>RaftRequest\<close>\<close>

record pb_raft_request =
  pb_raft_request_message_id :: string
  pb_raft_request_request_type :: u32
  pb_raft_request_payload :: bytes

definition pb_raft_request_new :: pb_raft_request where
  "pb_raft_request_new = \<lparr>pb_raft_request_message_id = [], pb_raft_request_request_type = 0, pb_raft_request_payload = []\<rparr>"

definition pb_raft_request_arms :: "'e proto_rt \<Rightarrow> (nat \<times> ('e, pb_raft_request) arm) list" where
  "pb_raft_request_arms R =
     [(10, read_into (read_string R) (\<lambda>v m. m\<lparr>pb_raft_request_message_id := v\<rparr>)),
      (16, read_into (read_uint32 R) (\<lambda>v m. m\<lparr>pb_raft_request_request_type := v\<rparr>)),
      (26, read_into (read_bytes R) (\<lambda>v m. m\<lparr>pb_raft_request_payload := v\<rparr>))]"

definition pb_raft_request_size :: "'e proto_rt \<Rightarrow> pb_raft_request \<Rightarrow> nat" where
  "pb_raft_request_size R m =
     sum_list
       [size_if (pb_raft_request_message_id m \<noteq> []) (string_size R 1 (pb_raft_request_message_id m)),
        size_if (pb_raft_request_request_type m \<noteq> 0) (uint32_size R 2 (pb_raft_request_request_type m)),
        size_if (pb_raft_request_payload m \<noteq> []) (bytes_size R 3 (pb_raft_request_payload m))]"

definition pb_raft_request_write :: "'e proto_rt \<Rightarrow> pb_raft_request \<Rightarrow> 'e writer" where
  "pb_raft_request_write R m =
     write_all
       [write_if (pb_raft_request_message_id m \<noteq> []) (write_string R 1 (pb_raft_request_message_id m)),
        write_if (pb_raft_request_request_type m \<noteq> 0) (write_uint32 R 2 (pb_raft_request_request_type m)),
        write_if (pb_raft_request_payload m \<noteq> []) (write_bytes R 3 (pb_raft_request_payload m))]"

section \<open>Round trips\<close>

context proto_runtime
begin

lemma pb_remote_node_encodes:
  assumes "pb_remote_node_ok R m"
  shows "encodes R (pb_remote_node_arms R) (pb_remote_node_write R m) (pb_remote_node_size R m) pb_remote_node_new m"
  unfolding pb_remote_node_arms_def pb_remote_node_write_def pb_remote_node_size_def pb_remote_node_new_def
  by (rule steps timestamp_law | simp add: assms [unfolded pb_remote_node_ok_def, simplified])+

lemma pb_identify_event_encodes: "encodes R (pb_identify_event_arms R) (pb_identify_event_write R m) (pb_identify_event_size R m) pb_identify_event_new m"
  unfolding pb_identify_event_arms_def pb_identify_event_write_def pb_identify_event_size_def pb_identify_event_new_def by (rule steps | simp)+

lemma pb_system_capabilities_encodes: "encodes R (pb_system_capabilities_arms R) (pb_system_capabilities_write R m) (pb_system_capabilities_size R m) pb_system_capabilities_new m"
  unfolding pb_system_capabilities_arms_def pb_system_capabilities_write_def pb_system_capabilities_size_def pb_system_capabilities_new_def by (rule steps | simp)+

lemma pb_node_identity_encodes:
  assumes "pb_node_identity_ok R m"
  shows "encodes R (pb_node_identity_arms R) (pb_node_identity_write R m) (pb_node_identity_size R m) pb_node_identity_new m"
  unfolding pb_node_identity_arms_def pb_node_identity_write_def pb_node_identity_size_def pb_node_identity_new_def
  by (rule steps pb_remote_node_encodes pb_system_capabilities_encodes timestamp_law | simp add: assms [unfolded pb_node_identity_ok_def, simplified])+

lemma pb_client_handshake_encodes:
  assumes "pb_client_handshake_ok R m"
  shows "encodes R (pb_client_handshake_arms R) (pb_client_handshake_write R m) (pb_client_handshake_size R m) pb_client_handshake_new m"
  unfolding pb_client_handshake_arms_def pb_client_handshake_write_def pb_client_handshake_size_def pb_client_handshake_new_def
  by (rule steps pb_remote_node_encodes timestamp_law | simp add: assms [unfolded pb_client_handshake_ok_def, simplified])+

lemma pb_client_result_encodes: "encodes R (pb_client_result_arms R) (pb_client_result_write R m) (pb_client_result_size R m) pb_client_result_new m"
  unfolding pb_client_result_arms_def pb_client_result_write_def pb_client_result_size_def pb_client_result_new_def by (rule steps | simp)+

lemma pb_actor_ref_err_encodes:
  assumes "pb_actor_ref_err_ok R m"
  shows "encodes R (pb_actor_ref_err_arms R) (pb_actor_ref_err_write R m) (pb_actor_ref_err_size R m) pb_actor_ref_err_new m"
  unfolding pb_actor_ref_err_arms_def pb_actor_ref_err_write_def pb_actor_ref_err_size_def pb_actor_ref_err_new_def
  by (rule steps | simp add: assms [unfolded pb_actor_ref_err_ok_def, simplified])+

lemma pb_client_err_encodes:
  assumes "pb_client_err_ok R m"
  shows "encodes R (pb_client_err_arms R) (pb_client_err_write R m) (pb_client_err_size R m) pb_client_err_new m"
  unfolding pb_client_err_arms_def pb_client_err_write_def pb_client_err_size_def pb_client_err_new_def
  by (rule steps pb_actor_ref_err_encodes | simp add: assms [unfolded pb_client_err_ok_def, simplified])+

lemma pb_ping_event_encodes: "encodes R (pb_ping_event_arms R) (pb_ping_event_write R m) (pb_ping_event_size R m) pb_ping_event_new m"
  unfolding pb_ping_event_arms_def pb_ping_event_write_def pb_ping_event_size_def pb_ping_event_new_def by (rule steps | simp)+

lemma pb_pong_event_encodes: "encodes R (pb_pong_event_arms R) (pb_pong_event_write R m) (pb_pong_event_size R m) pb_pong_event_new m"
  unfolding pb_pong_event_arms_def pb_pong_event_write_def pb_pong_event_size_def pb_pong_event_new_def by (rule steps | simp)+

lemma pb_create_actor_event_encodes: "encodes R (pb_create_actor_event_arms R) (pb_create_actor_event_write R m) (pb_create_actor_event_size R m) pb_create_actor_event_new m"
  unfolding pb_create_actor_event_arms_def pb_create_actor_event_write_def pb_create_actor_event_size_def pb_create_actor_event_new_def by (rule steps | simp)+

lemma pb_find_actor_event_encodes: "encodes R (pb_find_actor_event_arms R) (pb_find_actor_event_write R m) (pb_find_actor_event_size R m) pb_find_actor_event_new m"
  unfolding pb_find_actor_event_arms_def pb_find_actor_event_write_def pb_find_actor_event_size_def pb_find_actor_event_new_def by (rule steps | simp)+

lemma pb_actor_address_encodes:
  assumes "pb_actor_address_ok R m"
  shows "encodes R (pb_actor_address_arms R) (pb_actor_address_write R m) (pb_actor_address_size R m) pb_actor_address_new m"
  unfolding pb_actor_address_arms_def pb_actor_address_write_def pb_actor_address_size_def pb_actor_address_new_def
  by (rule steps uint64_value_law | simp add: assms [unfolded pb_actor_address_ok_def, simplified])+

lemma pb_message_request_encodes: "encodes R (pb_message_request_arms R) (pb_message_request_write R m) (pb_message_request_size R m) pb_message_request_new m"
  unfolding pb_message_request_arms_def pb_message_request_write_def pb_message_request_size_def pb_message_request_new_def by (rule steps | simp)+

lemma pb_session_handshake_encodes:
  assumes "pb_session_handshake_ok R m"
  shows "encodes R (pb_session_handshake_arms R) (pb_session_handshake_write R m) (pb_session_handshake_size R m) pb_session_handshake_new m"
  unfolding pb_session_handshake_arms_def pb_session_handshake_write_def pb_session_handshake_size_def pb_session_handshake_new_def
  by (rule steps pb_remote_node_encodes | simp add: assms [unfolded pb_session_handshake_ok_def, simplified])+

lemma pb_stream_publish_event_encodes: "encodes R (pb_stream_publish_event_arms R) (pb_stream_publish_event_write R m) (pb_stream_publish_event_size R m) pb_stream_publish_event_new m"
  unfolding pb_stream_publish_event_arms_def pb_stream_publish_event_write_def pb_stream_publish_event_size_def pb_stream_publish_event_new_def by (rule steps | simp)+

lemma pb_new_node_event_encodes:
  assumes "pb_new_node_event_ok R m"
  shows "encodes R (pb_new_node_event_arms R) (pb_new_node_event_write R m) (pb_new_node_event_size R m) pb_new_node_event_new m"
  unfolding pb_new_node_event_arms_def pb_new_node_event_write_def pb_new_node_event_size_def pb_new_node_event_new_def
  by (rule steps pb_remote_node_encodes | simp add: assms [unfolded pb_new_node_event_ok_def, simplified])+

lemma pb_node_removed_event_encodes:
  assumes "pb_node_removed_event_ok R m"
  shows "encodes R (pb_node_removed_event_arms R) (pb_node_removed_event_write R m) (pb_node_removed_event_size R m) pb_node_removed_event_new m"
  unfolding pb_node_removed_event_arms_def pb_node_removed_event_write_def pb_node_removed_event_size_def pb_node_removed_event_new_def
  by (rule steps pb_remote_node_encodes | simp add: assms [unfolded pb_node_removed_event_ok_def, simplified])+

lemma pb_leader_changed_event_encodes: "encodes R (pb_leader_changed_event_arms R) (pb_leader_changed_event_write R m) (pb_leader_changed_event_size R m) pb_leader_changed_event_new m"
  unfolding pb_leader_changed_event_arms_def pb_leader_changed_event_write_def pb_leader_changed_event_size_def pb_leader_changed_event_new_def by (rule steps | simp)+

lemma pb_member_up_event_encodes:
  assumes "pb_member_up_event_ok R m"
  shows "encodes R (pb_member_up_event_arms R) (pb_member_up_event_write R m) (pb_member_up_event_size R m) pb_member_up_event_new m"
  unfolding pb_member_up_event_arms_def pb_member_up_event_write_def pb_member_up_event_size_def pb_member_up_event_new_def
  by (rule steps pb_remote_node_encodes | simp add: assms [unfolded pb_member_up_event_ok_def, simplified])+

lemma pb_raft_request_encodes: "encodes R (pb_raft_request_arms R) (pb_raft_request_write R m) (pb_raft_request_size R m) pb_raft_request_new m"
  unfolding pb_raft_request_arms_def pb_raft_request_write_def pb_raft_request_size_def pb_raft_request_new_def by (rule steps | simp)+

end

context proto_runtime_total
begin

lemma pb_remote_node_total: "arms_total (pb_remote_node_arms R)"
  by (simp add: pb_remote_node_arms_def totals)

lemma pb_identify_event_total: "arms_total (pb_identify_event_arms R)"
  by (simp add: pb_identify_event_arms_def totals)

lemma pb_system_capabilities_total: "arms_total (pb_system_capabilities_arms R)"
  by (simp add: pb_system_capabilities_arms_def totals)

lemma pb_node_identity_total: "arms_total (pb_node_identity_arms R)"
  by (simp add: pb_node_identity_arms_def totals pb_remote_node_total pb_system_capabilities_total)

lemma pb_client_handshake_total: "arms_total (pb_client_handshake_arms R)"
  by (simp add: pb_client_handshake_arms_def totals pb_remote_node_total)

lemma pb_client_result_total: "arms_total (pb_client_result_arms R)"
  by (simp add: pb_client_result_arms_def totals)

lemma pb_actor_ref_err_total: "arms_total (pb_actor_ref_err_arms R)"
  by (simp add: pb_actor_ref_err_arms_def totals)

lemma pb_client_err_total: "arms_total (pb_client_err_arms R)"
  by (simp add: pb_client_err_arms_def totals pb_actor_ref_err_total)

lemma pb_ping_event_total: "arms_total (pb_ping_event_arms R)"
  by (simp add: pb_ping_event_arms_def totals)

lemma pb_pong_event_total: "arms_total (pb_pong_event_arms R)"
  by (simp add: pb_pong_event_arms_def totals)

lemma pb_create_actor_event_total: "arms_total (pb_create_actor_event_arms R)"
  by (simp add: pb_create_actor_event_arms_def totals)

lemma pb_find_actor_event_total: "arms_total (pb_find_actor_event_arms R)"
  by (simp add: pb_find_actor_event_arms_def totals)

lemma pb_actor_address_total: "arms_total (pb_actor_address_arms R)"
  by (simp add: pb_actor_address_arms_def totals)

lemma pb_message_request_total: "arms_total (pb_message_request_arms R)"
  by (simp add: pb_message_request_arms_def totals)

lemma pb_session_handshake_total: "arms_total (pb_session_handshake_arms R)"
  by (simp add: pb_session_handshake_arms_def totals pb_remote_node_total)

lemma pb_stream_publish_event_total: "arms_total (pb_stream_publish_event_arms R)"
  by (simp add: pb_stream_publish_event_arms_def totals)

lemma pb_new_node_event_total: "arms_total (pb_new_node_event_arms R)"
  by (simp add: pb_new_node_event_arms_def totals pb_remote_node_total)

lemma pb_node_removed_event_total: "arms_total (pb_node_removed_event_arms R)"
  by (simp add: pb_node_removed_event_arms_def totals pb_remote_node_total)

lemma pb_leader_changed_event_total: "arms_total (pb_leader_changed_event_arms R)"
  by (simp add: pb_leader_changed_event_arms_def totals)

lemma pb_member_up_event_total: "arms_total (pb_member_up_event_arms R)"
  by (simp add: pb_member_up_event_arms_def totals pb_remote_node_total)

lemma pb_raft_request_total: "arms_total (pb_raft_request_arms R)"
  by (simp add: pb_raft_request_arms_def totals)

end

end
