(* ===== verification/Varint_Runtime.thy ===== *)
theory Varint_Runtime
  imports Proto_Sharding Proto_Network
begin

text \<open>
  A runtime that satisfies the contract of generated code: the documented wire format. Numbers are base-128
  varints, least significant group first; a tag is the field number times eight plus the wire type;
  strings, bytes and nested messages are preceded by their length.
\<close>

section \<open>Varints\<close>

fun varint :: "nat \<Rightarrow> bytes" where
  "varint n = (if n < 128 then [word_of_nat n] else word_of_nat (n mod 128 + 128) # varint (n div 128))"

fun read_varint :: "bytes \<Rightarrow> string + (nat \<times> bytes)" where
  "read_varint [] = Inl ''unexpected end of input''"
| "read_varint (b # bs) =
     (if unat b < 128 then Inr (unat b, bs)
      else map_sum id (\<lambda>(v, rest). (unat b - 128 + 128 * v, rest)) (read_varint bs))"

declare varint.simps [simp del]

lemma read_varint_append [simp]: "read_varint (varint n @ rest) = Inr (n, rest)"
proof (induction n rule: varint.induct)
  case (1 n)
  have small: "n < 128 \<Longrightarrow> unat (word_of_nat n :: byte) = n" by (simp add: unat_of_nat)
  have "n mod 128 + 128 < 256" by simp
  then have big: "unat (word_of_nat (n mod 128 + 128) :: byte) = n mod 128 + 128"
    by (subst unat_of_nat) (simp add: mod_less)
  show ?case
  proof (cases "n < 128")
    case True
    then show ?thesis using small by (simp add: varint.simps [of n])
  next
    case False
    with 1 have "read_varint (varint (n div 128) @ rest) = Inr (n div 128, rest)" by blast
    with False show ?thesis using big by (simp add: varint.simps [of n])
  qed
qed

lemma varint_not_Nil [simp]: "varint n \<noteq> []" "varint n @ rest \<noteq> []"
  by (simp_all add: varint.simps [of n])

lemma length_varint_tag: "n < 128 \<Longrightarrow> length (varint n) = 1"
  by (simp add: varint.simps [of n])

section \<open>The primitives\<close>

definition put_varint :: "nat \<Rightarrow> nat \<Rightarrow> string writer" where
  "put_varint n v out = Inr (out @ varint (8 * n) @ varint v)"

definition put_delimited :: "nat \<Rightarrow> bytes \<Rightarrow> string writer" where
  "put_delimited n b out = Inr (out @ varint (8 * n + 2) @ varint (length b) @ b)"

definition take_delimited :: "bytes \<Rightarrow> string + (bytes \<times> bytes)" where
  "take_delimited input =
     (case read_varint input of
        Inl e \<Rightarrow> Inl e
      | Inr (len, rest) \<Rightarrow>
          if len \<le> length rest then Inr (take len rest, drop len rest) else Inl ''unexpected end of input'')"

definition skip_wire :: "nat \<Rightarrow> bytes \<Rightarrow> string + bytes" where
  "skip_wire tag input =
     (if tag mod 8 = 0 then map_sum id snd (read_varint input)
      else if tag mod 8 = 1 then Inr (drop 8 input)
      else if tag mod 8 = 2 then map_sum id snd (take_delimited input)
      else if tag mod 8 = 5 then Inr (drop 4 input)
      else Inl ''unexpected wire type'')"

definition signed_code :: "int \<Rightarrow> nat" where
  "signed_code v = nat (v mod 2 ^ 64)"

definition signed_value :: "nat \<Rightarrow> int" where
  "signed_value n = (if n < 2 ^ 63 then int n else int n - 2 ^ 64)"

definition string_bytes :: "string \<Rightarrow> bytes" where
  "string_bytes s = map (\<lambda>c. word_of_nat (of_char c)) s"

definition bytes_string :: "bytes \<Rightarrow> string" where
  "bytes_string b = map (\<lambda>x. char_of (unat x)) b"

lemma string_bytes_inverse [simp]: "bytes_string (string_bytes s) = s"
  by (simp add: string_bytes_def bytes_string_def comp_def unat_of_nat)

lemma length_string_bytes [simp]: "length (string_bytes s) = length s"
  by (simp add: string_bytes_def)

lemma signed_code_inverse: "is_i64 v \<Longrightarrow> signed_value (signed_code v) = v"
proof -
  assume "is_i64 v"
  then have v: "- (2 ^ 63) \<le> v" "v < 2 ^ 63" by (simp_all add: is_i64_def)
  show ?thesis
  proof (cases "0 \<le> v")
    case True
    with v show ?thesis by (simp add: signed_code_def signed_value_def)
  next
    case False
    have "v mod 2 ^ 64 = (v + 2 ^ 64) mod 2 ^ 64" by simp
    also have "\<dots> = v + 2 ^ 64" using False v by (intro mod_pos_pos_trivial) simp_all
    finally show ?thesis using False v by (simp add: signed_code_def signed_value_def)
  qed
qed

lemma is_i32_i64: "is_i32 v \<Longrightarrow> is_i64 v"
  by (simp add: is_i32_def is_i64_def)

definition get_varint :: "(nat \<Rightarrow> 'v) \<Rightarrow> bytes \<Rightarrow> string + ('v \<times> bytes)" where
  "get_varint f input = map_sum id (\<lambda>(n, rest). (f n, rest)) (read_varint input)"

definition get_delimited :: "(bytes \<Rightarrow> 'v) \<Rightarrow> bytes \<Rightarrow> string + ('v \<times> bytes)" where
  "get_delimited f input = map_sum id (\<lambda>(b, rest). (f b, rest)) (take_delimited input)"

definition varint_rt :: "string proto_rt" where
  "varint_rt =
     \<lparr>read_raw_tag_or_eof = (\<lambda>input. if input = [] then Inr None else map_sum id Some (read_varint input)),
      read_uint32 = get_varint word_of_nat, read_uint64 = get_varint word_of_nat,
      read_int64 = get_varint signed_value, read_bool = get_varint (\<lambda>n. n \<noteq> 0),
      read_string = get_delimited bytes_string, read_bytes = take_delimited,
      read_enum = get_varint signed_value, read_limited = take_delimited, skip_field = skip_wire,
      singular_replaces = True,
      write_uint32 = (\<lambda>n v. put_varint n (unat v)), write_uint64 = (\<lambda>n v. put_varint n (unat v)),
      write_int64 = (\<lambda>n v. put_varint n (signed_code v)), write_bool = (\<lambda>n v. put_varint n (of_bool v)),
      write_string = (\<lambda>n v. put_delimited n (string_bytes v)), write_bytes = put_delimited,
      write_enum = (\<lambda>n v. put_varint n (signed_code v)),
      write_raw_varint32 = (\<lambda>v out. Inr (out @ varint v)),
      uint32_size = (\<lambda>n v. length (varint (8 * n)) + length (varint (unat v))),
      uint64_size = (\<lambda>n v. length (varint (8 * n)) + length (varint (unat v))),
      int64_size = (\<lambda>n v. length (varint (8 * n)) + length (varint (signed_code v))),
      string_size = (\<lambda>n v. length (varint (8 * n + 2)) + length (varint (length v)) + length v),
      bytes_size = (\<lambda>n v. length (varint (8 * n + 2)) + length (varint (length v)) + length v),
      int32_size = (\<lambda>n v. length (varint (8 * n)) + length (varint (signed_code v))),
      compute_raw_varint64_size = (\<lambda>v. length (varint v)),
      timestamp_arms =
        [(8, read_into (get_varint signed_value) (\<lambda>v m. m\<lparr>ts_seconds := v\<rparr>)),
         (16, read_into (get_varint signed_value) (\<lambda>v m. m\<lparr>ts_nanos := v\<rparr>))],
      timestamp_size = (\<lambda>t. sum_list
        [size_if (ts_seconds t \<noteq> 0) (length (varint (8 * 1)) + length (varint (signed_code (ts_seconds t)))),
         size_if (ts_nanos t \<noteq> 0) (length (varint (8 * 2)) + length (varint (signed_code (ts_nanos t))))]),
      timestamp_write = (\<lambda>t. write_all
        [write_if (ts_seconds t \<noteq> 0) (put_varint 1 (signed_code (ts_seconds t))),
         write_if (ts_nanos t \<noteq> 0) (put_varint 2 (signed_code (ts_nanos t)))]),
      uint64_value_arms = [(8, read_into (get_varint word_of_nat) (\<lambda>v m. m\<lparr>uv_value := v\<rparr>))],
      uint64_value_size = (\<lambda>u. sum_list
        [size_if (uv_value u \<noteq> 0) (length (varint (8 * 1)) + length (varint (unat (uv_value u))))]),
      uint64_value_write = (\<lambda>u. write_all [write_if (uv_value u \<noteq> 0) (put_varint 1 (unat (uv_value u)))]),
      string_value_arms = [(10, read_into (get_delimited bytes_string) (\<lambda>v m. m\<lparr>sv_value := v\<rparr>))],
      string_value_size = (\<lambda>s. sum_list
        [size_if (sv_value s \<noteq> []) (length (varint (8 * 1 + 2)) + length (varint (length (sv_value s))) + length (sv_value s))]),
      string_value_write = (\<lambda>s. write_all [write_if (sv_value s \<noteq> []) (put_delimited 1 (string_bytes (sv_value s)))])\<rparr>"

section \<open>The contract holds\<close>

lemma take_delimited_append [simp]: "take_delimited (varint (length b) @ b @ rest) = Inr (b, rest)"
  by (simp add: take_delimited_def)

lemma varint_law:
  assumes "\<And>v. ok v \<Longrightarrow> f (code v) = v"
  shows "field_law varint_rt ok 0 (\<lambda>n v. put_varint n (code v))
    (\<lambda>n v. length (varint (8 * n)) + length (varint (code v))) (get_varint f)"
  unfolding field_law_def
proof (intro allI impI)
  fix n v out out' assume a: "0 < n \<and> n < 16 \<and> ok v \<and> put_varint n (code v) out = Inr out'"
  show "\<exists>chunk. out' = out @ chunk \<and> length chunk = length (varint (8 * n)) + length (varint (code v)) \<and>
      (\<forall>rest. \<exists>is. read_raw_tag_or_eof varint_rt (chunk @ rest) = Inr (Some (8 * n + 0, is)) \<and> get_varint f is = Inr (v, rest))"
    using a assms by (intro exI [of _ "varint (8 * n) @ varint (code v)"]) (auto simp: put_varint_def varint_rt_def get_varint_def)
qed

lemma delimited_law:
  assumes "\<And>v. f (code v) = v" "\<And>v. length (code v) = length v"
  shows "field_law varint_rt (\<lambda>_. True) 2 (\<lambda>n v. put_delimited n (code v))
    (\<lambda>n v. length (varint (8 * n + 2)) + length (varint (length v)) + length v) (get_delimited f)"
  unfolding field_law_def
proof (intro allI impI)
  fix n v out out' assume a: "0 < n \<and> n < 16 \<and> True \<and> put_delimited n (code v) out = Inr out'"
  show "\<exists>chunk. out' = out @ chunk \<and> length chunk = length (varint (8 * n + 2)) + length (varint (length v)) + length v \<and>
      (\<forall>rest. \<exists>is. read_raw_tag_or_eof varint_rt (chunk @ rest) = Inr (Some (8 * n + 2, is)) \<and> get_delimited f is = Inr (v, rest))"
    using a assms take_delimited_append [of "code v"]
    by (intro exI [of _ "varint (8 * n + 2) @ varint (length (code v)) @ code v"])
       (auto simp: put_delimited_def varint_rt_def get_delimited_def)
qed

lemma varint_limit_law: "limit_law varint_rt"
  unfolding limit_law_def
proof (intro allI impI)
  fix n :: nat and body :: bytes and out out1 out2
  assume a: "0 < n \<and> n < 16 \<and> length body < 2 ^ 32 \<and> write_raw_varint32 varint_rt (8 * n + 2) out = Inr out1 \<and>
    write_raw_varint32 varint_rt (length body) out1 = Inr out2"
  then have "length (varint (8 * n + 2)) = 1" by (intro length_varint_tag) simp
  with a show "\<exists>head. out2 = out @ head \<and> length head = 1 + compute_raw_varint64_size varint_rt (length body) \<and>
      (\<forall>rest. \<exists>is. read_raw_tag_or_eof varint_rt (head @ body @ rest) = Inr (Some (8 * n + 2, is)) \<and>
         read_limited varint_rt is = Inr (body, rest))"
    by (intro exI [of _ "varint (8 * n + 2) @ varint (length body)"]) (auto simp: varint_rt_def)
qed

lemmas signed_laws =
  varint_law [of is_i64, OF signed_code_inverse] varint_law [of is_i32, OF signed_code_inverse [OF is_i32_i64]]

lemma word_law:
  "field_law varint_rt (\<lambda>_. True) 0 (\<lambda>n (v :: 'w :: len word). put_varint n (unat v))
    (\<lambda>n v. length (varint (8 * n)) + length (varint (unat v))) (get_varint word_of_nat)"
  by (rule varint_law) simp

lemma varint_timestamp:
  assumes "is_i64 (ts_seconds t)" "is_i32 (ts_nanos t)"
  shows "encodes varint_rt (timestamp_arms varint_rt) (timestamp_write varint_rt t) (timestamp_size varint_rt t) timestamp_new t"
proof -
  let ?arms = "timestamp_arms varint_rt"
  have arms: "map_of ?arms (8 * 1 + 0) = Some (read_into (get_varint signed_value) (\<lambda>v m. m\<lparr>ts_seconds := v\<rparr>))"
    "map_of ?arms (8 * 2 + 0) = Some (read_into (get_varint signed_value) (\<lambda>v m. m\<lparr>ts_nanos := v\<rparr>))"
    by (simp_all add: varint_rt_def)
  have w: "timestamp_write varint_rt t = write_all
      [write_if (ts_seconds t \<noteq> 0) (put_varint 1 (signed_code (ts_seconds t))),
       write_if (ts_nanos t \<noteq> 0) (put_varint 2 (signed_code (ts_nanos t)))]"
    "timestamp_size varint_rt t = sum_list
      [size_if (ts_seconds t \<noteq> 0) (length (varint (8 * 1)) + length (varint (signed_code (ts_seconds t)))),
       size_if (ts_nanos t \<noteq> 0) (length (varint (8 * 2)) + length (varint (signed_code (ts_nanos t))))]"
    by (simp_all add: varint_rt_def)
  show ?thesis unfolding w
    by (rule field_step [OF signed_laws(1) arms(1)] field_step [OF signed_laws(2) arms(2)] last_step
        | simp add: assms timestamp_new_def)+
qed

lemma varint_uint64_value:
  "encodes varint_rt (uint64_value_arms varint_rt) (uint64_value_write varint_rt u) (uint64_value_size varint_rt u) uint64_value_new u"
proof -
  have arm: "map_of (uint64_value_arms varint_rt) (8 * 1 + 0) = Some (read_into (get_varint word_of_nat) (\<lambda>v m. m\<lparr>uv_value := v\<rparr>))"
    by (simp add: varint_rt_def)
  have w: "uint64_value_write varint_rt u = write_all [write_if (uv_value u \<noteq> 0) (put_varint 1 (unat (uv_value u)))]"
    "uint64_value_size varint_rt u =
       sum_list [size_if (uv_value u \<noteq> 0) (length (varint (8 * 1)) + length (varint (unat (uv_value u))))]"
    by (simp_all add: varint_rt_def)
  show ?thesis unfolding w by (rule field_step [OF word_law arm] last_step | simp add: uint64_value_new_def)+
qed

lemma varint_string_value:
  "encodes varint_rt (string_value_arms varint_rt) (string_value_write varint_rt s) (string_value_size varint_rt s) string_value_new s"
proof -
  have arm: "map_of (string_value_arms varint_rt) (8 * 1 + 2) = Some (read_into (get_delimited bytes_string) (\<lambda>v m. m\<lparr>sv_value := v\<rparr>))"
    by (simp add: varint_rt_def)
  have w: "string_value_write varint_rt s = write_all [write_if (sv_value s \<noteq> []) (put_delimited 1 (string_bytes (sv_value s)))]"
    "string_value_size varint_rt s = sum_list
       [size_if (sv_value s \<noteq> []) (length (varint (8 * 1 + 2)) + length (varint (length (sv_value s))) + length (sv_value s))]"
    by (simp_all add: varint_rt_def)
  have law: "field_law varint_rt (\<lambda>_. True) 2 (\<lambda>n v. put_delimited n (string_bytes v))
      (\<lambda>n v. length (varint (8 * n + 2)) + length (varint (length v)) + length v) (get_delimited bytes_string)"
    using delimited_law [of bytes_string string_bytes] by simp
  show ?thesis unfolding w by (rule field_step [OF law arm] last_step | simp add: string_value_new_def)+
qed

interpretation varint: proto_runtime varint_rt
proof
  show "read_raw_tag_or_eof varint_rt [] = Inr None" by (simp add: varint_rt_def)
  show "field_law varint_rt (\<lambda>_. True) 0 (write_uint32 varint_rt) (uint32_size varint_rt) (read_uint32 varint_rt)"
    using word_law by (simp add: varint_rt_def)
  show "field_law varint_rt (\<lambda>_. True) 0 (write_uint64 varint_rt) (uint64_size varint_rt) (read_uint64 varint_rt)"
    using word_law by (simp add: varint_rt_def)
  show "field_law varint_rt is_i64 0 (write_int64 varint_rt) (int64_size varint_rt) (read_int64 varint_rt)"
    using signed_laws(1) by (simp add: varint_rt_def)
  show "field_law varint_rt (\<lambda>_. True) 0 (write_bool varint_rt) (\<lambda>_ _. 2) (read_bool varint_rt)"
  proof -
    have "field_law varint_rt (\<lambda>_. True) 0 (\<lambda>n v. put_varint n (of_bool v))
        (\<lambda>n v. length (varint (8 * n)) + length (varint (of_bool v))) (get_varint (\<lambda>n. n \<noteq> 0))"
      by (rule varint_law) simp
    moreover have "length (varint (8 * n)) + length (varint (of_bool v)) = 2" if "n < 16" for n v
      using that length_varint_tag [of "8 * n"] length_varint_tag [of "of_bool v"] by simp
    ultimately show ?thesis unfolding field_law_def by (simp add: varint_rt_def)
  qed
  show "field_law varint_rt is_i32 0 (write_enum varint_rt) (int32_size varint_rt) (read_enum varint_rt)"
    using signed_laws(2) by (simp add: varint_rt_def)
  show "field_law varint_rt (\<lambda>_. True) 2 (write_string varint_rt) (string_size varint_rt) (read_string varint_rt)"
    using delimited_law [of bytes_string string_bytes] by (simp add: varint_rt_def)
  show "field_law varint_rt (\<lambda>_. True) 2 (write_bytes varint_rt) (bytes_size varint_rt) (read_bytes varint_rt)"
    using delimited_law [of "\<lambda>b. b" "\<lambda>b. b"] by (simp add: varint_rt_def get_delimited_def [abs_def] map_sum.id prod.case_eq_if)
  show "limit_law varint_rt" by (rule varint_limit_law)
  show "encodes varint_rt (timestamp_arms varint_rt) (timestamp_write varint_rt t) (timestamp_size varint_rt t) timestamp_new t"
    if "is_i64 (ts_seconds t)" "is_i32 (ts_nanos t)" for t by (rule varint_timestamp [OF that])
  show "encodes varint_rt (uint64_value_arms varint_rt) (uint64_value_write varint_rt u) (uint64_value_size varint_rt u)
      uint64_value_new u" for u by (rule varint_uint64_value)
  show "encodes varint_rt (string_value_arms varint_rt) (string_value_write varint_rt s) (string_value_size varint_rt s)
      string_value_new s" for s by (rule varint_string_value)
qed

section \<open>Its readers consume their input\<close>

lemma read_varint_shorter: "read_varint b = Inr (v, rest) \<Longrightarrow> length rest < length b"
proof (induction b arbitrary: v rest rule: read_varint.induct)
  case (2 b bs)
  show ?case
  proof (cases "unat b < 128")
    case False
    with "2.prems" obtain v' where "read_varint bs = Inr (v', rest)"
      by (auto simp: map_sum_def split: sum.splits if_splits)
    from "2.IH" [OF False this] show ?thesis by simp
  qed (use "2.prems" in auto)
qed simp

lemma take_delimited_shorter: "take_delimited b = Inr (v, rest) \<Longrightarrow> length rest \<le> length b"
  by (auto simp: take_delimited_def dest!: read_varint_shorter split: sum.splits if_splits)

lemma get_varint_shrinks: "shrinks (get_varint f)"
  by (auto simp: shrinks_def get_varint_def map_sum_def dest!: read_varint_shorter split: sum.splits)

lemma get_delimited_shrinks: "shrinks (get_delimited f)"
  by (auto simp: shrinks_def get_delimited_def map_sum_def dest!: take_delimited_shorter split: sum.splits)

lemma skip_wire_shorter: "skip_wire t b = Inr rest \<Longrightarrow> length rest \<le> length b"
  by (auto simp: skip_wire_def map_sum_def dest!: read_varint_shorter take_delimited_shorter split: sum.splits if_splits)

interpretation varint_total: proto_runtime_total varint_rt
proof
  have take_shrinks: "shrinks take_delimited" by (auto simp: shrinks_def dest: take_delimited_shorter)
  show "length rest < length b" if "read_raw_tag_or_eof varint_rt b = Inr (Some (t, rest))" for b t rest
    using that by (auto simp: varint_rt_def map_sum_def dest!: read_varint_shorter split: sum.splits if_splits)
  show "length rest \<le> length b" if "skip_field varint_rt t b = Inr rest" for t b rest
    using that by (intro skip_wire_shorter [of t]) (simp add: varint_rt_def)
  show "shrinks (read_uint32 varint_rt)" "shrinks (read_uint64 varint_rt)" "shrinks (read_int64 varint_rt)"
    "shrinks (read_bool varint_rt)" "shrinks (read_string varint_rt)" "shrinks (read_bytes varint_rt)"
    "shrinks (read_enum varint_rt)" "shrinks (read_limited varint_rt)"
    by (simp_all add: varint_rt_def get_varint_shrinks get_delimited_shrinks take_shrinks)
  show "arms_total (timestamp_arms varint_rt)" "arms_total (uint64_value_arms varint_rt)" "arms_total (string_value_arms varint_rt)"
    by (simp_all add: varint_rt_def read_into_total get_varint_shrinks get_delimited_shrinks)
qed

end
