(* ===== verification/Wire_Codecs.thy ===== *)
theory Wire_Codecs
  imports Varint_Runtime Coordinator_Actor Redis_Journal
begin

text \<open>
  What the generated code guarantees, over any runtime with the contract of \<open>Protobuf_Runtime\<close>, and what that
  means for the components whose codecs were parameters: the journal's entries and the coordinator's
  events.
\<close>

section \<open>All messages\<close>

definition codec_roundtrip ::
  "'e proto_rt \<Rightarrow> (nat \<times> ('e, 'm) arm) list \<Rightarrow> 'm \<Rightarrow> ('m \<Rightarrow> nat) \<Rightarrow> ('m \<Rightarrow> 'e writer) \<Rightarrow> 'm \<Rightarrow> bool" where
  "codec_roundtrip R arms m_new sz wr m \<longleftrightarrow>
     (\<forall>b. wr m [] = Inr b \<longrightarrow> proto_parse R arms m_new b = Some (Inr m) \<and> length b = sz m)"

context proto_runtime
begin

lemma encodes_roundtrip: "encodes R arms (wr m) (sz m) m_new m \<Longrightarrow> codec_roundtrip R arms m_new sz wr m"
  by (simp add: codec_roundtrip_def proto_parse_def encodes_parse)

lemmas network_roundtrips =
    pb_remote_node_encodes pb_identify_event_encodes pb_system_capabilities_encodes pb_node_identity_encodes
    pb_client_handshake_encodes pb_client_result_encodes pb_actor_ref_err_encodes pb_client_err_encodes pb_ping_event_encodes
    pb_pong_event_encodes pb_create_actor_event_encodes pb_find_actor_event_encodes pb_actor_address_encodes
    pb_message_request_encodes pb_session_handshake_encodes pb_stream_publish_event_encodes pb_new_node_event_encodes
    pb_node_removed_event_encodes pb_leader_changed_event_encodes pb_member_up_event_encodes pb_raft_request_encodes

lemmas sharding_roundtrips =
    pb_journal_entry_encodes pb_allocate_shard_encodes pb_remote_shard_encodes pb_shard_allocated_encodes
    pb_shard_reallocating_encodes pb_stop_shard_encodes pb_shard_stopped_encodes pb_allocate_shard_result_encodes
    pb_remote_entity_recipe_encodes pb_remote_entity_request_encodes pb_start_entity_encodes pb_passivate_entity_encodes
    pb_remove_entity_encodes pb_snapshot_entity_encodes pb_shard_state_snapshot_encodes pb_get_sharding_stats_encodes
    pb_node_stats_encodes pb_sharding_stats_encodes pb_get_shard_stats_encodes pb_shard_stats_encodes pb_get_status_encodes
    pb_manager_status_encodes pb_request_lease_encodes pb_lease_ack_encodes pb_lease_nack_encodes pb_singleton_started_encodes
    pb_singleton_stopping_encodes pb_singleton_stopped_encodes

end

context proto_runtime_total
begin

lemma parse_total: "arms_total arms \<Longrightarrow> proto_parse R arms m_new b \<noteq> None"
  using merge_total by (fastforce simp: proto_parse_def)

lemmas all_total =
    pb_remote_node_total pb_identify_event_total pb_system_capabilities_total pb_node_identity_total pb_client_handshake_total
    pb_client_result_total pb_actor_ref_err_total pb_client_err_total pb_ping_event_total pb_pong_event_total
    pb_create_actor_event_total pb_find_actor_event_total pb_actor_address_total pb_message_request_total pb_session_handshake_total
    pb_stream_publish_event_total pb_new_node_event_total pb_node_removed_event_total pb_leader_changed_event_total
    pb_member_up_event_total pb_raft_request_total pb_journal_entry_total pb_allocate_shard_total pb_remote_shard_total
    pb_shard_allocated_total pb_shard_reallocating_total pb_stop_shard_total pb_shard_stopped_total pb_allocate_shard_result_total
    pb_remote_entity_recipe_total pb_remote_entity_request_total pb_start_entity_total pb_passivate_entity_total
    pb_remove_entity_total pb_snapshot_entity_total pb_shard_state_snapshot_total pb_get_sharding_stats_total pb_node_stats_total
    pb_sharding_stats_total pb_get_shard_stats_total pb_shard_stats_total pb_get_status_total pb_manager_status_total
    pb_request_lease_total pb_lease_ack_total pb_lease_nack_total pb_singleton_started_total pb_singleton_stopping_total
    pb_singleton_stopped_total

end

text \<open>C7: What a node writes, its peer reads: for each of the twenty-one messages between nodes, the bytes the generated code
  writes are parsed into the same message, optional fields at their defaults, nested and repeated messages and
  maps included, and their number is what \<open>compute_size\<close> said, on which the limits of nested messages
  rest. The hypothesis is the contract of the protobuf runtime.\<close>

theorem network_messages_on_the_wire:
  assumes "proto_runtime R"
  shows "(\<forall>m. pb_remote_node_ok R m \<longrightarrow> codec_roundtrip R (pb_remote_node_arms R) pb_remote_node_new (pb_remote_node_size R) (pb_remote_node_write R) m) \<and>
     (\<forall>m. codec_roundtrip R (pb_identify_event_arms R) pb_identify_event_new (pb_identify_event_size R) (pb_identify_event_write R) m) \<and>
     (\<forall>m. codec_roundtrip R (pb_system_capabilities_arms R) pb_system_capabilities_new (pb_system_capabilities_size R) (pb_system_capabilities_write R) m) \<and>
     (\<forall>m. pb_node_identity_ok R m \<longrightarrow> codec_roundtrip R (pb_node_identity_arms R) pb_node_identity_new (pb_node_identity_size R) (pb_node_identity_write R) m) \<and>
     (\<forall>m. pb_client_handshake_ok R m \<longrightarrow> codec_roundtrip R (pb_client_handshake_arms R) pb_client_handshake_new (pb_client_handshake_size R) (pb_client_handshake_write R) m) \<and>
     (\<forall>m. codec_roundtrip R (pb_client_result_arms R) pb_client_result_new (pb_client_result_size R) (pb_client_result_write R) m) \<and>
     (\<forall>m. pb_actor_ref_err_ok R m \<longrightarrow> codec_roundtrip R (pb_actor_ref_err_arms R) pb_actor_ref_err_new (pb_actor_ref_err_size R) (pb_actor_ref_err_write R) m) \<and>
     (\<forall>m. pb_client_err_ok R m \<longrightarrow> codec_roundtrip R (pb_client_err_arms R) pb_client_err_new (pb_client_err_size R) (pb_client_err_write R) m) \<and>
     (\<forall>m. codec_roundtrip R (pb_ping_event_arms R) pb_ping_event_new (pb_ping_event_size R) (pb_ping_event_write R) m) \<and>
     (\<forall>m. codec_roundtrip R (pb_pong_event_arms R) pb_pong_event_new (pb_pong_event_size R) (pb_pong_event_write R) m) \<and>
     (\<forall>m. codec_roundtrip R (pb_create_actor_event_arms R) pb_create_actor_event_new (pb_create_actor_event_size R) (pb_create_actor_event_write R) m) \<and>
     (\<forall>m. codec_roundtrip R (pb_find_actor_event_arms R) pb_find_actor_event_new (pb_find_actor_event_size R) (pb_find_actor_event_write R) m) \<and>
     (\<forall>m. pb_actor_address_ok R m \<longrightarrow> codec_roundtrip R (pb_actor_address_arms R) pb_actor_address_new (pb_actor_address_size R) (pb_actor_address_write R) m) \<and>
     (\<forall>m. codec_roundtrip R (pb_message_request_arms R) pb_message_request_new (pb_message_request_size R) (pb_message_request_write R) m) \<and>
     (\<forall>m. pb_session_handshake_ok R m \<longrightarrow> codec_roundtrip R (pb_session_handshake_arms R) pb_session_handshake_new (pb_session_handshake_size R) (pb_session_handshake_write R) m) \<and>
     (\<forall>m. codec_roundtrip R (pb_stream_publish_event_arms R) pb_stream_publish_event_new (pb_stream_publish_event_size R) (pb_stream_publish_event_write R) m) \<and>
     (\<forall>m. pb_new_node_event_ok R m \<longrightarrow> codec_roundtrip R (pb_new_node_event_arms R) pb_new_node_event_new (pb_new_node_event_size R) (pb_new_node_event_write R) m) \<and>
     (\<forall>m. pb_node_removed_event_ok R m \<longrightarrow> codec_roundtrip R (pb_node_removed_event_arms R) pb_node_removed_event_new (pb_node_removed_event_size R) (pb_node_removed_event_write R) m) \<and>
     (\<forall>m. codec_roundtrip R (pb_leader_changed_event_arms R) pb_leader_changed_event_new (pb_leader_changed_event_size R) (pb_leader_changed_event_write R) m) \<and>
     (\<forall>m. pb_member_up_event_ok R m \<longrightarrow> codec_roundtrip R (pb_member_up_event_arms R) pb_member_up_event_new (pb_member_up_event_size R) (pb_member_up_event_write R) m) \<and>
     (\<forall>m. codec_roundtrip R (pb_raft_request_arms R) pb_raft_request_new (pb_raft_request_size R) (pb_raft_request_write R) m)"
  by (intro conjI allI impI proto_runtime.encodes_roundtrip [OF assms]
      proto_runtime.network_roundtrips [OF assms])

text \<open>C9: The same for the journal's entry and for the messages of sharding and of singletons.\<close>

theorem sharding_messages_on_the_wire:
  assumes "proto_runtime R"
  shows "(\<forall>m. pb_journal_entry_ok R m \<longrightarrow> codec_roundtrip R (pb_journal_entry_arms R) pb_journal_entry_new (pb_journal_entry_size R) (pb_journal_entry_write R) m) \<and>
     (\<forall>m. codec_roundtrip R (pb_allocate_shard_arms R) pb_allocate_shard_new (pb_allocate_shard_size R) (pb_allocate_shard_write R) m) \<and>
     (\<forall>m. codec_roundtrip R (pb_remote_shard_arms R) pb_remote_shard_new (pb_remote_shard_size R) (pb_remote_shard_write R) m) \<and>
     (\<forall>m. pb_shard_allocated_ok R m \<longrightarrow> codec_roundtrip R (pb_shard_allocated_arms R) pb_shard_allocated_new (pb_shard_allocated_size R) (pb_shard_allocated_write R) m) \<and>
     (\<forall>m. codec_roundtrip R (pb_shard_reallocating_arms R) pb_shard_reallocating_new (pb_shard_reallocating_size R) (pb_shard_reallocating_write R) m) \<and>
     (\<forall>m. codec_roundtrip R (pb_stop_shard_arms R) pb_stop_shard_new (pb_stop_shard_size R) (pb_stop_shard_write R) m) \<and>
     (\<forall>m. codec_roundtrip R (pb_shard_stopped_arms R) pb_shard_stopped_new (pb_shard_stopped_size R) (pb_shard_stopped_write R) m) \<and>
     (\<forall>m. pb_allocate_shard_result_ok R m \<longrightarrow> codec_roundtrip R (pb_allocate_shard_result_arms R) pb_allocate_shard_result_new (pb_allocate_shard_result_size R) (pb_allocate_shard_result_write R) m) \<and>
     (\<forall>m. codec_roundtrip R (pb_remote_entity_recipe_arms R) pb_remote_entity_recipe_new (pb_remote_entity_recipe_size R) (pb_remote_entity_recipe_write R) m) \<and>
     (\<forall>m. pb_remote_entity_request_ok R m \<longrightarrow> codec_roundtrip R (pb_remote_entity_request_arms R) pb_remote_entity_request_new (pb_remote_entity_request_size R) (pb_remote_entity_request_write R) m) \<and>
     (\<forall>m. codec_roundtrip R (pb_start_entity_arms R) pb_start_entity_new (pb_start_entity_size R) (pb_start_entity_write R) m) \<and>
     (\<forall>m. codec_roundtrip R (pb_passivate_entity_arms R) pb_passivate_entity_new (pb_passivate_entity_size R) (pb_passivate_entity_write R) m) \<and>
     (\<forall>m. codec_roundtrip R (pb_remove_entity_arms R) pb_remove_entity_new (pb_remove_entity_size R) (pb_remove_entity_write R) m) \<and>
     (\<forall>m. pb_snapshot_entity_ok R m \<longrightarrow> codec_roundtrip R (pb_snapshot_entity_arms R) pb_snapshot_entity_new (pb_snapshot_entity_size R) (pb_snapshot_entity_write R) m) \<and>
     (\<forall>m. pb_shard_state_snapshot_ok R m \<longrightarrow> codec_roundtrip R (pb_shard_state_snapshot_arms R) pb_shard_state_snapshot_new (pb_shard_state_snapshot_size R) (pb_shard_state_snapshot_write R) m) \<and>
     (\<forall>m. codec_roundtrip R (pb_get_sharding_stats_arms R) pb_get_sharding_stats_new (pb_get_sharding_stats_size R) (pb_get_sharding_stats_write R) m) \<and>
     (\<forall>m. pb_node_stats_ok R m \<longrightarrow> codec_roundtrip R (pb_node_stats_arms R) pb_node_stats_new (pb_node_stats_size R) (pb_node_stats_write R) m) \<and>
     (\<forall>m. pb_sharding_stats_ok R m \<longrightarrow> codec_roundtrip R (pb_sharding_stats_arms R) pb_sharding_stats_new (pb_sharding_stats_size R) (pb_sharding_stats_write R) m) \<and>
     (\<forall>m. codec_roundtrip R (pb_get_shard_stats_arms R) pb_get_shard_stats_new (pb_get_shard_stats_size R) (pb_get_shard_stats_write R) m) \<and>
     (\<forall>m. codec_roundtrip R (pb_shard_stats_arms R) pb_shard_stats_new (pb_shard_stats_size R) (pb_shard_stats_write R) m) \<and>
     (\<forall>m. codec_roundtrip R (pb_get_status_arms R) pb_get_status_new (pb_get_status_size R) (pb_get_status_write R) m) \<and>
     (\<forall>m. pb_manager_status_ok R m \<longrightarrow> codec_roundtrip R (pb_manager_status_arms R) pb_manager_status_new (pb_manager_status_size R) (pb_manager_status_write R) m) \<and>
     (\<forall>m. codec_roundtrip R (pb_request_lease_arms R) pb_request_lease_new (pb_request_lease_size R) (pb_request_lease_write R) m) \<and>
     (\<forall>m. codec_roundtrip R (pb_lease_ack_arms R) pb_lease_ack_new (pb_lease_ack_size R) (pb_lease_ack_write R) m) \<and>
     (\<forall>m. codec_roundtrip R (pb_lease_nack_arms R) pb_lease_nack_new (pb_lease_nack_size R) (pb_lease_nack_write R) m) \<and>
     (\<forall>m. codec_roundtrip R (pb_singleton_started_arms R) pb_singleton_started_new (pb_singleton_started_size R) (pb_singleton_started_write R) m) \<and>
     (\<forall>m. codec_roundtrip R (pb_singleton_stopping_arms R) pb_singleton_stopping_new (pb_singleton_stopping_size R) (pb_singleton_stopping_write R) m) \<and>
     (\<forall>m. codec_roundtrip R (pb_singleton_stopped_arms R) pb_singleton_stopped_new (pb_singleton_stopped_size R) (pb_singleton_stopped_write R) m)"
  by (intro conjI allI impI proto_runtime.encodes_roundtrip [OF assms]
      proto_runtime.sharding_roundtrips [OF assms])

text \<open>Parsing ends on any input: whatever bytes arrive for one of the forty-nine messages, the generated loops return a
  message or an error, when the runtime's readers consume what they read.\<close>

theorem parsing_terminates:
  assumes "proto_runtime_total R"
  shows "proto_parse R (pb_remote_node_arms R) pb_remote_node_new b \<noteq> None \<and>
     proto_parse R (pb_identify_event_arms R) pb_identify_event_new b \<noteq> None \<and>
     proto_parse R (pb_system_capabilities_arms R) pb_system_capabilities_new b \<noteq> None \<and>
     proto_parse R (pb_node_identity_arms R) pb_node_identity_new b \<noteq> None \<and>
     proto_parse R (pb_client_handshake_arms R) pb_client_handshake_new b \<noteq> None \<and>
     proto_parse R (pb_client_result_arms R) pb_client_result_new b \<noteq> None \<and>
     proto_parse R (pb_actor_ref_err_arms R) pb_actor_ref_err_new b \<noteq> None \<and>
     proto_parse R (pb_client_err_arms R) pb_client_err_new b \<noteq> None \<and>
     proto_parse R (pb_ping_event_arms R) pb_ping_event_new b \<noteq> None \<and>
     proto_parse R (pb_pong_event_arms R) pb_pong_event_new b \<noteq> None \<and>
     proto_parse R (pb_create_actor_event_arms R) pb_create_actor_event_new b \<noteq> None \<and>
     proto_parse R (pb_find_actor_event_arms R) pb_find_actor_event_new b \<noteq> None \<and>
     proto_parse R (pb_actor_address_arms R) pb_actor_address_new b \<noteq> None \<and>
     proto_parse R (pb_message_request_arms R) pb_message_request_new b \<noteq> None \<and>
     proto_parse R (pb_session_handshake_arms R) pb_session_handshake_new b \<noteq> None \<and>
     proto_parse R (pb_stream_publish_event_arms R) pb_stream_publish_event_new b \<noteq> None \<and>
     proto_parse R (pb_new_node_event_arms R) pb_new_node_event_new b \<noteq> None \<and>
     proto_parse R (pb_node_removed_event_arms R) pb_node_removed_event_new b \<noteq> None \<and>
     proto_parse R (pb_leader_changed_event_arms R) pb_leader_changed_event_new b \<noteq> None \<and>
     proto_parse R (pb_member_up_event_arms R) pb_member_up_event_new b \<noteq> None \<and>
     proto_parse R (pb_raft_request_arms R) pb_raft_request_new b \<noteq> None \<and>
     proto_parse R (pb_journal_entry_arms R) pb_journal_entry_new b \<noteq> None \<and>
     proto_parse R (pb_allocate_shard_arms R) pb_allocate_shard_new b \<noteq> None \<and>
     proto_parse R (pb_remote_shard_arms R) pb_remote_shard_new b \<noteq> None \<and>
     proto_parse R (pb_shard_allocated_arms R) pb_shard_allocated_new b \<noteq> None \<and>
     proto_parse R (pb_shard_reallocating_arms R) pb_shard_reallocating_new b \<noteq> None \<and>
     proto_parse R (pb_stop_shard_arms R) pb_stop_shard_new b \<noteq> None \<and>
     proto_parse R (pb_shard_stopped_arms R) pb_shard_stopped_new b \<noteq> None \<and>
     proto_parse R (pb_allocate_shard_result_arms R) pb_allocate_shard_result_new b \<noteq> None \<and>
     proto_parse R (pb_remote_entity_recipe_arms R) pb_remote_entity_recipe_new b \<noteq> None \<and>
     proto_parse R (pb_remote_entity_request_arms R) pb_remote_entity_request_new b \<noteq> None \<and>
     proto_parse R (pb_start_entity_arms R) pb_start_entity_new b \<noteq> None \<and>
     proto_parse R (pb_passivate_entity_arms R) pb_passivate_entity_new b \<noteq> None \<and>
     proto_parse R (pb_remove_entity_arms R) pb_remove_entity_new b \<noteq> None \<and>
     proto_parse R (pb_snapshot_entity_arms R) pb_snapshot_entity_new b \<noteq> None \<and>
     proto_parse R (pb_shard_state_snapshot_arms R) pb_shard_state_snapshot_new b \<noteq> None \<and>
     proto_parse R (pb_get_sharding_stats_arms R) pb_get_sharding_stats_new b \<noteq> None \<and>
     proto_parse R (pb_node_stats_arms R) pb_node_stats_new b \<noteq> None \<and>
     proto_parse R (pb_sharding_stats_arms R) pb_sharding_stats_new b \<noteq> None \<and>
     proto_parse R (pb_get_shard_stats_arms R) pb_get_shard_stats_new b \<noteq> None \<and>
     proto_parse R (pb_shard_stats_arms R) pb_shard_stats_new b \<noteq> None \<and>
     proto_parse R (pb_get_status_arms R) pb_get_status_new b \<noteq> None \<and>
     proto_parse R (pb_manager_status_arms R) pb_manager_status_new b \<noteq> None \<and>
     proto_parse R (pb_request_lease_arms R) pb_request_lease_new b \<noteq> None \<and>
     proto_parse R (pb_lease_ack_arms R) pb_lease_ack_new b \<noteq> None \<and>
     proto_parse R (pb_lease_nack_arms R) pb_lease_nack_new b \<noteq> None \<and>
     proto_parse R (pb_singleton_started_arms R) pb_singleton_started_new b \<noteq> None \<and>
     proto_parse R (pb_singleton_stopping_arms R) pb_singleton_stopping_new b \<noteq> None \<and>
     proto_parse R (pb_singleton_stopped_arms R) pb_singleton_stopped_new b \<noteq> None"
  by (intro conjI proto_runtime_total.parse_total [OF assms] proto_runtime_total.all_total [OF assms])

section \<open>Examples in the wire format\<close>

definition ex_pb_node :: pb_remote_node where
  "ex_pb_node = pb_remote_node_new\<lparr>pb_remote_node_node_id := 300, pb_remote_node_addr := ''b:80'',
     pb_remote_node_node_started_at := Some \<lparr>ts_seconds = 5, ts_nanos = 0\<rparr>,
     pb_remote_node_attributes := [(''zone'', ''eu'')]\<rparr>"

definition ex_pb_identity :: pb_node_identity where
  "ex_pb_identity = pb_node_identity_new\<lparr>pb_node_identity_node_id := 1, pb_node_identity_peers := [ex_pb_node],
     pb_node_identity_capabilities :=
       Some \<lparr>pb_system_capabilities_actors = [''A'', ''B''], pb_system_capabilities_messages = []\<rparr>\<rparr>"

lemma ex_pb_identity_written: "\<exists>b. pb_node_identity_write varint_rt ex_pb_identity [] = Inr b"
  by (simp add: pb_node_identity_write_def ex_pb_identity_def pb_node_identity_new_def ex_pb_node_def
      pb_remote_node_new_def write_if_def write_some_def
      write_each_def write_nested_def pb_remote_node_write_def pb_system_capabilities_write_def map_entry_write_def
      varint_rt_def put_varint_def put_delimited_def)

lemma varint_sizes [simp]:
  "string_size varint_rt n v = length (varint (8 * n + 2)) + length (varint (length v)) + length v"
  "uint64_size varint_rt n w = length (varint (8 * n)) + length (varint (unat w))"
  "compute_raw_varint64_size varint_rt k = length (varint k)"
  "timestamp_size varint_rt t = sum_list
     [size_if (ts_seconds t \<noteq> 0) (length (varint (8 * 1)) + length (varint (signed_code (ts_seconds t)))),
      size_if (ts_nanos t \<noteq> 0) (length (varint (8 * 2)) + length (varint (signed_code (ts_nanos t))))]"
  by (simp_all add: varint_rt_def)

lemma ex_pb_identity_ok: "pb_node_identity_ok varint_rt ex_pb_identity"
  by (simp add: pb_node_identity_ok_def ex_pb_identity_def pb_node_identity_new_def pb_remote_node_ok_def ex_pb_node_def
      pb_remote_node_new_def pb_remote_node_size_def pb_system_capabilities_size_def map_entry_size_def size_if_def size_some_def
      size_each_def header_size_def is_i64_def is_i32_def signed_code_def varint.simps)

theorem network_messages_on_the_wire_witness:
  "\<exists>b. pb_node_identity_write varint_rt ex_pb_identity [] = Inr b \<and>
     proto_parse varint_rt (pb_node_identity_arms varint_rt) pb_node_identity_new b = Some (Inr ex_pb_identity)"
proof -
  have "codec_roundtrip varint_rt (pb_node_identity_arms varint_rt) pb_node_identity_new (pb_node_identity_size varint_rt)
      (pb_node_identity_write varint_rt) ex_pb_identity"
    using network_messages_on_the_wire [OF varint.proto_runtime_axioms] ex_pb_identity_ok by blast
  with ex_pb_identity_written show ?thesis by (auto simp: codec_roundtrip_def)
qed

definition ex_pb_snapshot :: pb_shard_state_snapshot where
  "ex_pb_snapshot = pb_shard_state_snapshot_new\<lparr>pb_shard_state_snapshot_node_id := 2,
     pb_shard_state_snapshot_entities :=
       [pb_snapshot_entity_new\<lparr>pb_snapshot_entity_actor_id := ''e1'', pb_snapshot_entity_state := 1\<rparr>, pb_snapshot_entity_new]\<rparr>"

lemma ex_pb_snapshot_written: "\<exists>b. pb_shard_state_snapshot_write varint_rt ex_pb_snapshot [] = Inr b"
  by (simp add: pb_shard_state_snapshot_write_def ex_pb_snapshot_def pb_shard_state_snapshot_new_def pb_snapshot_entity_new_def
      write_if_def write_each_def write_nested_def pb_snapshot_entity_write_def varint_rt_def put_varint_def put_delimited_def)

lemma varint_enum_size [simp]: "int32_size varint_rt n i = length (varint (8 * n)) + length (varint (signed_code i))"
  by (simp add: varint_rt_def)

lemma ex_pb_snapshot_ok: "pb_shard_state_snapshot_ok varint_rt ex_pb_snapshot"
  by (simp add: pb_shard_state_snapshot_ok_def ex_pb_snapshot_def pb_shard_state_snapshot_new_def pb_snapshot_entity_ok_def
      pb_snapshot_entity_new_def pb_snapshot_entity_size_def size_if_def is_i32_def signed_code_def varint.simps)

theorem sharding_messages_on_the_wire_witness:
  "\<exists>b. pb_shard_state_snapshot_write varint_rt ex_pb_snapshot [] = Inr b \<and>
     proto_parse varint_rt (pb_shard_state_snapshot_arms varint_rt) pb_shard_state_snapshot_new b = Some (Inr ex_pb_snapshot)"
proof -
  have "codec_roundtrip varint_rt (pb_shard_state_snapshot_arms varint_rt) pb_shard_state_snapshot_new
      (pb_shard_state_snapshot_size varint_rt) (pb_shard_state_snapshot_write varint_rt) ex_pb_snapshot"
    using sharding_messages_on_the_wire [OF varint.proto_runtime_axioms] ex_pb_snapshot_ok by blast
  with ex_pb_snapshot_written show ?thesis by (auto simp: codec_roundtrip_def)
qed

theorem parsing_terminates_witness:
  "proto_parse varint_rt (pb_node_identity_arms varint_rt) pb_node_identity_new [58, 200, 1, 7] \<noteq> None"
  using parsing_terminates [OF varint_total.proto_runtime_total_axioms, of "[58, 200, 1, 7]"] by blast

section \<open>The codecs of the journal and of the coordinator\<close>

text \<open>
  The parameters of the theories of Redis and of the coordinator, instantiated by the generated code. The error
  \<open>None\<close> stands for a sequence number that is not an \<open>i64\<close>, which the program cannot have, and for a
  parser that does not return, which a runtime whose readers consume their input does not have.
\<close>

definition run_parser :: "('m \<Rightarrow> 'p) \<Rightarrow> ('e + 'm) option \<Rightarrow> 'e option + 'p" where
  "run_parser f r = (case r of Some (Inr m) \<Rightarrow> Inr (f m) | Some (Inl e) \<Rightarrow> Inl (Some e) | None \<Rightarrow> Inl None)"

definition journal_wire_write :: "'e proto_rt \<Rightarrow> proto_journal_entry \<Rightarrow> 'e option + bytes" where
  "journal_wire_write R e =
     (if is_i64 (proto_sequence e)
      then map_sum Some id (pb_journal_entry_write R
        \<lparr>pb_journal_entry_sequence = proto_sequence e, pb_journal_entry_payload_type = proto_payload_type e,
         pb_journal_entry_bytes = proto_bytes e\<rparr> [])
      else Inl None)"

definition journal_wire_parse :: "'e proto_rt \<Rightarrow> bytes \<Rightarrow> 'e option + proto_journal_entry" where
  "journal_wire_parse R b =
     run_parser
       (\<lambda>m. \<lparr>proto_sequence = pb_journal_entry_sequence m, proto_payload_type = pb_journal_entry_payload_type m,
             proto_bytes = pb_journal_entry_bytes m\<rparr>)
       (proto_parse R (pb_journal_entry_arms R) pb_journal_entry_new b)"

definition allocate_wire_write :: "'e proto_rt \<Rightarrow> proto_allocate_shard \<Rightarrow> 'e option + bytes" where
  "allocate_wire_write R m =
     map_sum Some id (pb_allocate_shard_write R
       \<lparr>pb_allocate_shard_shard_id = pas_shard_id m, pb_allocate_shard_rebalancing = pas_rebalancing m\<rparr> [])"

definition allocate_wire_parse :: "'e proto_rt \<Rightarrow> bytes \<Rightarrow> 'e option + proto_allocate_shard" where
  "allocate_wire_parse R b =
     run_parser
       (\<lambda>m. \<lparr>pas_shard_id = pb_allocate_shard_shard_id m, pas_rebalancing = pb_allocate_shard_rebalancing m\<rparr>)
       (proto_parse R (pb_allocate_shard_arms R) pb_allocate_shard_new b)"

context proto_runtime
begin

lemma journal_wire: "proto_roundtrip (journal_wire_write R) (journal_wire_parse R)"
  unfolding proto_roundtrip_def
proof (intro allI impI)
  fix e b assume "journal_wire_write R e = Inr b"
  then have i64: "is_i64 (proto_sequence e)" and w: "pb_journal_entry_write R
      \<lparr>pb_journal_entry_sequence = proto_sequence e, pb_journal_entry_payload_type = proto_payload_type e,
       pb_journal_entry_bytes = proto_bytes e\<rparr> [] = Inr b"
    by (auto simp: journal_wire_write_def map_sum_def split: if_splits sum.splits)
  from encodes_parse(1) [OF pb_journal_entry_encodes w] i64 show "journal_wire_parse R b = Inr e"
    by (simp add: journal_wire_parse_def run_parser_def proto_parse_def pb_journal_entry_ok_def)
qed

lemma allocate_wire: "proto_roundtrip (allocate_wire_write R) (allocate_wire_parse R)"
  unfolding proto_roundtrip_def
proof (intro allI impI)
  fix m b assume "allocate_wire_write R m = Inr b"
  then have w: "pb_allocate_shard_write R
      \<lparr>pb_allocate_shard_shard_id = pas_shard_id m, pb_allocate_shard_rebalancing = pas_rebalancing m\<rparr> [] = Inr b"
    by (auto simp: allocate_wire_write_def map_sum_def split: sum.splits)
  from encodes_parse(1) [OF pb_allocate_shard_encodes w] show "allocate_wire_parse R b = Inr m"
    by (simp add: allocate_wire_parse_def run_parser_def proto_parse_def)
qed

end

text \<open>The event of the shard coordinator on the wire: the contract of a message holds for the generated code over the
  documented format.\<close>

interpretation allocate_message: wire_message "allocate_event (allocate_wire_write varint_rt) (allocate_wire_parse varint_rt)"
  by unfold_locales (simp add: allocate_event_def allocate_roundtrip [OF varint.allocate_wire])

end
