(* ===== verification/Cluster_Formation.thy ===== *)
theory Cluster_Formation
  imports Discovery
begin

text \<open>
  How a node becomes a member of a cluster: the worker builder (\<open>remote/cluster/builder/worker.rs\<close>), the
  server it starts (\<open>remote/net/server/mod.rs\<close>) and the shut-down of the system
  (\<open>remote/system/mod.rs\<close>).

  Binding the socket, the environment variable and the resolution of names are parameters: \<open>bind\<close> says
  whether the listener is created, \<open>resolves k\<close> whether the k-th look-up of the seed's name succeeds. The
  discovery actor handles the seed's message and then the message it sends to itself; the theorem of
  this theory is about a worker whose discovery actor has no other work.
\<close>

section \<open>The worker builder\<close>

record worker_builder =
  wb_listen_addr :: string
  wb_external_addr :: "string option"
  wb_seed_addr :: "string option"

definition worker_builder_new :: worker_builder where
  "worker_builder_new =
     \<lparr>wb_listen_addr = ''0.0.0.0:30101'', wb_external_addr = None, wb_seed_addr = None\<rparr>"

definition with_seed_addr :: "string \<Rightarrow> worker_builder \<Rightarrow> worker_builder" where
  "with_seed_addr a b = b\<lparr>wb_seed_addr := Some a\<rparr>"

definition external_addr :: "string \<Rightarrow> worker_builder \<Rightarrow> worker_builder" where
  "external_addr a b = b\<lparr>wb_external_addr := Some a\<rparr>"

definition listen_addr :: "string \<Rightarrow> worker_builder \<Rightarrow> worker_builder" where
  "listen_addr a b = b\<lparr>wb_listen_addr := a\<rparr>"

definition cluster_node_addr :: "worker_builder \<Rightarrow> string" where
  "cluster_node_addr b = (case wb_external_addr b of Some s \<Rightarrow> s | None \<Rightarrow> wb_listen_addr b)"

record server_config =
  sc_listen_addr :: string
  sc_external_node_addr :: string
  sc_override_incoming :: bool

definition server_config_new :: "string \<Rightarrow> string \<Rightarrow> bool \<Rightarrow> server_config" where
  "server_config_new l e ov =
     \<lparr>sc_listen_addr = l, sc_external_node_addr = e, sc_override_incoming = ov\<rparr>"

definition lower_char :: "char \<Rightarrow> char" where
  "lower_char c =
     (let n = of_char c :: nat in if 65 \<le> n \<and> n \<le> 90 then char_of (n + 32) else c)"

definition override_incoming :: "string option \<Rightarrow> bool" where
  "override_incoming var =
     (case var of None \<Rightarrow> False | Some s \<Rightarrow> s = ''1'' \<or> map lower_char s = ''true'')"

section \<open>Discovering peers from the seed\<close>

definition seed_resolve_max_attempts :: nat where
  "seed_resolve_max_attempts = 12"

text \<open>The retry loop: the attempt at which the name resolved, \<open>None\<close> when it is given up.\<close>

function resolve_loop :: "(nat \<Rightarrow> bool) \<Rightarrow> nat \<Rightarrow> nat option" where
  "resolve_loop resolves attempts =
     (if attempts \<ge> seed_resolve_max_attempts then None
      else if resolves attempts then Some attempts
      else resolve_loop resolves (attempts + 1))"
  by pat_completeness auto
termination
  by (relation "measure (\<lambda>(_, attempts). seed_resolve_max_attempts - attempts)") auto

declare resolve_loop.simps [simp del]

text \<open>
  The two messages of the discovery actor. The caller's channel is answered, or dropped when the actor
  panics, which is \<open>None\<close>.
\<close>

definition discover_seed ::
  "'ring hash_ring \<Rightarrow> (string \<Rightarrow> node_identity option) \<Rightarrow> (string \<Rightarrow> bool) \<Rightarrow> string \<Rightarrow> sender \<Rightarrow> discovery \<Rightarrow>
   'ring remote_registry \<Rightarrow> (discovery \<times> 'ring remote_registry \<times> discovery_effect list) option" where
  "discover_seed ring identify reachable seed tx d reg =
     (case discover_addr identify seed (Some tx) d of
        Inl _ \<Rightarrow> None
      | Inr (d1, [NotifyDiscoverNodes ns t]) \<Rightarrow>
          (case discover_listed ring reachable ns t d1 reg of
             Inl _ \<Rightarrow> None
           | Inr (d2, reg2, effs) \<Rightarrow> Some (d2, reg2, effs @ handshakes_done t))
      | Inr (d1, effs) \<Rightarrow> Some (d1, reg, effs))"

definition worker_discover ::
  "(nat \<Rightarrow> bool) \<Rightarrow> 'ring hash_ring \<Rightarrow> (string \<Rightarrow> node_identity option) \<Rightarrow> (string \<Rightarrow> bool) \<Rightarrow> string \<Rightarrow> sender \<Rightarrow>
   discovery \<Rightarrow> 'ring remote_registry \<Rightarrow>
   (discovery \<times> 'ring remote_registry \<times> discovery_effect list) may_panic" where
  "worker_discover resolves ring identify reachable seed tx d reg =
     (case resolve_loop resolves 1 of
        None \<Rightarrow> Inr (d, reg, [])
      | Some _ \<Rightarrow>
          (case discover_seed ring identify reachable seed tx d reg of
             None \<Rightarrow> Inl (Panic ''unable to discover nodes from addr'')
           | Some r \<Rightarrow> Inr r))"

section \<open>Starting the worker\<close>

record 'ring worker_up =
  wu_config :: server_config
  wu_discovery :: discovery
  wu_registry :: "'ring remote_registry"
  wu_effects :: "discovery_effect list"

text \<open>
  \<open>start\<close> registers the node itself, starts the server and discovers peers from the seed. The seed is
  taken out of the builder before it is compared with the node's own address.
\<close>

definition worker_start ::
  "(string \<Rightarrow> bool) \<Rightarrow> actor_ref_err + actor_ref \<Rightarrow> string option \<Rightarrow> (nat \<Rightarrow> bool) \<Rightarrow> 'ring hash_ring \<Rightarrow>
   (string \<Rightarrow> node_identity option) \<Rightarrow> (string \<Rightarrow> bool) \<Rightarrow> 'h remote_system \<Rightarrow> time \<Rightarrow> sender \<Rightarrow> worker_builder \<Rightarrow>
   discovery \<Rightarrow> 'ring remote_registry \<Rightarrow> 'ring worker_up may_panic" where
  "worker_start bind store env_var resolves ring identify reachable sys started_at tx b d reg =
     (let addr = cluster_node_addr b;
          self = \<lparr>node_id = rsys_node_id sys, node_addr = addr, node_tag = rc_node_tag (rsys_config sys),
                  node_started_at = Some started_at, node_attributes = rc_attributes (rsys_config sys)\<rparr>;
          reg1 = registry_register_node ring self reg;
          cfg = server_config_new (wb_listen_addr b) addr (override_incoming env_var)
      in if \<not> bind (wb_listen_addr b) then Inl (Panic ''failed to start server'')
         else case store of
           Inl _ \<Rightarrow> Inl (Panic ''called unwrap on an Err value'')
         | Inr _ \<Rightarrow>
             (case wb_seed_addr b of
                None \<Rightarrow> Inr \<lparr>wu_config = cfg, wu_discovery = d, wu_registry = reg1, wu_effects = []\<rparr>
              | Some seed \<Rightarrow>
                  (let b' = b\<lparr>wb_seed_addr := None\<rparr> in
                   if wb_seed_addr b' \<noteq> Some addr
                   then map_sum id
                          (\<lambda>(d', reg', effs).
                             \<lparr>wu_config = cfg, wu_discovery = d', wu_registry = reg', wu_effects = effs\<rparr>)
                          (worker_discover resolves ring identify reachable seed tx d reg1)
                   else Inr \<lparr>wu_config = cfg, wu_discovery = d, wu_registry = reg1, wu_effects = []\<rparr>)))"

section \<open>Accepting sessions\<close>

text \<open>
  What \<open>accept\<close> returns: the listener's results until the token is cancelled. \<open>spawn sid\<close> is the start
  of the session's actor. The store is \<open>None\<close> once its actor has panicked; a send to it then fails, which
  the loop only logs.
\<close>

datatype accepted = Connection string | AcceptError | TokenCancelled

type_synonym server_state = "int \<times> session_store option"

definition accept_session :: "(int \<Rightarrow> actor_ref_err + actor_ref) \<Rightarrow> server_state \<Rightarrow> server_state" where
  "accept_session spawn s =
     (let sid = i64_add (fst s) 1
      in (sid, case snd s of
                 None \<Rightarrow> None
               | Some st \<Rightarrow> (case new_session sid (spawn sid) st of Inl _ \<Rightarrow> None | Inr (_, st') \<Rightarrow> Some st')))"

fun server_loop :: "(int \<Rightarrow> actor_ref_err + actor_ref) \<Rightarrow> accepted list \<Rightarrow> server_state \<Rightarrow> server_state \<times> accepted list" where
  "server_loop spawn [] s = (s, [])"
| "server_loop spawn (Connection addr # as) s = server_loop spawn as (accept_session spawn s)"
| "server_loop spawn (AcceptError # as) s = server_loop spawn as s"
| "server_loop spawn (TokenCancelled # as) s = (s, as)"

section \<open>Shut-down\<close>

datatype system_actor = HeartbeatActor | ClientsActor | MediatorActor | DiscoveryActor | RegistryActor

definition remote_shutdown :: "'h remote_system \<Rightarrow> system_actor list" where
  "remote_shutdown sys =
     [HeartbeatActor, ClientsActor] @ (if rsys_mediator sys then [MediatorActor] else []) @
     [DiscoveryActor, RegistryActor]"

section \<open>The retry loop\<close>

lemma resolve_loop_find: "resolve_loop resolves a = find resolves [a..<seed_resolve_max_attempts]"
proof (induction resolves a rule: resolve_loop.induct)
  case (1 resolves a)
  then show ?case by (subst resolve_loop.simps) (auto simp: upt_conv_Cons not_le)
qed

lemma resolve_loop_tries: "resolve_loop resolves 1 = None \<longleftrightarrow> (\<forall>k\<in>{1..11}. \<not> resolves k)"
  by (auto simp: resolve_loop_find find_None_iff seed_resolve_max_attempts_def)

section \<open>What a worker discovers\<close>

text \<open>
  What the clients report when every node tells the truth about itself: the node behind an address
  answers the same at the address it advertises, an id belongs to one node, and the peers a node lists
  are listed under their own ids.
\<close>

definition truthful :: "(string \<Rightarrow> node_identity option) \<Rightarrow> bool" where
  "truthful identify \<longleftrightarrow>
     (\<forall>a i. identify a = Some i \<longrightarrow> identify (node_addr (ni_node i)) = Some i) \<and>
     (\<forall>a a' i j. identify a = Some i \<and> identify a' = Some j \<and> node_id (ni_node i) = node_id (ni_node j) \<longrightarrow> i = j) \<and>
     (\<forall>a i n j. identify a = Some i \<and> n \<in> set (ni_peers i) \<and> identify (node_addr n) = Some j \<longrightarrow>
        node_id (ni_node j) = node_id n)"

text \<open>The nodes a node lists, other than \<open>self\<close>, that answer.\<close>

definition answering_peers :: "(string \<Rightarrow> node_identity option) \<Rightarrow> node_id \<Rightarrow> node_identity \<Rightarrow> node_identity set" where
  "answering_peers identify self i =
     {j. \<exists>n\<in>set (ni_peers i). node_id n \<noteq> self \<and> identify (node_addr n) = Some j}"

definition cache_true :: "(string \<Rightarrow> node_identity option) \<Rightarrow> discovery \<Rightarrow> bool" where
  "cache_true identify d \<longleftrightarrow> (\<forall>a i. hm_get (dsc_by_addr d) a = Some i \<longrightarrow> identify a = Some i)"

definition found_true :: "(string \<Rightarrow> node_identity option) \<Rightarrow> (node_id, node_identity) hash_map \<Rightarrow> bool" where
  "found_true identify found \<longleftrightarrow>
     hm_wf found \<and> (\<forall>(k, i)\<in>set found. node_id (ni_node i) = k \<and> identify (node_addr (ni_node i)) = Some i)"

lemma identity_cached:
  assumes "truthful identify" "cache_true identify d" "get_node_identity identify a d = (r, d')"
  shows "r = identify a \<and> cache_true identify d' \<and> dsc_remote d' = dsc_remote d \<and>
         dsc_discovering d' = dsc_discovering d"
proof (cases "hm_get (dsc_by_addr d) a")
  case None
  then show ?thesis
  proof (cases "identify a")
    case (Some i)
    then have "identify (node_addr (ni_node i)) = Some i" using assms(1) unfolding truthful_def by blast
    then have "cache_true identify d'"
      using assms(2,3) None Some by (auto simp: get_node_identity_def Let_def cache_true_def split: if_splits)
    with None Some assms(3) show ?thesis by (auto simp: get_node_identity_def Let_def)
  qed (use assms None in \<open>simp add: get_node_identity_def\<close>)
next
  case (Some i)
  with assms(2) have "identify a = Some i" unfolding cache_true_def by blast
  with Some assms(2,3) show ?thesis by (auto simp: get_node_identity_def)
qed

lemma found_true_insert:
  assumes "found_true identify found" "node_id (ni_node i) = k" "identify (node_addr (ni_node i)) = Some i"
    and "\<not> hm_contains found k"
  shows "found_true identify (hm_insert k i found)"
    and "set (hm_values (hm_insert k i found)) = insert i (set (hm_values found))"
  using assms by (auto simp: found_true_def hm_insert_absent)

lemma discover_nodes_found:
  assumes "truthful identify" "identify a = Some i" "set ns \<subseteq> set (ni_peers i)"
    and "cache_true identify d" "found_true identify found"
    and "discover_nodes identify self ns found d = (found', d')"
  shows "found_true identify found' \<and> cache_true identify d' \<and> dsc_remote d' = dsc_remote d \<and>
         dsc_discovering d' = dsc_discovering d \<and>
         set (hm_values found') =
           set (hm_values found) \<union> {j. \<exists>n\<in>set ns. node_id n \<noteq> self \<and> identify (node_addr n) = Some j}"
  using assms(3-)
proof (induction ns arbitrary: found d)
  case (Cons n ns)
  obtain r d1 where g: "get_node_identity identify (node_addr n) d = (r, d1)" by fastforce
  note c = identity_cached [OF assms(1) Cons.prems(2) g]
  have peer: "node_id (ni_node j) = node_id n" if "identify (node_addr n) = Some j" for j
    using assms(1,2) Cons.prems(1) that unfolding truthful_def by auto
  have own: "identify (node_addr (ni_node j)) = Some j" if "identify (node_addr n) = Some j" for j
    using assms(1) that unfolding truthful_def by blast
  consider (skip) "node_id n = self \<or> hm_get found (node_id n) \<noteq> None"
    | (none) "node_id n \<noteq> self" "hm_get found (node_id n) = None" "r = None"
    | (some) j where "node_id n \<noteq> self" "hm_get found (node_id n) = None" "r = Some j"
    by fastforce
  then show ?case
  proof cases
    case skip
    have "j \<in> set (hm_values found)" if "node_id n \<noteq> self" "identify (node_addr n) = Some j" for j
    proof -
      obtain j' where j': "hm_get found (node_id n) = Some j'" using skip \<open>node_id n \<noteq> self\<close> by auto
      then have mem: "(node_id n, j') \<in> set found" by (rule map_of_SomeD)
      with Cons.prems(3) have "node_id (ni_node j') = node_id n" "identify (node_addr (ni_node j')) = Some j'"
        by (auto simp: found_true_def)
      with assms(1) peer [OF that(2)] that(2) have "j = j'" unfolding truthful_def by metis
      with mem show ?thesis by force
    qed
    with Cons.IH [OF _ Cons.prems(2,3)] Cons.prems(1,4) skip show ?thesis by auto
  next
    case none
    with Cons.IH [OF _ _ Cons.prems(3), of d1] Cons.prems(1,4) g c show ?thesis by auto
  next
    case some
    then have j: "identify (node_addr n) = Some j" using c by simp
    note ins = found_true_insert [OF Cons.prems(3) peer [OF j] own [OF j]]
    have "\<not> hm_contains found (node_id n)" using some(2) by (simp add: hm_get_None)
    with Cons.IH [OF _ _ ins(1), of d1] ins(2) Cons.prems(1,4) g c some j show ?thesis by auto
  qed
qed simp

lemma discover_peers_found:
  assumes "truthful identify" "\<forall>i\<in>set is. identify (node_addr (ni_node i)) = Some i"
    and "cache_true identify d" "found_true identify found"
    and "Discovery.discover_peers identify self is found d = (found', d')"
  shows "found_true identify found' \<and> dsc_remote d' = dsc_remote d \<and> dsc_discovering d' = dsc_discovering d \<and>
         set (hm_values found') = set (hm_values found) \<union> (\<Union>i\<in>set is. answering_peers identify self i)"
  using assms(2-)
proof (induction "is" arbitrary: found d)
  case (Cons i "is")
  obtain f1 d1 where 1: "discover_nodes identify self (ni_peers i) found d = (f1, d1)" by fastforce
  then have 2: "Discovery.discover_peers identify self is f1 d1 = (found', d')" using Cons.prems(4) by simp
  have "identify (node_addr (ni_node i)) = Some i" using Cons.prems(1) by simp
  note n = discover_nodes_found [OF assms(1) this subset_refl Cons.prems(2,3) 1]
  have "\<forall>i\<in>set is. identify (node_addr (ni_node i)) = Some i" using Cons.prems(1) by simp
  note r = Cons.IH [OF this _ _ 2]
  from n r show ?case by (auto simp: answering_peers_def)
qed simp

text \<open>The identities within two hops of the seed.\<close>

definition two_hops :: "(string \<Rightarrow> node_identity option) \<Rightarrow> node_id \<Rightarrow> node_identity \<Rightarrow> node_identity set" where
  "two_hops identify self i =
     (let near = insert i (answering_peers identify self i)
      in near \<union> (\<Union>j\<in>near. answering_peers identify self j))"

lemma discover_addr_found:
  assumes "truthful identify" "identify seed = Some i" "dsc_remote d = Some self" "dsc_by_addr d = []"
  shows "\<exists>d' ns. discover_addr identify seed tx d = Inr (d', [NotifyDiscoverNodes ns tx]) \<and>
           set ns = ni_node ` two_hops identify self i \<and> dsc_remote d' = Some self \<and>
           dsc_discovering d' = dsc_discovering d"
proof -
  have true0: "cache_true identify d" using assms(4) by (simp add: cache_true_def)
  obtain r d1 where g: "get_node_identity identify seed d = (r, d1)" by fastforce
  note 1 = identity_cached [OF assms(1) true0 g]
  have own: "identify (node_addr (ni_node i)) = Some i" using assms(1,2) unfolding truthful_def by blast
  have f0: "found_true identify [(node_id (ni_node i), i)]" using own by (simp add: found_true_def)
  obtain f2 d2 where n: "discover_nodes identify self (ni_peers i) [(node_id (ni_node i), i)] d1 = (f2, d2)"
    by fastforce
  have "cache_true identify d1" using 1 by blast
  note 2 = discover_nodes_found [OF assms(1,2) subset_refl this f0 n]
  let ?near = "insert i (answering_peers identify self i)"
  have near: "set (hm_values f2) = ?near" using 2 by (auto simp: answering_peers_def)
  obtain f3 d3 where p: "Discovery.discover_peers identify self (hm_values f2) f2 d2 = (f3, d3)" by fastforce
  have "\<forall>j\<in>set (hm_values f2). identify (node_addr (ni_node j)) = Some j"
    using conjunct1 [OF 2] by (auto simp: found_true_def)
  moreover have "cache_true identify d2" "found_true identify f2" using 2 by blast+
  ultimately have 3: "found_true identify f3 \<and> dsc_remote d3 = dsc_remote d2 \<and> dsc_discovering d3 = dsc_discovering d2 \<and>
      set (hm_values f3) = set (hm_values f2) \<union> (\<Union>j\<in>set (hm_values f2). answering_peers identify self j)"
    by (rule discover_peers_found [OF assms(1) _ _ _ p])
  have alone: "set (hm_values f2) = {i} \<and> two_hops identify self i = {i}" if "\<not> length f2 > 1"
  proof -
    have "i \<in> set (hm_values f2)" using near by simp
    with that have one: "set (hm_values f2) = {i}" by (cases f2) (auto simp: Suc_le_eq)
    then have "?near = {i}" using near by (simp only:)
    with one show ?thesis by (auto simp: two_hops_def)
  qed
  let ?F = "if length f2 > 1 then f3 else f2" and ?D = "if length f2 > 1 then d3 else d2"
  have "discover_addr identify seed tx d = Inr (?D, [NotifyDiscoverNodes (map ni_node (hm_values ?F)) tx])"
    using assms(2-4) 1 g n p by (simp add: discover_addr_def Let_def)
  moreover have "set (hm_values ?F) = two_hops identify self i"
  proof (cases "length f2 > 1")
    case True
    have "set (hm_values f3) = ?near \<union> (\<Union>j\<in>?near. answering_peers identify self j)"
      using 3 near by (simp only:)
    with True show ?thesis by (simp add: two_hops_def)
  next
    case False
    with False alone show ?thesis by simp
  qed
  moreover have "dsc_remote ?D = Some self" "dsc_discovering ?D = dsc_discovering d"
    using 1 2 3 assms(3) by auto
  ultimately show ?thesis by (metis list.set_map)
qed

lemma first_node_is_live:
  assumes "registry_get_nodes reg = []"
  shows "map state_id (live_nodes (registry_register_node ring n reg)) = [node_id n]"
  using assms
  by (simp add: live_nodes_def registry_get_nodes_def registry_register_node_def node_store_add_def get_all_def
      collect_map_def remote_node_state_new_def)

text \<open>The discovery actor answers the worker once it has spawned its handshakes.\<close>

lemma discover_seed_joins:
  assumes "truthful identify" "identify seed = Some i" "\<forall>j\<in>two_hops identify self i. reachable (node_addr (ni_node j))"
    and "map state_id (live_nodes reg) = [self]"
  shows "\<exists>d' reg' effs.
           discover_seed ring identify reachable seed tx (discovery_set_remote self discovery_default) reg
             = Some (d', reg', effs) \<and>
           distinct (handshakes effs) \<and> AnswerDiscovery tx True \<in> set effs \<and>
           set (handshakes effs) = (\<lambda>j. node_id (ni_node j)) ` two_hops identify self i - {self}"
proof -
  let ?d = "discovery_set_remote self discovery_default"
  have "dsc_remote ?d = Some self" "dsc_by_addr ?d = []" "dsc_discovering ?d = []"
    by (simp_all add: discovery_set_remote_def discovery_default_def)
  then obtain d1 ns where a: "discover_addr identify seed (Some tx) ?d = Inr (d1, [NotifyDiscoverNodes ns (Some tx)])"
    and ns: "set ns = ni_node ` two_hops identify self i" and d1: "dsc_remote d1 = Some self" "dsc_discovering d1 = []"
    using discover_addr_found [OF assms(1,2), of ?d self "Some tx"] by auto
  obtain d2 reg2 effs where e: "discover_each ring reachable [self] ns d1 reg = (d2, reg2, effs)"
    by (cases "discover_each ring reachable [self] ns d1 reg")
  have "{n \<in> set ns. reachable (node_addr n)} = ni_node ` two_hops identify self i" using assms(3) ns by auto
  with discover_each_handshakes [OF e] d1 have h: "distinct (handshakes effs)"
    "set (handshakes effs) = (\<lambda>j. node_id (ni_node j)) ` two_hops identify self i - {self}"
    by (simp_all add: image_image)
  have "discover_listed ring reachable ns (Some tx) d1 reg = Inr (d2, reg2, effs @ [AwaitHandshakes (Some tx)])"
    using d1 e assms(4) by (simp add: discover_listed_def)
  with a have "discover_seed ring identify reachable seed tx ?d reg =
      Some (d2, reg2, (effs @ [AwaitHandshakes (Some tx)]) @ handshakes_done (Some tx))"
    by (simp add: discover_seed_def)
  with h show ?thesis by (simp add: handshakes_done_def)
qed

text \<open>C35: A worker joins its cluster: when the listener is bound, the seed's name resolves at one of the first
  eleven look-ups and the node behind it answers, a freshly built system that starts as a worker shakes
  hands, once each, with exactly the nodes within two hops of the seed that answer, never with itself, even
  if the seed's address is its own; the caller waits for the answer and gets it. The hypotheses are that
  nodes tell the truth about themselves and that a client is created for the address of a node that
  answered.\<close>

theorem worker_joins_cluster:
  assumes "bind (wb_listen_addr b)" "wb_seed_addr b = Some seed" "\<exists>k\<in>{1..11}. resolves k"
    and "truthful identify" "identify seed = Some i"
    and "\<forall>j\<in>two_hops identify (rsys_node_id sys) i. reachable (node_addr (ni_node j))"
    and "registry_get_nodes reg = []"
  shows "\<exists>up. worker_start bind (Inr store) var resolves ring identify reachable sys t tx b
                (discovery_set_remote (rsys_node_id sys) discovery_default) reg = Inr up \<and>
           sc_external_node_addr (wu_config up) = cluster_node_addr b \<and>
           distinct (handshakes (wu_effects up)) \<and> AnswerDiscovery tx True \<in> set (wu_effects up) \<and>
           set (handshakes (wu_effects up)) =
             (\<lambda>j. node_id (ni_node j)) ` two_hops identify (rsys_node_id sys) i - {rsys_node_id sys}"
proof -
  let ?self = "\<lparr>node_id = rsys_node_id sys, node_addr = cluster_node_addr b, node_tag = rc_node_tag (rsys_config sys),
                node_started_at = Some t, node_attributes = rc_attributes (rsys_config sys)\<rparr>"
  let ?reg = "registry_register_node ring ?self reg"
  have live: "map state_id (live_nodes ?reg) = [rsys_node_id sys]"
    using first_node_is_live [OF assms(7), of ring ?self] by simp
  obtain k where "resolve_loop resolves 1 = Some k" using assms(3) resolve_loop_tries [of resolves] by fastforce
  then show ?thesis
    using discover_seed_joins [OF assms(4-6) live, of ring tx] assms(1,2)
    by (auto simp: worker_start_def worker_discover_def Let_def server_config_new_def)
qed

text \<open>With no look-up that succeeds among the first eleven the worker starts all the same, alone.\<close>

lemma worker_starts_alone:
  assumes "bind (wb_listen_addr b)" "\<forall>k\<in>{1..11}. \<not> resolves k"
  shows "\<exists>up. worker_start bind (Inr store) var resolves ring identify reachable sys t tx b d reg = Inr up \<and>
           wu_effects up = [] \<and> wu_discovery up = d"
  using assms resolve_loop_tries [of resolves]
  by (cases "wb_seed_addr b") (simp_all add: worker_start_def worker_discover_def Let_def)

text \<open>A seed that does not answer leaves the worker alone as well: the answer \<open>False\<close> is not looked at.\<close>

lemma silent_seed_is_success:
  assumes "bind (wb_listen_addr b)" "wb_seed_addr b = Some seed" "\<exists>k\<in>{1..11}. resolves k" "identify seed = None"
  shows "\<exists>up. worker_start bind (Inr store) var resolves ring identify reachable sys t tx b
                (discovery_set_remote self discovery_default) reg = Inr up \<and>
           wu_effects up = [AnswerDiscovery tx False]"
proof -
  obtain k where "resolve_loop resolves 1 = Some k" using assms(3) resolve_loop_tries [of resolves] by fastforce
  then show ?thesis using assms(1,2,4)
    by (simp add: worker_start_def worker_discover_def discover_seed_def discover_addr_def get_node_identity_def
        discovery_set_remote_def discovery_default_def Let_def)
qed

text \<open>The check against the own address never holds a worker back: the seed has been taken out before.\<close>

lemma own_seed_is_discovered:
  assumes "bind (wb_listen_addr b)" "wb_seed_addr b = Some (cluster_node_addr b)" "\<exists>k\<in>{1..11}. resolves k"
    and "identify (cluster_node_addr b) = None"
  shows "\<exists>up. worker_start bind (Inr store) var resolves ring identify reachable sys t tx b
                (discovery_set_remote self discovery_default) reg = Inr up \<and>
           wu_effects up = [AnswerDiscovery tx False]"
  using assms by (rule silent_seed_is_success)

definition ex_peer_node :: "node_id \<Rightarrow> string \<Rightarrow> remote_node" where
  "ex_peer_node n a = \<lparr>node_id = n, node_addr = a, node_tag = a, node_started_at = None, node_attributes = []\<rparr>"

definition ex_identity :: "node_id \<Rightarrow> string \<Rightarrow> remote_node list \<Rightarrow> node_identity" where
  "ex_identity n a ps = \<lparr>ni_node = ex_peer_node n a, ni_peers = ps, ni_capabilities = \<lparr>cap_actors = [], cap_messages = []\<rparr>\<rparr>"

definition ex_identify :: "string \<Rightarrow> node_identity option" where
  "ex_identify a =
     (if a = ''seed'' \<or> a = ''a2'' then Some (ex_identity 2 ''a2'' [ex_peer_node 3 ''a3'', ex_peer_node 4 ''a4''])
      else if a = ''a3'' then Some (ex_identity 3 ''a3'' [ex_peer_node 2 ''a2'', ex_peer_node 1 ''a1''])
      else if a = ''a1'' then Some (ex_identity 1 ''a1'' [])
      else None)"

definition ex_worker :: worker_builder where
  "ex_worker = with_seed_addr ''seed'' (listen_addr ''a1'' worker_builder_new)"

definition ex_worker_system :: "unit remote_system" where
  "ex_worker_system = system_build ''g'' 1 ''t'' (system_builder_new [])"

lemma ex_identify_truthful: "truthful ex_identify"
  unfolding truthful_def ex_identify_def by (auto simp: ex_identity_def ex_peer_node_def split: if_splits)

lemma ex_two_hops:
  "two_hops ex_identify 1 (ex_identity 2 ''a2'' [ex_peer_node 3 ''a3'', ex_peer_node 4 ''a4'']) =
     {ex_identity 2 ''a2'' [ex_peer_node 3 ''a3'', ex_peer_node 4 ''a4''],
      ex_identity 3 ''a3'' [ex_peer_node 2 ''a2'', ex_peer_node 1 ''a1'']}"
proof -
  have "answering_peers ex_identify 1 (ex_identity 2 ''a2'' [ex_peer_node 3 ''a3'', ex_peer_node 4 ''a4'']) =
      {ex_identity 3 ''a3'' [ex_peer_node 2 ''a2'', ex_peer_node 1 ''a1'']}"
    "answering_peers ex_identify 1 (ex_identity 3 ''a3'' [ex_peer_node 2 ''a2'', ex_peer_node 1 ''a1'']) =
      {ex_identity 2 ''a2'' [ex_peer_node 3 ''a3'', ex_peer_node 4 ''a4'']}"
    by (auto simp: answering_peers_def ex_identify_def ex_identity_def ex_peer_node_def)
  then show ?thesis by (auto simp: two_hops_def)
qed

theorem worker_joins_cluster_witness:
  "\<exists>up. worker_start (\<lambda>_. True) (Inr \<lparr>ref_id = ''s'', ref_path = ''p'', ref_type = ''S'', ref_mailbox = 0\<rparr>) None
          (\<lambda>k. k = 3) list_ring ex_identify (\<lambda>_. True) ex_worker_system 0 5 ex_worker
          (discovery_set_remote 1 discovery_default) (remote_registry_new list_ring) = Inr up \<and>
     set (handshakes (wu_effects up)) = {2, 3} \<and> AnswerDiscovery 5 True \<in> set (wu_effects up)"
proof -
  have self: "rsys_node_id ex_worker_system = 1"
    by (simp add: ex_worker_system_def system_build_def system_builder_new_def Let_def)
  have none: "registry_get_nodes (remote_registry_new list_ring) = []"
    by (simp add: registry_get_nodes_def get_all_def remote_registry_new_def node_store_new_def collect_map_def)
  have ids: "(\<lambda>j. node_id (ni_node j)) ` two_hops ex_identify 1
      (ex_identity 2 ''a2'' [ex_peer_node 3 ''a3'', ex_peer_node 4 ''a4'']) - {1} = {2, 3}"
    unfolding ex_two_hops by (auto simp: ex_identity_def ex_peer_node_def)
  let ?i = "ex_identity 2 ''a2'' [ex_peer_node 3 ''a3'', ex_peer_node 4 ''a4'']"
  have seed: "wb_seed_addr ex_worker = Some ''seed''" "ex_identify ''seed'' = Some ?i"
    by (simp_all add: ex_worker_def with_seed_addr_def ex_identify_def)
  show ?thesis
    using worker_joins_cluster [of "\<lambda>_. True" ex_worker "''seed''" "\<lambda>k. k = 3" ex_identify ?i ex_worker_system "\<lambda>_. True"
        "remote_registry_new list_ring", unfolded self ids, OF _ seed(1) _ ex_identify_truthful seed(2) _ none]
    by fastforce
qed

section \<open>Sessions are never confused\<close>

text \<open>
  The server accepts connections while sessions close: the steps of the two actors in any order. The
  server is assumed to accept fewer than \<open>2^63\<close> connections.
\<close>

inductive server_step :: "(int \<Rightarrow> actor_ref_err + actor_ref) \<Rightarrow> server_state \<Rightarrow> server_state \<Rightarrow> bool"
  for spawn where
    step_accept: "fst s < i64_max \<Longrightarrow> server_step spawn s (accept_session spawn s)"
  | step_closed: "server_step spawn (c, Some st) (c, Some (session_closed sid st))"

inductive_cases server_stepE [elim!]: "server_step spawn s s'"

definition server_ok :: "server_state \<Rightarrow> bool" where
  "server_ok s \<longleftrightarrow> 0 \<le> fst s \<and> (\<forall>st. snd s = Some st \<longrightarrow> hm_wf st \<and> (\<forall>sid\<in>fst ` set st. 0 < sid \<and> sid \<le> fst s))"

lemma i64_add_small: "0 \<le> c \<Longrightarrow> c < i64_max \<Longrightarrow> i64_add c 1 = c + 1"
  by (simp add: i64_add_def wrap_i64_def i64_max_def)

lemma session_ids_insert:
  "\<forall>sid\<in>fst ` set st. 0 < sid \<and> sid \<le> c \<Longrightarrow> 0 \<le> c \<Longrightarrow>
   \<forall>sid\<in>fst ` set (hm_insert (c + 1) r st). 0 < sid \<and> sid \<le> c + (1::int)"
  unfolding hm_keys_insert by force

lemma accept_session_ok:
  assumes "server_ok s" "fst s < i64_max"
  shows "server_ok (accept_session spawn s)"
proof (cases "snd s")
  case (Some st)
  with assms have st: "0 \<le> fst s" "hm_wf st" "\<forall>sid\<in>fst ` set st. 0 < sid \<and> sid \<le> fst s"
    by (auto simp: server_ok_def)
  show ?thesis
  proof (cases "spawn (fst s + 1)")
    case (Inr r)
    with st Some assms(2) have "accept_session spawn s = (fst s + 1, Some (hm_insert (fst s + 1) r st))"
      by (simp add: accept_session_def new_session_def i64_add_small Let_def)
    with st session_ids_insert [OF st(3,1), of r] show ?thesis
      unfolding server_ok_def by (simp del: ball_simps hm_keys_insert)
  qed (use st Some assms(2) in \<open>simp add: server_ok_def accept_session_def new_session_def i64_add_small Let_def\<close>)
qed (use assms in \<open>simp add: server_ok_def accept_session_def i64_add_small Let_def\<close>)

lemma server_step_ok [inv_intros]: "server_step spawn s s' \<Longrightarrow> server_ok s \<Longrightarrow> server_ok s'"
  by (auto intro: accept_session_ok) (auto simp: server_ok_def session_closed_def)

lemma server_reachable_ok: "(server_step spawn)\<^sup>*\<^sup>* s s' \<Longrightarrow> server_ok s \<Longrightarrow> server_ok s'"
  by (induction rule: rtranclp_induct) (simp, metis server_step_ok)

lemma server_loop_steps:
  assumes "server_loop spawn as s = (s', rest)" "server_ok s" "fst s + int (length as) \<le> i64_max"
  shows "(server_step spawn)\<^sup>*\<^sup>* s s'"
  using assms
proof (induction spawn as s rule: server_loop.induct)
  case (2 spawn addr as s)
  have "server_step spawn s (accept_session spawn s)" using 2 by (intro step_accept) simp
  moreover have "fst (accept_session spawn s) = fst s + 1"
    using 2 by (simp add: accept_session_def i64_add_small server_ok_def Let_def)
  ultimately show ?case using 2 by (simp add: accept_session_ok converse_rtranclp_into_rtranclp)
qed auto

theorem sessions_never_replaced:
  assumes "(server_step spawn)\<^sup>*\<^sup>* (0, Some []) (c, Some st)" "c < i64_max" "spawn (c + 1) = Inr r"
  shows "accept_session spawn (c, Some st) = (c + 1, Some (st @ [(c + 1, r)])) \<and>
         (\<forall>sid r'. session_write sid ev st = Some (r', ev) \<longrightarrow>
            session_write sid ev (st @ [(c + 1, r)]) = Some (r', ev))"
proof -
  have "server_ok (c, Some st)" by (rule server_reachable_ok [OF assms(1)]) (simp add: server_ok_def)
  then have c: "0 \<le> c" "\<forall>sid\<in>fst ` set st. 0 < sid \<and> sid \<le> c" by (auto simp: server_ok_def)
  then have "\<not> hm_contains st (c + 1)" by force
  with c assms(2,3) have "accept_session spawn (c, Some st) = (c + 1, Some (st @ [(c + 1, r)]))"
    by (simp add: accept_session_def new_session_def i64_add_small hm_insert_absent Let_def)
  then show ?thesis by (auto simp: session_write_def)
qed

text \<open>After the token is cancelled nothing is accepted any more.\<close>

lemma cancelled_server_stops:
  "server_loop spawn (as @ TokenCancelled # bs) s = (s', rest) \<Longrightarrow> TokenCancelled \<notin> set as \<Longrightarrow>
   rest = bs \<and> server_loop spawn as s = (s', [])"
  by (induction spawn as s rule: server_loop.induct) auto

end
