(* ===== verification/Kubernetes_Discovery.thy ===== *)
theory Kubernetes_Discovery
  imports Cluster_Formation
begin

text \<open>
  Seeds from Kubernetes: \<open>providers/discovery/coerce-k8s\<close>. The pods the cluster's interface lists are a
  parameter, with the optional fields of their descriptions; every unwrapped field is a branch that
  panics.
\<close>

section \<open>Configuration\<close>

datatype k8s_address = PodIp | Hostname

record k8s_config =
  pod_selection_label :: "string option"
  coerce_remote_port_name :: "string option"
  cluster_node_address :: k8s_address

text \<open>\<open>env\<close> is the environment of the process.\<close>

definition k8s_config_default :: "(string \<Rightarrow> string option) \<Rightarrow> k8s_config" where
  "k8s_config_default env =
     \<lparr>pod_selection_label = Some (case env ''COERCE_K8S_POD_SELECTOR'' of None \<Rightarrow> ''app=coerce'' | Some s \<Rightarrow> s),
      coerce_remote_port_name = (case env ''COERCE_K8S_PORT_NAME'' of None \<Rightarrow> Some ''coerce'' | Some s \<Rightarrow> Some s),
      cluster_node_address =
        (case env ''COERCE_K8S_ADDR_MODE'' of
           None \<Rightarrow> PodIp
         | Some s \<Rightarrow> if map lower_char s = ''hostname'' then Hostname else PodIp)\<rparr>"

section \<open>Pods\<close>

record k8s_port =
  port_name :: "string option"
  container_port :: int

record k8s_spec =
  spec_hostname :: "string option"
  spec_subdomain :: "string option"
  spec_containers :: "k8s_port list option list"

record k8s_status =
  status_pod_ip :: "string option"

record k8s_pod =
  pod_spec :: "k8s_spec option"
  pod_status :: "k8s_status option"

definition show_i32 :: "int \<Rightarrow> string" where
  "show_i32 n = (if n < 0 then ''-'' @ show_nat (nat (- n)) else show_nat (nat n))"

definition unwrap_field :: "'a option \<Rightarrow> 'a may_panic" where
  "unwrap_field x = (case x of Some v \<Rightarrow> Inr v | None \<Rightarrow> Inl (Panic ''called unwrap on a None value''))"

fun container_addrs :: "string option \<Rightarrow> string \<Rightarrow> k8s_port list option list \<Rightarrow> (string list) may_panic" where
  "container_addrs name addr [] = Inr []"
| "container_addrs name addr (ports # cs) =
     (case unwrap_field ports of
        Inl e \<Rightarrow> Inl e
      | Inr ps \<Rightarrow>
          map_sum id
            (append (case find (\<lambda>p. port_name p = name) ps of
                       Some p \<Rightarrow> [addr @ '':'' @ show_i32 (container_port p)]
                     | None \<Rightarrow> []))
            (container_addrs name addr cs))"

text \<open>The address of a pod; \<open>None\<close> skips it.\<close>

definition pod_addr :: "k8s_address \<Rightarrow> k8s_spec \<Rightarrow> k8s_status \<Rightarrow> (string option) may_panic" where
  "pod_addr mode spec stat =
     (case mode of
        PodIp \<Rightarrow> Inr (status_pod_ip stat)
      | Hostname \<Rightarrow>
          (case unwrap_field (spec_hostname spec) of
             Inl e \<Rightarrow> Inl e
           | Inr h \<Rightarrow> map_sum id (\<lambda>s. Some (h @ ''.'' @ s)) (unwrap_field (spec_subdomain spec))))"

fun pod_addrs :: "k8s_config \<Rightarrow> k8s_pod list \<Rightarrow> (string list) may_panic" where
  "pod_addrs cfg [] = Inr []"
| "pod_addrs cfg (pod # pods) =
     (case unwrap_field (pod_spec pod) of
        Inl e \<Rightarrow> Inl e
      | Inr spec \<Rightarrow>
          (case unwrap_field (pod_status pod) of
             Inl e \<Rightarrow> Inl e
           | Inr stat \<Rightarrow>
               (case pod_addr (cluster_node_address cfg) spec stat of
                  Inl e \<Rightarrow> Inl e
                | Inr None \<Rightarrow> pod_addrs cfg pods
                | Inr (Some addr) \<Rightarrow>
                    (case container_addrs (coerce_remote_port_name cfg) addr (spec_containers spec) of
                       Inl e \<Rightarrow> Inl e
                     | Inr as \<Rightarrow> map_sum id (append as) (pod_addrs cfg pods)))))"

text \<open>\<open>client\<close> is whether a client of the interface is created, \<open>list\<close> its answer.\<close>

definition k8s_discover :: "bool \<Rightarrow> unit + k8s_pod list \<Rightarrow> k8s_config \<Rightarrow> (string list option) may_panic" where
  "k8s_discover client listed cfg =
     (if \<not> client then Inl (Panic ''failed to initialise k8s client'')
      else case listed of Inl _ \<Rightarrow> Inr (Some []) | Inr pods \<Rightarrow> map_sum id Some (pod_addrs cfg pods))"

section \<open>What is discovered\<close>

text \<open>A pod whose description has every field, and the addresses it contributes: its ip with the first port
  of the configured name of each container.\<close>

definition described_pod :: "k8s_pod \<Rightarrow> bool" where
  "described_pod p \<longleftrightarrow>
     pod_status p \<noteq> None \<and> (\<exists>spec. pod_spec p = Some spec \<and> (\<forall>c\<in>set (spec_containers spec). c \<noteq> None))"

definition ip_addrs :: "string option \<Rightarrow> k8s_pod \<Rightarrow> string list" where
  "ip_addrs name p =
     (case status_pod_ip (the (pod_status p)) of
        None \<Rightarrow> []
      | Some ip \<Rightarrow>
          concat (map (\<lambda>c. case find (\<lambda>q. port_name q = name) (the c) of
                             Some q \<Rightarrow> [ip @ '':'' @ show_i32 (container_port q)]
                           | None \<Rightarrow> []) (spec_containers (the (pod_spec p)))))"

lemma container_addrs_described:
  "\<forall>c\<in>set cs. c \<noteq> None \<Longrightarrow>
   container_addrs name addr cs =
     Inr (concat (map (\<lambda>c. case find (\<lambda>q. port_name q = name) (the c) of
                             Some q \<Rightarrow> [addr @ '':'' @ show_i32 (container_port q)]
                           | None \<Rightarrow> []) cs))"
  by (induction cs) (auto simp: unwrap_field_def)

text \<open>With addresses by ip and complete descriptions, discovery yields the addresses of all pods in order; a pod
  without an ip is left out.\<close>

theorem k8s_discovers_pods:
  assumes "cluster_node_address cfg = PodIp" "\<forall>p\<in>set pods. described_pod p"
  shows "k8s_discover True (Inr pods) cfg = Inr (Some (concat (map (ip_addrs (coerce_remote_port_name cfg)) pods)))"
proof -
  have "pod_addrs cfg pods = Inr (concat (map (ip_addrs (coerce_remote_port_name cfg)) pods))"
    using assms(2)
  proof (induction pods)
    case (Cons p pods)
    then obtain spec stat where p: "pod_spec p = Some spec" "pod_status p = Some stat"
      "\<forall>c\<in>set (spec_containers spec). c \<noteq> None"
      by (auto simp: described_pod_def)
    with Cons assms(1) show ?case
      by (cases "status_pod_ip stat")
         (simp_all add: unwrap_field_def pod_addr_def ip_addrs_def container_addrs_described)
  qed simp
  then show ?thesis by (simp add: k8s_discover_def)
qed

text \<open>A single container that declares no ports, or a pod without a subdomain when addresses are by host name, ends
  the discovery of all pods with a panic.\<close>

lemma container_addrs_undeclared:
  "None \<in> set cs \<Longrightarrow> \<exists>e. container_addrs name addr cs = Inl e"
proof (induction cs)
  case (Cons c cs)
  then show ?case by (cases c) (auto simp: unwrap_field_def)
qed simp

lemma undeclared_ports_panic:
  assumes "pod \<in> set pods" "pod_spec pod = Some spec" "None \<in> set (spec_containers spec)"
    and "pod_status pod = Some stat" "status_pod_ip stat = Some ip" "cluster_node_address cfg = PodIp"
  shows "\<exists>e. k8s_discover True (Inr pods) cfg = Inl e"
proof -
  have "\<exists>e. pod_addrs cfg pods = Inl e"
    using assms(1)
  proof (induction pods)
    case (Cons p pods)
    show ?case
    proof (cases "p = pod")
      case True
      with assms container_addrs_undeclared [OF assms(3), of "coerce_remote_port_name cfg" ip] show ?thesis
        by (auto simp: unwrap_field_def pod_addr_def)
    next
      case False
      with Cons show ?thesis by (auto split: sum.split option.split)
    qed
  qed simp
  then show ?thesis by (auto simp: k8s_discover_def)
qed

lemma missing_subdomain_panics:
  assumes "pod_spec pod = Some spec" "spec_subdomain spec = None" "pod_status pod = Some stat"
    and "cluster_node_address cfg = Hostname"
  shows "\<exists>e. k8s_discover True (Inr (pod # pods)) cfg = Inl e"
  using assms by (auto simp: k8s_discover_def unwrap_field_def pod_addr_def split: option.split)

end
