(* ===== verification/Sharding_Startup.thy ===== *)
theory Sharding_Startup
  imports Shard_Host Singleton System_Config Actor_Services
begin

text \<open>
  Starting sharding on a node: \<open>Sharding::try_start\<close>, \<open>start\<close> and the configuration \<open>sharding\<close> of
  \<open>sharding/mod.rs\<close>, and the builder of \<open>sharding/builder.rs\<close>. The start of each actor goes through the
  scheduler of the node, so that what a later start does to the actors of an earlier one can be seen.

  The names of types are parameters: they are what \<open>std::any::type_name\<close> yields.
\<close>

section \<open>Types and errors\<close>

record startup_types =
  ty_host :: type_name
  ty_coordinator :: type_name
  ty_proxy :: type_name
  ty_manager :: type_name

datatype startup_err =
    MissingActorFactory string type_name
  | CoordinatorErr string actor_ref_err
  | ShardHostErr string actor_ref_err

definition into_host_err :: "string \<Rightarrow> actor_ref_err \<Rightarrow> startup_err" where
  "into_host_err entity e = ShardHostErr entity e"

definition into_coordinator_err :: "string \<Rightarrow> actor_ref_err \<Rightarrow> startup_err" where
  "into_coordinator_err entity e = CoordinatorErr entity e"

text \<open>What \<open>Sharding\<close> holds: the references of its actors, with the state its host starts from.\<close>

record 'al sharding_core =
  core_entity :: string
  core_host :: actor_ref
  core_proxy :: actor_ref
  core_manager :: actor_ref
  core_host_state :: "'al shard_host"
  core_manager_state :: manager

section \<open>Starting\<close>

text \<open>\<open>boot k\<close> is the mailbox of the k-th actor that is started, and whether its start is reported.\<close>

type_synonym boots = "nat \<Rightarrow> mailbox_id \<times> bool"

definition boot_actor ::
  "string \<Rightarrow> boots \<Rightarrow> nat \<Rightarrow> type_name \<Rightarrow> actor_id \<Rightarrow> actor_scheduler option \<Rightarrow>
   (actor_ref_err + actor_ref) \<times> actor_scheduler option" where
  "boot_actor sys boot k ty aid sched =
     (let (r, sched', _) = into_actor sys ty (Some aid) [] (fst (boot k)) (snd (boot k)) sched in (r, sched'))"

definition coordinator_builder :: "startup_types \<Rightarrow> string \<Rightarrow> string singleton_builder" where
  "coordinator_builder T entity = singleton_factory entity (singleton_builder_new (ty_coordinator T))"

definition coordinator_proxy_id :: "startup_types \<Rightarrow> node_id \<Rightarrow> actor_id" where
  "coordinator_proxy_id T node = ''singleton-proxy<'' @ ty_coordinator T @ ''>-'' @ show_nat (unat node)"

definition coordinator_manager_id :: "startup_types \<Rightarrow> node_id \<Rightarrow> actor_id" where
  "coordinator_manager_id T node = ''singleton-manager<'' @ ty_coordinator T @ ''>-'' @ show_nat (unat node)"

definition build_coordinator ::
  "string \<Rightarrow> startup_types \<Rightarrow> node_id \<Rightarrow> boots \<Rightarrow> string \<Rightarrow> actor_scheduler option \<Rightarrow>
   ((actor_ref \<times> actor_ref \<times> manager) \<times> actor_scheduler option) may_panic" where
  "build_coordinator sys T node boot entity sched =
     (let pid = coordinator_proxy_id T node;
          (proxy, sched1) = boot_actor sys boot 1 (ty_proxy T) pid sched;
          (mgr, sched2) = boot_actor sys boot 2 (ty_manager T) (coordinator_manager_id T node) sched1
      in map_sum id (\<lambda>r. (r, sched2))
           (singleton_build (\<lambda>aid. if aid = pid then proxy else mgr) node (coordinator_builder T entity)))"

definition sharding_try_start ::
  "string \<Rightarrow> startup_types \<Rightarrow> node_id \<Rightarrow> 'h remote_config \<Rightarrow> type_name \<Rightarrow> 'al \<Rightarrow> boots \<Rightarrow> string \<Rightarrow> 'al option \<Rightarrow>
   actor_scheduler option \<Rightarrow> ((startup_err + 'al sharding_core) \<times> actor_scheduler option) may_panic" where
  "sharding_try_start sys T node cfg actor_type default_allocator boot entity allocator sched =
     (case actor_handler actor_type cfg of
        None \<Rightarrow> Inr (Inl (MissingActorFactory entity actor_type), sched)
      | Some handler \<Rightarrow>
          (let h = shard_host_new default_allocator entity handler allocator;
               (started, sched1) = boot_actor sys boot 0 (ty_host T) (shard_host_actor_id entity node) sched
           in case started of
                Inl e \<Rightarrow> Inr (Inl (into_host_err entity e), sched1)
              | Inr host \<Rightarrow>
                  map_sum id
                    (\<lambda>((proxy, mgr, m), sched2).
                       (Inr \<lparr>core_entity = entity, core_host = host, core_proxy = proxy, core_manager = mgr,
                             core_host_state = handle_init h, core_manager_state = m\<rparr>, sched2))
                    (build_coordinator sys T node boot entity sched1)))"

definition sharding_start ::
  "((startup_err + 'al sharding_core) \<times> actor_scheduler option) may_panic \<Rightarrow>
   ('al sharding_core \<times> actor_scheduler option) may_panic" where
  "sharding_start tried =
     (case tried of
        Inl p \<Rightarrow> Inl p
      | Inr (Inl _, _) \<Rightarrow> Inl (Panic ''start sharding'')
      | Inr (Inr c, sched) \<Rightarrow> Inr (c, sched))"

section \<open>The builder\<close>

record 'al sharding_builder =
  shb_allocator :: "'al option"
  shb_entity :: "string option"
  shb_system :: bool

definition sharding_builder_new :: "'al sharding_builder" where
  "sharding_builder_new = \<lparr>shb_allocator = None, shb_entity = None, shb_system = True\<rparr>"

definition with_entity_type :: "string \<Rightarrow> 'al sharding_builder \<Rightarrow> 'al sharding_builder" where
  "with_entity_type e b = b\<lparr>shb_entity := Some e\<rparr>"

definition with_allocator :: "'al \<Rightarrow> 'al sharding_builder \<Rightarrow> 'al sharding_builder" where
  "with_allocator a b = b\<lparr>shb_allocator := Some a\<rparr>"

text \<open>\<open>build\<close> takes the parts out of the builder: the arguments of \<open>start\<close> and the builder that is left.\<close>

definition sharding_build ::
  "type_name \<Rightarrow> 'al sharding_builder \<Rightarrow> ((string \<times> 'al option) may_panic) \<times> 'al sharding_builder" where
  "sharding_build actor_type b =
     (if shb_system b
      then (Inr (case shb_entity b of Some e \<Rightarrow> e | None \<Rightarrow> actor_type, shb_allocator b),
            \<lparr>shb_allocator = None, shb_entity = None, shb_system = False\<rparr>)
      else (Inl (Panic ''called unwrap on a None value''), b\<lparr>shb_entity := None\<rparr>))"

section \<open>The handlers of sharding\<close>

text \<open>\<open>ty m\<close> is the name of the message type \<open>m\<close> and \<open>H a m\<close> the handler the configuration stores.\<close>

definition sharding_handlers ::
  "startup_types \<Rightarrow> type_name \<Rightarrow> (string \<Rightarrow> type_name) \<Rightarrow> (type_name \<times> type_name \<times> string) list" where
  "sharding_handlers T ty_shard ty =
     map (\<lambda>m. (ty_manager T, ty m, ''SingletonManager<'' @ ty_coordinator T @ ''>.'' @ m))
       [''RequestLease'', ''LeaseAck'', ''SingletonStarted'', ''SingletonStopped''] @
     [(ty_coordinator T, ty ''AllocateShard'', ''ShardCoordinator.AllocateShard''),
      (ty_coordinator T, ty ''GetShardingStats'', ''ShardCoordinator.GetShardingStats''),
      (ty_host T, ty ''ShardAllocated'', ''ShardHost.ShardAllocated''),
      (ty_host T, ty ''ShardReallocating'', ''ShardHost.ShardReallocating''),
      (ty_host T, ty ''StopShard'', ''ShardHost.StopShard''),
      (ty_shard, ty ''RemoteEntityRequest'', ''Shard.RemoteEntityRequest''),
      (ty_shard, ty ''GetShardStats'', ''Shard.GetShardStats'')]"

definition sharding_config ::
  "startup_types \<Rightarrow> type_name \<Rightarrow> (string \<Rightarrow> type_name) \<Rightarrow> (type_name \<Rightarrow> type_name \<Rightarrow> 'h) \<Rightarrow> 'h config_builder \<Rightarrow>
   'h config_builder" where
  "sharding_config T ty_shard ty H b =
     fold (\<lambda>(a, m, name). with_handler a m (H a m) name) (sharding_handlers T ty_shard ty) b"

section \<open>What a start leaves behind\<close>

lemma boot_actor_registers:
  assumes "boot_actor sys boot k ty aid (Some s) = (r, sched')"
  shows "\<exists>s'. sched' = Some s' \<and>
           actors s' = hm_insert aid (start_actor ty aid sys (fst (boot k))) (actors s) \<and>
           (r = Inr (start_actor ty aid sys (fst (boot k))) \<or> r = Inl ActorStartFailed) \<and>
           (snd (boot k) \<longrightarrow> r = Inr (start_actor ty aid sys (fst (boot k))))"
  using assms
  by (auto simp: boot_actor_def into_actor_def new_actor_def new_actor_deferred_def track_actor_def Let_def
      register_actor_def is_tracked_def split: option.splits prod.splits if_splits)

lemma coordinator_ids:
  "coordinator_proxy_id T node \<noteq> coordinator_manager_id T node"
  "shard_host_actor_id entity node \<noteq> coordinator_proxy_id T node'"
  "shard_host_actor_id entity node \<noteq> coordinator_manager_id T node'"
  by (simp_all add: coordinator_proxy_id_def coordinator_manager_id_def shard_host_actor_id_def)

lemma host_id_inj: "shard_host_actor_id e n = shard_host_actor_id e' n \<longleftrightarrow> e = e'"
  by (simp add: shard_host_actor_id_def)

lemma map_sum_InrE: "map_sum id f x = Inr y \<longleftrightarrow> (\<exists>z. x = Inr z \<and> f z = y)"
  by (cases x) simp_all

lemma build_coordinator_result:
  assumes "build_coordinator sys T node boot entity (Some s) = Inr ((proxy, mgr, m), sched')"
  shows "\<exists>s'. sched' = Some s' \<and>
           proxy = start_actor (ty_proxy T) (coordinator_proxy_id T node) sys (fst (boot 1)) \<and>
           mgr = start_actor (ty_manager T) (coordinator_manager_id T node) sys (fst (boot 2)) \<and>
           manager_ref_id m n = coordinator_manager_id T n \<and>
           actors s' = hm_insert (coordinator_manager_id T node) mgr
                         (hm_insert (coordinator_proxy_id T node) proxy (actors s))"
proof -
  obtain p1 sc1 where 1: "boot_actor sys boot 1 (ty_proxy T) (coordinator_proxy_id T node) (Some s) = (p1, sc1)"
    by fastforce
  from boot_actor_registers [OF this] obtain s1 where s1: "sc1 = Some s1" by blast
  obtain p2 sc2 where 2: "boot_actor sys boot 2 (ty_manager T) (coordinator_manager_id T node) (Some s1) = (p2, sc2)"
    by fastforce
  have "singleton_build (\<lambda>aid. if aid = coordinator_proxy_id T node then p1 else p2) node (coordinator_builder T entity) =
      Inr (proxy, mgr, m)" and sched': "sched' = sc2"
    using assms 1 2 s1 by (auto simp: build_coordinator_def Let_def map_sum_InrE)
  then have "p1 = Inr proxy" "p2 = Inr mgr" "manager_ref_id m n = coordinator_manager_id T n"
    using coordinator_ids(1) [of T node]
    by (auto simp: singleton_build_def coordinator_builder_def singleton_factory_def singleton_builder_new_def
        coordinator_proxy_id_def coordinator_manager_id_def manager_new_def manager_ref_id_def split: sum.splits if_splits)
  with boot_actor_registers [OF 1] boot_actor_registers [OF 2] s1 sched' show ?thesis by auto
qed

lemma try_start_result:
  assumes "sharding_try_start sys T node cfg A al boot entity a (Some s) = Inr (Inr c, sched')"
  shows "\<exists>s' h. sched' = Some s' \<and> actor_handler A cfg = Some h \<and> core_entity c = entity \<and>
           core_host c = start_actor (ty_host T) (shard_host_actor_id entity node) sys (fst (boot 0)) \<and>
           core_manager c = start_actor (ty_manager T) (coordinator_manager_id T node) sys (fst (boot 2)) \<and>
           core_proxy c = start_actor (ty_proxy T) (coordinator_proxy_id T node) sys (fst (boot 1)) \<and>
           core_host_state c = handle_init (shard_host_new al entity h a) \<and>
           (\<forall>n. manager_ref_id (core_manager_state c) n = coordinator_manager_id T n) \<and>
           actors s' = hm_insert (coordinator_manager_id T node) (core_manager c)
                         (hm_insert (coordinator_proxy_id T node) (core_proxy c)
                            (hm_insert (shard_host_actor_id entity node) (core_host c) (actors s)))"
proof -
  obtain h where h: "actor_handler A cfg = Some h"
    using assms by (auto simp: sharding_try_start_def split: option.splits)
  obtain r sc1 where 1: "boot_actor sys boot 0 (ty_host T) (shard_host_actor_id entity node) (Some s) = (r, sc1)"
    by fastforce
  note host = boot_actor_registers [OF 1]
  then obtain s1 where s1: "sc1 = Some s1" by blast
  obtain proxy mgr m where b: "build_coordinator sys T node boot entity (Some s1) = Inr ((proxy, mgr, m), sched')"
    and c: "c = \<lparr>core_entity = entity, core_host = start_actor (ty_host T) (shard_host_actor_id entity node) sys (fst (boot 0)),
      core_proxy = proxy, core_manager = mgr, core_host_state = handle_init (shard_host_new al entity h a), core_manager_state = m\<rparr>"
    using assms h 1 host s1
    by (auto simp: sharding_try_start_def Let_def map_sum_InrE split: sum.splits)
  show ?thesis using build_coordinator_result [OF b] host h c s1 by auto
qed

text \<open>Sharding that has started is ready: its host knows its coordinator, so that no request panics, and
  nothing waits in it; without a factory for the entity's actor nothing is started at all.\<close>

theorem started_sharding_is_ready:
  assumes "sharding_try_start sys T node cfg A al boot entity a (Some s) = Inr (Inr c, sched')"
  shows "host_ok shard_of entity (core_host_state c) \<and>
         get_tracked_actor (ty_host T) (shard_host_actor_id entity node) sched' = Some (core_host c) \<and>
         get_tracked_actor (ty_manager T) (manager_ref_id (core_manager_state c) node) sched' = Some (core_manager c)"
  using try_start_result [OF assms] coordinator_ids
  by (auto simp: get_tracked_actor_def get_actor_def as_actor_def start_actor_def host_ok_def host_ready_def pending_ok_def
      handle_init_def shard_host_new_def host_slot_def)

lemma missing_factory:
  "actor_handler A cfg = None \<Longrightarrow>
   sharding_try_start sys T node cfg A al boot entity a sched = Inr (Inl (MissingActorFactory entity A), sched)"
  by (simp add: sharding_try_start_def)

text \<open>C13: Two sharded entity types on one node share a manager id: the manager and the proxy of the coordinator's
  singleton are named after the coordinator's type and not after the entity. When a node starts sharding for
  a second entity, both hosts are found under their ids, but the id under which other nodes address the manager
  of the first entity's coordinator (lease requests, acknowledgements, announcements) now leads to the manager
  of the second in the node's scheduler, and no id that was not there before leads to the first.\<close>

theorem second_entity_takes_manager:
  assumes "sharding_try_start sys T node cfg A al boot e1 a1 (Some s) = Inr (Inr c1, sched1)"
    and "sharding_try_start sys T node cfg' A' al boot' e2 a2 sched1 = Inr (Inr c2, sched2)"
    and "e1 \<noteq> e2" "fst (boot 2) \<noteq> fst (boot' 2)"
  shows "get_tracked_actor (ty_host T) (shard_host_actor_id e1 node) sched2 = Some (core_host c1) \<and>
         get_tracked_actor (ty_host T) (shard_host_actor_id e2 node) sched2 = Some (core_host c2) \<and>
         core_manager c1 \<noteq> core_manager c2 \<and>
         get_tracked_actor (ty_manager T) (manager_ref_id (core_manager_state c1) node) sched2 = Some (core_manager c2) \<and>
         (\<forall>aid. get_tracked_actor (ty_manager T) aid sched2 = Some (core_manager c1) \<longrightarrow>
            get_tracked_actor (ty_manager T) aid (Some s) = Some (core_manager c1))"
proof -
  from try_start_result [OF assms(1)] obtain s1 where s1: "sched1 = Some s1"
    "core_host c1 = start_actor (ty_host T) (shard_host_actor_id e1 node) sys (fst (boot 0))"
    "core_manager c1 = start_actor (ty_manager T) (coordinator_manager_id T node) sys (fst (boot 2))"
    "core_proxy c1 = start_actor (ty_proxy T) (coordinator_proxy_id T node) sys (fst (boot 1))"
    "\<forall>n. manager_ref_id (core_manager_state c1) n = coordinator_manager_id T n"
    "actors s1 = hm_insert (coordinator_manager_id T node) (core_manager c1)
                   (hm_insert (coordinator_proxy_id T node) (core_proxy c1)
                      (hm_insert (shard_host_actor_id e1 node) (core_host c1) (actors s)))"
    by blast
  from try_start_result [OF assms(2) [unfolded s1(1)]] obtain s2 where s2: "sched2 = Some s2"
    "core_host c2 = start_actor (ty_host T) (shard_host_actor_id e2 node) sys (fst (boot' 0))"
    "core_manager c2 = start_actor (ty_manager T) (coordinator_manager_id T node) sys (fst (boot' 2))"
    "core_proxy c2 = start_actor (ty_proxy T) (coordinator_proxy_id T node) sys (fst (boot' 1))"
    "actors s2 = hm_insert (coordinator_manager_id T node) (core_manager c2)
                   (hm_insert (coordinator_proxy_id T node) (core_proxy c2)
                      (hm_insert (shard_host_actor_id e2 node) (core_host c2) (actors s1)))"
    by blast
  have managers: "core_manager c1 \<noteq> core_manager c2" using assms(4) s1(3) s2(3) by (simp add: start_actor_def)
  let ?ids = "{coordinator_manager_id T node, coordinator_proxy_id T node, shard_host_actor_id e1 node, shard_host_actor_id e2 node}"
  have "aid \<notin> ?ids" if "hm_get (actors s2) aid = Some (core_manager c1)" for aid
    using that managers s1 s2 coordinator_ids(1) [of T node] coordinator_ids(2,3) [of _ node T node]
    by (auto simp: start_actor_def split: if_splits)
  moreover have "hm_get (actors s2) aid = hm_get (actors s) aid" if "aid \<notin> ?ids" for aid
    using that s1(6) s2(5) by simp
  ultimately have kept: "hm_get (actors s) aid = Some (core_manager c1)"
    if "hm_get (actors s2) aid = Some (core_manager c1)" for aid using that by metis
  have refs: "ref_type (core_manager c1) = ty_manager T" "ref_type (core_manager c2) = ty_manager T"
    "ref_type (core_host c1) = ty_host T" "ref_type (core_host c2) = ty_host T"
    using s1 s2 by (simp_all add: start_actor_def)
  have "get_tracked_actor (ty_manager T) aid sched2 = Some (core_manager c1) \<Longrightarrow>
      get_tracked_actor (ty_manager T) aid (Some s) = Some (core_manager c1)" for aid
    using kept [of aid] s2(1) refs
    by (auto simp: get_tracked_actor_def get_actor_def as_actor_def Option.bind_eq_Some_conv split: if_splits)
  moreover have "hm_get (actors s2) (coordinator_manager_id T node) = Some (core_manager c2)"
    "hm_get (actors s2) (shard_host_actor_id e2 node) = Some (core_host c2)"
    "hm_get (actors s2) (shard_host_actor_id e1 node) = Some (core_host c1)"
    unfolding s1(6) s2(5) using assms(3) by (simp_all add: coordinator_ids host_id_inj)
  ultimately show ?thesis using managers refs s1(5) s2(1)
    by (simp add: get_tracked_actor_def get_actor_def as_actor_def)
qed

text \<open>When every actor reports its start, the start succeeds.\<close>

lemma try_start_succeeds:
  assumes "actor_handler A cfg = Some h" "\<forall>k. snd (boot k)"
  shows "\<exists>c sched'. sharding_try_start sys T node cfg A al boot entity a (Some s) = Inr (Inr c, sched')"
proof -
  have b: "\<exists>s'. boot_actor sys boot k ty aid (Some s) = (Inr (start_actor ty aid sys (fst (boot k))), Some s')" for k ty aid s
    using boot_actor_registers [of sys boot k ty aid s] assms(2) by (cases "boot_actor sys boot k ty aid (Some s)") auto
  obtain s1 where 1: "boot_actor sys boot 0 (ty_host T) (shard_host_actor_id entity node) (Some s) =
      (Inr (start_actor (ty_host T) (shard_host_actor_id entity node) sys (fst (boot 0))), Some s1)" using b by blast
  obtain s2 where 2: "boot_actor sys boot 1 (ty_proxy T) (coordinator_proxy_id T node) (Some s1) =
      (Inr (start_actor (ty_proxy T) (coordinator_proxy_id T node) sys (fst (boot 1))), Some s2)" using b by blast
  obtain s3 where 3: "boot_actor sys boot 2 (ty_manager T) (coordinator_manager_id T node) (Some s2) =
      (Inr (start_actor (ty_manager T) (coordinator_manager_id T node) sys (fst (boot 2))), Some s3)" using b by blast
  show ?thesis
    using assms(1) 1 2 3
    by (simp add: sharding_try_start_def build_coordinator_def singleton_build_def coordinator_builder_def
        singleton_factory_def singleton_builder_new_def Let_def)
qed

definition ex_types :: startup_types where
  "ex_types = \<lparr>ty_host = ''ShardHost'', ty_coordinator = ''ShardCoordinator'', ty_proxy = ''Proxy'', ty_manager = ''Manager''\<rparr>"

definition ex_start :: "nat \<Rightarrow> string \<Rightarrow> actor_scheduler option \<Rightarrow>
    ((startup_err + unit sharding_core) \<times> actor_scheduler option) may_panic" where
  "ex_start base entity =
     sharding_try_start ''sys'' ex_types 1 (config_build ''t'' None None None [] (with_actor ''E'' config_builder_new) :: unit remote_config)
       ''E'' () (\<lambda>k. (base + k, True)) entity None"

theorem second_entity_takes_manager_witness:
  "\<exists>c1 c2 sched1 sched2.
     ex_start 10 ''orders'' (Some scheduler_new) = Inr (Inr c1, sched1) \<and>
     ex_start 20 ''users'' sched1 = Inr (Inr c2, sched2) \<and>
     get_tracked_actor ''ShardHost'' (shard_host_actor_id ''orders'' 1) sched2 = Some (core_host c1) \<and>
     get_tracked_actor ''Manager'' (manager_ref_id (core_manager_state c1) 1) sched2 = Some (core_manager c2) \<and>
     core_manager c1 \<noteq> core_manager c2"
proof -
  have handler: "actor_handler ''E'' (config_build ''t'' None None None [] (with_actor ''E'' config_builder_new) :: unit remote_config) = Some ''E''"
    by (simp add: actor_handler_def config_build_def with_actor_def config_builder_new_def)
  obtain c1 sched1 where 1: "ex_start 10 ''orders'' (Some scheduler_new) = Inr (Inr c1, sched1)"
    unfolding ex_start_def
    using try_start_succeeds [OF handler, of "\<lambda>k. (10 + k, True)" "''sys''" ex_types 1 "()" "''orders''" None scheduler_new] by auto
  from try_start_result [OF 1 [unfolded ex_start_def]] obtain s1 where s1: "sched1 = Some s1" by blast
  obtain c2 sched2 where 2: "ex_start 20 ''users'' sched1 = Inr (Inr c2, sched2)"
    unfolding ex_start_def s1
    using try_start_succeeds [OF handler, of "\<lambda>k. (20 + k, True)" "''sys''" ex_types 1 "()" "''users''" None s1] by auto
  show ?thesis
    using second_entity_takes_manager [OF 1 [unfolded ex_start_def] 2 [unfolded ex_start_def]] 1 2
    by (fastforce simp: ex_types_def)
qed

section \<open>Every message of sharding has its handler\<close>

lemma fold_with_handler:
  assumes "distinct (map (\<lambda>(a, m, n). n) hs)" "(a, m, n) \<in> set hs"
  shows "hm_get (cb_handlers (fold (\<lambda>(a, m, name). with_handler a m (H a m) name) hs b)) n = Some ((a, m), H a m)"
  using assms
proof (induction hs arbitrary: b)
  case (Cons h hs)
  have keep: "hm_get (cb_handlers (fold (\<lambda>(a, m, name). with_handler a m (H a m) name) hs b)) k = hm_get (cb_handlers b) k"
    if "k \<notin> (\<lambda>(a, m, n). n) ` set hs" for k b
    using that by (induction hs arbitrary: b) (auto simp: with_handler_def)
  show ?case
  proof (cases "(a, m, n) = h")
    case True
    with Cons.prems(1) have "n \<notin> (\<lambda>(a, m, n). n) ` set hs" by (auto simp: image_iff)
    moreover have "hm_get (cb_handlers (with_handler a m (H a m) n b)) n = Some ((a, m), H a m)" by (simp add: with_handler_def)
    ultimately show ?thesis using keep True [symmetric] by simp
  next
    case False
    with Cons show ?thesis by auto
  qed
qed simp

theorem sharding_handlers_registered:
  assumes "(a, m, n) \<in> set (sharding_handlers T ty_shard ty)"
  shows "message_handler n (config_build rtag tag v auth attrs (sharding_config T ty_shard ty H b)) = Some ((a, m), H a m)"
proof -
  have "distinct (map (\<lambda>(a, m, n). n) (sharding_handlers T ty_shard ty))"
    by (simp add: sharding_handlers_def)
  from fold_with_handler [OF this assms] show ?thesis
    by (simp add: message_handler_def config_build_def sharding_config_def)
qed

end
