(* ===== verification/Sharding_Path.thy ===== *)
theory Sharding_Path
  imports Sharding_Startup Shard_Balance
begin

text \<open>
  The path of a request to a sharded entity as a whole: from \<open>Sharded::send\<close> over the host of the node, the
  coordinator and the shard to the entity's actor, composed from the definitions of their theories.

  The host spawns a task for every request it hands to a shard, so a shard receives the requests in any
  order; the coordinator answers every request that found no shard and broadcasts its allocation besides, so
  a host is told of an allocation any number of times.
\<close>

section \<open>Requests in the inputs of a host\<close>

fun requests_in :: "host_input list \<Rightarrow> entity_req list" where
  "requests_in [] = []"
| "requests_in (HostRequest m # xs) = m # requests_in xs"
| "requests_in (_ # xs) = requests_in xs"

lemma requests_in_append [simp]: "requests_in (xs @ ys) = requests_in xs @ requests_in ys"
  by (induction xs rule: requests_in.induct) simp_all

text \<open>What a host is told of a shard that has been allocated to its node, apart from its start.\<close>

definition settled_input :: "host_env \<Rightarrow> host_input \<Rightarrow> bool" where
  "settled_input env x =
     (case x of HostRequest _ \<Rightarrow> True | HostAllocated _ _ nid \<Rightarrow> nid = env_node_id env | _ \<Rightarrow> False)"

lemma settled_starting:
  assumes "\<forall>x\<in>set xs. settled_input env x"
  shows "slot_run (slot_step env e shard_of) xs
           \<lparr>slot_hosted = Some (ShardStarting r buf None), slot_remote = None, slot_waiting = []\<rparr> =
         (\<lparr>slot_hosted = Some (ShardStarting r (buf @ requests_in xs) None), slot_remote = None, slot_waiting = []\<rparr>, [])"
  using assms
proof (induction xs arbitrary: buf)
  case (Cons x xs)
  then show ?case by (cases x) (simp_all add: settled_input_def)
qed simp

lemma settled_ready:
  assumes "\<forall>x\<in>set xs. settled_input env x"
  shows "slot_run (slot_step env e shard_of) xs
           \<lparr>slot_hosted = Some (ShardReady r), slot_remote = None, slot_waiting = []\<rparr> =
         (\<lparr>slot_hosted = Some (ShardReady r), slot_remote = None, slot_waiting = []\<rparr>,
          map (SpawnSend r) (requests_in xs))"
  using assms
proof (induction xs)
  case (Cons x xs)
  then show ?case by (cases x) (simp_all add: settled_input_def)
qed simp

text \<open>The requests that the tasks of a host send to a shard's actor.\<close>

fun sent_to :: "actor_ref \<Rightarrow> host_action list \<Rightarrow> entity_req list" where
  "sent_to r [] = []"
| "sent_to r (SpawnSend r' m # as) = (if r' = r then m # sent_to r as else sent_to r as)"
| "sent_to r (_ # as) = sent_to r as"

lemma sent_to_append [simp]: "sent_to r (xs @ ys) = sent_to r xs @ sent_to r ys"
  by (induction r xs rule: sent_to.induct) simp_all

lemma sent_to_sends [simp]:
  "sent_to r (map (SpawnSend r) ms) = ms" "sent_to r (map (\<lambda>_. SpawnAllocate k) ms) = []"
  by (induction ms) simp_all

lemma host_sends_all:
  assumes "stable_allocator alloc shard_of" "host_ok shard_of e h"
    and "host_slot h k = \<lparr>slot_hosted = None, slot_remote = None, slot_waiting = []\<rparr>"
    and "filter (\<lambda>x. host_key shard_of x = k) xs =
           map HostRequest ms @ HostAllocated mb k (env_node_id env) # ys @ HostShardReady k r # zs"
    and "\<forall>x\<in>set (ys @ zs). settled_input env x"
  shows "\<exists>s' tr. run_inputs (host_step env alloc) xs (h, ctx) = Inr (s', tr) \<and>
           sent_to r (caused_for (host_key shard_of) k tr) = requests_in (filter (\<lambda>x. host_key shard_of x = k) xs)"
proof -
  let ?F = "slot_step env e shard_of"
  have ms: "\<forall>m\<in>set ms. shard_of (er_actor_id m) = k"
    using requests_of_shard [of shard_of k xs "[]" ms] assms(4) by simp
  have settled: "\<forall>x\<in>set ys. settled_input env x" "\<forall>x\<in>set zs. settled_input env x" using assms(5) by auto
  have "requests_in (map HostRequest ms) = ms" by (induction ms) simp_all
  moreover have "sent_to r (snd (slot_run ?F (filter (\<lambda>x. host_key shard_of x = k) xs) (host_slot h k))) =
      ms @ requests_in ys @ requests_in zs"
    unfolding assms(3,4)
    by (simp add: slot_run_append slot_requests_waiting [OF _ _ ms] settled_starting [OF settled(1)]
        settled_ready [OF settled(2)] Let_def)
  ultimately show ?thesis
    using host_refines_run [OF assms(1,2), of env xs ctx k] assms(4) by (metis (no_types, lifting) requests_in.simps(2,3,4) requests_in_append snd_conv)
qed

lemma requests_of_actor:
  "shard_of aid = k \<Longrightarrow>
   filter (\<lambda>m. er_actor_id m = aid) (requests_in (filter (\<lambda>x. host_key shard_of x = k) xs)) =
   filter (\<lambda>m. er_actor_id m = aid) (requests_in xs)"
  by (induction xs rule: requests_in.induct) auto

section \<open>What an entity's actor gets\<close>

fun delivered_to :: "actor_ref \<Rightarrow> shard_action list \<Rightarrow> buffered_req list" where
  "delivered_to r [] = []"
| "delivered_to r (SpawnDirect r' b # as) = (if r' = r then b # delivered_to r as else delivered_to r as)"
| "delivered_to r (_ # as) = delivered_to r as"

fun creations :: "shard_action list \<Rightarrow> nat" where
  "creations [] = 0"
| "creations (CreateEntity _ _ _ # as) = Suc (creations as)"
| "creations (_ # as) = creations as"

lemma delivered_directly: "delivered_to r (map (\<lambda>m. SpawnDirect r (f m)) ms) = map f ms"
  by (induction ms) simp_all

lemma creations_directly: "creations (map (\<lambda>m. SpawnDirect r (f m)) ms) = 0"
  by (induction ms) simp_all

lemma start_then_deliver:
  "delivered_to r (start_acts p aid rcp @ as) = delivered_to r as"
  "creations (start_acts p aid rcp @ as) = Suc (creations as)"
  by (simp_all add: start_acts_def)

text \<open>The client's request carries its message, its channel and its recipe.\<close>

lemma sharded_request_fields:
  assumes "sharded_request M (Some n) mt at sd tx m = Inr q"
  shows "er_actor_id q = sharded_actor_id sd" "er_message_type q = n" "er_recipe q = sharded_recipe sd"
    "er_result_channel q = Some tx" "as_bytes M m = Inr (er_message q)"
  using assms by (auto simp: sharded_request_def split: sum.splits)

lemma allocation_names_shard:
  assumes "handle_allocate_shard persisted \<lparr>alloc_shard_id = k, alloc_rebalancing = rb\<rparr> c = (res, c', acts)"
    and "allocation_task (Inr res) = Some (k', n)"
  shows "k' = k"
  using assms
  by (auto simp: handle_allocate_shard_def allocate_shard_def allocate_def allocation_task_def Let_def
      split: option.splits if_splits sum.splits list.splits prod.splits allocate_shard_result.splits)

section \<open>The whole path\<close>

text \<open>C6: A sharded entity gets every request of its clients exactly once. Sharding has been started on a node and its
  coordinator puts the entity's shard there; clients send messages to the entity while the host learns of the
  allocation, any number of times, and starts the shard, and while the shard, which gets the requests of the host's
  tasks in any order, starts the entity; other entities and shards are used in between. Then the entity is
  created once, and the messages that are handed to its actor, decoded, are those of the clients with their
  channels, as many times as they were sent. The hypotheses are that the allocator gives an actor the same shard
  each time, that the message is decoded as it was encoded and has a handler, that the tasks of the host all
  run, and that the start of the shard and of the entity succeeds.\<close>

theorem sharded_requests_reach_entity:
  assumes start: "sharding_try_start sys T (env_node_id env) cfg A al boot entity a (Some s) = Inr (Inr core, sched')"
    and alloc: "stable_allocator alloc shard_of" "shard_of aid = k"
    and coordinator: "handle_allocate_shard persisted \<lparr>alloc_shard_id = k, alloc_rebalancing = False\<rparr> c = (res, c', acts)"
      "allocation_task (Inr res) = Some (k', env_node_id env)"
    and host: "filter (\<lambda>x. host_key shard_of x = k) xs =
        map HostRequest ms @ HostAllocated mb k' (env_node_id env) # ys @ HostShardReady k r # zs"
      "\<forall>x\<in>set (ys @ zs). settled_input env x"
      "run_inputs (host_step env alloc) xs (core_host_state core, ctx) = Inr (h', tr)"
    and clients: "sharded_actor_id sd = aid" "sharded_recipe sd = Some rcp"
      "map (\<lambda>(tx, m). sharded_request M (Some n) mt at sd tx m) cs =
         map Inr (filter (\<lambda>q. er_actor_id q = aid) (requests_in xs))"
    and wire: "wire_message M" "mh n = Some hn"
    and shard: "shard_run mh ws sh sctx = (sh', str)" "hm_get (entities sh) aid = None"
      "filter (\<lambda>x. input_id x = aid) ws =
         InRequest t0 q0 # map (\<lambda>(t, q). InRequest t q) qs @ InStarted aid (Inr er) # map (\<lambda>(t, q). InRequest t q) qs'"
    and tasks: "mset (q0 # map snd qs @ map snd qs') =
        mset (filter (\<lambda>q. er_actor_id q = aid) (sent_to r (caused_for (host_key shard_of) k tr)))"
  shows "creations (acts_for aid str) = 1 \<and>
         mset (map (\<lambda>b. (req_result_channel b, from_bytes M (req_message b))) (delivered_to er (acts_for aid str))) =
         mset (map (\<lambda>(tx, m). (Some tx, Inr m)) cs)"
proof -
  let ?qs = "q0 # map snd qs @ map snd qs'" and ?reqs = "filter (\<lambda>q. er_actor_id q = aid) (requests_in xs)"
  have k': "k' = k" by (rule allocation_names_shard [OF coordinator])
  from try_start_result [OF start] have core: "host_ok shard_of entity (core_host_state core)"
    "host_slot (core_host_state core) k = \<lparr>slot_hosted = None, slot_remote = None, slot_waiting = []\<rparr>"
    by (auto simp: host_ok_def host_ready_def pending_ok_def handle_init_def shard_host_new_def host_slot_def)
  have "sent_to r (caused_for (host_key shard_of) k tr) = requests_in (filter (\<lambda>x. host_key shard_of x = k) xs)"
    using host_sends_all [OF alloc(1) core host(1) [unfolded k'] host(2), of ctx] host(3) by auto
  then have sent: "mset ?qs = mset ?reqs" using tasks requests_of_actor [of shard_of aid k xs] alloc(2) by simp
  have len: "length cs = length ?reqs" using clients(3) by (metis length_map)
  have req: "sharded_request M (Some n) mt at sd (fst (cs ! i)) (snd (cs ! i)) = Inr (?reqs ! i)" if "i < length cs" for i
    using clients(3) that len by (metis (mono_tags, lifting) case_prod_beta nth_map)
  have each: "\<exists>tx m. sharded_request M (Some n) mt at sd tx m = Inr q" if "q \<in> set ?qs" for q
  proof -
    have "q \<in> set ?reqs" using that mset_eq_setD [OF sent] by blast
    then obtain i where "i < length ?reqs" "q = ?reqs ! i" by (metis in_set_conv_nth)
    with req len show ?thesis by metis
  qed
  have known: "\<forall>m\<in>insert q0 (snd ` set (qs @ qs')). known mh m"
  proof
    fix q assume "q \<in> insert q0 (snd ` set (qs @ qs'))"
    then have "q \<in> set ?qs" by auto
    from each [OF this] sharded_request_fields(2) wire(2) show "known mh q" by (metis option.distinct(1))
  qed
  have "q0 \<in> set ?qs" by simp
  with each clients(2) have recipe: "er_recipe q0 = Some rcp" by (metis sharded_request_fields(3))
  have acts: "acts_for aid str = start_acts (persistent_entities sh) aid rcp @ map (\<lambda>m. SpawnDirect er (to_buffer mh m)) ?qs"
    using entity_requests_delivered [OF shard known recipe] by simp
  let ?view = "\<lambda>b. (req_result_channel b, from_bytes M (req_message b))"
  have "map (?view \<circ> to_buffer mh) ?reqs = map (\<lambda>(tx, m). (Some tx, Inr m)) cs"
  proof (rule nth_equalityI)
    fix i assume "i < length (map (?view \<circ> to_buffer mh) ?reqs)"
    then have i: "i < length cs" using len by simp
    note f = sharded_request_fields(4,5) [OF req [OF i]]
    from wire_message.wire_roundtrip [OF wire(1) f(2)] f(1) i len
    show "map (?view \<circ> to_buffer mh) ?reqs ! i = map (\<lambda>(tx, m). (Some tx, Inr m)) cs ! i"
      by (simp add: buffered_def case_prod_beta)
  qed (simp add: len)
  moreover have "mset (map (?view \<circ> to_buffer mh) ?qs) = mset (map (?view \<circ> to_buffer mh) ?reqs)"
    using arg_cong [OF sent, of "image_mset (?view \<circ> to_buffer mh)"] by (simp only: mset_map)
  moreover have "delivered_to er (acts_for aid str) = map (to_buffer mh) ?qs" "creations (acts_for aid str) = 1"
    unfolding acts start_then_deliver by (simp_all only: delivered_directly creations_directly One_nat_def)
  ultimately show ?thesis by (simp only: map_map simp_thms)
qed

definition ex_chat_message :: "(bytes, unit) message_impl" where
  "ex_chat_message = \<lparr>as_bytes = Inr, from_bytes = Inr, read_remote_result = (\<lambda>_. Inr ()), write_remote_result = (\<lambda>_. Inr [])\<rparr>"

theorem sharded_requests_reach_entity_witness:
  "\<exists>sh' str. shard_run Some
       [InRequest 0 (ex_req [2]), InRequest 1 (ex_req [1]), InStarted ''e'' (Inr (start_actor ''E'' ''e'' ''sys'' 7))]
       (shard_new 1 ''E'' False) ex_shard_ctx = (sh', str) \<and>
     creations (acts_for ''e'' str) = 1 \<and>
     mset (map (\<lambda>b. (req_result_channel b, from_bytes ex_chat_message (req_message b)))
       (delivered_to (start_actor ''E'' ''e'' ''sys'' 7) (acts_for ''e'' str))) = {#(Some 4, Inr [1]), (Some 4, Inr [2])#}"
proof -
  let ?r = "start_actor ''Shard'' ''s'' ''sys'' 3" and ?er = "start_actor ''E'' ''e'' ''sys'' 7"
  let ?shard_of = "\<lambda>aid :: actor_id. of_nat (length aid) :: shard_id"
  let ?xs = "[HostRequest (ex_req [1]), HostAllocated 3 1 1, HostAllocated 3 1 1, HostShardReady 1 ?r, HostRequest (ex_req [2])]"
  let ?sd = "\<lparr>sharded_actor_id = ''e'', sharded_recipe = Some [9]\<rparr>"
  let ?ws = "[InRequest 0 (ex_req [2]), InRequest 1 (ex_req [1]), InStarted ''e'' (Inr ?er)]"
  have node: "env_node_id ex_env = 1" by (simp add: ex_env_def)
  have handler: "actor_handler ''E'' (config_build ''t'' None None None [] (with_actor ''E'' config_builder_new) :: unit remote_config) = Some ''E''"
    by (simp add: actor_handler_def config_build_def with_actor_def config_builder_new_def)
  obtain core sched where start: "sharding_try_start ''sys'' ex_types (env_node_id ex_env)
      (config_build ''t'' None None None [] (with_actor ''E'' config_builder_new) :: unit remote_config)
      ''E'' () (\<lambda>k. (10 + k, True)) ''chat'' None (Some scheduler_new) = Inr (Inr core, sched)"
    using try_start_succeeds [OF handler, of "\<lambda>k. (10 + k, True)" "''sys''" ex_types "env_node_id ex_env" "()" "''chat''" None scheduler_new]
    by auto
  obtain c' acts where coordinator: "handle_allocate_shard (Inr ()) \<lparr>alloc_shard_id = 1, alloc_rebalancing = False\<rparr> ex_coord =
      (Allocated 1 1, c', acts)"
    by (simp add: handle_allocate_shard_def allocate_shard_def allocate_def is_ready_def ex_coord_simp Let_def)
  have host: "filter (\<lambda>x. host_key ?shard_of x = 1) ?xs =
      map HostRequest [ex_req [1]] @ HostAllocated 3 1 (env_node_id ex_env) # [HostAllocated 3 1 1] @ HostShardReady 1 ?r # [HostRequest (ex_req [2])]"
    by (simp add: node ex_req_def)
  have settled: "\<forall>x\<in>set ([HostAllocated 3 1 1] @ [HostRequest (ex_req [2])]). settled_input ex_env x"
    by (simp add: settled_input_def node)
  from try_start_result [OF start] have core: "host_ok ?shard_of ''chat'' (core_host_state core)"
    "host_slot (core_host_state core) 1 = \<lparr>slot_hosted = None, slot_remote = None, slot_waiting = []\<rparr>"
    by (auto simp: host_ok_def host_ready_def pending_ok_def handle_init_def shard_host_new_def host_slot_def)
  obtain h' tr where run: "run_inputs (host_step ex_env ex_alloc) ?xs (core_host_state core, ex_shard_ctx) = Inr (h', tr)"
    and sent: "sent_to ?r (caused_for (host_key ?shard_of) 1 tr) = requests_in (filter (\<lambda>x. host_key ?shard_of x = 1) ?xs)"
    using host_sends_all [OF ex_alloc_stable core host settled, of ex_shard_ctx] by auto
  obtain sh' str where shard: "shard_run Some ?ws (shard_new 1 ''E'' False) ex_shard_ctx = (sh', str)"
    by (cases "shard_run Some ?ws (shard_new 1 ''E'' False) ex_shard_ctx")
  have "creations (acts_for ''e'' str) = 1 \<and>
      mset (map (\<lambda>b. (req_result_channel b, from_bytes ex_chat_message (req_message b))) (delivered_to ?er (acts_for ''e'' str))) =
      mset (map (\<lambda>(tx, m). (Some tx, Inr m)) [(4, [1]), (4, [2])])"
  proof (rule sharded_requests_reach_entity [OF start ex_alloc_stable _ coordinator _ host settled run, where M = ex_chat_message
        and sd = ?sd and n = "''t''" and mh = Some and hn = "''t''" and rcp = "[9]" and sh = "shard_new 1 ''E'' False"
        and ws = ?ws and sctx = ex_shard_ctx and sh' = sh' and ?t0.0 = 0 and ?q0.0 = "ex_req [2]" and qs = "[(1, ex_req [1])]" and qs' = "[]"])
    show "mset (ex_req [2] # map snd [(1, ex_req [1])] @ map snd []) =
        mset (filter (\<lambda>q. er_actor_id q = ''e'') (sent_to ?r (caused_for (host_key ?shard_of) 1 tr)))"
      unfolding sent by (simp add: ex_req_def)
    show "shard_run Some ?ws (shard_new 1 ''E'' False) ex_shard_ctx = (sh', str)" by (rule shard)
  qed (simp_all add: shard_new_def ex_req_def allocation_task_def node wire_message_def ex_chat_message_def sharded_request_def)
  with shard show ?thesis by auto
qed

end
