(* ===== verification/Admin_Api.thy ===== *)
theory Admin_Api
  imports Actor_Describe Shard_Balance Shard_Host System_Config
begin

text \<open>
  What the HTTP interface of a node shows: the views of \<open>remote/api\<close> of the cluster, the system, the
  hierarchy of actors and the sharded entities. The web server and the encoding as JSON are not
  modelled; a view is the record that is encoded.

  The answers of other actors are parameters, and so is the textual form of a time. A handler that
  unwraps an error or an answer that never comes panics.
\<close>

section \<open>Errors as text\<close>

definition show_wrap_err :: "message_wrap_err \<Rightarrow> string" where
  "show_wrap_err e =
     (case e of
        WrapNotTransmittable \<Rightarrow> ''Message serialisation not supported, messages must override Message::as_remote_envelop and Message::write_remote_result''
      | SerializationErr \<Rightarrow> ''Message failed to serialise''
      | WrapUnknown \<Rightarrow> ''Message failed to serialise, unknown error'')"

definition show_unwrap_err :: "message_unwrap_err \<Rightarrow> string" where
  "show_unwrap_err e =
     (case e of
        UnwrapNotTransmittable \<Rightarrow> ''Message deserialisation not supported, messages must override Message::as_remote_envelope, Message::from_remote_envelope, Message::read_remote_result, and Message::write_remote_result''
      | DeserializationErr \<Rightarrow> ''Message failed to deserialise''
      | UnwrapUnknown \<Rightarrow> ''Message failed to deserialise, unknown error'')"

definition show_ref_err :: "actor_ref_err \<Rightarrow> string" where
  "show_ref_err e =
     (case e of
        ActorUnavailable \<Rightarrow> ''actor unavailable''
      | NotFound i \<Rightarrow> ''actor '' @ i @ '' could not be found''
      | AlreadyExists i \<Rightarrow> ''actor '' @ i @ '' already exists''
      | Serialisation e \<Rightarrow> ''serialisation error ('' @ show_wrap_err e @ '')''
      | Deserialisation e \<Rightarrow> ''deserialisation error ('' @ show_unwrap_err e @ '')''
      | Timeout t \<Rightarrow> ''timeout (time_taken_millis='' @ show_nat (unat t) @ '')''
      | InvalidRef \<Rightarrow> ''failed to send message, ref is no longer valid''
      | ResultSendFailed \<Rightarrow> ''failed to send result, channel closed''
      | ResultChannelClosed \<Rightarrow> ''failed to read result, channel closed''
      | NotSupported i m t \<Rightarrow>
          ''Remoting not supported, no Handler<'' @ m @ ''> implementation for actor (id='' @ i @ '', type='' @ t @
          '') or the actor/message combination is not registered with the RemoteActorSystem configuration''
      | ActorStartFailed \<Rightarrow> ''actor failed to start, channel closed''
      | NotImplemented \<Rightarrow> ''functionality is not yet implemented'')"

section \<open>The nodes of the cluster\<close>

datatype api_node_status = ApiJoining | ApiHealthy | ApiUnhealthy | ApiTerminated

definition api_status_of :: "node_status \<Rightarrow> api_node_status" where
  "api_status_of s =
     (case s of Joining \<Rightarrow> ApiJoining | Healthy \<Rightarrow> ApiHealthy | Unhealthy \<Rightarrow> ApiUnhealthy | NodeTerminated \<Rightarrow> ApiTerminated)"

record cluster_node =
  cn_id :: node_id
  cn_addr :: string
  cn_tag :: string
  cn_ping_latency :: "nat option"
  cn_last_heartbeat :: "string option"
  cn_started_at :: "time option"
  cn_status :: api_node_status
  cn_attributes :: "(string, string) hash_map"

definition cluster_node_of :: "(time \<Rightarrow> string) \<Rightarrow> remote_node_state \<Rightarrow> cluster_node" where
  "cluster_node_of show_time n =
     \<lparr>cn_id = state_id n, cn_addr = state_addr n, cn_tag = state_tag n, cn_ping_latency = ping_latency n,
      cn_last_heartbeat = map_option show_time (last_heartbeat n), cn_started_at = state_started_at n,
      cn_status = api_status_of (node_status n), cn_attributes = collect_map (state_attributes n)\<rparr>"

record cluster_nodes =
  cns_node_id :: node_id
  cns_leader_node :: "node_id option"
  cns_leader_tag :: "string option"
  cns_nodes :: "cluster_node list"

definition api_get_nodes :: "(time \<Rightarrow> string) \<Rightarrow> 'h remote_system \<Rightarrow> remote_node_state list \<Rightarrow> cluster_nodes" where
  "api_get_nodes show_time sys ns =
     (let leader = current_leader (rsys_leader sys);
          views = sort_key cn_id (map (cluster_node_of show_time) ns)
      in \<lparr>cns_node_id = rsys_node_id sys, cns_leader_node = leader,
          cns_leader_tag =
            (if leader = Some (rsys_node_id sys) then Some (rc_node_tag (rsys_config sys))
             else map_option cn_tag (find (\<lambda>n. Some (cn_id n) = leader) views)),
          cns_nodes = views\<rparr>)"

section \<open>Health and statistics of the system\<close>

record system_health =
  shl_status :: health_status
  shl_node_id :: node_id
  shl_node_tag :: string
  shl_node_version :: string
  shl_started_at :: time
  shl_leader :: "node_id option"
  shl_runtime_version :: string
  shl_response_times :: "(actor_path, nat option) hash_map"
  shl_nodes :: "remote_node_state list"

definition system_health_of ::
  "'h remote_system \<Rightarrow> time \<Rightarrow> string \<Rightarrow> remote_node_state list \<Rightarrow> health_status \<times> (actor_path, nat option) hash_map \<Rightarrow>
   system_health" where
  "system_health_of sys started_at pkg_version ns checks =
     \<lparr>shl_status = fst checks, shl_node_id = rsys_node_id sys, shl_node_tag = rc_node_tag (rsys_config sys),
      shl_node_version = rc_node_version (rsys_config sys), shl_started_at = started_at,
      shl_leader = current_leader (rsys_leader sys), shl_runtime_version = pkg_version,
      shl_response_times = snd checks, shl_nodes = ns\<rparr>"

datatype api_health_status = ApiHealthHealthy | ApiHealthDegraded | ApiHealthUnhealthy

definition api_health_status_of :: "health_status \<Rightarrow> api_health_status" where
  "api_health_status_of s =
     (case s of HealthHealthy \<Rightarrow> ApiHealthHealthy | HealthDegraded \<Rightarrow> ApiHealthDegraded | HealthUnhealthy \<Rightarrow> ApiHealthUnhealthy)"

record api_system_health =
  ash_status :: api_health_status
  ash_node_id :: node_id
  ash_node_tag :: string
  ash_node_version :: string
  ash_started_at :: time
  ash_runtime_version :: string
  ash_response_times :: "(actor_path, nat option) hash_map"
  ash_leader :: "node_id option"
  ash_nodes :: "cluster_node list"

definition api_health :: "(time \<Rightarrow> string) \<Rightarrow> system_health \<Rightarrow> api_system_health" where
  "api_health show_time h =
     \<lparr>ash_status = api_health_status_of (shl_status h), ash_node_id = shl_node_id h, ash_node_tag = shl_node_tag h,
      ash_node_version = shl_node_version h, ash_started_at = shl_started_at h,
      ash_runtime_version = shl_runtime_version h, ash_response_times = shl_response_times h,
      ash_leader = shl_leader h, ash_nodes = map (cluster_node_of show_time) (shl_nodes h)\<rparr>"

record system_stats =
  sys_inflight_requests :: nat
  sys_tracked_actors :: nat
  sys_ref_cache_len :: nat

text \<open>The number of references in the cache of \<open>cached_actor_ref\<close>, and the count of tracked actors.\<close>

definition actor_ref_cache_size :: "(actor_id, actor_ref) hash_map \<Rightarrow> nat" where
  "actor_ref_cache_size c = length c"

definition api_system_stats ::
  "remote_handler \<Rightarrow> actor_scheduler option \<Rightarrow> (actor_id, actor_ref) hash_map \<Rightarrow> system_stats may_panic" where
  "api_system_stats tb sched cache =
     (case sched of
        None \<Rightarrow> Inl (Panic ''called unwrap on an Err value'')
      | Some s \<Rightarrow>
          Inr \<lparr>sys_inflight_requests = inflight_request_count tb, sys_tracked_actors = actor_count s,
               sys_ref_cache_len = actor_ref_cache_size cache\<rparr>)"

section \<open>The hierarchy of actors\<close>

record get_all_query =
  ga_max_depth :: "nat option"
  ga_max_children :: "nat option"
  ga_timeout :: "nat option"
  ga_attached :: bool

definition describe_options_of :: "get_all_query \<Rightarrow> describe_options" where
  "describe_options_of g =
     \<lparr>max_depth = ga_max_depth g, max_children = ga_max_children g, child_describe_timeout = ga_timeout g,
      child_describe_attached = ga_attached g\<rparr>"

datatype api_status = ApiOk | ApiErr string | ApiTimeout

datatype api_tags = ApiNoTags | ApiTag string | ApiTags "string list"

definition api_tags_of :: "actor_tags \<Rightarrow> api_tags" where
  "api_tags_of t = (case t of NoTags \<Rightarrow> ApiNoTags | Tag x \<Rightarrow> ApiTag x | Tags xs \<Rightarrow> ApiTags xs)"

datatype api_actor =
  ApiActor (api_actor_id: actor_id) (api_path: actor_path) (api_actor_status: api_status) (api_type: type_name)
    (api_context_id: "u64 option") (api_actor_tags: "api_tags option") (api_supervised: "api_actor list option")
    (api_time_taken: "nat option")

primrec api_actor_of :: "describe_result \<Rightarrow> api_actor"
  and api_actor_of_description :: "actor_description \<Rightarrow> api_actor" where
  "api_actor_of (DescribeOk d) = api_actor_of_description d"
| "api_actor_of (DescribeErr e i p ty) =
     ApiActor i (p @ ''/'' @ i) (ApiErr (show_ref_err e)) ty None None None None"
| "api_actor_of (DescribeTimeout i p ty) = ApiActor i (p @ ''/'' @ i) ApiTimeout ty None None None None"
| "api_actor_of_description (ActorDescription i p ty c tg subs t) =
     ApiActor i p ApiOk ty (Some c) (Some (api_tags_of tg)) (map_option (map api_actor_of) subs) t"

text \<open>\<open>get_all\<close> asks the scheduler; fuel bounds the depth of the description.\<close>

definition api_get_all :: "nat \<Rightarrow> world \<Rightarrow> get_all_query \<Rightarrow> actor_ref \<Rightarrow> actor_scheduler \<Rightarrow> api_actor list" where
  "api_get_all n W g self s = map api_actor_of (handle_describe_all n W (describe_options_of g) self s)"

section \<open>Sharded entities\<close>

record sharding_api =
  sa_hosts :: "(string, actor_ref) hash_map"

definition sharding_api_default :: sharding_api where
  "sharding_api_default = \<lparr>sa_hosts = []\<rparr>"

definition sharding_api_attach :: "string \<Rightarrow> actor_ref \<Rightarrow> sharding_api \<Rightarrow> sharding_api" where
  "sharding_api_attach entity host api = api\<lparr>sa_hosts := hm_insert entity host (sa_hosts api)\<rparr>"

definition get_shard_types :: "sharding_api \<Rightarrow> string list" where
  "get_shard_types api = hm_keys (sa_hosts api)"

text \<open>
  \<open>ask\<close> is what a host answers to \<open>GetStats\<close>: \<open>None\<close> when the message is not handled or the channel it
  returned is dropped.
\<close>

definition api_host_stats :: "(actor_ref \<Rightarrow> host_stats option) \<Rightarrow> string \<Rightarrow> sharding_api \<Rightarrow> host_stats option" where
  "api_host_stats ask entity api = Option.bind (hm_get (sa_hosts api) entity) ask"

record node_shard_stats =
  nss_entity :: string
  nss_total_shards :: nat
  nss_hosted_shards :: "(shard_id, shard_stats) hash_map"
  nss_remote_shards :: "(shard_id, node_id) hash_map"

definition node_shard_stats_of :: "string \<Rightarrow> host_stats \<Rightarrow> node_shard_stats" where
  "node_shard_stats_of entity s =
     \<lparr>nss_entity = entity, nss_total_shards = hs_hosted_shard_count s + hs_remote_shard_count s,
      nss_hosted_shards = [], nss_remote_shards = []\<rparr>"

definition api_get_stats :: "(actor_ref \<Rightarrow> host_stats option) \<Rightarrow> string \<Rightarrow> sharding_api \<Rightarrow> node_shard_stats option" where
  "api_get_stats ask entity api =
     (case hm_get (sa_hosts api) entity of
        None \<Rightarrow> None
      | Some host \<Rightarrow> map_option (node_shard_stats_of entity) (ask host))"

fun all_stats_loop ::
  "(actor_ref \<Rightarrow> host_stats option) \<Rightarrow> (string \<times> actor_ref) list \<Rightarrow> (string, node_shard_stats) hash_map \<Rightarrow>
   (string, node_shard_stats) hash_map" where
  "all_stats_loop ask [] stats = stats"
| "all_stats_loop ask ((entity, host) # hs) stats =
     (case ask host of
        Some s \<Rightarrow> all_stats_loop ask hs (hm_insert entity (node_shard_stats_of entity s) stats)
      | None \<Rightarrow> all_stats_loop ask hs stats)"

definition api_get_all_stats ::
  "(actor_ref \<Rightarrow> host_stats option) \<Rightarrow> sharding_api \<Rightarrow> (string, node_shard_stats) hash_map" where
  "api_get_all_stats ask api = all_stats_loop ask (sa_hosts api) []"

section \<open>The sharding cluster\<close>

datatype api_host_status = ApiHostUnknown | ApiHostStarting | ApiHostReady | ApiHostUnavailable

definition api_host_status_of :: "shard_host_status \<Rightarrow> api_host_status" where
  "api_host_status_of s =
     (case s of
        HostUnknown \<Rightarrow> ApiHostUnknown
      | HostStarting \<Rightarrow> ApiHostStarting
      | HostReady \<Rightarrow> ApiHostReady
      | HostUnavailable \<Rightarrow> ApiHostUnavailable)"

definition api_is_available :: "api_host_status \<Rightarrow> bool" where
  "api_is_available s = (case s of ApiHostReady \<Rightarrow> True | _ \<Rightarrow> False)"

record sharding_node =
  sn_node_id :: node_id
  sn_shard_count :: u64
  sn_status :: api_host_status

definition sharding_node_of :: "node_stats \<Rightarrow> sharding_node" where
  "sharding_node_of n =
     \<lparr>sn_node_id = stats_node_id n, sn_shard_count = stats_shard_count n, sn_status = api_host_status_of (stats_status n)\<rparr>"

record api_shard_stats =
  ass_shard_id :: shard_id
  ass_node_id :: node_id
  ass_entity_count :: u32
  ass_entities :: "string list"

definition api_shard_stats_of :: "shard_stats \<Rightarrow> api_shard_stats" where
  "api_shard_stats_of s =
     \<lparr>ass_shard_id = sst_shard_id s, ass_node_id = sst_node_id s,
      ass_entity_count = of_nat (length (sst_entities s)), ass_entities = sst_entities s\<rparr>"

record sharding_cluster_stats =
  scs_entity_type :: string
  scs_total_shards :: u64
  scs_total_nodes :: u32
  scs_available_nodes :: u32
  scs_total_entities :: u32
  scs_nodes :: "sharding_node list"
  scs_shards :: "api_shard_stats list"

datatype api_shard_ref = LocalShardRef actor_ref | RemoteShardRef actor_id node_id

text \<open>\<open>tracked\<close> is the look-up of a shard's actor in the scheduler of this node.\<close>

fun get_shards ::
  "string \<Rightarrow> node_id \<Rightarrow> (actor_id \<Rightarrow> actor_ref option) \<Rightarrow> (shard_id \<times> node_id) list \<Rightarrow> api_shard_ref list" where
  "get_shards entity self tracked [] = []"
| "get_shards entity self tracked ((sid, nid) # ss) =
     (let aid = shard_actor_id entity sid in
      if nid = self then
        (case tracked aid of
           Some r \<Rightarrow> LocalShardRef r # get_shards entity self tracked ss
         | None \<Rightarrow> get_shards entity self tracked ss)
      else RemoteShardRef aid nid # get_shards entity self tracked ss)"

fun unwrap_all :: "('e + 'a) list \<Rightarrow> ('a list) may_panic" where
  "unwrap_all [] = Inr []"
| "unwrap_all (Inl _ # xs) = Inl (Panic ''called unwrap on an Err value'')"
| "unwrap_all (Inr x # xs) = map_sum id ((#) x) (unwrap_all xs)"

text \<open>
  The task of \<open>Handler<GetClusterStats>\<close>: \<open>coordinator\<close> is whether the host told the coordinator,
  \<open>stats\<close> the coordinator's answer and \<open>ask\<close> that of a shard.
\<close>

definition cluster_stats_task ::
  "string \<Rightarrow> node_id \<Rightarrow> (actor_id \<Rightarrow> actor_ref option) \<Rightarrow> (api_shard_ref \<Rightarrow> actor_ref_err + shard_stats) \<Rightarrow> bool \<Rightarrow>
   actor_ref_err + sharding_stats \<Rightarrow> (sharding_cluster_stats option) may_panic" where
  "cluster_stats_task entity self tracked ask coordinator stats =
     (if \<not> coordinator then Inr None
      else case stats of
        Inl _ \<Rightarrow> Inl (Panic ''called unwrap on an Err value'')
      | Inr st \<Rightarrow>
          (let refs = get_shards entity self tracked (stats_shards st);
               ns = map sharding_node_of (stats_nodes st)
           in map_sum id
                (\<lambda>answers.
                   (let ss = map api_shard_stats_of answers
                    in Some \<lparr>scs_entity_type = stats_entity_type st, scs_total_shards = stats_total_shards st,
                             scs_total_nodes = of_nat (length ns),
                             scs_available_nodes = of_nat (length (filter (api_is_available \<circ> sn_status) ns)),
                             scs_total_entities = sum_list (map ass_entity_count ss),
                             scs_nodes = ns, scs_shards = ss\<rparr>))
                (unwrap_all (map ask refs))))"

text \<open>The handler and the web function around it: an unknown entity is \<open>None\<close>, a task that panicked
  drops its channel, on which the function panics in turn.\<close>

definition api_cluster_stats ::
  "sharding_api \<Rightarrow> string \<Rightarrow> (sharding_cluster_stats option) may_panic \<Rightarrow> (sharding_cluster_stats option) may_panic" where
  "api_cluster_stats api entity task =
     (if hm_get (sa_hosts api) entity = None then Inr None
      else case task of Inl _ \<Rightarrow> Inl (Panic ''called unwrap on an Err value'') | Inr r \<Rightarrow> Inr r)"

section \<open>What the views show\<close>

text \<open>The nodes are shown in the order of their ids, each once, and the leader is shown with the tag it has.\<close>

theorem nodes_view_sorted:
  assumes "distinct (map state_id ns)"
  shows "sorted (map cn_id (cns_nodes (api_get_nodes show_time sys ns))) \<and>
         distinct (map cn_id (cns_nodes (api_get_nodes show_time sys ns))) \<and>
         set (cns_nodes (api_get_nodes show_time sys ns)) = cluster_node_of show_time ` set ns \<and>
         (\<forall>n\<in>set ns. current_leader (rsys_leader sys) = Some (state_id n) \<longrightarrow> state_id n \<noteq> rsys_node_id sys \<longrightarrow>
            cns_leader_tag (api_get_nodes show_time sys ns) = Some (state_tag n))"
proof -
  let ?vs = "sort_key cn_id (map (cluster_node_of show_time) ns)"
  have ids: "map cn_id (map (cluster_node_of show_time) ns) = map state_id ns" by (simp add: cluster_node_of_def)
  have d: "distinct (map cn_id ?vs)"
    using assms by (metis ids distinct_map distinct_sort set_sort)
  have tag: "map_option cn_tag (find (\<lambda>v. Some (cn_id v) = Some (state_id n)) ?vs) = Some (state_tag n)" if "n \<in> set ns" for n
  proof -
    let ?v = "cluster_node_of show_time n"
    have v: "?v \<in> set ?vs" "cn_id ?v = state_id n" using that by (simp_all add: cluster_node_of_def)
    obtain w where w: "find (\<lambda>v. Some (cn_id v) = Some (state_id n)) ?vs = Some w"
      using v by (metis (mono_tags, lifting) find_None_iff option.exhaust)
    then have "w \<in> set ?vs" "cn_id w = state_id n" by (auto simp: find_Some_iff simp del: set_sort)
    with d v have "w = ?v" by (metis distinct_map inj_onD)
    with w show ?thesis by (simp add: cluster_node_of_def)
  qed
  show ?thesis using d tag by (auto simp: api_get_nodes_def Let_def)
qed

text \<open>The hierarchy is shown in full: the view of a description that succeeded names the actors of the
  description, each under its id and path.\<close>

primrec shown_actors :: "api_actor \<Rightarrow> (actor_id \<times> actor_path) set" where
  "shown_actors (ApiActor i p st ty c tg subs t) =
     (if st = ApiOk then insert (i, p) (case map_option (map shown_actors) subs of None \<Rightarrow> {} | Some xs \<Rightarrow> \<Union> (set xs)) else {})"

lemma actor_views:
  "shown_actors (api_actor_of r) = described_result r"
  "shown_actors (api_actor_of_description d) = described_in d"
  by (induction r and d) (auto split: option.splits simp: option.map_comp comp_def image_image cong: option.map_cong)

lemma get_all_shows:
  "(\<Union>a\<in>set (api_get_all n W g self s). shown_actors a) =
   (\<Union>r\<in>set (handle_describe_all n W (describe_options_of g) self s). described_result r)"
  by (simp add: api_get_all_def actor_views)

section \<open>What the sharding view shows\<close>

lemma unwrap_all_Inr: "unwrap_all (map Inr xs) = Inr xs"
  by (induction xs) simp_all

lemma unwrap_all_panics: "Inl e \<in> set xs \<Longrightarrow> \<exists>p. unwrap_all xs = Inl p"
  by (induction xs rule: unwrap_all.induct) auto

text \<open>The shards whose actors are asked: those on other nodes, and those whose actor is known here.\<close>

definition asked_shards ::
  "string \<Rightarrow> node_id \<Rightarrow> (actor_id \<Rightarrow> actor_ref option) \<Rightarrow> (shard_id \<times> node_id) list \<Rightarrow> (shard_id \<times> node_id) list" where
  "asked_shards entity self tracked ss =
     filter (\<lambda>(sid, nid). nid = self \<longrightarrow> tracked (shard_actor_id entity sid) \<noteq> None) ss"

definition shard_ref_at :: "string \<Rightarrow> node_id \<Rightarrow> (actor_id \<Rightarrow> actor_ref option) \<Rightarrow> shard_id \<times> node_id \<Rightarrow> api_shard_ref" where
  "shard_ref_at entity self tracked p =
     (if snd p = self then LocalShardRef (the (tracked (shard_actor_id entity (fst p))))
      else RemoteShardRef (shard_actor_id entity (fst p)) (snd p))"

lemma get_shards_asked:
  "get_shards entity self tracked ss = map (shard_ref_at entity self tracked) (asked_shards entity self tracked ss)"
  by (induction entity self tracked ss rule: get_shards.induct)
     (auto simp: asked_shards_def shard_ref_at_def Let_def split: option.split)

lemma node_counts_add_up:
  assumes "coord_ok c"
  shows "sum_list (map sn_shard_count (map sharding_node_of (stats_nodes (get_sharding_stats c)))) =
         stats_total_shards (get_sharding_stats c)"
proof -
  have wf: "hm_wf (hosts c)" using assms by (simp add: coord_ok_except_def hosts_ok_def)
  have "length (host_shards h) = load c n" if "(n, h) \<in> set (hosts c)" for n h
    using that wf by (simp add: load_def hm_get_in_set [THEN iffD2])
  then have "map (\<lambda>p. of_nat (length (host_shards (snd p))) :: u64) (hosts c) = map (\<lambda>p. of_nat (load c (fst p))) (hosts c)"
    by (intro map_cong) auto
  moreover have "sum_list (map (\<lambda>p. of_nat (load c (fst p)) :: u64) (hosts c)) = of_nat (\<Sum>n\<in>fst ` set (hosts c). load c n)"
  proof -
    have "sum_list (map (\<lambda>p. of_nat (load c (fst p)) :: u64) (hosts c)) =
        sum_list (map (\<lambda>n. of_nat (load c n)) (map fst (hosts c)))" by (simp add: comp_def)
    also have "\<dots> = (\<Sum>n\<in>set (map fst (hosts c)). of_nat (load c n))" by (rule sum_list_distinct_conv_sum_set [OF wf])
    finally show ?thesis by simp
  qed
  ultimately have "sum_list (map (\<lambda>p. of_nat (length (host_shards (snd p))) :: u64) (hosts c)) = of_nat (length (shards c))"
    using total_load [OF assms] by (simp only:)
  then show ?thesis by (simp add: get_sharding_stats_def sharding_node_of_def comp_def case_prod_beta)
qed

text \<open>C37: The statistics of a sharded entity are consistent. For a coordinator that satisfies its invariant, with a shard
  actor \<open>S sid\<close> behind every reference: the request succeeds; the number of shards is the sum of the numbers
  of the nodes; the available nodes are those whose host is ready; every shard is listed once, on the node the
  coordinator assigned it to, except those assigned to this node whose actor is not known here; the number of
  entities is the sum over the listed shards.\<close>

theorem cluster_stats_consistent:
  assumes "coord_ok c" "hm_get (sa_hosts api) (shard_entity c) = Some host"
    and "\<forall>sid. shard_id (S sid) = sid"
    and "\<forall>(sid, nid)\<in>set (asked_shards (shard_entity c) self tracked (shards c)).
           ask (shard_ref_at (shard_entity c) self tracked (sid, nid)) = Inr (get_shard_stats nid (S sid))"
  shows "\<exists>v. api_cluster_stats api (shard_entity c)
               (cluster_stats_task (shard_entity c) self tracked ask True (Inr (get_sharding_stats c))) = Inr (Some v) \<and>
           scs_total_shards v = of_nat (length (shards c)) \<and>
           sum_list (map sn_shard_count (scs_nodes v)) = scs_total_shards v \<and>
           scs_available_nodes v = of_nat (length (filter (is_ready \<circ> snd) (hosts c))) \<and>
           map (\<lambda>s. (ass_shard_id s, ass_node_id s)) (scs_shards v) = asked_shards (shard_entity c) self tracked (shards c) \<and>
           distinct (map ass_shard_id (scs_shards v)) \<and>
           (\<forall>s\<in>set (scs_shards v). on c (ass_node_id s) (ass_shard_id s)) \<and>
           scs_total_entities v = sum_list (map (of_nat \<circ> length \<circ> ass_entities) (scs_shards v))"
proof -
  let ?ss = "asked_shards (shard_entity c) self tracked (shards c)"
  let ?as = "map (\<lambda>(sid, nid). get_shard_stats nid (S sid)) ?ss"
  let ?ns = "map sharding_node_of (stats_nodes (get_sharding_stats c))"
  have "map ask (get_shards (shard_entity c) self tracked (shards c)) = map Inr ?as"
    using assms(4) by (auto simp: get_shards_asked)
  then have "unwrap_all (map ask (get_shards (shard_entity c) self tracked (shards c))) = Inr ?as"
    by (simp only: unwrap_all_Inr)
  moreover have listed: "map (\<lambda>s. (ass_shard_id s, ass_node_id s)) (map api_shard_stats_of ?as) = ?ss"
    using assms(3) by (simp add: api_shard_stats_of_def get_shard_stats_def comp_def case_prod_beta)
  moreover have "length (filter (api_is_available \<circ> sn_status) (map sharding_node_of (stats_nodes (get_sharding_stats c)))) =
      length (filter (is_ready \<circ> snd) (hosts c))"
    by (simp add: get_sharding_stats_def sharding_node_of_def api_is_available_def api_host_status_of_def is_ready_def
        filter_map comp_def case_prod_beta split: shard_host_status.splits)
  moreover have wf: "hm_wf (shards c)" and agree: "\<And>s n. hm_get (shards c) s = Some n \<longleftrightarrow> on c n s"
    using assms(1) by (auto simp: coord_ok_except_def hosts_ok_def)
  moreover have "distinct (map fst ?ss)" using wf by (simp add: asked_shards_def distinct_map_filter)
  moreover have "on c n s" if "(s, n) \<in> set ?ss" for s n
    using that agree wf by (auto simp: asked_shards_def hm_get_in_set)
  ultimately have facts: "unwrap_all (map ask (get_shards (shard_entity c) self tracked (shards c))) = Inr ?as"
    "length (filter (api_is_available \<circ> sn_status) ?ns) = length (filter (is_ready \<circ> snd) (hosts c))"
    "distinct (map fst ?ss)" "\<And>s n. (s, n) \<in> set ?ss \<Longrightarrow> on c n s" by blast+
  have total: "stats_total_shards (get_sharding_stats c) = of_nat (length (shards c))"
    "stats_shards (get_sharding_stats c) = shards c" by (simp_all add: get_sharding_stats_def)
  have ids: "map ass_shard_id (map api_shard_stats_of ?as) = map fst ?ss"
    using arg_cong [OF listed, of "map fst"] by (simp add: comp_def)
  have placed: "on c (ass_node_id s) (ass_shard_id s)" if "s \<in> set (map api_shard_stats_of ?as)" for s
    using that listed facts(4) by (metis (mono_tags, lifting) image_eqI list.set_map)
  have counts: "map ass_entity_count (map api_shard_stats_of ?as) = map (of_nat \<circ> length \<circ> ass_entities) (map api_shard_stats_of ?as)"
    by (simp add: api_shard_stats_of_def)
  let ?v = "\<lparr>scs_entity_type = stats_entity_type (get_sharding_stats c),
      scs_total_shards = stats_total_shards (get_sharding_stats c), scs_total_nodes = of_nat (length ?ns),
      scs_available_nodes = of_nat (length (filter (api_is_available \<circ> sn_status) ?ns)),
      scs_total_entities = sum_list (map ass_entity_count (map api_shard_stats_of ?as)), scs_nodes = ?ns,
      scs_shards = map api_shard_stats_of ?as\<rparr>"
  have "cluster_stats_task (shard_entity c) self tracked ask True (Inr (get_sharding_stats c)) = Inr (Some ?v)"
    unfolding cluster_stats_task_def Let_def by (simp only: total(2) facts(1) sum.case map_sum.simps not_True_eq_False if_False)
  then have "api_cluster_stats api (shard_entity c)
      (cluster_stats_task (shard_entity c) self tracked ask True (Inr (get_sharding_stats c))) = Inr (Some ?v)"
    using assms(2) by (simp add: api_cluster_stats_def)
  then show ?thesis
    by (intro exI [of _ ?v] conjI ballI)
       (simp_all only: sharding_cluster_stats.select_convs total(1) node_counts_add_up [OF assms(1)] facts(2,3) listed ids placed counts)
qed

definition ex_api :: sharding_api where
  "ex_api = sharding_api_attach (shard_entity ex_skewed)
     \<lparr>ref_id = ''h'', ref_path = ''p'', ref_type = ''ShardHost'', ref_mailbox = 0\<rparr> sharding_api_default"

definition ex_ask :: "api_shard_ref \<Rightarrow> actor_ref_err + shard_stats" where
  "ex_ask r = Inr (get_shard_stats 1 (shard_new
     (if r = RemoteShardRef (shard_actor_id (shard_entity ex_skewed) 7) 1 then 7 else 8) ''E'' False))"

theorem cluster_stats_consistent_witness:
  "\<exists>v. api_cluster_stats ex_api (shard_entity ex_skewed)
         (cluster_stats_task (shard_entity ex_skewed) 2 (\<lambda>_. None) ex_ask True (Inr (get_sharding_stats ex_skewed))) = Inr (Some v) \<and>
     scs_total_shards v = 2 \<and> scs_available_nodes v = 2 \<and>
     map (\<lambda>s. (ass_shard_id s, ass_node_id s)) (scs_shards v) = [(7, 1), (8, 1)]"
proof -
  have ok: "coord_ok ex_skewed" using ex_skewed_inv(1) by (simp add: coord_inv_def)
  have host: "hm_get (sa_hosts ex_api) (shard_entity ex_skewed) =
      Some \<lparr>ref_id = ''h'', ref_path = ''p'', ref_type = ''ShardHost'', ref_mailbox = 0\<rparr>"
    by (simp add: ex_api_def sharding_api_attach_def)
  have shards: "shards ex_skewed = [(7, 1), (8, 1)]" by (simp add: ex_skewed_def)
  have asked: "asked_shards (shard_entity ex_skewed) 2 (\<lambda>_. None) (shards ex_skewed) = [(7, 1), (8, 1)]"
    by (simp add: asked_shards_def shards)
  have "show_nat 7 \<noteq> show_nat 8" by (simp add: show_nat.simps digit_inj)
  then have ids: "shard_actor_id (shard_entity ex_skewed) 7 \<noteq> shard_actor_id (shard_entity ex_skewed) 8"
    by (simp add: shard_actor_id_def)
  have ask: "\<forall>(sid, nid)\<in>set (asked_shards (shard_entity ex_skewed) 2 (\<lambda>_. None) (shards ex_skewed)).
      ex_ask (shard_ref_at (shard_entity ex_skewed) 2 (\<lambda>_. None) (sid, nid)) = Inr (get_shard_stats nid (shard_new sid ''E'' False))"
    using ids unfolding asked by (simp add: ex_ask_def shard_ref_at_def)
  have ready: "length (filter (is_ready \<circ> snd) (hosts ex_skewed)) = 2" by (simp add: ex_skewed_def is_ready_def)
  show ?thesis
    using cluster_stats_consistent [OF ok host _ ask] unfolding ready asked [unfolded shards] shards
    by (auto simp: shard_new_def)
qed

text \<open>One shard that does not answer fails the whole request.\<close>

theorem silent_shard_fails_stats:
  assumes "hm_get (sa_hosts api) entity = Some host" "(sid, nid) \<in> set (asked_shards entity self tracked (stats_shards st))"
    and "ask (shard_ref_at entity self tracked (sid, nid)) = Inl e"
  shows "\<exists>p. api_cluster_stats api entity (cluster_stats_task entity self tracked ask True (Inr st)) = Inl p"
proof -
  have "shard_ref_at entity self tracked (sid, nid) \<in> set (get_shards entity self tracked (stats_shards st))"
    unfolding get_shards_asked set_map using assms(2) by (rule imageI)
  from imageI [OF this, of ask] have "Inl e \<in> set (map ask (get_shards entity self tracked (stats_shards st)))"
    by (simp only: assms(3) set_map)
  from unwrap_all_panics [OF this] obtain p
    where "unwrap_all (map ask (get_shards entity self tracked (stats_shards st))) = Inl p" by (rule exE)
  with assms(1) show ?thesis by (simp add: api_cluster_stats_def cluster_stats_task_def Let_def)
qed

text \<open>The view of one node counts its shards and lists none of them.\<close>

lemma node_view_lists_nothing:
  assumes "hm_get (sa_hosts api) entity = Some r" "ask r = Some (get_host_stats ans h)"
  shows "\<exists>v. api_get_stats ask entity api = Some v \<and>
           nss_total_shards v = length (hosted_shards h) + length (remote_shards h) \<and>
           nss_hosted_shards v = [] \<and> nss_remote_shards v = []"
  using assms by (simp add: api_get_stats_def node_shard_stats_of_def get_host_stats_def Let_def)

lemma all_stats_loop_get:
  assumes "distinct (map fst hs)"
  shows "hm_get (all_stats_loop ask hs m) e =
     (case hm_get hs e of
        Some r \<Rightarrow> (case ask r of Some s \<Rightarrow> Some (node_shard_stats_of e s) | None \<Rightarrow> hm_get m e)
      | None \<Rightarrow> hm_get m e)"
  using assms
proof (induction ask hs m rule: all_stats_loop.induct)
  case (2 ask entity host hs m)
  then have "hm_get hs entity = None" by (simp add: map_of_eq_None_iff)
  with 2 show ?case by (auto split: option.splits)
qed simp

text \<open>Asking for all entities gives what asking for each gives.\<close>

lemma all_stats_agree:
  "hm_wf (sa_hosts api) \<Longrightarrow> hm_get (api_get_all_stats ask api) e = api_get_stats ask e api"
  by (simp add: api_get_all_stats_def api_get_stats_def all_stats_loop_get split: option.split)

end
