(* ===== verification/Network_Wire.thy ===== *)
theory Network_Wire
  imports Wire_Codecs Net_Messages
begin

text \<open>
  The events between nodes over the generated code. \<open>Net_Messages\<close> has the encoders and decoders of the payloads as
  arguments; here they are the generated messages of \<open>Proto_Network\<close> over any protobuf runtime with the contract, with
  the numbers of the enums as the generated code has them, and the laws those arguments need are proved.

  A writer refuses (\<open>None\<close>) what the program cannot have: a number of an enum that it does not know, a time
  outside the range of its type, a nested message of four gigabytes; and, since both handshakes share a record,
  the fields of the other.
\<close>

section \<open>Numbers of the enums\<close>

definition error_type_value :: "error_type \<Rightarrow> i32" where
  "error_type_value e =
     (case e of ETActorUnavailable \<Rightarrow> 0 | ETNotFound \<Rightarrow> 1 | ETAlreadyExists \<Rightarrow> 2 | ETSerialisation \<Rightarrow> 3 | ETDeserialisation \<Rightarrow> 4
      | ETTimeout \<Rightarrow> 5 | ETActorStartFailed \<Rightarrow> 6 | ETInvalidRef \<Rightarrow> 7 | ETResultChannelClosed \<Rightarrow> 8 | ETResultSendFailed \<Rightarrow> 9
      | ETNotSupported \<Rightarrow> 10 | ETNotImplemented \<Rightarrow> 11)"

definition error_type_from_i32 :: "i32 \<Rightarrow> error_type option" where
  "error_type_from_i32 v =
     (if v = 0 then Some ETActorUnavailable else if v = 1 then Some ETNotFound else if v = 2 then Some ETAlreadyExists
      else if v = 3 then Some ETSerialisation else if v = 4 then Some ETDeserialisation else if v = 5 then Some ETTimeout
      else if v = 6 then Some ETActorStartFailed else if v = 7 then Some ETInvalidRef
      else if v = 8 then Some ETResultChannelClosed else if v = 9 then Some ETResultSendFailed
      else if v = 10 then Some ETNotSupported else if v = 11 then Some ETNotImplemented else None)"

definition wrap_err_value :: "proto_wrap_err \<Rightarrow> i32" where
  "wrap_err_value e = (case e of UnknownWrapErr \<Rightarrow> 0 | WrapUnsupported \<Rightarrow> 1 | ProtoSerializationErr \<Rightarrow> 2)"

definition wrap_err_from_i32 :: "i32 \<Rightarrow> proto_wrap_err option" where
  "wrap_err_from_i32 v =
     (if v = 0 then Some UnknownWrapErr else if v = 1 then Some WrapUnsupported
      else if v = 2 then Some ProtoSerializationErr else None)"

definition unwrap_err_value :: "proto_unwrap_err \<Rightarrow> i32" where
  "unwrap_err_value e = (case e of UnknownUnwrapErr \<Rightarrow> 0 | UnwrapUnsupported \<Rightarrow> 1 | ProtoDeserializationErr \<Rightarrow> 2)"

definition unwrap_err_from_i32 :: "i32 \<Rightarrow> proto_unwrap_err option" where
  "unwrap_err_from_i32 v =
     (if v = 0 then Some UnknownUnwrapErr else if v = 1 then Some UnwrapUnsupported
      else if v = 2 then Some ProtoDeserializationErr else None)"

definition client_type_value :: "client_type \<Rightarrow> i32" where
  "client_type_value t = (case t of ClientTypeClient \<Rightarrow> 0 | ClientTypeWorker \<Rightarrow> 1)"

definition client_type_from_i32 :: "i32 \<Rightarrow> client_type option" where
  "client_type_from_i32 v = (if v = 0 then Some ClientTypeClient else if v = 1 then Some ClientTypeWorker else None)"

lemma enum_numbers [simp]:
  "error_type_from_i32 (error_type_value e) = Some e" "wrap_err_from_i32 (wrap_err_value w) = Some w"
  "unwrap_err_from_i32 (unwrap_err_value u) = Some u" "client_type_from_i32 (client_type_value t) = Some t"
  by ((cases e; simp add: error_type_from_i32_def error_type_value_def),
      (cases w; simp add: wrap_err_from_i32_def wrap_err_value_def),
      (cases u; simp add: unwrap_err_from_i32_def unwrap_err_value_def),
      (cases t; simp add: client_type_from_i32_def client_type_value_def))

definition enum_number :: "('a \<Rightarrow> i32) \<Rightarrow> 'a option \<Rightarrow> i32" where
  "enum_number f v = (case v of Some x \<Rightarrow> f x | None \<Rightarrow> 0)"

lemma enum_number_Some [simp]: "enum_number f (Some x) = f x"
  by (simp add: enum_number_def)

section \<open>Payloads and generated messages\<close>

definition timestamp_into :: "timestamp \<Rightarrow> pb_timestamp" where
  "timestamp_into t = \<lparr>pb_timestamp.ts_seconds = timestamp.ts_seconds t, pb_timestamp.ts_nanos = timestamp.ts_nanos t\<rparr>"

definition timestamp_from :: "pb_timestamp \<Rightarrow> timestamp" where
  "timestamp_from t = \<lparr>timestamp.ts_seconds = pb_timestamp.ts_seconds t, timestamp.ts_nanos = pb_timestamp.ts_nanos t\<rparr>"

definition node_into :: "proto_node \<Rightarrow> pb_remote_node" where
  "node_into p =
     \<lparr>pb_remote_node_node_id = pn_node_id p, pb_remote_node_addr = pn_addr p,
      pb_remote_node_node_started_at = map_option timestamp_into (pn_started_at p), pb_remote_node_tag = pn_tag p,
      pb_remote_node_attributes = pn_attributes p\<rparr>"

definition node_of :: "pb_remote_node \<Rightarrow> proto_node" where
  "node_of m =
     \<lparr>pn_node_id = pb_remote_node_node_id m, pn_addr = pb_remote_node_addr m, pn_tag = pb_remote_node_tag m,
      pn_started_at = map_option timestamp_from (pb_remote_node_node_started_at m),
      pn_attributes = pb_remote_node_attributes m\<rparr>"

definition capabilities_into :: "system_capabilities \<Rightarrow> pb_system_capabilities" where
  "capabilities_into c = \<lparr>pb_system_capabilities_actors = cap_actors c, pb_system_capabilities_messages = cap_messages c\<rparr>"

definition capabilities_of :: "pb_system_capabilities \<Rightarrow> system_capabilities" where
  "capabilities_of m = \<lparr>cap_actors = pb_system_capabilities_actors m, cap_messages = pb_system_capabilities_messages m\<rparr>"

definition identity_into :: "proto_identity \<Rightarrow> pb_node_identity" where
  "identity_into p =
     \<lparr>pb_node_identity_node_id = pid_node_id p, pb_node_identity_node_tag = pid_node_tag p,
      pb_node_identity_addr = pid_addr p, pb_node_identity_application_version = pid_application_version p,
      pb_node_identity_protocol_version = [],
      pb_node_identity_node_started_at = map_option timestamp_into (pid_started_at p),
      pb_node_identity_peers = map node_into (pid_peers p),
      pb_node_identity_capabilities = map_option capabilities_into (pid_capabilities p),
      pb_node_identity_attributes = pid_attributes p\<rparr>"

definition identity_of :: "pb_node_identity \<Rightarrow> proto_identity" where
  "identity_of m =
     \<lparr>pid_node_id = pb_node_identity_node_id m, pid_node_tag = pb_node_identity_node_tag m,
      pid_addr = pb_node_identity_addr m, pid_application_version = pb_node_identity_application_version m,
      pid_started_at = map_option timestamp_from (pb_node_identity_node_started_at m),
      pid_peers = map node_of (pb_node_identity_peers m),
      pid_capabilities = map_option capabilities_of (pb_node_identity_capabilities m),
      pid_attributes = pb_node_identity_attributes m\<rparr>"

definition client_handshake_into :: "proto_handshake \<Rightarrow> pb_client_handshake" where
  "client_handshake_into p =
     \<lparr>pb_client_handshake_node_id = phs_node_id p, pb_client_handshake_nodes = map node_into (phs_nodes p),
      pb_client_handshake_node_tag = phs_node_tag p, pb_client_handshake_trace_id = phs_trace_id p,
      pb_client_handshake_node_started_at = map_option timestamp_into (phs_started_at p)\<rparr>"

definition client_handshake_of :: "pb_client_handshake \<Rightarrow> proto_handshake" where
  "client_handshake_of m =
     \<lparr>phs_node_id = pb_client_handshake_node_id m, phs_nodes = map node_of (pb_client_handshake_nodes m),
      phs_node_tag = pb_client_handshake_node_tag m, phs_trace_id = pb_client_handshake_trace_id m,
      phs_started_at = map_option timestamp_from (pb_client_handshake_node_started_at m), phs_token = [],
      phs_client_type = None\<rparr>"

definition session_handshake_into :: "proto_handshake \<Rightarrow> pb_session_handshake" where
  "session_handshake_into p =
     \<lparr>pb_session_handshake_node_id = phs_node_id p, pb_session_handshake_nodes = map node_into (phs_nodes p),
      pb_session_handshake_token = phs_token p, pb_session_handshake_node_tag = phs_node_tag p,
      pb_session_handshake_client_type = enum_number client_type_value (phs_client_type p),
      pb_session_handshake_trace_id = phs_trace_id p\<rparr>"

definition session_handshake_of :: "pb_session_handshake \<Rightarrow> proto_handshake" where
  "session_handshake_of m =
     \<lparr>phs_node_id = pb_session_handshake_node_id m, phs_nodes = map node_of (pb_session_handshake_nodes m),
      phs_node_tag = pb_session_handshake_node_tag m, phs_trace_id = pb_session_handshake_trace_id m,
      phs_started_at = None, phs_token = pb_session_handshake_token m,
      phs_client_type = client_type_from_i32 (pb_session_handshake_client_type m)\<rparr>"

definition ref_err_known :: "proto_ref_err \<Rightarrow> bool" where
  "ref_err_known p \<longleftrightarrow>
     pre_type p \<noteq> None \<and> pre_serialization_error p \<noteq> None \<and> pre_deserialization_error p \<noteq> None"

definition ref_err_into :: "proto_ref_err \<Rightarrow> pb_actor_ref_err" where
  "ref_err_into p =
     \<lparr>pb_actor_ref_err_type = enum_number error_type_value (pre_type p), pb_actor_ref_err_actor_id = pre_actor_id p,
      pb_actor_ref_err_message_type = pre_message_type p, pb_actor_ref_err_actor_type = pre_actor_type p,
      pb_actor_ref_err_time_taken_millis = pre_time_taken_millis p,
      pb_actor_ref_err_serialization_error = enum_number wrap_err_value (pre_serialization_error p),
      pb_actor_ref_err_deserialization_error = enum_number unwrap_err_value (pre_deserialization_error p)\<rparr>"

definition ref_err_of :: "pb_actor_ref_err \<Rightarrow> proto_ref_err" where
  "ref_err_of m =
     \<lparr>pre_type = error_type_from_i32 (pb_actor_ref_err_type m), pre_actor_id = pb_actor_ref_err_actor_id m,
      pre_message_type = pb_actor_ref_err_message_type m, pre_actor_type = pb_actor_ref_err_actor_type m,
      pre_time_taken_millis = pb_actor_ref_err_time_taken_millis m,
      pre_serialization_error = wrap_err_from_i32 (pb_actor_ref_err_serialization_error m),
      pre_deserialization_error = unwrap_err_from_i32 (pb_actor_ref_err_deserialization_error m)\<rparr>"

lemma timestamps_back [simp]: "map_option timestamp_from (map_option timestamp_into t) = t"
  by (cases t) (simp_all add: timestamp_from_def timestamp_into_def)

lemma node_back [simp]: "node_of (node_into p) = p"
  by (simp add: node_of_def node_into_def)

lemma nodes_back [simp]: "map node_of (map node_into ps) = ps"
  by (induction ps) simp_all

lemma capabilities_back [simp]: "map_option capabilities_of (map_option capabilities_into c) = c"
  by (cases c) (simp_all add: capabilities_of_def capabilities_into_def)

lemma identity_back: "identity_of (identity_into p) = p"
  by (simp add: identity_of_def identity_into_def del: map_map option.map_comp)

lemma ref_err_back: "ref_err_known p \<Longrightarrow> ref_err_of (ref_err_into p) = p"
  by (auto simp: ref_err_known_def ref_err_of_def ref_err_into_def)

section \<open>The codecs\<close>

definition wire_codec ::
  "'e proto_rt \<Rightarrow> (nat \<times> ('e, 'm) arm) list \<Rightarrow> 'm \<Rightarrow> ('m \<Rightarrow> 'e writer) \<Rightarrow> ('p \<Rightarrow> bool) \<Rightarrow> ('p \<Rightarrow> 'm) \<Rightarrow> ('m \<Rightarrow> 'p) \<Rightarrow>
   ('p, 'e option) codec" where
  "wire_codec R arms m_new wr ok into of_msg =
     (\<lambda>p. if ok p then map_sum Some id (wr (into p) []) else Inl None,
      \<lambda>b. run_parser of_msg (proto_parse R arms m_new b))"

definition generated_net :: "'e proto_rt \<Rightarrow> 'e option net_codec" where
  "generated_net R =
     \<lparr>c_identity = wire_codec R (pb_node_identity_arms R) pb_node_identity_new (pb_node_identity_write R)
        (\<lambda>p. pb_node_identity_ok R (identity_into p)) identity_into identity_of,
      c_client_handshake = wire_codec R (pb_client_handshake_arms R) pb_client_handshake_new (pb_client_handshake_write R)
        (\<lambda>p. pb_client_handshake_ok R (client_handshake_into p) \<and> phs_token p = [] \<and> phs_client_type p = None)
        client_handshake_into client_handshake_of,
      c_session_handshake = wire_codec R (pb_session_handshake_arms R) pb_session_handshake_new (pb_session_handshake_write R)
        (\<lambda>p. pb_session_handshake_ok R (session_handshake_into p) \<and> phs_started_at p = None \<and> phs_client_type p \<noteq> None)
        session_handshake_into session_handshake_of,
      c_identify = wire_codec R (pb_identify_event_arms R) pb_identify_event_new (pb_identify_event_write R) (\<lambda>_. True)
        (\<lambda>p. \<lparr>pb_identify_event_source_node_id = pidf_source_node_id p, pb_identify_event_source_node_tag = pidf_source_node_tag p,
              pb_identify_event_token = pidf_token p\<rparr>)
        (\<lambda>m. \<lparr>pidf_source_node_id = pb_identify_event_source_node_id m,
              pidf_source_node_tag = pb_identify_event_source_node_tag m, pidf_token = pb_identify_event_token m\<rparr>),
      c_result = wire_codec R (pb_client_result_arms R) pb_client_result_new (pb_client_result_write R) (\<lambda>_. True)
        (\<lambda>p. \<lparr>pb_client_result_message_id = cr_message_id p, pb_client_result_result = cr_result p,
              pb_client_result_trace_id = []\<rparr>)
        (\<lambda>m. \<lparr>cr_message_id = pb_client_result_message_id m, cr_result = pb_client_result_result m\<rparr>),
      c_err = wire_codec R (pb_client_err_arms R) pb_client_err_new (pb_client_err_write R)
        (\<lambda>p. case ce_error p of
               None \<Rightarrow> True
             | Some e \<Rightarrow> ref_err_known e \<and> pb_actor_ref_err_size R (ref_err_into e) < 2 ^ 32)
        (\<lambda>p. \<lparr>pb_client_err_message_id = ce_message_id p, pb_client_err_error = map_option ref_err_into (ce_error p),
              pb_client_err_trace_id = []\<rparr>)
        (\<lambda>m. \<lparr>ce_message_id = pb_client_err_message_id m, ce_error = map_option ref_err_of (pb_client_err_error m)\<rparr>),
      c_ping = wire_codec R (pb_ping_event_arms R) pb_ping_event_new (pb_ping_event_write R) (\<lambda>_. True)
        (\<lambda>p. \<lparr>pb_ping_event_message_id = ping_message_id p, pb_ping_event_trace_id = [], pb_ping_event_node_id = ping_node_id p,
              pb_ping_event_system_terminated = ping_system_terminated p\<rparr>)
        (\<lambda>m. \<lparr>ping_message_id = pb_ping_event_message_id m, ping_node_id = pb_ping_event_node_id m,
              ping_system_terminated = pb_ping_event_system_terminated m\<rparr>),
      c_pong = wire_codec R (pb_pong_event_arms R) pb_pong_event_new (pb_pong_event_write R) (\<lambda>_. True)
        (\<lambda>p. \<lparr>pb_pong_event_message_id = p, pb_pong_event_trace_id = []\<rparr>) pb_pong_event_message_id,
      c_notify = wire_codec R (pb_message_request_arms R) pb_message_request_new (pb_message_request_write R) (\<lambda>_. True)
        (\<lambda>p. \<lparr>pb_message_request_message_id = mr_message_id p, pb_message_request_handler_type = mr_handler_type p,
              pb_message_request_actor_id = mr_actor_id p, pb_message_request_message = mr_message p,
              pb_message_request_trace_id = [], pb_message_request_requires_response = mr_requires_response p,
              pb_message_request_origin_node_id = mr_origin_node_id p\<rparr>)
        (\<lambda>m. \<lparr>mr_message_id = pb_message_request_message_id m, mr_handler_type = pb_message_request_handler_type m,
              mr_actor_id = pb_message_request_actor_id m, mr_message = pb_message_request_message m,
              mr_requires_response = pb_message_request_requires_response m,
              mr_origin_node_id = pb_message_request_origin_node_id m\<rparr>),
      c_create = wire_codec R (pb_create_actor_event_arms R) pb_create_actor_event_new (pb_create_actor_event_write R) (\<lambda>_. True)
        (\<lambda>p. \<lparr>pb_create_actor_event_message_id = ca_message_id p, pb_create_actor_event_actor_id = ca_actor_id p,
              pb_create_actor_event_actor_type = ca_actor_type p, pb_create_actor_event_recipe = ca_recipe p,
              pb_create_actor_event_trace_id = []\<rparr>)
        (\<lambda>m. \<lparr>ca_message_id = pb_create_actor_event_message_id m, ca_actor_id = pb_create_actor_event_actor_id m,
              ca_actor_type = pb_create_actor_event_actor_type m, ca_recipe = pb_create_actor_event_recipe m\<rparr>),
      c_register = wire_codec R (pb_actor_address_arms R) pb_actor_address_new (pb_actor_address_write R)
        (\<lambda>p. case snd p of None \<Rightarrow> True | Some n \<Rightarrow> uint64_value_size R \<lparr>uv_value = n\<rparr> < 2 ^ 32)
        (\<lambda>p. \<lparr>pb_actor_address_actor_id = fst p, pb_actor_address_node_id = map_option (\<lambda>n. \<lparr>uv_value = n\<rparr>) (snd p),
              pb_actor_address_trace_id = []\<rparr>)
        (\<lambda>m. (pb_actor_address_actor_id m, map_option uv_value (pb_actor_address_node_id m))),
      c_find = wire_codec R (pb_find_actor_event_arms R) pb_find_actor_event_new (pb_find_actor_event_write R) (\<lambda>_. True)
        (\<lambda>p. \<lparr>pb_find_actor_event_message_id = fa_message_id p, pb_find_actor_event_actor_id = fa_actor_id p,
              pb_find_actor_event_trace_id = []\<rparr>)
        (\<lambda>m. \<lparr>fa_message_id = pb_find_actor_event_message_id m, fa_actor_id = pb_find_actor_event_actor_id m\<rparr>),
      c_publish = wire_codec R (pb_stream_publish_event_arms R) pb_stream_publish_event_new (pb_stream_publish_event_write R) (\<lambda>_. True)
        (\<lambda>p. \<lparr>pb_stream_publish_event_topic = sp_topic p, pb_stream_publish_event_key = sp_key p,
              pb_stream_publish_event_message = sp_message p, pb_stream_publish_event_trace_id = []\<rparr>)
        (\<lambda>m. \<lparr>sp_topic = pb_stream_publish_event_topic m, sp_key = pb_stream_publish_event_key m,
              sp_message = pb_stream_publish_event_message m\<rparr>)\<rparr>"

definition node_fits :: "'e proto_rt \<Rightarrow> proto_node \<Rightarrow> bool" where
  "node_fits R p \<longleftrightarrow> pb_remote_node_ok R (node_into p) \<and> pb_remote_node_size R (node_into p) < 2 ^ 32"

definition generated_system :: "'e proto_rt \<Rightarrow> 'e option system_codec" where
  "generated_system R =
     \<lparr>c_new_node = wire_codec R (pb_new_node_event_arms R) pb_new_node_event_new (pb_new_node_event_write R)
        (\<lambda>p. case p of None \<Rightarrow> True | Some n \<Rightarrow> node_fits R n)
        (\<lambda>p. \<lparr>pb_new_node_event_node = map_option node_into p, pb_new_node_event_trace_id = []\<rparr>)
        (\<lambda>m. map_option node_of (pb_new_node_event_node m)),
      c_node_removed = wire_codec R (pb_node_removed_event_arms R) pb_node_removed_event_new (pb_node_removed_event_write R)
        (\<lambda>p. case p of None \<Rightarrow> True | Some n \<Rightarrow> node_fits R n)
        (\<lambda>p. \<lparr>pb_node_removed_event_node = map_option node_into p, pb_node_removed_event_trace_id = []\<rparr>)
        (\<lambda>m. map_option node_of (pb_node_removed_event_node m)),
      c_leader_changed = wire_codec R (pb_leader_changed_event_arms R) pb_leader_changed_event_new (pb_leader_changed_event_write R)
        (\<lambda>_. True) (\<lambda>n. \<lparr>pb_leader_changed_event_node_id = n, pb_leader_changed_event_trace_id = []\<rparr>) pb_leader_changed_event_node_id,
      c_member_up = wire_codec R (pb_member_up_event_arms R) pb_member_up_event_new (pb_member_up_event_write R)
        (\<lambda>p. list_all (node_fits R) (snd p))
        (\<lambda>p. \<lparr>pb_member_up_event_leader_id = fst p, pb_member_up_event_nodes = map node_into (snd p), pb_member_up_event_trace_id = []\<rparr>)
        (\<lambda>m. (pb_member_up_event_leader_id m, map node_of (pb_member_up_event_nodes m)))\<rparr>"

section \<open>They are lawful\<close>

lemma enum_numbers_i32 [simp]:
  "is_i32 (enum_number error_type_value t)" "is_i32 (enum_number wrap_err_value w)"
  "is_i32 (enum_number unwrap_err_value u)" "is_i32 (enum_number client_type_value c)"
  by (simp_all add: enum_number_def is_i32_def error_type_value_def wrap_err_value_def unwrap_err_value_def client_type_value_def
      split: option.split error_type.split proto_wrap_err.split proto_unwrap_err.split client_type.split)

context proto_runtime
begin

lemma wire_codec_lawful:
  assumes "\<And>p. ok p \<Longrightarrow> encodes R arms (wr (into p)) (sz (into p)) m_new (into p)" "\<And>p. ok p \<Longrightarrow> of_msg (into p) = p"
  shows "codec_lawful (wire_codec R arms m_new wr ok into of_msg)"
  unfolding codec_lawful_def proto_roundtrip_def
proof (intro allI impI)
  fix p b assume "fst (wire_codec R arms m_new wr ok into of_msg) p = Inr b"
  then have "ok p" "wr (into p) [] = Inr b" by (auto simp: wire_codec_def map_sum_def split: if_splits sum.splits)
  with encodes_parse(1) [OF assms(1)] assms(2)
  show "snd (wire_codec R arms m_new wr ok into of_msg) b = Inr p"
    by (simp add: wire_codec_def run_parser_def proto_parse_def)
qed

lemma generated_net_lawful: "net_lawful (generated_net R)"
  unfolding net_lawful_def generated_net_def net_codec.simps
proof (intro conjI, goal_cases)
  case 1 show ?case by (rule wire_codec_lawful [OF pb_node_identity_encodes]) (simp_all add: identity_back)
next
  case 2 show ?case
    by (rule wire_codec_lawful [OF pb_client_handshake_encodes])
       (auto simp: client_handshake_of_def client_handshake_into_def simp del: map_map option.map_comp)
next
  case 3 show ?case
    by (rule wire_codec_lawful [OF pb_session_handshake_encodes])
       (auto simp: session_handshake_of_def session_handshake_into_def simp del: map_map option.map_comp)
next
  case 4 show ?case by (rule wire_codec_lawful [OF pb_identify_event_encodes]) simp
next
  case 5 show ?case by (rule wire_codec_lawful [OF pb_client_result_encodes]) simp
next
  case 6 show ?case
  proof (rule wire_codec_lawful [OF pb_client_err_encodes])
    fix p :: client_err
    assume ok: "case ce_error p of None \<Rightarrow> True | Some e \<Rightarrow> ref_err_known e \<and> pb_actor_ref_err_size R (ref_err_into e) < 2 ^ 32"
    have "pb_actor_ref_err_ok R (ref_err_into e)" for e by (simp add: pb_actor_ref_err_ok_def ref_err_into_def)
    with ok show "pb_client_err_ok R \<lparr>pb_client_err_message_id = ce_message_id p,
        pb_client_err_error = map_option ref_err_into (ce_error p), pb_client_err_trace_id = []\<rparr>"
      by (auto simp: pb_client_err_ok_def)
    have "map_option ref_err_of (map_option ref_err_into (ce_error p)) = ce_error p"
      using ok by (cases "ce_error p") (simp_all add: ref_err_back)
    then show "\<lparr>ce_message_id = pb_client_err_message_id \<lparr>pb_client_err_message_id = ce_message_id p,
            pb_client_err_error = map_option ref_err_into (ce_error p), pb_client_err_trace_id = []\<rparr>,
        ce_error = map_option ref_err_of (pb_client_err_error \<lparr>pb_client_err_message_id = ce_message_id p,
            pb_client_err_error = map_option ref_err_into (ce_error p), pb_client_err_trace_id = []\<rparr>)\<rparr> = p"
      by (simp del: option.map_comp)
  qed
next
  case 7 show ?case by (rule wire_codec_lawful [OF pb_ping_event_encodes]) simp
next
  case 8 show ?case by (rule wire_codec_lawful [OF pb_pong_event_encodes]) simp
next
  case 9 show ?case by (rule wire_codec_lawful [OF pb_message_request_encodes]) simp
next
  case 10 show ?case by (rule wire_codec_lawful [OF pb_create_actor_event_encodes]) simp
next
  case 11 show ?case
    by (rule wire_codec_lawful [OF pb_actor_address_encodes])
       (auto simp: pb_actor_address_ok_def option.map_comp comp_def option.map_ident split: option.splits)
next
  case 12 show ?case by (rule wire_codec_lawful [OF pb_find_actor_event_encodes]) simp
next
  case 13 show ?case by (rule wire_codec_lawful [OF pb_stream_publish_event_encodes]) simp
qed

lemma generated_system_lawful: "system_lawful (generated_system R)"
proof -
  have nodes: "map_option node_of (map_option node_into p) = p" for p by (cases p) simp_all
  show ?thesis
    unfolding system_lawful_def generated_system_def system_codec.simps
  proof (intro conjI, goal_cases)
    case 1 show ?case
      by (rule wire_codec_lawful [OF pb_new_node_event_encodes])
         (auto simp: pb_new_node_event_ok_def node_fits_def nodes simp del: option.map_comp split: option.splits)
  next
    case 2 show ?case
      by (rule wire_codec_lawful [OF pb_node_removed_event_encodes])
         (auto simp: pb_node_removed_event_ok_def node_fits_def nodes simp del: option.map_comp split: option.splits)
  next
    case 3 show ?case by (rule wire_codec_lawful [OF pb_leader_changed_event_encodes]) simp
  next
    case 4 show ?case
      by (rule wire_codec_lawful [OF pb_member_up_event_encodes])
         (auto simp: pb_member_up_event_ok_def node_fits_def list_all_iff simp del: map_map)
  qed
qed

end

text \<open>C8: Every event between nodes survives the wire, from the event to the bytes and back: for any protobuf
  runtime with the contract, the events of clients, of sessions and of the system topic, written with the generated
  code and the numbers of its enums, are read back by the other side as they were, without a panic, with every
  error, time and node in them. The hypotheses are the contract and that the keys of a node's attributes are distinct,
  as those of a map are.\<close>

theorem events_on_the_wire:
  assumes "proto_runtime R" and "\<forall>n \<in> set (event_nodes ev). hm_wf (node_attributes n)"
  shows "(client_event_write (generated_net R) c = Some b1 \<longrightarrow> client_event_read (generated_net R) b1 = Inr (Some c)) \<and>
         (session_event_write (generated_net R) e = Some b2 \<longrightarrow> session_event_read (generated_net R) b2 = Inr (Some e)) \<and>
         (system_event_write (generated_system R) epoch ev = Some b3 \<longrightarrow>
            system_event_read (generated_system R) epoch b3 = Inr (Some ev)) \<and>
         ref_err_from_proto (ref_err_to_proto err) = Inr err"
proof -
  note net = proto_runtime.generated_net_lawful [OF assms(1)] and sys = proto_runtime.generated_system_lawful [OF assms(1)]
  from client_event_roundtrip [OF net] session_event_roundtrip [OF net] system_event_roundtrip [OF sys] assms(2)
  show ?thesis by (simp add: node_wf_def)
qed

definition ex_wire_node :: remote_node where
  "ex_wire_node = \<lparr>node_id = 300, node_addr = ''a:1'', node_tag = ''t'', node_started_at = Some 5, node_attributes = [(''k'', ''v'')]\<rparr>"

theorem events_on_the_wire_witness:
  "\<exists>b1 b3. client_event_write (generated_net varint_rt) (CEErr \<lparr>ce_message_id = ''m'', ce_error = Some (ref_err_to_proto (NotFound ''x''))\<rparr>) = Some b1 \<and>
     client_event_read (generated_net varint_rt) b1 =
       Inr (Some (CEErr \<lparr>ce_message_id = ''m'', ce_error = Some (ref_err_to_proto (NotFound ''x''))\<rparr>)) \<and>
     system_event_write (generated_system varint_rt) 0 (NodeAdded ex_wire_node) = Some b3 \<and>
     system_event_read (generated_system varint_rt) 0 b3 = Inr (Some (NodeAdded ex_wire_node))"
proof -
  let ?c = "CEErr \<lparr>ce_message_id = ''m'', ce_error = Some (ref_err_to_proto (NotFound ''x''))\<rparr>"
  have "ref_err_known (ref_err_to_proto (NotFound ''x''))" "pb_actor_ref_err_size varint_rt (ref_err_into (ref_err_to_proto (NotFound ''x''))) < 2 ^ 32"
    by (simp_all add: ref_err_known_def ref_err_to_proto_def proto_ref_err_default_def ref_err_into_def pb_actor_ref_err_size_def
        size_if_def error_type_value_def wrap_err_value_def unwrap_err_value_def signed_code_def varint.simps)
  then have "\<exists>b1. client_event_write (generated_net varint_rt) ?c = Some b1"
    by (simp add: client_event_write_def generated_net_def wire_codec_def write_event_Some pb_client_err_write_def
        pb_actor_ref_err_write_def write_if_def write_some_def write_nested_def varint_rt_def put_varint_def put_delimited_def)
  moreover have "node_fits varint_rt (node_to_proto 0 ex_wire_node)"
    by (simp add: node_fits_def node_to_proto_def ex_wire_node_def node_into_def timestamp_into_def datetime_to_timestamp_def
        collect_map_def pb_remote_node_ok_def pb_remote_node_size_def map_entry_size_def size_if_def size_some_def
        size_each_def header_size_def is_i64_def is_i32_def signed_code_def varint.simps)
  then have "\<exists>b3. system_event_write (generated_system varint_rt) 0 (NodeAdded ex_wire_node) = Some b3"
    by (simp add: system_event_write_def generated_system_def wire_codec_def write_system_event_Some)
       (simp add: pb_new_node_event_write_def pb_remote_node_write_def map_entry_write_def write_if_def write_some_def
        write_each_def write_nested_def put_varint_def put_delimited_def varint_rt_def node_into_def node_to_proto_def
        ex_wire_node_def timestamp_into_def datetime_to_timestamp_def collect_map_def)
  ultimately obtain b1 b3 where b: "client_event_write (generated_net varint_rt) ?c = Some b1"
    "system_event_write (generated_system varint_rt) 0 (NodeAdded ex_wire_node) = Some b3" by blast
  with events_on_the_wire [OF varint.proto_runtime_axioms, of "NodeAdded ex_wire_node" ?c b1 SERaft "[]" 0 b3]
  show ?thesis by (simp add: ex_wire_node_def)
qed

end
