(* ===== verification/Sharding_Wire.thy ===== *)
theory Sharding_Wire
  imports Network_Wire Coordinator_Actor Singleton
begin

text \<open>
  The messages of sharding and of singletons over the generated code: the codecs that \<open>Shard_Host\<close>, \<open>Coordinator_Actor\<close>
  and \<open>Singleton\<close> have as arguments are those of \<open>Proto_Sharding\<close> over any protobuf runtime with the contract.
\<close>

section \<open>Numbers of the enums\<close>

definition alloc_type_value :: "alloc_type \<Rightarrow> i32" where
  "alloc_type_value t = (case t of TypeAllocated \<Rightarrow> 0 | TypeAlreadyAllocated \<Rightarrow> 1 | TypeNotAllocated \<Rightarrow> 2 | TypeErr \<Rightarrow> 3)"

definition alloc_type_from_i32 :: "i32 \<Rightarrow> alloc_type option" where
  "alloc_type_from_i32 v =
     (if v = 0 then Some TypeAllocated else if v = 1 then Some TypeAlreadyAllocated
      else if v = 2 then Some TypeNotAllocated else if v = 3 then Some TypeErr else None)"

definition alloc_err_value :: "proto_alloc_err \<Rightarrow> i32" where
  "alloc_err_value e = (case e of ProtoAllocUnknown \<Rightarrow> 0 | ProtoAllocPersistence \<Rightarrow> 1)"

definition alloc_err_from_i32 :: "i32 \<Rightarrow> proto_alloc_err option" where
  "alloc_err_from_i32 v = (if v = 0 then Some ProtoAllocUnknown else if v = 1 then Some ProtoAllocPersistence else None)"

definition host_status_value :: "proto_host_status \<Rightarrow> i32" where
  "host_status_value s = (case s of ProtoUnknown \<Rightarrow> 0 | ProtoStarting \<Rightarrow> 1 | ProtoReady \<Rightarrow> 2 | ProtoUnavailable \<Rightarrow> 3)"

definition host_status_from_i32 :: "i32 \<Rightarrow> proto_host_status option" where
  "host_status_from_i32 v =
     (if v = 0 then Some ProtoUnknown else if v = 1 then Some ProtoStarting else if v = 2 then Some ProtoReady
      else if v = 3 then Some ProtoUnavailable else None)"

definition singleton_state_value :: "proto_singleton_state \<Rightarrow> i32" where
  "singleton_state_value s = (case s of PJOINING \<Rightarrow> 0 | PIDLE \<Rightarrow> 1 | PSTARTING \<Rightarrow> 2 | PRUNNING \<Rightarrow> 3 | PSTOPPING \<Rightarrow> 4)"

definition singleton_state_from_i32 :: "i32 \<Rightarrow> proto_singleton_state option" where
  "singleton_state_from_i32 v =
     (if v = 0 then Some PJOINING else if v = 1 then Some PIDLE else if v = 2 then Some PSTARTING
      else if v = 3 then Some PRUNNING else if v = 4 then Some PSTOPPING else None)"

lemma sharding_enum_numbers [simp]:
  "alloc_type_from_i32 (alloc_type_value a) = Some a" "alloc_err_from_i32 (alloc_err_value e) = Some e"
  "host_status_from_i32 (host_status_value h) = Some h" "singleton_state_from_i32 (singleton_state_value s) = Some s"
  by ((cases a; simp add: alloc_type_from_i32_def alloc_type_value_def),
      (cases e; simp add: alloc_err_from_i32_def alloc_err_value_def),
      (cases h; simp add: host_status_from_i32_def host_status_value_def),
      (cases s; simp add: singleton_state_from_i32_def singleton_state_value_def))

lemma sharding_enum_i32 [simp]:
  "is_i32 (enum_number alloc_type_value a)" "is_i32 (enum_number alloc_err_value e)"
  "is_i32 (enum_number host_status_value h)" "is_i32 (singleton_state_value s)"
  by (simp_all add: enum_number_def is_i32_def alloc_type_value_def alloc_err_value_def host_status_value_def
      singleton_state_value_def
      split: option.split alloc_type.split proto_alloc_err.split proto_host_status.split proto_singleton_state.split)

section \<open>The messages of hosts\<close>

definition remote_shard_into :: "proto_remote_shard \<Rightarrow> pb_remote_shard" where
  "remote_shard_into p = \<lparr>pb_remote_shard_shard_id = prs_shard_id p, pb_remote_shard_node_id = prs_node_id p\<rparr>"

definition remote_shard_of :: "pb_remote_shard \<Rightarrow> proto_remote_shard" where
  "remote_shard_of m = \<lparr>prs_shard_id = pb_remote_shard_shard_id m, prs_node_id = pb_remote_shard_node_id m\<rparr>"

lemma remote_shard_back [simp]: "remote_shard_of (remote_shard_into p) = p"
  by (simp add: remote_shard_of_def remote_shard_into_def)

lemma remote_shards_back [simp]:
  "map_option remote_shard_of (map_option remote_shard_into x) = x" "map remote_shard_of (map remote_shard_into ps) = ps"
  by (cases x; simp) (induction ps; simp)

definition shard_fits :: "'e proto_rt \<Rightarrow> proto_remote_shard \<Rightarrow> bool" where
  "shard_fits R p \<longleftrightarrow> pb_remote_shard_size R (remote_shard_into p) < 2 ^ 32"

definition allocated_codec :: "'e proto_rt \<Rightarrow> (proto_remote_shard option, 'e option) codec" where
  "allocated_codec R =
     wire_codec R (pb_shard_allocated_arms R) pb_shard_allocated_new (pb_shard_allocated_write R)
       (\<lambda>p. case p of None \<Rightarrow> True | Some s \<Rightarrow> shard_fits R s)
       (\<lambda>p. \<lparr>pb_shard_allocated_shard = map_option remote_shard_into p\<rparr>)
       (\<lambda>m. map_option remote_shard_of (pb_shard_allocated_shard m))"

definition stop_codec :: "'e proto_rt \<Rightarrow> (proto_stop_shard, 'e option) codec" where
  "stop_codec R =
     wire_codec R (pb_stop_shard_arms R) pb_stop_shard_new (pb_stop_shard_write R) (\<lambda>_. True)
       (\<lambda>p. \<lparr>pb_stop_shard_shard_id = pstop_shard_id p, pb_stop_shard_origin_node_id = pstop_origin_node_id p,
             pb_stop_shard_request_id = pstop_request_id p\<rparr>)
       (\<lambda>m. \<lparr>pstop_shard_id = pb_stop_shard_shard_id m, pstop_request_id = pb_stop_shard_request_id m,
             pstop_origin_node_id = pb_stop_shard_origin_node_id m\<rparr>)"

definition reallocating_write :: "'e proto_rt \<Rightarrow> shard_id \<Rightarrow> 'e option + bytes" where
  "reallocating_write R sid = map_sum Some id (pb_shard_reallocating_write R \<lparr>pb_shard_reallocating_shard_id = sid\<rparr> [])"

definition stopped_codec :: "'e proto_rt \<Rightarrow> (proto_shard_stopped, 'e option) codec" where
  "stopped_codec R =
     wire_codec R (pb_shard_stopped_arms R) pb_shard_stopped_new (pb_shard_stopped_write R) (\<lambda>_. True)
       (\<lambda>p. \<lparr>pb_shard_stopped_shard_id = pss_shard_id p, pb_shard_stopped_origin_node_id = 0,
             pb_shard_stopped_is_successful = pss_is_successful p\<rparr>)
       (\<lambda>m. \<lparr>pss_shard_id = pb_shard_stopped_shard_id m, pss_is_successful = pb_shard_stopped_is_successful m\<rparr>)"

definition request_codec :: "'e proto_rt \<Rightarrow> (proto_remote_entity_request, 'e option) codec" where
  "request_codec R =
     wire_codec R (pb_remote_entity_request_arms R) pb_remote_entity_request_new (pb_remote_entity_request_write R)
       (\<lambda>p. case prer_recipe p of
              None \<Rightarrow> True
            | Some r \<Rightarrow> pb_remote_entity_recipe_size R \<lparr>pb_remote_entity_recipe_recipe = r\<rparr> < 2 ^ 32)
       (\<lambda>p. \<lparr>pb_remote_entity_request_request_id = prer_request_id p, pb_remote_entity_request_actor_id = prer_actor_id p,
             pb_remote_entity_request_message_type = prer_message_type p, pb_remote_entity_request_message = prer_message p,
             pb_remote_entity_request_recipe = map_option (\<lambda>r. \<lparr>pb_remote_entity_recipe_recipe = r\<rparr>) (prer_recipe p),
             pb_remote_entity_request_origin_node = prer_origin_node p\<rparr>)
       (\<lambda>m. \<lparr>prer_request_id = pb_remote_entity_request_request_id m, prer_actor_id = pb_remote_entity_request_actor_id m,
             prer_message_type = pb_remote_entity_request_message_type m, prer_message = pb_remote_entity_request_message m,
             prer_recipe = map_option pb_remote_entity_recipe_recipe (pb_remote_entity_request_recipe m),
             prer_origin_node = pb_remote_entity_request_origin_node m\<rparr>)"

section \<open>The messages of the coordinator and of singletons\<close>

definition allocate_result_codec :: "'e proto_rt \<Rightarrow> (proto_allocate_result, 'e option) codec" where
  "allocate_result_codec R =
     wire_codec R (pb_allocate_shard_result_arms R) pb_allocate_shard_result_new (pb_allocate_shard_result_write R)
       (\<lambda>p. par_type p \<noteq> None \<and> par_err p \<noteq> None \<and> (case par_allocation p of None \<Rightarrow> True | Some s \<Rightarrow> shard_fits R s))
       (\<lambda>p. \<lparr>pb_allocate_shard_result_result_type = enum_number alloc_type_value (par_type p),
             pb_allocate_shard_result_allocation = map_option remote_shard_into (par_allocation p),
             pb_allocate_shard_result_err = enum_number alloc_err_value (par_err p)\<rparr>)
       (\<lambda>m. \<lparr>par_type = alloc_type_from_i32 (pb_allocate_shard_result_result_type m),
             par_allocation = map_option remote_shard_of (pb_allocate_shard_result_allocation m),
             par_err = alloc_err_from_i32 (pb_allocate_shard_result_err m)\<rparr>)"

definition node_stats_into :: "proto_node_stats \<Rightarrow> pb_node_stats" where
  "node_stats_into p =
     \<lparr>pb_node_stats_node_id = pns_node_id p, pb_node_stats_shard_count = pns_shard_count p,
      pb_node_stats_status = enum_number host_status_value (pns_status p)\<rparr>"

definition node_stats_of :: "pb_node_stats \<Rightarrow> proto_node_stats" where
  "node_stats_of m =
     \<lparr>pns_node_id = pb_node_stats_node_id m, pns_shard_count = pb_node_stats_shard_count m,
      pns_status = host_status_from_i32 (pb_node_stats_status m)\<rparr>"

definition node_stats_fit :: "'e proto_rt \<Rightarrow> proto_node_stats \<Rightarrow> bool" where
  "node_stats_fit R p \<longleftrightarrow> pns_status p \<noteq> None \<and> pb_node_stats_size R (node_stats_into p) < 2 ^ 32"

definition stats_codec :: "'e proto_rt \<Rightarrow> (proto_sharding_stats, 'e option) codec" where
  "stats_codec R =
     wire_codec R (pb_sharding_stats_arms R) pb_sharding_stats_new (pb_sharding_stats_write R)
       (\<lambda>p. list_all (shard_fits R) (pss_shards p) \<and> list_all (node_stats_fit R) (pss_nodes p))
       (\<lambda>p. \<lparr>pb_sharding_stats_entity_type = pss_entity_type p, pb_sharding_stats_total_shards = pss_total_shards p,
             pb_sharding_stats_shards = map remote_shard_into (pss_shards p),
             pb_sharding_stats_nodes = map node_stats_into (pss_nodes p)\<rparr>)
       (\<lambda>m. \<lparr>pss_entity_type = pb_sharding_stats_entity_type m, pss_total_shards = pb_sharding_stats_total_shards m,
             pss_shards = map remote_shard_of (pb_sharding_stats_shards m),
             pss_nodes = map node_stats_of (pb_sharding_stats_nodes m)\<rparr>)"

definition start_entity_codec :: "'e proto_rt \<Rightarrow> (Coordinator_Actor.proto_entity, 'e option) codec" where
  "start_entity_codec R =
     wire_codec R (pb_start_entity_arms R) pb_start_entity_new (pb_start_entity_write R) (\<lambda>_. True)
       (\<lambda>p. \<lparr>pb_start_entity_actor_id = pen_actor_id p, pb_start_entity_recipe = pen_recipe p\<rparr>)
       (\<lambda>m. \<lparr>pen_actor_id = pb_start_entity_actor_id m, pen_recipe = pb_start_entity_recipe m\<rparr>)"

definition remove_entity_codec :: "'e proto_rt \<Rightarrow> (string, 'e option) codec" where
  "remove_entity_codec R =
     wire_codec R (pb_remove_entity_arms R) pb_remove_entity_new (pb_remove_entity_write R) (\<lambda>_. True)
       (\<lambda>p. \<lparr>pb_remove_entity_actor_id = p\<rparr>) pb_remove_entity_actor_id"

definition passivate_entity_codec :: "'e proto_rt \<Rightarrow> (string, 'e option) codec" where
  "passivate_entity_codec R =
     wire_codec R (pb_passivate_entity_arms R) pb_passivate_entity_new (pb_passivate_entity_write R) (\<lambda>_. True)
       (\<lambda>p. \<lparr>pb_passivate_entity_actor_id = p\<rparr>) pb_passivate_entity_actor_id"

definition singleton_status_codec :: "'e proto_rt \<Rightarrow> (proto_singleton_state option, 'e option) codec" where
  "singleton_status_codec R =
     wire_codec R (pb_manager_status_arms R) pb_manager_status_new (pb_manager_status_write R) (\<lambda>p. p \<noteq> None)
       (\<lambda>p. \<lparr>pb_manager_status_singleton_state = enum_number singleton_state_value p\<rparr>)
       (\<lambda>m. singleton_state_from_i32 (pb_manager_status_singleton_state m))"

section \<open>They are lawful\<close>

context proto_runtime
begin

lemma host_codecs_lawful:
  "codec_lawful (allocated_codec R)" "codec_lawful (stop_codec R)" "codec_lawful (stopped_codec R)"
  "codec_lawful (request_codec R)"
  unfolding allocated_codec_def stop_codec_def stopped_codec_def request_codec_def
proof goal_cases
  case 1 show ?case
    by (rule wire_codec_lawful [OF pb_shard_allocated_encodes])
       (auto simp: pb_shard_allocated_ok_def shard_fits_def simp del: option.map_comp split: option.splits)
next
  case 2 show ?case by (rule wire_codec_lawful [OF pb_stop_shard_encodes]) simp
next
  case 3 show ?case by (rule wire_codec_lawful [OF pb_shard_stopped_encodes]) simp
next
  case 4 show ?case
    by (rule wire_codec_lawful [OF pb_remote_entity_request_encodes])
       (auto simp: pb_remote_entity_request_ok_def option.map_comp comp_def option.map_ident split: option.splits)
qed

lemma node_stats_back: "list_all (node_stats_fit R) ps \<Longrightarrow> map node_stats_of (map node_stats_into ps) = ps"
  by (induction ps) (auto simp: node_stats_fit_def node_stats_of_def node_stats_into_def)

lemma coordinator_codecs_lawful:
  "codec_lawful (allocate_result_codec R)" "codec_lawful (stats_codec R)" "codec_lawful (start_entity_codec R)"
  "codec_lawful (remove_entity_codec R)" "codec_lawful (passivate_entity_codec R)" "codec_lawful (singleton_status_codec R)"
  unfolding allocate_result_codec_def stats_codec_def start_entity_codec_def remove_entity_codec_def
    passivate_entity_codec_def singleton_status_codec_def
proof goal_cases
  case 1 show ?case
    by (rule wire_codec_lawful [OF pb_allocate_shard_result_encodes])
       (auto simp: pb_allocate_shard_result_ok_def shard_fits_def simp del: option.map_comp split: option.splits)
next
  case 2 show ?case
    by (rule wire_codec_lawful [OF pb_sharding_stats_encodes])
       (auto simp: pb_sharding_stats_ok_def pb_node_stats_ok_def shard_fits_def node_stats_fit_def list_all_iff
          node_stats_back [unfolded list_all_iff node_stats_fit_def] node_stats_into_def simp del: map_map)
next
  case 3 show ?case by (rule wire_codec_lawful [OF pb_start_entity_encodes]) simp
next
  case 4 show ?case by (rule wire_codec_lawful [OF pb_remove_entity_encodes]) simp
next
  case 5 show ?case by (rule wire_codec_lawful [OF pb_passivate_entity_encodes]) simp
next
  case 6 show ?case by (rule wire_codec_lawful [OF pb_manager_status_encodes]) (auto simp: pb_manager_status_ok_def)
qed

text \<open>The bytes of a reallocation as the parser of a stop request reads them: both have the shard as field 1.\<close>

lemma reallocating_encodes_stop:
  "encodes R (pb_stop_shard_arms R) (pb_shard_reallocating_write R \<lparr>pb_shard_reallocating_shard_id = sid\<rparr>)
     (pb_shard_reallocating_size R \<lparr>pb_shard_reallocating_shard_id = sid\<rparr>) pb_stop_shard_new
     (pb_stop_shard_new\<lparr>pb_stop_shard_shard_id := sid\<rparr>)"
  unfolding pb_stop_shard_arms_def pb_shard_reallocating_write_def pb_shard_reallocating_size_def pb_stop_shard_new_def
  by (rule steps | simp)+

end

section \<open>Sharding over the generated code\<close>

lemma codec_roundtripD: "codec_lawful c \<Longrightarrow> proto_roundtrip (fst c) (snd c)"
  by (simp add: codec_lawful_def)

text \<open>
  A reallocation is written as its own message and read with the parser of a stop request. The shard is read
  back all the same.
\<close>

lemma reallocation_read_back:
  assumes "proto_runtime R" "shard_reallocating_as_bytes (reallocating_write R) sid = Inr b"
  shows "shard_reallocating_from_bytes (snd (stop_codec R)) b = Inr sid"
proof -
  from assms(2) have w: "pb_shard_reallocating_write R \<lparr>pb_shard_reallocating_shard_id = sid\<rparr> [] = Inr b"
    by (auto simp: shard_reallocating_as_bytes_def reallocating_write_def to_bytes_def map_sum_def split: sum.splits)
  from proto_runtime.encodes_parse(1) [OF assms(1) proto_runtime.reallocating_encodes_stop [OF assms(1)] w]
  show ?thesis
    by (simp add: shard_reallocating_from_bytes_def parse_bytes_def stop_codec_def wire_codec_def run_parser_def proto_parse_def)
qed

text \<open>What hosts, coordinator and shards send each other is read as it was written, without a panic.\<close>

lemma sharding_over_generated_code:
  assumes R: "proto_runtime R" and uuid: "\<forall>u. uuid_parse (uuid_show u) = Some u"
  shows "shard_allocated_as_bytes (fst (allocated_codec R)) a = Inr b1 \<Longrightarrow>
      shard_allocated_from_bytes (snd (allocated_codec R)) b1 = Inr (Inr a)"
    and "stop_shard_as_bytes (fst (stop_codec R)) uuid_show m = Inr b2 \<Longrightarrow>
      stop_shard_from_bytes (snd (stop_codec R)) uuid_parse b2 = Inr (Inr m)"
    and "remote_entity_request_as_bytes (fst (request_codec R)) uuid_show r = Inr b3 \<Longrightarrow>
      remote_entity_request_from_bytes (snd (request_codec R)) uuid_parse b3 = Inr (Inr r)"
    and "allocate_write_result (fst (allocate_result_codec R)) res = Inr b4 \<Longrightarrow>
      allocate_read_result (snd (allocate_result_codec R)) b4 = Inr (Inr res)"
    and "sharding_stats_write (fst (stats_codec R)) st = Inr b5 \<Longrightarrow>
      sharding_stats_read (snd (stats_codec R)) b5 = Inr (Inr st)"
proof -
  note host = proto_runtime.host_codecs_lawful [OF R, THEN codec_roundtripD]
    and coord = proto_runtime.coordinator_codecs_lawful [OF R, THEN codec_roundtripD]
  note rt = host_messages_roundtrip [OF host(1) host(2) host(3) host(4) uuid]
  show "shard_allocated_as_bytes (fst (allocated_codec R)) a = Inr b1 \<Longrightarrow>
      shard_allocated_from_bytes (snd (allocated_codec R)) b1 = Inr (Inr a)"
    "stop_shard_as_bytes (fst (stop_codec R)) uuid_show m = Inr b2 \<Longrightarrow>
      stop_shard_from_bytes (snd (stop_codec R)) uuid_parse b2 = Inr (Inr m)"
    "remote_entity_request_as_bytes (fst (request_codec R)) uuid_show r = Inr b3 \<Longrightarrow>
      remote_entity_request_from_bytes (snd (request_codec R)) uuid_parse b3 = Inr (Inr r)"
    using rt by blast+
  show "allocate_write_result (fst (allocate_result_codec R)) res = Inr b4 \<Longrightarrow>
      allocate_read_result (snd (allocate_result_codec R)) b4 = Inr (Inr res)"
    by (rule allocate_result_roundtrip [OF coord(1)])
  show "sharding_stats_write (fst (stats_codec R)) st = Inr b5 \<Longrightarrow>
      sharding_stats_read (snd (stats_codec R)) b5 = Inr (Inr st)"
    by (rule sharding_stats_roundtrip [OF coord(2)])
qed

text \<open>The events in the journal of a shard, and the status of a singleton.\<close>

lemma shard_events_over_generated_code:
  assumes "proto_runtime R"
    and "shard_event_as_bytes (fst (start_entity_codec R)) (fst (remove_entity_codec R)) (fst (passivate_entity_codec R)) ev = Inr b"
  shows "(case ev of
       StartEntity _ _ \<Rightarrow> start_entity_from_bytes (snd (start_entity_codec R)) b
     | RemoveEntity _ \<Rightarrow> remove_entity_from_bytes (snd (remove_entity_codec R)) b
     | PassivateEntity _ \<Rightarrow> passivate_entity_from_bytes (snd (passivate_entity_codec R)) b) = Inr ev"
proof -
  note c = proto_runtime.coordinator_codecs_lawful [OF assms(1), THEN codec_roundtripD]
  show ?thesis by (rule shard_event_roundtrip [OF c(3) c(4) c(5) assms(2)])
qed

lemma singleton_status_over_generated_code:
  assumes "proto_runtime R" "status_write_result (\<lambda>s. fst (singleton_status_codec R) (Some s)) st = Inr b"
  shows "status_read_result (snd (singleton_status_codec R)) b = Inr (Inr st)"
proof -
  have "fst (singleton_status_codec R) (Some (state_into_proto st)) = Inr b"
    using assms(2) by (auto simp: status_write_result_def to_bytes_def split: sum.splits)
  from proto_roundtripD [OF proto_runtime.coordinator_codecs_lawful(6) [OF assms(1), THEN codec_roundtripD] this]
  show ?thesis by (cases st) (simp_all add: status_read_result_def parse_bytes_def state_into_proto_def state_from_proto_def)
qed

interpretation shard_stopped: wire_message "shard_stopped_message (fst (stopped_codec varint_rt)) (snd (stopped_codec varint_rt))"
  by (rule shard_stopped_wire [OF varint.host_codecs_lawful(3) [THEN codec_roundtripD]])

end
