(* ===== verification/Proto_Chat.thy ===== *)
theory Proto_Chat
  imports Protobuf_Runtime
begin

text \<open>
  The generated messages of the sharded chat example, as the generated code reads, measures and writes them:
  \<open>examples/coerce-sharded-chat-example/src/protocol/chat.rs\<close>. The wrappers of a string and of a number are messages
  of the protobuf crate.
\<close>

section \<open>Messages of the chat\<close>

subsection \<open>\<open>Handshake\<close>\<close>

record pb_chat_handshake =
  pb_chat_handshake_name :: string

definition pb_chat_handshake_new :: pb_chat_handshake where
  "pb_chat_handshake_new = \<lparr>pb_chat_handshake_name = []\<rparr>"

definition pb_chat_handshake_arms :: "'e proto_rt \<Rightarrow> (nat \<times> ('e, pb_chat_handshake) arm) list" where
  "pb_chat_handshake_arms R =
     [(10, read_into (read_string R) (\<lambda>v m. m\<lparr>pb_chat_handshake_name := v\<rparr>))]"

definition pb_chat_handshake_size :: "'e proto_rt \<Rightarrow> pb_chat_handshake \<Rightarrow> nat" where
  "pb_chat_handshake_size R m =
     sum_list
       [size_if (pb_chat_handshake_name m \<noteq> []) (string_size R 1 (pb_chat_handshake_name m))]"

definition pb_chat_handshake_write :: "'e proto_rt \<Rightarrow> pb_chat_handshake \<Rightarrow> 'e writer" where
  "pb_chat_handshake_write R m =
     write_all
       [write_if (pb_chat_handshake_name m \<noteq> []) (write_string R 1 (pb_chat_handshake_name m))]"

subsection \<open>\<open>JoinChat\<close>\<close>

record pb_chat_join =
  pb_chat_join_chat_stream_id :: string
  pb_chat_join_join_token :: "pb_string_value option"

definition pb_chat_join_new :: pb_chat_join where
  "pb_chat_join_new = \<lparr>pb_chat_join_chat_stream_id = [], pb_chat_join_join_token = None\<rparr>"

definition pb_chat_join_arms :: "'e proto_rt \<Rightarrow> (nat \<times> ('e, pb_chat_join) arm) list" where
  "pb_chat_join_arms R =
     [(10, read_into (read_string R) (\<lambda>v m. m\<lparr>pb_chat_join_chat_stream_id := v\<rparr>)),
      (18, read_singular R (string_value_arms R) string_value_new pb_chat_join_join_token (\<lambda>v m. m\<lparr>pb_chat_join_join_token := v\<rparr>))]"

definition pb_chat_join_size :: "'e proto_rt \<Rightarrow> pb_chat_join \<Rightarrow> nat" where
  "pb_chat_join_size R m =
     sum_list
       [size_if (pb_chat_join_chat_stream_id m \<noteq> []) (string_size R 1 (pb_chat_join_chat_stream_id m)),
        size_some (pb_chat_join_join_token m) (\<lambda>v. header_size R (string_value_size R v))]"

definition pb_chat_join_write :: "'e proto_rt \<Rightarrow> pb_chat_join \<Rightarrow> 'e writer" where
  "pb_chat_join_write R m =
     write_all
       [write_if (pb_chat_join_chat_stream_id m \<noteq> []) (write_string R 1 (pb_chat_join_chat_stream_id m)),
        write_some (pb_chat_join_join_token m) (\<lambda>v. write_nested R 2 (string_value_size R v) (string_value_write R v))]"

definition pb_chat_join_ok :: "'e proto_rt \<Rightarrow> pb_chat_join \<Rightarrow> bool" where
  "pb_chat_join_ok R m \<longleftrightarrow>
     (\<forall>v. pb_chat_join_join_token m = Some v \<longrightarrow> string_value_size R v < 2 ^ 32)"

subsection \<open>\<open>LeaveChat\<close>\<close>

record pb_chat_leave =
  pb_chat_leave_chat_stream_id :: string

definition pb_chat_leave_new :: pb_chat_leave where
  "pb_chat_leave_new = \<lparr>pb_chat_leave_chat_stream_id = []\<rparr>"

definition pb_chat_leave_arms :: "'e proto_rt \<Rightarrow> (nat \<times> ('e, pb_chat_leave) arm) list" where
  "pb_chat_leave_arms R =
     [(10, read_into (read_string R) (\<lambda>v m. m\<lparr>pb_chat_leave_chat_stream_id := v\<rparr>))]"

definition pb_chat_leave_size :: "'e proto_rt \<Rightarrow> pb_chat_leave \<Rightarrow> nat" where
  "pb_chat_leave_size R m =
     sum_list
       [size_if (pb_chat_leave_chat_stream_id m \<noteq> []) (string_size R 1 (pb_chat_leave_chat_stream_id m))]"

definition pb_chat_leave_write :: "'e proto_rt \<Rightarrow> pb_chat_leave \<Rightarrow> 'e writer" where
  "pb_chat_leave_write R m =
     write_all
       [write_if (pb_chat_leave_chat_stream_id m \<noteq> []) (write_string R 1 (pb_chat_leave_chat_stream_id m))]"

subsection \<open>\<open>ChatMessage\<close>\<close>

record pb_chat_message =
  pb_chat_message_chat_stream_id :: string
  pb_chat_message_message_id :: "pb_uint64_value option"
  pb_chat_message_sender :: "pb_string_value option"
  pb_chat_message_message :: string

definition pb_chat_message_new :: pb_chat_message where
  "pb_chat_message_new = \<lparr>pb_chat_message_chat_stream_id = [], pb_chat_message_message_id = None, pb_chat_message_sender = None, pb_chat_message_message = []\<rparr>"

definition pb_chat_message_arms :: "'e proto_rt \<Rightarrow> (nat \<times> ('e, pb_chat_message) arm) list" where
  "pb_chat_message_arms R =
     [(10, read_into (read_string R) (\<lambda>v m. m\<lparr>pb_chat_message_chat_stream_id := v\<rparr>)),
      (18, read_singular R (uint64_value_arms R) uint64_value_new pb_chat_message_message_id (\<lambda>v m. m\<lparr>pb_chat_message_message_id := v\<rparr>)),
      (26, read_singular R (string_value_arms R) string_value_new pb_chat_message_sender (\<lambda>v m. m\<lparr>pb_chat_message_sender := v\<rparr>)),
      (34, read_into (read_string R) (\<lambda>v m. m\<lparr>pb_chat_message_message := v\<rparr>))]"

definition pb_chat_message_size :: "'e proto_rt \<Rightarrow> pb_chat_message \<Rightarrow> nat" where
  "pb_chat_message_size R m =
     sum_list
       [size_if (pb_chat_message_chat_stream_id m \<noteq> []) (string_size R 1 (pb_chat_message_chat_stream_id m)),
        size_some (pb_chat_message_message_id m) (\<lambda>v. header_size R (uint64_value_size R v)),
        size_some (pb_chat_message_sender m) (\<lambda>v. header_size R (string_value_size R v)),
        size_if (pb_chat_message_message m \<noteq> []) (string_size R 4 (pb_chat_message_message m))]"

definition pb_chat_message_write :: "'e proto_rt \<Rightarrow> pb_chat_message \<Rightarrow> 'e writer" where
  "pb_chat_message_write R m =
     write_all
       [write_if (pb_chat_message_chat_stream_id m \<noteq> []) (write_string R 1 (pb_chat_message_chat_stream_id m)),
        write_some (pb_chat_message_message_id m) (\<lambda>v. write_nested R 2 (uint64_value_size R v) (uint64_value_write R v)),
        write_some (pb_chat_message_sender m) (\<lambda>v. write_nested R 3 (string_value_size R v) (string_value_write R v)),
        write_if (pb_chat_message_message m \<noteq> []) (write_string R 4 (pb_chat_message_message m))]"

definition pb_chat_message_ok :: "'e proto_rt \<Rightarrow> pb_chat_message \<Rightarrow> bool" where
  "pb_chat_message_ok R m \<longleftrightarrow>
     (\<forall>v. pb_chat_message_message_id m = Some v \<longrightarrow> uint64_value_size R v < 2 ^ 32) \<and>
     (\<forall>v. pb_chat_message_sender m = Some v \<longrightarrow> string_value_size R v < 2 ^ 32)"

subsection \<open>\<open>SendChatMessage\<close>\<close>

record pb_chat_send =
  pb_chat_send_message :: "pb_chat_message option"

definition pb_chat_send_new :: pb_chat_send where
  "pb_chat_send_new = \<lparr>pb_chat_send_message = None\<rparr>"

definition pb_chat_send_arms :: "'e proto_rt \<Rightarrow> (nat \<times> ('e, pb_chat_send) arm) list" where
  "pb_chat_send_arms R =
     [(10, read_singular R (pb_chat_message_arms R) pb_chat_message_new pb_chat_send_message (\<lambda>v m. m\<lparr>pb_chat_send_message := v\<rparr>))]"

definition pb_chat_send_size :: "'e proto_rt \<Rightarrow> pb_chat_send \<Rightarrow> nat" where
  "pb_chat_send_size R m =
     sum_list
       [size_some (pb_chat_send_message m) (\<lambda>v. header_size R (pb_chat_message_size R v))]"

definition pb_chat_send_write :: "'e proto_rt \<Rightarrow> pb_chat_send \<Rightarrow> 'e writer" where
  "pb_chat_send_write R m =
     write_all
       [write_some (pb_chat_send_message m) (\<lambda>v. write_nested R 1 (pb_chat_message_size R v) (pb_chat_message_write R v))]"

definition pb_chat_send_ok :: "'e proto_rt \<Rightarrow> pb_chat_send \<Rightarrow> bool" where
  "pb_chat_send_ok R m \<longleftrightarrow>
     (\<forall>v. pb_chat_send_message m = Some v \<longrightarrow> pb_chat_message_ok R v \<and> pb_chat_message_size R v < 2 ^ 32)"

section \<open>Round trips\<close>

context proto_runtime
begin

lemma pb_chat_handshake_encodes: "encodes R (pb_chat_handshake_arms R) (pb_chat_handshake_write R m) (pb_chat_handshake_size R m) pb_chat_handshake_new m"
  unfolding pb_chat_handshake_arms_def pb_chat_handshake_write_def pb_chat_handshake_size_def pb_chat_handshake_new_def by (rule steps | simp)+

lemma pb_chat_join_encodes:
  assumes "pb_chat_join_ok R m"
  shows "encodes R (pb_chat_join_arms R) (pb_chat_join_write R m) (pb_chat_join_size R m) pb_chat_join_new m"
  unfolding pb_chat_join_arms_def pb_chat_join_write_def pb_chat_join_size_def pb_chat_join_new_def
  by (rule steps string_value_law | simp add: assms [unfolded pb_chat_join_ok_def, simplified])+

lemma pb_chat_leave_encodes: "encodes R (pb_chat_leave_arms R) (pb_chat_leave_write R m) (pb_chat_leave_size R m) pb_chat_leave_new m"
  unfolding pb_chat_leave_arms_def pb_chat_leave_write_def pb_chat_leave_size_def pb_chat_leave_new_def by (rule steps | simp)+

lemma pb_chat_message_encodes:
  assumes "pb_chat_message_ok R m"
  shows "encodes R (pb_chat_message_arms R) (pb_chat_message_write R m) (pb_chat_message_size R m) pb_chat_message_new m"
  unfolding pb_chat_message_arms_def pb_chat_message_write_def pb_chat_message_size_def pb_chat_message_new_def
  by (rule steps uint64_value_law string_value_law | simp add: assms [unfolded pb_chat_message_ok_def, simplified])+

lemma pb_chat_send_encodes:
  assumes "pb_chat_send_ok R m"
  shows "encodes R (pb_chat_send_arms R) (pb_chat_send_write R m) (pb_chat_send_size R m) pb_chat_send_new m"
  unfolding pb_chat_send_arms_def pb_chat_send_write_def pb_chat_send_size_def pb_chat_send_new_def
  by (rule steps pb_chat_message_encodes | simp add: assms [unfolded pb_chat_send_ok_def, simplified])+

end

context proto_runtime_total
begin

lemma pb_chat_handshake_total: "arms_total (pb_chat_handshake_arms R)"
  by (simp add: pb_chat_handshake_arms_def totals)

lemma pb_chat_join_total: "arms_total (pb_chat_join_arms R)"
  by (simp add: pb_chat_join_arms_def totals)

lemma pb_chat_leave_total: "arms_total (pb_chat_leave_arms R)"
  by (simp add: pb_chat_leave_arms_def totals)

lemma pb_chat_message_total: "arms_total (pb_chat_message_arms R)"
  by (simp add: pb_chat_message_arms_def totals)

lemma pb_chat_send_total: "arms_total (pb_chat_send_arms R)"
  by (simp add: pb_chat_send_arms_def totals pb_chat_message_total)

end

end
