(* ===== verification/Chat_Messages.thy ===== *)
theory Chat_Messages
  imports Wire_Codecs Proto_Chat
begin

text \<open>
  The messages of the sharded chat example (\<open>examples/coerce-sharded-chat-example/src\<close>): what the actors exchange,
  how they are encoded (\<open>actor/peer/message.rs\<close>), the frames of the websocket on the side of the server and on
  that of the client (\<open>websocket/client\<close>), and the methods the derive macro for JSON messages generates
  (\<open>coerce/macros/src/message/json.rs\<close>).

  The JSON crate is a parameter, a pair of an encoder and a decoder for each type. The protobuf crate is the runtime of
  \<open>Protobuf_Runtime\<close>.
\<close>

section \<open>Messages\<close>

record chat_message =
  cm_chat_stream_id :: string
  cm_message_id :: "u64 option"
  cm_sender :: "string option"
  cm_message :: string

record join_chat =
  jc_chat_stream_id :: string
  jc_join_token :: "string option"

datatype peer_event =
    EventJoin join_chat
  | EventChat chat_message
  | EventLeave string
  | EventClose

section \<open>Derived JSON messages\<close>

definition json_message ::
  "('m \<Rightarrow> bytes option) \<Rightarrow> (bytes \<Rightarrow> 'm option) \<Rightarrow> ('r \<Rightarrow> bytes option) \<Rightarrow> (bytes \<Rightarrow> 'r option) \<Rightarrow> ('m, 'r) message_impl" where
  "json_message to_vec from_slice res_to_vec res_from_slice =
     \<lparr>as_bytes = (\<lambda>m. case to_vec m of Some b \<Rightarrow> Inr b | None \<Rightarrow> Inl SerializationErr),
      from_bytes = (\<lambda>b. case from_slice b of Some m \<Rightarrow> Inr m | None \<Rightarrow> Inl DeserializationErr),
      read_remote_result = (\<lambda>b. case res_from_slice b of Some r \<Rightarrow> Inr r | None \<Rightarrow> Inl DeserializationErr),
      write_remote_result = (\<lambda>r. case res_to_vec r of Some b \<Rightarrow> Inr b | None \<Rightarrow> Inl SerializationErr)\<rparr>"

definition json_lossless :: "('v \<Rightarrow> bytes option) \<Rightarrow> (bytes \<Rightarrow> 'v option) \<Rightarrow> bool" where
  "json_lossless to_vec from_slice \<longleftrightarrow> (\<forall>v b. to_vec v = Some b \<longrightarrow> from_slice b = Some v)"

lemma json_message_wire:
  "json_lossless to_vec from_slice \<Longrightarrow> wire_message (json_message to_vec from_slice res_to_vec res_from_slice)"
  by (auto simp: json_lossless_def json_message_def wire_message_def split: option.splits)

lemma json_message_result:
  assumes "json_lossless res_to_vec res_from_slice"
    and "write_remote_result (json_message to_vec from_slice res_to_vec res_from_slice) r = Inr b"
  shows "read_remote_result (json_message to_vec from_slice res_to_vec res_from_slice) b = Inr r"
  using assms by (auto simp: json_lossless_def json_message_def split: option.splits)

section \<open>Protobuf messages of the client\<close>

definition proto_as_bytes :: "'e + bytes \<Rightarrow> message_wrap_err + bytes" where
  "proto_as_bytes = map_sum (\<lambda>_. SerializationErr) id"

definition proto_from_bytes :: "('p \<Rightarrow> message_unwrap_err + 'm) \<Rightarrow> ('e + 'p) option \<Rightarrow> message_unwrap_err + 'm" where
  "proto_from_bytes f r = (case run_parser id r of Inl _ \<Rightarrow> Inl DeserializationErr | Inr p \<Rightarrow> f p)"

definition join_chat_into :: "join_chat \<Rightarrow> pb_chat_join" where
  "join_chat_into j =
     \<lparr>pb_chat_join_chat_stream_id = jc_chat_stream_id j,
      pb_chat_join_join_token = map_option (\<lambda>n. \<lparr>sv_value = n\<rparr>) (jc_join_token j)\<rparr>"

definition join_chat_as_bytes :: "'e proto_rt \<Rightarrow> join_chat \<Rightarrow> message_wrap_err + bytes" where
  "join_chat_as_bytes R j = proto_as_bytes (pb_chat_join_write R (join_chat_into j) [])"

definition join_chat_from_bytes :: "'e proto_rt \<Rightarrow> bytes \<Rightarrow> message_unwrap_err + join_chat" where
  "join_chat_from_bytes R b =
     proto_from_bytes
       (\<lambda>m. Inr \<lparr>jc_chat_stream_id = pb_chat_join_chat_stream_id m,
                 jc_join_token = map_option sv_value (pb_chat_join_join_token m)\<rparr>)
       (proto_parse R (pb_chat_join_arms R) pb_chat_join_new b)"

definition chat_message_into :: "chat_message \<Rightarrow> pb_chat_message" where
  "chat_message_into m =
     \<lparr>pb_chat_message_chat_stream_id = cm_chat_stream_id m,
      pb_chat_message_message_id = map_option (\<lambda>n. \<lparr>uv_value = n\<rparr>) (cm_message_id m),
      pb_chat_message_sender = map_option (\<lambda>n. \<lparr>sv_value = n\<rparr>) (cm_sender m),
      pb_chat_message_message = cm_message m\<rparr>"

definition chat_message_from :: "pb_chat_message \<Rightarrow> chat_message" where
  "chat_message_from m =
     \<lparr>cm_chat_stream_id = pb_chat_message_chat_stream_id m,
      cm_message_id = map_option uv_value (pb_chat_message_message_id m),
      cm_sender = map_option sv_value (pb_chat_message_sender m),
      cm_message = pb_chat_message_message m\<rparr>"

definition send_chat_as_bytes :: "'e proto_rt \<Rightarrow> chat_message \<Rightarrow> message_wrap_err + bytes" where
  "send_chat_as_bytes R m =
     proto_as_bytes (pb_chat_send_write R \<lparr>pb_chat_send_message = Some (chat_message_into m)\<rparr> [])"

definition send_chat_from_bytes :: "'e proto_rt \<Rightarrow> bytes \<Rightarrow> message_unwrap_err + chat_message" where
  "send_chat_from_bytes R b =
     proto_from_bytes
       (\<lambda>m. case pb_chat_send_message m of
              Some m \<Rightarrow> Inr (chat_message_from m)
            | None \<Rightarrow> Inl DeserializationErr)
       (proto_parse R (pb_chat_send_arms R) pb_chat_send_new b)"

definition leave_chat_as_bytes :: "'e proto_rt \<Rightarrow> string \<Rightarrow> message_wrap_err + bytes" where
  "leave_chat_as_bytes R s = proto_as_bytes (pb_chat_leave_write R \<lparr>pb_chat_leave_chat_stream_id = s\<rparr> [])"

definition leave_chat_from_bytes :: "'e proto_rt \<Rightarrow> bytes \<Rightarrow> message_unwrap_err + string" where
  "leave_chat_from_bytes R b =
     proto_from_bytes (\<lambda>m. Inr (pb_chat_leave_chat_stream_id m)) (proto_parse R (pb_chat_leave_arms R) pb_chat_leave_new b)"

section \<open>Frames\<close>

definition unwrap_result :: "'e + 'a \<Rightarrow> 'a may_panic" where
  "unwrap_result r = (case r of Inr a \<Rightarrow> Inr a | Inl _ \<Rightarrow> Inl (Panic ''called unwrap on an Err value''))"

definition parse_inbound_message :: "'e proto_rt \<Rightarrow> bytes \<Rightarrow> (peer_event option) may_panic" where
  "parse_inbound_message R data =
     (case data of
        message_type # message \<Rightarrow>
          if message_type = 0 then map_sum id (Some \<circ> EventJoin) (unwrap_result (join_chat_from_bytes R message))
          else if message_type = 1 then map_sum id (Some \<circ> EventChat) (unwrap_result (send_chat_from_bytes R message))
          else if message_type = 2 then map_sum id (Some \<circ> EventLeave) (unwrap_result (leave_chat_from_bytes R message))
          else Inr (Some EventClose)
      | [] \<Rightarrow> Inr (Some EventClose))"

definition write_outbound_message :: "byte option \<Rightarrow> message_wrap_err + bytes \<Rightarrow> bytes option" where
  "write_outbound_message i encoded =
     (case encoded of
        Inl _ \<Rightarrow> None
      | Inr b \<Rightarrow> Some (case i of Some i \<Rightarrow> i # b | None \<Rightarrow> b))"

text \<open>\<open>ChatClient::write\<close> with its callers \<open>join_chat\<close> and \<open>chat\<close>.\<close>

definition client_frame :: "byte \<Rightarrow> message_wrap_err + bytes \<Rightarrow> bytes may_panic" where
  "client_frame i encoded = map_sum id (\<lambda>b. i # b) (unwrap_result encoded)"

definition client_join_chat :: "'e proto_rt \<Rightarrow> string \<Rightarrow> bytes may_panic" where
  "client_join_chat R s = client_frame 0 (join_chat_as_bytes R \<lparr>jc_chat_stream_id = s, jc_join_token = None\<rparr>)"

definition client_chat :: "'e proto_rt \<Rightarrow> string \<Rightarrow> string \<Rightarrow> bytes may_panic" where
  "client_chat R s m =
     client_frame 1 (send_chat_as_bytes R
       \<lparr>cm_chat_stream_id = s, cm_message_id = None, cm_sender = None, cm_message = m\<rparr>)"

text \<open>
  \<open>ChatClient::read\<close>: what the three seconds of waiting brought is \<open>None\<close> for a time-out, \<open>Some None\<close> for a closed channel.
  A reader that was taken leaves nothing to read.
\<close>

definition client_read :: "('m, 'r) message_impl \<Rightarrow> bool \<Rightarrow> bytes option option \<Rightarrow> 'm option" where
  "client_read M has_reader received =
     (if \<not> has_reader then None
      else (case received of
              Some (Some b) \<Rightarrow> (case from_bytes M b of Inr m \<Rightarrow> Some m | Inl _ \<Rightarrow> None)
            | _ \<Rightarrow> None))"

section \<open>What a client writes the server reads\<close>

text \<open>The event as a client sends it, and what the 32-bit sizes of nested messages demand of it.\<close>

definition event_frame :: "'e proto_rt \<Rightarrow> peer_event \<Rightarrow> bytes may_panic" where
  "event_frame R ev =
     (case ev of
        EventJoin j \<Rightarrow> client_frame 0 (join_chat_as_bytes R j)
      | EventChat m \<Rightarrow> client_frame 1 (send_chat_as_bytes R m)
      | EventLeave s \<Rightarrow> client_frame 2 (leave_chat_as_bytes R s)
      | EventClose \<Rightarrow> Inr [])"

definition event_ok :: "'e proto_rt \<Rightarrow> peer_event \<Rightarrow> bool" where
  "event_ok R ev =
     (case ev of
        EventJoin j \<Rightarrow> pb_chat_join_ok R (join_chat_into j)
      | EventChat m \<Rightarrow> pb_chat_send_ok R \<lparr>pb_chat_send_message = Some (chat_message_into m)\<rparr>
      | _ \<Rightarrow> True)"

lemma chat_message_from_into [simp]: "chat_message_from (chat_message_into m) = m"
  by (simp add: chat_message_from_def chat_message_into_def option.map_comp comp_def option.map_ident)

lemma client_frame_Inr: "client_frame i (proto_as_bytes r) = Inr b \<longleftrightarrow> (\<exists>b'. r = Inr b' \<and> b = i # b')"
  by (cases r) (auto simp: client_frame_def proto_as_bytes_def unwrap_result_def)

context proto_runtime
begin

lemma proto_read_back:
  "encodes R arms (w m) (s m) m_new m \<Longrightarrow> w m [] = Inr b \<Longrightarrow> proto_from_bytes f (proto_parse R arms m_new b) = f m"
  by (simp add: proto_from_bytes_def run_parser_def proto_parse_def encodes_parse(1))

lemma peer_event_read:
  assumes "event_ok R ev" "event_frame R ev = Inr b"
  shows "parse_inbound_message R b = Inr (Some ev)"
proof (cases ev)
  case (EventJoin j)
  with assms show ?thesis
    by (auto simp: event_frame_def event_ok_def join_chat_as_bytes_def client_frame_Inr parse_inbound_message_def
        join_chat_from_bytes_def proto_read_back [OF pb_chat_join_encodes] unwrap_result_def join_chat_into_def
        option.map_comp comp_def option.map_ident)
next
  case (EventChat m)
  with assms show ?thesis
    by (auto simp: event_frame_def event_ok_def send_chat_as_bytes_def client_frame_Inr parse_inbound_message_def
        send_chat_from_bytes_def proto_read_back [OF pb_chat_send_encodes] unwrap_result_def)
next
  case (EventLeave s)
  with assms show ?thesis
    by (auto simp: event_frame_def leave_chat_as_bytes_def client_frame_Inr parse_inbound_message_def
        leave_chat_from_bytes_def proto_read_back [OF pb_chat_leave_encodes] unwrap_result_def)
qed (use assms in \<open>simp add: event_frame_def parse_inbound_message_def\<close>)

end

text \<open>
  A frame with an identifier of its own is parsed or the reader's task panics; every other frame closes the
  connection.
\<close>

lemma unknown_frame_closes:
  "parse_inbound_message R (i # b) = Inr (Some EventClose) \<longleftrightarrow> i \<notin> {0, 1, 2}"
  by (auto simp: parse_inbound_message_def map_sum_def split: sum.splits)

lemma malformed_frame_panics:
  "join_chat_from_bytes R b = Inl e \<Longrightarrow> \<exists>p. parse_inbound_message R (0 # b) = Inl p"
  "send_chat_from_bytes R b = Inl e \<Longrightarrow> \<exists>p. parse_inbound_message R (1 # b) = Inl p"
  "leave_chat_from_bytes R b = Inl e \<Longrightarrow> \<exists>p. parse_inbound_message R (2 # b) = Inl p"
  by (simp_all add: parse_inbound_message_def unwrap_result_def)

text \<open>A message without its field, which a client may send, is such a frame.\<close>

lemma empty_chat_panics:
  assumes "proto_runtime R"
  shows "\<exists>p. parse_inbound_message R [1] = Inl p"
  by (simp add: proto_runtime.merge_end [OF assms] parse_inbound_message_def send_chat_from_bytes_def proto_from_bytes_def run_parser_def proto_parse_def
      pb_chat_send_new_def unwrap_result_def)

lemma client_chat_read:
  assumes "proto_runtime R" "client_chat R s m = Inr b"
    and "pb_chat_message_size R (chat_message_into \<lparr>cm_chat_stream_id = s, cm_message_id = None, cm_sender = None, cm_message = m\<rparr>) < 2 ^ 32"
  shows "parse_inbound_message R b =
    Inr (Some (EventChat \<lparr>cm_chat_stream_id = s, cm_message_id = None, cm_sender = None, cm_message = m\<rparr>))"
  by (rule proto_runtime.peer_event_read [OF assms(1)])
     (use assms(2,3) in \<open>simp_all add: client_chat_def event_frame_def event_ok_def pb_chat_send_ok_def pb_chat_message_ok_def
        chat_message_into_def\<close>)

lemma client_join_read:
  assumes "proto_runtime R" "client_join_chat R s = Inr b"
  shows "parse_inbound_message R b = Inr (Some (EventJoin \<lparr>jc_chat_stream_id = s, jc_join_token = None\<rparr>))"
  by (rule proto_runtime.peer_event_read [OF assms(1)])
     (use assms(2) in \<open>simp_all add: client_join_chat_def event_frame_def event_ok_def pb_chat_join_ok_def join_chat_into_def\<close>)

end
