(* ===== verification/Sharded_Chat.thy ===== *)
theory Sharded_Chat
  imports Chat_Messages Sharding_Startup Kubernetes_Discovery Actor_Services Pub_Sub
begin

text \<open>
  The sharded chat example (\<open>examples/coerce-sharded-chat-example/src\<close>), an application of the library: a chat stream is
  a sharded persistent actor (\<open>actor/stream\<close>), a peer is the actor of a websocket connection (\<open>actor/peer\<close>,
  \<open>websocket\<close>), and what is said reaches the peers by publish and subscribe (\<open>actor/pubsub.rs\<close>). \<open>app.rs\<close>
  configures a node.

  A peer's handlers call other actors while they run. What they ask for is a record of operations on the state
  \<open>'w\<close> of the others, so that whatever happens in between is part of an operation.
\<close>

section \<open>The chat stream\<close>

record chat_stream =
  cs_name :: string
  cs_creator :: string
  cs_messages :: "chat_message list"
  cs_join_token :: string
  cs_topic :: string

record create_chat_stream =
  ccs_name :: string
  ccs_creator :: string

record join_msg =
  join_peer_name :: string
  join_token :: "string option"

datatype join_result = JoinOk string "chat_message list" string | NameCollision

definition chat_stream_create :: "create_chat_stream \<Rightarrow> chat_stream" where
  "chat_stream_create r =
     \<lparr>cs_name = ccs_name r, cs_creator = ccs_creator r, cs_messages = [], cs_join_token = ''todo: join-token'',
      cs_topic = ccs_name r\<rparr>"

definition recover_chat_message :: "chat_stream \<Rightarrow> chat_message \<Rightarrow> chat_stream" where
  "recover_chat_message s m = s\<lparr>cs_messages := cs_messages s @ [m]\<rparr>"

definition chat_stream_actor :: "(chat_message, unit) message_impl \<Rightarrow> chat_stream persistent_impl" where
  "chat_stream_actor M =
     \<lparr>persistence_key = (\<lambda>s. ''ChatStream-'' @ cs_name (fst s)),
      configured_types = types_message ''ChatMessage'' ''ChatMessage''
        (message_recovery_handler (from_bytes M) (\<lambda>s m. (recover_chat_message (fst s) m, snd s)) ''ChatMessage'' ''ChatStream'')
        journal_types_default,
      pre_recovery = id, post_recovery = id,
      recovery_failure_policy = (\<lambda>_. recovery_failure_policy_default),
      persist_failure_policy = (\<lambda>_. persist_failure_policy_default),
      on_recovery_err = (\<lambda>_. id), on_recovery_failed = id\<rparr>"


text \<open>The messages of all topics: what is said in a chat, and the messages of other topics.\<close>

datatype 'o chat_data = ChatReceive chat_message | OtherData 'o

definition chat_stream_topic :: "(chat_message \<Rightarrow> bytes) \<Rightarrow> 'o chat_data topic" where
  "chat_stream_topic receive_to_vec =
     \<lparr>topic_name = ''ChatStream'', topic_type = (''ChatStreamTopic'', ''ChatReceive''),
      topic_write = (\<lambda>d. case d of ChatReceive m \<Rightarrow> Some (receive_to_vec m) | OtherData _ \<Rightarrow> None)\<rparr>"

text \<open>\<open>read_from_bytes\<close> decodes an optional message and unwraps the outcome.\<close>

definition chat_receive_read :: "(bytes \<Rightarrow> chat_message option option) \<Rightarrow> bytes \<Rightarrow> ('o chat_data option) may_panic" where
  "chat_receive_read from_slice b =
     (case from_slice b of
        Some r \<Rightarrow> Inr (map_option ChatReceive r)
      | None \<Rightarrow> Inl (Panic ''called unwrap on an Err value''))"

text \<open>
  What the stream needs of its system: the storage, the encodings, whether its log records information, and the
  system with its mediator.
\<close>

record 's stream_env =
  se_storage :: "'s journal_storage"
  se_json :: "(chat_message, unit) message_impl"
  se_receive :: "chat_message \<Rightarrow> bytes"
  se_logs :: bool
  se_system :: actor_system
  se_mediator_alive :: bool

record ('s, 'o) stream_state =
  ss_actor :: chat_stream
  ss_ctx :: actor_context
  ss_journal :: "(chat_stream \<times> actor_context) journal option"
  ss_store :: 's
  ss_mediator :: "'o chat_data mediator option"

definition handle_chat_message ::
  "'s stream_env \<Rightarrow> chat_message \<Rightarrow> ('s, 'o) stream_state \<Rightarrow>
   (('s, 'o) stream_state \<times> (node_id \<times> net_session_event) list) may_panic option" where
  "handle_chat_message E m s =
     (case persist (chat_stream_actor (se_json E)) (se_storage E) (se_json E) ''ChatMessage'' m
             (ss_actor s) (ss_ctx s) (ss_journal s) (ss_store s) of
        None \<Rightarrow> None
      | Some (Inl p) \<Rightarrow> Some (Inl p)
      | Some (Inr (Inl e, ctx, j, st)) \<Rightarrow> Some (Inr (s\<lparr>ss_ctx := ctx, ss_journal := j, ss_store := st\<rparr>, []))
      | Some (Inr (Inr _, ctx, j, st)) \<Rightarrow>
          (let a = (ss_actor s)\<lparr>cs_messages := cs_messages (ss_actor s) @ [m]\<rparr>;
               s' = s\<lparr>ss_actor := a, ss_ctx := ctx, ss_journal := j, ss_store := st\<rparr>
           in if se_logs E \<and> cm_sender m = None then Some (Inl (Panic ''called unwrap on a None value''))
              else
                (case system_remote (se_system E) of
                   Inl p \<Rightarrow> Some (Inl p)
                 | Inr _ \<Rightarrow>
                     Some (map_sum id (\<lambda>(md, evs). (s'\<lparr>ss_mediator := Some md\<rparr>, evs))
                       (pubsub_publish (se_mediator_alive E) (chat_stream_topic (se_receive E)) (cs_topic a)
                          (ChatReceive m) (ss_mediator s'))))))"

section \<open>The peer\<close>

text \<open>A subscription is named by its key and its position among the subscribers of the key.\<close>

type_synonym chat_subscription = "string \<times> nat"

record 'rd chat_peer =
  peer_name :: string
  peer_client_address :: string
  peer_reader :: "'rd option"
  peer_chat_streams :: "(string, sharded \<times> chat_subscription) hash_map"

definition peer_new :: "string \<Rightarrow> string \<Rightarrow> 'rd \<Rightarrow> 'rd chat_peer" where
  "peer_new name addr reader =
     \<lparr>peer_name = name, peer_client_address = addr, peer_reader = Some reader, peer_chat_streams = []\<rparr>"

record 'w peer_ops =
  op_recipe :: "create_chat_stream \<Rightarrow> bytes option"
  op_json :: "(chat_message, unit) message_impl"
  op_join :: "sharded \<Rightarrow> join_msg \<Rightarrow> 'w \<Rightarrow> (actor_ref_err + join_result) \<times> 'w"
  op_chat :: "sharded \<Rightarrow> chat_message \<Rightarrow> 'w \<Rightarrow> (actor_ref_err + unit) \<times> 'w"
  op_subscribe :: "string \<Rightarrow> 'w \<Rightarrow> (chat_subscription option \<times> 'w) may_panic"
  op_unsubscribe :: "chat_subscription \<Rightarrow> 'w \<Rightarrow> 'w"

text \<open>A handler's outcome: the peer, the frames it has written, the state of the others.\<close>

type_synonym ('rd, 'w) peer_result = "('rd chat_peer \<times> bytes list \<times> 'w) may_panic"

definition peer_write :: "byte option \<Rightarrow> message_wrap_err + bytes \<Rightarrow> bytes may_panic" where
  "peer_write i encoded =
     (case write_outbound_message i encoded of
        Some b \<Rightarrow> Inr b
      | None \<Rightarrow> Inl (Panic ''called unwrap on a None value''))"

fun peer_write_all :: "(chat_message, unit) message_impl \<Rightarrow> chat_message list \<Rightarrow> (bytes list) may_panic" where
  "peer_write_all M [] = Inr []"
| "peer_write_all M (m # ms) =
     (case peer_write None (as_bytes M m) of
        Inl p \<Rightarrow> Inl p
      | Inr b \<Rightarrow> map_sum id (\<lambda>bs. b # bs) (peer_write_all M ms))"

definition chat_welcome :: "string \<Rightarrow> chat_message" where
  "chat_welcome i =
     \<lparr>cm_chat_stream_id = i, cm_message_id = None, cm_sender = Some ''Coerce'',
      cm_message = ''Welcome to '' @ i @ '', say hello!''\<rparr>"

definition peer_join_chat :: "'w peer_ops \<Rightarrow> join_chat \<Rightarrow> 'rd chat_peer \<Rightarrow> 'w \<Rightarrow> ('rd, 'w) peer_result" where
  "peer_join_chat ops msg p w =
     (let i = jc_chat_stream_id msg;
          chat_stream = sharding_get (op_recipe ops) i (Some \<lparr>ccs_name = i, ccs_creator = peer_name p\<rparr>);
          (result, w1) = op_join ops chat_stream \<lparr>join_peer_name = peer_name p, join_token = jc_join_token msg\<rparr> w
      in case result of
           Inr (JoinOk creator message_history token) \<Rightarrow>
             (case op_subscribe ops i w1 of
                Inl e \<Rightarrow> Inl e
              | Inr (None, _) \<Rightarrow> Inl (Panic ''ChatStream PubSub subscription'')
              | Inr (Some sub, w2) \<Rightarrow>
                  map_sum id
                    (\<lambda>frames.
                       (p\<lparr>peer_chat_streams := hm_insert i (chat_stream, sub) (peer_chat_streams p)\<rparr>, frames,
                        case hm_get (peer_chat_streams p) i of Some (_, old) \<Rightarrow> op_unsubscribe ops old w2 | None \<Rightarrow> w2))
                    (peer_write_all (op_json ops) (message_history @ [chat_welcome i])))
         | _ \<Rightarrow> Inr (p, [], w1))"

definition peer_send_chat :: "'w peer_ops \<Rightarrow> chat_message \<Rightarrow> 'rd chat_peer \<Rightarrow> 'w \<Rightarrow> ('rd, 'w) peer_result" where
  "peer_send_chat ops m p w =
     (case hm_get (peer_chat_streams p) (cm_chat_stream_id m) of
        None \<Rightarrow> Inr (p, [], w)
      | Some (chat_stream, _) \<Rightarrow>
          (case op_chat ops chat_stream (m\<lparr>cm_sender := Some (peer_name p)\<rparr>) w of
             (Inl _, _) \<Rightarrow> Inl (Panic ''send chat message'')
           | (Inr _, w') \<Rightarrow> Inr (p, [], w')))"

definition peer_leave_chat :: "'w peer_ops \<Rightarrow> string \<Rightarrow> 'rd chat_peer \<Rightarrow> 'w \<Rightarrow> ('rd, 'w) peer_result" where
  "peer_leave_chat ops i p w =
     (case hm_get (peer_chat_streams p) i of
        None \<Rightarrow> Inr (p, [], w)
      | Some (_, sub) \<Rightarrow>
          Inr (p\<lparr>peer_chat_streams := hm_remove i (peer_chat_streams p)\<rparr>, [], op_unsubscribe ops sub w))"

definition peer_receive :: "'w peer_ops \<Rightarrow> chat_message \<Rightarrow> 'rd chat_peer \<Rightarrow> 'w \<Rightarrow> ('rd, 'w) peer_result" where
  "peer_receive ops m p w = map_sum id (\<lambda>b. (p, [b], w)) (peer_write None (as_bytes (op_json ops) m))"

text \<open>The flag tells whether the peer has told itself to stop.\<close>

definition peer_handle_event ::
  "'w peer_ops \<Rightarrow> peer_event \<Rightarrow> 'rd chat_peer \<Rightarrow> 'w \<Rightarrow> (('rd chat_peer \<times> bytes list \<times> 'w) \<times> bool) may_panic" where
  "peer_handle_event ops ev p w =
     (case ev of
        EventJoin j \<Rightarrow> map_sum id (\<lambda>r. (r, False)) (peer_join_chat ops j p w)
      | EventChat m \<Rightarrow> map_sum id (\<lambda>r. (r, False)) (peer_send_chat ops m p w)
      | EventLeave i \<Rightarrow> map_sum id (\<lambda>r. (r, False)) (peer_leave_chat ops i p w)
      | EventClose \<Rightarrow> Inr ((p, [], w), True))"

datatype ws_message = WsText bytes | WsBinary bytes | WsPing bytes | WsPong bytes | WsClose | WsFrame bytes

definition peer_convert :: "'e proto_rt \<Rightarrow> ws_message \<Rightarrow> (peer_event option) may_panic" where
  "peer_convert R msg =
     (case msg of
        WsText data \<Rightarrow> parse_inbound_message R data
      | WsBinary data \<Rightarrow> parse_inbound_message R data
      | WsClose \<Rightarrow> Inr (Some EventClose)
      | _ \<Rightarrow> Inr None)"

text \<open>\<open>Peer::started\<close>: the reader is taken and its messages are put into the peer's mailbox.\<close>

definition peer_started ::
  "'e proto_rt \<Rightarrow> 'q \<Rightarrow> (peer_event \<Rightarrow> 'q) \<Rightarrow> ('err + ws_message) list chat_peer \<Rightarrow> 'q mailbox \<Rightarrow>
   (('err + ws_message) list chat_peer \<times> 'q mailbox) may_panic" where
  "peer_started R stop_msg wrap p mb =
     (case peer_reader p of
        None \<Rightarrow> Inl (Panic ''called unwrap on a None value'')
      | Some reader \<Rightarrow>
          Inr (p\<lparr>peer_reader := None\<rparr>,
               attach_stream True stop_msg (\<lambda>x. map_sum id (map_option wrap) (peer_convert R x)) reader mb))"

section \<open>Connections\<close>

record handshake =
  hs_name :: string

text \<open>\<open>received\<close> is what the reader gave first; the function's result is always \<open>Ok\<close>.\<close>

definition handle_connection ::
  "(handshake, unit) message_impl \<Rightarrow> string \<Rightarrow> mailbox_id \<Rightarrow> bool \<Rightarrow> string \<Rightarrow> bool \<Rightarrow> ('err + bytes) option \<Rightarrow> 'rd \<Rightarrow>
   actor_scheduler option \<Rightarrow> (('rd chat_peer \<times> actor_ref) option \<times> actor_scheduler option \<times> scheduler_action list) may_panic" where
  "handle_connection M sys mb ok addr accepted received reader sched =
     (if \<not> accepted then Inr (None, sched, [])
      else
        (case received of
           Some (Inr b) \<Rightarrow>
             (case unwrap_result (from_bytes M b) of
                Inl p \<Rightarrow> Inl p
              | Inr h \<Rightarrow>
                  (case into_anon_actor sys ''Peer'' (Some (''peer-'' @ addr)) [] mb ok sched of
                     (Inr r, sched', acts) \<Rightarrow> Inr (Some (peer_new (hs_name h) addr reader, r), sched', acts)
                   | (Inl _, sched', acts) \<Rightarrow> Inr (None, sched', acts)))
         | _ \<Rightarrow> Inr (None, sched, [])))"

text \<open>The addresses of the connections for which a task is spawned, and the panic that ends the loop.\<close>

fun ws_accept :: "('err + string option) list \<Rightarrow> string list \<times> panic option" where
  "ws_accept (Inr (Some addr) # xs) = (let (addrs, p) = ws_accept xs in (addr # addrs, p))"
| "ws_accept (Inr None # xs) = ([], Some (Panic ''called unwrap on an Err value''))"
| "ws_accept xs = ([], None)"

definition ws_start :: "bool \<Rightarrow> ('err + string option) list \<Rightarrow> (string list \<times> panic option) may_panic" where
  "ws_start bound xs = (if bound then Inr (ws_accept xs) else Inl (Panic ''websocket listen''))"

text \<open>The client: \<open>connect\<close> with the frame it sends, and the task that passes on what arrives.\<close>

record 'f chat_client =
  cc_name :: string
  cc_websocket_messages :: "'f list option"
  cc_is_connected :: bool

definition client_connect ::
  "(handshake, unit) message_impl \<Rightarrow> ('err + unit) \<Rightarrow> (bytes \<Rightarrow> 'err + unit) \<Rightarrow> string \<Rightarrow> ('err + 'f chat_client) may_panic" where
  "client_connect M connected send name =
     (case connected of
        Inl e \<Rightarrow> Inr (Inl e)
      | Inr _ \<Rightarrow>
          (case unwrap_result (as_bytes M \<lparr>hs_name = name\<rparr>) of
             Inl p \<Rightarrow> Inl p
           | Inr b \<Rightarrow>
               Inr (map_sum id
                 (\<lambda>_. \<lparr>cc_name = name, cc_websocket_messages = Some [], cc_is_connected = False\<rparr>) (send b))))"

fun client_read_task :: "('err + 'f) list \<Rightarrow> 'f chat_client \<Rightarrow> 'f chat_client may_panic" where
  "client_read_task (Inr f # xs) c =
     (case cc_websocket_messages c of
        None \<Rightarrow> Inl (Panic ''called unwrap on an Err value'')
      | Some q \<Rightarrow> client_read_task xs (c\<lparr>cc_websocket_messages := Some (q @ [f])\<rparr>))"
| "client_read_task xs c = Inr c"

definition take_reader :: "'f chat_client \<Rightarrow> 'f list option \<times> 'f chat_client" where
  "take_reader c = (cc_websocket_messages c, c\<lparr>cc_websocket_messages := None\<rparr>)"

section \<open>The node\<close>

datatype chat_persistence = ChatRedis "string option" | ChatInMemory

record chat_config =
  cfg_node_id :: node_id
  cfg_remote_listen_addr :: string
  cfg_remote_seed_addr :: "string option"
  cfg_websocket_listen_addr :: string
  cfg_cluster_api_listen_addr :: string
  cfg_persistence :: chat_persistence

text \<open>\<open>str::parse\<close> for \<open>u64\<close>: digits, at most one sign before them, no overflow.\<close>

definition digit_value :: "char \<Rightarrow> nat option" where
  "digit_value c = (let n = of_char c in if 48 \<le> n \<and> n < 58 then Some (n - 48) else None)"

fun digits_value :: "nat \<Rightarrow> string \<Rightarrow> nat option" where
  "digits_value acc [] = Some acc"
| "digits_value acc (c # cs) = Option.bind (digit_value c) (\<lambda>d. digits_value (10 * acc + d) cs)"

definition parse_u64 :: "string \<Rightarrow> u64 option" where
  "parse_u64 s =
     (let ds = (if s \<noteq> [] \<and> hd s = CHR ''+'' then tl s else s)
      in if ds = [] then None
         else Option.bind (digits_value 0 ds) (\<lambda>n. if n < 2 ^ 64 then Some (word_of_nat n) else None))"

definition last_piece :: "string \<Rightarrow> string" where
  "last_piece s = rev (takeWhile (\<lambda>c. c \<noteq> CHR ''-'') (rev s))"

definition default_tag :: "chat_config \<Rightarrow> string" where
  "default_tag cfg = ''chat-server-'' @ show_nat (unat (cfg_node_id cfg))"

text \<open>\<open>socket_port\<close> parses a socket address and gives its port, \<open>discovered\<close> is what the discovery in the cluster returns.\<close>

definition get_node_info ::
  "(string \<Rightarrow> string option) \<Rightarrow> (string list option) may_panic \<Rightarrow> (string \<Rightarrow> nat option) \<Rightarrow> chat_config \<Rightarrow>
   (string option \<times> node_id \<times> string \<times> string option) may_panic" where
  "get_node_info env discovered socket_port cfg =
     (if env ''KUBERNETES_SERVICE_HOST'' = None
      then Inr (cfg_remote_seed_addr cfg, cfg_node_id cfg, default_tag cfg, None)
      else
        (case (env ''POD_NAME'', env ''CLUSTER_IP'') of
           (None, _) \<Rightarrow> Inl (Panic ''POD_NAME environment variable not set, TODO: fallback to hostname?'')
         | (_, None) \<Rightarrow> Inl (Panic ''CLUSTER_IP environment variable not set, TODO: fallback to hostname?'')
         | (Some pod_name, Some cluster_ip) \<Rightarrow>
             (case discovered of
                Inl p \<Rightarrow> Inl p
              | Inr targets \<Rightarrow>
                  (let seed = (case targets of Some (a # _) \<Rightarrow> Some a | _ \<Rightarrow> cfg_remote_seed_addr cfg)
                   in case parse_u64 (last_piece pod_name) of
                        Some n \<Rightarrow>
                          (case socket_port (cfg_remote_listen_addr cfg) of
                             None \<Rightarrow> Inl (Panic ''called unwrap on an Err value'')
                           | Some port \<Rightarrow> Inr (seed, n, pod_name, Some (cluster_ip @ '':'' @ show_nat port)))
                      | None \<Rightarrow> Inr (seed, cfg_node_id cfg, default_tag cfg, None)))))"

datatype chat_provider = ProviderRedis redis_config | ProviderInMemory

definition chat_provider_of :: "chat_persistence \<Rightarrow> chat_provider" where
  "chat_provider_of p =
     (case p of
        ChatRedis (Some host) \<Rightarrow>
          ProviderRedis \<lparr>rds_nodes = [host], rds_key_prefix = ''sharded-chat:'', rds_cluster = False, rds_use_key_hashtags = False\<rparr>
      | _ \<Rightarrow> ProviderInMemory)"

definition chat_handlers :: "(type_name \<Rightarrow> type_name \<Rightarrow> 'h) \<Rightarrow> 'h config_builder \<Rightarrow> 'h config_builder" where
  "chat_handlers H b =
     with_handler ''ChatStream'' ''ChatMessage'' (H ''ChatStream'' ''ChatMessage'') ''ChatStream.ChatMessage''
       (with_handler ''ChatStream'' ''Join'' (H ''ChatStream'' ''Join'') ''ChatStream.Join''
          (with_actor ''ChatStream'' b))"

definition chat_system_builder ::
  "('h config_builder \<Rightarrow> 'h config_builder) list \<Rightarrow> (type_name \<Rightarrow> type_name \<Rightarrow> 'h) \<Rightarrow> string \<Rightarrow> node_id \<Rightarrow> string \<Rightarrow> chat_config \<Rightarrow>
   'h system_builder" where
  "chat_system_builder sharding H version n tag cfg =
     with_attribute ''hello'' ''world''
       (with_attribute ''environment'' ''dev''
          (with_attribute ''cluster'' ''sharded-chat-dev''
             (with_attribute ''http_api_addr'' (''http://'' @ cfg_cluster_api_listen_addr cfg)
                (configure (chat_handlers H)
                   (with_actor_system tag
                      (with_version version (with_tag tag (with_id n (system_builder_new sharding)))))))))"

text \<open>\<open>str::replace\<close>, for a pattern that is not empty.\<close>

function replace_all :: "string \<Rightarrow> string \<Rightarrow> string \<Rightarrow> string" where
  "replace_all pat by_str s =
     (if pat = [] then s
      else if take (length pat) s = pat then by_str @ replace_all pat by_str (drop (length pat) s)
      else (case s of [] \<Rightarrow> [] | c # cs \<Rightarrow> c # replace_all pat by_str cs))"
  by pat_completeness auto
termination
  by (relation "measure (\<lambda>(_, _, s). length s)") (auto simp: take_eq_Nil intro!: diff_less)

declare replace_all.simps [simp del]

definition chat_worker :: "chat_config \<Rightarrow> string option \<Rightarrow> string option \<Rightarrow> worker_builder" where
  "chat_worker cfg ext seed =
     (let w = listen_addr (cfg_remote_listen_addr cfg) worker_builder_new;
          w1 = (case ext of
                  Some a \<Rightarrow> external_addr a w
                | None \<Rightarrow> external_addr (replace_all ''0.0.0.0'' ''127.0.0.1'' (cfg_remote_listen_addr cfg)) w)
      in case seed of Some a \<Rightarrow> with_seed_addr a w1 | None \<Rightarrow> w1)"

text \<open>\<open>create_actor_system\<close>: the provider of the journal, the system and the worker that is started.\<close>

definition create_actor_system ::
  "(string \<Rightarrow> string option) \<Rightarrow> (string list option) may_panic \<Rightarrow> (string \<Rightarrow> nat option) \<Rightarrow>
   ('h config_builder \<Rightarrow> 'h config_builder) list \<Rightarrow> (type_name \<Rightarrow> type_name \<Rightarrow> 'h) \<Rightarrow> string \<Rightarrow> node_id \<Rightarrow> string \<Rightarrow> chat_config \<Rightarrow>
   (chat_provider \<times> 'h remote_system \<times> worker_builder) may_panic" where
  "create_actor_system env discovered socket_port sharding H version random_id random_tag cfg =
     map_sum id
       (\<lambda>(seed, n, tag, ext).
          (chat_provider_of (cfg_persistence cfg),
           system_build tag random_id random_tag (chat_system_builder sharding H version n tag cfg),
           chat_worker cfg ext seed))
       (get_node_info env discovered socket_port cfg)"

definition chat_sharding :: "'al itself \<Rightarrow> (string \<times> 'al option) may_panic" where
  "chat_sharding _ = fst (sharding_build ''ChatStream'' (with_entity_type ''ChatStream'' (sharding_builder_new :: 'al sharding_builder)))"

datatype chat_stop = StopHttpApi | StopRemoteServer | ShutdownSystem | AbortListening

definition sharded_chat_stop :: "bool \<Rightarrow> chat_stop list \<times> bool" where
  "sharded_chat_stop listening =
     ([StopHttpApi, StopRemoteServer, ShutdownSystem] @ (if listening then [AbortListening] else []), False)"

section \<open>What is said is kept\<close>

lemma recovered_history:
  "fold (\<lambda>m s. (recover_chat_message (fst s) m, snd s)) ms (s, ctx) = (s\<lparr>cs_messages := cs_messages s @ ms\<rparr>, ctx)"
  by (induction ms arbitrary: s) (simp_all add: recover_chat_message_def)

text \<open>A chat stream that is started again has the messages that were persisted, in their order.\<close>

lemma chat_history_durable:
  assumes "wire_message M" "\<forall>m\<in>set ms. as_bytes M m = Inr (enc m)"
    and "hm_get store (''ChatStream-'' @ ccs_name r) = None" "int (length ms) \<le> i64_max"
  shows "\<exists>j store' j'.
     persist_all (chat_stream_actor M) inmemory_storage M ''ChatMessage'' ms a ctx
       (Some (journal_new (''ChatStream-'' @ ccs_name r) (configured_types (chat_stream_actor M)))) store = Some (ctx, Some j, store') \<and>
     started (chat_stream_actor M) inmemory_storage (\<lambda>_. store') (chat_stream_create r, ctx') =
       Some (Inr (((chat_stream_create r)\<lparr>cs_messages := ms\<rparr>, ctx'), j'))"
  using event_sourcing_aux [OF assms(1,2), of "chat_stream_actor M" "''ChatMessage''" "''ChatMessage''"
      "\<lambda>s m. (recover_chat_message (fst s) m, snd s)" "''ChatStream''" "(chat_stream_create r, ctx')"
      "''ChatStream-'' @ ccs_name r" store a ctx] assms(3,4)
  by (simp add: chat_stream_actor_def recovered_history chat_stream_create_def)

section \<open>What a peer sees\<close>


abbreviation history :: "('s, 'o) stream_state \<Rightarrow> chat_message list" where
  "history s \<equiv> cs_messages (ss_actor s)"

definition chat_subs :: "'s stream_env \<Rightarrow> string \<Rightarrow> ('s, 'o) stream_state \<Rightarrow> 'o chat_data subscriber list" where
  "chat_subs E key s =
     (case ss_mediator s of None \<Rightarrow> [] | Some md \<Rightarrow> key_subs (chat_stream_topic (se_receive E)) key md)"

definition set_chat_sub ::
  "'s stream_env \<Rightarrow> chat_subscription \<Rightarrow> 'o chat_data subscriber \<Rightarrow> ('s, 'o) stream_state \<Rightarrow> ('s, 'o) stream_state" where
  "set_chat_sub E sub x s =
     s\<lparr>ss_mediator := map_option
         (set_key_subs (chat_stream_topic (se_receive E)) (fst sub) ((chat_subs E (fst sub) s)[snd sub := x])) (ss_mediator s)\<rparr>"


definition chat_unsubscribe ::
  "'s stream_env \<Rightarrow> chat_subscription \<Rightarrow> ('s, 'o) stream_state \<Rightarrow> ('s, 'o) stream_state" where
  "chat_unsubscribe E sub s = set_chat_sub E sub (unsubscribe (chat_subs E (fst sub) s ! snd sub)) s"

datatype chat_step = Says chat_message | Turn

fun chat_run ::
  "'s stream_env \<Rightarrow> (actor_ref \<Rightarrow> bool) \<Rightarrow> chat_subscription \<Rightarrow> chat_step list \<Rightarrow> ('s, 'o) stream_state \<Rightarrow>
   (('s, 'o) stream_state \<times> 'o chat_data sub_effect list) option" where
  "chat_run E is_open sub [] s = Some (s, [])"
| "chat_run E is_open sub (Says m # xs) s =
     (case handle_chat_message E m s of Some (Inr (s', _)) \<Rightarrow> chat_run E is_open sub xs s' | _ \<Rightarrow> None)"
| "chat_run E is_open sub (Turn # xs) s =
     (let (x, effs) = subscription_turn is_open (chat_subs E (fst sub) s ! snd sub)
      in map_option (\<lambda>(s', effs'). (s', effs @ effs')) (chat_run E is_open sub xs (set_chat_sub E sub x s)))"

text \<open>A message is both kept and published, or neither.\<close>

lemma handle_chat_message_effect:
  fixes s :: "('s, 'o) stream_state"
  assumes "handle_chat_message E m s = Some (Inr (s', evs))"
  obtains "history s' = history s @ [m]"
      "chat_subs E (cs_topic (ss_actor s)) s' = map (channel_send (ChatReceive m)) (chat_subs E (cs_topic (ss_actor s)) s)"
      "cs_topic (ss_actor s') = cs_topic (ss_actor s)"
    | "history s' = history s" "chat_subs E k s' = chat_subs E k s" "cs_topic (ss_actor s') = cs_topic (ss_actor s)"
proof -
  obtain res ctx j st where p: "persist (chat_stream_actor (se_json E)) (se_storage E) (se_json E) ''ChatMessage'' m
      (ss_actor s) (ss_ctx s) (ss_journal s) (ss_store s) = Some (Inr (res, ctx, j, st))"
    using assms by (auto simp: handle_chat_message_def split: option.splits sum.splits)
  show ?thesis
  proof (cases res)
    case (Inl e)
    with assms p have "s' = s\<lparr>ss_ctx := ctx, ss_journal := j, ss_store := st\<rparr>" by (simp add: handle_chat_message_def)
    then show ?thesis by (intro that(2)) (simp_all add: chat_subs_def)
  next
    case (Inr u)
    let ?t = "chat_stream_topic (se_receive E) :: 'o chat_data topic"
    from assms p Inr obtain md where
      pub: "pubsub_publish (se_mediator_alive E) ?t (cs_topic (ss_actor s)) (ChatReceive m) (ss_mediator s) = Inr (md, evs)"
      and s': "s' = s\<lparr>ss_actor := (ss_actor s)\<lparr>cs_messages := history s @ [m]\<rparr>, ss_ctx := ctx, ss_journal := j, ss_store := st,
        ss_mediator := Some md\<rparr>"
      by (auto simp: handle_chat_message_def Let_def map_sum_def split: if_splits sum.splits)
    from pub obtain md0 where md0: "ss_mediator s = Some md0" by (auto simp: pubsub_publish_def ask_mediator_def split: option.splits)
    from publish_emits(1) [OF pub [unfolded md0]] have "emit_topic ?t (cs_topic (ss_actor s)) (ChatReceive m) md0 = Inr md" .
    from emit_key_subs [OF this] show ?thesis by (intro that(1)) (simp_all add: s' chat_subs_def md0)
  qed
qed


lemma set_chat_sub_simps:
  fixes s :: "('s, 'o) stream_state"
  assumes "i < length (chat_subs E key s)"
  shows "chat_subs E key (set_chat_sub E (key, i) x s) = (chat_subs E key s)[i := x]"
    "ss_actor (set_chat_sub E (key, i) x s) = ss_actor s"
proof -
  let ?t = "chat_stream_topic (se_receive E) :: 'o chat_data topic"
  obtain md where md: "ss_mediator s = Some md" using assms by (auto simp: chat_subs_def split: option.splits)
  with assms have "hm_get (md_topics md) (topic_name ?t) \<noteq> None"
    by (auto simp: chat_subs_def key_subs_def split: option.splits)
  with md show "chat_subs E key (set_chat_sub E (key, i) x s) = (chat_subs E key s)[i := x]"
    by (simp add: set_chat_sub_def chat_subs_def set_key_subs_get(1))
  show "ss_actor (set_chat_sub E (key, i) x s) = ss_actor s" by (simp add: set_chat_sub_def)
qed

lemma map_filter_Some_Cons: "List.map_filter (\<lambda>x. x) (Some a # ys) = a # List.map_filter (\<lambda>x. x) ys"
  "List.map_filter (\<lambda>x. x) (None # ys) = List.map_filter (\<lambda>x. x) ys" "List.map_filter (\<lambda>x. x) [] = []"
  by (simp_all add: map_filter_simps)

text \<open>What happens to one subscription of the stream's topic while the stream goes on.\<close>

lemma chat_run_subscription:
  "chat_run E is_open (key, i) xs s = Some (s', effs) \<Longrightarrow> i < length (chat_subs E key s) \<Longrightarrow> cs_topic (ss_actor s) = key \<Longrightarrow>
   \<exists>ys said. sub_run is_open ys (chat_subs E key s ! i) = (chat_subs E key s' ! i, effs) \<and>
     List.map_filter (\<lambda>y. y) ys = map ChatReceive said \<and> history s' = history s @ said"
proof (induction xs arbitrary: s effs)
  case Nil
  then show ?case by (intro exI [of _ "[]"]) (simp add: map_filter_Some_Cons)
next
  case (Cons x xs)
  show ?case
  proof (cases x)
    case (Says m)
    with Cons.prems(1) obtain s1 evs where h: "handle_chat_message E m s = Some (Inr (s1, evs))"
      "chat_run E is_open (key, i) xs s1 = Some (s', effs)" by (auto split: option.splits sum.splits)
    show ?thesis
    proof (rule handle_chat_message_effect [OF h(1), where k = key])
      assume s1: "history s1 = history s @ [m]" "cs_topic (ss_actor s1) = cs_topic (ss_actor s)"
        "chat_subs E (cs_topic (ss_actor s)) s1 = map (channel_send (ChatReceive m)) (chat_subs E (cs_topic (ss_actor s)) s)"
      with Cons.IH [OF h(2)] Cons.prems(2,3) obtain ys said where
        "sub_run is_open ys (channel_send (ChatReceive m) (chat_subs E key s ! i)) = (chat_subs E key s' ! i, effs)"
        "List.map_filter (\<lambda>y. y) ys = map ChatReceive said" "history s' = history s @ m # said" by auto
      then show ?thesis by (intro exI [of _ "Some (ChatReceive m) # ys"] exI [of _ "m # said"]) (simp add: map_filter_Some_Cons)
    qed (use Cons.IH [OF h(2)] Cons.prems(2,3) in auto)
  next
    case Turn
    obtain y e where t: "subscription_turn is_open (chat_subs E key s ! i) = (y, e)"
      by (cases "subscription_turn is_open (chat_subs E key s ! i)")
    with Cons.prems(1) Turn obtain effs' where r: "chat_run E is_open (key, i) xs (set_chat_sub E (key, i) y s) = Some (s', effs')"
      "effs = e @ effs'" by auto
    note set = set_chat_sub_simps [OF Cons.prems(2)]
    from Cons.IH [OF r(1)] Cons.prems(2,3) obtain ys said where
      "sub_run is_open ys y = (chat_subs E key s' ! i, effs')" "List.map_filter (\<lambda>y. y) ys = map ChatReceive said"
      "history s' = history s @ said" by (auto simp: set)
    with t r(2) show ?thesis by (intro exI [of _ "None # ys"] exI [of _ said]) (simp add: map_filter_Some_Cons)
  qed
qed



section \<open>A stream over the in-memory provider goes on\<close>












section \<open>Leaving, signing, malformed frames\<close>

lemma ended_subscription_quiet: "sub_ended s \<Longrightarrow> snd (sub_run is_open xs s) = []"
  by (induction is_open xs s rule: sub_run.induct) (auto simp: channel_send_def subscription_turn_def split: prod.splits)

text \<open>A peer that has left a chat is told of nothing that is said there, not even of what was waiting for it.\<close>

lemma left_peer_hears_nothing:
  assumes "op_unsubscribe ops = chat_unsubscribe E" "hm_get (peer_chat_streams p) key = Some (sd, key, i)"
    and "i < length (chat_subs E key s)" "cs_topic (ss_actor s) = key"
    and "peer_leave_chat ops key p s = Inr (p', out, s1)" "chat_run E is_open (key, i) xs s1 = Some (s2, effs)"
  shows "effs = [] \<and> hm_get (peer_chat_streams p') key = None"
proof -
  let ?x = "unsubscribe (chat_subs E key s ! i)"
  from assms(1,2,5) have s1: "s1 = set_chat_sub E (key, i) ?x s" and p': "p' = p\<lparr>peer_chat_streams := hm_remove key (peer_chat_streams p)\<rparr>"
    by (simp_all add: peer_leave_chat_def chat_unsubscribe_def)
  note upd = set_chat_sub_simps [OF assms(3), of ?x, folded s1]
  from chat_run_subscription [OF assms(6)] assms(3,4) obtain ys where
    "sub_run is_open ys (chat_subs E key s1 ! i) = (chat_subs E key s2 ! i, effs)" by (auto simp: upd)
  moreover have "sub_ended (chat_subs E key s1 ! i)" using assms(3) by (simp add: upd unsubscribe_def)
  ultimately have "effs = []" using ended_subscription_quiet [of "chat_subs E key s1 ! i" is_open ys] by simp
  then show ?thesis by (simp add: p')
qed

text \<open>Whatever sender a client claims, the stream gets the peer's name.\<close>

lemma peer_signs_messages: "peer_send_chat ops (m\<lparr>cm_sender := claimed\<rparr>) p w = peer_send_chat ops m p w"
  by (simp add: peer_send_chat_def split: option.split)

text \<open>
  A malformed frame ends the task that reads the connection. Neither the frames behind it nor the end of the stream
  reach the peer, which is not stopped and stays subscribed.
\<close>

lemma attach_stream_panics:
  assumes "\<And>x. x \<in> set good \<Longrightarrow> conv x = Inr (f x)" "conv bad = Inl e"
  shows "attach_stream stop stop_msg conv (map Inr good @ Inr bad # rest) (Some q) = Some (q @ List.map_filter f good)"
  using assms(1)
proof (induction good arbitrary: q)
  case (Cons x good)
  then have x: "conv x = Inr (f x)" "\<And>y. y \<in> set good \<Longrightarrow> conv y = Inr (f y)" by simp_all
  show ?case
    by (cases "f x") (simp_all add: x(1) Cons.IH [OF x(2)] local_notify_def map_filter_simps)
qed (simp add: assms(2) map_filter_simps)

lemma malformed_frame_deafens_peer:
  assumes "\<And>x. x \<in> set good \<Longrightarrow> peer_convert R x = Inr (f x)" "peer_convert R bad = Inl e"
    and "peer_reader p = Some (map Inr good @ Inr bad # rest)"
  shows "peer_started R stop_msg wrap p (Some q) =
    Inr (p\<lparr>peer_reader := None\<rparr>, Some (q @ List.map_filter (\<lambda>x. map_option wrap (f x)) good))"
  using assms by (simp add: peer_started_def attach_stream_panics [where f = "\<lambda>x. map_option wrap (f x)"])

section \<open>Nodes in Kubernetes\<close>

lemma digit_value_digit [simp]: "d < 10 \<Longrightarrow> digit_value (digit d) = Some d"
  by (simp add: digit_value_def digit_def)

lemma digits_value_append:
  "digits_value acc (xs @ ys) = Option.bind (digits_value acc xs) (\<lambda>a. digits_value a ys)"
  by (induction xs arbitrary: acc) (auto split: option.splits simp: bind_eq_None_conv)

lemma digits_value_show: "digits_value 0 (show_nat n) = Some n"
proof (induction n rule: show_nat.induct)
  case (1 n)
  show ?case
  proof (cases "n < 10")
    case False
    then have "show_nat n = show_nat (n div 10) @ [digit (n mod 10)]" by (subst show_nat.simps) simp
    with 1 [OF False] show ?thesis by (simp add: digits_value_append)
  qed (subst show_nat.simps, simp)
qed

lemma parse_u64_show: "n < 2 ^ 64 \<Longrightarrow> parse_u64 (show_nat n) = Some (word_of_nat n)"
proof -
  assume n: "n < 2 ^ 64"
  have "hd (show_nat n) \<noteq> CHR ''+''"
  proof
    assume "hd (show_nat n) = CHR ''+''"
    then obtain d where d: "d < 10" "CHR ''+'' = digit d" by (metis hd_in_set show_nat_digits show_nat_nonempty)
    from d(2) have "of_char (CHR ''+'') = (of_char (digit d) :: nat)" by simp
    with d(1) show False by (simp add: digit_def)
  qed
  with n show ?thesis by (simp add: parse_u64_def digits_value_show)
qed

lemma last_piece_dash: "last_piece (base @ ''-'' @ show_nat n) = show_nat n"
proof -
  have "takeWhile (\<lambda>c. c \<noteq> CHR ''-'') (rev (show_nat n) @ CHR ''-'' # rev base) = rev (show_nat n)"
    using show_nat_no_dash [of n] by (subst takeWhile_append2) auto
  then show ?thesis by (simp add: last_piece_def)
qed

text \<open>A pod of a stateful set is the node with the pod's ordinal, so that the nodes of the set have different ids.\<close>

lemma pod_is_its_node:
  assumes "env ''KUBERNETES_SERVICE_HOST'' = Some h" "env ''POD_NAME'' = Some (base @ ''-'' @ show_nat n)"
    and "env ''CLUSTER_IP'' = Some ip" "socket_port (cfg_remote_listen_addr cfg) = Some port" "n < 2 ^ 64"
  shows "get_node_info env (Inr (Some (a # peers))) socket_port cfg =
    Inr (Some a, word_of_nat n, base @ ''-'' @ show_nat n, Some (ip @ '':'' @ show_nat port))"
  using last_piece_dash [of base n] assms by (simp add: get_node_info_def parse_u64_show del: append_Cons)

text \<open>The node's configuration has a handler for each message of the stream, under the names the shards use.\<close>

lemma chat_handlers_registered:
  "message_handler ''ChatStream.Join'' (config_build rt t v auth attrs (chat_handlers H b)) =
     Some ((''ChatStream'', ''Join''), H ''ChatStream'' ''Join'')"
  "message_handler ''ChatStream.ChatMessage'' (config_build rt t v auth attrs (chat_handlers H b)) =
     Some ((''ChatStream'', ''ChatMessage''), H ''ChatStream'' ''ChatMessage'')"
  by (simp_all add: message_handler_def config_build_def chat_handlers_def with_handler_def with_actor_def)

end
