(* ===== verification/Spec2Isabelle.thy ===== *)
theory Spec2Isabelle
  imports Persistent_Actor Actor_Lifecycle Shard_Balance Shard_Host Singleton_Cluster Pub_Sub Discovery
    Remote_Calls Redis_Journal Coordinator_Actor
    Actor_Services Actor_Describe Wire_Codecs Kubernetes_Discovery Sharding_Path Admin_Api
    Sharding_Wire Sharded_Chat
begin

text \<open>
  A verification development for Coerce (\<open>coerce/src\<close>), an actor runtime in Rust with persistence,
  clustering, sharding, cluster singletons and publish/subscribe, for its Redis and Kubernetes
  providers (\<open>providers\<close>) and for the chat application of \<open>examples\<close>. Paths below are relative to \<open>src/coerce/src\<close> unless
  they start with \<open>providers\<close> or \<open>examples\<close>.

  \<^bold>\<open>The program.\<close> An actor has a mailbox, a context and children; a scheduler tracks actors by id. A
  persistent actor writes its events to a journal and replays them when it starts. A node that starts as
  a worker registers itself, listens, and discovers its peers from a seed; a session serves each
  incoming connection and a client keeps each outgoing one. Nodes ping each other, and the oldest healthy
  node is the leader. References to remote actors turn a send into a request in a table of requests in
  flight, an event on a connection and a reply. The leader runs the cluster singletons; the shard
  coordinator is one of them, is itself a persistent actor, and assigns shards to the hosts of the nodes,
  which start a shard actor for each shard, which starts the entities.

  \<^bold>\<open>How it is modelled.\<close> Structures are records, enums are datatypes with the source's constructors. A
  handler is a function from the message and the state to the result, the new state and the list of its
  effects (messages it sends, tasks it spawns, timers it sets); the whole body of the source's handler with its
  early returns is one definition. \<open>Result\<close> is a sum, and a \<open>panic!\<close>, \<open>unwrap\<close> or \<open>expect\<close> is an \<open>Inl (Panic _)\<close> of
  the outer sum \<open>may_panic\<close>. Machine integers are words where their width matters; the \<open>i64\<close> sequence numbers
  are integers with the wrap-around written out. Sums of fixed width wrap around, as in a release build; a build with
  overflow checks would panic instead. A hash map is the list of its entries in iteration order, about which
  nothing is assumed. Time is a number of whole milliseconds that is passed in. A task that a handler spawns
  (\<open>tokio::spawn\<close>) is an effect of the handler, in the list at the place where it is spawned; this says nothing of when the
  task runs, and theorems about what tasks do hold for every order of them. Clocks, random identifiers, sockets, the
  start of actors' tasks, user-supplied actors, handlers, allocators and journal codecs, and the crates the
  program calls (hash ring, Redis client, protobuf runtime, Kubernetes client) are parameters; what is relied on
  is a named hypothesis or the assumption of a locale, and each has an instance.

  \<^bold>\<open>Foundations.\<close>
  \<^item> \<open>Prelude\<close>: types, named collections of facts, list lemmas, decimal numbers.
  \<^item> \<open>Collections\<close>: \<open>HashMap\<close> and \<open>HashSet\<close>, with the locale \<open>dictionary\<close> interpreted on them.
  \<^item> \<open>Spawned_Tasks\<close>: the orders in which spawned tasks can run, as an inductive relation; they are exactly the
    permutations of the tasks.
  \<^item> \<open>Keyed_Machines\<close>: the locale of machines with one slot per key; its lemma, that such a machine is a
    family of independent machines, gives the refinement theorems of shards and hosts.
  \<^item> \<open>Conduits\<close>: the locale of machines that pass messages on; what they were given, what they have put out and what
    they still hold agree in number and order, and they panic only where the instance says. The proxy of
    a singleton and the client of a connection are its instances.
  \<^item> \<open>Lease_Protocol\<close>: the abstract protocol the singleton managers implement.

  \<^bold>\<open>Local actors.\<close>
  \<^item> \<open>Messaging\<close> (\<open>actor/message\<close>, the errors of \<open>actor/refs\<close>): the \<open>Message\<close> trait as a record of its conversions,
    envelopes, the locale \<open>wire_message\<close>.
  \<^item> \<open>Actor_Context\<close>, \<open>Actor_Lifecycle\<close> (\<open>actor/refs\<close>, \<open>context.rs\<close>, \<open>supervised.rs\<close>, \<open>lifecycle.rs\<close>, \<open>scheduler\<close>,
    \<open>system\<close>, \<open>worker.rs\<close>): mailboxes, children, the actor's loop, the scheduler, worker pools. An actor that is stopped
    has handled what was before the stop, stops its children and is deregistered; the scheduler refines a
    registry of the last start.
  \<^item> \<open>Actor_Services\<close> (\<open>actor/watch\<close>, \<open>blocking.rs\<close>, \<open>scheduler/timer.rs\<close>, \<open>system\<close>): watching, conversions of references,
    blocking calls, timers, attached streams. When an actor stops, one notice is
    sent per watching id.
  \<^item> \<open>Actor_Describe\<close> (\<open>actor/describe\<close>): descriptions of the hierarchy with their time-outs. All answering
    actors are described when each answers fast enough; one silent actor hides a branch. Fuel bounds the
    depth; the theorems hold for any fuel above the depth of the hierarchy.

  \<^bold>\<open>Persistence.\<close>
  \<^item> \<open>Journal_Storage\<close>, \<open>Journal\<close> (\<open>persistent/journal\<close>): the storage trait as a record of operations with the
    locale \<open>journal_store\<close>, interpreted on the in-memory provider; sequence numbers, persisting, snapshots,
    recovery, clearing. What is written is read back; numbers stay ordered; clearing keeps recovery.
  \<^item> \<open>Persistent_Actor\<close> (\<open>persistent/actor.rs\<close>, \<open>failure.rs\<close>, \<open>context.rs\<close>): policies, retries, start with recovery.
    Event sourcing: a restarted actor has the state it had; the retry loop is a \<open>partial_function\<close>, with
    proofs that it returns after the allowed attempts, or as soon as a write succeeds.
  \<^item> \<open>Redis_Journal\<close> (\<open>providers/persistence/coerce-redis\<close>): the provider over a model of the Redis commands it sends
    (sorted sets with lexicographic ties, strings); round trip, the repeated event it loses, and the event that
    clearing old messages loses, since Redis does not meet the contract of \<open>journal_store\<close>.

  \<^bold>\<open>Sharding.\<close>
  \<^item> \<open>Cluster_Nodes\<close> (\<open>remote/cluster/node.rs\<close>): the node store and the hash ring.
  \<^item> \<open>Shard_Coordinator\<close>, \<open>Shard_Balance\<close> (\<open>sharding/coordinator\<close>): allocation, rebalancing, node events. The map of
    shards and the sets of the hosts agree in every reachable state; a new shard goes to the least loaded
    host; a full rebalance is fair when all hosts are ready; a failed node's shards move to ready hosts.
  \<^item> \<open>Coordinator_Actor\<close>: the coordinator as a persistent actor with its wire format. A coordinator that takes over
    has the allocations of the one before.
  \<^item> \<open>Shard_Entities\<close> (\<open>sharding/shard\<close>): entities, requests, start, passivation, recovery, snapshots. Requests of an
    entity are handed to it exactly once, each by a task of its own; a shard refines one machine per entity.
  \<^item> \<open>Shard_Host\<close> (\<open>sharding/host\<close>, the client side of \<open>sharding/mod.rs\<close>): routing, allocation, start and stop of shards.
    Requests of a shard are sent to it exactly once, each by a task of its own; a host refines one slot per shard.
  \<^item> \<open>Sharding_Startup\<close> (\<open>sharding/mod.rs\<close>, \<open>sharding/builder.rs\<close>): starting sharding on a node through its scheduler.
    A started host is ready; the handlers are registered; a second entity takes the manager's id of the first.
  \<^item> \<open>Sharding_Path\<close>: the composition. What clients send to an entity reaches its actor, from \<open>Sharded::send\<close> over the
    host, the coordinator's allocation and the shard, exactly once, and the entity is created once.

  \<^bold>\<open>Cluster.\<close>
  \<^item> \<open>Remote_System\<close> (\<open>remote/actor\<close>, \<open>remote/system\<close>, \<open>remote/handler.rs\<close>): requests in flight, the leader cell, the registry
    of actors and of clients, decoding of remote messages.
  \<^item> \<open>Heartbeat\<close> (\<open>remote/heartbeat\<close>): node status, election, health. The oldest healthy node is elected,
    though the leader cell holds ids below 2^63 only.
  \<^item> \<open>Singleton\<close>, \<open>Singleton_Cluster\<close> (\<open>singleton\<close>): managers, leases, the proxy. The managers of a cluster over a network that
    delays, reorders and loses messages refine \<open>Lease_Protocol\<close>: at most one runs; two that start at once
    never run. The proxy sends each message once, by a task of its own.
  \<^item> \<open>Net_Messages\<close>, \<open>System_Config\<close> (\<open>remote/net/message.rs\<close>, \<open>remote/config\<close>, \<open>remote/system/builder.rs\<close>,
    \<open>remote/net/security\<close>): events between nodes, configuration, authentication.
  \<^item> \<open>Sessions\<close>, \<open>Remote_Calls\<close> (\<open>remote/actor_ref.rs\<close>, \<open>remote/net/server/session\<close>, \<open>remote/net/client/receive.rs\<close>): both ends of a
    call; this theory has the theorem that a remote call is transparent.
  \<^item> \<open>Remote_Client\<close> (\<open>remote/net/client\<close>): connecting, buffering, handshakes, pings. Frames keep their order; a
    handshake on a lost stream panics.
  \<^item> \<open>Pub_Sub\<close> (\<open>remote/stream\<close>): topics, the mediator. A cluster-wide message reaches every subscriber.
  \<^item> \<open>Discovery\<close>, \<open>Cluster_Formation\<close>, \<open>Kubernetes_Discovery\<close> (\<open>remote/cluster/discovery\<close>, \<open>remote/cluster/builder\<close>, \<open>remote/net/server\<close>,
    \<open>providers/discovery/coerce-k8s\<close>): a worker shakes hands once with the nodes within two hops of its seed;
    sessions get fresh ids; seeds from pods.
  \<^item> \<open>Admin_Api\<close> (\<open>remote/api\<close>): what the HTTP interface shows.

  \<^bold>\<open>The wire.\<close>
  \<^item> \<open>Protobuf_Runtime\<close>: the protobuf crate as a record of readers, writers and sizes; its contract as the locales
    \<open>proto_runtime\<close> and \<open>proto_runtime_total\<close>; the loop of generated readers.
  \<^item> \<open>Proto_Sharding\<close>, \<open>Proto_Network\<close> (\<open>*/proto/*.rs\<close>): each generated message as its record, the arms of its reader, its size
    and its writer.
  \<^item> \<open>Varint_Runtime\<close>: the documented wire format as an instance of both locales.
  \<^item> \<open>Wire_Codecs\<close>: every message that fits in four gigabytes is read back as written, and reading any bytes ends. The
    loop's fuel is the number of bytes, of which each round consumes at least one.
  \<^item> \<open>Network_Wire\<close>, \<open>Sharding_Wire\<close>: the events between nodes, the messages of sharding and of singletons with the generated
    code in place of the codec that \<open>Net_Messages\<close>, \<open>Shard_Host\<close>, \<open>Coordinator_Actor\<close> and \<open>Singleton\<close> have as argument. Events that
    fit are read back as they were written, whatever runtime with the contract is used.

  \<^bold>\<open>An application\<close> (\<open>examples/coerce-sharded-chat-example\<close>).
  \<^item> \<open>Proto_Chat\<close>, \<open>Chat_Messages\<close> (\<open>protocol\<close>, \<open>actor/peer/message.rs\<close>, \<open>coerce/macros/src/message/json.rs\<close>): the generated messages,
    frames of the websocket, messages in JSON. Frames are read back.
  \<^item> \<open>Sharded_Chat\<close> (\<open>actor\<close>, \<open>websocket\<close>, \<open>app.rs\<close>): chat streams as sharded persistent actors, peers of connections, the start of
    a node. On the node of the stream, a peer that joins a chat learns of the history and of what is said after it has subscribed, in order; what
    is said in between it never learns of. A frame that cannot be decoded leaves the peer deaf.

  \<^bold>\<open>Not modelled.\<close> Sockets and framing (tokio and its codec), the web server with its routes, OpenAPI documents and
  JSON, metrics and tracing, reflection data of generated messages, derive macros other than the one for
  JSON messages, build tools, the other examples and tests. Actor events (\<open>actor/event\<close>), the DNS seed (\<open>remote/cluster/discovery/dns.rs\<close>), the client builder
  (\<open>remote/cluster/builder/client.rs\<close>) and entity passivation (\<open>sharding/shard/passivation\<close>) have no behaviour: their
  bodies are empty or commented out. Interleaving is modelled where a theorem is about it (step relations of the
  coordinator, the managers' network, the server's sessions, the conduits, the tasks that carry requests to shards, entities
  and singletons); elsewhere a handler is atomic, as the
  runtime runs it.
\<close>

section \<open>Calls across nodes\<close>

text \<open>C5: A call of an actor on another node is transparent. Between two nodes configured by the same
  functions, for a message that can be encoded and whose handler is registered, \<open>ActorRef::send\<close> on the
  remote reference returns what the actor answers on its own node, and leaves no request behind in the
  caller's table; an actor that is not found within nine attempts is \<open>NotFound\<close>, and an actor that does
  not answer is \<open>ResultChannelClosed\<close>. The hypotheses are that identifiers are read back as they were
  written, that the two nodes have different ids, that the request's id is fresh, that messages and
  results are decoded as they were encoded, and that the handlers registered for the actor and message
  type are those of the message.\<close>

theorem remote_call_transparent:
  assumes "\<forall>v. uc_parse U (uc_show U v) = Some v"
    and "rsys_node_id sys \<noteq> rsys_node_id (peer_system P)"
    and "\<not> hm_contains (requests tb) u"
    and "wire_message M" "wire_results M" "as_bytes M m = Inr b"
    and "call_sequences (rb_configs c)" "rb_configs c' = rb_configs c"
    and "sys = system_build g rid rtag c" "peer_system P = system_build g' rid' rtag' c'"
    and "message_handler k (rsys_config sys) = Some ((A, Mt), M)"
    and "\<forall>k h. message_handler k (rsys_config sys) = Some ((A, Mt), h) \<longrightarrow> h = M"
  shows "remote_call U pw epoch now crv rcv sys P M A Mt aid m u tx tb = Inr (tb, Some (local_answer P aid m))"
proof -
  obtain k' h' where k': "handler_name A Mt (rsys_config sys) = Some k'"
    "message_handler k' (rsys_config (peer_system P)) = Some ((A, Mt), h')"
    using built_handler_name [OF assms(7,8), of k g rid rtag A Mt M g' rid' rtag'] assms(9-11) by metis
  moreover have "message_handler k' (rsys_config sys) = message_handler k' (rsys_config (peer_system P))"
    using assms(8-10) by (simp add: built_message_handler)
  ultimately have h': "message_handler k' (rsys_config (peer_system P)) = Some ((A, Mt), M)"
    using assms(12) by simp
  show ?thesis
    using remote_call_answered [OF assms(1-3,6) k'(1)] peer_handle_answer [OF assms(4-6) h'] by simp
qed

definition ex_message :: "(bytes, bytes) message_impl" where
  "ex_message = \<lparr>as_bytes = Inr, from_bytes = Inr, read_remote_result = Inr, write_remote_result = Inr\<rparr>"

definition ex_builder :: "node_id \<Rightarrow> (bytes, bytes) message_impl system_builder" where
  "ex_builder n =
     (configure (fold run_call [CallHandler ''Echo'' ''Say'' ex_message ''Echo.Say'']) (system_builder_new []))
       \<lparr>rb_node_id := Some n\<rparr>"

definition ex_echo_peer :: "(bytes, bytes) peer" where
  "ex_echo_peer =
     \<lparr>peer_system = system_build ''g'' 0 ''t'' (ex_builder 2),
      peer_session = (session_receiver_new 1 ''a'', remote_handler_new), peer_channel = 0,
      peer_look = (\<lambda>aid k. if k = 3 then Some \<lparr>ref_id = aid, ref_path = ''p'', ref_type = ''Echo'', ref_mailbox = 0\<rparr> else None),
      peer_send = (\<lambda>_ m. Inr (rev m))\<rparr>"

definition ex_uuids :: uuid_codec where
  "ex_uuids = \<lparr>uc_show = (\<lambda>n. replicate n CHR ''1''), uc_parse = (\<lambda>s. Some (length s))\<rparr>"

lemma ex_builder_handlers:
  "message_handler k (rsys_config (system_build ''g'' 0 ''t'' (ex_builder n))) =
     (if k = ''Echo.Say'' then Some ((''Echo'', ''Say''), ex_message) else None)"
  by (simp add: built_message_handler ex_builder_def configure_def system_builder_new_def with_handler_def
      config_builder_new_def)

lemma ex_builder_node: "rsys_node_id (system_build ''g'' 0 ''t'' (ex_builder n)) = n"
  by (simp add: system_build_def ex_builder_def Let_def)

theorem remote_call_transparent_witness:
  "remote_call ex_uuids (\<lambda>_. Inr []) 0 0 (client_receiver_new 9 ''a'') (session_receiver_new 2 ''b'')
     (system_build ''g'' 0 ''t'' (ex_builder 1)) ex_echo_peer ex_message ''Echo'' ''Say'' ''e1'' [1, 2] 5 7
     remote_handler_new = Inr (remote_handler_new, Some (Inr [2, 1]))"
proof -
  have calls: "call_sequences (rb_configs (ex_builder 1))"
    by (auto simp: call_sequences_def ex_builder_def configure_def system_builder_new_def
        intro!: exI [of _ "[CallHandler ''Echo'' ''Say'' ex_message ''Echo.Say'']"])
  have answer: "local_answer ex_echo_peer ''e1'' [1, 2] = Inr [2, 1]"
    by (simp add: local_answer_def ex_echo_peer_def upt_rec)
  show ?thesis
    unfolding answer [symmetric]
    by (rule remote_call_transparent [where c = "ex_builder 1" and c' = "ex_builder 2" and g = "''g''" and g' = "''g''"
          and rid = 0 and rid' = 0 and rtag = "''t''" and rtag' = "''t''" and k = "''Echo.Say''" and b = "[1, 2]"])
       (simp_all add: ex_uuids_def ex_echo_peer_def ex_builder_node ex_builder_handlers remote_handler_new_def
         wire_message_def wire_results_def ex_message_def calls, simp_all add: ex_builder_def)
qed

end
